(* ===== verification/Go_Prelude.thy ===== *)
theory Go_Prelude
  imports Main "HOL-Library.DAList" "HOL-Library.Sublist" "HOL-Library.Char_ord"
    "HOL-Library.List_Lexorder" "HOL-Library.Product_Lexorder"
begin

text \<open>
  The shared vocabulary of the development: Go maps as association lists with unique keys,
  Go instants and 64-bit integers, and the slice loops that the code repeats (replace the
  first match, replace the last match, insert before the first element that is no longer a
  header). Go iterates a map in an unspecified order. The model iterates in the order of
  the association list; no statement fixes that order, so each holds for every order.
\<close>

named_theorems go_map_eval \<open>evaluation of Go maps on concrete keys\<close>

section \<open>Go maps\<close>

type_synonym ('k, 'v) gomap = "('k, 'v) alist"

abbreviation mnil :: "('k, 'v) gomap" where "mnil \<equiv> DAList.empty"
abbreviation mget :: "('k, 'v) gomap \<Rightarrow> 'k \<Rightarrow> 'v option" where "mget m k \<equiv> DAList.lookup m k"
abbreviation mput :: "('k, 'v) gomap \<Rightarrow> 'k \<Rightarrow> 'v \<Rightarrow> ('k, 'v) gomap" where
  "mput m k v \<equiv> DAList.update k v m"
abbreviation mdel :: "('k, 'v) gomap \<Rightarrow> 'k \<Rightarrow> ('k, 'v) gomap" where "mdel m k \<equiv> DAList.delete k m"
abbreviation mitems :: "('k, 'v) gomap \<Rightarrow> ('k \<times> 'v) list" where "mitems m \<equiv> DAList.impl_of m"
abbreviation mvals :: "('k, 'v) gomap \<Rightarrow> 'v list" where "mvals m \<equiv> map snd (mitems m)"

text \<open>\<open>mmap f m\<close>: the loop that rewrites every value of a map in place.\<close>

lift_definition mmap :: "('k \<Rightarrow> 'v \<Rightarrow> 'w) \<Rightarrow> ('k, 'v) alist \<Rightarrow> ('k, 'w) alist"
  is "\<lambda>f xs. map (\<lambda>(k, v). (k, f k v)) xs"
  by (simp add: comp_def split_def)

lemma mitems_empty [simp]: "mitems mnil = []"
  by (rule DAList.empty.rep_eq)

lemma mitems_put: "mitems (mput m k v) = AList.update k v (mitems m)"
  by (rule DAList.update.rep_eq)

lemma mitems_del: "mitems (mdel m k) = AList.delete k (mitems m)"
  by (rule DAList.delete.rep_eq)

lemma mitems_mmap: "mitems (mmap f m) = map (\<lambda>(k, v). (k, f k v)) (mitems m)"
  by (rule mmap.rep_eq)

lemma mitems_filter: "mitems (DAList.filter P m) = filter P (mitems m)"
  by (rule DAList.filter.rep_eq)

lemmas [go_map_eval] = mitems_put mitems_del mitems_mmap mitems_filter lookup_update

lemma mitems_iff: "(k, v) \<in> set (mitems m) \<longleftrightarrow> mget m k = Some v"
  by (simp add: DAList.lookup.rep_eq)

lemma mvals_iff: "v \<in> set (mvals m) \<longleftrightarrow> (\<exists>k. mget m k = Some v)"
  by (force simp: mitems_iff[symmetric])

lemma mvals_all: "(\<forall>x \<in> set (mvals m). Q x) \<longleftrightarrow> (\<forall>k x. mget m k = Some x \<longrightarrow> Q x)"
  unfolding Ball_def mvals_iff by blast

lemma mvals_ex: "(\<exists>x \<in> set (mvals m). Q x) \<longleftrightarrow> (\<exists>k x. mget m k = Some x \<and> Q x)"
  unfolding Bex_def mvals_iff by blast

lemma mvals_none: "\<not> (\<exists>x. x \<in> set (mvals m) \<and> Q x) \<longleftrightarrow> (\<forall>k x. mget m k = Some x \<longrightarrow> \<not> Q x)"
  unfolding mvals_iff by blast

lemma mvalsI: "mget m k = Some v \<Longrightarrow> v \<in> set (mvals m)"
  by (rule mvals_iff[THEN iffD2]) blast

lemma mput_mput: "mput (mput m k a) k b = mput m k b"
proof -
  have "AList.update k b (AList.update k a xs) = AList.update k b xs" for xs :: "('a \<times> 'b) list"
    by (induction xs) auto
  then show ?thesis by (simp add: DAList.impl_of_inject[symmetric] mitems_put)
qed

lemma mget_mmap [simp]: "mget (mmap f m) k = map_option (f k) (mget m k)"
proof -
  have "map_of (map (\<lambda>(k, v). (k, f k v)) xs) k = map_option (f k) (map_of xs k)" for xs
    by (induction xs) auto
  then show ?thesis by (simp add: DAList.lookup.rep_eq mitems_mmap)
qed

text \<open>Deleting while ranging, and storing one value under many keys.\<close>

lemma filtered_entry: "mget (DAList.filter P m) k = Some x \<longleftrightarrow> P (k, x) \<and> mget m k = Some x"
  by (auto simp: mitems_iff[symmetric] mitems_filter)

lemma mget_filter:
  "mget (DAList.filter P m) k = (case mget m k of Some x \<Rightarrow> if P (k, x) then mget m k else None | _ \<Rightarrow> None)"
proof (cases "mget (DAList.filter P m) k")
  case None
  then have "\<not> (P (k, x) \<and> mget m k = Some x)" for x unfolding filtered_entry[symmetric] by simp
  with None show ?thesis by (simp split: option.split)
next
  case (Some x)
  then have "P (k, x) \<and> mget m k = Some x" unfolding filtered_entry .
  with Some show ?thesis by simp
qed

lemma mget_fold_put: "mget (fold (\<lambda>k m. mput m k v) ks m) k = (if k \<in> set ks then Some v else mget m k)"
  by (induction ks arbitrary: m) (auto simp: lookup_update)

text \<open>Reading a missing key of a Go map gives the zero value.\<close>

definition mget0 :: "'v \<Rightarrow> (string, 'v) gomap \<Rightarrow> string \<Rightarrow> 'v" where
  "mget0 z m k = (case mget m k of None \<Rightarrow> z | Some v \<Rightarrow> v)"

text \<open>The contract the code relies on in every Go map it keeps.\<close>

locale go_map =
  fixes get :: "'m \<Rightarrow> 'k \<Rightarrow> 'v option"
    and put :: "'m \<Rightarrow> 'k \<Rightarrow> 'v \<Rightarrow> 'm"
    and del :: "'m \<Rightarrow> 'k \<Rightarrow> 'm"
    and items :: "'m \<Rightarrow> ('k \<times> 'v) list"
  assumes get_put: "get (put m k v) k' = (if k' = k then Some v else get m k')"
    and get_del: "get (del m k) k' = (if k' = k then None else get m k')"
    and items_get: "(k, v) \<in> set (items m) \<longleftrightarrow> get m k = Some v"
begin

lemma all_put:
  assumes "\<And>k v. get m k = Some v \<Longrightarrow> P k v" and "P k0 v0" and "get (put m k0 v0) k = Some v"
  shows "P k v"
  using assms by (simp add: get_put split: if_splits)

lemma all_del:
  assumes "\<And>k v. get m k = Some v \<Longrightarrow> P k v" and "get (del m k0) k = Some v"
  shows "P k v"
  using assms by (simp add: get_del split: if_splits)

lemma unique_put:
  assumes uniq: "\<And>k k' v v'. get m k = Some v \<Longrightarrow> get m k' = Some v' \<Longrightarrow> Q v \<Longrightarrow> Q v' \<Longrightarrow>
      c v = c v' \<Longrightarrow> k = k'"
    and free: "\<And>k v. get m k = Some v \<Longrightarrow> Q v \<Longrightarrow> c v = c v0 \<Longrightarrow> k = k0"
    and "get (put m k0 v0) k = Some v" "get (put m k0 v0) k' = Some v'"
    and "Q v" "Q v'" "c v = c v'"
  shows "k = k'"
  using assms(3-) by (auto simp: get_put split: if_splits dest: uniq free)

lemma find_value_none:
  assumes "find P (map snd (items m)) = None"
  shows "get m k = Some v \<Longrightarrow> \<not> P v"
  using assms by (force simp: find_None_iff items_get[symmetric])

lemma find_value_some:
  assumes "find P (map snd (items m)) = Some v"
  shows "P v \<and> (\<exists>k. get m k = Some v)"
proof -
  from assms obtain i where i: "i < length (map snd (items m))" "v = map snd (items m) ! i" "P v"
    by (auto simp: find_Some_iff)
  then have "v \<in> set (map snd (items m))" by (metis nth_mem)
  with i(3) show ?thesis by (auto simp: items_get)
qed

end

interpretation gm: go_map DAList.lookup "\<lambda>m k v. DAList.update k v m" "\<lambda>m k. DAList.delete k m"
  DAList.impl_of
  by unfold_locales (auto simp: lookup_update mitems_iff)

section \<open>References between maps\<close>

text \<open>Each entry is stored under its own key and points to something that is there.\<close>

definition pointing :: "('p \<Rightarrow> string) \<Rightarrow> ('p \<Rightarrow> string) \<Rightarrow> (string, 'p) gomap \<Rightarrow> (string, 't) gomap \<Rightarrow> bool" where
  "pointing key at P T \<longleftrightarrow> (\<forall>k p. mget P k = Some p \<longrightarrow> k = key p \<and> mget T (at p) \<noteq> None)"

lemma pointing_target: "pointing key at P T \<Longrightarrow> pointing key at P (mput T i t)"
  unfolding pointing_def by (simp add: gm.get_put)

lemma pointing_drop_target: "pointing key at P T \<Longrightarrow> pointing key at (DAList.filter (\<lambda>(_, p). at p \<noteq> i) P) (mdel T i)"
  unfolding pointing_def gm.get_del mget_filter by (auto split: option.splits if_splits)

lemma pointing_put: "pointing key at P T \<Longrightarrow> mget T (at p) \<noteq> None \<Longrightarrow> pointing key at (mput P (key p) p) T"
  unfolding pointing_def by (simp add: gm.get_put)

lemma pointing_del: "pointing key at P T \<Longrightarrow> pointing key at (mdel P k) T"
  unfolding pointing_def by (simp add: gm.get_del)

section \<open>Slices\<close>

text \<open>\<open>for i := range xs { if P(xs[i]) { xs[i] = f(xs[i]); return } }\<close>: None when nothing matches.\<close>

fun update_first :: "('a \<Rightarrow> bool) \<Rightarrow> ('a \<Rightarrow> 'a) \<Rightarrow> 'a list \<Rightarrow> 'a list option" where
  "update_first P f [] = None"
| "update_first P f (x # xs) =
     (if P x then Some (f x # xs) else map_option (Cons x) (update_first P f xs))"

text \<open>The same loop from the end of the slice.\<close>

definition update_last :: "('a \<Rightarrow> bool) \<Rightarrow> ('a \<Rightarrow> 'a) \<Rightarrow> 'a list \<Rightarrow> 'a list option" where
  "update_last P f xs = map_option rev (update_first P f (rev xs))"

lemma update_first_None: "update_first P f xs = None \<longleftrightarrow> (\<forall>x \<in> set xs. \<not> P x)"
  by (induction xs) auto

lemma update_first_Some:
  "update_first P f xs = Some ys \<longleftrightarrow>
   (\<exists>us x vs. xs = us @ x # vs \<and> ys = us @ f x # vs \<and> P x \<and> (\<forall>u \<in> set us. \<not> P u))"
proof
  show "update_first P f xs = Some ys \<Longrightarrow>
    \<exists>us x vs. xs = us @ x # vs \<and> ys = us @ f x # vs \<and> P x \<and> (\<forall>u \<in> set us. \<not> P u)"
  proof (induction xs arbitrary: ys)
    case (Cons a xs)
    show ?case
    proof (cases "P a")
      case True
      with Cons.prems show ?thesis
        by (intro exI[of _ "[]"] exI[of _ a] exI[of _ xs]) simp
    next
      case False
      with Cons.prems obtain zs where "update_first P f xs = Some zs" and ys: "ys = a # zs"
        by auto
      with Cons.IH obtain us x vs where "xs = us @ x # vs" "zs = us @ f x # vs" "P x"
        "\<forall>u \<in> set us. \<not> P u"
        by blast
      with False ys show ?thesis
        by (intro exI[of _ "a # us"] exI[of _ x] exI[of _ vs]) simp
    qed
  qed simp
next
  have "\<forall>u \<in> set us. \<not> P u \<Longrightarrow> P x \<Longrightarrow> update_first P f (us @ x # vs) = Some (us @ f x # vs)" for us x vs
    by (induction us) auto
  then show "\<exists>us x vs. xs = us @ x # vs \<and> ys = us @ f x # vs \<and> P x \<and> (\<forall>u \<in> set us. \<not> P u) \<Longrightarrow>
    update_first P f xs = Some ys"
    by blast
qed

lemma update_last_None: "update_last P f xs = None \<longleftrightarrow> (\<forall>x \<in> set xs. \<not> P x)"
  by (simp add: update_last_def update_first_None)

lemma update_last_Some:
  "update_last P f xs = Some ys \<longleftrightarrow>
   (\<exists>us x vs. xs = us @ x # vs \<and> ys = us @ f x # vs \<and> P x \<and> (\<forall>v \<in> set vs. \<not> P v))"
proof
  assume "update_last P f xs = Some ys"
  then obtain zs where "update_first P f (rev xs) = Some zs" "ys = rev zs"
    by (auto simp: update_last_def)
  then obtain us x vs where "rev xs = us @ x # vs" "zs = us @ f x # vs" "P x" "\<forall>u \<in> set us. \<not> P u"
    by (auto simp: update_first_Some)
  with \<open>ys = rev zs\<close> have "xs = rev vs @ x # rev us" "ys = rev vs @ f x # rev us"
    by (metis append.assoc append_Cons append_Nil rev.simps(2) rev_append rev_rev_ident, simp)
  with \<open>P x\<close> \<open>\<forall>u \<in> set us. \<not> P u\<close>
  show "\<exists>us x vs. xs = us @ x # vs \<and> ys = us @ f x # vs \<and> P x \<and> (\<forall>v \<in> set vs. \<not> P v)"
    by (metis set_rev)
next
  assume "\<exists>us x vs. xs = us @ x # vs \<and> ys = us @ f x # vs \<and> P x \<and> (\<forall>v \<in> set vs. \<not> P v)"
  then obtain us x vs where *: "xs = us @ x # vs" "ys = us @ f x # vs" "P x" "\<forall>v \<in> set vs. \<not> P v"
    by blast
  then have "update_first P f (rev xs) = Some (rev vs @ f x # rev us)"
    unfolding update_first_Some by (intro exI[of _ "rev vs"] exI[of _ x] exI[of _ "rev us"]) auto
  with * show "update_last P f xs = Some ys" by (simp add: update_last_def)
qed

lemma find_append: "find P (xs @ ys) = (case find P xs of None \<Rightarrow> find P ys | Some x \<Rightarrow> Some x)"
  by (induction xs) auto

lemma update_first_length: "update_first P f xs = Some ys \<Longrightarrow> length ys = length xs"
  by (auto simp: update_first_Some)

section \<open>Instants and machine integers\<close>

text \<open>
  A \<open>time.Time\<close> is its number of nanoseconds after Go's zero instant, so \<open>IsZero\<close> is
  \<open>t = 0\<close>. A \<open>time.Duration\<close> is an int64 number of nanoseconds.
\<close>

type_synonym gtime = int
type_synonym duration = int

definition max_int64 :: int where "max_int64 = 9223372036854775807"
definition min_int64 :: int where "min_int64 = - 9223372036854775808"

text \<open>Two's complement reduction to a 64-bit signed integer.\<close>

definition int64 :: "int \<Rightarrow> int" where
  "int64 x = (x + 9223372036854775808) mod 18446744073709551616 - 9223372036854775808"

lemma int64_id: "min_int64 \<le> x \<Longrightarrow> x \<le> max_int64 \<Longrightarrow> int64 x = x"
  by (simp add: int64_def min_int64_def max_int64_def)

lemma int64_range: "min_int64 \<le> int64 x \<and> int64 x \<le> max_int64"
proof -
  have "0 \<le> (x + 9223372036854775808) mod 18446744073709551616"
    "(x + 9223372036854775808) mod 18446744073709551616 < 18446744073709551616"
    by simp_all
  then show ?thesis unfolding int64_def min_int64_def max_int64_def by linarith
qed

text \<open>A counter that is moved on is never what it was, not even when it wraps.\<close>

lemma int64_bump: "int64 (x + 1) \<noteq> x"
proof
  assume eq: "int64 (x + 1) = x"
  then have "min_int64 \<le> x \<and> x \<le> max_int64" using int64_range[of "x + 1"] by simp
  then consider "x = max_int64" | "min_int64 \<le> x + 1 \<and> x + 1 \<le> max_int64" unfolding min_int64_def max_int64_def by linarith
  then show False
  proof cases
    case 1
    then show ?thesis using eq by (simp add: int64_def max_int64_def)
  next
    case 2
    then have "int64 (x + 1) = x + 1" by (rule conjE) (rule int64_id)
    with eq show ?thesis by simp
  qed
qed

text \<open>\<open>t.Sub(u)\<close> saturates at the ends of the Duration range.\<close>

definition time_sub :: "gtime \<Rightarrow> gtime \<Rightarrow> duration" where
  "time_sub t u = max min_int64 (min max_int64 (t - u))"

text \<open>\<open>d.Milliseconds()\<close> truncates towards zero.\<close>

definition milliseconds :: "duration \<Rightarrow> int" where
  "milliseconds d = sgn d * (\<bar>d\<bar> div 1000000)"

lemma milliseconds_nonneg: "0 \<le> d \<Longrightarrow> 0 \<le> milliseconds d"
  by (simp add: milliseconds_def sgn_if)

definition or_now :: "gtime \<Rightarrow> gtime \<Rightarrow> gtime" where
  \<comment> \<open>\<open>if now.IsZero() { now = time.Now().UTC() }\<close>\<close>
  "or_now t clock = (if t = 0 then clock else t)"

section \<open>Sorting\<close>

text \<open>A slice sorted by a key that determines an id which no two of its elements share.\<close>

lemma sort_key_strict:
  assumes "distinct (map i xs)" "\<And>a b. key a = key b \<Longrightarrow> i a = i b"
  shows "sorted_wrt (\<lambda>a b. key a < key b) (sort_key key xs)" "distinct (map i (sort_key key xs))"
proof -
  have inj: "inj_on i (set xs)" "distinct xs" using assms(1) by (auto simp: distinct_map)
  then have "inj_on key (set xs)" using assms(2) by (meson inj_on_def)
  with inj have "distinct (map key (sort_key key xs))" by (simp add: distinct_map)
  moreover have "sorted (map key (sort_key key xs))" by simp
  ultimately have "sorted_wrt (<) (map key (sort_key key xs))" using strict_sorted_iff by blast
  then show "sorted_wrt (\<lambda>a b. key a < key b) (sort_key key xs)" by (simp add: sorted_wrt_map)
  show "distinct (map i (sort_key key xs))" using inj by (simp add: distinct_map)
qed

end
