(* ===== verification/Go_Strings.thy ===== *)
theory Go_Strings
  imports Go_Prelude
begin

text \<open>
  The parts of Go's \<open>strings\<close>, \<open>strconv\<close> and \<open>unicode/utf8\<close> packages that the modelled code
  calls. A Go string is its sequence of bytes, so \<open>length\<close> is Go's \<open>len\<close>.
\<close>

definition byte :: "char \<Rightarrow> nat" where "byte c = of_char c"

section \<open>Substrings\<close>

fun has_prefix :: "string \<Rightarrow> string \<Rightarrow> bool" where
  "has_prefix s [] = True"
| "has_prefix [] (p # ps) = False"
| "has_prefix (c # cs) (p # ps) = (if c = p then has_prefix cs ps else False)"

fun str_contains :: "string \<Rightarrow> string \<Rightarrow> bool" where
  "str_contains [] p = (p = [])"
| "str_contains (c # cs) p = (if has_prefix (c # cs) p then True else str_contains cs p)"

lemma has_prefix_iff: "has_prefix s p \<longleftrightarrow> (\<exists>t. s = p @ t)"
  by (induction s p rule: has_prefix.induct) auto

lemma has_prefix_append [simp]: "has_prefix (p @ s) p"
  by (simp add: has_prefix_iff)

lemma has_prefix_take: "has_prefix s p \<longleftrightarrow> take (length p) s = p"
  by (metis append_eq_conv_conj has_prefix_iff)

section \<open>TrimSpace\<close>

text \<open>The UTF-8 encodings of the runes that \<open>unicode.IsSpace\<close> accepts.\<close>

definition space_runes :: "string list" where
  "space_runes = [[CHR 0x20], [CHR 0x09], [CHR 0x0A], [CHR 0x0B], [CHR 0x0C], [CHR 0x0D],
     [CHR 0xC2, CHR 0x85], [CHR 0xC2, CHR 0xA0], [CHR 0xE1, CHR 0x9A, CHR 0x80],
     [CHR 0xE2, CHR 0x80, CHR 0x80], [CHR 0xE2, CHR 0x80, CHR 0x81], [CHR 0xE2, CHR 0x80, CHR 0x82],
     [CHR 0xE2, CHR 0x80, CHR 0x83], [CHR 0xE2, CHR 0x80, CHR 0x84], [CHR 0xE2, CHR 0x80, CHR 0x85],
     [CHR 0xE2, CHR 0x80, CHR 0x86], [CHR 0xE2, CHR 0x80, CHR 0x87], [CHR 0xE2, CHR 0x80, CHR 0x88],
     [CHR 0xE2, CHR 0x80, CHR 0x89], [CHR 0xE2, CHR 0x80, CHR 0x8A], [CHR 0xE2, CHR 0x80, CHR 0xA8],
     [CHR 0xE2, CHR 0x80, CHR 0xA9], [CHR 0xE2, CHR 0x80, CHR 0xAF], [CHR 0xE2, CHR 0x81, CHR 0x9F],
     [CHR 0xE3, CHR 0x80, CHR 0x80]]"

definition space_len :: "string list \<Rightarrow> string \<Rightarrow> nat" where
  "space_len seqs s = (case find (has_prefix s) seqs of None \<Rightarrow> 0 | Some p \<Rightarrow> length p)"

lemma space_len_le: "space_len seqs s \<le> length s"
proof (cases "find (has_prefix s) seqs")
  case (Some p)
  then have "has_prefix s p" by (metis find_Some_iff)
  then show ?thesis using Some by (auto simp: space_len_def has_prefix_iff)
qed (simp add: space_len_def)

function trim_left :: "string list \<Rightarrow> string \<Rightarrow> string" where
  "trim_left seqs s =
     (if space_len seqs s = 0 then s else trim_left seqs (drop (space_len seqs s) s))"
  by pat_completeness auto
termination
proof (relation "measure (\<lambda>(seqs, s). length s)", goal_cases)
  case (2 seqs s)
  then show ?case using space_len_le[of seqs s] by simp
qed simp

declare trim_left.simps [simp del]

definition trim_right :: "string \<Rightarrow> string" where
  "trim_right s = rev (trim_left (map rev space_runes) (rev s))"

definition trim_space :: "string \<Rightarrow> string" where
  "trim_space s = trim_right (trim_left space_runes s)"

lemma trim_left_stop: "space_len seqs (trim_left seqs s) = 0"
proof (induction seqs s rule: trim_left.induct)
  case (1 seqs s)
  show ?case
  proof (cases "space_len seqs s = 0")
    case True
    then show ?thesis by (simp add: trim_left.simps[of seqs s])
  next
    case False
    with 1 show ?thesis by (simp add: trim_left.simps[of seqs s])
  qed
qed

lemma trim_left_idle: "space_len seqs s = 0 \<Longrightarrow> trim_left seqs s = s"
  by (simp add: trim_left.simps[of seqs s])

lemma trim_left_suffix: "suffix (trim_left seqs s) s"
proof (induction seqs s rule: trim_left.induct)
  case (1 seqs s)
  show ?case
  proof (cases "space_len seqs s = 0")
    case True
    then show ?thesis by (simp add: trim_left.simps[of seqs s])
  next
    case False
    with 1 have "suffix (trim_left seqs (drop (space_len seqs s) s)) (drop (space_len seqs s) s)"
      by simp
    then have "suffix (trim_left seqs (drop (space_len seqs s) s)) s"
      using suffix_drop suffix_order.trans by blast
    with False show ?thesis by (simp add: trim_left.simps[of seqs s])
  qed
qed

lemma space_runes_nonempty: "p \<in> set space_runes \<Longrightarrow> p \<noteq> []"
  by (auto simp: space_runes_def)

lemma space_len_0_iff:
  assumes "\<And>p. p \<in> set seqs \<Longrightarrow> p \<noteq> []"
  shows "space_len seqs s = 0 \<longleftrightarrow> (\<forall>p \<in> set seqs. \<not> has_prefix s p)"
proof (cases "find (has_prefix s) seqs")
  case None
  then have "space_len seqs s = 0" by (simp add: space_len_def)
  with None show ?thesis by (simp add: find_None_iff)
next
  case (Some p)
  then have "p \<in> set seqs" "has_prefix s p" by (auto simp: find_Some_iff)
  with Some assms show ?thesis by (auto simp: space_len_def)
qed

lemma trim_right_prefix: "prefix (trim_right s) s"
  unfolding trim_right_def by (metis rev_rev_ident suffix_to_prefix trim_left_suffix)

text \<open>A trimmed string neither starts nor ends with a white-space rune, and trimming it again changes nothing.\<close>

lemma trim_space_no_leading: "p \<in> set space_runes \<Longrightarrow> \<not> has_prefix (trim_space s) p"
proof
  assume p: "p \<in> set space_runes" and "has_prefix (trim_space s) p"
  then have "has_prefix (trim_left space_runes s) p"
    using trim_right_prefix[of "trim_left space_runes s"]
    by (auto simp: trim_space_def has_prefix_iff prefix_def)
  moreover have "space_len space_runes (trim_left space_runes s) = 0"
    by (rule trim_left_stop)
  ultimately show False
    using p space_runes_nonempty by (simp add: space_len_0_iff)
qed

lemma trim_space_idem: "trim_space (trim_space s) = trim_space s"
proof -
  let ?t = "trim_space s"
  have "space_len space_runes ?t = 0"
    by (subst space_len_0_iff) (auto dest: space_runes_nonempty trim_space_no_leading)
  then have left: "trim_left space_runes ?t = ?t" by (rule trim_left_idle)
  have "space_len (map rev space_runes) (rev ?t) = 0"
    unfolding trim_space_def trim_right_def by (simp add: trim_left_stop)
  then have "trim_right ?t = ?t"
    by (simp add: trim_right_def trim_left_idle)
  with left show ?thesis by (simp add: trim_space_def[of ?t])
qed

section \<open>UTF-8\<close>

definition rune_start :: "char \<Rightarrow> bool" where
  \<comment> \<open>\<open>utf8.RuneStart(b)\<close>: the byte is not a continuation byte.\<close>
  "rune_start c \<longleftrightarrow> \<not> (0x80 \<le> byte c \<and> byte c < 0xC0)"

definition cont_byte :: "nat \<Rightarrow> nat \<Rightarrow> char \<Rightarrow> bool" where
  "cont_byte lo hi c \<longleftrightarrow> lo \<le> byte c \<and> byte c \<le> hi"

text \<open>The number of bytes \<open>utf8.DecodeRune\<close> consumes; an invalid encoding consumes one byte.\<close>

fun rune_size :: "string \<Rightarrow> nat" where
  "rune_size [] = 0"
| "rune_size (c # cs) = (let b = byte c;
     ok1 = (\<lambda>lo hi. case cs of d # _ \<Rightarrow> cont_byte lo hi d | [] \<Rightarrow> False);
     ok2 = (\<lambda>lo hi. case cs of d # e # _ \<Rightarrow> cont_byte lo hi d \<and> cont_byte 0x80 0xBF e | _ \<Rightarrow> False);
     ok3 = (\<lambda>lo hi. case cs of d # e # f # _ \<Rightarrow> cont_byte lo hi d \<and> cont_byte 0x80 0xBF e
              \<and> cont_byte 0x80 0xBF f | _ \<Rightarrow> False)
   in if b < 0x80 then 1
      else if 0xC2 \<le> b \<and> b \<le> 0xDF then (if ok1 0x80 0xBF then 2 else 1)
      else if b = 0xE0 then (if ok2 0xA0 0xBF then 3 else 1)
      else if b = 0xED then (if ok2 0x80 0x9F then 3 else 1)
      else if 0xE1 \<le> b \<and> b \<le> 0xEF then (if ok2 0x80 0xBF then 3 else 1)
      else if b = 0xF0 then (if ok3 0x90 0xBF then 4 else 1)
      else if 0xF1 \<le> b \<and> b \<le> 0xF3 then (if ok3 0x80 0xBF then 4 else 1)
      else if b = 0xF4 then (if ok3 0x80 0x8F then 4 else 1)
      else 1)"

lemma rune_size_pos: "s \<noteq> [] \<Longrightarrow> 0 < rune_size s"
  by (cases s) (simp_all add: Let_def)

function rune_count :: "string \<Rightarrow> nat" where
  "rune_count s = (if s = [] then 0 else Suc (rune_count (drop (rune_size s) s)))"
  by pat_completeness auto
termination
  by (relation "measure length") (auto simp: rune_size_pos)

declare rune_count.simps [simp del]

lemma rune_count_le: "rune_count s \<le> length s"
proof (induction s rule: rune_count.induct)
  case (1 s)
  show ?case
  proof (cases "s = []")
    case True
    then show ?thesis by (simp add: rune_count.simps)
  next
    case False
    then have "rune_count (drop (rune_size s) s) \<le> length s - rune_size s" using 1 by simp
    moreover have "0 < rune_size s" using False by (rule rune_size_pos)
    moreover have "0 < length s" using False by simp
    ultimately have "Suc (rune_count (drop (rune_size s) s)) \<le> length s" by arith
    then show ?thesis using False by (simp add: rune_count.simps[of s])
  qed
qed

section \<open>Decimal integers\<close>

datatype num_error = NumSyntax | NumRange

definition is_digit :: "char \<Rightarrow> bool" where
  "is_digit c \<longleftrightarrow> 48 \<le> byte c \<and> byte c \<le> 57"

definition digit_val :: "char \<Rightarrow> nat" where "digit_val c = byte c - 48"

text \<open>\<open>strconv.ParseUint(s, 10, 64)\<close>: overflow is reported before the rest is looked at.\<close>

fun parse_uint :: "nat \<Rightarrow> string \<Rightarrow> num_error + nat" where
  "parse_uint n [] = Inr n"
| "parse_uint n (c # cs) =
     (if \<not> is_digit c then Inl NumSyntax
      else if n * 10 + digit_val c > 18446744073709551615 then Inl NumRange
      else parse_uint (n * 10 + digit_val c) cs)"

text \<open>
  \<open>strconv.ParseInt(s, 10, 64)\<close> and \<open>strconv.Atoi\<close>: the value and the error. A syntax error
  gives 0, a range error the nearest int64.
\<close>

definition atoi :: "string \<Rightarrow> int \<times> num_error option" where
  "atoi s =
     (let neg = (case s of c # _ \<Rightarrow> c = CHR ''-'' | [] \<Rightarrow> False);
          digits = (case s of c # cs \<Rightarrow> if c = CHR ''-'' \<or> c = CHR ''+'' then cs else s | [] \<Rightarrow> s)
      in if digits = [] then (0, Some NumSyntax)
         else case parse_uint 0 digits of
           Inl NumSyntax \<Rightarrow> (0, Some NumSyntax)
         | Inl NumRange \<Rightarrow> (if neg then (min_int64, Some NumRange) else (max_int64, Some NumRange))
         | Inr un \<Rightarrow>
             if \<not> neg \<and> int un > max_int64 then (max_int64, Some NumRange)
             else if neg \<and> - int un < min_int64 then (min_int64, Some NumRange)
             else (if neg then - int un else int un, None))"

fun digits_of :: "nat \<Rightarrow> string" where
  "digits_of n = (if n < 10 then [char_of (48 + n)] else digits_of (n div 10) @ [char_of (48 + n mod 10)])"

declare digits_of.simps [simp del]

definition itoa :: "int \<Rightarrow> string" where
  \<comment> \<open>\<open>strconv.Itoa\<close> and \<open>strconv.FormatInt(x, 10)\<close>\<close>
  "itoa x = (if x < 0 then CHR ''-'' # digits_of (nat (- x)) else digits_of (nat x))"

lemma digit_char: "d < 10 \<Longrightarrow> is_digit (char_of (48 + d)) \<and> digit_val (char_of (48 + d)) = d"
  by (simp add: is_digit_def digit_val_def byte_def of_char_of)

lemma digits_of_nonempty: "digits_of n \<noteq> []"
  by (subst digits_of.simps) simp

lemma parse_uint_snoc:
  "parse_uint n (xs @ [c]) = (case parse_uint n xs of Inl e \<Rightarrow> Inl e | Inr k \<Rightarrow> parse_uint k [c])"
  by (induction n xs rule: parse_uint.induct) auto

lemma parse_uint_digits: "n \<le> 18446744073709551615 \<Longrightarrow> parse_uint 0 (digits_of n) = Inr n"
proof (induction n rule: digits_of.induct)
  case (1 n)
  show ?case
  proof (cases "n < 10")
    case True
    then show ?thesis using digit_char[of n] by (subst digits_of.simps) simp
  next
    case False
    with 1 have ih: "parse_uint 0 (digits_of (n div 10)) = Inr (n div 10)" by simp
    have d: "n mod 10 < 10" "n div 10 * 10 + n mod 10 = n" by simp_all
    from False show ?thesis
      using digit_char[OF d(1)] d(2) 1(2)
      by (subst digits_of.simps) (simp add: parse_uint_snoc ih)
  qed
qed

lemma digits_of_head: "is_digit (hd (digits_of n))"
proof (induction n rule: digits_of.induct)
  case (1 n)
  show ?case
  proof (cases "n < 10")
    case True
    then show ?thesis using digit_char[of n] by (subst digits_of.simps) simp
  next
    case False
    with 1 show ?thesis by (subst digits_of.simps) (simp add: digits_of_nonempty)
  qed
qed

lemma not_digit_sign: "\<not> is_digit (CHR ''-'')" "\<not> is_digit (CHR ''+'')"
  by (simp_all add: is_digit_def byte_def)

lemma atoi_itoa:
  assumes "min_int64 \<le> x" "x \<le> max_int64"
  shows "atoi (itoa x) = (x, None)"
proof (cases "x < 0")
  case True
  then have "parse_uint 0 (digits_of (nat (- x))) = Inr (nat (- x))"
    using assms by (intro parse_uint_digits) (simp add: min_int64_def)
  with True assms show ?thesis
    by (simp add: atoi_def itoa_def digits_of_nonempty)
next
  case False
  then have p: "parse_uint 0 (digits_of (nat x)) = Inr (nat x)"
    using assms by (intro parse_uint_digits) (simp add: max_int64_def)
  obtain c cs where ds: "digits_of (nat x) = c # cs"
    using digits_of_nonempty[of "nat x"] by (meson neq_Nil_conv)
  with digits_of_head[of "nat x"] have "c \<noteq> CHR ''-''" "c \<noteq> CHR ''+''"
    using not_digit_sign by auto
  with False assms p ds show ?thesis
    by (simp add: atoi_def itoa_def)
qed

lemma atoi_range: "min_int64 \<le> fst (atoi s) \<and> fst (atoi s) \<le> max_int64"
  by (auto simp: atoi_def Let_def min_int64_def max_int64_def split: sum.splits num_error.splits)

end
