(* ===== verification/Go_Json.thy ===== *)
theory Go_Json
  imports Go_Strings
begin

text \<open>
  JSON values, and how \<open>encoding/json\<close> stores an object into the fields of a struct: field names match
  without regard to case, null leaves a field alone, a value of another type is an error, and the last of
  several entries wins. A number is its literal.
\<close>

datatype json = JNull | JBool bool | JNumber string | JString string | JArray "json list"
  | JObject "(string \<times> json) list"

section \<open>JSON objects as structs\<close>

definition ascii_lower :: "char \<Rightarrow> char" where
  "ascii_lower c = (if 65 \<le> byte c \<and> byte c \<le> 90 then char_of (byte c + 32) else c)"

text \<open>
  Equality under Unicode case folding with a lower-case ASCII text: the long s and the Kelvin sign are the
  only runes outside ASCII that fold to an ASCII letter.
\<close>

fun fold_eq :: "string \<Rightarrow> string \<Rightarrow> bool" where
  "fold_eq s [] = (s = [])"
| "fold_eq s (t # ts) =
     (case s of [] \<Rightarrow> False
      | c # cs \<Rightarrow>
          if ascii_lower c = t then fold_eq cs ts
          else if t = CHR ''s'' \<and> has_prefix s [CHR 0xC5, CHR 0xBF] then fold_eq (drop 2 s) ts
          else if t = CHR ''k'' \<and> has_prefix s [CHR 0xE2, CHR 0x84, CHR 0xAA] then fold_eq (drop 3 s) ts
          else False)"

fun read_int :: "string \<Rightarrow> (string \<times> json) list \<Rightarrow> int \<Rightarrow> int option" where
  "read_int f [] v = Some v"
| "read_int f ((k, j) # es) v =
     (if \<not> fold_eq k f then read_int f es v
      else (case j of
              JNull \<Rightarrow> read_int f es v
            | JNumber s \<Rightarrow> (case atoi s of (n, None) \<Rightarrow> read_int f es n | (_, Some _) \<Rightarrow> None)
            | _ \<Rightarrow> None))"

fun read_str :: "string \<Rightarrow> (string \<times> json) list \<Rightarrow> string \<Rightarrow> string option" where
  "read_str f [] v = Some v"
| "read_str f ((k, j) # es) v =
     (if \<not> fold_eq k f then read_str f es v
      else (case j of JNull \<Rightarrow> read_str f es v | JString s \<Rightarrow> read_str f es s | _ \<Rightarrow> None))"

text \<open>A field of type \<open>map[string]string\<close>: entries are added to the map, and a null value is an empty string.\<close>

fun put_strings :: "(string \<times> json) list \<Rightarrow> (string, string) gomap \<Rightarrow> (string, string) gomap option" where
  "put_strings [] acc = Some acc"
| "put_strings ((k, j) # es) acc =
     (case j of JNull \<Rightarrow> put_strings es (mput acc k []) | JString s \<Rightarrow> put_strings es (mput acc k s) | _ \<Rightarrow> None)"

fun read_strings :: "string \<Rightarrow> (string \<times> json) list \<Rightarrow> (string, string) gomap \<Rightarrow> (string, string) gomap option" where
  "read_strings f [] acc = Some acc"
| "read_strings f ((k, j) # es) acc =
     (if \<not> fold_eq k f then read_strings f es acc
      else (case j of
              JNull \<Rightarrow> read_strings f es mnil
            | JObject xs \<Rightarrow> Option.bind (put_strings xs acc) (read_strings f es)
            | _ \<Rightarrow> None))"

end
