(* ===== verification/Convo_Types.thy ===== *)
theory Convo_Types
  imports Go_Json
begin

text \<open>
  The data model of \<open>apps/gateway/internal/convo/store.go\<close> and the Agent snapshot of
  \<open>apps/gateway/internal/agentprofile/types.go\<close>: parts, messages, conversations, folders and
  artifacts, field by field. Statuses and part types are Go strings, so they stay strings here;
  the named constants are definitions with the facts that tell them apart in \<open>part_types\<close>.
\<close>

datatype convo_error =
    ConvoNotFound | ConvoRuntimeMismatch | ConvoAgentMismatch | ConvoProjectMismatch
  | FolderNameConflict | InvalidFolderName | UnsupportedChatType

definition default_runtime_id :: string where "default_runtime_id = ''claude-code''"
definition chat_type_chat :: string where "chat_type_chat = ''chat''"

definition normalize_folder_name :: "string \<Rightarrow> convo_error + string" where
  "normalize_folder_name name =
     (let name = trim_space name in
      if name = [] \<or> rune_count name > 80 then Inl InvalidFolderName else Inr name)"

lemma normalize_folder_name_ok:
  "normalize_folder_name n = Inr m \<Longrightarrow>
     m = trim_space n \<and> m \<noteq> [] \<and> rune_count m \<le> 80 \<and> normalize_folder_name m = Inr m"
  by (auto simp: normalize_folder_name_def Let_def trim_space_idem split: if_splits)

section \<open>Parts\<close>

definition part_text_t :: string where "part_text_t = ''text''"
definition part_reasoning_t :: string where "part_reasoning_t = ''reasoning''"
definition part_tool_call_t :: string where "part_tool_call_t = ''tool-call''"
definition part_file_t :: string where "part_file_t = ''file''"
definition part_environment_t :: string where "part_environment_t = ''environment''"
definition part_session_status_t :: string where "part_session_status_t = ''session-status''"
definition part_progress_t :: string where "part_progress_t = ''progress''"
definition part_memory_recall_t :: string where "part_memory_recall_t = ''memory-recall''"
definition part_scm_approval_t :: string where "part_scm_approval_t = ''scm-approval''"
definition part_plan_t :: string where "part_plan_t = ''plan''"
definition part_question_t :: string where "part_question_t = ''question''"
definition part_run_summary_t :: string where "part_run_summary_t = ''run-summary''"
definition part_structured_t :: string where "part_structured_t = ''structured-result''"
definition part_wiki_file_t :: string where "part_wiki_file_t = ''wiki-file''"

lemmas part_type_defs =
  part_text_t_def part_reasoning_t_def part_tool_call_t_def part_file_t_def part_environment_t_def
  part_session_status_t_def part_progress_t_def part_memory_recall_t_def part_scm_approval_t_def
  part_plan_t_def part_question_t_def part_run_summary_t_def part_structured_t_def part_wiki_file_t_def

lemma part_types_distinct: "distinct [part_text_t, part_reasoning_t, part_tool_call_t, part_file_t,
  part_environment_t, part_session_status_t, part_progress_t, part_memory_recall_t,
  part_scm_approval_t, part_plan_t, part_question_t, part_run_summary_t, part_structured_t,
  part_wiki_file_t]"
  by (simp add: part_type_defs)

record question_option =
  opt_id :: string
  opt_label :: string

record question_answer =
  ans_option_id :: string
  ans_text :: string

record part =
  part_type :: string
  part_error_code :: string
  part_text :: string
  part_tool_call_id :: string
  part_tool_name :: string
  part_args_text :: string
  part_tool_output :: string
  part_result :: "string option"
  part_is_error :: bool
  part_tool_outcome :: string
  part_id :: string
  part_filename :: string
  part_mime_type :: string
  part_size :: int
  part_download_url :: string
  part_wiki_node_id :: string
  part_wiki_version_id :: string
  part_logical_path :: string
  part_revision :: int
  part_environment :: string
  part_session_status :: string
  part_progress_id :: string
  part_progress_items :: string
  part_status :: string
  part_memory_count :: int
  part_memory_content :: string
  part_approval_id :: string
  part_approval_status :: string
  part_approval_category :: string
  part_approval_label :: string
  part_plan_id :: string
  part_version :: int
  part_plan_content_markdown :: string
  part_question_id :: string
  part_question :: string
  part_question_options :: "question_option list"
  part_question_answer :: "question_answer option"
  part_run_id :: string
  part_model_label :: string
  part_duration_ms :: int
  part_tool_call_count :: int
  part_llm_call_count :: int
  part_renderer :: string
  part_renderer_version :: int
  part_title :: string
  part_contract_hash :: string
  part_data :: string

definition part_zero :: part where
  \<comment> \<open>Go's zero value \<open>Part{}\<close>\<close>
  "part_zero = \<lparr> part_type = '''', part_error_code = '''', part_text = '''', part_tool_call_id = '''',
     part_tool_name = '''', part_args_text = '''', part_tool_output = '''', part_result = None,
     part_is_error = False, part_tool_outcome = '''', part_id = '''', part_filename = '''',
     part_mime_type = '''', part_size = 0, part_download_url = '''', part_wiki_node_id = '''',
     part_wiki_version_id = '''', part_logical_path = '''', part_revision = 0,
     part_environment = '''', part_session_status = '''', part_progress_id = '''',
     part_progress_items = '''', part_status = '''', part_memory_count = 0,
     part_memory_content = '''', part_approval_id = '''', part_approval_status = '''',
     part_approval_category = '''', part_approval_label = '''', part_plan_id = '''',
     part_version = 0, part_plan_content_markdown = '''', part_question_id = '''',
     part_question = '''', part_question_options = [], part_question_answer = None,
     part_run_id = '''', part_model_label = '''', part_duration_ms = 0, part_tool_call_count = 0,
     part_llm_call_count = 0, part_renderer = '''', part_renderer_version = 0, part_title = '''',
     part_contract_hash = '''', part_data = '''' \<rparr>"

section \<open>Agent snapshots, conversations, folders, messages, artifacts\<close>

record knowledge_source =
  ks_type :: string
  ks_label :: string
  ks_url :: string
  ks_node_id :: string

record agent_snapshot =
  snap_id :: string
  snap_version :: int
  snap_name :: string
  snap_description :: string
  snap_instructions :: string
  snap_avatar_key :: string
  snap_avatar_color :: string
  snap_runtime_id :: string
  snap_model_route_id :: string
  snap_model_alias :: string
  snap_skill_ids :: "string list"
  snap_knowledge_sources :: "knowledge_source list"
  snap_knowledge_revision :: int

record conversation =
  conv_id :: string
  conv_user_id :: string
  conv_tenant_id :: string
  conv_title :: string
  conv_chat_type :: string
  conv_folder_id :: string
  conv_project_id :: string
  conv_hidden :: bool
  conv_runtime_id :: string
  conv_agent_id :: string
  conv_agent_version :: int
  conv_agent_snapshot :: "agent_snapshot option"
  conv_channel_connector_id :: string
  conv_created_at :: gtime
  conv_updated_at :: gtime

record folder =
  folder_id :: string
  folder_user_id :: string
  folder_name :: string
  folder_created_at :: gtime
  folder_updated_at :: gtime

text \<open>A metadata value is any JSON value. The stores carry it and never look inside.\<close>

record message =
  msg_id :: string
  msg_conversation_id :: string
  msg_role :: string
  msg_parts :: "part list"
  msg_metadata :: "(string \<times> json) list"
  msg_created_at :: gtime

record artifact =
  art_id :: string
  art_conversation_id :: string
  art_user_id :: string
  art_tenant_id :: string
  art_filename :: string
  art_mime :: string
  art_size :: int
  art_object_key :: string
  art_created_at :: gtime

end
