(* ===== verification/Convo_Reducer.thy ===== *)
theory Convo_Reducer
  imports Convo_Types
begin

text \<open>
  \<open>apps/gateway/internal/convo/reducer.go\<close>: the fold of an Agent's event stream into the parts
  of the assistant message. The state of a \<open>Reducer\<close> is its slice of parts. \<open>encoding/json\<close> is
  used through \<open>Valid\<close>, \<open>Unmarshal\<close> and \<open>Marshal\<close> at six types; these six functions are the
  record \<open>json_api\<close>, an argument of the operations that decode or encode.
\<close>

type_synonym event_data = "(string, string) gomap"
type_synonym reducer = "part list"

definition dget :: "event_data \<Rightarrow> string \<Rightarrow> string" where
  \<comment> \<open>\<open>data[k]\<close> on a \<open>map[string]string\<close>: the empty string when the key is absent\<close>
  "dget d k = (case mget d k of None \<Rightarrow> '''' | Some v \<Rightarrow> v)"

record json_api =
  json_valid :: "string \<Rightarrow> bool"
  json_options :: "string \<Rightarrow> question_option list option"
  json_answer :: "string \<Rightarrow> question_answer option"
  json_components :: "string \<Rightarrow> string list option option"
  json_session_status :: "int \<Rightarrow> string \<Rightarrow> string \<Rightarrow> string option"
  json_part_id :: "string \<Rightarrow> string option"

definition max_tool_output_bytes :: nat where "max_tool_output_bytes = 65536"
definition max_environment_snapshot_bytes :: nat where "max_environment_snapshot_bytes = 65536"

definition new_reducer :: reducer where "new_reducer = []"

definition reducer_parts :: "reducer \<Rightarrow> part list" where "reducer_parts r = r"

definition upsert_part :: "(part \<Rightarrow> bool) \<Rightarrow> part \<Rightarrow> reducer \<Rightarrow> reducer" where
  \<comment> \<open>the loop that ends most \<open>upsert\<close> methods: replace the first match, else append\<close>
  "upsert_part P part ps =
     (case update_first P (\<lambda>_. part) ps of Some qs \<Rightarrow> qs | None \<Rightarrow> ps @ [part])"

section \<open>Text\<close>

definition append_text :: "string \<Rightarrow> string \<Rightarrow> reducer \<Rightarrow> reducer" where
  "append_text kind chunk ps =
     (if ps \<noteq> [] \<and> part_type (last ps) = kind
      then butlast ps @ [last ps\<lparr>part_text := part_text (last ps) @ chunk\<rparr>]
      else ps @ [part_zero\<lparr>part_type := kind, part_text := chunk\<rparr>])"

definition truthy :: "string \<Rightarrow> bool" where
  "truthy v \<longleftrightarrow> v = ''true'' \<or> v = ''True'' \<or> v = ''1''"

definition err_text :: "event_data \<Rightarrow> string" where
  "err_text d = (if dget d ''error'' \<noteq> '''' then dget d ''error'' else ''unknown error'')"

definition tool_outcome :: "string \<Rightarrow> bool \<Rightarrow> string" where
  "tool_outcome outcome is_err =
     (if \<not> is_err then ''success''
      else if outcome \<in> {''permission_denied'', ''unavailable'', ''failed'', ''timeout''} then outcome
      else ''failed'')"

section \<open>Tool calls\<close>

definition is_tool_call :: "string \<Rightarrow> part \<Rightarrow> bool" where
  "is_tool_call i p \<longleftrightarrow> part_type p = part_tool_call_t \<and> part_tool_call_id p = i"

definition upsert_tool_use :: "string \<Rightarrow> string \<Rightarrow> string \<Rightarrow> reducer \<Rightarrow> reducer" where
  "upsert_tool_use i name args ps =
     (let name = (if name = '''' then ''tool'' else name) in
      case update_last (is_tool_call i) (\<lambda>p. p\<lparr>part_tool_name := name, part_args_text := args\<rparr>) ps of
        Some qs \<Rightarrow> qs
      | None \<Rightarrow> ps @ [part_zero\<lparr>part_type := part_tool_call_t, part_tool_call_id := i,
                              part_tool_name := name, part_args_text := args\<rparr>])"

text \<open>\<open>for start < len(output) && !utf8.RuneStart(output[start]) { start++ }\<close>, then the slice.\<close>

fun drop_to_rune_start :: "string \<Rightarrow> string" where
  "drop_to_rune_start [] = []"
| "drop_to_rune_start (c # cs) = (if rune_start c then c # cs else drop_to_rune_start cs)"

definition clip_output :: "string \<Rightarrow> string" where
  "clip_output out =
     (if length out > max_tool_output_bytes
      then drop_to_rune_start (drop (length out - max_tool_output_bytes) out) else out)"

lemma upsert_tool_use_present: "\<exists>p \<in> set (upsert_tool_use i name args ps). is_tool_call i p"
proof -
  have "is_tool_call i (part_zero\<lparr>part_type := part_tool_call_t, part_tool_call_id := i,
      part_tool_name := n, part_args_text := args\<rparr>)" for n
    by (simp add: is_tool_call_def)
  then show ?thesis
    by (fastforce simp: upsert_tool_use_def Let_def update_last_Some is_tool_call_def split: option.splits)
qed

text \<open>
  The code calls itself once more after it has created the missing tool call; the second call
  finds the part, so the recursion ends.
\<close>

function append_tool_output :: "string \<Rightarrow> string \<Rightarrow> string \<Rightarrow> string \<Rightarrow> reducer \<Rightarrow> reducer" where
  "append_tool_output i chunk name args ps =
     (if i = '''' \<or> chunk = '''' then ps
      else case update_last (is_tool_call i)
               (\<lambda>p. p\<lparr>part_tool_output := clip_output (part_tool_output p @ chunk)\<rparr>) ps of
        Some qs \<Rightarrow> qs
      | None \<Rightarrow> append_tool_output i chunk name args (upsert_tool_use i name args ps))"
  by pat_completeness auto
termination
proof (relation "measure (\<lambda>(i, chunk, name, args, ps). if \<exists>p \<in> set ps. is_tool_call i p then 0 else 1)",
    goal_cases)
  case (2 i chunk name args ps)
  then show ?case
    using upsert_tool_use_present[of i name args ps] by (simp add: update_last_None)
qed simp

declare append_tool_output.simps [simp del]

definition fill_tool_result :: "string \<Rightarrow> string \<Rightarrow> bool \<Rightarrow> string \<Rightarrow> reducer \<Rightarrow> reducer" where
  "fill_tool_result i content is_err outcome ps =
     (case update_first (is_tool_call i)
        (\<lambda>p. p\<lparr>part_result := Some content, part_is_error := is_err, part_tool_outcome := outcome\<rparr>) ps of
        Some qs \<Rightarrow> qs
      | None \<Rightarrow>
          if is_err then append_text part_text_t (CHR 0x0A # ''[tool error] '' @ content @ [CHR 0x0A]) ps
          else append_text part_text_t (CHR 0x0A # ''[tool result] '' @ content @ [CHR 0x0A]) ps)"

section \<open>Plans and questions\<close>

definition upsert_plan :: "event_data \<Rightarrow> reducer \<Rightarrow> reducer" where
  "upsert_plan d ps =
     (let version = fst (atoi (dget d ''version''));
          content = dget d ''content_markdown'';
          status = dget d ''status'' in
      if dget d ''id'' = '''' \<or> version < 1 \<or> status = '''' \<or> content = '''' \<or> length content > 131072
      then ps
      else upsert_part (\<lambda>p. part_type p = part_plan_t \<and> part_plan_id p = dget d ''id'')
             (part_zero\<lparr>part_type := part_plan_t, part_plan_id := dget d ''id'', part_version := version,
                part_status := status, part_plan_content_markdown := content\<rparr>) ps)"

definition question_options_of :: "json_api \<Rightarrow> string \<Rightarrow> question_option list option" where
  \<comment> \<open>the \<open>options\<close> field: None when the event is to be ignored\<close>
  "question_options_of J raw =
     (if raw = '''' then Some []
      else if length raw > 16384 then None
      else case json_options J raw of
        None \<Rightarrow> None
      | Some os \<Rightarrow> if length os > 8 then None else Some os)"

definition upsert_question :: "json_api \<Rightarrow> event_data \<Rightarrow> reducer \<Rightarrow> reducer" where
  "upsert_question J d ps =
     (let version = fst (atoi (dget d ''version''));
          i = dget d ''id''; status = dget d ''status''; question = dget d ''question'' in
      if i = '''' \<or> version < 1 \<or> status = '''' \<or> question = '''' \<or> length question > 16384 then ps
      else case question_options_of J (dget d ''options'') of
        None \<Rightarrow> ps
      | Some options \<Rightarrow>
          upsert_part (\<lambda>p. part_type p = part_question_t \<and> part_question_id p = i)
            (part_zero\<lparr>part_type := part_question_t, part_question_id := i, part_version := version,
               part_status := status, part_question := question, part_question_options := options\<rparr>) ps)"

definition mark_questions :: "string \<Rightarrow> string \<Rightarrow> question_answer option \<Rightarrow> reducer \<Rightarrow> reducer" where
  \<comment> \<open>the loop at the end of \<open>updateQuestionStatus\<close>\<close>
  "mark_questions i status answer ps = map (\<lambda>p.
     if part_type p = part_question_t \<and> part_question_id p = i
     then (case answer of
             None \<Rightarrow> p\<lparr>part_status := status\<rparr>
           | Some a \<Rightarrow> p\<lparr>part_status := status, part_question_answer := Some a\<rparr>)
     else p) ps"

definition update_question_status :: "json_api \<Rightarrow> event_data \<Rightarrow> reducer \<Rightarrow> reducer" where
  "update_question_status J d ps =
     (let i = dget d ''id''; status = dget d ''status''; raw = dget d ''answer'' in
      if i = '''' \<or> status \<notin> {''pending'', ''answering'', ''answered'', ''cancelled''} then ps
      else if raw = '''' then mark_questions i status None ps
      else if length raw > 16384 then ps
      else case json_answer J raw of None \<Rightarrow> ps | Some a \<Rightarrow> mark_questions i status (Some a) ps)"

section \<open>Run summaries, structured results, approvals\<close>

definition upsert_run_summary :: "event_data \<Rightarrow> reducer \<Rightarrow> reducer" where
  "upsert_run_summary d ps =
     (let run_id = dget d ''run_id''; status = dget d ''status'' in
      if run_id = '''' \<or> status = '''' then ps
      else upsert_part (\<lambda>p. part_type p = part_run_summary_t \<and> part_run_id p = run_id)
             (part_zero\<lparr>part_type := part_run_summary_t, part_run_id := run_id, part_status := status,
                part_model_label := dget d ''model_label'',
                part_duration_ms := fst (atoi (dget d ''duration_ms'')),
                part_tool_call_count := fst (atoi (dget d ''tool_call_count'')),
                part_llm_call_count := fst (atoi (dget d ''llm_call_count'')),
                part_error_code := dget d ''error_code''\<rparr>) ps)"

definition upsert_structured_result :: "json_api \<Rightarrow> event_data \<Rightarrow> reducer \<Rightarrow> reducer" where
  "upsert_structured_result J d ps =
     (let run_id = dget d ''run_id''; renderer = dget d ''renderer'';
          version = fst (atoi (dget d ''renderer_version'')); raw = dget d ''data'' in
      if run_id = '''' \<or> renderer = '''' \<or> version < 1 \<or> length raw > 131072 \<or> \<not> json_valid J raw
      then ps
      else upsert_part (\<lambda>p. part_type p = part_structured_t \<and> part_run_id p = run_id)
             (part_zero\<lparr>part_type := part_structured_t, part_run_id := run_id, part_renderer := renderer,
                part_renderer_version := version, part_title := dget d ''title'',
                part_contract_hash := dget d ''contract_hash'', part_data := raw\<rparr>) ps)"

definition upsert_scm_approval :: "event_data \<Rightarrow> reducer \<Rightarrow> reducer" where
  "upsert_scm_approval d ps =
     (let i = dget d ''id''; status = dget d ''status'' in
      if i = '''' \<or> status \<notin> {''pending'', ''approved'', ''denied'', ''expired''} then ps
      else upsert_part (\<lambda>p. part_type p = part_scm_approval_t \<and> part_approval_id p = i)
             (part_zero\<lparr>part_type := part_scm_approval_t, part_approval_id := i,
                part_approval_status := status, part_approval_category := dget d ''category'',
                part_approval_label := dget d ''label''\<rparr>) ps)"

section \<open>Memory recall, session status, progress, environment, files\<close>

definition is_header :: "part \<Rightarrow> bool" where
  "is_header p \<longleftrightarrow> part_type p = part_environment_t \<or> part_type p = part_session_status_t"

definition put_memory_recall :: "part \<Rightarrow> reducer \<Rightarrow> reducer" where
  \<comment> \<open>the slice update at the end of \<open>upsertMemoryRecall\<close>: replace, or insert after the header parts\<close>
  "put_memory_recall part ps =
     (case update_first (\<lambda>p. part_type p = part_memory_recall_t) (\<lambda>_. part) ps of
        Some qs \<Rightarrow> qs
      | None \<Rightarrow> takeWhile is_header ps @ [part] @ dropWhile is_header ps)"

definition upsert_memory_recall :: "event_data \<Rightarrow> reducer \<Rightarrow> reducer" where
  "upsert_memory_recall d ps =
     (let status = dget d ''status'' in
      if status = ''skipped'' then ps
      else if status \<notin> {''running'', ''hit'', ''miss'', ''degraded'', ''unavailable''} then ps
      else let count = fst (atoi (dget d ''count''));
               count = (if count < 0 \<or> count > 100 then 0 else count) in
           put_memory_recall (part_zero\<lparr>part_type := part_memory_recall_t, part_status := status,
             part_memory_count := count, part_error_code := dget d ''error_code'',
             part_memory_content := dget d ''content''\<rparr>) ps)"

definition put_session_status :: "string \<Rightarrow> reducer \<Rightarrow> reducer" where
  \<comment> \<open>the slice update at the end of \<open>upsertSessionStatus\<close>\<close>
  "put_session_status raw ps =
     (case update_first (\<lambda>p. part_type p = part_session_status_t)
             (\<lambda>p. p\<lparr>part_session_status := raw\<rparr>) ps of
        Some qs \<Rightarrow> qs
      | None \<Rightarrow>
          let part = part_zero\<lparr>part_type := part_session_status_t, part_session_status := raw\<rparr>;
              at = (if ps \<noteq> [] \<and> part_type (hd ps) = part_environment_t then 1 else 0) in
          take at ps @ [part] @ drop at ps)"

definition upsert_session_status :: "json_api \<Rightarrow> event_data \<Rightarrow> reducer \<Rightarrow> reducer" where
  "upsert_session_status J d ps =
     (let phase = dget d ''phase''; components = dget d ''components'' in
      if phase \<notin> {''preparing'', ''ready'', ''degraded''} then ps
      else if components = '''' \<or> length components > max_environment_snapshot_bytes then ps
      else case json_components J components of
        None \<Rightarrow> ps
      | Some None \<Rightarrow> ps
      | Some (Some _) \<Rightarrow>
          let version = fst (atoi (dget d ''version''));
              version = (if version < 1 then 1 else version) in
          case json_session_status J version phase components of
            None \<Rightarrow> ps
          | Some raw \<Rightarrow> put_session_status raw ps)"

definition upsert_progress :: "json_api \<Rightarrow> string \<Rightarrow> string \<Rightarrow> reducer \<Rightarrow> reducer" where
  "upsert_progress J i items ps =
     (if i = '''' \<or> length items > max_environment_snapshot_bytes \<or> \<not> json_valid J items then ps
      else case update_first (\<lambda>p. part_type p = part_progress_t \<and> part_progress_id p = i)
                  (\<lambda>p. p\<lparr>part_progress_items := items\<rparr>) ps of
             Some qs \<Rightarrow> qs
           | None \<Rightarrow> ps @ [part_zero\<lparr>part_type := part_progress_t, part_progress_id := i,
                                   part_progress_items := items\<rparr>])"

definition upsert_environment :: "json_api \<Rightarrow> string \<Rightarrow> reducer \<Rightarrow> reducer" where
  "upsert_environment J snapshot ps =
     (if snapshot = '''' \<or> length snapshot > max_environment_snapshot_bytes \<or> \<not> json_valid J snapshot
      then ps
      else case json_part_id J snapshot of
        None \<Rightarrow> ps
      | Some next_id \<Rightarrow>
          if next_id = '''' then ps
          else case update_first (\<lambda>p. part_type p = part_environment_t
                          \<and> json_part_id J (part_environment p) = Some next_id)
                      (\<lambda>p. p\<lparr>part_environment := snapshot\<rparr>) ps of
                 Some qs \<Rightarrow> qs
               | None \<Rightarrow> part_zero\<lparr>part_type := part_environment_t, part_environment := snapshot\<rparr> # ps)"

definition append_file :: "event_data \<Rightarrow> reducer \<Rightarrow> reducer" where
  "append_file d ps =
     (let mime = dget d ''mime'';
          mime = (if mime = '''' then dget d ''mimeType'' else mime);
          mime = (if mime = '''' then ''application/octet-stream'' else mime) in
      ps @ [part_zero\<lparr>part_type := part_file_t, part_id := dget d ''id'',
              part_filename := dget d ''filename'', part_mime_type := mime,
              part_size := fst (atoi (dget d ''size'')), part_download_url := dget d ''download_url''\<rparr>])"

section \<open>Apply\<close>

definition warning_prefix :: string where
  \<comment> \<open>two newlines, the UTF-8 bytes of the warning sign with its variation selector, a space\<close>
  "warning_prefix = [CHR 0x0A, CHR 0x0A, CHR 0xE2, CHR 0x9A, CHR 0xA0, CHR 0xEF, CHR 0xB8, CHR 0x8F, CHR 0x20]"

definition reducer_apply :: "json_api \<Rightarrow> string \<Rightarrow> event_data \<Rightarrow> reducer \<Rightarrow> reducer" where
  "reducer_apply J kind d ps =
     (if kind = ''environment_prepare'' then upsert_environment J (dget d ''snapshot'') ps
      else if kind = ''environment_status'' then upsert_session_status J d ps
      else if kind = ''memory_recall'' then upsert_memory_recall d ps
      else if kind = ''scm_approval'' then upsert_scm_approval d ps
      else if kind = ''text'' then append_text part_text_t (dget d ''text'') ps
      else if kind = ''thinking'' then append_text part_reasoning_t (dget d ''thinking'') ps
      else if kind = ''tool_use'' then
        upsert_tool_use (dget d ''id'') (dget d ''name'') (dget d ''input'') ps
      else if kind = ''tool_output'' then
        append_tool_output (dget d ''tool_use_id'') (dget d ''content'') (dget d ''name'') (dget d ''input'') ps
      else if kind = ''tool_result'' then
        fill_tool_result (dget d ''tool_use_id'') (dget d ''content'') (truthy (dget d ''is_error''))
          (tool_outcome (dget d ''outcome'') (truthy (dget d ''is_error''))) ps
      else if kind = ''file'' then append_file d ps
      else if kind = ''progress'' then upsert_progress J (dget d ''id'') (dget d ''items'') ps
      else if kind = ''plan_ready'' then upsert_plan d ps
      else if kind = ''question_ready'' then upsert_question J d ps
      else if kind = ''question_status'' then update_question_status J d ps
      else if kind = ''clarification_required'' then append_text part_text_t (dget d ''text'') ps
      else if kind = ''run_summary'' then upsert_run_summary d ps
      else if kind = ''structured_result_ready'' then upsert_structured_result J d ps
      else if kind = ''error'' then append_text part_text_t (warning_prefix @ err_text d) ps
      else ps)"

text \<open>The parts of a message after a stream of events.\<close>

definition reduce :: "json_api \<Rightarrow> (string \<times> event_data) list \<Rightarrow> reducer" where
  "reduce J evs = fold (\<lambda>(k, d). reducer_apply J k d) evs new_reducer"

end
