(* ===== verification/Reducer_Laws.thy ===== *)
theory Reducer_Laws
  imports Convo_Reducer
begin

text \<open>
  What the reducer keeps true of the parts it builds: every addressable part (a tool call, a
  plan, a question, a run summary, ...) occurs once, parts are never dropped or reordered,
  neighbouring text parts are merged, tool output stays within its bound and is a tail of
  the streamed output, and replaying an upsert event changes nothing.
\<close>

section \<open>Addresses of parts\<close>

definition part_key :: "json_api \<Rightarrow> part \<Rightarrow> (string \<times> string) option" where
  "part_key J p =
     (let t = part_type p in
      if t = part_environment_t then map_option (Pair t) (json_part_id J (part_environment p))
      else if t = part_tool_call_t then Some (t, part_tool_call_id p)
      else if t = part_plan_t then Some (t, part_plan_id p)
      else if t = part_question_t then Some (t, part_question_id p)
      else if t = part_run_summary_t \<or> t = part_structured_t then Some (t, part_run_id p)
      else if t = part_scm_approval_t then Some (t, part_approval_id p)
      else if t = part_progress_t then Some (t, part_progress_id p)
      else if t = part_memory_recall_t \<or> t = part_session_status_t then Some (t, '''')
      else None)"

definition part_keys :: "json_api \<Rightarrow> part list \<Rightarrow> (string \<times> string) list" where
  "part_keys J ps = List.map_filter (part_key J) ps"

lemma part_keys_simps [simp]:
  "part_keys J [] = []"
  "part_keys J (ps @ qs) = part_keys J ps @ part_keys J qs"
  "part_keys J (p # ps) = (case part_key J p of None \<Rightarrow> part_keys J ps | Some k \<Rightarrow> k # part_keys J ps)"
  by (simp_all add: part_keys_def List.map_filter_def split: option.splits)

lemma part_keys_set: "k \<in> set (part_keys J ps) \<longleftrightarrow> (\<exists>p \<in> set ps. part_key J p = Some k)"
  by (induction ps) (auto split: option.splits)

lemma part_keys_map: "(\<And>p. part_key J (g p) = part_key J p) \<Longrightarrow> part_keys J (map g ps) = part_keys J ps"
  by (induction ps) (simp_all split: option.splits)

text \<open>One event either keeps the addresses or adds one new address somewhere.\<close>

definition key_step :: "json_api \<Rightarrow> part list \<Rightarrow> part list \<Rightarrow> bool" where
  "key_step J ps qs \<longleftrightarrow> part_keys J qs = part_keys J ps \<or>
     (\<exists>xs ys k. part_keys J ps = xs @ ys \<and> part_keys J qs = xs @ k # ys \<and> k \<notin> set (part_keys J ps))"

lemma key_step_refl [simp]: "key_step J ps ps"
  by (simp add: key_step_def)

lemma key_step_same: "part_keys J qs = part_keys J ps \<Longrightarrow> key_step J ps qs"
  by (simp add: key_step_def)

lemma key_step_distinct: "key_step J ps qs \<Longrightarrow> distinct (part_keys J ps) \<Longrightarrow> distinct (part_keys J qs)"
  by (auto simp: key_step_def)

lemma key_step_subseq: "key_step J ps qs \<Longrightarrow> subseq (part_keys J ps) (part_keys J qs)"
  by (auto simp: key_step_def intro!: list_emb_append_mono)

text \<open>
  The contract the upsert loops share: a test that recognises one address, and a rewrite
  that keeps it. \<open>k\<close> is the address, \<open>P\<close> the loop's condition, \<open>f\<close> its assignment.
\<close>

locale part_slot =
  fixes J :: json_api and k :: "string \<times> string" and P :: "part \<Rightarrow> bool" and f :: "part \<Rightarrow> part"
  assumes recognises: "P p \<longleftrightarrow> part_key J p = Some k"
    and keeps: "P p \<Longrightarrow> part_key J (f p) = Some k"
begin

lemma replace_first: "update_first P f ps = Some qs \<Longrightarrow> part_keys J qs = part_keys J ps"
  using recognises keeps by (fastforce simp: update_first_Some)

lemma replace_last: "update_last P f ps = Some qs \<Longrightarrow> part_keys J qs = part_keys J ps"
  using recognises keeps by (fastforce simp: update_last_Some)

lemma fresh_first: "update_first P f ps = None \<Longrightarrow> k \<notin> set (part_keys J ps)"
  using recognises by (auto simp: update_first_None part_keys_set)

lemma fresh_last: "update_last P f ps = None \<Longrightarrow> k \<notin> set (part_keys J ps)"
  using recognises by (auto simp: update_last_None part_keys_set)

lemma insert_new:
  assumes "k \<notin> set (part_keys J ps)" and "ps = us @ vs" and "part_key J new = Some k"
  shows "key_step J ps (us @ new # vs)"
  using assms unfolding key_step_def
  by (intro disjI2 exI[of _ "part_keys J us"] exI[of _ "part_keys J vs"] exI[of _ k]) simp

lemma upsert_step:
  assumes "part_key J new = Some k" and "\<And>p. f p = new"
  shows "key_step J ps (upsert_part P new ps)"
proof -
  have f: "f = (\<lambda>_. new)" using assms(2) by blast
  show ?thesis
  proof (cases "update_first P f ps")
    case None
    with insert_new[OF fresh_first[OF None], of ps "[]" new] assms(1) show ?thesis
      by (simp add: upsert_part_def f)
  next
    case (Some qs)
    then show ?thesis
      using replace_first by (simp add: upsert_part_def f key_step_same)
  qed
qed

end

lemma part_key_type: "part_key J p = Some (t, i) \<Longrightarrow> part_type p = t"
  by (auto simp: part_key_def Let_def split: if_splits)

lemma part_key_conv: "part_key J p = Some (t, i) \<longleftrightarrow> part_type p = t \<and> part_key J p = Some (t, i)"
  using part_key_type by blast

text \<open>The address of a part whose type is known.\<close>

lemma part_key_of_type:
  "part_type p = part_plan_t \<Longrightarrow> part_key J p = Some (part_plan_t, part_plan_id p)"
  "part_type p = part_question_t \<Longrightarrow> part_key J p = Some (part_question_t, part_question_id p)"
  "part_type p = part_run_summary_t \<Longrightarrow> part_key J p = Some (part_run_summary_t, part_run_id p)"
  "part_type p = part_structured_t \<Longrightarrow> part_key J p = Some (part_structured_t, part_run_id p)"
  "part_type p = part_scm_approval_t \<Longrightarrow> part_key J p = Some (part_scm_approval_t, part_approval_id p)"
  "part_type p = part_memory_recall_t \<Longrightarrow> part_key J p = Some (part_memory_recall_t, '''')"
  "part_type p = part_tool_call_t \<Longrightarrow> part_key J p = Some (part_tool_call_t, part_tool_call_id p)"
  "part_type p = part_progress_t \<Longrightarrow> part_key J p = Some (part_progress_t, part_progress_id p)"
  "part_type p = part_session_status_t \<Longrightarrow> part_key J p = Some (part_session_status_t, '''')"
  "part_type p = part_environment_t \<Longrightarrow> part_key J p =
     map_option (Pair part_environment_t) (json_part_id J (part_environment p))"
  "part_type p = part_text_t \<Longrightarrow> part_key J p = None"
  "part_type p = part_reasoning_t \<Longrightarrow> part_key J p = None"
  "part_type p = part_file_t \<Longrightarrow> part_key J p = None"
  by (simp_all add: part_key_def part_type_defs)

lemma part_key_iff:
  "part_type p = part_plan_t \<and> part_plan_id p = i \<longleftrightarrow> part_key J p = Some (part_plan_t, i)"
  "part_type p = part_question_t \<and> part_question_id p = i \<longleftrightarrow> part_key J p = Some (part_question_t, i)"
  "part_type p = part_run_summary_t \<and> part_run_id p = i \<longleftrightarrow> part_key J p = Some (part_run_summary_t, i)"
  "part_type p = part_structured_t \<and> part_run_id p = i \<longleftrightarrow> part_key J p = Some (part_structured_t, i)"
  "part_type p = part_scm_approval_t \<and> part_approval_id p = i \<longleftrightarrow> part_key J p = Some (part_scm_approval_t, i)"
  "part_type p = part_memory_recall_t \<longleftrightarrow> part_key J p = Some (part_memory_recall_t, '''')"
  "part_type p = part_progress_t \<and> part_progress_id p = i \<longleftrightarrow> part_key J p = Some (part_progress_t, i)"
  "part_type p = part_session_status_t \<longleftrightarrow> part_key J p = Some (part_session_status_t, '''')"
  "is_tool_call i p \<longleftrightarrow> part_key J p = Some (part_tool_call_t, i)"
  "part_type p = part_environment_t \<and> json_part_id J (part_environment p) = Some i \<longleftrightarrow>
     part_key J p = Some (part_environment_t, i)"
  unfolding is_tool_call_def by (subst part_key_conv; auto simp: part_key_of_type)+

interpretation tool_slot: part_slot J "(part_tool_call_t, i)" "is_tool_call i"
  "\<lambda>p. p\<lparr>part_tool_name := n, part_args_text := a\<rparr>" for J i n a
  by unfold_locales (simp_all add: part_key_iff(9)[symmetric], simp add: is_tool_call_def)

interpretation output_slot: part_slot J "(part_tool_call_t, i)" "is_tool_call i"
  "\<lambda>p. p\<lparr>part_tool_output := clip_output (part_tool_output p @ c)\<rparr>" for J i c
  by unfold_locales (simp_all add: part_key_iff(9)[symmetric], simp add: is_tool_call_def)

interpretation result_slot: part_slot J "(part_tool_call_t, i)" "is_tool_call i"
  "\<lambda>p. p\<lparr>part_result := Some c, part_is_error := e, part_tool_outcome := out\<rparr>" for J i c e out
  by unfold_locales (simp_all add: part_key_iff(9)[symmetric], simp add: is_tool_call_def)

interpretation progress_slot: part_slot J "(part_progress_t, i)"
  "\<lambda>p. part_type p = part_progress_t \<and> part_progress_id p = i" "\<lambda>p. p\<lparr>part_progress_items := x\<rparr>" for J i x
  by unfold_locales (simp_all add: part_key_iff(7)[symmetric])

interpretation session_slot: part_slot J "(part_session_status_t, '''')"
  "\<lambda>p. part_type p = part_session_status_t" "\<lambda>p. p\<lparr>part_session_status := x\<rparr>" for J x
  by unfold_locales (simp_all add: part_key_iff(8)[symmetric])

lemma const_slot:
  "(\<And>p. P p \<longleftrightarrow> part_key J p = Some k) \<Longrightarrow> part_key J new = Some k \<Longrightarrow> part_slot J k P (\<lambda>_. new)"
  by unfold_locales auto

lemma upsert_part_step:
  assumes "\<And>p. P p \<longleftrightarrow> part_key J p = Some k" and "part_key J new = Some k"
  shows "key_step J ps (upsert_part P new ps)"
  using part_slot.upsert_step[OF const_slot[OF assms]] assms(2) by blast

lemmas upsert_part_steps = upsert_part_step[OF part_key_iff(1) part_key_iff(1)[THEN iffD1], OF conjI]
  upsert_part_step[OF part_key_iff(2) part_key_iff(2)[THEN iffD1], OF conjI]
  upsert_part_step[OF part_key_iff(3) part_key_iff(3)[THEN iffD1], OF conjI]
  upsert_part_step[OF part_key_iff(4) part_key_iff(4)[THEN iffD1], OF conjI]
  upsert_part_step[OF part_key_iff(5) part_key_iff(5)[THEN iffD1], OF conjI]

lemma unkeyed_append: "part_key J p = None \<Longrightarrow> key_step J ps (ps @ [p])"
  by (simp add: key_step_same)

section \<open>Every event is an address step\<close>

named_theorems reducer_steps \<open>each reducer method is a key step\<close>

lemma append_text_step [reducer_steps]:
  assumes "kind = part_text_t \<or> kind = part_reasoning_t"
  shows "key_step J ps (append_text kind chunk ps)"
proof (cases "ps \<noteq> [] \<and> part_type (last ps) = kind")
  case True
  then obtain us p where ps: "ps = us @ [p]" by (metis append_butlast_last_id)
  with True assms have "part_key J p = None" "part_key J (p\<lparr>part_text := x\<rparr>) = None" for x
    by (elim disjE; simp add: part_key_of_type)+
  with True ps show ?thesis by (simp add: append_text_def key_step_same)
next
  case False
  have "part_key J (part_zero\<lparr>part_type := kind, part_text := chunk\<rparr>) = None"
    using assms by (elim disjE) (simp_all add: part_key_of_type)
  then show ?thesis using False by (auto simp: append_text_def key_step_same)
qed

lemma upsert_tool_use_step [reducer_steps]: "key_step J ps (upsert_tool_use i name args ps)"
proof -
  define n where "n = (if name = '''' then ''tool'' else name)"
  let ?f = "\<lambda>p. p\<lparr>part_tool_name := n, part_args_text := args\<rparr>"
  let ?new = "part_zero\<lparr>part_type := part_tool_call_t, part_tool_call_id := i, part_tool_name := n,
    part_args_text := args\<rparr>"
  have op: "upsert_tool_use i name args ps =
      (case update_last (is_tool_call i) ?f ps of Some qs \<Rightarrow> qs | None \<Rightarrow> ps @ [?new])"
    by (simp only: upsert_tool_use_def n_def[symmetric] Let_def)
  show ?thesis
  proof (cases "update_last (is_tool_call i) ?f ps")
    case None
    have "part_key J ?new = Some (part_tool_call_t, i)" by (simp add: part_key_of_type)
    with tool_slot.insert_new[OF tool_slot.fresh_last[OF None, of J], of ps "[]" ?new] None
    show ?thesis by (simp add: op)
  next
    case (Some qs)
    then show ?thesis using tool_slot.replace_last[OF Some] by (simp add: op key_step_same)
  qed
qed

lemma fill_tool_result_step [reducer_steps]: "key_step J ps (fill_tool_result i content e out ps)"
proof (cases "update_first (is_tool_call i)
    (\<lambda>p. p\<lparr>part_result := Some content, part_is_error := e, part_tool_outcome := out\<rparr>) ps")
  case None
  then show ?thesis by (simp add: fill_tool_result_def append_text_step)
next
  case (Some qs)
  then show ?thesis using result_slot.replace_first[OF Some] by (simp add: fill_tool_result_def key_step_same)
qed

lemma append_file_step [reducer_steps]: "key_step J ps (append_file d ps)"
  unfolding append_file_def Let_def by (rule unkeyed_append) (simp add: part_key_of_type)

lemma upsert_plan_step [reducer_steps]: "key_step J ps (upsert_plan d ps)"
  unfolding upsert_plan_def Let_def
  by (simp add: upsert_part_steps)

lemma upsert_question_step [reducer_steps]: "key_step J ps (upsert_question J' d ps)"
  unfolding upsert_question_def Let_def
  by (simp add: upsert_part_steps split: option.splits)

lemma part_key_status:
  "part_key J (p\<lparr>part_status := s\<rparr>) = part_key J p"
  "part_key J (p\<lparr>part_status := s, part_question_answer := a\<rparr>) = part_key J p"
  by (simp_all add: part_key_def Let_def)

lemma mark_questions_keys: "part_keys J (mark_questions i s a ps) = part_keys J ps"
  unfolding mark_questions_def
  by (rule part_keys_map) (simp add: part_key_status split: option.split)

lemma update_question_status_step [reducer_steps]: "key_step J ps (update_question_status J' d ps)"
  by (simp add: update_question_status_def Let_def key_step_same mark_questions_keys split: option.split)

lemma upsert_run_summary_step [reducer_steps]: "key_step J ps (upsert_run_summary d ps)"
  unfolding upsert_run_summary_def Let_def
  by (simp add: upsert_part_steps)

lemma upsert_structured_step [reducer_steps]: "key_step J ps (upsert_structured_result J' d ps)"
  unfolding upsert_structured_result_def Let_def
  by (simp add: upsert_part_steps)

lemma upsert_scm_step [reducer_steps]: "key_step J ps (upsert_scm_approval d ps)"
  unfolding upsert_scm_approval_def Let_def
  by (simp add: upsert_part_steps)

lemma append_tool_output_step [reducer_steps]: "key_step J ps (append_tool_output i chunk name args ps)"
proof -
  let ?f = "\<lambda>p. p\<lparr>part_tool_output := clip_output (part_tool_output p @ chunk)\<rparr>"
  have hit: "part_keys J (append_tool_output i chunk name args qs) = part_keys J qs"
    if "\<exists>p \<in> set qs. is_tool_call i p" for qs
  proof (cases "update_last (is_tool_call i) ?f qs")
    case None
    then show ?thesis using that by (simp add: update_last_None)
  next
    case (Some rs)
    then show ?thesis
      using output_slot.replace_last[OF Some] by (simp add: append_tool_output.simps[of i chunk name args qs])
  qed
  show ?thesis
  proof (cases "i = '''' \<or> chunk = '''' \<or> (\<exists>p \<in> set ps. is_tool_call i p)")
    case True
    then have "i = '''' \<or> chunk = '''' \<Longrightarrow> append_tool_output i chunk name args ps = ps"
      by (simp add: append_tool_output.simps[of i chunk name args ps])
    with True hit[of ps] show ?thesis by (metis key_step_same)
  next
    case False
    then have "update_last (is_tool_call i) ?f ps = None" by (simp add: update_last_None)
    with False have "append_tool_output i chunk name args ps =
        append_tool_output i chunk name args (upsert_tool_use i name args ps)"
      by (subst append_tool_output.simps) (simp only: de_Morgan_disj simp_thms if_False option.case)
    then show ?thesis
      using hit[OF upsert_tool_use_present, of name args ps] upsert_tool_use_step[of J ps i name args]
      by (simp add: key_step_def)
  qed
qed

lemma put_memory_recall_step:
  assumes "part_type new = part_memory_recall_t"
  shows "key_step J ps (put_memory_recall new ps)"
proof -
  have key: "part_key J new = Some (part_memory_recall_t, '''')"
    using assms by (rule part_key_of_type)
  note slot = const_slot[OF part_key_iff(6) key]
  show ?thesis
    using part_slot.replace_first[OF slot] part_slot.fresh_first[OF slot]
      part_slot.insert_new[OF slot, of ps "takeWhile is_header ps" "dropWhile is_header ps" new] key
    by (simp add: put_memory_recall_def key_step_same split: option.split)
qed

lemma upsert_memory_recall_step [reducer_steps]: "key_step J ps (upsert_memory_recall d ps)"
  by (simp add: upsert_memory_recall_def Let_def put_memory_recall_step)

lemma put_session_status_step: "key_step J ps (put_session_status raw ps)"
proof -
  define at :: nat where "at = (if ps \<noteq> [] \<and> part_type (hd ps) = part_environment_t then 1 else 0)"
  let ?new = "part_zero\<lparr>part_type := part_session_status_t, part_session_status := raw\<rparr>"
  have op: "put_session_status raw ps = (case update_first (\<lambda>p. part_type p = part_session_status_t)
      (\<lambda>p. p\<lparr>part_session_status := raw\<rparr>) ps of Some qs \<Rightarrow> qs | None \<Rightarrow> take at ps @ [?new] @ drop at ps)"
    by (simp only: put_session_status_def Let_def at_def)
  have "part_key J ?new = Some (part_session_status_t, '''')" by (simp add: part_key_of_type)
  then show ?thesis
    using session_slot.replace_first[of raw ps _ J] session_slot.fresh_first[of raw ps J]
      session_slot.insert_new[of J ps "take at ps" "drop at ps"]
    by (simp add: op key_step_same split: option.split)
qed

lemma upsert_session_status_step [reducer_steps]: "key_step J ps (upsert_session_status J' d ps)"
  by (simp add: upsert_session_status_def Let_def put_session_status_step split: option.split)

lemma upsert_progress_step [reducer_steps]: "key_step J ps (upsert_progress J' i items ps)"
proof -
  have "part_key J (part_zero\<lparr>part_type := part_progress_t, part_progress_id := i, part_progress_items := items\<rparr>)
      = Some (part_progress_t, i)" by (simp add: part_key_of_type)
  then show ?thesis
    using progress_slot.replace_first[of i items ps _ J] progress_slot.fresh_first[of i items ps J]
      progress_slot.insert_new[of i J ps ps "[]"]
    by (auto simp: upsert_progress_def intro!: key_step_same split: option.splits)
qed

lemma upsert_environment_step [reducer_steps]: "key_step J ps (upsert_environment J snapshot ps)"
proof (cases "snapshot = '''' \<or> length snapshot > max_environment_snapshot_bytes \<or> \<not> json_valid J snapshot
    \<or> json_part_id J snapshot = None \<or> json_part_id J snapshot = Some ''''")
  case True
  then show ?thesis by (auto simp: upsert_environment_def split: option.splits)
next
  case False
  then obtain i where i: "json_part_id J snapshot = Some i" "i \<noteq> ''''" by auto
  let ?P = "\<lambda>p. part_type p = part_environment_t \<and> json_part_id J (part_environment p) = Some i"
  let ?new = "part_zero\<lparr>part_type := part_environment_t, part_environment := snapshot\<rparr>"
  have slot: "part_slot J (part_environment_t, i) ?P (\<lambda>p. p\<lparr>part_environment := snapshot\<rparr>)"
    by unfold_locales (simp_all only: part_key_iff(10), simp add: part_key_iff(10)[symmetric] i)
  have "part_key J ?new = Some (part_environment_t, i)" by (simp add: part_key_of_type i)
  then show ?thesis
    using False i part_slot.replace_first[OF slot, of ps] part_slot.fresh_first[OF slot, of ps]
      part_slot.insert_new[OF slot, of ps "[]" ps ?new]
    by (auto simp: upsert_environment_def intro!: key_step_same split: option.splits)
qed

lemma reducer_apply_step: "key_step J ps (reducer_apply J kind d ps)"
  by (simp add: reducer_apply_def reducer_steps)

lemma reduce_append: "reduce J (evs @ evs') = fold (\<lambda>(k, d). reducer_apply J k d) evs' (reduce J evs)"
  by (simp add: reduce_def)

lemma reduce_induct [case_names start event]:
  assumes "Q []" and "\<And>ps k d. Q ps \<Longrightarrow> Q (reducer_apply J k d ps)"
  shows "Q (reduce J evs)"
proof -
  have "Q ps \<Longrightarrow> Q (fold (\<lambda>(k, d). reducer_apply J k d) evs ps)" for ps
    by (induction evs arbitrary: ps) (auto intro: assms(2))
  then show ?thesis using assms(1) by (simp add: reduce_def new_reducer_def)
qed

section \<open>Text parts are merged\<close>

definition textual :: "string \<Rightarrow> bool" where "textual t \<longleftrightarrow> t = part_text_t \<or> t = part_reasoning_t"

fun texts_merged :: "string list \<Rightarrow> bool" where
  "texts_merged (t # u # ts) \<longleftrightarrow> \<not> (textual t \<and> t = u) \<and> texts_merged (u # ts)"
| "texts_merged _ \<longleftrightarrow> True"

lemma texts_merged_insert:
  "texts_merged (ts @ us) \<Longrightarrow> \<not> textual t \<Longrightarrow> texts_merged (ts @ t # us)"
proof (induction ts)
  case Nil
  then show ?case by (cases us) auto
next
  case (Cons a ts)
  then show ?case by (cases ts; cases us) auto
qed

lemma texts_merged_snoc:
  "texts_merged ts \<Longrightarrow> ts = [] \<or> last ts \<noteq> t \<Longrightarrow> texts_merged (ts @ [t])"
  by (induction ts rule: texts_merged.induct) auto

text \<open>Each event keeps the types of the parts, inserts one part, or starts a text part.\<close>

definition type_step :: "part list \<Rightarrow> part list \<Rightarrow> bool" where
  "type_step ps qs \<longleftrightarrow> map part_type qs = map part_type ps \<or>
     (\<exists>us vs t. map part_type ps = us @ vs \<and> map part_type qs = us @ t # vs \<and>
        (\<not> textual t \<or> vs = [] \<and> (us = [] \<or> last us \<noteq> t)))"

lemma type_step_merged: "type_step ps qs \<Longrightarrow> texts_merged (map part_type ps) \<Longrightarrow> texts_merged (map part_type qs)"
  by (auto simp: type_step_def texts_merged_insert texts_merged_snoc)

lemma type_step_refl [simp]: "type_step ps ps"
  by (simp add: type_step_def)

lemma type_step_replace:
  "(\<And>p. P p \<Longrightarrow> part_type (f p) = part_type p) \<Longrightarrow> update_first P f ps = Some qs \<Longrightarrow> type_step ps qs"
  "(\<And>p. P p \<Longrightarrow> part_type (f p) = part_type p) \<Longrightarrow> update_last P f ps = Some qs \<Longrightarrow> type_step ps qs"
  by (auto simp: type_step_def update_first_Some update_last_Some)

lemma type_step_insert: "\<not> textual (part_type p) \<Longrightarrow> type_step (us @ vs) (us @ p # vs)"
  unfolding type_step_def
  by (intro disjI2 exI[of _ "map part_type us"] exI[of _ "map part_type vs"] exI[of _ "part_type p"]) simp

lemma type_step_snoc: "\<not> textual (part_type p) \<Longrightarrow> type_step ps (ps @ [p])"
  using type_step_insert[of p ps "[]"] by simp

lemma type_step_first:
  assumes "\<And>p. P p \<Longrightarrow> part_type (f p) = part_type p" and "type_step ps other"
  shows "type_step ps (case update_first P f ps of None \<Rightarrow> other | Some qs \<Rightarrow> qs)"
  using assms type_step_replace(1)[of P f ps] by (simp split: option.split)

lemma type_step_last:
  assumes "\<And>p. P p \<Longrightarrow> part_type (f p) = part_type p" and "type_step ps other"
  shows "type_step ps (case update_last P f ps of None \<Rightarrow> other | Some qs \<Rightarrow> qs)"
  using assms type_step_replace(2)[of P f ps] by (simp split: option.split)

lemma type_step_upsert:
  "(\<And>p. P p \<Longrightarrow> part_type p = part_type new) \<Longrightarrow> \<not> textual (part_type new) \<Longrightarrow>
   type_step ps (upsert_part P new ps)"
  unfolding upsert_part_def by (rule type_step_first) (simp_all add: type_step_snoc)

lemmas type_step_rules = type_step_refl type_step_upsert type_step_first type_step_last type_step_snoc

named_theorems reducer_types \<open>each reducer method is a type step\<close>

lemma textual_types [simp]:
  "\<not> textual part_tool_call_t" "\<not> textual part_file_t" "\<not> textual part_environment_t"
  "\<not> textual part_session_status_t" "\<not> textual part_progress_t" "\<not> textual part_memory_recall_t"
  "\<not> textual part_scm_approval_t" "\<not> textual part_plan_t" "\<not> textual part_question_t"
  "\<not> textual part_run_summary_t" "\<not> textual part_structured_t"
  by (simp_all add: textual_def part_type_defs)

lemma append_text_types [reducer_types]: "type_step ps (append_text kind chunk ps)"
proof (cases "ps \<noteq> [] \<and> part_type (last ps) = kind")
  case True
  then obtain us p where "ps = us @ [p]" by (metis append_butlast_last_id)
  with True show ?thesis by (simp add: append_text_def type_step_def)
next
  case False
  then have "append_text kind chunk ps = ps @ [part_zero\<lparr>part_type := kind, part_text := chunk\<rparr>]"
    by (auto simp: append_text_def)
  moreover have "map part_type ps = [] \<or> last (map part_type ps) \<noteq> kind"
    using False by (auto simp: last_map)
  ultimately show ?thesis
    unfolding type_step_def
    by (intro disjI2 exI[of _ "map part_type ps"] exI[of _ "[]"] exI[of _ kind]) simp
qed

lemma upsert_tool_use_types [reducer_types]: "type_step ps (upsert_tool_use i name args ps)"
  unfolding upsert_tool_use_def Let_def by (rule type_step_last) (simp_all add: type_step_snoc)

lemma append_tool_output_types [reducer_types]: "type_step ps (append_tool_output i chunk name args ps)"
proof -
  have hit: "map part_type (append_tool_output i chunk name args qs) = map part_type qs"
    if "\<exists>p \<in> set qs. is_tool_call i p" for qs
    using that
    by (subst append_tool_output.simps) (auto simp: update_last_None update_last_Some split: option.split)
  show ?thesis
  proof (cases "i = '''' \<or> chunk = '''' \<or> (\<exists>p \<in> set ps. is_tool_call i p)")
    case True
    then have "i = '''' \<or> chunk = '''' \<Longrightarrow> append_tool_output i chunk name args ps = ps"
      by (simp add: append_tool_output.simps[of i chunk name args ps])
    with True hit[of ps] show ?thesis by (metis type_step_def)
  next
    case False
    then have "update_last (is_tool_call i)
        (\<lambda>p. p\<lparr>part_tool_output := clip_output (part_tool_output p @ chunk)\<rparr>) ps = None"
      by (simp add: update_last_None)
    with False have "append_tool_output i chunk name args ps =
        append_tool_output i chunk name args (upsert_tool_use i name args ps)"
      by (subst append_tool_output.simps) (simp only: de_Morgan_disj simp_thms if_False option.case)
    with hit[OF upsert_tool_use_present, of name args ps] upsert_tool_use_types[of ps i name args]
    show ?thesis by (simp add: type_step_def)
  qed
qed

lemma fill_tool_result_types [reducer_types]: "type_step ps (fill_tool_result i content e out ps)"
  unfolding fill_tool_result_def by (rule type_step_first) (simp_all add: append_text_types)

lemma append_file_types [reducer_types]: "type_step ps (append_file d ps)"
  by (simp add: append_file_def Let_def type_step_snoc)

lemma mark_questions_types: "map part_type (mark_questions i s a ps) = map part_type ps"
  by (simp add: mark_questions_def split: option.split)

lemma update_question_status_types [reducer_types]: "type_step ps (update_question_status J d ps)"
  by (simp add: update_question_status_def Let_def type_step_def mark_questions_types split: option.split)

lemma upsert_plan_types [reducer_types]: "type_step ps (upsert_plan d ps)"
  unfolding upsert_plan_def Let_def by (auto intro!: type_step_upsert split: option.split)

lemma upsert_question_types [reducer_types]: "type_step ps (upsert_question J d ps)"
  unfolding upsert_question_def Let_def by (auto intro!: type_step_upsert split: option.split)

lemma upsert_run_summary_types [reducer_types]: "type_step ps (upsert_run_summary d ps)"
  unfolding upsert_run_summary_def Let_def by (auto intro!: type_step_upsert split: option.split)

lemma upsert_structured_types [reducer_types]: "type_step ps (upsert_structured_result J d ps)"
  unfolding upsert_structured_result_def Let_def by (auto intro!: type_step_upsert split: option.split)

lemma upsert_scm_types [reducer_types]: "type_step ps (upsert_scm_approval d ps)"
  unfolding upsert_scm_approval_def Let_def by (auto intro!: type_step_upsert split: option.split)

lemma put_memory_recall_types:
  assumes "part_type new = part_memory_recall_t"
  shows "type_step ps (put_memory_recall new ps)"
  unfolding put_memory_recall_def
  using assms type_step_insert[of new "takeWhile is_header ps" "dropWhile is_header ps"]
  by (intro type_step_first) simp_all

lemma upsert_memory_recall_types [reducer_types]: "type_step ps (upsert_memory_recall d ps)"
  by (simp add: upsert_memory_recall_def Let_def put_memory_recall_types)

lemma put_session_status_types: "type_step ps (put_session_status raw ps)"
proof -
  have "type_step ps (take n ps @ [part_zero\<lparr>part_type := part_session_status_t, part_session_status := raw\<rparr>]
      @ drop n ps)" for n
    using type_step_insert[of "part_zero\<lparr>part_type := part_session_status_t, part_session_status := raw\<rparr>"
        "take n ps" "drop n ps"] by simp
  then show ?thesis
    unfolding put_session_status_def Let_def by (intro type_step_first) simp_all
qed

lemma upsert_session_status_types [reducer_types]: "type_step ps (upsert_session_status J d ps)"
  by (simp add: upsert_session_status_def Let_def put_session_status_types split: option.split)

lemma upsert_progress_types [reducer_types]: "type_step ps (upsert_progress J i items ps)"
  unfolding upsert_progress_def by (auto intro!: type_step_first type_step_snoc)

lemma upsert_environment_types [reducer_types]: "type_step ps (upsert_environment J snapshot ps)"
  using type_step_insert[of "part_zero\<lparr>part_type := part_environment_t, part_environment := snapshot\<rparr>" "[]" ps]
  unfolding upsert_environment_def
  by (simp split: option.split) (auto elim!: type_step_replace(1)[rotated])

lemma reducer_apply_types: "type_step ps (reducer_apply J kind d ps)"
  by (simp add: reducer_apply_def reducer_types)

section \<open>Tool output is a bounded tail of the stream\<close>

lemma drop_to_rune_start_suffix: "suffix (drop_to_rune_start s) s"
  by (induction s) (auto intro: suffix_ConsI)

lemma clip_output_suffix: "suffix (clip_output s) s"
  unfolding clip_output_def
  by (auto intro: suffix_order.trans[OF drop_to_rune_start_suffix suffix_drop])

lemma clip_output_short: "length s \<le> max_tool_output_bytes \<Longrightarrow> clip_output s = s"
  by (simp add: clip_output_def)

lemma clip_output_length: "length (clip_output s) \<le> max_tool_output_bytes"
proof (cases "length s > max_tool_output_bytes")
  case True
  have "length (drop_to_rune_start t) \<le> length t" for t
    using drop_to_rune_start_suffix by (rule suffix_length_le)
  from this[of "drop (length s - max_tool_output_bytes) s"] True show ?thesis
    by (simp add: clip_output_def)
qed (simp add: clip_output_def)

text \<open>The live output of a tool call: that of its last part, empty when there is none.\<close>

definition tool_output :: "string \<Rightarrow> part list \<Rightarrow> string" where
  "tool_output i ps = (case rev (filter (is_tool_call i) ps) of [] \<Rightarrow> '''' | p # _ \<Rightarrow> part_tool_output p)"

lemma tool_output_update_last:
  assumes "update_last (is_tool_call i) f ps = Some qs" and "\<And>p. is_tool_call i (f p) = is_tool_call i p"
    and "\<And>p. part_tool_output (f p) = g (part_tool_output p)"
  shows "tool_output i qs = g (tool_output i ps)"
proof -
  from assms(1) obtain us x vs where "ps = us @ x # vs" "qs = us @ f x # vs" "is_tool_call i x"
    "\<forall>v \<in> set vs. \<not> is_tool_call i v" by (auto simp: update_last_Some)
  moreover from this have "filter (is_tool_call i) vs = []" by (simp add: filter_empty_conv)
  ultimately show ?thesis using assms(2,3) by (simp add: tool_output_def)
qed

lemma tool_output_upsert: "tool_output i (upsert_tool_use i name args ps) = tool_output i ps"
proof -
  let ?n = "if name = '''' then ''tool'' else name"
  show ?thesis
  proof (cases "update_last (is_tool_call i) (\<lambda>p. p\<lparr>part_tool_name := ?n, part_args_text := args\<rparr>) ps")
    case None
    then have "filter (is_tool_call i) ps = []" by (simp add: update_last_None filter_empty_conv)
    with None show ?thesis
      by (simp only: upsert_tool_use_def Let_def option.case)
        (simp add: tool_output_def is_tool_call_def part_zero_def)
  next
    case (Some qs)
    then show ?thesis
      using tool_output_update_last[OF Some, of "\<lambda>x. x"]
      by (simp only: upsert_tool_use_def Let_def option.case) (simp add: is_tool_call_def)
  qed
qed

lemma tool_output_append:
  assumes "i \<noteq> ''''"
  shows "tool_output i (append_tool_output i chunk name args ps) =
    (if chunk = '''' then tool_output i ps else clip_output (tool_output i ps @ chunk))"
proof (cases "chunk = ''''")
  case True
  then show ?thesis by (subst append_tool_output.simps) simp
next
  case False
  let ?f = "\<lambda>p. p\<lparr>part_tool_output := clip_output (part_tool_output p @ chunk)\<rparr>"
  have hit: "tool_output i (append_tool_output i chunk name args qs) = clip_output (tool_output i qs @ chunk)"
    if "update_last (is_tool_call i) ?f qs = Some rs" for qs rs
    using tool_output_update_last[OF that, of "\<lambda>x. clip_output (x @ chunk)"] that assms False
    by (simp add: append_tool_output.simps[of i chunk name args qs] is_tool_call_def)
  show ?thesis
  proof (cases "update_last (is_tool_call i) ?f ps")
    case None
    obtain rs where "update_last (is_tool_call i) ?f (upsert_tool_use i name args ps) = Some rs"
      using upsert_tool_use_present[of i name args ps]
      by (cases "update_last (is_tool_call i) ?f (upsert_tool_use i name args ps)") (auto simp: update_last_None)
    from hit[OF this] None False assms show ?thesis
      by (subst append_tool_output.simps) (simp add: tool_output_upsert)
  next
    case (Some rs)
    from hit[OF Some] False show ?thesis by simp
  qed
qed

text \<open>A run of output events for one tool call.\<close>

definition stream_chunks :: "string \<Rightarrow> string \<Rightarrow> string \<Rightarrow> string list \<Rightarrow> part list \<Rightarrow> part list" where
  "stream_chunks i name args chunks ps = fold (\<lambda>c. append_tool_output i c name args) chunks ps"

lemma stream_chunks_simps [simp]:
  "stream_chunks i name args [] ps = ps"
  "stream_chunks i name args (c # cs) ps = stream_chunks i name args cs (append_tool_output i c name args ps)"
  by (simp_all add: stream_chunks_def)

lemma tool_output_stream:
  assumes "i \<noteq> ''''" and "length (tool_output i ps) \<le> max_tool_output_bytes"
  shows "suffix (tool_output i (stream_chunks i name args chunks ps)) (tool_output i ps @ concat chunks) \<and>
    length (tool_output i (stream_chunks i name args chunks ps)) \<le> max_tool_output_bytes \<and>
    (length (tool_output i ps @ concat chunks) \<le> max_tool_output_bytes \<longrightarrow>
      tool_output i (stream_chunks i name args chunks ps) = tool_output i ps @ concat chunks)"
  using assms(2)
proof (induction chunks arbitrary: ps)
  case Nil
  then show ?case by simp
next
  case (Cons c cs)
  let ?q = "append_tool_output i c name args ps"
  have q: "tool_output i ?q = (if c = '''' then tool_output i ps else clip_output (tool_output i ps @ c))"
    by (rule tool_output_append[OF assms(1)])
  then have "length (tool_output i ?q) \<le> max_tool_output_bytes"
    using Cons.prems by (simp add: clip_output_length)
  note ih = Cons.IH[OF this]
  have suf: "suffix (tool_output i ?q) (tool_output i ps @ c)"
    using q clip_output_suffix by simp
  then have "suffix (tool_output i ?q @ concat cs) (tool_output i ps @ c @ concat cs)"
    by (auto simp: suffix_def)
  with ih have "suffix (tool_output i (stream_chunks i name args cs ?q))
      (tool_output i ps @ c @ concat cs)"
    using suffix_order.trans by blast
  moreover have "tool_output i ?q = tool_output i ps @ c"
    if "length (tool_output i ps @ c @ concat cs) \<le> max_tool_output_bytes"
    using q that by (simp add: clip_output_short)
  ultimately show ?case using ih by simp
qed

section \<open>Replayed upserts\<close>

lemma update_first_idem:
  assumes "\<And>p. P p \<Longrightarrow> P (f p) \<and> f (f p) = f p" and "update_first P f ps = Some qs"
  shows "update_first P f qs = Some qs"
  using assms by (fastforce simp: update_first_Some)

lemma update_last_idem:
  assumes "\<And>p. P p \<Longrightarrow> P (f p) \<and> f (f p) = f p" and "update_last P f ps = Some qs"
  shows "update_last P f qs = Some qs"
  using assms by (fastforce simp: update_last_Some)

lemma update_first_inserted:
  assumes "update_first P f (us @ vs) = None" and "P new" and "f new = new"
  shows "update_first P f (us @ new # vs) = Some (us @ new # vs)"
  using assms unfolding update_first_None update_first_Some by fastforce

named_theorems reducer_replays \<open>upserting twice is upserting once\<close>

lemma upsert_part_replay: "P new \<Longrightarrow> upsert_part P new (upsert_part P new ps) = upsert_part P new ps"
  using update_first_idem[of P "\<lambda>_. new" ps] update_first_inserted[of P "\<lambda>_. new" ps "[]" new]
  by (simp add: upsert_part_def split: option.split)

lemma upsert_tool_use_replay [reducer_replays]:
  "upsert_tool_use i name args (upsert_tool_use i name args ps) = upsert_tool_use i name args ps"
proof -
  define n where "n = (if name = '''' then ''tool'' else name)"
  let ?f = "\<lambda>p. p\<lparr>part_tool_name := n, part_args_text := args\<rparr>"
  let ?new = "part_zero\<lparr>part_type := part_tool_call_t, part_tool_call_id := i, part_tool_name := n,
    part_args_text := args\<rparr>"
  have op: "upsert_tool_use i name args qs =
      (case update_last (is_tool_call i) ?f qs of Some rs \<Rightarrow> rs | None \<Rightarrow> qs @ [?new])" for qs
    by (simp only: upsert_tool_use_def n_def[symmetric] Let_def)
  show ?thesis
  proof (cases "update_last (is_tool_call i) ?f ps")
    case None
    have "update_last (is_tool_call i) ?f (ps @ [?new]) = Some (ps @ [?new])"
      by (simp add: update_last_def is_tool_call_def)
    with None show ?thesis by (simp only: op option.case)
  next
    case (Some qs)
    then have "update_last (is_tool_call i) ?f qs = Some qs"
      by (rule update_last_idem[rotated]) (simp add: is_tool_call_def)
    with Some show ?thesis by (simp only: op option.case)
  qed
qed

lemma upsert_plan_replay [reducer_replays]: "upsert_plan d (upsert_plan d ps) = upsert_plan d ps"
  by (simp add: upsert_plan_def Let_def upsert_part_replay)

lemma upsert_question_replay [reducer_replays]:
  "upsert_question J d (upsert_question J d ps) = upsert_question J d ps"
  by (simp add: upsert_question_def Let_def upsert_part_replay split: option.split)

lemma mark_questions_replay: "mark_questions i s a (mark_questions i s a ps) = mark_questions i s a ps"
  by (cases a) (simp_all add: mark_questions_def)

lemma update_question_status_replay [reducer_replays]:
  "update_question_status J d (update_question_status J d ps) = update_question_status J d ps"
  by (simp add: update_question_status_def Let_def mark_questions_replay split: option.split)

lemma upsert_run_summary_replay [reducer_replays]:
  "upsert_run_summary d (upsert_run_summary d ps) = upsert_run_summary d ps"
  by (simp add: upsert_run_summary_def Let_def upsert_part_replay)

lemma upsert_structured_replay [reducer_replays]:
  "upsert_structured_result J d (upsert_structured_result J d ps) = upsert_structured_result J d ps"
  by (simp add: upsert_structured_result_def Let_def upsert_part_replay)

lemma upsert_scm_replay [reducer_replays]:
  "upsert_scm_approval d (upsert_scm_approval d ps) = upsert_scm_approval d ps"
  by (simp add: upsert_scm_approval_def Let_def upsert_part_replay)

lemma put_memory_recall_replay:
  "part_type new = part_memory_recall_t \<Longrightarrow> put_memory_recall new (put_memory_recall new ps) = put_memory_recall new ps"
  using update_first_idem[of "\<lambda>p. part_type p = part_memory_recall_t" "\<lambda>_. new" ps]
    update_first_inserted[of "\<lambda>p. part_type p = part_memory_recall_t" "\<lambda>_. new" "takeWhile is_header ps"
      "dropWhile is_header ps" new]
  by (simp add: put_memory_recall_def split: option.split)

lemma upsert_memory_recall_replay [reducer_replays]:
  "upsert_memory_recall d (upsert_memory_recall d ps) = upsert_memory_recall d ps"
  by (simp add: upsert_memory_recall_def Let_def put_memory_recall_replay)

lemma put_session_status_replay: "put_session_status raw (put_session_status raw ps) = put_session_status raw ps"
proof (cases "update_first (\<lambda>p. part_type p = part_session_status_t) (\<lambda>p. p\<lparr>part_session_status := raw\<rparr>) ps")
  case None
  define at :: nat where "at = (if ps \<noteq> [] \<and> part_type (hd ps) = part_environment_t then 1 else 0)"
  let ?new = "part_zero\<lparr>part_type := part_session_status_t, part_session_status := raw\<rparr>"
  have "put_session_status raw ps = take at ps @ ?new # drop at ps"
    using None by (simp add: put_session_status_def Let_def at_def)
  moreover have "update_first (\<lambda>p. part_type p = part_session_status_t) (\<lambda>p. p\<lparr>part_session_status := raw\<rparr>)
      (take at ps @ ?new # drop at ps) = Some (take at ps @ ?new # drop at ps)"
    using None by (intro update_first_inserted) simp_all
  ultimately show ?thesis by (simp add: put_session_status_def)
next
  case (Some qs)
  then have "update_first (\<lambda>p. part_type p = part_session_status_t) (\<lambda>p. p\<lparr>part_session_status := raw\<rparr>) qs
      = Some qs"
    by (rule update_first_idem[rotated]) simp
  with Some show ?thesis by (simp add: put_session_status_def)
qed

lemma upsert_session_status_replay [reducer_replays]:
  "upsert_session_status J d (upsert_session_status J d ps) = upsert_session_status J d ps"
  by (simp add: upsert_session_status_def Let_def put_session_status_replay split: option.split)

lemma upsert_progress_replay [reducer_replays]:
  "upsert_progress J i items (upsert_progress J i items ps) = upsert_progress J i items ps"
proof -
  let ?P = "\<lambda>p. part_type p = part_progress_t \<and> part_progress_id p = i"
  let ?f = "\<lambda>p. p\<lparr>part_progress_items := items\<rparr>"
  let ?new = "part_zero\<lparr>part_type := part_progress_t, part_progress_id := i, part_progress_items := items\<rparr>"
  show ?thesis
    using update_first_idem[of ?P ?f ps] update_first_inserted[of ?P ?f ps "[]" ?new]
    by (simp add: upsert_progress_def split: option.split)
qed

lemma upsert_environment_replay [reducer_replays]:
  "upsert_environment J snapshot (upsert_environment J snapshot ps) = upsert_environment J snapshot ps"
proof (cases "json_part_id J snapshot")
  case (Some i)
  let ?P = "\<lambda>p. part_type p = part_environment_t \<and> json_part_id J (part_environment p) = Some i"
  let ?f = "\<lambda>p. p\<lparr>part_environment := snapshot\<rparr>"
  let ?new = "part_zero\<lparr>part_type := part_environment_t, part_environment := snapshot\<rparr>"
  show ?thesis
    using Some update_first_idem[of ?P ?f ps] update_first_inserted[of ?P ?f "[]" ps ?new]
    by (simp add: upsert_environment_def split: option.split)
qed (simp add: upsert_environment_def)

text \<open>The event kinds whose parts are replaced as a whole.\<close>

definition upsert_kinds :: "string set" where
  "upsert_kinds = {''environment_prepare'', ''environment_status'', ''memory_recall'', ''scm_approval'',
     ''tool_use'', ''progress'', ''plan_ready'', ''question_ready'', ''question_status'', ''run_summary'',
     ''structured_result_ready''}"

section \<open>Properties\<close>

text \<open>C1. However the Agent's events arrive, every addressable part of the message (a tool call, a plan,
  a question, a run summary, a structured result, an approval, a progress list, an environment, the memory
  recall, the session status) occurs at most once in the reducer's parts.\<close>

theorem reducer_parts_unique: "distinct (part_keys J (reduce J evs))"
  by (induction rule: reduce_induct) (auto intro: key_step_distinct[OF reducer_apply_step])

text \<open>Events never drop or reorder addressable parts: the addresses after a prefix of the stream are a
  subsequence of the addresses after the whole stream.\<close>

theorem reducer_parts_kept: "subseq (part_keys J (reduce J evs)) (part_keys J (reduce J (evs @ evs')))"
proof -
  have "subseq (part_keys J ps) (part_keys J (fold (\<lambda>(k, d). reducer_apply J k d) evs' ps))" for ps
  proof (induction evs' arbitrary: ps)
    case (Cons e es)
    have "subseq (part_keys J ps) (part_keys J (reducer_apply J (fst e) (snd e) ps))"
      by (rule key_step_subseq[OF reducer_apply_step])
    with Cons show ?case by (auto simp: split_def intro: subseq_order.trans)
  qed simp
  then show ?thesis by (simp add: reduce_append)
qed

text \<open>Streamed text is merged: no two neighbouring parts are both text, or both reasoning.\<close>

theorem reducer_text_merged: "texts_merged (map part_type (reduce J evs))"
  by (induction rule: reduce_induct) (auto intro: type_step_merged[OF reducer_apply_types])

text \<open>C2. Live tool output is bounded and loses only its oldest bytes: after any run of output chunks for one
  tool call, its output is a suffix of everything streamed, holds at most 64 KiB, and is all of it
  when that fits.\<close>

theorem tool_output_tail:
  assumes "i \<noteq> ''''" and "length (tool_output i ps) \<le> max_tool_output_bytes"
  shows "suffix (tool_output i (stream_chunks i name args chunks ps)) (tool_output i ps @ concat chunks) \<and>
    length (tool_output i (stream_chunks i name args chunks ps)) \<le> max_tool_output_bytes \<and>
    (length (tool_output i ps @ concat chunks) \<le> max_tool_output_bytes \<longrightarrow>
      tool_output i (stream_chunks i name args chunks ps) = tool_output i ps @ concat chunks)"
  using assms by (rule tool_output_stream)

theorem tool_output_tail_witness:
  "tool_output ''t1'' (stream_chunks ''t1'' ''Bash'' ''ls'' [''a'', ''bc''] []) = ''abc''"
  using tool_output_tail[of "''t1''" "[]" "''Bash''" "''ls''" "[''a'', ''bc'']"]
  by (simp add: tool_output_def max_tool_output_bytes_def)

text \<open>A tool result is never lost: after a result event its content is the result of a tool call of that
  id, or is contained in a text part.\<close>

theorem tool_result_surfaced:
  "\<exists>p \<in> set (fill_tool_result i content is_err outcome ps).
     is_tool_call i p \<and> part_result p = Some content \<and> part_is_error p = is_err \<and> part_tool_outcome p = outcome
     \<or> part_type p = part_text_t \<and> sublist content (part_text p)"
proof -
  have added: "\<exists>p \<in> set (append_text part_text_t chunk qs). part_type p = part_text_t \<and> sublist chunk (part_text p)"
    for chunk qs
    by (auto simp: append_text_def)
  have sub: "sublist content (CHR 0x0A # ''[tool error] '' @ content @ [CHR 0x0A])"
    "sublist content (CHR 0x0A # ''[tool result] '' @ content @ [CHR 0x0A])"
    using sublist_appendI[of content "CHR 0x0A # ''[tool error] ''" "[CHR 0x0A]"]
      sublist_appendI[of content "CHR 0x0A # ''[tool result] ''" "[CHR 0x0A]"] by simp_all
  show ?thesis
  proof (cases "update_first (is_tool_call i) (\<lambda>p. p\<lparr>part_result := Some content, part_is_error := is_err,
      part_tool_outcome := outcome\<rparr>) ps")
    case None
    have contains: "\<exists>p \<in> set (append_text part_text_t chunk ps). part_type p = part_text_t \<and> sublist content (part_text p)"
      if "sublist content chunk" for chunk
      using added[of chunk ps] that sublist_order.order.trans by blast
    have "\<exists>p \<in> set (fill_tool_result i content is_err outcome ps).
        part_type p = part_text_t \<and> sublist content (part_text p)"
      unfolding fill_tool_result_def None option.case
      using contains[OF sub(1)] contains[OF sub(2)] by (cases is_err) (simp_all only: if_True if_False)
    then show ?thesis by blast
  next
    case (Some qs)
    then obtain us p vs where "qs = us @ p\<lparr>part_result := Some content, part_is_error := is_err,
        part_tool_outcome := outcome\<rparr> # vs" "is_tool_call i p"
      by (auto simp: update_first_Some)
    with Some show ?thesis by (simp add: fill_tool_result_def is_tool_call_def)
  qed
qed

text \<open>Replaying an upsert event (an environment, a plan, a question, a status, a summary, a tool use, ...)
  leaves the parts unchanged, so redelivered events do not duplicate content.\<close>

theorem reducer_replay:
  assumes "kind \<in> upsert_kinds"
  shows "reducer_apply J kind d (reducer_apply J kind d ps) = reducer_apply J kind d ps"
  using assms unfolding upsert_kinds_def
  by (elim insertE emptyE) (simp_all add: reducer_apply_def reducer_replays)

definition sample_json :: json_api where
  "sample_json = \<lparr>json_valid = (\<lambda>s. s = ''{}''), json_options = (\<lambda>_. None), json_answer = (\<lambda>_. None),
     json_components = (\<lambda>_. None), json_session_status = (\<lambda>_ _ _. None), json_part_id = (\<lambda>_. None)\<rparr>"

theorem reducer_replay_witness:
  "reducer_apply sample_json ''tool_use'' (mput mnil ''id'' ''t1'')
     (reducer_apply sample_json ''tool_use'' (mput mnil ''id'' ''t1'') []) =
   [part_zero\<lparr>part_type := part_tool_call_t, part_tool_call_id := ''t1'', part_tool_name := ''tool''\<rparr>]"
  using reducer_replay[of "''tool_use''" sample_json "mput mnil ''id'' ''t1''" "[]"]
  by (simp add: upsert_kinds_def reducer_apply_def upsert_tool_use_def dget_def update_last_def part_zero_def)

end
