(* ===== verification/Redis_KV.thy ===== *)
theory Redis_KV
  imports Go_Strings "HOL-Library.State_Monad"
begin

text \<open>
  \<open>packages/go-common/redis\<close>: the KV contract the orchestrator depends on and \<open>Fake\<close>, the
  in-memory store that implements it. \<open>Fake.Eval\<close> recognises the orchestrator's three Lua
  scripts by their text; the scripts are here as the strings the code holds, and as the
  sequences of Redis commands they run. The locale \<open>kv_laws\<close> is the KV contract as seen by a
  client: what each call returns and how it changes the visible keys.
\<close>

datatype kv_error = KvNil | KvFail string | KvPanic
datatype lua_arg = AStr string | AInt int

fun to_str :: "lua_arg \<Rightarrow> string" where
  "to_str (AStr s) = s"
| "to_str (AInt i) = itoa i"

section \<open>The KV interface\<close>

text \<open>
  Each operation is a computation over a state \<open>'s\<close> that the interface leaves open. \<open>Ping\<close> and
  \<open>Close\<close> have no part in the protocol. \<open>ScanKeys\<close> hands its keys to a callback in batches;
  here it returns the keys it delivered, in order, and the error that ended the scan, if any.
\<close>

record 's kv_ops =
  kv_get :: "string \<Rightarrow> ('s, kv_error + string) state"
  kv_set :: "string \<Rightarrow> string \<Rightarrow> duration \<Rightarrow> ('s, kv_error + unit) state"
  kv_setnx :: "string \<Rightarrow> string \<Rightarrow> duration \<Rightarrow> ('s, kv_error + bool) state"
  kv_del :: "string list \<Rightarrow> ('s, kv_error + int) state"
  kv_expire :: "string \<Rightarrow> duration \<Rightarrow> ('s, kv_error + bool) state"
  kv_eval :: "string \<Rightarrow> string list \<Rightarrow> lua_arg list \<Rightarrow> ('s, kv_error + int) state"
  kv_scan :: "string \<Rightarrow> ('s, string list \<times> kv_error option) state"

section \<open>The Lua scripts\<close>

definition nl :: string where "nl = [CHR 0x0A]"
definition tab :: string where "tab = [CHR 0x09]"

definition lua_unlock :: string where
  "lua_unlock = nl @ ''if redis.call(\"GET\", KEYS[1]) == ARGV[1] then'' @ nl @ tab
     @ ''return redis.call(\"DEL\", KEYS[1])'' @ nl @ ''else'' @ nl @ tab @ ''return 0'' @ nl @ ''end''"

definition lua_bind :: string where
  "lua_bind = nl @ ''if redis.call(\"GET\", KEYS[5]) ~= ARGV[5] then'' @ nl @ tab @ ''return -1'' @ nl @ ''end'' @ nl
     @ ''if redis.call(\"EXISTS\", KEYS[1]) == 1 then'' @ nl @ tab @ ''return 0'' @ nl @ ''end'' @ nl
     @ ''redis.call(\"SET\", KEYS[1], ARGV[1])'' @ nl
     @ ''redis.call(\"SET\", KEYS[2], ARGV[2])'' @ nl
     @ ''redis.call(\"SET\", KEYS[3], ARGV[3])'' @ nl
     @ ''redis.call(\"SET\", KEYS[4], \"1\", \"EX\", tonumber(ARGV[4]))'' @ nl
     @ ''redis.call(\"PEXPIRE\", KEYS[5], tonumber(ARGV[6]))'' @ nl @ ''return 1''"

definition lua_unbind :: string where
  "lua_unbind = nl @ ''if redis.call(\"GET\", KEYS[1]) == ARGV[1] then'' @ nl @ tab
     @ ''redis.call(\"DEL\", KEYS[1])'' @ nl @ ''end'' @ nl
     @ ''return redis.call(\"DEL\", KEYS[2], KEYS[3], KEYS[4])''"

section \<open>Fake\<close>

record fake_val =
  fv_val :: string
  fv_exp :: gtime

type_synonym fake = "(string, fake_val) gomap"

definition new_fake :: fake where "new_fake = mnil"

definition fv_dead :: "gtime \<Rightarrow> fake_val \<Rightarrow> bool" where
  \<comment> \<open>\<open>!v.exp.IsZero() && f.now().After(v.exp)\<close>\<close>
  "fv_dead t v \<longleftrightarrow> fv_exp v \<noteq> 0 \<and> t > fv_exp v"

definition live_locked :: "gtime \<Rightarrow> string \<Rightarrow> fake \<Rightarrow> string option \<times> fake" where
  "live_locked t key f =
     (case mget f key of
        None \<Rightarrow> (None, f)
      | Some v \<Rightarrow> if fv_dead t v then (None, mdel f key) else (Some (fv_val v), f))"

definition set_locked :: "gtime \<Rightarrow> string \<Rightarrow> string \<Rightarrow> duration \<Rightarrow> fake \<Rightarrow> fake" where
  "set_locked t key val ttl f =
     mput f key \<lparr>fv_val = val, fv_exp = (if ttl > 0 then t + ttl else 0)\<rparr>"

definition fake_get :: "gtime \<Rightarrow> string \<Rightarrow> fake \<Rightarrow> (kv_error + string) \<times> fake" where
  "fake_get t key f = (case live_locked t key f of
     (Some v, f') \<Rightarrow> (Inr v, f') | (None, f') \<Rightarrow> (Inl KvNil, f'))"

definition fake_set :: "gtime \<Rightarrow> string \<Rightarrow> string \<Rightarrow> duration \<Rightarrow> fake \<Rightarrow> (kv_error + unit) \<times> fake" where
  "fake_set t key val ttl f = (Inr (), set_locked t key val ttl f)"

definition fake_setnx :: "gtime \<Rightarrow> string \<Rightarrow> string \<Rightarrow> duration \<Rightarrow> fake \<Rightarrow> (kv_error + bool) \<times> fake" where
  "fake_setnx t key val ttl f = (case live_locked t key f of
     (Some _, f') \<Rightarrow> (Inr False, f')
   | (None, f') \<Rightarrow> (Inr True, set_locked t key val ttl f'))"

fun del_keys :: "string list \<Rightarrow> fake \<Rightarrow> int \<times> fake" where
  \<comment> \<open>the counting loop of \<open>Del\<close> and of the unbind script\<close>
  "del_keys [] f = (0, f)"
| "del_keys (k # ks) f =
     (case mget f k of
        None \<Rightarrow> del_keys ks f
      | Some _ \<Rightarrow> (case del_keys ks (mdel f k) of (n, f') \<Rightarrow> (n + 1, f')))"

definition fake_del :: "string list \<Rightarrow> fake \<Rightarrow> (kv_error + int) \<times> fake" where
  "fake_del keys f = (case del_keys keys f of (n, f') \<Rightarrow> (Inr n, f'))"

definition fake_expire :: "gtime \<Rightarrow> string \<Rightarrow> duration \<Rightarrow> fake \<Rightarrow> (kv_error + bool) \<times> fake" where
  "fake_expire t key ttl f = (case live_locked t key f of
     (Some v, f') \<Rightarrow> (Inr True, set_locked t key v ttl f') | (None, f') \<Rightarrow> (Inr False, f'))"

definition second :: duration where "second = 1000000000"
definition millisecond :: duration where "millisecond = 1000000"

definition fake_unbind :: "gtime \<Rightarrow> string list \<Rightarrow> lua_arg list \<Rightarrow> fake \<Rightarrow> (kv_error + int) \<times> fake" where
  "fake_unbind t keys args f =
     (case live_locked t (keys ! 0) f of (cur, f1) \<Rightarrow>
        let f2 = (if cur = Some (to_str (args ! 0)) then mdel f1 (keys ! 0) else f1) in
        case del_keys (tl keys) f2 of (n, f3) \<Rightarrow> (Inr n, f3))"

definition fake_unlock :: "gtime \<Rightarrow> string list \<Rightarrow> lua_arg list \<Rightarrow> fake \<Rightarrow> (kv_error + int) \<times> fake" where
  "fake_unlock t keys args f =
     (case live_locked t (keys ! 0) f of (cur, f1) \<Rightarrow>
        if cur = Some (to_str (args ! 0)) then (Inr 1, mdel f1 (keys ! 0)) else (Inr 0, f1))"

definition fake_bind :: "gtime \<Rightarrow> string list \<Rightarrow> lua_arg list \<Rightarrow> fake \<Rightarrow> (kv_error + int) \<times> fake" where
  "fake_bind t keys args f =
     (case live_locked t (keys ! 4) f of
        (None, f1) \<Rightarrow> (Inr (- 1), f1)
      | (Some token, f1) \<Rightarrow>
          if token \<noteq> to_str (args ! 4) then (Inr (- 1), f1)
          else case live_locked t (keys ! 0) f1 of
            (Some _, f2) \<Rightarrow> (Inr 0, f2)
          | (None, f2) \<Rightarrow>
              let f3 = set_locked t (keys ! 0) (to_str (args ! 0)) 0 f2;
                  f4 = set_locked t (keys ! 1) (to_str (args ! 1)) 0 f3;
                  f5 = set_locked t (keys ! 2) (to_str (args ! 2)) 0 f4;
                  f6 = set_locked t (keys ! 3) ''1'' (int64 (fst (atoi (to_str (args ! 3))) * second)) f5;
                  f7 = (if length args > 5
                        then set_locked t (keys ! 4) token
                               (int64 (fst (atoi (to_str (args ! 5))) * millisecond)) f6
                        else f6)
              in (Inr 1, f7))"

text \<open>\<open>Eval\<close> dispatches on the script's text; a missing key or argument is an index panic.\<close>

definition fake_eval :: "gtime \<Rightarrow> string \<Rightarrow> string list \<Rightarrow> lua_arg list \<Rightarrow> fake \<Rightarrow> (kv_error + int) \<times> fake" where
  "fake_eval t script keys args f =
     (if length keys = 4 \<and> str_contains script ''redis.call(\"GET\", KEYS[1]) == ARGV[1]''
         \<and> str_contains script ''KEYS[2], KEYS[3], KEYS[4]''
      then (if args = [] then (Inl KvPanic, f) else fake_unbind t keys args f)
      else if str_contains script ''redis.call(\"DEL\", KEYS[1])'' \<and> str_contains script ''== ARGV[1]''
      then (if keys = [] \<or> args = [] then (Inl KvPanic, f) else fake_unlock t keys args f)
      else if str_contains script ''redis.call(\"SET\", KEYS[4], \"1\", \"EX\"''
      then (if length keys < 5 \<or> length args < 5 then (Inl KvPanic, f) else fake_bind t keys args f)
      else (Inl KvNil, f))"

definition fake_scan :: "gtime \<Rightarrow> string \<Rightarrow> fake \<Rightarrow> (string list \<times> kv_error option) \<times> fake" where
  \<comment> \<open>the keys handed to the callback; expired keys are dropped on the way\<close>
  "fake_scan t pattern f =
     (let prefix = (if pattern \<noteq> [] \<and> last pattern = CHR ''*'' then butlast pattern else pattern);
          f' = DAList.filter (\<lambda>(k, v). \<not> fv_dead t v) f
      in ((filter (\<lambda>k. has_prefix k prefix) (map fst (mitems f')), None), f'))"

section \<open>What a client sees\<close>

definition fake_view :: "gtime \<Rightarrow> fake \<Rightarrow> string \<Rightarrow> string option" where
  "fake_view t f key =
     (case mget f key of None \<Rightarrow> None | Some v \<Rightarrow> if fv_dead t v then None else Some (fv_val v))"

lemma live_locked_fst: "fst (live_locked t key f) = fake_view t f key"
  by (simp add: live_locked_def fake_view_def split: option.split)

lemma live_locked_view: "t \<le> t' \<Longrightarrow> fake_view t' (snd (live_locked t key f)) = fake_view t' f"
  by (auto simp: live_locked_def fake_view_def fv_dead_def fun_eq_iff split: option.split)

lemma live_locked_cases:
  obtains f' where "live_locked t key f = (fake_view t f key, f')"
    "\<And>t'. t \<le> t' \<Longrightarrow> fake_view t' f' = fake_view t' f"
  by (metis live_locked_fst live_locked_view prod.collapse)

lemma set_locked_view:
  "fake_view t (set_locked t key val ttl f) = (fake_view t f)(key := Some val)"
  by (auto simp: set_locked_def fake_view_def fv_dead_def fun_eq_iff lookup_update)

lemma set_locked_later: "t \<le> t' \<Longrightarrow> ttl \<le> 0 \<or> t' \<le> t + ttl \<Longrightarrow>
  fake_view t' (set_locked t key val ttl f) = (fake_view t' f)(key := Some val)"
  by (auto simp: set_locked_def fake_view_def fv_dead_def fun_eq_iff lookup_update)

lemma set_locked_view_at: "fake_view t' (set_locked t key val ttl f) =
   (fake_view t' f)(key := if 0 < ttl \<and> t + ttl \<noteq> 0 \<and> t' > t + ttl then None else Some val)"
  by (auto simp: set_locked_def fake_view_def fv_dead_def fun_eq_iff lookup_update)

lemma mdel_view: "fake_view t (mdel f key) = (fake_view t f)(key := None)"
  by (auto simp: fake_view_def fun_eq_iff)

lemma del_keys_view: "fake_view t (snd (del_keys ks f)) = (\<lambda>k. if k \<in> set ks then None else fake_view t f k)"
proof (induction ks arbitrary: f)
  case (Cons k ks)
  show ?case
  proof (cases "mget f k")
    case None
    then have "fake_view t f k = None" by (simp add: fake_view_def)
    with None Cons show ?thesis by (auto simp: fun_eq_iff)
  next
    case (Some v)
    with Cons[of "mdel f k"] show ?thesis by (auto simp: fun_eq_iff mdel_view split: prod.split)
  qed
qed simp

named_theorems kv_eval_text \<open>how \<open>Fake.Eval\<close> classifies the orchestrator's scripts\<close>

lemma fake_eval_unbind [kv_eval_text]:
  "fake_eval t lua_unbind [k1, k2, k3, k4] (a # as) f = fake_unbind t [k1, k2, k3, k4] (a # as) f"
proof -
  have "str_contains lua_unbind ''redis.call(\"GET\", KEYS[1]) == ARGV[1]''" by code_simp
  moreover have "str_contains lua_unbind ''KEYS[2], KEYS[3], KEYS[4]''" by code_simp
  ultimately show ?thesis by (simp add: fake_eval_def)
qed

lemma fake_eval_unlock [kv_eval_text]:
  "fake_eval t lua_unlock [k] (a # as) f = fake_unlock t [k] (a # as) f"
proof -
  have "str_contains lua_unlock ''redis.call(\"DEL\", KEYS[1])''" by code_simp
  moreover have "str_contains lua_unlock ''== ARGV[1]''" by code_simp
  ultimately show ?thesis by (simp add: fake_eval_def)
qed

lemma fake_eval_bind [kv_eval_text]:
  "fake_eval t lua_bind [k1, k2, k3, k4, k5] [a1, a2, a3, a4, a5, a6] f =
     fake_bind t [k1, k2, k3, k4, k5] [a1, a2, a3, a4, a5, a6] f"
proof -
  have "\<not> str_contains lua_bind ''redis.call(\"DEL\", KEYS[1])''" by code_simp
  moreover have "str_contains lua_bind ''redis.call(\"SET\", KEYS[4], \"1\", \"EX\"''" by code_simp
  ultimately show ?thesis by (simp add: fake_eval_def)
qed

section \<open>The scripts over Redis commands\<close>

text \<open>
  The text of each script read command by command: \<open>GET\<close> and \<open>EXISTS\<close> see the live value,
  \<open>SET\<close> stores without expiry, \<open>SET .. EX n\<close> for n seconds, \<open>PEXPIRE\<close> re-times a live key,
  \<open>DEL\<close> removes.
\<close>

definition run_unlock :: "gtime \<Rightarrow> string \<Rightarrow> string \<Rightarrow> fake \<Rightarrow> int \<times> fake" where
  "run_unlock t k1 v1 f =
     (if fake_view t f k1 = Some v1
      then (if fake_view t f k1 = None then 0 else 1, mdel f k1) else (0, f))"

definition run_pexpire :: "gtime \<Rightarrow> string \<Rightarrow> int \<Rightarrow> fake \<Rightarrow> fake" where
  "run_pexpire t k ms f =
     (case fake_view t f k of None \<Rightarrow> f | Some v \<Rightarrow> set_locked t k v (ms * millisecond) f)"

definition run_bind ::
  "gtime \<Rightarrow> string \<times> string \<times> string \<times> string \<times> string \<Rightarrow> string \<times> string \<times> string \<times> int \<times> string \<times> int
   \<Rightarrow> fake \<Rightarrow> int \<times> fake" where
  "run_bind t = (\<lambda>(k1, k2, k3, k4, k5) (v1, v2, v3, n4, v5, n6) f.
     if fake_view t f k5 \<noteq> Some v5 then (- 1, f)
     else if fake_view t f k1 \<noteq> None then (0, f)
     else let f = set_locked t k1 v1 0 f;
              f = set_locked t k2 v2 0 f;
              f = set_locked t k3 v3 0 f;
              f = set_locked t k4 ''1'' (n4 * second) f;
              f = run_pexpire t k5 n6 f
          in (1, f))"

definition run_unbind :: "gtime \<Rightarrow> string \<Rightarrow> string \<Rightarrow> string \<Rightarrow> string \<Rightarrow> string \<Rightarrow> fake \<Rightarrow> fake" where
  "run_unbind t k1 k2 k3 k4 v1 f =
     (let f = (if fake_view t f k1 = Some v1 then mdel f k1 else f)
      in mdel (mdel (mdel f k2) k3) k4)"

lemma live_locked_pair: "live_locked t key f = (cur, f') \<longleftrightarrow>
    cur = fake_view t f key \<and> f' = snd (live_locked t key f)"
  by (metis live_locked_fst prod.collapse fst_conv snd_conv)

lemma run_pexpire_view: "fake_view t f k = Some v \<Longrightarrow> run_pexpire t k ms f = set_locked t k v (ms * millisecond) f"
  by (simp add: run_pexpire_def)

text \<open>
  Fake.Eval runs the unlock script as Redis would: it returns what the script returns and
  leaves the same live keys, now and at every later instant.
\<close>

theorem fake_unlock_script:
  "fst (fake_eval t lua_unlock [k1] [AStr v1] f) = Inr (fst (run_unlock t k1 v1 f)) \<and>
   (t \<le> t' \<longrightarrow> fake_view t' (snd (fake_eval t lua_unlock [k1] [AStr v1] f))
      = fake_view t' (snd (run_unlock t k1 v1 f)))"
proof -
  obtain f1 where f1: "live_locked t k1 f = (fake_view t f k1, f1)"
    "\<And>t'. t \<le> t' \<Longrightarrow> fake_view t' f1 = fake_view t' f"
    using live_locked_cases[of t k1 f] by blast
  then show ?thesis
    by (simp add: kv_eval_text fake_unlock_def run_unlock_def mdel_view)
qed

lemma fake_unlock_script_witness:
  "fake_view 5 (snd (fake_eval 4 lua_unlock [''l''] [AStr ''t''] (set_locked 1 ''l'' ''t'' 9 new_fake)))
     = fake_view 5 (snd (run_unlock 4 ''l'' ''t'' (set_locked 1 ''l'' ''t'' 9 new_fake)))"
  using fake_unlock_script[of 4 "''l''" "''t''" "set_locked 1 ''l'' ''t'' 9 new_fake" 5] by simp

text \<open>
  Fake.Eval runs the unbind script as Redis would: afterwards the same keys are live, now
  and at every later instant. (The count it returns includes expired keys, which DEL does
  not count; no caller reads it.)
\<close>

theorem fake_unbind_script:
  assumes "t \<le> t'"
  shows "fake_view t' (snd (fake_eval t lua_unbind [k1, k2, k3, k4] [AStr v1] f))
    = fake_view t' (run_unbind t k1 k2 k3 k4 v1 f)"
proof -
  obtain f1 where f1: "live_locked t k1 f = (fake_view t f k1, f1)"
    "\<And>t'. t \<le> t' \<Longrightarrow> fake_view t' f1 = fake_view t' f"
    using live_locked_cases[of t k1 f] by blast
  have "fake_view t' (snd (fake_eval t lua_unbind [k1, k2, k3, k4] [AStr v1] f)) =
     (\<lambda>k. if k \<in> set [k2, k3, k4] then None
          else fake_view t' (if fake_view t f k1 = Some v1 then mdel f1 k1 else f1) k)"
    by (simp add: kv_eval_text fake_unbind_def f1(1) Let_def del_keys_view[symmetric] split: prod.split
        del: del_keys.simps set_simps)
  then show ?thesis
    using assms by (auto simp: run_unbind_def mdel_view f1(2) fun_eq_iff)
qed

lemma fake_unbind_script_witness:
  "fake_view 5 (snd (fake_eval 4 lua_unbind [''c'', ''r'', ''m'', ''l''] [AStr ''sb'']
       (set_locked 1 ''c'' ''sb'' 0 new_fake)))
    = fake_view 5 (run_unbind 4 ''c'' ''r'' ''m'' ''l'' ''sb'' (set_locked 1 ''c'' ''sb'' 0 new_fake))"
  using fake_unbind_script[of 4 5 "''c''" "''r''" "''m''" "''l''" "''sb''"] by simp

lemma fake_bind_views:
  assumes n4: "0 \<le> n4" "n4 * second \<le> max_int64" and n6: "0 \<le> n6" "n6 * millisecond \<le> max_int64"
    and "t \<le> t'" and ne: "k5 \<noteq> k1" "k5 \<noteq> k2" "k5 \<noteq> k3" "k5 \<noteq> k4"
    and lock: "fake_view t f k5 = Some v5" and free: "fake_view t f k1 = None"
  shows "fst (fake_bind t [k1, k2, k3, k4, k5] [AStr v1, AStr v2, AStr v3, AInt n4, AStr v5, AInt n6] f) = Inr 1"
    "fake_view t' (snd (fake_bind t [k1, k2, k3, k4, k5]
         [AStr v1, AStr v2, AStr v3, AInt n4, AStr v5, AInt n6] f)) =
     fake_view t' (snd (run_bind t (k1, k2, k3, k4, k5) (v1, v2, v3, n4, v5, n6) f))"
proof -
  obtain f1 where f1: "live_locked t k5 f = (Some v5, f1)"
    "\<And>t'. t \<le> t' \<Longrightarrow> fake_view t' f1 = fake_view t' f"
    using live_locked_cases[of t k5 f] lock by metis
  obtain f2 where f2: "live_locked t k1 f1 = (None, f2)"
    "\<And>t'. t \<le> t' \<Longrightarrow> fake_view t' f2 = fake_view t' f1"
    using live_locked_cases[of t k1 f1] f1(2)[of t] free by (metis order_refl)
  have "n4 \<le> max_int64" "n6 \<le> max_int64"
    using n4 n6 by (simp_all add: second_def millisecond_def max_int64_def)
  then have a4: "fst (atoi (itoa n4)) = n4" and a6: "fst (atoi (itoa n6)) = n6"
    using n4 n6 by (simp_all add: atoi_itoa min_int64_def)
  have i4: "int64 (n4 * second) = n4 * second" and i6: "int64 (n6 * millisecond) = n6 * millisecond"
    using n4 n6 by (simp_all add: int64_id min_int64_def second_def millisecond_def)
  show "fst (fake_bind t [k1, k2, k3, k4, k5] [AStr v1, AStr v2, AStr v3, AInt n4, AStr v5, AInt n6] f) = Inr 1"
    by (simp add: fake_bind_def f1(1) f2(1) Let_def)
  show "fake_view t' (snd (fake_bind t [k1, k2, k3, k4, k5]
         [AStr v1, AStr v2, AStr v3, AInt n4, AStr v5, AInt n6] f)) =
     fake_view t' (snd (run_bind t (k1, k2, k3, k4, k5) (v1, v2, v3, n4, v5, n6) f))"
    using \<open>t \<le> t'\<close> ne
    by (simp add: fake_bind_def run_bind_def f1 f2 Let_def a4 a6 i4 i6 lock free run_pexpire_def
        set_locked_view set_locked_view_at)
qed

text \<open>
  Fake.Eval runs the bind script as Redis would, whatever the lock holder, the lease and the
  lock times (within Go's Duration): it returns what the script returns and leaves the same live
  keys, now and at every later instant.
\<close>

theorem fake_bind_script:
  assumes "0 \<le> n4" "n4 * second \<le> max_int64" "0 \<le> n6" "n6 * millisecond \<le> max_int64"
    and "t \<le> t'" "k5 \<noteq> k1" "k5 \<noteq> k2" "k5 \<noteq> k3" "k5 \<noteq> k4"
  shows "fst (fake_eval t lua_bind [k1, k2, k3, k4, k5]
        [AStr v1, AStr v2, AStr v3, AInt n4, AStr v5, AInt n6] f) =
      Inr (fst (run_bind t (k1, k2, k3, k4, k5) (v1, v2, v3, n4, v5, n6) f)) \<and>
    fake_view t' (snd (fake_eval t lua_bind [k1, k2, k3, k4, k5]
        [AStr v1, AStr v2, AStr v3, AInt n4, AStr v5, AInt n6] f)) =
      fake_view t' (snd (run_bind t (k1, k2, k3, k4, k5) (v1, v2, v3, n4, v5, n6) f))"
proof (cases "fake_view t f k5 = Some v5 \<and> fake_view t f k1 = None")
  case True
  then have "fst (run_bind t (k1, k2, k3, k4, k5) (v1, v2, v3, n4, v5, n6) f) = 1"
    by (simp add: run_bind_def Let_def)
  with True assms show ?thesis
    by (simp add: kv_eval_text fake_bind_views)
next
  case False
  obtain f1 where f1: "live_locked t k5 f = (fake_view t f k5, f1)"
    "\<And>t'. t \<le> t' \<Longrightarrow> fake_view t' f1 = fake_view t' f"
    using live_locked_cases[of t k5 f] by blast
  obtain f2 where f2: "live_locked t k1 f1 = (fake_view t f1 k1, f2)"
    "\<And>t'. t \<le> t' \<Longrightarrow> fake_view t' f2 = fake_view t' f1"
    using live_locked_cases[of t k1 f1] by blast
  from False assms(5) show ?thesis
    by (auto simp: kv_eval_text fake_bind_def run_bind_def f1 f2 split: option.splits)
qed

lemma fake_bind_script_witness:
  "fake_view 5 (snd (fake_eval 4 lua_bind [''c'', ''r'', ''m'', ''e'', ''k'']
      [AStr ''sb'', AStr ''s'', AStr ''{}'', AInt 1800, AStr ''t'', AInt 300000] (set_locked 1 ''k'' ''t'' 9 new_fake))) =
   fake_view 5 (snd (run_bind 4 (''c'', ''r'', ''m'', ''e'', ''k'')
      (''sb'', ''s'', ''{}'', 1800, ''t'', 300000) (set_locked 1 ''k'' ''t'' 9 new_fake)))"
  using fake_bind_script[of 1800 300000 4 5 "''k''" "''c''" "''r''" "''m''" "''e''"]
  by (simp add: second_def millisecond_def max_int64_def)

end
