(* ===== verification/Orch_Types.thy ===== *)
theory Orch_Types
  imports Redis_KV "HOL-Library.Word"
begin

text \<open>
  The vocabulary of \<open>apps/sandbox-manager/internal/orchestrator\<close>: its errors with
  \<open>errors.Is\<close> and \<open>errors.Join\<close>, the Redis key namespace (\<open>keys.go\<close>), the provider, capacity and
  storage interfaces it is written against (\<open>provider.go\<close>, \<open>capacity.go\<close>, \<open>storage.go\<close>), and
  the \<open>Binder\<close> that bundles them. Every call of an interface is a computation over a state \<open>'s\<close>
  the model leaves open, so that a call may fail, and other processes may act before it returns.
\<close>

abbreviation ret :: "'a \<Rightarrow> ('s, 'a) state" where "ret x \<equiv> State_Monad.return x"

section \<open>Errors\<close>

datatype orch_error =
    ErrLockHeld | ErrSessionOwnerMismatch | ErrSessionLockLost | ErrUnknownSandbox
  | ErrCapacityBusy | ErrWorkspaceNodeUnavailable | ErrSessionStorageOwnerMismatch
  | ErrNotExist \<comment> \<open>\<open>fs.ErrNotExist\<close>\<close>
  | ErrCtx \<comment> \<open>\<open>ctx.Err()\<close>\<close>
  | ErrJSON
  | ErrKV kv_error
  | ErrText string \<comment> \<open>an \<open>errors.New\<close> that no code compares against\<close>
  | ErrWrap string orch_error \<comment> \<open>\<open>fmt.Errorf("..: %w", err)\<close>\<close>
  | ErrJoin "orch_error list"

fun err_is :: "orch_error \<Rightarrow> orch_error \<Rightarrow> bool" where
  "err_is (ErrWrap s e) t \<longleftrightarrow> ErrWrap s e = t \<or> err_is e t"
| "err_is (ErrJoin es) t \<longleftrightarrow> ErrJoin es = t \<or> list_ex (\<lambda>e. err_is e t) es"
| "err_is e t \<longleftrightarrow> e = t"

definition err_join :: "orch_error option list \<Rightarrow> orch_error option" where
  "err_join es = (let errs = map the (filter (\<lambda>e. e \<noteq> None) es)
     in if errs = [] then None else Some (ErrJoin errs))"

definition err_of :: "orch_error + 'a \<Rightarrow> orch_error option" where
  "err_of r = (case r of Inl e \<Rightarrow> Some e | Inr _ \<Rightarrow> None)"

definition of_err :: "orch_error option \<Rightarrow> orch_error + unit" where
  "of_err e = (case e of None \<Rightarrow> Inr () | Some e \<Rightarrow> Inl e)"

definition wrap_err :: "string \<Rightarrow> orch_error + 'a \<Rightarrow> orch_error + 'a" where
  "wrap_err msg r = (case r of Inl e \<Rightarrow> Inl (ErrWrap msg e) | Inr a \<Rightarrow> Inr a)"

type_synonym ('s, 'a) orch = "('s, orch_error + 'a) state"

text \<open>\<open>a, err := m; if err != nil { return err }; ..\<close>\<close>

definition andthen :: "('s, 'a) orch \<Rightarrow> ('a \<Rightarrow> ('s, 'b) orch) \<Rightarrow> ('s, 'b) orch" where
  "andthen m f = do { r \<leftarrow> m; case r of Inl e \<Rightarrow> ret (Inl e) | Inr a \<Rightarrow> f a }"

text \<open>\<open>defer func() { _ = fin() }(); return m\<close>\<close>

definition deferred :: "('s, 'b) state \<Rightarrow> ('s, 'a) state \<Rightarrow> ('s, 'a) state" where
  "deferred fin m = do { r \<leftarrow> m; _ \<leftarrow> fin; ret r }"

text \<open>A KV call, its error taken into the orchestrator's.\<close>

definition of_kv :: "('s, kv_error + 'a) state \<Rightarrow> ('s, 'a) orch" where
  "of_kv m = do { r \<leftarrow> m; ret (map_sum ErrKV id r) }"

section \<open>Keys\<close>

definition key_prefix :: string where "key_prefix = ''cocola:sb:''"
definition conv_key :: "string \<Rightarrow> string" where "conv_key session = key_prefix @ ''conv:'' @ session"
definition rev_key :: "string \<Rightarrow> string" where "rev_key sandbox = key_prefix @ ''rev:'' @ sandbox"
definition lock_key :: "string \<Rightarrow> string" where "lock_key session = key_prefix @ ''lock:'' @ session"
definition lease_key :: "string \<Rightarrow> string" where "lease_key sandbox = key_prefix @ ''lease:'' @ sandbox"
definition meta_prefix :: string where "meta_prefix = key_prefix @ ''meta:''"
definition meta_key :: "string \<Rightarrow> string" where "meta_key sandbox = meta_prefix @ sandbox"
definition meta_scan_pattern :: string where "meta_scan_pattern = meta_prefix @ ''*''"

lemmas key_defs = key_prefix_def conv_key_def rev_key_def lock_key_def lease_key_def meta_prefix_def meta_key_def

lemma keys_inj [simp]:
  "conv_key a = conv_key b \<longleftrightarrow> a = b" "rev_key a = rev_key b \<longleftrightarrow> a = b"
  "lock_key a = lock_key b \<longleftrightarrow> a = b" "lease_key a = lease_key b \<longleftrightarrow> a = b"
  "meta_key a = meta_key b \<longleftrightarrow> a = b"
  by (simp_all add: key_defs)

lemma keys_distinct [simp]:
  "conv_key a \<noteq> rev_key b" "conv_key a \<noteq> lock_key b" "conv_key a \<noteq> lease_key b" "conv_key a \<noteq> meta_key b"
  "rev_key a \<noteq> conv_key b" "rev_key a \<noteq> lock_key b" "rev_key a \<noteq> lease_key b" "rev_key a \<noteq> meta_key b"
  "lock_key a \<noteq> conv_key b" "lock_key a \<noteq> rev_key b" "lock_key a \<noteq> lease_key b" "lock_key a \<noteq> meta_key b"
  "lease_key a \<noteq> conv_key b" "lease_key a \<noteq> rev_key b" "lease_key a \<noteq> lock_key b" "lease_key a \<noteq> meta_key b"
  "meta_key a \<noteq> conv_key b" "meta_key a \<noteq> rev_key b" "meta_key a \<noteq> lock_key b" "meta_key a \<noteq> lease_key b"
  by (simp_all add: key_defs)

definition state_active :: string where "state_active = ''active''"

record meta =
  m_sandbox_id :: string
  m_session_id :: string
  m_user_id :: string
  m_image :: string
  m_state :: string
  m_created_unix :: int
  m_node_name :: string
  m_storage_id :: string
  m_pvc_namespace :: string
  m_session_claim :: string
  m_storage_generation :: int

definition meta_zero :: meta where
  "meta_zero = \<lparr>m_sandbox_id = [], m_session_id = [], m_user_id = [], m_image = [], m_state = [],
     m_created_unix = 0, m_node_name = [], m_storage_id = [], m_pvc_namespace = [],
     m_session_claim = [], m_storage_generation = 0\<rparr>"

section \<open>The provider's interface\<close>

record resources =
  res_cpu_cores :: "64 word" \<comment> \<open>the bits of a float64\<close>
  res_memory_mib :: int
  res_disk_mib :: int

text \<open>A Go slice that may be nil: None is nil, which differs from an empty slice.\<close>

record networking =
  egress_allowlist :: "string list option"

record sandbox_spec =
  sp_user_id :: string
  sp_session_id :: string
  sp_image :: string
  sp_env :: "(string, string) gomap"
  sp_resources :: resources
  sp_networking :: networking
  sp_target_node :: string
  sp_session_claim :: string

record sandbox =
  sb_id :: string
  sb_user_id :: string
  sb_session_id :: string
  sb_node_name :: string
  sb_storage_id :: string
  sb_session_claim :: string
  sb_storage_generation :: int
  sb_pvc_namespace :: string
  sb_endpoint :: string

datatype workspace_state = WorkspaceFresh | WorkspacePreserved | WorkspaceReset

record health_status =
  h_healthy :: bool
  h_transitional :: bool
  h_detail :: string

text \<open>\<open>p_cleanup\<close> is the optional \<open>SessionStorageCleaner\<close>.\<close>

record 's provider_ops =
  p_create :: "sandbox_spec \<Rightarrow> ('s, sandbox) orch"
  p_destroy :: "string \<Rightarrow> ('s, unit) orch"
  p_health :: "string \<Rightarrow> ('s, health_status option) orch"
  p_cleanup :: "(string \<Rightarrow> string \<Rightarrow> ('s, unit) orch) option"

section \<open>Capacity and storage interfaces\<close>

text \<open>\<open>cap_available\<close> is the optional \<open>NodeAvailabilityChecker\<close>.\<close>

record 's capacity_ops =
  cap_select :: "string \<Rightarrow> string \<Rightarrow> (string, int) gomap \<Rightarrow> ('s, string) orch"
  cap_available :: "(string \<Rightarrow> ('s, bool) orch) option"

record storage_binding =
  st_storage_id :: string
  st_session_id :: string
  st_user_id :: string
  st_pvc_namespace :: string
  st_pvc_name :: string
  st_node_name :: string
  st_generation :: int
  st_requested_bytes :: int
  st_last_reset_reason :: string
  st_last_reset_at :: "gtime option"

definition storage_binding_zero :: storage_binding where
  "storage_binding_zero = \<lparr>st_storage_id = [], st_session_id = [], st_user_id = [],
     st_pvc_namespace = [], st_pvc_name = [], st_node_name = [], st_generation = 0,
     st_requested_bytes = 0, st_last_reset_reason = [], st_last_reset_at = None\<rparr>"

record 's storage_ops =
  st_get :: "string \<Rightarrow> string \<Rightarrow> ('s, storage_binding option) orch"
  st_create :: "string \<Rightarrow> string \<Rightarrow> string \<Rightarrow> ('s, storage_binding) orch"
  st_prepare_reset :: "storage_binding \<Rightarrow> string \<Rightarrow> string \<Rightarrow> ('s, storage_binding) orch"
  st_commit_reset :: "storage_binding \<Rightarrow> storage_binding \<Rightarrow> ('s, storage_binding) orch"
  st_discard_reset :: "storage_binding \<Rightarrow> ('s, unit) orch"
  st_ensure_pvc :: "storage_binding \<Rightarrow> ('s, unit) orch"
  st_node_bytes :: "('s, (string, int) gomap) orch"
  st_delete :: "string \<Rightarrow> string \<Rightarrow> ('s, unit) orch"

section \<open>The Binder\<close>

record config =
  cfg_lease_ttl :: duration
  cfg_lock_ttl :: duration
  cfg_reaper_every :: duration
  cfg_lock_retry :: duration

definition minute :: duration where "minute = 60 * second"
definition default_lease_ttl :: duration where "default_lease_ttl = 30 * minute"
definition default_lock_ttl :: duration where "default_lock_ttl = 5 * minute"
definition default_reaper_every :: duration where "default_reaper_every = 10 * second"

definition with_defaults :: "config \<Rightarrow> config" where
  "with_defaults c =
     (let c = (if cfg_lease_ttl c = 0 then c\<lparr>cfg_lease_ttl := default_lease_ttl\<rparr> else c);
          c = (if cfg_lock_ttl c = 0 then c\<lparr>cfg_lock_ttl := default_lock_ttl\<rparr> else c);
          c = (if cfg_reaper_every c = 0 then c\<lparr>cfg_reaper_every := default_reaper_every\<rparr> else c)
      in if cfg_lock_retry c = 0 then c\<lparr>cfg_lock_retry := 50 * millisecond\<rparr> else c)"

record 's metrics_ops =
  ms_hit :: "('s, unit) state"
  ms_miss :: "duration \<Rightarrow> ('s, unit) state"
  ms_set_active :: "int \<Rightarrow> ('s, unit) state"

text \<open>
  What the code takes from Go's standard library: random tokens, the clock, a wait of one retry
  interval, the state of the caller's context, and \<open>encoding/json\<close> on \<open>meta\<close>. \<open>Unmarshal\<close> fills an
  existing struct, reports whether it succeeded, and may fill part of it when it fails.
\<close>

record 's runtime =
  rt_token :: "('s, string) state"
  rt_now :: "('s, gtime) state"
  rt_sleep :: "duration \<Rightarrow> ('s, unit) state"
  rt_ctx_err :: "('s, orch_error option) state"
  rt_marshal :: "meta \<Rightarrow> string"
  rt_unmarshal :: "string \<Rightarrow> meta \<Rightarrow> bool \<times> meta"

record 's session_binder =
  b_kv :: "'s kv_ops"
  b_p :: "'s provider_ops"
  b_cfg :: config
  b_lease_source :: "('s, duration) state option"
  b_net :: networking
  b_metrics :: "'s metrics_ops option"
  b_cap :: "'s capacity_ops option"
  b_storage :: "'s storage_ops option"
  b_rt :: "'s runtime"

definition current_lease_ttl :: "'s session_binder \<Rightarrow> ('s, duration) state" where
  "current_lease_ttl B = (case b_lease_source B of
     None \<Rightarrow> ret (cfg_lease_ttl (b_cfg B))
   | Some source \<Rightarrow> do { ttl \<leftarrow> source; ret (if ttl > 0 then ttl else cfg_lease_ttl (b_cfg B)) })"

record acquire_spec =
  as_session_id :: string
  as_user_id :: string
  as_image :: string
  as_env :: "(string, string) gomap"
  as_allow_reset :: bool
  as_egress :: "string list"

record outcome =
  o_sandbox :: sandbox
  o_reused :: bool
  o_workspace_state :: workspace_state
  o_workspace_node :: string
  o_previous_node :: string

record prepared_reset =
  pr_current :: storage_binding
  pr_next :: storage_binding

end
