(* ===== verification/Session_Binder.thy ===== *)
theory Session_Binder
  imports Orch_Types
begin

text \<open>
  \<open>lock.go\<close>, \<open>binder.go\<close>, \<open>heartbeat.go\<close>, \<open>reaper.go\<close>, \<open>drain.go\<close> and \<open>mergeSessionNetworking\<close>:
  every operation of the session-to-sandbox Binder. A caller's context is the number of retry
  intervals that fit before its deadline; the other effects of a deadline are errors of the calls.
\<close>

section \<open>The distributed lock\<close>

record dist_lock =
  lk_key :: string
  lk_token :: string

type_synonym ctx = nat

definition try_lock :: "'s session_binder \<Rightarrow> string \<Rightarrow> duration \<Rightarrow> ('s, dist_lock) orch" where
  "try_lock B session ttl = do {
     token \<leftarrow> rt_token (b_rt B);
     r \<leftarrow> kv_setnx (b_kv B) (lock_key session) token ttl;
     ret (case r of
         Inl e \<Rightarrow> Inl (ErrKV e)
       | Inr False \<Rightarrow> Inl ErrLockHeld
       | Inr True \<Rightarrow> Inr \<lparr>lk_key = lock_key session, lk_token = token\<rparr>) }"

fun acquire_lock :: "ctx \<Rightarrow> 's session_binder \<Rightarrow> string \<Rightarrow> duration \<Rightarrow> duration \<Rightarrow> ('s, dist_lock) orch" where
  "acquire_lock ctx B session ttl retry = do {
     r \<leftarrow> try_lock B session ttl;
     case r of
       Inr l \<Rightarrow> ret (Inr l)
     | Inl e \<Rightarrow>
         if \<not> err_is e ErrLockHeld then ret (Inl e)
         else case ctx of
             0 \<Rightarrow> ret (Inl ErrCtx)
           | Suc ctx \<Rightarrow> do {
               _ \<leftarrow> rt_sleep (b_rt B) retry;
               acquire_lock ctx B session ttl retry } }"

declare acquire_lock.simps [simp del]

definition release_lock :: "'s session_binder \<Rightarrow> dist_lock \<Rightarrow> ('s, unit) orch" where
  "release_lock B l = andthen (of_kv (kv_eval (b_kv B) lua_unlock [lk_key l] [AStr (lk_token l)]))
     (\<lambda>_. ret (Inr ()))"

text \<open>\<open>lock, err := acquireLock(..); if err != nil { .. }; defer lock.release(ctx)\<close>\<close>

definition under_session_lock ::
  "ctx \<Rightarrow> 's session_binder \<Rightarrow> string \<Rightarrow> string \<Rightarrow> (dist_lock \<Rightarrow> ('s, 'a) orch) \<Rightarrow> ('s, 'a) orch" where
  "under_session_lock ctx B msg session body = do {
     r \<leftarrow> acquire_lock ctx B session (cfg_lock_ttl (b_cfg B)) (cfg_lock_retry (b_cfg B));
     case r of
       Inl e \<Rightarrow> ret (Inl (ErrWrap msg e))
     | Inr lock \<Rightarrow> deferred (release_lock B lock) (body lock) }"

section \<open>Registry writes\<close>

definition renew_lease :: "'s session_binder \<Rightarrow> string \<Rightarrow> ('s, unit) orch" where
  "renew_lease B sandbox = do {
     ttl \<leftarrow> current_lease_ttl B;
     of_kv (kv_set (b_kv B) (lease_key sandbox) ''1'' ttl) }"

definition unbind :: "'s session_binder \<Rightarrow> string \<Rightarrow> string \<Rightarrow> ('s, unit) orch" where
  "unbind B session sandbox =
     andthen (of_kv (kv_eval (b_kv B) lua_unbind
         [conv_key session, rev_key sandbox, meta_key sandbox, lease_key sandbox] [AStr sandbox]))
       (\<lambda>_. ret (Inr ()))"

definition bind_lock_lost :: int where "bind_lock_lost = - 1"
definition bind_exists :: int where "bind_exists = 0"
definition bind_won :: int where "bind_won = 1"

definition go_seconds :: "duration \<Rightarrow> int" where
  \<comment> \<open>\<open>int(d.Seconds())\<close>: exact while d is below 97 days, where float64 still tells the nanoseconds apart\<close>
  "go_seconds d = sgn d * (\<bar>d\<bar> div second)"

definition bind_meta :: "'s session_binder \<Rightarrow> meta \<Rightarrow> dist_lock \<Rightarrow> ('s, int) orch" where
  "bind_meta B m lock = do {
     ttl \<leftarrow> current_lease_ttl B;
     of_kv (kv_eval (b_kv B) lua_bind
       [conv_key (m_session_id m), rev_key (m_sandbox_id m), meta_key (m_sandbox_id m),
        lease_key (m_sandbox_id m), lk_key lock]
       [AStr (m_sandbox_id m), AStr (m_session_id m), AStr (rt_marshal (b_rt B) m),
        AInt (go_seconds ttl), AStr (lk_token lock),
        AInt (max 1 (milliseconds (cfg_lock_ttl (b_cfg B))))]) }"

definition put_meta :: "'s session_binder \<Rightarrow> meta \<Rightarrow> ('s, unit) orch" where
  "put_meta B m = of_kv (kv_set (b_kv B) (meta_key (m_sandbox_id m)) (rt_marshal (b_rt B) m) 0)"

text \<open>\<open>if err := p.Destroy(..); err != nil && !errors.Is(err, fs.ErrNotExist)\<close>\<close>

definition destroy_gone :: "'s session_binder \<Rightarrow> string \<Rightarrow> ('s, unit) orch" where
  "destroy_gone B sandbox = do {
     r \<leftarrow> p_destroy (b_p B) sandbox;
     ret (case r of Inl e \<Rightarrow> if err_is e ErrNotExist then Inr () else Inl e | Inr _ \<Rightarrow> Inr ()) }"

definition record_hit :: "'s session_binder \<Rightarrow> ('s, unit) state" where
  "record_hit B = (case b_metrics B of None \<Rightarrow> ret () | Some ms \<Rightarrow> ms_hit ms)"

definition record_miss :: "'s session_binder \<Rightarrow> duration \<Rightarrow> ('s, unit) state" where
  "record_miss B d = (case b_metrics B of None \<Rightarrow> ret () | Some ms \<Rightarrow> ms_miss ms d)"

section \<open>Lookup\<close>

definition sandbox_of_meta :: "meta \<Rightarrow> sandbox" where
  "sandbox_of_meta m = \<lparr>sb_id = m_sandbox_id m, sb_user_id = m_user_id m, sb_session_id = m_session_id m,
     sb_node_name = m_node_name m, sb_storage_id = m_storage_id m, sb_session_claim = m_session_claim m,
     sb_storage_generation = m_storage_generation m, sb_pvc_namespace = m_pvc_namespace m,
     sb_endpoint = []\<rparr>"

definition lookup_dead :: "'s session_binder \<Rightarrow> meta \<Rightarrow> ('s, sandbox option) orch" where
  \<comment> \<open>an unhealthy sandbox: destroy it, then drop its binding\<close>
  "lookup_dead B m = do {
     r \<leftarrow> destroy_gone B (m_sandbox_id m);
     andthen (ret (wrap_err ''destroy unhealthy sandbox'' r)) (\<lambda>_.
       andthen (unbind B (m_session_id m) (m_sandbox_id m)) (\<lambda>_. ret (Inr None))) }"

definition lookup_health :: "'s session_binder \<Rightarrow> string \<Rightarrow> meta \<Rightarrow> ('s, sandbox option) orch" where
  "lookup_health B sid m = do {
     r \<leftarrow> p_health (b_p B) sid;
     case r of
       Inl e \<Rightarrow>
         if err_is e ErrNotExist
         then andthen (unbind B (m_session_id m) (m_sandbox_id m)) (\<lambda>_. ret (Inr None))
         else ret (Inl (ErrWrap ''health sandbox'' e))
     | Inr None \<Rightarrow> lookup_dead B m
     | Inr (Some h) \<Rightarrow>
         if h_healthy h then ret (Inr (Some (sandbox_of_meta m)))
         else if h_transitional h then ret (Inl (ErrText (''sandbox is not ready: '' @ h_detail h)))
         else lookup_dead B m }"

definition lookup_meta :: "'s session_binder \<Rightarrow> string \<Rightarrow> string \<Rightarrow> string \<Rightarrow> ('s, sandbox option) orch" where
  "lookup_meta B session user sid = do {
     r \<leftarrow> kv_get (b_kv B) (meta_key sid);
     case r of
       Inl KvNil \<Rightarrow> do { _ \<leftarrow> kv_del (b_kv B) [conv_key session]; ret (Inr None) }
     | Inl e \<Rightarrow> ret (Inl (ErrKV e))
     | Inr raw \<Rightarrow>
         (case rt_unmarshal (b_rt B) raw meta_zero of
            (False, _) \<Rightarrow> ret (Inl ErrJSON)
          | (True, m) \<Rightarrow>
              if m_user_id m = [] \<or> m_user_id m \<noteq> user then ret (Inl ErrSessionOwnerMismatch)
              else lookup_health B sid m) }"

definition lookup_session :: "'s session_binder \<Rightarrow> string \<Rightarrow> string \<Rightarrow> ('s, sandbox option) orch" where
  "lookup_session B session user = do {
     r \<leftarrow> kv_get (b_kv B) (conv_key session);
     case r of
       Inl KvNil \<Rightarrow> ret (Inr None)
     | Inl e \<Rightarrow> ret (Inl (ErrKV e))
     | Inr sid \<Rightarrow> lookup_meta B session user sid }"

definition lookup_binding :: "'s session_binder \<Rightarrow> string \<Rightarrow> string \<Rightarrow> ('s, sandbox option) orch" where
  "lookup_binding B session user =
     (if session = [] then ret (Inl (ErrText ''orchestrator: session id required''))
      else if user = [] then ret (Inl (ErrText ''orchestrator: user id required''))
      else lookup_session B session user)"

section \<open>Acquire\<close>

definition sandbox_matches_storage :: "sandbox \<Rightarrow> storage_binding \<Rightarrow> bool" where
  "sandbox_matches_storage sb b \<longleftrightarrow> sb_storage_id sb = st_storage_id b
     \<and> sb_pvc_namespace sb = st_pvc_namespace b \<and> sb_session_claim sb = st_pvc_name b
     \<and> sb_storage_generation sb = st_generation b \<and> sb_node_name sb = st_node_name b"

definition stale_binding :: "sandbox \<Rightarrow> storage_binding" where
  "stale_binding sb = storage_binding_zero\<lparr>st_storage_id := sb_storage_id sb,
     st_pvc_namespace := sb_pvc_namespace sb, st_pvc_name := sb_session_claim sb,
     st_generation := sb_storage_generation sb\<rparr>"

definition drop_stale_storage ::
  "'s session_binder \<Rightarrow> 's storage_ops \<Rightarrow> sandbox \<Rightarrow> acquire_spec \<Rightarrow> storage_binding option
   \<Rightarrow> ('s, bool \<times> bool) orch" where
  "drop_stale_storage B st sb spec found = do {
     r \<leftarrow> destroy_gone B (sb_id sb);
     andthen (ret (wrap_err ''destroy sandbox with stale storage binding'' r)) (\<lambda>_. do {
       unbind_err \<leftarrow> unbind B (as_session_id spec) (sb_id sb);
       discard_err \<leftarrow>
         (if sb_session_claim sb \<noteq> []
             \<and> (case found of None \<Rightarrow> True | Some b \<Rightarrow> sb_session_claim sb \<noteq> st_pvc_name b)
          then st_discard_reset st (stale_binding sb) else ret (Inr ()));
       ret (case err_join [err_of unbind_err, err_of discard_err] of
           Some e \<Rightarrow> Inl (ErrWrap ''clean stale storage binding'' e)
         | None \<Rightarrow> Inr (False, False)) }) }"

definition node_reusable :: "'s session_binder \<Rightarrow> sandbox \<Rightarrow> acquire_spec \<Rightarrow> ('s, bool \<times> bool) orch" where
  "node_reusable B sb spec =
     (case Option.bind (b_cap B) cap_available of
        None \<Rightarrow> ret (Inr (True, False))
      | Some available \<Rightarrow> andthen (available (sb_node_name sb)) (\<lambda>ok.
          if ok then ret (Inr (True, False))
          else if \<not> as_allow_reset spec then ret (Inl ErrWorkspaceNodeUnavailable)
          else ret (Inr (False, True))))"

text \<open>The pair is \<open>(reuse, resetRequired)\<close>.\<close>

definition running_sandbox_reusable ::
  "'s session_binder \<Rightarrow> sandbox \<Rightarrow> acquire_spec \<Rightarrow> ('s, bool \<times> bool) orch" where
  "running_sandbox_reusable B sb spec =
     (case b_storage B of
        None \<Rightarrow> ret (Inr (True, False))
      | Some st \<Rightarrow>
          if sb_node_name sb = [] then ret (Inr (True, False))
          else andthen (st_get st (as_user_id spec) (as_session_id spec)) (\<lambda>found.
            if (case found of None \<Rightarrow> True | Some b \<Rightarrow> \<not> sandbox_matches_storage sb b)
            then drop_stale_storage B st sb spec found
            else node_reusable B sb spec))"

text \<open>The reuse path: \<open>Some out\<close> is returned to the caller, None falls through to a fresh create.\<close>

definition reuse_running ::
  "'s session_binder \<Rightarrow> acquire_spec \<Rightarrow> sandbox \<Rightarrow> ('s, outcome option) orch" where
  "reuse_running B spec sb =
     andthen (running_sandbox_reusable B sb spec) (\<lambda>(reuse, reset_required).
       if reuse then
         andthen (renew_lease B (sb_id sb)) (\<lambda>_. do {
           _ \<leftarrow> record_hit B;
           ret (Inr (Some \<lparr>o_sandbox = sb, o_reused = True, o_workspace_state = WorkspacePreserved,
             o_workspace_node = sb_node_name sb, o_previous_node = []\<rparr>)) })
       else if reset_required then do {
         r \<leftarrow> destroy_gone B (sb_id sb);
         andthen (ret (wrap_err ''destroy sandbox before workspace reset'' r)) (\<lambda>_.
           andthen (unbind B (as_session_id spec) (sb_id sb)) (\<lambda>_. ret (Inr None))) }
       else ret (Inr None))"

record placement =
  pl_target :: string
  pl_claim :: string
  pl_binding :: storage_binding
  pl_state :: workspace_state
  pl_previous :: string
  pl_reset :: "prepared_reset option"

definition placement_zero :: placement where
  "placement_zero = \<lparr>pl_target = [], pl_claim = [], pl_binding = storage_binding_zero,
     pl_state = WorkspaceFresh, pl_previous = [], pl_reset = None\<rparr>"

definition place_reset ::
  "'s capacity_ops \<Rightarrow> 's storage_ops \<Rightarrow> storage_binding \<Rightarrow> ('s, placement) orch" where
  \<comment> \<open>the workspace's node is gone and the user accepts a reset: the next generation elsewhere\<close>
  "place_reset cap st current =
     andthen (st_node_bytes st) (\<lambda>requested.
       andthen (cap_select cap [] (st_node_name current) requested) (\<lambda>target.
         andthen (st_prepare_reset st current target ''previous workspace node unavailable'') (\<lambda>next.
           ret (Inr \<lparr>pl_target = target, pl_claim = st_pvc_name next, pl_binding = next,
             pl_state = WorkspaceReset, pl_previous = st_node_name current,
             pl_reset = Some \<lparr>pr_current = current, pr_next = next\<rparr>\<rparr>))))"

definition place_existing ::
  "'s capacity_ops \<Rightarrow> 's storage_ops \<Rightarrow> acquire_spec \<Rightarrow> storage_binding \<Rightarrow> ('s, placement) orch" where
  "place_existing cap st spec binding = do {
     r \<leftarrow> cap_select cap (st_node_name binding) [] mnil;
     andthen
       (case r of
          Inl e \<Rightarrow> if err_is e ErrWorkspaceNodeUnavailable \<and> as_allow_reset spec
                   then place_reset cap st binding else ret (Inl e)
        | Inr target \<Rightarrow> ret (Inr \<lparr>pl_target = target, pl_claim = st_pvc_name binding,
            pl_binding = binding, pl_state = WorkspacePreserved, pl_previous = [], pl_reset = None\<rparr>))
       (\<lambda>pl. andthen (st_ensure_pvc st (pl_binding pl)) (\<lambda>_. ret (Inr pl))) }"

definition place_new ::
  "'s capacity_ops \<Rightarrow> 's storage_ops \<Rightarrow> acquire_spec \<Rightarrow> ('s, placement) orch" where
  "place_new cap st spec =
     andthen (st_node_bytes st) (\<lambda>requested.
       andthen (cap_select cap [] [] requested) (\<lambda>target.
         andthen (st_create st (as_user_id spec) (as_session_id spec) target) (\<lambda>binding.
           ret (Inr (placement_zero\<lparr>pl_target := target, pl_claim := st_pvc_name binding,
             pl_binding := binding\<rparr>)))))"

definition place_workspace :: "'s session_binder \<Rightarrow> acquire_spec \<Rightarrow> ('s, placement) orch" where
  "place_workspace B spec =
     (case (b_storage B, b_cap B) of
        (Some st, None) \<Rightarrow> ret (Inl (ErrText ''orchestrator: session storage requires capacity guard''))
      | (Some st, Some cap) \<Rightarrow>
          andthen (st_get st (as_user_id spec) (as_session_id spec)) (\<lambda>found.
            case found of
              Some binding \<Rightarrow> place_existing cap st spec binding
            | None \<Rightarrow> place_new cap st spec)
      | (None, Some cap) \<Rightarrow>
          andthen (cap_select cap [] [] mnil) (\<lambda>target.
            ret (Inr (placement_zero\<lparr>pl_target := target\<rparr>)))
      | (None, None) \<Rightarrow> ret (Inr placement_zero))"

text \<open>\<open>networking.go\<close>. \<open>append([]string(nil), xs...)\<close> is nil when xs is empty.\<close>

definition add_egress :: "string \<Rightarrow> string list \<Rightarrow> string list" where
  "add_egress value out =
     (let value = trim_space value in
      if value \<noteq> [] \<and> value \<notin> set out then out @ [value] else out)"

definition merge_session_networking :: "networking \<Rightarrow> string list \<Rightarrow> networking" where
  "merge_session_networking base additional =
     (case egress_allowlist base of
        None \<Rightarrow> base
      | Some allow \<Rightarrow>
          (let out = fold add_egress additional allow
           in \<lparr>egress_allowlist = (if out = [] then None else Some out)\<rparr>))"

definition discard_reset_of :: "'s session_binder \<Rightarrow> prepared_reset option \<Rightarrow> ('s, unit) orch" where
  "discard_reset_of B reset =
     (case (reset, b_storage B) of
        (Some pr, Some st) \<Rightarrow> st_discard_reset st (pr_next pr)
      | _ \<Rightarrow> ret (Inr ()))"

definition cleanup_created_sandbox ::
  "'s session_binder \<Rightarrow> string \<Rightarrow> string \<Rightarrow> prepared_reset option \<Rightarrow> ('s, unit) orch" where
  "cleanup_created_sandbox B sandbox session reset =
     andthen (destroy_gone B sandbox) (\<lambda>_. do {
       unbind_err \<leftarrow> (if session \<noteq> [] then unbind B session sandbox else ret (Inr ()));
       discard_err \<leftarrow> discard_reset_of B reset;
       ret (of_err (err_join [err_of unbind_err, err_of discard_err])) })"

definition create_sandbox ::
  "'s session_binder \<Rightarrow> acquire_spec \<Rightarrow> placement \<Rightarrow> ('s, sandbox) orch" where
  "create_sandbox B spec pl = do {
     r \<leftarrow> p_create (b_p B)
       \<lparr>sp_user_id = as_user_id spec, sp_session_id = as_session_id spec, sp_image = as_image spec,
        sp_env = as_env spec,
        sp_resources = \<lparr>res_cpu_cores = 0, res_memory_mib = 0, res_disk_mib = 0\<rparr>,
        sp_networking = merge_session_networking (b_net B) (as_egress spec),
        sp_target_node = pl_target pl, sp_session_claim = pl_claim pl\<rparr>;
     case r of
       Inr sb \<Rightarrow> ret (Inr (sb\<lparr>sb_node_name := pl_target pl,
         sb_storage_id := st_storage_id (pl_binding pl), sb_pvc_namespace := st_pvc_namespace (pl_binding pl),
         sb_session_claim := st_pvc_name (pl_binding pl),
         sb_storage_generation := st_generation (pl_binding pl)\<rparr>))
     | Inl e \<Rightarrow> (case pl_reset pl of
           None \<Rightarrow> ret (Inl (ErrWrap ''provider create'' e))
         | Some pr \<Rightarrow> do {
             d \<leftarrow> discard_reset_of B (Some pr);
             ret (Inl (ErrWrap ''provider create'' (the (err_join [Some e, err_of d])))) }) }"

definition unix_seconds :: "gtime \<Rightarrow> int" where
  "unix_seconds t = t div second - 62135596800"

definition meta_for :: "acquire_spec \<Rightarrow> placement \<Rightarrow> sandbox \<Rightarrow> gtime \<Rightarrow> meta" where
  "meta_for spec pl sb now = \<lparr>m_sandbox_id = sb_id sb, m_session_id = as_session_id spec,
     m_user_id = as_user_id spec, m_image = as_image spec, m_state = state_active,
     m_created_unix = unix_seconds now, m_node_name = pl_target pl,
     m_storage_id = st_storage_id (pl_binding pl), m_pvc_namespace = st_pvc_namespace (pl_binding pl),
     m_session_claim = st_pvc_name (pl_binding pl), m_storage_generation = st_generation (pl_binding pl)\<rparr>"

text \<open>
  The create lost the race. Its sandbox is destroyed, then the winner is looked up and returned,
  unless its storage is not the durable one yet.
\<close>

definition winner_durable :: "'s session_binder \<Rightarrow> acquire_spec \<Rightarrow> sandbox \<Rightarrow> ('s, unit) orch" where
  "winner_durable B spec winner =
     (case b_storage B of
        None \<Rightarrow> ret (Inr ())
      | Some st \<Rightarrow> andthen (st_get st (as_user_id spec) (as_session_id spec)) (\<lambda>found.
          if (case found of None \<Rightarrow> False | Some b \<Rightarrow> sandbox_matches_storage winner b)
          then ret (Inr ()) else ret (Inl ErrSessionLockLost)))"

definition acquire_lost ::
  "'s session_binder \<Rightarrow> acquire_spec \<Rightarrow> placement \<Rightarrow> sandbox \<Rightarrow> int \<Rightarrow> ('s, outcome) orch" where
  "acquire_lost B spec pl sb status = do {
     c \<leftarrow> cleanup_created_sandbox B (sb_id sb) [] (pl_reset pl);
     andthen (ret (wrap_err ''cleanup concurrent create loser'' c)) (\<lambda>_.
       andthen (lookup_session B (as_session_id spec) (as_user_id spec)) (\<lambda>found.
         case found of
           None \<Rightarrow> ret (Inl (if status = bind_lock_lost then ErrSessionLockLost
                        else ErrText ''concurrent sandbox winner is unavailable''))
         | Some winner \<Rightarrow>
             andthen (winner_durable B spec winner) (\<lambda>_.
               andthen (renew_lease B (sb_id winner)) (\<lambda>_. do {
                 _ \<leftarrow> record_hit B;
                 ret (Inr \<lparr>o_sandbox = winner, o_reused = True, o_workspace_state = WorkspacePreserved,
                   o_workspace_node = sb_node_name winner, o_previous_node = []\<rparr>) })))) }"

definition commit_workspace_reset ::
  "'s session_binder \<Rightarrow> acquire_spec \<Rightarrow> placement \<Rightarrow> sandbox \<Rightarrow> ('s, unit) orch" where
  "commit_workspace_reset B spec pl sb =
     (case (pl_reset pl, b_storage B) of
        (Some pr, Some st) \<Rightarrow> do {
          r \<leftarrow> st_commit_reset st (pr_current pr) (pr_next pr);
          case r of
            Inr _ \<Rightarrow> ret (Inr ())
          | Inl e \<Rightarrow> do {
              c \<leftarrow> cleanup_created_sandbox B (sb_id sb) (as_session_id spec) (Some pr);
              ret (Inl (ErrWrap ''commit workspace reset'' (the (err_join [Some e, err_of c])))) } }
      | _ \<Rightarrow> ret (Inr ()))"

definition bind_created ::
  "'s session_binder \<Rightarrow> acquire_spec \<Rightarrow> dist_lock \<Rightarrow> gtime \<Rightarrow> placement \<Rightarrow> sandbox \<Rightarrow> ('s, outcome) orch" where
  "bind_created B spec lock start pl sb = do {
     now \<leftarrow> rt_now (b_rt B);
     r \<leftarrow> bind_meta B (meta_for spec pl sb now) lock;
     case r of
       Inl e \<Rightarrow> do {
         c \<leftarrow> cleanup_created_sandbox B (sb_id sb) [] (pl_reset pl);
         ret (Inl (ErrWrap ''bind'' (the (err_join [Some e, err_of c])))) }
     | Inr status \<Rightarrow>
         if status \<noteq> bind_won then acquire_lost B spec pl sb status
         else andthen (commit_workspace_reset B spec pl sb) (\<lambda>_. do {
           fin \<leftarrow> rt_now (b_rt B);
           _ \<leftarrow> record_miss B (time_sub fin start);
           ret (Inr \<lparr>o_sandbox = sb, o_reused = False, o_workspace_state = pl_state pl,
             o_workspace_node = pl_target pl, o_previous_node = pl_previous pl\<rparr>) }) }"

definition acquire_fresh :: "'s session_binder \<Rightarrow> acquire_spec \<Rightarrow> dist_lock \<Rightarrow> ('s, outcome) orch" where
  "acquire_fresh B spec lock = do {
     start \<leftarrow> rt_now (b_rt B);
     andthen (place_workspace B spec) (\<lambda>pl.
       andthen (create_sandbox B spec pl) (\<lambda>sb. bind_created B spec lock start pl sb)) }"

definition acquire_locked :: "'s session_binder \<Rightarrow> acquire_spec \<Rightarrow> dist_lock \<Rightarrow> ('s, outcome) orch" where
  "acquire_locked B spec lock =
     andthen (lookup_session B (as_session_id spec) (as_user_id spec)) (\<lambda>found.
       andthen (case found of None \<Rightarrow> ret (Inr None) | Some sb \<Rightarrow> reuse_running B spec sb) (\<lambda>done.
         case done of Some out \<Rightarrow> ret (Inr out) | None \<Rightarrow> acquire_fresh B spec lock))"

definition acquire_with_outcome :: "ctx \<Rightarrow> 's session_binder \<Rightarrow> acquire_spec \<Rightarrow> ('s, outcome) orch" where
  "acquire_with_outcome ctx B spec =
     (if as_session_id spec = [] then ret (Inl (ErrText ''orchestrator: session id required''))
      else if as_user_id spec = [] then ret (Inl (ErrText ''orchestrator: user id required''))
      else under_session_lock ctx B ''acquire lock'' (as_session_id spec) (acquire_locked B spec))"

definition acquire :: "ctx \<Rightarrow> 's session_binder \<Rightarrow> acquire_spec \<Rightarrow> ('s, sandbox) orch" where
  "acquire ctx B spec = andthen (acquire_with_outcome ctx B spec) (\<lambda>out. ret (Inr (o_sandbox out)))"

end
