(* ===== verification/Binder_Lifecycle.thy ===== *)
theory Binder_Lifecycle
  imports Session_Binder
begin

text \<open>
  The operations that end a sandbox's life or prolong it: \<open>Release\<close> (\<open>binder.go\<close>), \<open>Heartbeat\<close>
  (\<open>heartbeat.go\<close>), one reaper pass (\<open>reaper.go\<close>) and \<open>Drain\<close> (\<open>drain.go\<close>).
\<close>

section \<open>Release\<close>

text \<open>The zero \<open>meta\<close> stands when the record cannot be read; a failing decode keeps what it filled.\<close>

definition release_meta :: "'s session_binder \<Rightarrow> string \<Rightarrow> ('s, meta) state" where
  "release_meta B sid = do {
     r \<leftarrow> kv_get (b_kv B) (meta_key sid);
     ret (case r of Inl _ \<Rightarrow> meta_zero | Inr raw \<Rightarrow> snd (rt_unmarshal (b_rt B) raw meta_zero)) }"

definition release_sandbox :: "'s session_binder \<Rightarrow> string \<Rightarrow> string \<Rightarrow> string \<Rightarrow> ('s, unit) orch" where
  "release_sandbox B user session sid = do {
     m \<leftarrow> release_meta B sid;
     if m_user_id m \<noteq> [] \<and> m_user_id m \<noteq> user then ret (Inl ErrSessionOwnerMismatch)
     else do {
       r \<leftarrow> destroy_gone B sid;
       andthen (ret (wrap_err ''provider destroy'' r)) (\<lambda>_. unbind B session sid) } }"

definition release_storage :: "'s session_binder \<Rightarrow> string \<Rightarrow> string \<Rightarrow> ('s, unit) orch" where
  "release_storage B user session =
     (case b_storage B of
        Some st \<Rightarrow> st_delete st user session
      | None \<Rightarrow> (case p_cleanup (b_p B) of
            Some clean \<Rightarrow> if user \<noteq> [] then clean user session else ret (Inr ())
          | None \<Rightarrow> ret (Inr ())))"

definition release_locked :: "'s session_binder \<Rightarrow> string \<Rightarrow> string \<Rightarrow> dist_lock \<Rightarrow> ('s, unit) orch" where
  "release_locked B user session lock = do {
     r \<leftarrow> kv_get (b_kv B) (conv_key session);
     case r of
       Inl (KvFail e) \<Rightarrow> ret (Inl (ErrKV (KvFail e)))
     | Inl KvPanic \<Rightarrow> ret (Inl (ErrKV KvPanic))
     | Inl KvNil \<Rightarrow> release_storage B user session
     | Inr sid \<Rightarrow>
         andthen (if sid \<noteq> [] then release_sandbox B user session sid else ret (Inr ()))
           (\<lambda>_. release_storage B user session) }"

definition release_session :: "ctx \<Rightarrow> 's session_binder \<Rightarrow> string \<Rightarrow> string \<Rightarrow> ('s, unit) orch" where
  "release_session ctx B user session =
     under_session_lock ctx B ''release lock'' session (release_locked B user session)"

section \<open>Heartbeat\<close>

text \<open>Decode into m; an incomplete or foreign record is an unknown sandbox.\<close>

definition heartbeat_meta :: "'s session_binder \<Rightarrow> string \<Rightarrow> meta \<Rightarrow> ('s, meta) orch" where
  "heartbeat_meta B sandbox m0 = do {
     r \<leftarrow> kv_get (b_kv B) (meta_key sandbox);
     ret (case r of
         Inl KvNil \<Rightarrow> Inl ErrUnknownSandbox
       | Inl e \<Rightarrow> Inl (ErrKV e)
       | Inr raw \<Rightarrow>
           (case rt_unmarshal (b_rt B) raw m0 of
              (False, _) \<Rightarrow> Inl ErrJSON
            | (True, m) \<Rightarrow>
                if m_session_id m = [] \<or> m_sandbox_id m \<noteq> sandbox then Inl ErrUnknownSandbox else Inr m)) }"

definition heartbeat :: "'s session_binder \<Rightarrow> string \<Rightarrow> ('s, unit) orch" where
  "heartbeat B sandbox =
     (if sandbox = [] then ret (Inl (ErrText ''orchestrator: sandbox id required''))
      else andthen (heartbeat_meta B sandbox meta_zero) (\<lambda>m.
        andthen (try_lock B (m_session_id m) (cfg_lock_ttl (b_cfg B))) (\<lambda>lock.
          deferred (release_lock B lock)
            (andthen (heartbeat_meta B sandbox m) (\<lambda>_. renew_lease B sandbox)))))"

section \<open>The reaper\<close>

text \<open>Decode the record under a key into m; None when the key is gone.\<close>

definition read_meta :: "'s session_binder \<Rightarrow> string \<Rightarrow> meta \<Rightarrow> ('s, meta option) orch" where
  "read_meta B key m0 = do {
     r \<leftarrow> kv_get (b_kv B) key;
     ret (case r of
         Inl KvNil \<Rightarrow> Inr None
       | Inl e \<Rightarrow> Inl (ErrKV e)
       | Inr raw \<Rightarrow> (case rt_unmarshal (b_rt B) raw m0 of
             (False, _) \<Rightarrow> Inl ErrJSON | (True, m) \<Rightarrow> Inr (Some m))) }"

definition lease_live :: "'s session_binder \<Rightarrow> string \<Rightarrow> ('s, bool) orch" where
  "lease_live B sandbox = do {
     r \<leftarrow> kv_get (b_kv B) (lease_key sandbox);
     ret (case r of Inr _ \<Rightarrow> Inr True | Inl KvNil \<Rightarrow> Inr False | Inl e \<Rightarrow> Inl (ErrKV e)) }"

definition reap_locked :: "'s session_binder \<Rightarrow> string \<Rightarrow> meta \<Rightarrow> ('s, int) orch" where
  "reap_locked B key m0 =
     andthen (read_meta B key m0) (\<lambda>r. case r of
         None \<Rightarrow> ret (Inr 0)
       | Some m \<Rightarrow>
           if m_session_id m \<noteq> m_session_id m0 \<or> m_sandbox_id m \<noteq> m_sandbox_id m0
           then ret (Inl (ErrText ''orchestrator: sandbox meta changed while reaping''))
           else andthen (lease_live B (m_sandbox_id m)) (\<lambda>live.
             if live then ret (Inr 1)
             else andthen (destroy_gone B (m_sandbox_id m)) (\<lambda>_.
               andthen (unbind B (m_session_id m) (m_sandbox_id m)) (\<lambda>_. ret (Inr 0)))))"

definition reap_meta :: "'s session_binder \<Rightarrow> string \<Rightarrow> ('s, int) orch" where
  "reap_meta B key =
     andthen (read_meta B key meta_zero) (\<lambda>r. case r of
         None \<Rightarrow> ret (Inr 0)
       | Some m \<Rightarrow>
           if m_session_id m = [] \<or> m_sandbox_id m = []
           then ret (Inl (ErrText ''orchestrator: incomplete sandbox meta''))
           else andthen (lease_live B (m_sandbox_id m)) (\<lambda>live.
             if live then ret (Inr 1)
             else do {
               r \<leftarrow> try_lock B (m_session_id m) (cfg_lock_ttl (b_cfg B));
               case r of
                 Inl e \<Rightarrow> if err_is e ErrLockHeld then ret (Inr 1) else ret (Inl e)
               | Inr lock \<Rightarrow> deferred (release_lock B lock) (reap_locked B key m) }))"

primrec reap_keys :: "'s session_binder \<Rightarrow> string list \<Rightarrow> int \<Rightarrow> ('s, int) state" where
  "reap_keys B [] active = ret active"
| "reap_keys B (key # keys) active = do {
     r \<leftarrow> reap_meta B key;
     reap_keys B keys (case r of Inl _ \<Rightarrow> active | Inr n \<Rightarrow> active + n) }"

definition reap_once :: "'s session_binder \<Rightarrow> ('s, unit) orch" where
  "reap_once B = do {
     (keys, err) \<leftarrow> kv_scan (b_kv B) meta_scan_pattern;
     active \<leftarrow> reap_keys B keys 0;
     _ \<leftarrow> (case b_metrics B of None \<Rightarrow> ret () | Some ms \<Rightarrow> ms_set_active ms active);
     ret (of_err (map_option ErrKV err)) }"

section \<open>Drain\<close>

definition drain_locked :: "'s session_binder \<Rightarrow> string \<Rightarrow> meta \<Rightarrow> ('s, bool \<times> orch_error option) state" where
  "drain_locked B key initial = do {
     r \<leftarrow> read_meta B key meta_zero;
     case r of
       Inl e \<Rightarrow> ret (False, Some e)
     | Inr None \<Rightarrow> ret (False, None)
     | Inr (Some m) \<Rightarrow>
         if m_session_id m \<noteq> m_session_id initial \<or> m_sandbox_id m \<noteq> m_sandbox_id initial
         then ret (False, Some (ErrText ''orchestrator: sandbox meta changed while draining''))
         else do {
           d \<leftarrow> destroy_gone B (m_sandbox_id m);
           case d of
             Inl e \<Rightarrow> ret (False, Some (ErrWrap ''provider destroy'' e))
           | Inr _ \<Rightarrow> do {
               u \<leftarrow> unbind B (m_session_id m) (m_sandbox_id m);
               ret (True, err_of (wrap_err ''remove binding'' u)) } } }"

definition drain_meta :: "ctx \<Rightarrow> 's session_binder \<Rightarrow> string \<Rightarrow> ('s, bool \<times> orch_error option) state" where
  "drain_meta ctx B key = do {
     r \<leftarrow> read_meta B key meta_zero;
     case r of
       Inl e \<Rightarrow> ret (False, Some e)
     | Inr None \<Rightarrow> ret (False, None)
     | Inr (Some m) \<Rightarrow>
         if m_session_id m = [] \<or> m_sandbox_id m = [] \<or> key \<noteq> meta_key (m_sandbox_id m)
         then ret (False, Some (ErrText ''orchestrator: incomplete sandbox meta''))
         else do {
           l \<leftarrow> acquire_lock ctx B (m_session_id m) (cfg_lock_ttl (b_cfg B)) (cfg_lock_retry (b_cfg B));
           case l of
             Inl e \<Rightarrow> ret (False, Some (ErrWrap ''acquire session lock'' e))
           | Inr lock \<Rightarrow> deferred (release_lock B lock) (drain_locked B key m) } }"

text \<open>The callback stops at a done context; every other failure is collected.\<close>

primrec drain_keys :: "ctx \<Rightarrow> 's session_binder \<Rightarrow> string list \<Rightarrow> int \<times> orch_error list
    \<Rightarrow> ('s, (int \<times> orch_error list) \<times> orch_error option) state" where
  "drain_keys ctx B [] acc = ret (acc, None)"
| "drain_keys ctx B (key # keys) acc = do {
     c \<leftarrow> rt_ctx_err (b_rt B);
     case c of
       Some e \<Rightarrow> ret (acc, Some e)
     | None \<Rightarrow> do {
         (removed, err) \<leftarrow> drain_meta ctx B key;
         drain_keys ctx B keys
           (if removed then fst acc + 1 else fst acc,
            case err of None \<Rightarrow> snd acc | Some e \<Rightarrow> snd acc @ [ErrWrap (''drain '' @ key) e]) } }"

definition drain :: "ctx \<Rightarrow> 's session_binder \<Rightarrow> ('s, int \<times> orch_error option) state" where
  "drain ctx B = do {
     (keys, scan_err) \<leftarrow> kv_scan (b_kv B) meta_scan_pattern;
     (acc, stop) \<leftarrow> drain_keys ctx B keys (0, []);
     (let err = (case stop of Some e \<Rightarrow> Some e | None \<Rightarrow> map_option ErrKV scan_err);
          failures = snd acc @ (case err of None \<Rightarrow> []
            | Some e \<Rightarrow> [ErrWrap ''scan sandbox registry'' e])
      in ret (fst acc, err_join (map Some failures))) }"

end
