(* ===== verification/Orch_Logic.thy ===== *)
theory Orch_Logic
  imports Binder_Lifecycle
begin

text \<open>
  The proof rules for the orchestrator's computations: \<open>keeps I m R\<close> says that m preserves an
  invariant I of the whole world and that R holds of its result. The rules follow the
  combinators the operations are written with. Here is also the world the operations run in for
  the concrete theorems: the in-memory KV store, the clock, and whatever else there is; before
  each KV call, other processes may act (\<open>env\<close>).
\<close>

definition keeps :: "('s \<Rightarrow> bool) \<Rightarrow> ('s, 'a) state \<Rightarrow> ('a \<Rightarrow> bool) \<Rightarrow> bool" where
  "keeps I m R \<longleftrightarrow> (\<forall>s. I s \<longrightarrow> I (snd (run_state m s)) \<and> R (fst (run_state m s)))"

text \<open>A condition on the value of a computation that did not fail.\<close>

definition ok :: "('a \<Rightarrow> bool) \<Rightarrow> 'e + 'a \<Rightarrow> bool" where
  "ok Q r = (case r of Inl _ \<Rightarrow> True | Inr a \<Rightarrow> Q a)"

abbreviation any :: "'a \<Rightarrow> bool" where "any \<equiv> \<lambda>_. True"

lemma ok_simps [simp]: "ok Q (Inl e)" "ok Q (Inr a) = Q a" "ok any r"
  by (simp_all add: ok_def split: sum.split)

lemma okD: "ok Q (Inr a) \<Longrightarrow> Q a" by simp

named_theorems keeps_rule \<open>rules of the combinators\<close>

lemma keepsI: "(\<And>s. I s \<Longrightarrow> I (snd (run_state m s)) \<and> R (fst (run_state m s))) \<Longrightarrow> keeps I m R"
  by (simp add: keeps_def)

lemma keepsD: "keeps I m R \<Longrightarrow> I s \<Longrightarrow> I (snd (run_state m s)) \<and> R (fst (run_state m s))"
  by (simp add: keeps_def)

lemma keeps_ret [keeps_rule]: "R x \<Longrightarrow> keeps I (ret x) R"
  by (simp add: keeps_def)

lemma keeps_bind:
  assumes "keeps I m R'" "\<And>r. R' r \<Longrightarrow> keeps I (f r) R"
  shows "keeps I (m \<bind> f) R"
  using assms by (auto simp: keeps_def split: prod.split)

lemma keeps_bind_any [keeps_rule]:
  "keeps I m any \<Longrightarrow> (\<And>r. keeps I (f r) R) \<Longrightarrow> keeps I (m \<bind> f) R"
  by (rule keeps_bind)

lemma keeps_weaken: "keeps I m R \<Longrightarrow> (\<And>r. R r \<Longrightarrow> R' r) \<Longrightarrow> keeps I m R'"
  by (auto simp: keeps_def)

lemma keeps_any: "keeps I m R \<Longrightarrow> keeps I m any"
  by (auto simp: keeps_def)

lemma keeps_andthen:
  assumes "keeps I m (ok Q)" "\<And>a. Q a \<Longrightarrow> keeps I (f a) (ok R)"
  shows "keeps I (andthen m f) (ok R)"
  unfolding andthen_def
  by (rule keeps_bind[OF assms(1)]) (auto split: sum.split intro: keeps_ret assms(2))

lemma keeps_andthen_any [keeps_rule]:
  "keeps I m any \<Longrightarrow> (\<And>a. keeps I (f a) (ok R)) \<Longrightarrow> keeps I (andthen m f) (ok R)"
  by (rule keeps_andthen[where Q = any]) (simp_all add: ok_def keeps_weaken)

lemma keeps_andthen_any' [keeps_rule]:
  "keeps I m any \<Longrightarrow> (\<And>a. keeps I (f a) any) \<Longrightarrow> keeps I (andthen m f) any"
  by (auto simp: andthen_def split: sum.split intro!: keeps_rule)

lemma keeps_deferred [keeps_rule]:
  "keeps I m R \<Longrightarrow> keeps I fin any \<Longrightarrow> keeps I (deferred fin m) R"
  unfolding deferred_def by (erule keeps_bind) (simp add: keeps_bind_any keeps_ret)

lemma keeps_of_kv [keeps_rule]: "keeps I m any \<Longrightarrow> keeps I (of_kv m) any"
  by (simp add: of_kv_def keeps_bind_any keeps_ret)

lemma keeps_sum [keeps_rule]:
  "(\<And>e. r = Inl e \<Longrightarrow> keeps I (f e) R) \<Longrightarrow> (\<And>a. r = Inr a \<Longrightarrow> keeps I (g a) R) \<Longrightarrow>
   keeps I (case r of Inl e \<Rightarrow> f e | Inr a \<Rightarrow> g a) R"
  by (cases r) auto

lemma keeps_option [keeps_rule]:
  "(x = None \<Longrightarrow> keeps I f R) \<Longrightarrow> (\<And>a. x = Some a \<Longrightarrow> keeps I (g a) R) \<Longrightarrow>
   keeps I (case x of None \<Rightarrow> f | Some a \<Rightarrow> g a) R"
  by (cases x) auto

lemma keeps_if [keeps_rule]:
  "(c \<Longrightarrow> keeps I f R) \<Longrightarrow> (\<not> c \<Longrightarrow> keeps I g R) \<Longrightarrow> keeps I (if c then f else g) R"
  by simp

lemma keeps_kv_error [keeps_rule]:
  "keeps I f R \<Longrightarrow> (\<And>s. keeps I (g s) R) \<Longrightarrow> keeps I h R \<Longrightarrow>
   keeps I (case e of KvNil \<Rightarrow> f | KvFail s \<Rightarrow> g s | KvPanic \<Rightarrow> h) R"
  by (cases e) auto

lemma keeps_decoded [keeps_rule]:
  "(\<And>m. x = (False, m) \<Longrightarrow> keeps I (f m) R) \<Longrightarrow> (\<And>m. x = (True, m) \<Longrightarrow> keeps I (g m) R) \<Longrightarrow>
   keeps I (case x of (True, m) \<Rightarrow> g m | (False, m) \<Rightarrow> f m) R"
  by (cases x; cases "fst x") auto

lemma keeps_pair [keeps_rule]:
  "(\<And>a b. x = (a, b) \<Longrightarrow> keeps I (f a b) R) \<Longrightarrow> keeps I (case x of (a, b) \<Rightarrow> f a b) R"
  by (cases x) auto

section \<open>The world of the concrete theorems\<close>

record 'w sys =
  sys_kv :: fake
  sys_now :: gtime
  sys_world :: 'w

definition on_fake :: "('w sys \<Rightarrow> 'w sys) \<Rightarrow> (gtime \<Rightarrow> fake \<Rightarrow> 'r \<times> fake) \<Rightarrow> ('w sys, 'r) state" where
  "on_fake env f = State (\<lambda>s0. let s = env s0 in
     case f (sys_now s) (sys_kv s) of (r, kv) \<Rightarrow> (r, s\<lparr>sys_kv := kv\<rparr>))"

definition fake_kv :: "('w sys \<Rightarrow> 'w sys) \<Rightarrow> 'w sys kv_ops" where
  "fake_kv env = \<lparr>
     kv_get = (\<lambda>k. on_fake env (\<lambda>t. fake_get t k)),
     kv_set = (\<lambda>k v ttl. on_fake env (\<lambda>t. fake_set t k v ttl)),
     kv_setnx = (\<lambda>k v ttl. on_fake env (\<lambda>t. fake_setnx t k v ttl)),
     kv_del = (\<lambda>ks. on_fake env (\<lambda>t. fake_del ks)),
     kv_expire = (\<lambda>k ttl. on_fake env (\<lambda>t. fake_expire t k ttl)),
     kv_eval = (\<lambda>script ks as. on_fake env (\<lambda>t. fake_eval t script ks as)),
     kv_scan = (\<lambda>pat. on_fake env (\<lambda>t. fake_scan t pat))\<rparr>"

lemma run_on_fake: "run_state (on_fake env f) s =
   (fst (f (sys_now (env s)) (sys_kv (env s))), (env s)\<lparr>sys_kv := snd (f (sys_now (env s)) (sys_kv (env s)))\<rparr>)"
  by (simp add: on_fake_def Let_def split: prod.split)

lemma keeps_on_fake:
  assumes "\<And>s. I s \<Longrightarrow> I (env s)"
    and "\<And>s. I s \<Longrightarrow> I (s\<lparr>sys_kv := snd (f (sys_now s) (sys_kv s))\<rparr>) \<and> R (fst (f (sys_now s) (sys_kv s)))"
  shows "keeps I (on_fake env f) R"
  by (rule keepsI) (simp add: run_on_fake assms)

end
