(* ===== verification/Registry_Inv.thy ===== *)
theory Registry_Inv
  imports Orch_Logic
begin

text \<open>
  The registry invariant: each forward pointer names a sandbox that was created for its session
  and still has its reverse key and its record. It is proved once, in the locale \<open>registry\<close>, for
  every Binder whose KV calls satisfy the laws stated there, and the laws are discharged for the
  in-memory KV with an arbitrary environment that acts before each call and keeps the invariant
  itself, so it holds under every interleaving of the atomic KV calls of any number of clients.

  The ghost function \<open>own\<close> gives the session each sandbox id was created for. It exists because
  providers never hand out one id for two sessions.
\<close>

section \<open>The contract\<close>

text \<open>Every call outside the KV store keeps I.\<close>

definition calls_keep :: "('s \<Rightarrow> bool) \<Rightarrow> 's session_binder \<Rightarrow> bool" where
  "calls_keep I B \<longleftrightarrow>
     keeps I (rt_token (b_rt B)) any \<and> keeps I (rt_now (b_rt B)) any \<and>
     (\<forall>d. keeps I (rt_sleep (b_rt B) d) any) \<and> keeps I (rt_ctx_err (b_rt B)) any \<and>
     (\<forall>id. keeps I (p_destroy (b_p B) id) any) \<and> (\<forall>id. keeps I (p_health (b_p B) id) any) \<and>
     (\<forall>f u x. p_cleanup (b_p B) = Some f \<longrightarrow> keeps I (f u x) any) \<and>
     (\<forall>m. b_lease_source B = Some m \<longrightarrow> keeps I m any) \<and>
     (\<forall>ms. b_metrics B = Some ms \<longrightarrow> keeps I (ms_hit ms) any \<and> (\<forall>d. keeps I (ms_miss ms d) any)
        \<and> (\<forall>n. keeps I (ms_set_active ms n) any)) \<and>
     (\<forall>c. b_cap B = Some c \<longrightarrow> (\<forall>p x r. keeps I (cap_select c p x r) any)
        \<and> (\<forall>f n. cap_available c = Some f \<longrightarrow> keeps I (f n) any)) \<and>
     (\<forall>st. b_storage B = Some st \<longrightarrow> (\<forall>u x. keeps I (st_get st u x) any)
        \<and> (\<forall>u x n. keeps I (st_create st u x n) any) \<and> (\<forall>b n r. keeps I (st_prepare_reset st b n r) any)
        \<and> (\<forall>b n. keeps I (st_commit_reset st b n) any) \<and> (\<forall>b. keeps I (st_discard_reset st b) any)
        \<and> (\<forall>b. keeps I (st_ensure_pvc st b) any) \<and> keeps I (st_node_bytes st) any
        \<and> (\<forall>u x. keeps I (st_delete st u x) any))"

text \<open>Identifiers that \<open>encoding/json\<close> writes and reads back unchanged.\<close>

definition plain_id :: "string \<Rightarrow> bool" where
  "plain_id s \<longleftrightarrow> s \<noteq> [] \<and> list_all (\<lambda>c. (32::nat) \<le> of_char c \<and> of_char c < (127::nat)) s"

definition decodes_to :: "'s session_binder \<Rightarrow> string \<Rightarrow> string \<Rightarrow> string \<Rightarrow> bool" where
  "decodes_to B raw sandbox session \<longleftrightarrow>
     (\<forall>m0 m. rt_unmarshal (b_rt B) raw m0 = (True, m) \<longrightarrow> m_sandbox_id m = sandbox \<and> m_session_id m = session)"

definition creates_for :: "('s \<Rightarrow> bool) \<Rightarrow> (string \<Rightarrow> string) \<Rightarrow> 's session_binder \<Rightarrow> bool" where
  "creates_for I own B \<longleftrightarrow> (\<forall>spec. keeps I (p_create (b_p B) spec)
     (ok (\<lambda>sb. own (sb_id sb) = sp_session_id spec \<and> plain_id (sb_id sb))))"

locale registry =
  fixes B :: "'s session_binder" and I :: "'s \<Rightarrow> bool" and own :: "string \<Rightarrow> string"
  assumes calls: "calls_keep I B"
    and create: "creates_for I own B"
    and get: "keeps I (kv_get (b_kv B) key) any"
    and get_conv: "keeps I (kv_get (b_kv B) (conv_key session)) (ok (\<lambda>sid. own sid = session))"
    and get_meta: "keeps I (kv_get (b_kv B) (meta_key sid)) (ok (\<lambda>raw. decodes_to B raw sid (own sid)))"
    and set_lease: "keeps I (kv_set (b_kv B) (lease_key sid) v ttl) any"
    and setnx_lock: "keeps I (kv_setnx (b_kv B) (lock_key session) v ttl) any"
    and eval_unlock: "keeps I (kv_eval (b_kv B) lua_unlock [lock_key session] [a]) any"
    and eval_unbind: "own sid = session \<Longrightarrow> keeps I (kv_eval (b_kv B) lua_unbind
        [conv_key session, rev_key sid, meta_key sid, lease_key sid] [AStr sid]) any"
    and eval_bind: "own (m_sandbox_id m) = m_session_id m \<Longrightarrow> plain_id (m_sandbox_id m) \<Longrightarrow>
        plain_id (m_session_id m) \<Longrightarrow> keeps I (kv_eval (b_kv B) lua_bind
        [conv_key (m_session_id m), rev_key (m_sandbox_id m), meta_key (m_sandbox_id m),
         lease_key (m_sandbox_id m), lock_key session]
        [AStr (m_sandbox_id m), AStr (m_session_id m), AStr (rt_marshal (b_rt B) m), a4, a5, a6]) any"
    and del_conv: "keeps I (kv_del (b_kv B) [conv_key session]) any"
    and scan_meta: "keeps I (kv_scan (b_kv B) meta_scan_pattern) (\<lambda>r. \<forall>k \<in> set (fst r). \<exists>sid. k = meta_key sid)"
begin

lemma call_keeps [keeps_rule]:
  "keeps I (rt_token (b_rt B)) any" "keeps I (rt_now (b_rt B)) any" "keeps I (rt_sleep (b_rt B) d) any"
  "keeps I (rt_ctx_err (b_rt B)) any" "keeps I (p_destroy (b_p B) x) any" "keeps I (p_health (b_p B) x) any"
  "b_metrics B = Some ms \<Longrightarrow> keeps I (ms_hit ms) any" "b_metrics B = Some ms \<Longrightarrow> keeps I (ms_miss ms d) any"
  "b_metrics B = Some ms \<Longrightarrow> keeps I (ms_set_active ms n) any"
  "b_cap B = Some c \<Longrightarrow> keeps I (cap_select c p x r) any"
  "b_storage B = Some st \<Longrightarrow> keeps I (st_get st u x) any"
  "b_storage B = Some st \<Longrightarrow> keeps I (st_create st u x p) any"
  "b_storage B = Some st \<Longrightarrow> keeps I (st_prepare_reset st b x p) any"
  "b_storage B = Some st \<Longrightarrow> keeps I (st_commit_reset st b b') any"
  "b_storage B = Some st \<Longrightarrow> keeps I (st_discard_reset st b) any"
  "b_storage B = Some st \<Longrightarrow> keeps I (st_ensure_pvc st b) any"
  "b_storage B = Some st \<Longrightarrow> keeps I (st_node_bytes st) any"
  "b_storage B = Some st \<Longrightarrow> keeps I (st_delete st u x) any"
  using calls by (simp_all add: calls_keep_def)

lemma optional_call_keeps:
  "p_cleanup (b_p B) = Some clean \<Longrightarrow> keeps I (clean u x) any"
  "b_lease_source B = Some src \<Longrightarrow> keeps I src any"
  "b_cap B = Some c \<Longrightarrow> cap_available c = Some avail \<Longrightarrow> keeps I (avail x) any"
  using calls by (simp_all add: calls_keep_def)

lemmas kv_keeps [keeps_rule] = get set_lease setnx_lock eval_unlock eval_unbind eval_bind del_conv

lemma wrap_ok: "ok Q (wrap_err msg r) = ok Q r"
  by (simp add: wrap_err_def ok_def split: sum.split)

lemma current_lease_ttl_keeps [keeps_rule]: "keeps I (current_lease_ttl B) any"
  unfolding current_lease_ttl_def
  by (intro keeps_rule) (simp_all add: optional_call_keeps(2))

lemma renew_lease_keeps [keeps_rule]: "keeps I (renew_lease B sid) any"
  unfolding renew_lease_def by (intro keeps_rule)

lemma record_keeps [keeps_rule]: "keeps I (record_hit B) any" "keeps I (record_miss B d) any"
  unfolding record_hit_def record_miss_def by (intro keeps_rule; assumption?; simp)+

lemma destroy_gone_keeps [keeps_rule]: "keeps I (destroy_gone B sid) any"
  unfolding destroy_gone_def by (intro keeps_rule) simp

lemma unbind_keeps [keeps_rule]: "own sid = session \<Longrightarrow> keeps I (unbind B session sid) any"
  unfolding unbind_def by (intro keeps_rule) (assumption | simp)+

lemma try_lock_keeps: "keeps I (try_lock B session ttl) (ok (\<lambda>l. lk_key l = lock_key session))"
  unfolding try_lock_def by (intro keeps_rule) (auto simp: ok_def split: sum.split bool.split)

lemma try_lock_case_keeps:
  assumes "\<And>l. lk_key l = lock_key session \<Longrightarrow> keeps I (g l) R" "\<And>e. keeps I (f e) R"
  shows "keeps I (try_lock B session ttl \<bind> (\<lambda>r. case r of Inl e \<Rightarrow> f e | Inr l \<Rightarrow> g l)) R"
  by (rule keeps_bind[OF try_lock_keeps]) (auto split: sum.split intro: assms)

lemma acquire_lock_keeps:
  "keeps I (acquire_lock ctx B session ttl retry) (ok (\<lambda>l. lk_key l = lock_key session))"
proof (induction ctx)
  case 0
  show ?case
    by (subst acquire_lock.simps, rule keeps_bind[OF try_lock_keeps])
      (auto split: sum.split intro!: keeps_ret)
next
  case (Suc ctx)
  show ?case
    by (subst acquire_lock.simps, rule keeps_bind[OF try_lock_keeps])
      (auto split: sum.split intro!: keeps_ret keeps_bind_any call_keeps Suc)
qed

lemma release_lock_keeps [keeps_rule]: "lk_key l = lock_key session \<Longrightarrow> keeps I (release_lock B l) any"
  unfolding release_lock_def by (intro keeps_rule) (simp_all add: eval_unlock)

lemma under_session_lock_keeps:
  assumes "\<And>l. lk_key l = lock_key session \<Longrightarrow> keeps I (body l) (ok R)"
  shows "keeps I (under_session_lock ctx B msg session body) (ok R)"
  unfolding under_session_lock_def
  by (rule keeps_bind[OF acquire_lock_keeps])
    (auto split: sum.split intro!: keeps_ret keeps_deferred release_lock_keeps assms)

section \<open>The operations keep the invariant\<close>

abbreviation bound_to :: "string \<Rightarrow> sandbox option \<Rightarrow> bool" where
  "bound_to session r \<equiv> \<forall>sb. r = Some sb \<longrightarrow> own (sb_id sb) = session"

lemma ok_any: "keeps I m (ok any) = keeps I m any"
  by (simp add: keeps_def)

lemma lookup_dead_keeps:
  "own (m_sandbox_id m) = m_session_id m \<Longrightarrow> keeps I (lookup_dead B m) (ok (bound_to session))"
  unfolding lookup_dead_def by (intro keeps_rule) simp_all

lemma lookup_health_keeps:
  "own (m_sandbox_id m) = m_session_id m \<Longrightarrow> m_session_id m = session \<Longrightarrow>
   keeps I (lookup_health B sid m) (ok (bound_to session))"
  unfolding lookup_health_def
  by (intro keeps_rule lookup_dead_keeps) (simp_all add: sandbox_of_meta_def)

lemma lookup_meta_keeps:
  assumes "own sid = session"
  shows "keeps I (lookup_meta B session user sid) (ok (bound_to session))"
  unfolding lookup_meta_def
  by (rule keeps_bind[OF get_meta])
    (auto simp: decodes_to_def assms split: sum.split kv_error.split prod.split bool.split
      intro!: keeps_ret keeps_bind_any[OF del_conv] lookup_health_keeps)

lemma lookup_session_keeps: "keeps I (lookup_session B session user) (ok (bound_to session))"
  unfolding lookup_session_def
  by (rule keeps_bind[OF get_conv])
    (auto split: sum.split kv_error.split intro!: keeps_ret lookup_meta_keeps)

lemma lookup_binding_keeps: "keeps I (lookup_binding B session user) (ok (bound_to session))"
  unfolding lookup_binding_def by (intro keeps_rule lookup_session_keeps) simp_all

lemma drop_stale_storage_keeps [keeps_rule]:
  "own (sb_id sb) = as_session_id spec \<Longrightarrow> b_storage B = Some st \<Longrightarrow>
   keeps I (drop_stale_storage B st sb spec found) any"
  unfolding drop_stale_storage_def by (intro keeps_rule) simp_all

lemma node_reusable_keeps [keeps_rule]: "keeps I (node_reusable B sb spec) any"
  unfolding node_reusable_def
  by (auto simp: bind_eq_Some_conv split: option.split intro!: keeps_rule optional_call_keeps(3))

lemma running_sandbox_reusable_keeps [keeps_rule]:
  "own (sb_id sb) = as_session_id spec \<Longrightarrow> keeps I (running_sandbox_reusable B sb spec) any"
  unfolding running_sandbox_reusable_def by (intro keeps_rule) simp_all

abbreviation serves :: "acquire_spec \<Rightarrow> outcome \<Rightarrow> bool" where
  "serves spec out \<equiv> own (sb_id (o_sandbox out)) = as_session_id spec"

lemma reuse_running_keeps:
  "own (sb_id sb) = as_session_id spec \<Longrightarrow>
   keeps I (reuse_running B spec sb) (ok (\<lambda>r. \<forall>out. r = Some out \<longrightarrow> serves spec out))"
  unfolding reuse_running_def by (intro keeps_rule) simp_all

lemma place_workspace_keeps [keeps_rule]: "keeps I (place_workspace B spec) any"
  unfolding place_workspace_def place_existing_def place_reset_def place_new_def
  by (auto split: option.split simp: prod.case_eq_if intro!: keeps_rule)

lemma discard_reset_of_keeps [keeps_rule]: "keeps I (discard_reset_of B reset) any"
  unfolding discard_reset_of_def by (auto split: option.split intro!: keeps_rule)

lemma cleanup_created_sandbox_keeps [keeps_rule]:
  "session = [] \<or> own sid = session \<Longrightarrow> keeps I (cleanup_created_sandbox B sid session reset) any"
  unfolding cleanup_created_sandbox_def by (intro keeps_rule) auto

lemma create_sandbox_keeps:
  "keeps I (create_sandbox B spec pl) (ok (\<lambda>sb. own (sb_id sb) = as_session_id spec \<and> plain_id (sb_id sb)))"
  unfolding create_sandbox_def
  by (rule keeps_bind[OF create[unfolded creates_for_def, rule_format]])
    (auto split: sum.split option.split intro!: keeps_ret keeps_rule)

lemma bind_meta_keeps:
  "own (m_sandbox_id m) = m_session_id m \<Longrightarrow> plain_id (m_sandbox_id m) \<Longrightarrow> plain_id (m_session_id m) \<Longrightarrow>
   lk_key l = lock_key session \<Longrightarrow> keeps I (bind_meta B m l) any"
  unfolding bind_meta_def by (intro keeps_rule) (simp add: eval_bind)

lemma winner_durable_keeps [keeps_rule]: "keeps I (winner_durable B spec sb) any"
  unfolding winner_durable_def by (intro keeps_rule) simp_all

lemma acquire_lost_keeps:
  "keeps I (acquire_lost B spec pl sb status) (ok (serves spec))"
  unfolding acquire_lost_def
  by (intro keeps_rule keeps_andthen[OF lookup_session_keeps]) simp_all

lemma commit_workspace_reset_keeps [keeps_rule]:
  "own (sb_id sb) = as_session_id spec \<Longrightarrow> keeps I (commit_workspace_reset B spec pl sb) any"
  unfolding commit_workspace_reset_def
  by (auto split: option.split intro!: keeps_rule)

lemma bind_created_keeps:
  assumes "own (sb_id sb) = as_session_id spec" "plain_id (sb_id sb)" "plain_id (as_session_id spec)"
    and "lk_key l = lock_key session"
  shows "keeps I (bind_created B spec l start pl sb) (ok (serves spec))"
  unfolding bind_created_def
  by (intro keeps_rule acquire_lost_keeps bind_meta_keeps[OF _ _ _ assms(4)])
    (simp_all add: assms meta_for_def)

lemma acquire_locked_keeps:
  assumes "plain_id (as_session_id spec)" "lk_key l = lock_key (as_session_id spec)"
  shows "keeps I (acquire_locked B spec l) (ok (serves spec))"
  unfolding acquire_locked_def
proof (rule keeps_andthen[OF lookup_session_keeps])
  fix found assume "bound_to (as_session_id spec) found"
  then have "keeps I (case found of None \<Rightarrow> ret (Inr None) | Some sb \<Rightarrow> reuse_running B spec sb)
      (ok (\<lambda>r. \<forall>out. r = Some out \<longrightarrow> serves spec out))"
    by (intro keeps_rule reuse_running_keeps) simp_all
  then show "keeps I (andthen (case found of None \<Rightarrow> ret (Inr None) | Some sb \<Rightarrow> reuse_running B spec sb)
      (\<lambda>done. case done of Some out \<Rightarrow> ret (Inr out) | None \<Rightarrow> acquire_fresh B spec l)) (ok (serves spec))"
  proof (rule keeps_andthen)
    fix fin assume "\<forall>out. fin = Some out \<longrightarrow> serves spec out"
    then show "keeps I (case fin of Some out \<Rightarrow> ret (Inr out) | None \<Rightarrow> acquire_fresh B spec l) (ok (serves spec))"
      unfolding acquire_fresh_def
      by (intro keeps_rule keeps_andthen[OF create_sandbox_keeps] bind_created_keeps[OF _ _ assms])
        simp_all
  qed
qed

lemma acquire_keeps:
  assumes "plain_id (as_session_id spec)"
  shows "keeps I (acquire_with_outcome ctx B spec) (ok (serves spec))"
  unfolding acquire_with_outcome_def
  by (intro keeps_rule under_session_lock_keeps acquire_locked_keeps assms) simp_all

lemma release_meta_keeps [keeps_rule]: "keeps I (release_meta B sid) any"
  unfolding release_meta_def by (intro keeps_rule) simp

lemma release_sandbox_keeps [keeps_rule]:
  "own sid = session \<Longrightarrow> keeps I (release_sandbox B user session sid) any"
  unfolding release_sandbox_def by (intro keeps_rule) simp_all

lemma release_storage_keeps [keeps_rule]: "keeps I (release_storage B user session) any"
  unfolding release_storage_def
  by (intro keeps_rule) (simp_all add: optional_call_keeps(1))

lemma release_session_keeps: "keeps I (release_session ctx B user session) (ok any)"
  unfolding release_session_def
proof (rule under_session_lock_keeps)
  fix l
  show "keeps I (release_locked B user session l) (ok any)"
    unfolding release_locked_def
    by (rule keeps_bind[OF get_conv])
      (auto split: sum.split kv_error.split simp: ok_any intro!: keeps_rule)
qed

lemma heartbeat_meta_keeps [keeps_rule]: "keeps I (heartbeat_meta B sid m) any"
  unfolding heartbeat_meta_def by (intro keeps_rule) simp

lemma heartbeat_keeps: "keeps I (heartbeat B sid) any"
  unfolding heartbeat_def
  unfolding andthen_def[of "try_lock B x y" for x y]
  by (intro keeps_if keeps_andthen_any' keeps_ret heartbeat_meta_keeps try_lock_case_keeps
      keeps_deferred release_lock_keeps renew_lease_keeps) simp_all

lemma read_meta_keeps:
  "keeps I (read_meta B (meta_key sid) m0) (ok (\<lambda>r. \<forall>m. r = Some m \<longrightarrow> m_sandbox_id m = sid \<and> m_session_id m = own sid))"
  unfolding read_meta_def
  by (rule keeps_bind[OF get_meta], rule keeps_ret)
    (auto simp: decodes_to_def split: sum.splits kv_error.splits prod.splits bool.splits)

lemma lease_live_keeps [keeps_rule]: "keeps I (lease_live B sid) any"
  unfolding lease_live_def by (intro keeps_rule) simp

lemma reap_locked_keeps: "keeps I (reap_locked B (meta_key sid) m0) (ok any)"
  unfolding reap_locked_def
  by (rule keeps_andthen[OF read_meta_keeps],
      intro keeps_option keeps_if keeps_andthen_any keeps_ret lease_live_keeps destroy_gone_keeps unbind_keeps)
    simp_all

lemma reap_meta_keeps: "keeps I (reap_meta B (meta_key sid)) (ok any)"
proof -
  have locked: "keeps I (try_lock B session ttl \<bind> (\<lambda>r. case r of
         Inl e \<Rightarrow> if err_is e ErrLockHeld then ret (Inr 1) else ret (Inl e)
       | Inr lock \<Rightarrow> deferred (release_lock B lock) (reap_locked B (meta_key sid) m))) (ok any)" for session ttl m
    by (rule try_lock_case_keeps) (auto intro!: keeps_deferred keeps_ret reap_locked_keeps release_lock_keeps)
  have "keeps I (case r of None \<Rightarrow> ret (Inr 0) | Some m \<Rightarrow>
       if m_session_id m = [] \<or> m_sandbox_id m = []
       then ret (Inl (ErrText ''orchestrator: incomplete sandbox meta''))
       else andthen (lease_live B (m_sandbox_id m)) (\<lambda>live. if live then ret (Inr 1)
         else try_lock B (m_session_id m) (cfg_lock_ttl (b_cfg B)) \<bind> (\<lambda>r. case r of
             Inl e \<Rightarrow> if err_is e ErrLockHeld then ret (Inr 1) else ret (Inl e)
           | Inr lock \<Rightarrow> deferred (release_lock B lock) (reap_locked B (meta_key sid) m)))) (ok any)" for r
    by (intro keeps_option keeps_if keeps_andthen_any lease_live_keeps locked keeps_ret) simp_all
  then show ?thesis
    unfolding reap_meta_def by (intro keeps_andthen[OF read_meta_keeps])
qed

lemma reap_keys_keeps: "\<forall>k \<in> set keys. \<exists>sid. k = meta_key sid \<Longrightarrow> keeps I (reap_keys B keys n) any"
proof (induction keys arbitrary: n)
  case (Cons k keys)
  then obtain sid where "k = meta_key sid" by auto
  with Cons show ?case
    using keeps_any[OF reap_meta_keeps[of sid]] by (auto intro!: keeps_bind_any)
qed (simp add: keeps_ret)

lemma reap_once_keeps: "keeps I (reap_once B) any"
  unfolding reap_once_def
  by (rule keeps_bind[OF scan_meta]) (auto intro!: keeps_rule reap_keys_keeps)

lemma drain_locked_keeps: "keeps I (drain_locked B (meta_key sid) m0) any"
  unfolding drain_locked_def
  by (rule keeps_bind[OF read_meta_keeps]) (auto split: sum.split option.split intro!: keeps_rule)

lemma drain_meta_keeps: "keeps I (drain_meta ctx B (meta_key sid)) any"
  unfolding drain_meta_def
  by (rule keeps_bind[OF read_meta_keeps])
    (auto split: sum.split option.split
      intro!: keeps_ret keeps_deferred release_lock_keeps keeps_bind[OF acquire_lock_keeps] drain_locked_keeps)

lemma drain_keys_keeps: "\<forall>k \<in> set keys. \<exists>sid. k = meta_key sid \<Longrightarrow> keeps I (drain_keys ctx B keys acc) any"
proof (induction keys arbitrary: acc)
  case (Cons k keys)
  then obtain sid where "k = meta_key sid" by auto
  with Cons show ?case
    using drain_meta_keeps[of ctx sid] by (auto split: option.split prod.split intro!: keeps_rule)
qed (simp add: keeps_ret)

lemma drain_keeps: "keeps I (drain ctx B) any"
  unfolding drain_def
  by (rule keeps_bind[OF scan_meta]) (auto simp: Let_def intro!: keeps_rule drain_keys_keeps)

end

end
