(* ===== verification/Registry_Fake.thy ===== *)
theory Registry_Fake
  imports Registry_Inv
begin

text \<open>
  The registry invariant on the in-memory KV store, the interpretation of the contract
  \<open>registry\<close> on it, and the properties of every run of the Binder's operations.
\<close>

section \<open>The invariant\<close>

text \<open>
  Forward pointers, reverse keys and records never expire; a forward pointer names a sandbox of
  its session; a reverse key and a record exist together and name that session.
\<close>

definition reg_inv :: "(meta \<Rightarrow> string) \<Rightarrow> (string \<Rightarrow> string) \<Rightarrow> fake \<Rightarrow> bool" where
  "reg_inv enc own f \<longleftrightarrow>
     (\<forall>x v. mget f (conv_key x) = Some v \<longrightarrow> fv_exp v = 0 \<and> own (fv_val v) = x \<and> mget f (rev_key (fv_val v)) \<noteq> None) \<and>
     (\<forall>sid v. mget f (rev_key sid) = Some v \<longrightarrow> fv_exp v = 0 \<and> fv_val v = own sid) \<and>
     (\<forall>sid v. mget f (meta_key sid) = Some v \<longrightarrow> fv_exp v = 0 \<and>
        (\<exists>m. fv_val v = enc m \<and> m_sandbox_id m = sid \<and> m_session_id m = own sid \<and> plain_id sid \<and> plain_id (own sid))) \<and>
     (\<forall>sid. (mget f (rev_key sid) = None) = (mget f (meta_key sid) = None))"

lemma reg_invI:
  assumes "\<And>x v. mget f (conv_key x) = Some v \<Longrightarrow> fv_exp v = 0 \<and> own (fv_val v) = x \<and> mget f (rev_key (fv_val v)) \<noteq> None"
    and "\<And>sid v. mget f (rev_key sid) = Some v \<Longrightarrow> fv_exp v = 0 \<and> fv_val v = own sid"
    and "\<And>sid v. mget f (meta_key sid) = Some v \<Longrightarrow> fv_exp v = 0 \<and>
        (\<exists>m. fv_val v = enc m \<and> m_sandbox_id m = sid \<and> m_session_id m = own sid \<and> plain_id sid \<and> plain_id (own sid))"
    and "\<And>sid. (mget f (rev_key sid) = None) = (mget f (meta_key sid) = None)"
  shows "reg_inv enc own f"
  using assms unfolding reg_inv_def by blast

lemma reg_inv_conv: "reg_inv enc own f \<Longrightarrow> mget f (conv_key x) = Some v \<Longrightarrow>
    fv_exp v = 0 \<and> own (fv_val v) = x \<and> mget f (rev_key (fv_val v)) \<noteq> None"
  unfolding reg_inv_def by blast

lemma reg_inv_rev: "reg_inv enc own f \<Longrightarrow> mget f (rev_key sid) = Some v \<Longrightarrow> fv_exp v = 0 \<and> fv_val v = own sid"
  by (simp add: reg_inv_def)

lemma reg_inv_meta: "reg_inv enc own f \<Longrightarrow> mget f (meta_key sid) = Some v \<Longrightarrow> fv_exp v = 0 \<and>
    (\<exists>m. fv_val v = enc m \<and> m_sandbox_id m = sid \<and> m_session_id m = own sid \<and> plain_id sid \<and> plain_id (own sid))"
  by (simp add: reg_inv_def)

lemma reg_inv_both: "reg_inv enc own f \<Longrightarrow> (mget f (rev_key sid) = None) = (mget f (meta_key sid) = None)"
  by (simp add: reg_inv_def)

lemma reg_inv_empty: "reg_inv enc own new_fake"
  by (simp add: reg_inv_def new_fake_def)

text \<open>The invariant looks at three kinds of keys only.\<close>

definition registry_key :: "string \<Rightarrow> bool" where
  "registry_key k \<longleftrightarrow> (\<exists>x. k = conv_key x \<or> k = rev_key x \<or> k = meta_key x)"

lemma registry_key_simps [simp]:
  "registry_key (conv_key x)" "registry_key (rev_key x)" "registry_key (meta_key x)"
  "\<not> registry_key (lock_key x)" "\<not> registry_key (lease_key x)"
  by (auto simp: registry_key_def)

lemma reg_inv_cong:
  assumes "reg_inv enc own f" "\<And>k. registry_key k \<Longrightarrow> mget f' k = mget f k"
  shows "reg_inv enc own f'"
proof -
  have eqs: "mget f' (conv_key x) = mget f (conv_key x)" "mget f' (rev_key x) = mget f (rev_key x)"
    "mget f' (meta_key x) = mget f (meta_key x)" for x
    by (simp_all add: assms(2))
  show ?thesis using assms(1) unfolding reg_inv_def eqs .
qed

lemma registry_key_alive:
  assumes "reg_inv enc own f" "registry_key k" "mget f k = Some v"
  shows "\<not> fv_dead t v"
proof -
  from assms(2) consider x where "k = conv_key x" | x where "k = rev_key x" | x where "k = meta_key x"
    by (auto simp: registry_key_def)
  then have "fv_exp v = 0"
    using assms(1,3) by cases (blast dest: reg_inv_conv reg_inv_rev reg_inv_meta)+
  then show ?thesis by (simp add: fv_dead_def)
qed

lemma registry_key_view: "reg_inv enc own f \<Longrightarrow> registry_key k \<Longrightarrow>
    fake_view t f k = map_option fv_val (mget f k)"
  by (auto simp: fake_view_def dest: registry_key_alive split: option.split)

lemma live_locked_same:
  assumes "reg_inv enc own f" "registry_key k'"
  shows "mget (snd (live_locked t k f)) k' = mget f k'"
  using registry_key_alive[OF assms(1), of k']
  by (auto simp: live_locked_def assms(2) split: option.split)

lemma live_locked_inv: "reg_inv enc own f \<Longrightarrow> reg_inv enc own (snd (live_locked t k f))"
  using reg_inv_cong live_locked_same by blast

lemma set_locked_inv: "reg_inv enc own f \<Longrightarrow> \<not> registry_key k \<Longrightarrow> reg_inv enc own (set_locked t k v ttl f)"
  by (erule reg_inv_cong) (auto simp: set_locked_def lookup_update)

lemma mdel_inv: "reg_inv enc own f \<Longrightarrow> \<not> registry_key k \<Longrightarrow> reg_inv enc own (mdel f k)"
  by (erule reg_inv_cong) auto

lemma mdel_conv_inv: "reg_inv enc own f \<Longrightarrow> reg_inv enc own (mdel f (conv_key x))"
  by (rule reg_invI; simp split: if_splits)
    (use reg_inv_conv reg_inv_rev reg_inv_meta reg_inv_both in blast)+

text \<open>Dropping a sandbox's own keys, once no forward pointer names it.\<close>

lemma mdel_sandbox_inv:
  assumes "reg_inv enc own f" "\<And>x v. mget f (conv_key x) = Some v \<Longrightarrow> fv_val v \<noteq> sid"
  shows "reg_inv enc own (mdel (mdel f (rev_key sid)) (meta_key sid))"
proof (rule reg_invI)
  fix x v assume "mget (mdel (mdel f (rev_key sid)) (meta_key sid)) (conv_key x) = Some v"
  then have "mget f (conv_key x) = Some v" by (simp split: if_splits)
  with reg_inv_conv[OF assms(1)] assms(2)
  show "fv_exp v = 0 \<and> own (fv_val v) = x \<and> mget (mdel (mdel f (rev_key sid)) (meta_key sid)) (rev_key (fv_val v)) \<noteq> None"
    by auto
next
  fix k v assume "mget (mdel (mdel f (rev_key sid)) (meta_key sid)) (rev_key k) = Some v"
  with reg_inv_rev[OF assms(1)] show "fv_exp v = 0 \<and> fv_val v = own k" by (simp split: if_splits)
next
  fix k v assume "mget (mdel (mdel f (rev_key sid)) (meta_key sid)) (meta_key k) = Some v"
  with reg_inv_meta[OF assms(1)] show "fv_exp v = 0 \<and>
      (\<exists>m. fv_val v = enc m \<and> m_sandbox_id m = k \<and> m_session_id m = own k \<and> plain_id k \<and> plain_id (own k))"
    by (simp split: if_splits)
next
  fix k show "(mget (mdel (mdel f (rev_key sid)) (meta_key sid)) (rev_key k) = None) =
      (mget (mdel (mdel f (rev_key sid)) (meta_key sid)) (meta_key k) = None)"
    using reg_inv_both[OF assms(1)] by simp
qed

lemma put_sandbox_inv:
  assumes "reg_inv enc own f" "own (m_sandbox_id m) = m_session_id m"
    "plain_id (m_sandbox_id m)" "plain_id (m_session_id m)"
  shows "reg_inv enc own (set_locked t (meta_key (m_sandbox_id m)) (enc m) 0
     (set_locked t (rev_key (m_sandbox_id m)) (m_session_id m) 0
       (set_locked t (conv_key (m_session_id m)) (m_sandbox_id m) 0 f)))"
    (is "reg_inv enc own ?f")
proof (rule reg_invI)
  fix x v assume "mget ?f (conv_key x) = Some v"
  then show "fv_exp v = 0 \<and> own (fv_val v) = x \<and> mget ?f (rev_key (fv_val v)) \<noteq> None"
    using reg_inv_conv[OF assms(1)] assms(2)
    by (auto simp: set_locked_def lookup_update split: if_splits)
next
  fix k v assume "mget ?f (rev_key k) = Some v"
  then show "fv_exp v = 0 \<and> fv_val v = own k"
    using reg_inv_rev[OF assms(1)] assms(2)
    by (auto simp: set_locked_def lookup_update split: if_splits)
next
  fix k v assume "mget ?f (meta_key k) = Some v"
  then show "fv_exp v = 0 \<and> (\<exists>m. fv_val v = enc m \<and> m_sandbox_id m = k \<and> m_session_id m = own k \<and> plain_id k \<and> plain_id (own k))"
    using reg_inv_meta[OF assms(1)] assms(2-4)
    by (auto simp: set_locked_def lookup_update split: if_splits)
next
  fix k show "(mget ?f (rev_key k) = None) = (mget ?f (meta_key k) = None)"
    using reg_inv_both[OF assms(1)] by (simp add: set_locked_def lookup_update)
qed

section \<open>The KV operations keep the invariant\<close>

text \<open>What the run assumes of everything that is not the KV store.\<close>

abbreviation reg_sys :: "'w sys session_binder \<Rightarrow> (string \<Rightarrow> string) \<Rightarrow> 'w sys \<Rightarrow> bool" where
  "reg_sys B own s \<equiv> reg_inv (rt_marshal (b_rt B)) own (sys_kv s)"

definition meta_codec :: "'s session_binder \<Rightarrow> bool" where
  "meta_codec B \<longleftrightarrow> (\<forall>m m0 m'. plain_id (m_sandbox_id m) \<longrightarrow> plain_id (m_session_id m) \<longrightarrow>
     rt_unmarshal (b_rt B) (rt_marshal (b_rt B) m) m0 = (True, m') \<longrightarrow>
     m_sandbox_id m' = m_sandbox_id m \<and> m_session_id m' = m_session_id m)"

definition registry_world :: "('w sys \<Rightarrow> 'w sys) \<Rightarrow> (string \<Rightarrow> string) \<Rightarrow> 'w sys session_binder \<Rightarrow> bool" where
  "registry_world env own B \<longleftrightarrow> b_kv B = fake_kv env \<and> (\<forall>s. reg_sys B own s \<longrightarrow> reg_sys B own (env s)) \<and>
     calls_keep (reg_sys B own) B \<and> creates_for (reg_sys B own) own B \<and> meta_codec B"

definition registry_state :: "('w sys \<Rightarrow> 'w sys) \<Rightarrow> (string \<Rightarrow> string) \<Rightarrow> 'w sys session_binder \<Rightarrow> 'w sys \<Rightarrow> bool" where
  "registry_state env own B s \<longleftrightarrow> registry_world env own B \<and> reg_sys B own s"

lemma keeps_state: "keeps (registry_state env own B) m R \<longleftrightarrow>
    (registry_world env own B \<longrightarrow> keeps (reg_sys B own) m R)"
  by (auto simp: keeps_def registry_state_def)

lemma calls_keep_state: "registry_world env own B \<Longrightarrow> calls_keep (registry_state env own B) B"
  "\<not> registry_world env own B \<Longrightarrow> calls_keep (registry_state env own B) B"
  by (simp_all add: calls_keep_def keeps_state registry_world_def)

lemma keeps_fake:
  assumes "registry_world env own B"
    and "\<And>t kv. reg_inv (rt_marshal (b_rt B)) own kv \<Longrightarrow>
      reg_inv (rt_marshal (b_rt B)) own (snd (f t kv)) \<and> R (fst (f t kv))"
  shows "keeps (reg_sys B own) (on_fake env f) R"
  using assms by (intro keeps_on_fake) (simp_all add: registry_world_def)

lemma fake_get_inv: "reg_inv enc own f \<Longrightarrow> reg_inv enc own (snd (fake_get t k f))"
  using live_locked_inv[of enc own f t k] by (auto simp: fake_get_def split: prod.split option.split)

lemma fake_get_registry:
  assumes "reg_inv enc own f" "registry_key k"
  shows "fst (fake_get t k f) = (case mget f k of None \<Rightarrow> Inl KvNil | Some v \<Rightarrow> Inr (fv_val v))"
proof -
  obtain f' where "live_locked t k f = (fake_view t f k, f')" using live_locked_cases by blast
  with registry_key_view[OF assms, of t] show ?thesis
    by (auto simp: fake_get_def split: option.split)
qed

lemma fake_setnx_inv: "reg_inv enc own f \<Longrightarrow> \<not> registry_key k \<Longrightarrow> reg_inv enc own (snd (fake_setnx t k v ttl f))"
  using live_locked_inv[of enc own f t k]
  by (auto simp: fake_setnx_def set_locked_inv split: prod.split option.split)

lemma fake_unlock_inv: "reg_inv enc own f \<Longrightarrow> \<not> registry_key k \<Longrightarrow> reg_inv enc own (snd (fake_unlock t [k] as f))"
  using live_locked_inv[of enc own f t k]
  by (auto simp: fake_unlock_def mdel_inv split: prod.split)

lemma fake_scan_inv:
  assumes "reg_inv enc own f"
  shows "reg_inv enc own (snd (fake_scan t pat f))"
proof (rule reg_inv_cong[OF assms])
  fix k assume "registry_key k"
  note inv = assms this
  have "mget (snd (fake_scan t pat f)) k = Some v \<longleftrightarrow> mget f k = Some v" for v
    using registry_key_alive[OF inv, of v t]
    by (auto simp: fake_scan_def Let_def mget_filter split: option.splits if_splits)
  then show "mget (snd (fake_scan t pat f)) k = mget f k"
    by (metis not_None_eq)
qed

lemma fake_scan_meta: "k \<in> set (fst (fst (fake_scan t meta_scan_pattern f))) \<Longrightarrow> \<exists>sid. k = meta_key sid"
  by (auto simp: fake_scan_def Let_def meta_scan_pattern_def meta_key_def has_prefix_iff)

lemma fake_unbind_inv:
  assumes inv: "reg_inv enc own f" and own: "own sid = session"
  shows "reg_inv enc own (snd (fake_unbind t [conv_key session, rev_key sid, meta_key sid, lease_key sid] [AStr sid] f))"
proof -
  obtain f1 where f1: "live_locked t (conv_key session) f = (fake_view t f (conv_key session), f1)"
    using live_locked_cases by blast
  then have inv1: "reg_inv enc own f1" and same: "mget f1 (conv_key session) = mget f (conv_key session)"
    using live_locked_inv[OF inv] live_locked_same[OF inv] by (metis snd_conv registry_key_simps(1))+
  define f2 where "f2 = (if fake_view t f (conv_key session) = Some sid then mdel f1 (conv_key session) else f1)"
  have inv2: "reg_inv enc own f2" by (simp add: f2_def inv1 mdel_conv_inv)
  have unnamed: "mget f2 (conv_key x) = Some v \<Longrightarrow> fv_val v \<noteq> sid" for x v
  proof
    assume v: "mget f2 (conv_key x) = Some v" and sid: "fv_val v = sid"
    with reg_inv_conv[OF inv2 v] own have "x = session" by simp
    with v have "mget f1 (conv_key session) = Some v" "fake_view t f (conv_key session) \<noteq> Some sid"
      by (auto simp: f2_def split: if_splits)
    with same sid registry_key_view[OF inv, of "conv_key session" t] show False by simp
  qed
  have "reg_inv enc own (snd (del_keys [rev_key sid, meta_key sid, lease_key sid] f2))"
    using mdel_inv[OF mdel_sandbox_inv[OF inv2 unnamed], where k = "lease_key sid"]
      mdel_sandbox_inv[OF inv2 unnamed] reg_inv_both[OF inv2, of sid] inv2
      mdel_inv[OF inv2, where k = "lease_key sid"]
    by (auto split: option.split prod.split)
  then show ?thesis
    by (cases "fake_view t f (conv_key session) = Some sid")
      (simp_all add: fake_unbind_def f1 Let_def f2_def case_prod_unfold del: del_keys.simps)
qed

lemma fake_bind_inv:
  assumes inv: "reg_inv (rt_marshal rt) own f"
    and "own (m_sandbox_id m) = m_session_id m" "plain_id (m_sandbox_id m)" "plain_id (m_session_id m)"
  shows "reg_inv (rt_marshal rt) own (snd (fake_bind t
     [conv_key (m_session_id m), rev_key (m_sandbox_id m), meta_key (m_sandbox_id m), lease_key (m_sandbox_id m),
      lock_key session]
     [AStr (m_sandbox_id m), AStr (m_session_id m), AStr (rt_marshal rt m), a4, a5, a6] f))"
proof -
  obtain f1 where f1: "live_locked t (lock_key session) f = (fake_view t f (lock_key session), f1)"
    using live_locked_cases by blast
  obtain f2 where f2: "live_locked t (conv_key (m_session_id m)) f1 = (fake_view t f1 (conv_key (m_session_id m)), f2)"
    using live_locked_cases by blast
  have inv1: "reg_inv (rt_marshal rt) own f1" using live_locked_inv[OF inv] f1 by (metis snd_conv)
  have inv2: "reg_inv (rt_marshal rt) own f2" using live_locked_inv[OF inv1] f2 by (metis snd_conv)
  note put = put_sandbox_inv[OF inv2 assms(2-4)]
  show ?thesis
    by (auto simp: fake_bind_def f1 f2 Let_def inv1 inv2 intro!: set_locked_inv put split: option.split)
qed

section \<open>The contract holds of the in-memory store\<close>

lemma state_keeps_fake:
  assumes "\<And>t kv. reg_inv (rt_marshal (b_rt B)) own kv \<Longrightarrow>
      reg_inv (rt_marshal (b_rt B)) own (snd (f t kv)) \<and> (registry_world env own B \<longrightarrow> R (fst (f t kv)))"
    and "registry_world env own B \<Longrightarrow> m = on_fake env f"
  shows "keeps (registry_state env own B) m R"
  using assms by (auto simp: keeps_state intro!: keeps_fake)

lemma world_kv: "registry_world env own B \<Longrightarrow> b_kv B = fake_kv env"
  by (simp add: registry_world_def)

lemmas kv_eval_fun = ext[OF fake_eval_unlock] ext[OF fake_eval_unbind] ext[OF fake_eval_bind]

lemma record_decodes:
  assumes "registry_world env own B" "reg_inv (rt_marshal (b_rt B)) own kv" "mget kv (meta_key sid) = Some v"
  shows "decodes_to B (fv_val v) sid (own sid)"
proof -
  from reg_inv_meta[OF assms(2,3)] obtain m where "fv_val v = rt_marshal (b_rt B) m"
    "m_sandbox_id m = sid" "m_session_id m = own sid" "plain_id sid" "plain_id (own sid)"
    by blast
  moreover have "meta_codec B" using assms(1) by (simp add: registry_world_def)
  ultimately show ?thesis unfolding decodes_to_def meta_codec_def by metis
qed

interpretation fake_reg: registry B "registry_state env own B" own
  for B :: "'w sys session_binder" and env own
proof
  show "calls_keep (registry_state env own B) B" using calls_keep_state by blast
  show "creates_for (registry_state env own B) own B"
    by (simp add: creates_for_def keeps_state registry_world_def)
next
  fix key show "keeps (registry_state env own B) (kv_get (b_kv B) key) any"
    by (rule state_keeps_fake[where f = "\<lambda>t. fake_get t key"]) (simp_all add: fake_get_inv world_kv fake_kv_def)
next
  fix session
  show "keeps (registry_state env own B) (kv_get (b_kv B) (conv_key session)) (ok (\<lambda>sid. own sid = session))"
    by (rule state_keeps_fake[where f = "\<lambda>t. fake_get t (conv_key session)"])
      (auto simp: fake_get_inv fake_get_registry world_kv fake_kv_def split: option.split dest: reg_inv_conv)
next
  fix sid
  show "keeps (registry_state env own B) (kv_get (b_kv B) (meta_key sid)) (ok (\<lambda>raw. decodes_to B raw sid (own sid)))"
    by (rule state_keeps_fake[where f = "\<lambda>t. fake_get t (meta_key sid)"])
      (auto simp: fake_get_inv fake_get_registry world_kv fake_kv_def split: option.split
        intro: record_decodes)
next
  fix sid v ttl show "keeps (registry_state env own B) (kv_set (b_kv B) (lease_key sid) v ttl) any"
    by (rule state_keeps_fake[where f = "\<lambda>t. fake_set t (lease_key sid) v ttl"])
      (simp_all add: fake_set_def set_locked_inv world_kv fake_kv_def)
next
  fix x v ttl show "keeps (registry_state env own B) (kv_setnx (b_kv B) (lock_key x) v ttl) any"
    by (rule state_keeps_fake[where f = "\<lambda>t. fake_setnx t (lock_key x) v ttl"])
      (simp_all add: fake_setnx_inv world_kv fake_kv_def)
next
  fix x a show "keeps (registry_state env own B) (kv_eval (b_kv B) lua_unlock [lock_key x] [a]) any"
    by (rule state_keeps_fake[where f = "\<lambda>t. fake_unlock t [lock_key x] [a]"])
      (simp_all add: fake_unlock_inv world_kv fake_kv_def kv_eval_fun)
next
  fix sid session assume "own sid = session"
  then show "keeps (registry_state env own B) (kv_eval (b_kv B) lua_unbind
      [conv_key session, rev_key sid, meta_key sid, lease_key sid] [AStr sid]) any"
    by (intro state_keeps_fake[where f = "\<lambda>t. fake_unbind t
          [conv_key session, rev_key sid, meta_key sid, lease_key sid] [AStr sid]"])
      (simp_all add: fake_unbind_inv world_kv fake_kv_def kv_eval_fun)
next
  fix m :: meta and session a4 a5 a6
  assume "own (m_sandbox_id m) = m_session_id m" "plain_id (m_sandbox_id m)" "plain_id (m_session_id m)"
  then show "keeps (registry_state env own B) (kv_eval (b_kv B) lua_bind
       [conv_key (m_session_id m), rev_key (m_sandbox_id m), meta_key (m_sandbox_id m), lease_key (m_sandbox_id m),
        lock_key session]
       [AStr (m_sandbox_id m), AStr (m_session_id m), AStr (rt_marshal (b_rt B) m), a4, a5, a6]) any"
    by (intro state_keeps_fake[where f = "\<lambda>t. fake_bind t
         [conv_key (m_session_id m), rev_key (m_sandbox_id m), meta_key (m_sandbox_id m), lease_key (m_sandbox_id m),
          lock_key session]
         [AStr (m_sandbox_id m), AStr (m_session_id m), AStr (rt_marshal (b_rt B) m), a4, a5, a6]"])
      (simp_all add: fake_bind_inv world_kv fake_kv_def kv_eval_fun)
next
  fix x show "keeps (registry_state env own B) (kv_del (b_kv B) [conv_key x]) any"
    by (rule state_keeps_fake[where f = "\<lambda>t. fake_del [conv_key x]"])
      (auto simp: fake_del_def mdel_conv_inv world_kv fake_kv_def split: option.split)
next
  show "keeps (registry_state env own B) (kv_scan (b_kv B) meta_scan_pattern)
      (\<lambda>r. \<forall>k \<in> set (fst r). \<exists>sid. k = meta_key sid)"
    by (rule state_keeps_fake[where f = "\<lambda>t. fake_scan t meta_scan_pattern"])
      (auto simp: fake_scan_inv world_kv fake_kv_def dest: fake_scan_meta)
qed

end
