(* ===== verification/KV_Store.thy ===== *)
theory KV_Store
  imports Orch_Logic
begin

text \<open>
  The KV contract as one client sees it when nobody else acts: each call in terms of the live keys
  (\<open>view\<close>), and nothing else changes (\<open>rest\<close>). In this locale the operations of the Binder are
  executed once, symbolically, on the live keys; the in-memory store satisfies the contract.
\<close>

locale kv_store =
  fixes K :: "'s kv_ops" and view :: "'s \<Rightarrow> string \<Rightarrow> string option" and rest :: "'s \<Rightarrow> 'r"
  assumes get_value: "fst (run_state (kv_get K k) s) = (case view s k of None \<Rightarrow> Inl KvNil | Some v \<Rightarrow> Inr v)"
    and get_view: "view (snd (run_state (kv_get K k) s)) = view s"
    and get_rest: "rest (snd (run_state (kv_get K k) s)) = rest s"
    and set_value: "fst (run_state (kv_set K k v ttl) s) = Inr ()"
    and set_view: "view (snd (run_state (kv_set K k v ttl) s)) = (view s)(k := Some v)"
    and set_rest: "rest (snd (run_state (kv_set K k v ttl) s)) = rest s"
    and setnx_value: "fst (run_state (kv_setnx K k v ttl) s) = Inr (view s k = None)"
    and setnx_view: "view (snd (run_state (kv_setnx K k v ttl) s)) =
      (if view s k = None then (view s)(k := Some v) else view s)"
    and setnx_rest: "rest (snd (run_state (kv_setnx K k v ttl) s)) = rest s"
    and unlock_value: "\<exists>n. fst (run_state (kv_eval K lua_unlock [k] [AStr v]) s) = Inr n"
    and unlock_view: "view (snd (run_state (kv_eval K lua_unlock [k] [AStr v]) s)) =
      (if view s k = Some v then (view s)(k := None) else view s)"
    and unlock_rest: "rest (snd (run_state (kv_eval K lua_unlock [k] [AStr v]) s)) = rest s"
    and unbind_value: "\<exists>n. fst (run_state (kv_eval K lua_unbind [k1, k2, k3, k4] [AStr v]) s) = Inr n"
    and unbind_view: "view (snd (run_state (kv_eval K lua_unbind [k1, k2, k3, k4] [AStr v]) s)) =
      (if view s k1 = Some v then (view s)(k1 := None) else view s)(k2 := None, k3 := None, k4 := None)"
    and unbind_rest: "rest (snd (run_state (kv_eval K lua_unbind [k1, k2, k3, k4] [AStr v]) s)) = rest s"
    and bind_value: "fst (run_state (kv_eval K lua_bind [k1, k2, k3, k4, k5] [AStr v1, AStr v2, AStr v3, a4, AStr v5, a6]) s) =
      Inr (if view s k5 \<noteq> Some v5 then - 1 else if view s k1 \<noteq> None then 0 else 1)"
    and bind_view: "k5 \<notin> {k1, k2, k3, k4} \<Longrightarrow>
      view (snd (run_state (kv_eval K lua_bind [k1, k2, k3, k4, k5] [AStr v1, AStr v2, AStr v3, a4, AStr v5, a6]) s)) =
      (if view s k5 = Some v5 \<and> view s k1 = None
       then (view s)(k1 := Some v1, k2 := Some v2, k3 := Some v3, k4 := Some ''1'') else view s)"
    and bind_rest: "rest (snd (run_state (kv_eval K lua_bind [k1, k2, k3, k4, k5] [AStr v1, AStr v2, AStr v3, a4, AStr v5, a6]) s)) = rest s"
begin

lemmas kv_run [simp] = get_value get_view get_rest set_value set_view set_rest setnx_value setnx_view setnx_rest
  unlock_view unlock_rest unbind_view unbind_rest bind_value bind_rest

lemma run_andthen: "run_state (andthen m f) s =
    (case fst (run_state m s) of Inl e \<Rightarrow> (Inl e, snd (run_state m s))
     | Inr a \<Rightarrow> run_state (f a) (snd (run_state m s)))"
  by (simp add: andthen_def case_prod_beta split: sum.split)

lemma run_of_kv: "run_state (of_kv m) s = (map_sum ErrKV id (fst (run_state m s)), snd (run_state m s))"
  by (simp add: of_kv_def case_prod_beta)

lemma run_deferred: "run_state (deferred fin m) s =
    (fst (run_state m s), snd (run_state fin (snd (run_state m s))))"
  by (simp add: deferred_def case_prod_beta)

lemmas run_defs = run_andthen run_of_kv run_deferred case_prod_beta

end

section \<open>The in-memory store satisfies it\<close>

definition alone :: "'w sys \<Rightarrow> 'w sys" where "alone s = s"

definition live :: "'w sys \<Rightarrow> string \<Rightarrow> string option" where
  "live s = fake_view (sys_now s) (sys_kv s)"

definition others :: "'w sys \<Rightarrow> gtime \<times> 'w" where
  "others s = (sys_now s, sys_world s)"

lemma others_kv [simp]: "others (s\<lparr>sys_kv := f\<rparr>) = others s"
  by (simp add: others_def)

lemma run_alone: "run_state (on_fake alone f) s =
   (fst (f (sys_now s) (sys_kv s)), s\<lparr>sys_kv := snd (f (sys_now s) (sys_kv s))\<rparr>)"
  by (simp add: run_on_fake alone_def)

lemma live_put [simp]: "live (s\<lparr>sys_kv := f\<rparr>) = fake_view (sys_now s) f"
  by (simp add: live_def)

text \<open>The operations of Fake on the live keys, at the instant they run.\<close>

named_theorems fake_at \<open>the operations of Fake on the live keys\<close>

lemma fake_get_at [fake_at]:
  "fst (fake_get t k f) = (case fake_view t f k of None \<Rightarrow> Inl KvNil | Some v \<Rightarrow> Inr v)"
  "fake_view t (snd (fake_get t k f)) = fake_view t f"
  by (rule live_locked_cases[of t k f]; auto simp: fake_get_def split: option.split)+

lemma fake_set_at [fake_at]:
  "fst (fake_set t k v ttl f) = Inr ()" "fake_view t (snd (fake_set t k v ttl f)) = (fake_view t f)(k := Some v)"
  by (simp_all add: fake_set_def set_locked_view)

lemma fake_setnx_at [fake_at]:
  "fst (fake_setnx t k v ttl f) = Inr (fake_view t f k = None)"
  "fake_view t (snd (fake_setnx t k v ttl f)) =
     (if fake_view t f k = None then (fake_view t f)(k := Some v) else fake_view t f)"
  by (rule live_locked_cases[of t k f]; auto simp: fake_setnx_def set_locked_view split: option.split)+

lemma fake_unlock_at [fake_at]:
  "\<exists>n. fst (fake_unlock t [k] [AStr v] f) = Inr n"
  "fake_view t (snd (fake_unlock t [k] [AStr v] f)) =
     (if fake_view t f k = Some v then (fake_view t f)(k := None) else fake_view t f)"
  by (rule live_locked_cases[of t k f]; auto simp: fake_unlock_def mdel_view)+

lemma fake_unbind_at [fake_at]:
  "\<exists>n. fst (fake_unbind t [k1, k2, k3, k4] [AStr v] f) = Inr n"
  "fake_view t (snd (fake_unbind t [k1, k2, k3, k4] [AStr v] f)) =
     (if fake_view t f k1 = Some v then (fake_view t f)(k1 := None) else fake_view t f)
       (k2 := None, k3 := None, k4 := None)"
  by (rule live_locked_cases[of t k1 f];
      auto simp: fake_unbind_def mdel_view Let_def case_prod_beta del_keys_view fun_eq_iff simp del: del_keys.simps)+

lemma fake_bind_at [fake_at]:
  "fst (fake_bind t [k1, k2, k3, k4, k5] [AStr v1, AStr v2, AStr v3, a4, AStr v5, a6] f) =
     Inr (if fake_view t f k5 \<noteq> Some v5 then - 1 else if fake_view t f k1 \<noteq> None then 0 else 1)"
  "k5 \<notin> {k1, k2, k3, k4} \<Longrightarrow>
   fake_view t (snd (fake_bind t [k1, k2, k3, k4, k5] [AStr v1, AStr v2, AStr v3, a4, AStr v5, a6] f)) =
     (if fake_view t f k5 = Some v5 \<and> fake_view t f k1 = None
      then (fake_view t f)(k1 := Some v1, k2 := Some v2, k3 := Some v3, k4 := Some ''1'') else fake_view t f)"
proof -
  obtain f1 where f1: "live_locked t k5 f = (fake_view t f k5, f1)" "fake_view t f1 = fake_view t f"
    using live_locked_cases[of t k5 f] by (metis order_refl)
  obtain f2 where f2: "live_locked t k1 f1 = (fake_view t f k1, f2)" "fake_view t f2 = fake_view t f"
    using live_locked_cases[of t k1 f1] f1(2) by (metis order_refl)
  show "fst (fake_bind t [k1, k2, k3, k4, k5] [AStr v1, AStr v2, AStr v3, a4, AStr v5, a6] f) =
     Inr (if fake_view t f k5 \<noteq> Some v5 then - 1 else if fake_view t f k1 \<noteq> None then 0 else 1)"
    by (auto simp: fake_bind_def f1 f2 Let_def split: option.split)
  assume "k5 \<notin> {k1, k2, k3, k4}"
  then show "fake_view t (snd (fake_bind t [k1, k2, k3, k4, k5] [AStr v1, AStr v2, AStr v3, a4, AStr v5, a6] f)) =
     (if fake_view t f k5 = Some v5 \<and> fake_view t f k1 = None
      then (fake_view t f)(k1 := Some v1, k2 := Some v2, k3 := Some v3, k4 := Some ''1'') else fake_view t f)"
    by (auto simp: fake_bind_def f1 f2 Let_def set_locked_view fun_eq_iff split: option.split)
qed

interpretation fake_store: kv_store "fake_kv alone" live others
  by unfold_locales
    (simp_all add: fake_kv_def run_alone kv_eval_text fake_at, auto simp: live_def fake_at)

end
