(* ===== verification/Binder_Alone.thy ===== *)
theory Binder_Alone
  imports KV_Store
begin

text \<open>
  The Binder's operations run without interference: what each returns and how it changes the live
  keys. \<open>frames\<close> says that the calls outside the KV store leave the live keys alone; \<open>bare\<close> is the
  deployment without managed storage and capacity gating.
\<close>

definition frames :: "('s \<Rightarrow> 'v) \<Rightarrow> 's session_binder \<Rightarrow> bool" where
  "frames view B \<longleftrightarrow> (\<forall>s. view (snd (run_state (rt_token (b_rt B)) s)) = view s)
     \<and> (\<forall>s. view (snd (run_state (rt_now (b_rt B)) s)) = view s)
     \<and> (\<forall>x s. view (snd (run_state (p_create (b_p B) x) s)) = view s)
     \<and> (\<forall>x s. view (snd (run_state (p_destroy (b_p B) x) s)) = view s)
     \<and> (\<forall>x s. view (snd (run_state (p_health (b_p B) x) s)) = view s)"

definition bare :: "'s session_binder \<Rightarrow> bool" where
  "bare B \<longleftrightarrow> b_lease_source B = None \<and> b_metrics B = None \<and> b_cap B = None \<and> b_storage B = None"

text \<open>A record the Binder wrote is read back with its ids and owner.\<close>

definition reads_back :: "'s session_binder \<Rightarrow> meta \<Rightarrow> bool" where
  "reads_back B m \<longleftrightarrow> (\<exists>m'. rt_unmarshal (b_rt B) (rt_marshal (b_rt B) m) meta_zero = (True, m')
     \<and> m_sandbox_id m' = m_sandbox_id m \<and> m_session_id m' = m_session_id m \<and> m_user_id m' = m_user_id m)"

context kv_store
begin

lemma frame_simps:
  assumes "frames view B"
  shows "view (snd (run_state (rt_token (b_rt B)) s)) = view s" "view (snd (run_state (rt_now (b_rt B)) s)) = view s"
    "view (snd (run_state (p_create (b_p B) x) s)) = view s" "view (snd (run_state (p_destroy (b_p B) y) s)) = view s"
    "view (snd (run_state (p_health (b_p B) y) s)) = view s"
  using assms by (simp_all add: frames_def)

lemma release_lock_view:
  assumes "b_kv B = K"
  shows "view (snd (run_state (release_lock B l) s)) =
    (if view s (lk_key l) = Some (lk_token l) then (view s)(lk_key l := None) else view s)"
proof -
  obtain n where "fst (run_state (kv_eval K lua_unlock [lk_key l] [AStr (lk_token l)]) s) = Inr n"
    using unlock_value by blast
  then show ?thesis by (simp add: release_lock_def run_defs assms)
qed

lemma unbind_run:
  assumes "b_kv B = K"
  shows "fst (run_state (unbind B x sid) s) = Inr ()"
    "view (snd (run_state (unbind B x sid) s)) =
      (if view s (conv_key x) = Some sid then (view s)(conv_key x := None) else view s)
        (rev_key sid := None, meta_key sid := None, lease_key sid := None)"
proof -
  obtain n where n: "fst (run_state (kv_eval K lua_unbind
      [conv_key x, rev_key sid, meta_key sid, lease_key sid] [AStr sid]) s) = Inr n"
    using unbind_value by blast
  show "fst (run_state (unbind B x sid) s) = Inr ()"
    by (simp add: unbind_def run_defs assms n)
  show "view (snd (run_state (unbind B x sid) s)) =
      (if view s (conv_key x) = Some sid then (view s)(conv_key x := None) else view s)
        (rev_key sid := None, meta_key sid := None, lease_key sid := None)"
    by (simp add: unbind_def run_defs assms n)
qed

lemma renew_lease_run:
  assumes "b_kv B = K" "b_lease_source B = None"
  shows "fst (run_state (renew_lease B sid) s) = Inr ()"
    "view (snd (run_state (renew_lease B sid) s)) = (view s)(lease_key sid := Some ''1'')"
  using assms by (simp_all add: renew_lease_def current_lease_ttl_def run_defs)

lemma bind_meta_run:
  assumes "b_kv B = K" "b_lease_source B = None" "lk_key l = lock_key x"
  shows "fst (run_state (bind_meta B m l) s) =
      Inr (if view s (lock_key x) \<noteq> Some (lk_token l) then bind_lock_lost
           else if view s (conv_key (m_session_id m)) \<noteq> None then bind_exists else bind_won)"
    "view (snd (run_state (bind_meta B m l) s)) =
      (if view s (lock_key x) = Some (lk_token l) \<and> view s (conv_key (m_session_id m)) = None
       then (view s)(conv_key (m_session_id m) := Some (m_sandbox_id m),
              rev_key (m_sandbox_id m) := Some (m_session_id m),
              meta_key (m_sandbox_id m) := Some (rt_marshal (b_rt B) m),
              lease_key (m_sandbox_id m) := Some ''1'')
       else view s)"
  using assms
  by (simp_all add: bind_meta_def current_lease_ttl_def run_defs bind_view bind_lock_lost_def bind_exists_def bind_won_def)

lemma try_lock_run:
  assumes "b_kv B = K" "frames view B"
  shows "fst (run_state (try_lock B x ttl) s) =
      (if view s (lock_key x) = None
       then Inr \<lparr>lk_key = lock_key x, lk_token = fst (run_state (rt_token (b_rt B)) s)\<rparr> else Inl ErrLockHeld)"
    "view (snd (run_state (try_lock B x ttl) s)) =
      (if view s (lock_key x) = None
       then (view s)(lock_key x := Some (fst (run_state (rt_token (b_rt B)) s))) else view s)"
  using assms by (simp_all add: try_lock_def run_defs frame_simps split: bool.split)

lemma under_lock_run:
  assumes "b_kv B = K" "frames view B" "view s (lock_key x) = None"
  obtains l s1 where "lk_key l = lock_key x" "view s1 = (view s)(lock_key x := Some (lk_token l))"
    "fst (run_state (under_session_lock ctx B msg x body) s) = fst (run_state (body l) s1)"
    "view (snd (run_state (under_session_lock ctx B msg x body) s)) =
      view (snd (run_state (release_lock B l) (snd (run_state (body l) s1))))"
proof -
  define l where "l = \<lparr>lk_key = lock_key x, lk_token = fst (run_state (rt_token (b_rt B)) s)\<rparr>"
  define s1 where "s1 = snd (run_state (try_lock B x (cfg_lock_ttl (b_cfg B))) s)"
  have got: "run_state (try_lock B x (cfg_lock_ttl (b_cfg B))) s = (Inr l, s1)"
    using try_lock_run[OF assms(1,2), of x _ s] assms(3)
    by (simp add: l_def s1_def prod_eq_iff)
  have "run_state (acquire_lock ctx B x (cfg_lock_ttl (b_cfg B)) (cfg_lock_retry (b_cfg B))) s = (Inr l, s1)"
    by (subst acquire_lock.simps) (simp add: got)
  then have "run_state (under_session_lock ctx B msg x body) s =
      (fst (run_state (body l) s1), snd (run_state (release_lock B l) (snd (run_state (body l) s1))))"
    by (simp add: under_session_lock_def run_deferred)
  moreover have "view s1 = (view s)(lock_key x := Some (lk_token l))"
    using try_lock_run[OF assms(1,2), of x _ s] assms(3) by (simp add: l_def s1_def)
  ultimately show ?thesis using that[of l s1] by (simp add: l_def)
qed

lemma lookup_bound:
  assumes "b_kv B = K" "frames view B" "view s (conv_key x) = Some sid" "view s (meta_key sid) = Some raw"
    and "rt_unmarshal (b_rt B) raw meta_zero = (True, m)" "m_user_id m = user" "user \<noteq> []"
    and "\<And>s. fst (run_state (p_health (b_p B) sid) s) = Inr (Some h)" "h_healthy h"
  shows "fst (run_state (lookup_session B x user) s) = Inr (Some (sandbox_of_meta m))"
    "view (snd (run_state (lookup_session B x user) s)) = view s"
  using assms
  by (simp_all add: lookup_session_def lookup_meta_def lookup_health_def run_defs frame_simps)

lemma lookup_unbound:
  assumes "b_kv B = K" "view s (conv_key x) = None"
  shows "fst (run_state (lookup_session B x user) s) = Inr None"
    "view (snd (run_state (lookup_session B x user) s)) = view s"
  using assms by (simp_all add: lookup_session_def run_defs)

lemma acquire_reuse:
  assumes B: "b_kv B = K" "frames view B" "bare B"
    and bound: "view s (conv_key (as_session_id spec)) = Some sid" "view s (meta_key sid) = Some raw"
      "rt_unmarshal (b_rt B) raw meta_zero = (True, m)" "m_user_id m = as_user_id spec"
    and health: "\<And>s. fst (run_state (p_health (b_p B) sid) s) = Inr (Some h)" "h_healthy h"
    and spec: "as_session_id spec \<noteq> []" "as_user_id spec \<noteq> []"
    and lock_free: "view s (lock_key (as_session_id spec)) = None"
  shows "fst (run_state (acquire_with_outcome ctx B spec) s) =
      Inr \<lparr>o_sandbox = sandbox_of_meta m, o_reused = True, o_workspace_state = WorkspacePreserved,
        o_workspace_node = m_node_name m, o_previous_node = []\<rparr>"
    "view (snd (run_state (acquire_with_outcome ctx B spec) s)) = (view s)(lease_key (m_sandbox_id m) := Some ''1'')"
proof -
  obtain l s1 where l: "lk_key l = lock_key (as_session_id spec)"
    and s1: "view s1 = (view s)(lock_key (as_session_id spec) := Some (lk_token l))"
    and run: "fst (run_state (acquire_with_outcome ctx B spec) s) = fst (run_state (acquire_locked B spec l) s1)"
      "view (snd (run_state (acquire_with_outcome ctx B spec) s)) =
        view (snd (run_state (release_lock B l) (snd (run_state (acquire_locked B spec l) s1))))"
    using under_lock_run[OF B(1,2) lock_free, of ctx "''acquire lock''" "acquire_locked B spec"] spec
    unfolding acquire_with_outcome_def by auto
  have b1: "view s1 (conv_key (as_session_id spec)) = Some sid" "view s1 (meta_key sid) = Some raw"
    using bound s1 by simp_all
  note look = lookup_bound[OF B(1,2) b1 bound(3,4) spec(2) health]
  have body: "fst (run_state (acquire_locked B spec l) s1) =
      Inr \<lparr>o_sandbox = sandbox_of_meta m, o_reused = True, o_workspace_state = WorkspacePreserved,
        o_workspace_node = m_node_name m, o_previous_node = []\<rparr>"
    "view (snd (run_state (acquire_locked B spec l) s1)) = (view s1)(lease_key (m_sandbox_id m) := Some ''1'')"
    using B by (simp_all add: acquire_locked_def run_defs look reuse_running_def running_sandbox_reusable_def
        bare_def renew_lease_run record_hit_def sandbox_of_meta_def)
  show "fst (run_state (acquire_with_outcome ctx B spec) s) =
      Inr \<lparr>o_sandbox = sandbox_of_meta m, o_reused = True, o_workspace_state = WorkspacePreserved,
        o_workspace_node = m_node_name m, o_previous_node = []\<rparr>"
    using run body by simp
  show "view (snd (run_state (acquire_with_outcome ctx B spec) s)) = (view s)(lease_key (m_sandbox_id m) := Some ''1'')"
    using lock_free l by (auto simp: run body release_lock_view[OF B(1)] s1 fun_eq_iff)
qed

lemma acquire_create:
  assumes B: "b_kv B = K" "frames view B" "bare B"
    and unbound: "view s (conv_key (as_session_id spec)) = None"
    and created: "\<And>req s. sp_session_id req = as_session_id spec \<Longrightarrow> sp_user_id req = as_user_id spec \<Longrightarrow> fst (run_state (p_create (b_p B) req) s) = Inr sb"
    and spec: "as_session_id spec \<noteq> []" "as_user_id spec \<noteq> []"
    and lock_free: "view s (lock_key (as_session_id spec)) = None"
  obtains m out where "m_sandbox_id m = sb_id sb" "m_session_id m = as_session_id spec" "m_user_id m = as_user_id spec"
    "fst (run_state (acquire_with_outcome ctx B spec) s) = Inr out" "sb_id (o_sandbox out) = sb_id sb" "\<not> o_reused out"
    "view (snd (run_state (acquire_with_outcome ctx B spec) s)) =
      (view s)(conv_key (as_session_id spec) := Some (sb_id sb), rev_key (sb_id sb) := Some (as_session_id spec),
        meta_key (sb_id sb) := Some (rt_marshal (b_rt B) m), lease_key (sb_id sb) := Some ''1'')"
proof -
  obtain l s1 where l: "lk_key l = lock_key (as_session_id spec)"
    and s1: "view s1 = (view s)(lock_key (as_session_id spec) := Some (lk_token l))"
    and run: "fst (run_state (acquire_with_outcome ctx B spec) s) = fst (run_state (acquire_locked B spec l) s1)"
      "view (snd (run_state (acquire_with_outcome ctx B spec) s)) =
        view (snd (run_state (release_lock B l) (snd (run_state (acquire_locked B spec l) s1))))"
    using under_lock_run[OF B(1,2) lock_free, of ctx "''acquire lock''" "acquire_locked B spec"] spec
    unfolding acquire_with_outcome_def by auto
  have u1: "view s1 (conv_key (as_session_id spec)) = None" using unbound s1 by simp
  note look = lookup_unbound[OF B(1) u1]
  have no: "b_lease_source B = None" "b_metrics B = None" "b_cap B = None" "b_storage B = None"
    using B(3) by (simp_all add: bare_def)
  define sb' where "sb' = sb\<lparr>sb_node_name := [], sb_storage_id := [], sb_pvc_namespace := [],
     sb_session_claim := [], sb_storage_generation := 0\<rparr>"
  have create: "fst (run_state (create_sandbox B spec placement_zero) s') = Inr sb'"
    "view (snd (run_state (create_sandbox B spec placement_zero) s')) = view s'" for s'
    by (simp_all add: create_sandbox_def run_defs created frame_simps[OF B(2)] placement_zero_def
        storage_binding_zero_def sb'_def)
  have bind: "\<exists>m. m_sandbox_id m = sb_id sb \<and> m_session_id m = as_session_id spec \<and> m_user_id m = as_user_id spec \<and>
      fst (run_state (bind_created B spec l start placement_zero sb') s2) =
        Inr \<lparr>o_sandbox = sb', o_reused = False, o_workspace_state = WorkspaceFresh, o_workspace_node = [], o_previous_node = []\<rparr> \<and>
      view (snd (run_state (bind_created B spec l start placement_zero sb') s2)) =
        (view s2)(conv_key (as_session_id spec) := Some (sb_id sb), rev_key (sb_id sb) := Some (as_session_id spec),
          meta_key (sb_id sb) := Some (rt_marshal (b_rt B) m), lease_key (sb_id sb) := Some ''1'')"
    if "view s2 = view s1" for s2 start
    using that s1 u1 l
    by (intro exI[of _ "meta_for spec placement_zero sb' (fst (run_state (rt_now (b_rt B)) s2))"])
      (simp add: bind_created_def run_defs bind_meta_run[OF B(1) no(1) l] frame_simps[OF B(2)] no
        record_miss_def commit_workspace_reset_def placement_zero_def sb'_def meta_for_def)
  define s2 where "s2 = snd (run_state (create_sandbox B spec placement_zero)
     (snd (run_state (rt_now (b_rt B)) (snd (run_state (lookup_session B (as_session_id spec) (as_user_id spec)) s1)))))"
  have v2: "view s2 = view s1" by (simp add: s2_def create frame_simps[OF B(2)] look)
  obtain start where body: "run_state (acquire_locked B spec l) s1 =
      run_state (bind_created B spec l start placement_zero sb') s2"
    by (simp add: acquire_locked_def acquire_fresh_def run_defs look place_workspace_def no create s2_def)
  obtain m where m: "m_sandbox_id m = sb_id sb" "m_session_id m = as_session_id spec" "m_user_id m = as_user_id spec"
    "fst (run_state (acquire_locked B spec l) s1) =
        Inr \<lparr>o_sandbox = sb', o_reused = False, o_workspace_state = WorkspaceFresh, o_workspace_node = [], o_previous_node = []\<rparr>"
    "view (snd (run_state (acquire_locked B spec l) s1)) =
        (view s2)(conv_key (as_session_id spec) := Some (sb_id sb), rev_key (sb_id sb) := Some (as_session_id spec),
          meta_key (sb_id sb) := Some (rt_marshal (b_rt B) m), lease_key (sb_id sb) := Some ''1'')"
    using bind[OF v2, of start] unfolding body by blast
  show ?thesis
  proof (rule that[OF m(1-3)])
    show "fst (run_state (acquire_with_outcome ctx B spec) s) =
      Inr \<lparr>o_sandbox = sb', o_reused = False, o_workspace_state = WorkspaceFresh, o_workspace_node = [], o_previous_node = []\<rparr>"
      by (simp add: run m)
    show "view (snd (run_state (acquire_with_outcome ctx B spec) s)) =
      (view s)(conv_key (as_session_id spec) := Some (sb_id sb), rev_key (sb_id sb) := Some (as_session_id spec),
        meta_key (sb_id sb) := Some (rt_marshal (b_rt B) m), lease_key (sb_id sb) := Some ''1'')"
      using lock_free l by (auto simp: run m release_lock_view[OF B(1)] v2 s1 fun_eq_iff)
  qed (simp_all add: sb'_def)
qed

text \<open>What remains when a sandbox is unbound.\<close>

abbreviation without :: "string \<Rightarrow> string \<Rightarrow> (string \<Rightarrow> string option) \<Rightarrow> string \<Rightarrow> string option" where
  "without x sid v \<equiv> (if v (conv_key x) = Some sid then v(conv_key x := None) else v)
     (rev_key sid := None, meta_key sid := None, lease_key sid := None)"

lemma destroy_gone_run:
  assumes "frames view B" "\<And>s. fst (run_state (p_destroy (b_p B) sid) s) = r"
  shows "fst (run_state (destroy_gone B sid) s) =
      (case r of Inl e \<Rightarrow> if err_is e ErrNotExist then Inr () else Inl e | Inr _ \<Rightarrow> Inr ())"
    "view (snd (run_state (destroy_gone B sid) s)) = view s"
  using assms by (simp_all add: destroy_gone_def run_defs frame_simps)

lemma read_meta_run:
  assumes "b_kv B = K" "view s key = Some raw" "rt_unmarshal (b_rt B) raw m0 = (True, m)"
  shows "fst (run_state (read_meta B key m0) s) = Inr (Some m)" "view (snd (run_state (read_meta B key m0) s)) = view s"
    "rest (snd (run_state (read_meta B key m0) s)) = rest s"
  using assms by (simp_all add: read_meta_def run_defs)

lemma lease_live_run:
  assumes "b_kv B = K"
  shows "fst (run_state (lease_live B sid) s) = Inr (view s (lease_key sid) \<noteq> None)"
    "view (snd (run_state (lease_live B sid) s)) = view s"
    "rest (snd (run_state (lease_live B sid) s)) = rest s"
  using assms by (simp_all add: lease_live_def run_defs split: option.split)

lemma reap_leased:
  assumes "b_kv B = K" "view s key = Some raw" "rt_unmarshal (b_rt B) raw meta_zero = (True, m)"
    "m_session_id m \<noteq> []" "m_sandbox_id m \<noteq> []" "view s (lease_key (m_sandbox_id m)) \<noteq> None"
  shows "fst (run_state (reap_meta B key) s) = Inr 1" "view (snd (run_state (reap_meta B key) s)) = view s"
    "rest (snd (run_state (reap_meta B key) s)) = rest s"
  using assms by (simp_all add: reap_meta_def run_andthen read_meta_run lease_live_run)

lemma reap_locked_idle:
  assumes B: "b_kv B = K" "frames view B"
    and m: "view s key = Some raw" "rt_unmarshal (b_rt B) raw m0 = (True, m)"
      "m_session_id m = m_session_id m0" "m_sandbox_id m = m_sandbox_id m0"
    and idle: "view s (lease_key (m_sandbox_id m0)) = None"
    and destroy: "\<And>s. fst (run_state (p_destroy (b_p B) (m_sandbox_id m0)) s) = r"
  shows "fst (run_state (reap_locked B key m0) s) =
      (case r of Inl e \<Rightarrow> if err_is e ErrNotExist then Inr 0 else Inl e | Inr _ \<Rightarrow> Inr 0)"
    "view (snd (run_state (reap_locked B key m0) s)) =
      (if (case r of Inl e \<Rightarrow> err_is e ErrNotExist | Inr _ \<Rightarrow> True)
       then without (m_session_id m0) (m_sandbox_id m0) (view s) else view s)"
  using assms
  by (auto simp: reap_locked_def run_andthen read_meta_run lease_live_run destroy_gone_run unbind_run
      split: sum.split)

lemma reap_idle:
  assumes B: "b_kv B = K" "frames view B"
    and m: "view s key = Some raw" "rt_unmarshal (b_rt B) raw meta_zero = (True, m)"
      "rt_unmarshal (b_rt B) raw m = (True, m')" "m_session_id m' = m_session_id m" "m_sandbox_id m' = m_sandbox_id m"
      "m_session_id m \<noteq> []" "m_sandbox_id m \<noteq> []" "\<And>x. key \<noteq> lock_key x"
    and idle: "view s (lease_key (m_sandbox_id m)) = None" "view s (lock_key (m_session_id m)) = None"
    and destroy: "\<And>s. fst (run_state (p_destroy (b_p B) (m_sandbox_id m)) s) = r"
  shows "fst (run_state (reap_meta B key) s) =
      (case r of Inl e \<Rightarrow> if err_is e ErrNotExist then Inr 0 else Inl e | Inr _ \<Rightarrow> Inr 0)"
    "view (snd (run_state (reap_meta B key) s)) =
      (if (case r of Inl e \<Rightarrow> err_is e ErrNotExist | Inr _ \<Rightarrow> True)
       then without (m_session_id m) (m_sandbox_id m) (view s) else view s)"
proof -
  define s1 where "s1 = snd (run_state (lease_live B (m_sandbox_id m)) (snd (run_state (read_meta B key meta_zero) s)))"
  have v1: "view s1 = view s" by (simp add: s1_def read_meta_run[OF B(1) m(1,2)] lease_live_run[OF B(1)])
  obtain l s2 where got: "run_state (try_lock B (m_session_id m) (cfg_lock_ttl (b_cfg B))) s1 = (Inr l, s2)"
    and l: "lk_key l = lock_key (m_session_id m)"
    and v2: "view s2 = (view s)(lock_key (m_session_id m) := Some (lk_token l))"
    using try_lock_run[OF B, of "m_session_id m" "cfg_lock_ttl (b_cfg B)" s1] v1 idle(2)
    by (cases "run_state (try_lock B (m_session_id m) (cfg_lock_ttl (b_cfg B))) s1") auto
  have run: "run_state (reap_meta B key) s = (fst (run_state (reap_locked B key m) s2),
      snd (run_state (release_lock B l) (snd (run_state (reap_locked B key m) s2))))"
    using m(6,7) idle(1)
    by (simp add: reap_meta_def run_andthen read_meta_run[OF B(1) m(1,2)] lease_live_run[OF B(1)]
        got[unfolded s1_def] run_deferred)
  have m2: "view s2 key = Some raw" "view s2 (lease_key (m_sandbox_id m)) = None"
    using m(1,8) idle(1) v2 by simp_all
  note body = reap_locked_idle[OF B m2(1) m(3-5) m2(2) destroy]
  show "fst (run_state (reap_meta B key) s) =
      (case r of Inl e \<Rightarrow> if err_is e ErrNotExist then Inr 0 else Inl e | Inr _ \<Rightarrow> Inr 0)"
    by (simp add: run body)
  show "view (snd (run_state (reap_meta B key) s)) =
      (if (case r of Inl e \<Rightarrow> err_is e ErrNotExist | Inr _ \<Rightarrow> True)
       then without (m_session_id m) (m_sandbox_id m) (view s) else view s)"
    using idle(2) by (auto simp: run release_lock_view[OF B(1)] body v2 l fun_eq_iff)
qed

lemma release_bound:
  assumes B: "b_kv B = K" "frames view B" "bare B" "p_cleanup (b_p B) = None"
    and bound: "view s (conv_key x) = Some sid" "sid \<noteq> []" "view s (meta_key sid) = Some raw"
      "snd (rt_unmarshal (b_rt B) raw meta_zero) = m"
    and lock_free: "view s (lock_key x) = None"
    and destroy: "\<And>s. fst (run_state (p_destroy (b_p B) sid) s) = Inr ()"
  shows "fst (run_state (release_session ctx B user x) s) =
      (if m_user_id m \<noteq> [] \<and> m_user_id m \<noteq> user then Inl ErrSessionOwnerMismatch else Inr ())"
    "view (snd (run_state (release_session ctx B user x) s)) =
      (if m_user_id m \<noteq> [] \<and> m_user_id m \<noteq> user then view s else without x sid (view s))"
proof -
  obtain l s1 where l: "lk_key l = lock_key x"
    and s1: "view s1 = (view s)(lock_key x := Some (lk_token l))"
    and run: "fst (run_state (release_session ctx B user x) s) = fst (run_state (release_locked B user x l) s1)"
      "view (snd (run_state (release_session ctx B user x) s)) =
        view (snd (run_state (release_lock B l) (snd (run_state (release_locked B user x l) s1))))"
    using under_lock_run[OF B(1,2) lock_free, of ctx "''release lock''" "release_locked B user x"]
    unfolding release_session_def by auto
  have body: "fst (run_state (release_locked B user x l) s1) =
      (if m_user_id m \<noteq> [] \<and> m_user_id m \<noteq> user then Inl ErrSessionOwnerMismatch else Inr ())"
    "view (snd (run_state (release_locked B user x l) s1)) =
      (if m_user_id m \<noteq> [] \<and> m_user_id m \<noteq> user then view s1 else without x sid (view s1))"
    using B bound s1
    by (simp_all add: release_locked_def release_sandbox_def release_meta_def release_storage_def run_defs
        destroy_gone_run[OF B(2) destroy] unbind_run bare_def wrap_err_def)
  show "fst (run_state (release_session ctx B user x) s) =
      (if m_user_id m \<noteq> [] \<and> m_user_id m \<noteq> user then Inl ErrSessionOwnerMismatch else Inr ())"
    by (simp add: run body)
  show "view (snd (run_state (release_session ctx B user x) s)) =
      (if m_user_id m \<noteq> [] \<and> m_user_id m \<noteq> user then view s else without x sid (view s))"
    using lock_free by (auto simp: run release_lock_view[OF B(1)] body s1 l fun_eq_iff)
qed

lemma heartbeat_unknown:
  assumes "b_kv B = K" "sid \<noteq> []" "view s (meta_key sid) = None"
  shows "fst (run_state (heartbeat B sid) s) = Inl ErrUnknownSandbox"
    "view (snd (run_state (heartbeat B sid) s)) = view s"
  using assms by (simp_all add: heartbeat_def heartbeat_meta_def run_defs)

lemma heartbeat_known:
  assumes B: "b_kv B = K" "frames view B" "b_lease_source B = None"
    and m: "sid \<noteq> []" "view s (meta_key sid) = Some raw" "rt_unmarshal (b_rt B) raw meta_zero = (True, m)"
      "rt_unmarshal (b_rt B) raw m = (True, m')" "m_session_id m' \<noteq> []" "m_sandbox_id m' = sid"
      "m_session_id m \<noteq> []" "m_sandbox_id m = sid"
  shows "fst (run_state (heartbeat B sid) s) =
      (if view s (lock_key (m_session_id m)) = None then Inr () else Inl ErrLockHeld)"
    "view (snd (run_state (heartbeat B sid) s)) =
      (if view s (lock_key (m_session_id m)) = None then (view s)(lease_key sid := Some ''1'') else view s)"
proof -
  have hm: "fst (run_state (heartbeat_meta B sid meta_zero) s) = Inr m"
    "view (snd (run_state (heartbeat_meta B sid meta_zero) s)) = view s"
    "view s' (meta_key sid) = Some raw \<Longrightarrow> fst (run_state (heartbeat_meta B sid m) s') = Inr m'"
    "view (snd (run_state (heartbeat_meta B sid m) s')) = view s'" for s'
    using B(1) m by (simp_all add: heartbeat_meta_def run_defs)
  show "fst (run_state (heartbeat B sid) s) =
      (if view s (lock_key (m_session_id m)) = None then Inr () else Inl ErrLockHeld)"
    using m(1,2) by (simp add: heartbeat_def run_andthen run_deferred hm try_lock_run[OF B(1,2)] renew_lease_run[OF B(1,3)])
  show "view (snd (run_state (heartbeat B sid) s)) =
      (if view s (lock_key (m_session_id m)) = None then (view s)(lease_key sid := Some ''1'') else view s)"
    using m(1,2)
    by (auto simp: heartbeat_def run_andthen run_deferred hm try_lock_run[OF B(1,2)] renew_lease_run[OF B(1,3)]
        release_lock_view[OF B(1)] fun_eq_iff)
qed

end

end
