(* ===== verification/Lock_Exclusion.thy ===== *)
theory Lock_Exclusion
  imports Binder_Alone
begin

text \<open>
  Mutual exclusion of the session lock: every sequence of lock attempts, releases (by anyone who was
  ever handed a token, in time or late), binds, other registry writes, and the passing of time. A
  holder is recorded with the instant its lock runs out. Tokens are never repeated, which is what
  the 128 random bits of \<open>newToken\<close> are for.
\<close>

type_synonym holders = "(dist_lock \<times> gtime) list"

abbreviation tokens :: "holders \<Rightarrow> string set" where "tokens hs \<equiv> lk_token ` fst ` set hs"

definition retimed :: "dist_lock \<Rightarrow> gtime \<Rightarrow> holders \<Rightarrow> holders" where
  "retimed l t hs = map (\<lambda>(h, e). (h, if h = l then t else e)) hs"

inductive lock_run :: "'w sys session_binder \<Rightarrow> 'w sys \<Rightarrow> holders \<Rightarrow> bool" for B where
  start: "sys_kv s = new_fake \<Longrightarrow> sys_now s > 0 \<Longrightarrow> lock_run B s []"
| tick: "lock_run B s hs \<Longrightarrow> sys_now s \<le> t \<Longrightarrow> lock_run B (s\<lparr>sys_now := t\<rparr>) hs"
| won: "lock_run B s hs \<Longrightarrow> run_state (try_lock B x ttl) s = (Inr l, s') \<Longrightarrow> ttl > 0 \<Longrightarrow>
    lk_token l \<notin> tokens hs \<Longrightarrow> lock_run B s' ((l, sys_now s + ttl) # hs)"
| refused: "lock_run B s hs \<Longrightarrow> run_state (try_lock B x ttl) s = (Inl e, s') \<Longrightarrow> lock_run B s' hs"
| released: "lock_run B s hs \<Longrightarrow> (l, t) \<in> set hs \<Longrightarrow>
    lock_run B (snd (run_state (release_lock B l) s)) (retimed l (sys_now s - 1) hs)"
| extended: "lock_run B s hs \<Longrightarrow> (l, t) \<in> set hs \<Longrightarrow> run_state (bind_meta B m l) s = (Inr bind_won, s') \<Longrightarrow>
    lock_run B s' (retimed l (sys_now s + max 1 (milliseconds (cfg_lock_ttl (b_cfg B))) * millisecond) hs)"
| other: "lock_run B s hs \<Longrightarrow> (\<And>x. mget kv (lock_key x) = mget (sys_kv s) (lock_key x)) \<Longrightarrow>
    lock_run B (s\<lparr>sys_kv := kv, sys_world := w\<rparr>) hs"

text \<open>A holder whose time has not run out owns the key: its token is there, until then at least.\<close>

definition holds_key :: "'w sys \<Rightarrow> dist_lock \<times> gtime \<Rightarrow> bool" where
  "holds_key s h \<longleftrightarrow> (\<exists>x. lk_key (fst h) = lock_key x) \<and> (sys_now s \<le> snd h \<longrightarrow>
     (\<exists>v. mget (sys_kv s) (lk_key (fst h)) = Some v \<and> fv_val v = lk_token (fst h) \<and> fv_exp v = snd h))"

definition unique_tokens :: "holders \<Rightarrow> bool" where
  "unique_tokens hs \<longleftrightarrow>
     (\<forall>g \<in> set hs. \<forall>h \<in> set hs. lk_token (fst g) = lk_token (fst h) \<longrightarrow> g = h)"

definition lock_inv :: "'w sys \<Rightarrow> holders \<Rightarrow> bool" where
  "lock_inv s hs \<longleftrightarrow> sys_now s > 0 \<and> (\<forall>h \<in> set hs. holds_key s h) \<and> unique_tokens hs"

lemma lock_invI:
  assumes "sys_now s > 0" "\<And>h. h \<in> set hs \<Longrightarrow> holds_key s h"
    and "\<And>g h. g \<in> set hs \<Longrightarrow> h \<in> set hs \<Longrightarrow> lk_token (fst g) = lk_token (fst h) \<Longrightarrow> g = h"
  shows "lock_inv s hs"
  using assms unfolding lock_inv_def unique_tokens_def by blast

lemma lock_inv_now: "lock_inv s hs \<Longrightarrow> sys_now s > 0"
  by (simp add: lock_inv_def)

lemma lock_inv_unique:
  "lock_inv s hs \<Longrightarrow> g \<in> set hs \<Longrightarrow> h \<in> set hs \<Longrightarrow> lk_token (fst g) = lk_token (fst h) \<Longrightarrow> g = h"
  by (simp add: lock_inv_def unique_tokens_def)

lemma lock_inv_holds: "lock_inv s hs \<Longrightarrow> h \<in> set hs \<Longrightarrow> holds_key s h"
  by (simp add: lock_inv_def)

lemma holds_key_later: "holds_key s h \<Longrightarrow> sys_now s \<le> t \<Longrightarrow> holds_key (s\<lparr>sys_now := t\<rparr>) h"
  by (auto simp: holds_key_def)

lemma holds_key_alive:
  assumes "holds_key s h" "sys_now s \<le> snd h"
  shows "live s (lk_key (fst h)) = Some (lk_token (fst h))"
  using assms by (auto simp: holds_key_def live_def fake_view_def fv_dead_def)

lemma live_locked_keeps_alive:
  "mget f k = Some v \<Longrightarrow> \<not> fv_dead t v \<Longrightarrow> mget (snd (live_locked t k' f)) k = Some v"
  by (auto simp: live_locked_def split: option.split)

definition lock_world :: "'w sys session_binder \<Rightarrow> bool" where
  "lock_world B \<longleftrightarrow> b_kv B = fake_kv alone \<and> b_lease_source B = None \<and>
     0 \<le> cfg_lock_ttl (b_cfg B) \<and> cfg_lock_ttl (b_cfg B) \<le> max_int64 \<and>
     (\<forall>s. sys_kv (snd (run_state (rt_token (b_rt B)) s)) = sys_kv s \<and>
          sys_now (snd (run_state (rt_token (b_rt B)) s)) = sys_now s)"

lemma lock_world_frames: "lock_world B \<Longrightarrow> live (snd (run_state (rt_token (b_rt B)) s)) = live s"
  by (simp add: lock_world_def live_def)

text \<open>A step that leaves the keys of unexpired holders as they are.\<close>

lemma holds_key_step:
  assumes "holds_key s h" "sys_now s' = sys_now s"
    and "\<And>v. mget (sys_kv s) (lk_key (fst h)) = Some v \<Longrightarrow> \<not> fv_dead (sys_now s) v \<Longrightarrow>
      mget (sys_kv s') (lk_key (fst h)) = Some v"
  shows "holds_key s' h"
proof -
  have "\<not> fv_dead (sys_now s) v" if "fv_exp v = snd h" "sys_now s \<le> snd h" for v
    using that by (simp add: fv_dead_def)
  with assms show ?thesis unfolding holds_key_def by metis
qed

lemma try_lock_state:
  assumes "lock_world B" "run_state (try_lock B x ttl) s = (r, s')"
  shows "sys_now s' = sys_now s"
    "sys_kv s' = snd (fake_setnx (sys_now s) (lock_key x) (fst (run_state (rt_token (b_rt B)) s)) ttl (sys_kv s))"
    "(case r of Inr l \<Rightarrow> l = \<lparr>lk_key = lock_key x, lk_token = fst (run_state (rt_token (b_rt B)) s)\<rparr> \<and> live s (lock_key x) = None
      | Inl _ \<Rightarrow> live s (lock_key x) \<noteq> None)"
  using assms
  by (auto simp: lock_world_def try_lock_def fake_kv_def run_alone case_prod_beta fake_at live_def
      split: sum.splits bool.splits)

lemma setnx_keeps_alive:
  assumes "mget f k = Some v" "\<not> fv_dead t v"
  shows "mget (snd (fake_setnx t k' tok ttl f)) k = Some v"
proof -
  obtain f' where f': "live_locked t k' f = (fake_view t f k', f')" using live_locked_cases by blast
  then have "mget f' k = Some v" using live_locked_keeps_alive[OF assms, of k'] by (metis snd_conv)
  moreover have "k = k' \<Longrightarrow> fake_view t f k' \<noteq> None" using assms by (simp add: fake_view_def)
  ultimately show ?thesis
    by (auto simp: fake_setnx_def f' set_locked_def lookup_update split: option.split)
qed

lemma lock_inv_won:
  assumes inv: "lock_inv s hs" and B: "lock_world B"
    and run: "run_state (try_lock B x ttl) s = (Inr l, s')" "ttl > 0" "lk_token l \<notin> tokens hs"
  shows "lock_inv s' ((l, sys_now s + ttl) # hs)"
proof -
  note st = try_lock_state[OF B run(1)]
  have l: "lk_key l = lock_key x" "lk_token l = fst (run_state (rt_token (b_rt B)) s)" and free: "live s (lock_key x) = None"
    using st(3) by simp_all
  obtain f' where f': "live_locked (sys_now s) (lock_key x) (sys_kv s) = (None, f')"
    using live_locked_cases[of "sys_now s" "lock_key x" "sys_kv s"] free by (metis live_def)
  have "holds_key s' (l, sys_now s + ttl)"
    using run(2) l by (auto simp: holds_key_def st fake_setnx_def f' set_locked_def lookup_update)
  moreover have "holds_key s' h" if "h \<in> set hs" for h
    by (rule holds_key_step[OF lock_inv_holds[OF inv that] st(1)]) (simp add: st(2) setnx_keeps_alive)
  moreover have fresh: "lk_token (fst h) \<noteq> lk_token l" if "h \<in> set hs" for h
    using run(3) that by (metis image_eqI)
  have "g = h" if "g \<in> set ((l, sys_now s + ttl) # hs)" "h \<in> set ((l, sys_now s + ttl) # hs)"
      "lk_token (fst g) = lk_token (fst h)" for g h
    using that(1,2)
  proof (simp, elim disjE)
    assume "g \<in> set hs" "h \<in> set hs" then show ?thesis using that(3) by (rule lock_inv_unique[OF inv])
  next
    assume "g = (l, sys_now s + ttl)" "h \<in> set hs" then show ?thesis using that(3) fresh[of h] by simp
  next
    assume "g \<in> set hs" "h = (l, sys_now s + ttl)" then show ?thesis using that(3) fresh[of g] by simp
  qed simp
  ultimately show ?thesis
    using lock_inv_now[OF inv] st(1) by (intro lock_invI) auto
qed

lemma lock_inv_refused:
  assumes "lock_inv s hs" "lock_world B" "run_state (try_lock B x ttl) s = (Inl e, s')"
  shows "lock_inv s' hs"
proof -
  note st = try_lock_state(1,2)[OF assms(2,3)]
  have "holds_key s' h" if "h \<in> set hs" for h
    by (rule holds_key_step[OF lock_inv_holds[OF assms(1) that] st(1)]) (simp add: st(2) setnx_keeps_alive)
  with assms(1) st(1) show ?thesis by (simp add: lock_inv_def)
qed

lemma retimed_set: "h \<in> set (retimed l t hs) \<longleftrightarrow> (\<exists>e. (fst h, e) \<in> set hs \<and> snd h = (if fst h = l then t else e))"
  by (cases h) (force simp: retimed_def)

lemma retimed_tokens:
  assumes "lock_inv s hs" "g \<in> set (retimed l t hs)" "h \<in> set (retimed l t hs)" "lk_token (fst g) = lk_token (fst h)"
  shows "g = h"
proof -
  obtain e e' where "(fst g, e) \<in> set hs" "(fst h, e') \<in> set hs"
    "snd g = (if fst g = l then t else e)" "snd h = (if fst h = l then t else e')"
    using assms(2,3) by (auto simp: retimed_set)
  moreover from this assms(4) have "(fst g, e) = (fst h, e')"
    using lock_inv_unique[OF assms(1)] by (metis fst_conv)
  ultimately show ?thesis by (simp add: prod_eq_iff)
qed

lemma release_state:
  assumes "lock_world B"
  shows "sys_now (snd (run_state (release_lock B l) s)) = sys_now s"
    "sys_kv (snd (run_state (release_lock B l) s)) = snd (fake_unlock (sys_now s) [lk_key l] [AStr (lk_token l)] (sys_kv s))"
  using assms
  by (simp_all add: release_lock_def lock_world_def fake_kv_def fake_store.run_defs run_alone kv_eval_text split: sum.split)

lemma unlock_keeps_alive:
  assumes "mget f k = Some v" "\<not> fv_dead t v" "k \<noteq> lk_key l \<or> fv_val v \<noteq> lk_token l"
  shows "mget (snd (fake_unlock t [lk_key l] [AStr (lk_token l)] f)) k = Some v"
proof -
  obtain f' where f': "live_locked t (lk_key l) f = (fake_view t f (lk_key l), f')" using live_locked_cases by blast
  then have "mget f' k = Some v" using live_locked_keeps_alive[OF assms(1,2), of "lk_key l"] by (metis snd_conv)
  moreover have "k = lk_key l \<Longrightarrow> fake_view t f (lk_key l) = Some (fv_val v)" using assms by (simp add: fake_view_def)
  ultimately show ?thesis using assms(3) by (auto simp: fake_unlock_def f')
qed

lemma lock_inv_released:
  assumes inv: "lock_inv s hs" and B: "lock_world B" and l: "(l, t) \<in> set hs"
  shows "lock_inv (snd (run_state (release_lock B l) s)) (retimed l (sys_now s - 1) hs)"
proof -
  have "holds_key (snd (run_state (release_lock B l) s)) h" if h: "h \<in> set (retimed l (sys_now s - 1) hs)" for h
  proof (cases "fst h = l")
    case True
    with h l inv show ?thesis by (auto simp: holds_key_def lock_inv_def retimed_set release_state[OF B])
  next
    case False
    with h have mem: "h \<in> set hs" by (metis prod.collapse retimed_set)
    note hold = lock_inv_holds[OF inv mem]
    have "lk_token (fst h) \<noteq> lk_token l"
      using lock_inv_unique[OF inv l mem] False by auto
    moreover have "fv_val v = lk_token (fst h)" if "mget (sys_kv s) (lk_key (fst h)) = Some v" "sys_now s \<le> snd h" for v
      using hold that by (auto simp: holds_key_def)
    ultimately show ?thesis
      using hold unlock_keeps_alive[of "sys_kv s" "lk_key (fst h)" _ "sys_now s" l]
      by (auto simp: holds_key_def release_state[OF B] fv_dead_def)
  qed
  with inv show ?thesis
    using retimed_tokens[OF inv] unfolding lock_inv_def unique_tokens_def by (simp add: release_state[OF B])
qed

lemma live_locked_pair_alive:
  obtains f' where "live_locked t k f = (fake_view t f k, f')"
    "\<And>k' v. mget f k' = Some v \<Longrightarrow> \<not> fv_dead t v \<Longrightarrow> mget f' k' = Some v"
  using live_locked_cases[of t k f] live_locked_keeps_alive[of f _ _ t k] by (metis snd_conv)

lemma fake_bind_won:
  assumes "fst (fake_bind t [k1, k2, k3, k4, k5] [AStr v1, AStr v2, AStr v3, AInt n4, AStr v5, AInt n6] f) = Inr 1"
  shows "fake_view t f k5 = Some v5"
    "\<exists>f'. (\<forall>k v. mget f k = Some v \<longrightarrow> \<not> fv_dead t v \<longrightarrow> mget f' k = Some v) \<and>
      snd (fake_bind t [k1, k2, k3, k4, k5] [AStr v1, AStr v2, AStr v3, AInt n4, AStr v5, AInt n6] f) =
        set_locked t k5 v5 (int64 (fst (atoi (itoa n6)) * millisecond))
          (set_locked t k4 ''1'' (int64 (fst (atoi (itoa n4)) * second))
            (set_locked t k3 v3 0 (set_locked t k2 v2 0 (set_locked t k1 v1 0 f'))))"
proof -
  obtain f1 where f1: "live_locked t k5 f = (fake_view t f k5, f1)"
    "\<And>k' v. mget f k' = Some v \<Longrightarrow> \<not> fv_dead t v \<Longrightarrow> mget f1 k' = Some v"
    using live_locked_pair_alive by blast
  obtain f2 where f2: "live_locked t k1 f1 = (fake_view t f1 k1, f2)"
    "\<And>k' v. mget f1 k' = Some v \<Longrightarrow> \<not> fv_dead t v \<Longrightarrow> mget f2 k' = Some v"
    using live_locked_pair_alive by blast
  have cases: "fake_view t f k5 = Some v5 \<and> fake_view t f1 k1 = None"
    using assms by (simp add: fake_bind_def f1(1) f2(1) Let_def split: option.splits if_splits)
  then show "fake_view t f k5 = Some v5" by simp
  from cases f1(2) f2(2) show "\<exists>f'. (\<forall>k v. mget f k = Some v \<longrightarrow> \<not> fv_dead t v \<longrightarrow> mget f' k = Some v) \<and>
      snd (fake_bind t [k1, k2, k3, k4, k5] [AStr v1, AStr v2, AStr v3, AInt n4, AStr v5, AInt n6] f) =
        set_locked t k5 v5 (int64 (fst (atoi (itoa n6)) * millisecond))
          (set_locked t k4 ''1'' (int64 (fst (atoi (itoa n4)) * second))
            (set_locked t k3 v3 0 (set_locked t k2 v2 0 (set_locked t k1 v1 0 f'))))"
    by (intro exI[of _ f2]) (simp add: fake_bind_def f1(1) f2(1) Let_def)
qed

definition lock_extension :: "'w sys session_binder \<Rightarrow> duration" where
  "lock_extension B = max 1 (milliseconds (cfg_lock_ttl (b_cfg B))) * millisecond"

lemma lock_extension_pos: "lock_extension B > 0"
  by (simp add: lock_extension_def millisecond_def)

lemma lock_extension_int64:
  assumes "lock_world B"
  shows "int64 (fst (atoi (itoa (max 1 (milliseconds (cfg_lock_ttl (b_cfg B)))))) * millisecond) = lock_extension B"
proof -
  let ?d = "cfg_lock_ttl (b_cfg B)" and ?n = "max 1 (milliseconds (cfg_lock_ttl (b_cfg B)))"
  have d: "0 \<le> ?d" "?d \<le> max_int64" using assms by (simp_all add: lock_world_def)
  moreover have "?d div 1000000 * 1000000 \<le> ?d" by linarith
  ultimately have "milliseconds ?d * 1000000 \<le> ?d" by (simp add: milliseconds_def sgn_if)
  with d have n: "?n * millisecond \<le> max_int64" by (auto simp: millisecond_def max_int64_def max_def)
  then have "atoi (itoa ?n) = (?n, None)"
    by (intro atoi_itoa) (auto simp: millisecond_def min_int64_def max_int64_def)
  moreover have "int64 (?n * millisecond) = ?n * millisecond"
    using n by (intro int64_id) (simp_all add: min_int64_def millisecond_def)
  ultimately show ?thesis by (simp add: lock_extension_def)
qed

lemma bind_meta_state:
  assumes "lock_world B" "run_state (bind_meta B m l) s = (Inr bind_won, s')" "lk_key l = lock_key x"
  shows "sys_now s' = sys_now s" "live s (lk_key l) = Some (lk_token l)"
    "mget (sys_kv s') (lk_key l) =
      Some \<lparr>fv_val = lk_token l, fv_exp = sys_now s + lock_extension B\<rparr>"
    "\<And>y v. mget (sys_kv s) (lock_key y) = Some v \<Longrightarrow> \<not> fv_dead (sys_now s) v \<Longrightarrow> lock_key y \<noteq> lk_key l \<Longrightarrow>
      mget (sys_kv s') (lock_key y) = Some v"
proof -
  let ?ks = "[conv_key (m_session_id m), rev_key (m_sandbox_id m), meta_key (m_sandbox_id m),
     lease_key (m_sandbox_id m), lk_key l]"
  let ?as = "[AStr (m_sandbox_id m), AStr (m_session_id m), AStr (rt_marshal (b_rt B) m),
     AInt (go_seconds (cfg_lease_ttl (b_cfg B))), AStr (lk_token l),
     AInt (max 1 (milliseconds (cfg_lock_ttl (b_cfg B))))]"
  have run: "run_state (bind_meta B m l) s = (map_sum ErrKV id (fst (fake_bind (sys_now s) ?ks ?as (sys_kv s))),
      s\<lparr>sys_kv := snd (fake_bind (sys_now s) ?ks ?as (sys_kv s))\<rparr>)"
    using assms(1)
    by (simp add: lock_world_def bind_meta_def current_lease_ttl_def fake_store.run_of_kv fake_kv_def run_alone kv_eval_text)
  have won: "fst (fake_bind (sys_now s) ?ks ?as (sys_kv s)) = Inr 1"
    using assms(2) run by (cases "fst (fake_bind (sys_now s) ?ks ?as (sys_kv s))") (auto simp: bind_won_def)
  have s': "s' = s\<lparr>sys_kv := snd (fake_bind (sys_now s) ?ks ?as (sys_kv s))\<rparr>" using assms(2) run by simp
  show "sys_now s' = sys_now s" by (simp add: s')
  show "live s (lk_key l) = Some (lk_token l)" using fake_bind_won(1)[OF won] by (simp add: live_def)
  obtain f' where f': "\<And>k v. mget (sys_kv s) k = Some v \<Longrightarrow> \<not> fv_dead (sys_now s) v \<Longrightarrow> mget f' k = Some v"
    and kv: "snd (fake_bind (sys_now s) ?ks ?as (sys_kv s)) =
      set_locked (sys_now s) (lk_key l) (lk_token l) (lock_extension B)
        (set_locked (sys_now s) (lease_key (m_sandbox_id m)) ''1'' (int64 (fst (atoi (itoa (go_seconds (cfg_lease_ttl (b_cfg B))))) * second))
          (set_locked (sys_now s) (meta_key (m_sandbox_id m)) (rt_marshal (b_rt B) m) 0
            (set_locked (sys_now s) (rev_key (m_sandbox_id m)) (m_session_id m) 0
              (set_locked (sys_now s) (conv_key (m_session_id m)) (m_sandbox_id m) 0 f'))))"
    using fake_bind_won(2)[OF won] unfolding lock_extension_int64[OF assms(1)] by blast
  show "mget (sys_kv s') (lk_key l) = Some \<lparr>fv_val = lk_token l, fv_exp = sys_now s + lock_extension B\<rparr>"
    using lock_extension_pos[of B] by (simp add: s' kv set_locked_def lookup_update)
  show "mget (sys_kv s') (lock_key y) = Some v"
    if "mget (sys_kv s) (lock_key y) = Some v" "\<not> fv_dead (sys_now s) v" "lock_key y \<noteq> lk_key l" for y v
    using f'[OF that(1,2)] that(3) by (simp add: s' kv set_locked_def lookup_update)
qed

lemma lock_inv_extended:
  assumes inv: "lock_inv s hs" and B: "lock_world B" and l: "(l, t) \<in> set hs"
    and run: "run_state (bind_meta B m l) s = (Inr bind_won, s')"
  shows "lock_inv s' (retimed l (sys_now s + lock_extension B) hs)"
proof -
  obtain x where x: "lk_key l = lock_key x" using lock_inv_holds[OF inv l] by (auto simp: holds_key_def)
  note st = bind_meta_state[OF B run x]
  have "holds_key s' h" if h: "h \<in> set (retimed l (sys_now s + lock_extension B) hs)" for h
  proof (cases "fst h = l")
    case True
    with h have "snd h = sys_now s + lock_extension B" by (auto simp: retimed_set)
    with True st(3) x show ?thesis by (auto simp: holds_key_def)
  next
    case False
    with h have mem: "h \<in> set hs" by (metis prod.collapse retimed_set)
    note hold = lock_inv_holds[OF inv mem]
    have tok: "lk_token (fst h) \<noteq> lk_token l"
      using lock_inv_unique[OF inv l mem] False by auto
    show ?thesis
    proof (cases "sys_now s \<le> snd h")
      case True
      then have "lk_key (fst h) \<noteq> lk_key l"
        using holds_key_alive[OF hold True] st(2) tok by auto
      moreover obtain y v where "lk_key (fst h) = lock_key y" "mget (sys_kv s) (lk_key (fst h)) = Some v"
        "fv_val v = lk_token (fst h)" "fv_exp v = snd h"
        using hold True by (auto simp: holds_key_def)
      ultimately show ?thesis using st(1) st(4)[of y v] True by (auto simp: holds_key_def fv_dead_def)
    next
      case False
      with hold st(1) show ?thesis by (auto simp: holds_key_def)
    qed
  qed
  with inv show ?thesis
    using retimed_tokens[OF inv] unfolding lock_inv_def unique_tokens_def by (simp add: st(1))
qed

lemma lock_run_inv:
  assumes "lock_world B" "lock_run B s hs"
  shows "lock_inv s hs"
  using assms(2)
proof induction
  case (start s)
  then show ?case by (simp add: lock_inv_def unique_tokens_def)
next
  case (tick s hs t)
  show ?case
  proof (rule lock_invI)
    show "sys_now (s\<lparr>sys_now := t\<rparr>) > 0" using lock_inv_now[OF tick(3)] tick(2) by simp
    show "holds_key (s\<lparr>sys_now := t\<rparr>) h" if "h \<in> set hs" for h
      using lock_inv_holds[OF tick(3) that] tick(2) by (rule holds_key_later)
  qed (rule lock_inv_unique[OF tick(3)])
next
  case (won s hs x ttl l s')
  show ?case by (rule lock_inv_won[OF won(5) assms(1) won(2-4)])
next
  case (refused s hs x ttl e s')
  show ?case by (rule lock_inv_refused[OF refused(3) assms(1) refused(2)])
next
  case (released s hs l t)
  show ?case by (rule lock_inv_released[OF released(3) assms(1) released(2)])
next
  case (extended s hs l t m s')
  show ?case
    using lock_inv_extended[OF extended(4) assms(1) extended(2,3)] by (simp add: lock_extension_def)
next
  case (other s hs kv w)
  then have "holds_key (s\<lparr>sys_kv := kv, sys_world := w\<rparr>) h" if "h \<in> set hs" for h
    using lock_inv_holds[OF other(3) that] by (auto simp: holds_key_def)
  with other(3) show ?case by (simp add: lock_inv_def)
qed

text \<open>
  C5. Mutual exclusion. In every run of lock attempts, late or timely releases, binds and other
  registry writes, any two locks of one session whose times have not run out are the same lock.
\<close>

theorem session_lock_exclusive:
  assumes "lock_world B" "lock_run B s hs" "(l, e) \<in> set hs" "(l', e') \<in> set hs"
    and "lk_key l = lk_key l'" "sys_now s \<le> e" "sys_now s \<le> e'"
  shows "l = l'"
proof -
  have inv: "lock_inv s hs" using assms(1,2) by (rule lock_run_inv)
  have "live s (lk_key l) = Some (lk_token l)" "live s (lk_key l') = Some (lk_token l')"
    using holds_key_alive[OF lock_inv_holds[OF inv assms(3)]] holds_key_alive[OF lock_inv_holds[OF inv assms(4)]]
      assms(6,7) by simp_all
  with assms(5) have "lk_token l = lk_token l'" by simp
  with lock_inv_unique[OF inv assms(3,4)] show ?thesis by simp
qed

end
