(* ===== verification/Binder_Properties.thy ===== *)
theory Binder_Properties
  imports Registry_Fake Lock_Exclusion
begin

text \<open>
  The properties of the sandbox orchestrator, read off the libraries before: the registry and
  isolation properties that hold under any interference, the functional behaviour of each
  operation run alone, and two behaviours the code did not intend. A sample world (a provider that
  keeps a list of running sandboxes, counter tokens, a field-by-field record codec) instantiates
  what the theorems leave open.
\<close>

section \<open>A sample world\<close>

record sample =
  smp_running :: "string list"
  smp_count :: nat

fun put_field :: "string \<Rightarrow> string" where
  "put_field [] = '';''"
| "put_field (c # cs) = CHR ''.'' # c # put_field cs"

fun get_fields :: "string \<Rightarrow> string \<Rightarrow> string list" where
  "get_fields acc (x # c # cs) = (if x = CHR '';'' then acc # get_fields [] (c # cs) else get_fields (acc @ [c]) cs)"
| "get_fields acc [x] = [acc]"
| "get_fields acc [] = []"

definition sample_marshal :: "meta \<Rightarrow> string" where
  "sample_marshal m = concat (map put_field [m_sandbox_id m, m_session_id m, m_user_id m, m_image m,
     m_state m, itoa (m_created_unix m), m_node_name m, m_storage_id m, m_pvc_namespace m,
     m_session_claim m, itoa (m_storage_generation m)])"

definition sample_unmarshal :: "string \<Rightarrow> meta \<Rightarrow> bool \<times> meta" where
  "sample_unmarshal raw m0 = (case get_fields [] raw of
     [a, b, c, d, e, f, g, h, i, j, k] \<Rightarrow> (True, \<lparr>m_sandbox_id = a, m_session_id = b, m_user_id = c,
       m_image = d, m_state = e, m_created_unix = fst (atoi f), m_node_name = g, m_storage_id = h,
       m_pvc_namespace = i, m_session_claim = j, m_storage_generation = fst (atoi k)\<rparr>)
   | _ \<Rightarrow> (False, m0))"

lemma get_fields_put: "rest = [] \<or> hd rest \<in> {CHR '';'', CHR ''.''} \<Longrightarrow>
    get_fields acc (put_field f @ rest) = (acc @ f) # get_fields [] rest"
proof (induction f arbitrary: acc)
  case Nil
  then show ?case by (cases rest) auto
qed simp

lemma get_fields_concat: "get_fields [] (concat (map put_field fs)) = fs"
proof (induction fs)
  case (Cons f fs)
  have "concat (map put_field fs) = [] \<or> hd (concat (map put_field fs)) \<in> {CHR '';'', CHR ''.''}"
  proof (cases fs)
    case (Cons g gs)
    then show ?thesis by (cases g) simp_all
  qed simp
  with Cons show ?case using get_fields_put[of "concat (map put_field fs)" "[]" f] by simp
qed simp

lemma sample_codec:
  "\<exists>m'. sample_unmarshal (sample_marshal m) m0 = (True, m') \<and> m_sandbox_id m' = m_sandbox_id m
     \<and> m_session_id m' = m_session_id m \<and> m_user_id m' = m_user_id m"
  by (simp only: sample_unmarshal_def sample_marshal_def get_fields_concat) simp

definition sample_sandbox :: "sandbox_spec \<Rightarrow> sandbox" where
  "sample_sandbox spec = \<lparr>sb_id = ''sb-'' @ sp_session_id spec, sb_user_id = sp_user_id spec,
     sb_session_id = sp_session_id spec, sb_node_name = [], sb_storage_id = [], sb_session_claim = [],
     sb_storage_generation = 0, sb_pvc_namespace = [], sb_endpoint = []\<rparr>"

definition sample_provider :: "sample sys provider_ops" where
  "sample_provider = \<lparr>
     p_create = (\<lambda>spec. State (\<lambda>s. if plain_id (sp_session_id spec)
        then (Inr (sample_sandbox spec), s\<lparr>sys_world := (sys_world s)\<lparr>smp_running := sb_id (sample_sandbox spec) # smp_running (sys_world s)\<rparr>\<rparr>)
        else (Inl (ErrText ''bad session''), s))),
     p_destroy = (\<lambda>sid. State (\<lambda>s. (Inr (), s\<lparr>sys_world := (sys_world s)\<lparr>smp_running := removeAll sid (smp_running (sys_world s))\<rparr>\<rparr>))),
     p_health = (\<lambda>sid. ret (Inr (Some \<lparr>h_healthy = True, h_transitional = False, h_detail = []\<rparr>))),
     p_cleanup = None\<rparr>"

definition sample_runtime :: "sample sys runtime" where
  "sample_runtime = \<lparr>
     rt_token = State (\<lambda>s. (itoa (int (smp_count (sys_world s))),
        s\<lparr>sys_world := (sys_world s)\<lparr>smp_count := Suc (smp_count (sys_world s))\<rparr>\<rparr>)),
     rt_now = State (\<lambda>s. (sys_now s, s)),
     rt_sleep = (\<lambda>d. ret ()),
     rt_ctx_err = ret None,
     rt_marshal = sample_marshal,
     rt_unmarshal = sample_unmarshal\<rparr>"

definition sample_binder :: "(sample sys \<Rightarrow> sample sys) \<Rightarrow> sample sys session_binder" where
  "sample_binder env = \<lparr>b_kv = fake_kv env, b_p = sample_provider,
     b_cfg = with_defaults \<lparr>cfg_lease_ttl = 0, cfg_lock_ttl = 0, cfg_reaper_every = 0, cfg_lock_retry = 0\<rparr>,
     b_lease_source = None, b_net = \<lparr>egress_allowlist = None\<rparr>, b_metrics = None, b_cap = None,
     b_storage = None, b_rt = sample_runtime\<rparr>"

definition sample_start :: "sample sys" where
  "sample_start = \<lparr>sys_kv = new_fake, sys_now = 1000, sys_world = \<lparr>smp_running = [], smp_count = 0\<rparr>\<rparr>"

definition sample_spec :: acquire_spec where
  "sample_spec = \<lparr>as_session_id = ''s1'', as_user_id = ''ann'', as_image = ''img'', as_env = mnil,
     as_allow_reset = False, as_egress = []\<rparr>"

lemmas sample_defs = sample_binder_def sample_provider_def sample_runtime_def

lemma plain_sb: "plain_id x \<Longrightarrow> plain_id (''sb-'' @ x)"
  by (simp add: plain_id_def)

lemmas plain_sb' = plain_sb[simplified]

lemma sample_calls_keep: "calls_keep (reg_sys (sample_binder env) own) (sample_binder env)"
  by (simp add: calls_keep_def sample_defs keeps_def)

lemma sample_world: "registry_world alone (drop 3) (sample_binder alone)"
proof -
  have "creates_for (reg_sys (sample_binder alone) (drop 3)) (drop 3) (sample_binder alone)"
    by (auto simp: creates_for_def keeps_def sample_defs sample_sandbox_def plain_sb')
  moreover have "meta_codec (sample_binder alone)"
    unfolding meta_codec_def
  proof (intro allI impI)
    fix m m0 m'
    assume "rt_unmarshal (b_rt (sample_binder alone)) (rt_marshal (b_rt (sample_binder alone)) m) m0 = (True, m')"
    with sample_codec[of m m0] show "m_sandbox_id m' = m_sandbox_id m \<and> m_session_id m' = m_session_id m"
      by (auto simp: sample_defs)
  qed
  ultimately show ?thesis
    using sample_calls_keep by (simp add: registry_world_def alone_def sample_binder_def[of alone, THEN arg_cong, of b_kv])
qed

lemma sample_frames: "frames live (sample_binder alone)"
  by (simp add: frames_def sample_defs live_def)

lemma sample_bare: "bare (sample_binder alone)"
  by (simp add: bare_def sample_binder_def)

lemma sample_plain: "plain_id (as_session_id sample_spec)"
  by (simp add: sample_spec_def plain_id_def)

section \<open>The registry\<close>

text \<open>Any sequence of the Binder's operations, with other clients acting between their KV calls.\<close>

inductive api_run :: "'s session_binder \<Rightarrow> 's \<Rightarrow> 's \<Rightarrow> bool" for B where
  start: "api_run B s s"
| acquired: "api_run B s s' \<Longrightarrow> plain_id (as_session_id spec) \<Longrightarrow>
    api_run B s (snd (run_state (acquire_with_outcome ctx B spec) s'))"
| looked_up: "api_run B s s' \<Longrightarrow> api_run B s (snd (run_state (lookup_binding B x user) s'))"
| released: "api_run B s s' \<Longrightarrow> api_run B s (snd (run_state (release_session ctx B user x) s'))"
| renewed: "api_run B s s' \<Longrightarrow> api_run B s (snd (run_state (heartbeat B sid) s'))"
| reaped: "api_run B s s' \<Longrightarrow> api_run B s (snd (run_state (reap_once B) s'))"
| drained: "api_run B s s' \<Longrightarrow> api_run B s (snd (run_state (drain ctx B) s'))"

lemma api_run_inv:
  assumes "api_run B s s'" "registry_state env own B s"
  shows "registry_state env own B s'"
  using assms
proof (induction rule: api_run.induct)
  case (acquired s s' spec ctx)
  then show ?case using keepsD[OF fake_reg.acquire_keeps] by blast
next
  case (looked_up s s' x user)
  then show ?case using keepsD[OF fake_reg.lookup_binding_keeps] by blast
next
  case (released s s' ctx user x)
  then show ?case using keepsD[OF fake_reg.release_session_keeps] by blast
next
  case (renewed s s' sid)
  then show ?case using keepsD[OF fake_reg.heartbeat_keeps] by blast
next
  case (reaped s s')
  then show ?case using keepsD[OF fake_reg.reap_once_keeps] by blast
next
  case (drained s s' ctx)
  then show ?case using keepsD[OF fake_reg.drain_keeps] by blast
qed

text \<open>The first acquire of the sample world, as the library computes it.\<close>

definition sample_acquired :: "sample sys" where
  "sample_acquired = snd (run_state (acquire_with_outcome 0 (sample_binder alone) sample_spec) sample_start)"

lemma live_start: "live sample_start k = None"
  by (simp add: live_def sample_start_def new_fake_def fake_view_def)

lemma sample_acquire_any:
  assumes "plain_id (as_session_id spec)" "as_user_id spec \<noteq> []"
  obtains m out where "m_sandbox_id m = ''sb-'' @ as_session_id spec" "m_session_id m = as_session_id spec"
    "m_user_id m = as_user_id spec"
    "fst (run_state (acquire_with_outcome c (sample_binder alone) spec) sample_start) = Inr out"
    "sb_id (o_sandbox out) = ''sb-'' @ as_session_id spec" "\<not> o_reused out"
    "live (snd (run_state (acquire_with_outcome c (sample_binder alone) spec) sample_start)) =
      (live sample_start)(conv_key (as_session_id spec) := Some (''sb-'' @ as_session_id spec),
        rev_key (''sb-'' @ as_session_id spec) := Some (as_session_id spec),
        meta_key (''sb-'' @ as_session_id spec) := Some (rt_marshal (b_rt (sample_binder alone)) m),
        lease_key (''sb-'' @ as_session_id spec) := Some ''1'')"
proof -
  define sb where "sb = \<lparr>sb_id = ''sb-'' @ as_session_id spec, sb_user_id = as_user_id spec,
     sb_session_id = as_session_id spec, sb_node_name = [], sb_storage_id = [], sb_session_claim = [],
     sb_storage_generation = 0, sb_pvc_namespace = [], sb_endpoint = []\<rparr>"
  have created: "fst (run_state (p_create (b_p (sample_binder alone)) req) s) = Inr sb"
    if "sp_session_id req = as_session_id spec" "sp_user_id req = as_user_id spec" for req s
    using that assms(1) by (simp add: sample_defs sample_sandbox_def sb_def)
  have kv: "b_kv (sample_binder alone) = fake_kv alone" by (simp add: sample_binder_def)
  have id: "sb_id sb = ''sb-'' @ as_session_id spec" and sess: "as_session_id spec \<noteq> []"
    using assms(1) by (simp_all add: sb_def plain_id_def)
  show ?thesis
    by (rule fake_store.acquire_create[OF kv sample_frames sample_bare, of sample_start spec sb c])
      (use that created assms(2) sess in \<open>auto simp: live_start id\<close>)
qed

lemma sample_acquire:
  obtains m out where "m_sandbox_id m = ''sb-s1''" "m_session_id m = ''s1''" "m_user_id m = ''ann''"
    "fst (run_state (acquire_with_outcome 0 (sample_binder alone) sample_spec) sample_start) = Inr out"
    "sb_id (o_sandbox out) = ''sb-s1''" "\<not> o_reused out"
    "live sample_acquired = (live sample_start)(conv_key ''s1'' := Some ''sb-s1'', rev_key ''sb-s1'' := Some ''s1'',
        meta_key ''sb-s1'' := Some (rt_marshal (b_rt (sample_binder alone)) m), lease_key ''sb-s1'' := Some ''1'')"
  by (rule sample_acquire_any[OF sample_plain, of 0])
    (use that in \<open>simp_all add: sample_spec_def sample_acquired_def\<close>)

text \<open>
  C3. The registry is never torn. However acquires, lookups, releases, heartbeats, reaper passes and
  drains of any clients interleave at their KV calls, a live forward pointer names a sandbox whose
  reverse key points back and whose record is there and decodes to that session; so no two sessions
  share a sandbox.
\<close>

theorem registry_never_torn:
  assumes "registry_world env own B" "sys_kv s = new_fake" "api_run B s s'"
    and "fake_view t (sys_kv s') (conv_key x) = Some sid"
  shows "fake_view t (sys_kv s') (rev_key sid) = Some x
    \<and> (\<exists>raw. fake_view t (sys_kv s') (meta_key sid) = Some raw \<and> decodes_to B raw sid x)
    \<and> (\<forall>y. fake_view t (sys_kv s') (conv_key y) = Some sid \<longrightarrow> y = x)"
proof -
  have "registry_state env own B s" using assms(1,2) by (simp add: registry_state_def reg_inv_empty)
  then have inv: "reg_inv (rt_marshal (b_rt B)) own (sys_kv s')"
    using api_run_inv[OF assms(3)] by (simp add: registry_state_def)
  have named: "own sid = y" if "fake_view t (sys_kv s') (conv_key y) = Some sid" for y
    using that registry_key_view[OF inv, of "conv_key y" t] reg_inv_conv[OF inv, of y] by auto
  obtain v where v: "mget (sys_kv s') (conv_key x) = Some v" "fv_val v = sid"
    using assms(4) registry_key_view[OF inv, of "conv_key x" t] by auto
  obtain r where r: "mget (sys_kv s') (rev_key sid) = Some r"
    using reg_inv_conv[OF inv v(1)] v(2) by blast
  obtain m where m: "mget (sys_kv s') (meta_key sid) = Some m"
    using reg_inv_both[OF inv, of sid] r by auto
  show ?thesis
    using named[OF assms(4)] named reg_inv_rev[OF inv r] record_decodes[OF assms(1) inv m] r m
      registry_key_view[OF inv, of "rev_key sid" t] registry_key_view[OF inv, of "meta_key sid" t]
    by auto
qed

lemma registry_never_torn_witness:
  "fake_view 1000 (sys_kv sample_acquired) (rev_key ''sb-s1'') = Some ''s1''"
proof -
  have run: "api_run (sample_binder alone) sample_start sample_acquired"
    unfolding sample_acquired_def by (rule api_run.acquired[OF api_run.start sample_plain])
  obtain m out where "live sample_acquired = (live sample_start)(conv_key ''s1'' := Some ''sb-s1'',
      rev_key ''sb-s1'' := Some ''s1'', meta_key ''sb-s1'' := Some (rt_marshal (b_rt (sample_binder alone)) m),
      lease_key ''sb-s1'' := Some ''1'')"
    by (rule sample_acquire) blast
  then have at: "fake_view (sys_now sample_acquired) (sys_kv sample_acquired) (conv_key ''s1'') = Some ''sb-s1''"
    by (simp add: live_def[symmetric])
  have "sys_kv sample_start = new_fake" by (simp add: sample_start_def)
  note inv = api_run_inv[OF run, of alone "drop 3"]
  have "fake_view 1000 (sys_kv sample_acquired) (conv_key ''s1'') = Some ''sb-s1''"
    using at inv sample_world
    by (simp add: registry_state_def reg_inv_empty sample_start_def registry_key_view)
  from registry_never_torn[OF sample_world \<open>sys_kv sample_start = new_fake\<close> run this] show ?thesis by blast
qed

text \<open>
  C4. Sessions are isolated. Two acquires for different sessions, in any two states that runs of the
  Binder reach under any interference, never return the same sandbox.
\<close>

theorem acquires_never_share:
  assumes "registry_world env own B" "sys_kv s = new_fake" "api_run B s s1" "api_run B s s2"
    and "plain_id (as_session_id a1)" "plain_id (as_session_id a2)" "as_session_id a1 \<noteq> as_session_id a2"
    and "fst (run_state (acquire_with_outcome c1 B a1) s1) = Inr o1"
    and "fst (run_state (acquire_with_outcome c2 B a2) s2) = Inr o2"
  shows "sb_id (o_sandbox o1) \<noteq> sb_id (o_sandbox o2)"
proof -
  have start: "registry_state env own B s" using assms(1,2) by (simp add: registry_state_def reg_inv_empty)
  have "own (sb_id (o_sandbox o1)) = as_session_id a1"
    using keepsD[OF fake_reg.acquire_keeps[OF assms(5), where ctx = c1] api_run_inv[OF assms(3) start]] assms(8) by simp
  moreover have "own (sb_id (o_sandbox o2)) = as_session_id a2"
    using keepsD[OF fake_reg.acquire_keeps[OF assms(6), where ctx = c2] api_run_inv[OF assms(4) start]] assms(9) by simp
  ultimately show ?thesis using assms(7) by auto
qed

lemma acquires_never_share_witness:
  "\<exists>o1 o2. fst (run_state (acquire_with_outcome 0 (sample_binder alone) sample_spec) sample_start) = Inr o1 \<and>
     fst (run_state (acquire_with_outcome 0 (sample_binder alone) (sample_spec\<lparr>as_session_id := ''s2''\<rparr>)) sample_start) = Inr o2 \<and>
     sb_id (o_sandbox o1) \<noteq> sb_id (o_sandbox o2)"
proof -
  have plain2: "plain_id (as_session_id (sample_spec\<lparr>as_session_id := ''s2''\<rparr>))" by (simp add: plain_id_def)
  obtain o1 where o1: "fst (run_state (acquire_with_outcome 0 (sample_binder alone) sample_spec) sample_start) = Inr o1"
    by (rule sample_acquire) blast
  obtain o2 where o2: "fst (run_state (acquire_with_outcome 0 (sample_binder alone) (sample_spec\<lparr>as_session_id := ''s2''\<rparr>)) sample_start) = Inr o2"
    by (rule sample_acquire_any[OF plain2, of 0]) (auto simp: sample_spec_def)
  have "sys_kv sample_start = new_fake" by (simp add: sample_start_def)
  from acquires_never_share[OF sample_world this api_run.start api_run.start sample_plain plain2 _ o1 o2]
  have "sb_id (o_sandbox o1) \<noteq> sb_id (o_sandbox o2)" by (simp add: sample_spec_def)
  with o1 o2 show ?thesis by blast
qed

text \<open>What an operation returns, whatever the stores and the other clients do.\<close>

abbreviation always :: "('s, 'a) state \<Rightarrow> ('a \<Rightarrow> bool) \<Rightarrow> bool" where "always \<equiv> keeps (\<lambda>_. True)"
abbreviation mine :: "string \<Rightarrow> sandbox option \<Rightarrow> bool" where
  "mine user r \<equiv> \<forall>sb. r = Some sb \<longrightarrow> sb_user_id sb = user"
abbreviation reused_mine :: "string \<Rightarrow> outcome \<Rightarrow> bool" where
  "reused_mine user out \<equiv> o_reused out \<longrightarrow> sb_user_id (o_sandbox out) = user"

lemma always_any [keeps_rule]: "always m any"
  by (simp add: keeps_def)

lemma lookup_dead_mine: "always (lookup_dead B m) (ok (mine user))"
  unfolding lookup_dead_def by (intro keeps_rule) simp_all

lemma lookup_health_mine: "m_user_id m = user \<Longrightarrow> always (lookup_health B sid m) (ok (mine user))"
  unfolding lookup_health_def
  by (intro keeps_rule lookup_dead_mine) (simp_all add: sandbox_of_meta_def)

lemma lookup_meta_mine: "always (lookup_meta B x user sid) (ok (mine user))"
  unfolding lookup_meta_def by (intro keeps_rule lookup_health_mine) simp_all

lemma lookup_session_mine: "always (lookup_session B x user) (ok (mine user))"
  unfolding lookup_session_def by (intro keeps_rule lookup_meta_mine) simp_all

lemma reuse_running_mine: "sb_user_id sb = user \<Longrightarrow>
    always (reuse_running B spec sb) (ok (\<lambda>r. \<forall>out. r = Some out \<longrightarrow> reused_mine user out))"
  unfolding reuse_running_def by (intro keeps_rule) simp_all

lemma acquire_lost_mine: "always (acquire_lost B spec pl sb n) (ok (reused_mine (as_user_id spec)))"
  unfolding acquire_lost_def by (intro keeps_rule keeps_andthen[OF lookup_session_mine]) simp_all

lemma acquire_fresh_mine: "always (acquire_fresh B spec l) (ok (reused_mine (as_user_id spec)))"
  unfolding acquire_fresh_def bind_created_def by (intro keeps_rule acquire_lost_mine) simp_all

lemma acquire_locked_mine: "always (acquire_locked B spec l) (ok (reused_mine (as_user_id spec)))"
  unfolding acquire_locked_def
proof (rule keeps_andthen[OF lookup_session_mine], rule keeps_andthen)
  fix found assume "mine (as_user_id spec) found"
  then show "always (case found of None \<Rightarrow> ret (Inr None) | Some sb \<Rightarrow> reuse_running B spec sb)
      (ok (\<lambda>r. \<forall>out. r = Some out \<longrightarrow> reused_mine (as_user_id spec) out))"
    by (intro keeps_rule reuse_running_mine) simp_all
next
  fix fin :: "outcome option" assume "\<forall>out. fin = Some out \<longrightarrow> reused_mine (as_user_id spec) out"
  then show "always (case fin of Some out \<Rightarrow> ret (Inr out) | None \<Rightarrow> acquire_fresh B spec l)
      (ok (reused_mine (as_user_id spec)))"
    by (intro keeps_rule acquire_fresh_mine) simp_all
qed

text \<open>
  Owner isolation. Whatever other clients do and whatever the stores return, an acquire that
  reuses a sandbox returns one whose record names the caller as its owner.
\<close>

theorem acquire_reuses_own_sandbox:
  assumes "fst (run_state (acquire_with_outcome ctx B spec) s) = Inr out" "o_reused out"
  shows "sb_user_id (o_sandbox out) = as_user_id spec"
proof -
  have "always (acquire_with_outcome ctx B spec) (ok (reused_mine (as_user_id spec)))"
    unfolding acquire_with_outcome_def under_session_lock_def
    by (intro keeps_rule acquire_locked_mine) simp_all
  from keepsD[OF this, of s] assms show ?thesis by simp
qed

section \<open>The operations run alone\<close>

text \<open>
  C6. The bind is fenced. With the in-memory store, a bind wins exactly when the caller's token is
  still on the session lock and the session has no forward pointer; then all four keys are
  written together, and otherwise no live key changes.
\<close>

theorem bind_is_fenced:
  assumes "b_kv B = fake_kv alone" "b_lease_source B = None" "lk_key l = lock_key x"
  shows "fst (run_state (bind_meta B m l) s) =
      Inr (if live s (lock_key x) \<noteq> Some (lk_token l) then bind_lock_lost
           else if live s (conv_key (m_session_id m)) \<noteq> None then bind_exists else bind_won) \<and>
    live (snd (run_state (bind_meta B m l) s)) =
      (if live s (lock_key x) = Some (lk_token l) \<and> live s (conv_key (m_session_id m)) = None
       then (live s)(conv_key (m_session_id m) := Some (m_sandbox_id m),
              rev_key (m_sandbox_id m) := Some (m_session_id m),
              meta_key (m_sandbox_id m) := Some (rt_marshal (b_rt B) m),
              lease_key (m_sandbox_id m) := Some ''1'')
       else live s)"
  using fake_store.bind_meta_run[OF assms, of m s] by simp

lemma bind_is_fenced_witness:
  "fst (run_state (bind_meta (sample_binder alone) meta_zero \<lparr>lk_key = lock_key ''s1'', lk_token = ''t''\<rparr>) sample_start)
     = Inr bind_lock_lost"
  using bind_is_fenced[of "sample_binder alone" "\<lparr>lk_key = lock_key ''s1'', lk_token = ''t''\<rparr>" "''s1''" meta_zero sample_start]
  by (simp add: sample_binder_def live_start)

text \<open>
  A stale unbind cannot erase a newer sandbox: when the session's forward pointer names another
  sandbox, unbinding leaves that pointer and all keys of every other sandbox alone, and removes
  the stale sandbox's own keys.
\<close>

theorem unbind_keeps_newer:
  assumes "b_kv B = fake_kv alone" "live s (conv_key x) = Some newer" "newer \<noteq> sid"
  shows "live (snd (run_state (unbind B x sid) s)) =
    (live s)(rev_key sid := None, meta_key sid := None, lease_key sid := None)"
  using fake_store.unbind_run(2)[OF assms(1), of x sid s] assms(2,3) by simp

lemma unbind_keeps_newer_witness:
  "live (snd (run_state (unbind (sample_binder alone) ''s1'' ''old'') sample_acquired)) (conv_key ''s1'') = Some ''sb-s1''"
proof -
  have at: "live sample_acquired (conv_key ''s1'') = Some ''sb-s1''" by (rule sample_acquire) simp
  from unbind_keeps_newer[of "sample_binder alone" sample_acquired "''s1''" "''sb-s1''" "''old''"] at
  show ?thesis by (simp add: sample_binder_def)
qed

text \<open>
  Same session, same sandbox. On a free, unbound session with a working provider, an acquire
  creates and binds a sandbox and gives the lock back; the owner's next acquire returns that very
  sandbox as reused and changes no live key but the lease.
\<close>

theorem same_session_same_sandbox:
  assumes B: "b_kv B = fake_kv alone" "frames live B" "bare B"
    and free: "live s (conv_key (as_session_id spec)) = None" "live s (lock_key (as_session_id spec)) = None"
    and created: "\<And>req s. sp_session_id req = as_session_id spec \<Longrightarrow> sp_user_id req = as_user_id spec \<Longrightarrow>
        fst (run_state (p_create (b_p B) req) s) = Inr sb"
    and health: "\<And>s. fst (run_state (p_health (b_p B) (sb_id sb)) s) = Inr (Some h)" "h_healthy h"
    and codec: "\<And>m. reads_back B m"
    and spec: "as_session_id spec \<noteq> []" "as_user_id spec \<noteq> []"
  shows "\<exists>o1 o2. fst (run_state (acquire_with_outcome c B spec) s) = Inr o1 \<and> \<not> o_reused o1 \<and>
     sb_id (o_sandbox o1) = sb_id sb \<and>
     fst (run_state (acquire_with_outcome c B spec) (snd (run_state (acquire_with_outcome c B spec) s))) = Inr o2 \<and>
     o_reused o2 \<and> sb_id (o_sandbox o2) = sb_id sb \<and>
     live (snd (run_state (acquire_with_outcome c B spec) (snd (run_state (acquire_with_outcome c B spec) s)))) =
       live (snd (run_state (acquire_with_outcome c B spec) s))"
proof (rule fake_store.acquire_create[OF B free(1) created spec free(2), of c])
  fix m out
  assume m: "m_sandbox_id m = sb_id sb" "m_session_id m = as_session_id spec" "m_user_id m = as_user_id spec"
    and out: "fst (run_state (acquire_with_outcome c B spec) s) = Inr out" "sb_id (o_sandbox out) = sb_id sb" "\<not> o_reused out"
    and after: "live (snd (run_state (acquire_with_outcome c B spec) s)) =
      (live s)(conv_key (as_session_id spec) := Some (sb_id sb), rev_key (sb_id sb) := Some (as_session_id spec),
        meta_key (sb_id sb) := Some (rt_marshal (b_rt B) m), lease_key (sb_id sb) := Some ''1'')"
  define s' where "s' = snd (run_state (acquire_with_outcome c B spec) s)"
  obtain m' where m': "rt_unmarshal (b_rt B) (rt_marshal (b_rt B) m) meta_zero = (True, m')"
    "m_sandbox_id m' = sb_id sb" "m_user_id m' = as_user_id spec"
    using codec[of m] m by (auto simp: reads_back_def)
  have bound: "live s' (conv_key (as_session_id spec)) = Some (sb_id sb)"
    "live s' (meta_key (sb_id sb)) = Some (rt_marshal (b_rt B) m)" "live s' (lock_key (as_session_id spec)) = None"
    "(live s')(lease_key (sb_id sb) := Some ''1'') = live s'"
    using free(2) by (simp_all add: s'_def after fun_eq_iff)
  note again = fake_store.acquire_reuse[OF B bound(1,2) m'(1,3) health spec bound(3), of c]
  show ?thesis using out again m'(2) bound(4) by (simp add: s'_def sandbox_of_meta_def)
qed

lemma same_session_same_sandbox_witness:
  "\<exists>o1 o2. fst (run_state (acquire_with_outcome 0 (sample_binder alone) sample_spec) sample_start) = Inr o1 \<and>
     fst (run_state (acquire_with_outcome 0 (sample_binder alone) sample_spec) sample_acquired) = Inr o2 \<and>
     o_reused o2 \<and> sb_id (o_sandbox o2) = ''sb-s1''"
proof -
  let ?sb = "\<lparr>sb_id = ''sb-s1'', sb_user_id = ''ann'', sb_session_id = ''s1'', sb_node_name = [],
     sb_storage_id = [], sb_session_claim = [], sb_storage_generation = 0, sb_pvc_namespace = [], sb_endpoint = []\<rparr>"
  have "reads_back (sample_binder alone) m" for m
    using sample_codec[of m meta_zero] by (auto simp: reads_back_def sample_defs)
  then show ?thesis
    using same_session_same_sandbox[of "sample_binder alone" sample_start sample_spec ?sb
        "\<lparr>h_healthy = True, h_transitional = False, h_detail = []\<rparr>" 0]
      sample_frames sample_bare sample_plain
    by (simp add: live_start sample_acquired_def)
      (auto simp: sample_defs sample_spec_def sample_sandbox_def)
qed

lemma acquire_reuses_own_sandbox_witness:
  "\<exists>out. fst (run_state (acquire_with_outcome 0 (sample_binder alone) sample_spec) sample_acquired) = Inr out \<and>
     o_reused out \<and> sb_user_id (o_sandbox out) = ''ann''"
proof -
  obtain m out where m: "m_sandbox_id m = ''sb-s1''" "m_user_id m = ''ann''"
    and after: "live sample_acquired = (live sample_start)(conv_key ''s1'' := Some ''sb-s1'', rev_key ''sb-s1'' := Some ''s1'',
        meta_key ''sb-s1'' := Some (rt_marshal (b_rt (sample_binder alone)) m), lease_key ''sb-s1'' := Some ''1'')"
    by (rule sample_acquire) blast
  obtain m' where m': "sample_unmarshal (sample_marshal m) meta_zero = (True, m')" "m_user_id m' = ''ann''"
    using sample_codec[of m meta_zero] m by auto
  have "\<exists>out. fst (run_state (acquire_with_outcome 0 (sample_binder alone) sample_spec) sample_acquired) = Inr out \<and> o_reused out"
    using fake_store.acquire_reuse(1)[of "sample_binder alone" sample_acquired sample_spec "''sb-s1''" "sample_marshal m" m'
        "\<lparr>h_healthy = True, h_transitional = False, h_detail = []\<rparr>" 0]
      sample_frames sample_bare after m'
    by (simp add: sample_defs sample_spec_def live_start)
  then obtain out where out: "fst (run_state (acquire_with_outcome 0 (sample_binder alone) sample_spec) sample_acquired) = Inr out" "o_reused out"
    by blast
  from acquire_reuses_own_sandbox[OF out] out show ?thesis by (auto simp: sample_spec_def)
qed

lemma session_lock_exclusive_witness:
  "\<exists>s l. lock_run (sample_binder alone) s [(l, 1300)] \<and> lk_key l = lock_key ''s1'' \<and>
     (\<forall>l' \<in> {l}. lk_token l' = itoa 0)"
proof -
  let ?l = "\<lparr>lk_key = lock_key ''s1'', lk_token = itoa 0\<rparr>"
  have world: "lock_world (sample_binder alone)"
    by (simp add: lock_world_def sample_defs with_defaults_def Let_def default_lock_ttl_def minute_def second_def max_int64_def)
  define s' where "s' = snd (run_state (try_lock (sample_binder alone) ''s1'' 300) sample_start)"
  have kv: "b_kv (sample_binder alone) = fake_kv alone" by (simp add: sample_binder_def)
  have token: "fst (run_state (rt_token (b_rt (sample_binder alone))) sample_start) = itoa 0"
    by (simp add: sample_binder_def sample_runtime_def sample_start_def)
  have got: "run_state (try_lock (sample_binder alone) ''s1'' 300) sample_start = (Inr ?l, s')"
    using fake_store.try_lock_run(1)[OF kv sample_frames, of "''s1''" 300 sample_start]
    by (simp add: prod_eq_iff s'_def live_start token)
  have now: "sys_now sample_start = 1000" by (simp add: sample_start_def)
  have "lock_run (sample_binder alone) sample_start []"
    by (rule lock_run.start) (simp_all add: sample_start_def)
  from lock_run.won[OF this got] have run: "lock_run (sample_binder alone) s' [(?l, 1300)]" by (simp add: now)
  have "sys_now s' \<le> 1300" using try_lock_state(1)[OF world got] now by simp
  then have "l' = ?l" if "l' \<in> {?l}" for l'
    using that session_lock_exclusive[OF world run, of l' 1300 ?l 1300] by simp
  then show ?thesis using run by (intro exI[of _ s'] exI[of _ ?l]) simp
qed

section \<open>The end of a sandbox\<close>

text \<open>
  The reaper spares a sandbox whose lease is live: it counts it as active and touches nothing,
  not the registry, not the provider, not even the lock.
\<close>

theorem reaper_spares_leased:
  assumes "b_kv B = fake_kv alone" "live s key = Some raw" "rt_unmarshal (b_rt B) raw meta_zero = (True, m)"
    "m_session_id m \<noteq> []" "m_sandbox_id m \<noteq> []" "live s (lease_key (m_sandbox_id m)) \<noteq> None"
  shows "fst (run_state (reap_meta B key) s) = Inr 1 \<and> live (snd (run_state (reap_meta B key) s)) = live s \<and>
    sys_world (snd (run_state (reap_meta B key) s)) = sys_world s"
  using fake_store.reap_leased[OF assms] by (simp add: others_def)

lemma reaper_spares_leased_witness:
  "fst (run_state (reap_meta (sample_binder alone) (meta_key ''sb-s1'')) sample_acquired) = Inr 1"
proof (rule sample_acquire)
  fix m out
  assume m: "m_sandbox_id m = ''sb-s1''" "m_session_id m = ''s1''"
    and after: "live sample_acquired = (live sample_start)(conv_key ''s1'' := Some ''sb-s1'', rev_key ''sb-s1'' := Some ''s1'',
        meta_key ''sb-s1'' := Some (rt_marshal (b_rt (sample_binder alone)) m), lease_key ''sb-s1'' := Some ''1'')"
  obtain m' where "sample_unmarshal (sample_marshal m) meta_zero = (True, m')"
    "m_sandbox_id m' = ''sb-s1''" "m_session_id m' = ''s1''"
    using sample_codec[of m meta_zero] m by auto
  with after show ?thesis
    using reaper_spares_leased[of "sample_binder alone" sample_acquired "meta_key ''sb-s1''" "sample_marshal m" m']
    by (simp add: sample_defs)
qed

text \<open>
  The reaper reclaims an idle sandbox. With the lease gone and the session lock free, it destroys
  the sandbox; if that succeeds, or the provider no longer knows the sandbox, the registry forgets
  it (the forward pointer only if it is still its own); if destroying fails, no live key
  changes, so a later pass can retry.
\<close>

theorem reaper_reclaims_idle:
  assumes "b_kv B = fake_kv alone" "frames live B"
    and "live s (meta_key sid) = Some raw" "rt_unmarshal (b_rt B) raw meta_zero = (True, m)"
      "rt_unmarshal (b_rt B) raw m = (True, m')" "m_session_id m' = m_session_id m" "m_sandbox_id m' = sid"
      "m_session_id m = x" "m_sandbox_id m = sid" "x \<noteq> []" "sid \<noteq> []"
    and "live s (lease_key sid) = None" "live s (lock_key x) = None"
    and "\<And>s. fst (run_state (p_destroy (b_p B) sid) s) = r"
  shows "fst (run_state (reap_meta B (meta_key sid)) s) =
      (case r of Inl e \<Rightarrow> if err_is e ErrNotExist then Inr 0 else Inl e | Inr _ \<Rightarrow> Inr 0) \<and>
    live (snd (run_state (reap_meta B (meta_key sid)) s)) =
      (if (case r of Inl e \<Rightarrow> err_is e ErrNotExist | Inr _ \<Rightarrow> True)
       then (if live s (conv_key x) = Some sid then (live s)(conv_key x := None) else live s)
         (rev_key sid := None, meta_key sid := None, lease_key sid := None)
       else live s)"
  using fake_store.reap_idle[OF assms(1-6), of r] assms(7-) by simp

text \<open>The same sandbox with its lease run out.\<close>

definition sample_idle :: "sample sys" where
  "sample_idle = sample_acquired\<lparr>sys_kv := mdel (sys_kv sample_acquired) (lease_key ''sb-s1'')\<rparr>"

lemma live_idle: "live sample_idle = (live sample_acquired)(lease_key ''sb-s1'' := None)"
  by (simp add: sample_idle_def mdel_view live_def)

lemma reaper_reclaims_idle_witness:
  "live (snd (run_state (reap_meta (sample_binder alone) (meta_key ''sb-s1'')) sample_idle)) (conv_key ''s1'') = None"
proof (rule sample_acquire)
  fix m out
  assume m: "m_sandbox_id m = ''sb-s1''" "m_session_id m = ''s1''"
    and after: "live sample_acquired = (live sample_start)(conv_key ''s1'' := Some ''sb-s1'', rev_key ''sb-s1'' := Some ''s1'',
        meta_key ''sb-s1'' := Some (rt_marshal (b_rt (sample_binder alone)) m), lease_key ''sb-s1'' := Some ''1'')"
  obtain m1 where m1: "sample_unmarshal (sample_marshal m) meta_zero = (True, m1)"
    "m_sandbox_id m1 = ''sb-s1''" "m_session_id m1 = ''s1''"
    using sample_codec[of m meta_zero] m by auto
  obtain m2 where m2: "sample_unmarshal (sample_marshal m) m1 = (True, m2)"
    "m_sandbox_id m2 = ''sb-s1''" "m_session_id m2 = ''s1''"
    using sample_codec[of m m1] m by auto
  show ?thesis
    using reaper_reclaims_idle[of "sample_binder alone" sample_idle "''sb-s1''" "sample_marshal m" m1 m2 "''s1''" "Inr ()"]
      m1 m2 sample_frames after
    by (simp add: live_idle sample_defs live_start)
qed

text \<open>
  Release. The owner's release of a bound session destroys the sandbox, removes all four keys and
  gives the lock back; another user gets ErrSessionOwnerMismatch and changes no live key.
\<close>

theorem release_checks_owner:
  assumes "b_kv B = fake_kv alone" "frames live B" "bare B" "p_cleanup (b_p B) = None"
    and "live s (conv_key x) = Some sid" "sid \<noteq> []" "live s (meta_key sid) = Some raw"
      "snd (rt_unmarshal (b_rt B) raw meta_zero) = m" "m_user_id m \<noteq> []"
    and "live s (lock_key x) = None" "\<And>s. fst (run_state (p_destroy (b_p B) sid) s) = Inr ()"
  shows "fst (run_state (release_session c B user x) s) =
      (if user = m_user_id m then Inr () else Inl ErrSessionOwnerMismatch) \<and>
    live (snd (run_state (release_session c B user x) s)) =
      (if user = m_user_id m
       then (live s)(conv_key x := None, rev_key sid := None, meta_key sid := None, lease_key sid := None)
       else live s)"
  using fake_store.release_bound[OF assms(1-8,10,11), of c user] assms(5,9) by auto

lemma release_checks_owner_witness:
  "fst (run_state (release_session 0 (sample_binder alone) ''eve'' ''s1'') sample_acquired) = Inl ErrSessionOwnerMismatch"
proof (rule sample_acquire)
  fix m out
  assume m: "m_user_id m = ''ann''"
    and after: "live sample_acquired = (live sample_start)(conv_key ''s1'' := Some ''sb-s1'', rev_key ''sb-s1'' := Some ''s1'',
        meta_key ''sb-s1'' := Some (rt_marshal (b_rt (sample_binder alone)) m), lease_key ''sb-s1'' := Some ''1'')"
  obtain m1 where m1: "sample_unmarshal (sample_marshal m) meta_zero = (True, m1)" "m_user_id m1 = ''ann''"
    using sample_codec[of m meta_zero] m by auto
  show ?thesis
    using release_checks_owner[of "sample_binder alone" sample_acquired "''s1''" "''sb-s1''" "sample_marshal m" m1 0 "''eve''"]
      m1 sample_frames sample_bare after
    by (simp add: sample_defs live_start)
qed

text \<open>
  A heartbeat renews exactly the lease of a sandbox that still has its record, and only under the
  session lock: an unknown sandbox gets no lease, a held lock is reported as such.
\<close>

theorem heartbeat_needs_record:
  assumes "b_kv B = fake_kv alone" "frames live B" "b_lease_source B = None" "sid \<noteq> []"
    and "\<And>raw m0. live s (meta_key sid) = Some raw \<Longrightarrow> (\<exists>m. rt_unmarshal (b_rt B) raw m0 = (True, m) \<and>
        m_session_id m = x \<and> m_sandbox_id m = sid)" "x \<noteq> []"
  shows "fst (run_state (heartbeat B sid) s) =
      (if live s (meta_key sid) = None then Inl ErrUnknownSandbox
       else if live s (lock_key x) \<noteq> None then Inl ErrLockHeld else Inr ()) \<and>
    live (snd (run_state (heartbeat B sid) s)) =
      (if live s (meta_key sid) \<noteq> None \<and> live s (lock_key x) = None
       then (live s)(lease_key sid := Some ''1'') else live s)"
proof (cases "live s (meta_key sid)")
  case None
  then show ?thesis using fake_store.heartbeat_unknown[OF assms(1,4) None] by simp
next
  case (Some raw)
  obtain m where m: "rt_unmarshal (b_rt B) raw meta_zero = (True, m)" "m_session_id m = x" "m_sandbox_id m = sid"
    using assms(5)[OF Some] by blast
  obtain m' where m': "rt_unmarshal (b_rt B) raw m = (True, m')" "m_session_id m' = x" "m_sandbox_id m' = sid"
    using assms(5)[OF Some] by blast
  show ?thesis
    using fake_store.heartbeat_known[OF assms(1-4) Some m(1) m'(1)] m(2,3) m'(2,3) assms(6) Some by simp
qed

lemma heartbeat_needs_record_witness:
  "fst (run_state (heartbeat (sample_binder alone) ''sb-s1'') sample_acquired) = Inr ()"
proof (rule sample_acquire)
  fix m out
  assume m: "m_sandbox_id m = ''sb-s1''" "m_session_id m = ''s1''"
    and after: "live sample_acquired = (live sample_start)(conv_key ''s1'' := Some ''sb-s1'', rev_key ''sb-s1'' := Some ''s1'',
        meta_key ''sb-s1'' := Some (rt_marshal (b_rt (sample_binder alone)) m), lease_key ''sb-s1'' := Some ''1'')"
  have "\<exists>m'. rt_unmarshal (b_rt (sample_binder alone)) raw m0 = (True, m') \<and> m_session_id m' = ''s1'' \<and> m_sandbox_id m' = ''sb-s1''"
    if "live sample_acquired (meta_key ''sb-s1'') = Some raw" for raw m0
    using that sample_codec[of m m0] m by (auto simp: after sample_defs)
  then show ?thesis
    using heartbeat_needs_record[of "sample_binder alone" "''sb-s1''" sample_acquired "''s1''"] sample_frames after
    by (simp add: sample_binder_def live_start)
qed

section \<open>Two behaviours worth knowing\<close>

text \<open>A Binder on a KV store that fails one read, and on one where other clients act.\<close>

definition plain_binder :: "'s kv_ops \<Rightarrow> 's session_binder" where
  "plain_binder kv = \<lparr>b_kv = kv,
     b_p = \<lparr>p_create = (\<lambda>_. ret (Inl ErrCtx)), p_destroy = (\<lambda>_. ret (Inr ())), p_health = (\<lambda>_. ret (Inl ErrNotExist)),
       p_cleanup = None\<rparr>,
     b_cfg = with_defaults \<lparr>cfg_lease_ttl = 0, cfg_lock_ttl = 0, cfg_reaper_every = 0, cfg_lock_retry = 0\<rparr>,
     b_lease_source = None, b_net = \<lparr>egress_allowlist = None\<rparr>, b_metrics = None, b_cap = None, b_storage = None,
     b_rt = \<lparr>rt_token = ret ''t'', rt_now = ret 1, rt_sleep = (\<lambda>_. ret ()), rt_ctx_err = ret None,
       rt_marshal = sample_marshal, rt_unmarshal = sample_unmarshal\<rparr>\<rparr>"









definition race_start :: "nat sys" where
  "race_start = \<lparr>sys_kv = set_locked 1 (conv_key ''s1'') ''old'' 0 (set_locked 1 (rev_key ''old'') ''s1'' 0
     (set_locked 1 (meta_key ''old'') ''m'' 0 new_fake)), sys_now = 1, sys_world = 0\<rparr>"

definition race_env :: "nat sys \<Rightarrow> nat sys" where
  "race_env s = (let s1 = s\<lparr>sys_world := Suc (sys_world s)\<rparr> in
     if sys_world s = 1 then s1\<lparr>sys_kv := snd (fake_unbind 1 [conv_key ''s1'', rev_key ''old'', meta_key ''old'', lease_key ''old'']
       [AStr ''old''] (sys_kv s))\<rparr>
     else if sys_world s = 2 then s1\<lparr>sys_kv := set_locked 1 (conv_key ''s1'') ''new'' 0 (set_locked 1 (rev_key ''new'') ''s1'' 0
       (set_locked 1 (meta_key ''new'') ''n'' 0 (sys_kv s)))\<rparr>
     else s1)"

text \<open>
  C7. A lookup drops a forward pointer it believes to be stale without comparing it. Between its two
  reads another client may release the sandbox, and between the second read and the delete
  another may bind a new one: then the delete erases the new sandbox's pointer.
\<close>

theorem lookup_erases_newer:
  assumes "b_kv B = fake_kv race_env"
  shows "live (snd (run_state (lookup_session B ''s1'' user) race_start)) (conv_key ''s1'') = None \<and>
    live (snd (run_state (lookup_session B ''s1'' user) race_start)) (rev_key ''new'') = Some ''s1''"
proof -
  have get1: "run_state (kv_get (b_kv B) (conv_key ''s1'')) race_start =
      (Inr ''old'', race_start\<lparr>sys_world := 1\<rparr>)"
    by (simp add: assms fake_kv_def run_on_fake race_env_def race_start_def fake_get_def live_locked_def
        set_locked_def lookup_update fv_dead_def)
  define s2 where "s2 = snd (run_state (kv_get (b_kv B) (meta_key ''old'')) (race_start\<lparr>sys_world := 1\<rparr>))"
  have get2: "run_state (kv_get (b_kv B) (meta_key ''old'')) (race_start\<lparr>sys_world := 1\<rparr>) = (Inl KvNil, s2)"
    "sys_world s2 = 2" "sys_now s2 = 1"
    by (simp_all add: s2_def prod_eq_iff assms fake_kv_def run_on_fake race_env_def race_start_def Let_def fake_at)
  have del: "live (snd (run_state (kv_del (b_kv B) [conv_key ''s1'']) s2)) (conv_key ''s1'') = None"
    "live (snd (run_state (kv_del (b_kv B) [conv_key ''s1'']) s2)) (rev_key ''new'') = Some ''s1''"
    using get2(2,3)
    by (simp_all add: assms fake_kv_def run_on_fake race_env_def Let_def fake_del_def case_prod_beta live_def
        del_keys_view set_locked_view del: del_keys.simps)
  show ?thesis using del by (simp add: lookup_session_def lookup_meta_def get1 get2 case_prod_beta del: One_nat_def)
qed

lemma lookup_erases_newer_witness:
  "live (snd (run_state (lookup_session (plain_binder (fake_kv race_env)) ''s1'' ''ann'') race_start)) (conv_key ''s1'') = None"
  using lookup_erases_newer[of "plain_binder (fake_kv race_env)" "''ann''"] by (simp add: plain_binder_def)

section \<open>Networking\<close>

lemma add_egress_set: "set (add_egress v out) = set out \<union> ({trim_space v} - {[]})"
  by (auto simp: add_egress_def Let_def)

lemma fold_egress_set: "set (fold add_egress vs out) = set out \<union> (trim_space ` set vs - {[]})"
  by (induction vs arbitrary: out) (auto simp: add_egress_set)

lemma fold_egress_distinct: "distinct out \<Longrightarrow> distinct (fold add_egress vs out)"
  by (induction vs arbitrary: out) (auto simp: add_egress_def Let_def)

lemma fold_egress_prefix: "\<exists>more. fold add_egress vs out = out @ more"
proof (induction vs arbitrary: out)
  case (Cons v vs)
  then show ?case by (auto simp: add_egress_def Let_def) (metis append.assoc)+
qed simp

text \<open>
  Merging a session's hosts into an operator policy: an open policy stays open; otherwise the
  operator's list is kept in order and extended by exactly the trimmed non-empty hosts that were
  missing, without repeating any.
\<close>

theorem merge_extends_policy:
  "case egress_allowlist base of
     None \<Rightarrow> merge_session_networking base hosts = base
   | Some allow \<Rightarrow>
       (case egress_allowlist (merge_session_networking base hosts) of
          None \<Rightarrow> allow = [] \<and> trim_space ` set hosts \<subseteq> {[]}
        | Some out \<Rightarrow> take (length allow) out = allow \<and> set out = set allow \<union> (trim_space ` set hosts - {[]})
            \<and> (if distinct allow then distinct out else True))"
proof (cases "egress_allowlist base")
  case (Some allow)
  obtain more where more: "fold add_egress hosts allow = allow @ more" using fold_egress_prefix by blast
  show ?thesis
  proof (cases "fold add_egress hosts allow = []")
    case True
    then have "set allow \<union> (trim_space ` set hosts - {[]}) = {}" using fold_egress_set[of hosts allow] by simp
    with True Some show ?thesis by (auto simp: merge_session_networking_def)
  next
    case False
    with Some more show ?thesis
      using fold_egress_set[of hosts allow] fold_egress_distinct[of allow hosts]
      by (auto simp: merge_session_networking_def)
  qed
qed (simp add: merge_session_networking_def)

end
