(* ===== verification/Node_Capacity.thy ===== *)
theory Node_Capacity
  imports Orch_Logic
begin

text \<open>
  \<open>capacity.go\<close>: the choice of a Kubernetes node for a new sandbox, over the node and pod lists of
  the cluster (\<open>kube_rest.go\<close>). The choice is specified by keys: among the nodes without a limit
  the least \<open>(storage bytes, pods, name)\<close>, otherwise among the nodes with room the least
  \<open>(storage bytes, - free slots, name)\<close>.
\<close>

section \<open>Nodes and pods\<close>

record node_condition =
  nc_type :: string
  nc_status :: string
  nc_reason :: string
  nc_message :: string

record kube_meta =
  km_name :: string
  km_namespace :: string
  km_labels :: "(string, string) gomap"
  km_annotations :: "(string, string) gomap"

record kube_node =
  kn_metadata :: kube_meta
  kn_unschedulable :: bool
  kn_conditions :: "node_condition list"

record kube_pod =
  kp_metadata :: kube_meta
  kp_node_name :: string
  kp_node_selector :: "(string, string) gomap"
  kp_phase :: string

definition sandbox_node_mode_annotation :: string where
  "sandbox_node_mode_annotation = ''cocola.dev/sandbox-node-mode''"
definition sandbox_node_max_annotation :: string where
  "sandbox_node_max_annotation = ''cocola.dev/max-sandbox-pods''"

text \<open>The first condition of a type decides.\<close>

fun condition_true :: "string \<Rightarrow> node_condition list \<Rightarrow> bool" where
  "condition_true t [] = False"
| "condition_true t (c # cs) = (if nc_type c = t then nc_status c = ''True'' else condition_true t cs)"

definition node_ready :: "kube_node \<Rightarrow> bool" where
  "node_ready n = condition_true ''Ready'' (kn_conditions n)"

definition node_disk_pressure :: "kube_node \<Rightarrow> bool" where
  "node_disk_pressure n = condition_true ''DiskPressure'' (kn_conditions n)"

definition node_usable :: "kube_node \<Rightarrow> bool" where
  "node_usable n \<longleftrightarrow> node_ready n \<and> \<not> node_disk_pressure n \<and> \<not> kn_unschedulable n
     \<and> mget0 [] (km_annotations (kn_metadata n)) sandbox_node_mode_annotation \<noteq> ''offline''"

definition node_max_sandbox_pods :: "kube_node \<Rightarrow> int option \<Rightarrow> int option" where
  "node_max_sandbox_pods n fallback =
     (let raw = trim_space (mget0 [] (km_annotations (kn_metadata n)) sandbox_node_max_annotation) in
      if raw \<noteq> [] then
        (case atoi raw of (k, err) \<Rightarrow> if err = None \<and> k \<ge> 0 then Some k else fallback)
      else fallback)"

definition node_has_capacity :: "kube_node \<Rightarrow> int \<Rightarrow> int option \<Rightarrow> bool" where
  "node_has_capacity n used fallback =
     (case node_max_sandbox_pods n fallback of None \<Rightarrow> True | Some m \<Rightarrow> used < m)"

definition is_finished_pod :: "string \<Rightarrow> bool" where
  "is_finished_pod phase \<longleftrightarrow> phase = ''Succeeded'' \<or> phase = ''Failed''"

definition env_optional_int :: "string \<Rightarrow> int option" where
  \<comment> \<open>the value of the environment variable is the argument\<close>
  "env_optional_int value =
     (let raw = trim_space value in
      if raw = [] then None
      else (case atoi raw of (k, err) \<Rightarrow> if err \<noteq> None \<or> k < 0 then None else Some k))"

section \<open>Selection\<close>

text \<open>Pods per node, and the pods no node can be told for yet.\<close>

definition count_pod :: "kube_pod \<Rightarrow> (string, int) gomap \<times> int \<Rightarrow> (string, int) gomap \<times> int" where
  "count_pod p = (\<lambda>(used, pending).
     if is_finished_pod (kp_phase p) then (used, pending)
     else if kp_node_name p = [] then
       (let target = mget0 [] (kp_node_selector p) ''kubernetes.io/hostname'' in
        if target \<noteq> [] then (mput used target (mget0 0 used target + 1), pending)
        else (used, pending + 1))
     else (mput used (kp_node_name p) (mget0 0 used (kp_node_name p) + 1), pending))"

definition count_pods :: "kube_pod list \<Rightarrow> (string, int) gomap \<times> int" where
  "count_pods pods = fold count_pod pods (mnil, 0)"

text \<open>\<open>NodeAvailable\<close> and the preferred-node branch look at the first node of that name.\<close>

fun find_node :: "string \<Rightarrow> kube_node list \<Rightarrow> kube_node option" where
  "find_node name [] = None"
| "find_node name (n # ns) = (if km_name (kn_metadata n) = name then Some n else find_node name ns)"

record best =
  best_free :: int
  best_node :: string
  best_remaining :: int
  best_used :: int
  best_storage :: int
  best_unlimited :: bool

definition best_init :: best where
  "best_init = \<lparr>best_free = 0, best_node = [], best_remaining = 0, best_used = 0, best_storage = 0,
     best_unlimited = False\<rparr>"

definition consider_unlimited :: "string \<Rightarrow> int \<Rightarrow> int \<Rightarrow> best \<Rightarrow> best" where
  "consider_unlimited name used requested b =
     (if \<not> best_unlimited b \<or> requested < best_storage b
         \<or> (requested = best_storage b \<and> (used < best_used b \<or> (used = best_used b \<and> name < best_node b)))
      then b\<lparr>best_unlimited := True, best_node := name, best_used := used, best_storage := requested\<rparr>
      else b)"

definition consider_limited :: "string \<Rightarrow> int \<Rightarrow> int \<Rightarrow> best \<Rightarrow> best" where
  "consider_limited name remaining requested b =
     (let b = b\<lparr>best_free := int64 (best_free b + remaining)\<rparr> in
      if \<not> best_unlimited b \<and> (best_node b = [] \<or> requested < best_storage b
          \<or> (requested = best_storage b \<and> (remaining > best_remaining b
               \<or> (remaining = best_remaining b \<and> name < best_node b))))
      then b\<lparr>best_node := name, best_remaining := remaining, best_storage := requested\<rparr>
      else b)"

definition consider_node ::
  "string \<Rightarrow> int option \<Rightarrow> (string, int) gomap \<Rightarrow> (string, int) gomap \<Rightarrow> kube_node \<Rightarrow> best \<Rightarrow> best" where
  "consider_node excluded fallback used bytes n b =
     (let name = km_name (kn_metadata n) in
      if name = excluded \<or> \<not> node_usable n \<or> name = [] then b
      else case node_max_sandbox_pods n fallback of
          None \<Rightarrow> consider_unlimited name (mget0 0 used name) (mget0 0 bytes name) b
        | Some m \<Rightarrow>
            (let remaining = m - mget0 0 used name in
             if remaining > 0 then consider_limited name remaining (mget0 0 bytes name) b else b))"

definition select_among ::
  "int option \<Rightarrow> kube_node list \<Rightarrow> kube_pod list \<Rightarrow> string \<Rightarrow> string \<Rightarrow> (string, int) gomap \<Rightarrow> orch_error + string" where
  "select_among fallback nodes pods preferred excluded bytes =
     (case count_pods pods of (used, pending) \<Rightarrow>
        if preferred \<noteq> [] then
          (case find_node preferred nodes of
             None \<Rightarrow> Inl ErrWorkspaceNodeUnavailable
           | Some n \<Rightarrow>
               if node_usable n \<and> node_has_capacity n (mget0 0 used preferred) fallback
               then Inr preferred else Inl ErrWorkspaceNodeUnavailable)
        else
          (let b = fold (consider_node excluded fallback used bytes) nodes best_init in
           if best_unlimited b then Inr (best_node b)
           else if int64 (best_free b - pending) > 0 then Inr (best_node b)
           else Inl ErrCapacityBusy))"

record 's kube_reader =
  kr_nodes :: "('s, kube_node list) orch"
  kr_pods :: "('s, kube_pod list) orch"

record 's capacity_guard =
  cg_client :: "'s kube_reader"
  cg_default_max :: "int option"

definition node_available :: "'s capacity_guard \<Rightarrow> string \<Rightarrow> ('s, bool) orch" where
  "node_available g name = andthen (kr_nodes (cg_client g)) (\<lambda>nodes.
     ret (Inr (case find_node name nodes of None \<Rightarrow> False | Some n \<Rightarrow> node_usable n)))"

definition select_node ::
  "'s capacity_guard \<Rightarrow> string \<Rightarrow> string \<Rightarrow> (string, int) gomap \<Rightarrow> ('s, string) orch" where
  "select_node g preferred excluded bytes =
     andthen (kr_nodes (cg_client g)) (\<lambda>nodes. andthen (kr_pods (cg_client g)) (\<lambda>pods.
       ret (select_among (cg_default_max g) nodes pods preferred excluded bytes)))"

definition kube_capacity :: "'s capacity_guard \<Rightarrow> 's capacity_ops" where
  "kube_capacity g = \<lparr>cap_select = select_node g, cap_available = Some (node_available g)\<rparr>"

section \<open>What the fold computes\<close>

text \<open>The nodes in the running, and their keys.\<close>

definition eligible :: "string \<Rightarrow> kube_node \<Rightarrow> bool" where
  "eligible excluded n \<longleftrightarrow> km_name (kn_metadata n) \<noteq> excluded \<and> node_usable n \<and> km_name (kn_metadata n) \<noteq> []"

definition unlimited_key :: "(string, int) gomap \<Rightarrow> (string, int) gomap \<Rightarrow> kube_node \<Rightarrow> int \<times> int \<times> string" where
  "unlimited_key used bytes n =
     (let name = km_name (kn_metadata n) in (mget0 0 bytes name, mget0 0 used name, name))"

definition free_slots :: "int option \<Rightarrow> (string, int) gomap \<Rightarrow> kube_node \<Rightarrow> int" where
  "free_slots fallback used n =
     (case node_max_sandbox_pods n fallback of None \<Rightarrow> 0 | Some m \<Rightarrow> m - mget0 0 used (km_name (kn_metadata n)))"

definition limited_key ::
  "int option \<Rightarrow> (string, int) gomap \<Rightarrow> (string, int) gomap \<Rightarrow> kube_node \<Rightarrow> int \<times> int \<times> string" where
  "limited_key fallback used bytes n =
     (let name = km_name (kn_metadata n) in (mget0 0 bytes name, - free_slots fallback used n, name))"

definition unlimited_nodes :: "string \<Rightarrow> int option \<Rightarrow> kube_node list \<Rightarrow> kube_node list" where
  "unlimited_nodes excluded fallback ns =
     filter (\<lambda>n. eligible excluded n \<and> node_max_sandbox_pods n fallback = None) ns"

definition roomy_nodes :: "string \<Rightarrow> int option \<Rightarrow> (string, int) gomap \<Rightarrow> kube_node list \<Rightarrow> kube_node list" where
  "roomy_nodes excluded fallback used ns = filter (\<lambda>n. eligible excluded n \<and> free_slots fallback used n > 0) ns"

definition least_of :: "('a \<Rightarrow> 'k :: linorder) \<Rightarrow> 'a list \<Rightarrow> 'k option" where
  "least_of key xs = (if xs = [] then None else Some (Min (key ` set xs)))"

lemma least_of_Nil [simp]: "least_of key [] = None"
  by (simp add: least_of_def)

lemma least_of_snoc: "least_of key (xs @ [x]) =
    Some (case least_of key xs of None \<Rightarrow> key x | Some k \<Rightarrow> min k (key x))"
  by (simp add: least_of_def min.commute)

lemma least_of_Some: "least_of key xs = Some k \<longleftrightarrow> k \<in> key ` set xs \<and> (\<forall>x \<in> set xs. k \<le> key x)"
  by (auto simp: least_of_def intro!: Min_eqI)

lemma free_slots_unlimited: "node_max_sandbox_pods n fallback = None \<Longrightarrow> free_slots fallback used n = 0"
  by (simp add: free_slots_def)

lemma int64_add: "int64 (int64 a + b) = int64 (a + b)"
  by (simp add: int64_def mod_simps algebra_simps)

text \<open>What the loop knows after the nodes it has seen.\<close>

definition best_inv ::
  "string \<Rightarrow> int option \<Rightarrow> (string, int) gomap \<Rightarrow> (string, int) gomap \<Rightarrow> kube_node list \<Rightarrow> best \<Rightarrow> bool" where
  "best_inv excluded fallback used bytes ns b \<longleftrightarrow>
     least_of (unlimited_key used bytes) (unlimited_nodes excluded fallback ns) =
       (if best_unlimited b then Some (best_storage b, best_used b, best_node b) else None) \<and>
     (\<not> best_unlimited b \<longrightarrow> least_of (limited_key fallback used bytes) (roomy_nodes excluded fallback used ns) =
       (if best_node b = [] then None else Some (best_storage b, - best_remaining b, best_node b))) \<and>
     best_free b = int64 (sum_list (map (free_slots fallback used) (roomy_nodes excluded fallback used ns)))"

lemma best_inv_step:
  assumes "best_inv excluded fallback used bytes ns b"
  shows "best_inv excluded fallback used bytes (ns @ [n]) (consider_node excluded fallback used bytes n b)"
proof (cases "eligible excluded n")
  case False
  then show ?thesis using assms
    by (auto simp: best_inv_def consider_node_def eligible_def Let_def unlimited_nodes_def roomy_nodes_def)
next
  case el: True
  then have node: "\<not> (km_name (kn_metadata n) = excluded \<or> \<not> node_usable n \<or> km_name (kn_metadata n) = [])"
    by (simp add: eligible_def)
  show ?thesis
  proof (cases "node_max_sandbox_pods n fallback")
    case None
    then have lists: "unlimited_nodes excluded fallback (ns @ [n]) = unlimited_nodes excluded fallback ns @ [n]"
      "roomy_nodes excluded fallback used (ns @ [n]) = roomy_nodes excluded fallback used ns"
      using el by (simp_all add: unlimited_nodes_def roomy_nodes_def free_slots_unlimited)
    show ?thesis
      using assms None node unfolding best_inv_def lists least_of_snoc
      by (auto simp: consider_node_def consider_unlimited_def unlimited_key_def Let_def min_def less_eq_prod_def
          split: if_splits)
  next
    case (Some m)
    then have ul: "unlimited_nodes excluded fallback (ns @ [n]) = unlimited_nodes excluded fallback ns"
      by (simp add: unlimited_nodes_def)
    show ?thesis
    proof (cases "free_slots fallback used n > 0")
      case True
      then have lists: "roomy_nodes excluded fallback used (ns @ [n]) = roomy_nodes excluded fallback used ns @ [n]"
        using el by (simp add: roomy_nodes_def)
      have "free_slots fallback used n = m - mget0 0 used (km_name (kn_metadata n))"
        using Some by (simp add: free_slots_def)
      then show ?thesis
        using assms Some node True unfolding best_inv_def lists ul least_of_snoc
        by (auto simp: consider_node_def consider_limited_def limited_key_def Let_def min_def less_eq_prod_def int64_add
            split: if_splits)
    next
      case False
      then show ?thesis using assms Some el unfolding best_inv_def ul
        by (auto simp: consider_node_def eligible_def Let_def roomy_nodes_def free_slots_def)
    qed
  qed
qed

lemma best_inv_fold:
  "best_inv excluded fallback used bytes ns (fold (consider_node excluded fallback used bytes) ns best_init)"
proof (induction ns rule: rev_induct)
  case Nil
  show ?case by (simp add: best_inv_def best_init_def unlimited_nodes_def roomy_nodes_def int64_def)
next
  case (snoc n ns)
  then show ?case by (simp add: best_inv_step)
qed

lemma count_pods_pending:
  "0 \<le> k \<Longrightarrow> 0 \<le> snd (fold count_pod pods (u, k)) \<and> snd (fold count_pod pods (u, k)) \<le> k + int (length pods)"
proof (induction pods arbitrary: u k)
  case (Cons p pods)
  obtain u' k' where step: "count_pod p (u, k) = (u', k')" "k \<le> k'" "k' \<le> k + 1"
    by (cases "count_pod p (u, k)") (auto simp: count_pod_def Let_def split: if_splits)
  with Cons.IH[of k' u'] Cons.prems show ?case by simp
qed simp

section \<open>Properties\<close>

text \<open>
  C9. Without a preferred node, SelectNode computes its specification: the node without a limit that
  is least by (storage bytes, pods, name); if there is none, and the free slots (added up as Go
  ints) exceed the pods still to be placed, the node with room that is least by (storage bytes,
  most free slots, name); otherwise ErrCapacityBusy.
\<close>

theorem select_node_spec:
  "select_among fallback nodes pods [] excluded bytes =
    (case count_pods pods of (used, pending) \<Rightarrow>
       (case least_of (unlimited_key used bytes) (unlimited_nodes excluded fallback nodes) of
          Some (_, _, name) \<Rightarrow> Inr name
        | None \<Rightarrow>
            (let roomy = roomy_nodes excluded fallback used nodes in
             if int64 (int64 (sum_list (map (free_slots fallback used) roomy)) - pending) > 0
             then Inr (case least_of (limited_key fallback used bytes) roomy of Some (_, _, name) \<Rightarrow> name | None \<Rightarrow> [])
             else Inl ErrCapacityBusy)))"
proof (cases "count_pods pods")
  case (Pair used pending)
  let ?b = "fold (consider_node excluded fallback used bytes) nodes best_init"
  have inv: "best_inv excluded fallback used bytes nodes ?b" by (rule best_inv_fold)
  show ?thesis
  proof (cases "best_unlimited ?b")
    case True
    with inv Pair show ?thesis by (simp add: select_among_def best_inv_def Let_def)
  next
    case False
    with inv have free: "best_free ?b = int64 (sum_list (map (free_slots fallback used) (roomy_nodes excluded fallback used nodes)))"
      and none: "least_of (unlimited_key used bytes) (unlimited_nodes excluded fallback nodes) = None"
      and best: "least_of (limited_key fallback used bytes) (roomy_nodes excluded fallback used nodes) =
        (if best_node ?b = [] then None else Some (best_storage ?b, - best_remaining ?b, best_node ?b))"
      by (simp_all add: best_inv_def)
    show ?thesis
      by (simp add: select_among_def Pair Let_def False none free[symmetric] best)
  qed
qed

text \<open>
  SelectNode never picks a node that cannot take the sandbox: whatever it returns is the name of
  a listed node that is usable and has capacity, and is not the excluded one.
\<close>

theorem select_node_sound:
  assumes "select_among fallback nodes pods preferred excluded bytes = Inr name" "int (length pods) \<le> max_int64"
  shows "\<exists>n \<in> set nodes. km_name (kn_metadata n) = name \<and> node_usable n \<and>
    node_has_capacity n (mget0 0 (fst (count_pods pods)) name) fallback \<and> (preferred = [] \<longrightarrow> name \<noteq> excluded)"
proof (cases "preferred = []")
  case False
  obtain n where "find_node preferred nodes = Some n" "node_usable n" "name = preferred"
    "node_has_capacity n (mget0 0 (fst (count_pods pods)) preferred) fallback"
    using assms(1) False by (auto simp: select_among_def split: prod.splits option.splits if_splits)
  moreover have "find_node x ns = Some n \<Longrightarrow> n \<in> set ns \<and> km_name (kn_metadata n) = x" for x ns
    by (induction ns) (auto split: if_splits)
  ultimately show ?thesis using False by blast
next
  case True
  obtain used pending where count: "count_pods pods = (used, pending)" by fastforce
  have pending: "0 \<le> pending" "pending \<le> max_int64"
    using count_pods_pending[of 0 pods mnil] count assms(2) by (simp_all add: count_pods_def)
  show ?thesis
  proof (cases "least_of (unlimited_key used bytes) (unlimited_nodes excluded fallback nodes)")
    case (Some k)
    then obtain n where "n \<in> set (unlimited_nodes excluded fallback nodes)" "k = unlimited_key used bytes n"
      by (auto simp: least_of_Some)
    with Some assms(1) True count show ?thesis
      by (auto simp: select_node_spec unlimited_key_def Let_def unlimited_nodes_def eligible_def node_has_capacity_def)
  next
    case None
    let ?roomy = "roomy_nodes excluded fallback used nodes"
    have picked: "int64 (int64 (sum_list (map (free_slots fallback used) ?roomy)) - pending) > 0"
      "name = (case least_of (limited_key fallback used bytes) ?roomy of Some (_, _, name) \<Rightarrow> name | None \<Rightarrow> [])"
      using None assms(1) True count by (auto simp: select_node_spec Let_def split: if_splits)
    have "?roomy \<noteq> []"
    proof
      assume "?roomy = []"
      then have "int64 (- pending) > 0" using picked(1) by (simp add: int64_def)
      moreover have "int64 (- pending) = - pending"
        using pending by (intro int64_id) (simp_all add: min_int64_def max_int64_def)
      ultimately show False using pending(1) by simp
    qed
    then obtain k where k: "least_of (limited_key fallback used bytes) ?roomy = Some k"
      by (auto simp: least_of_def)
    then obtain n where n: "n \<in> set ?roomy" "k = limited_key fallback used bytes n"
      by (auto simp: least_of_Some)
    then have "name = km_name (kn_metadata n)" using picked(2) k by (simp add: limited_key_def Let_def)
    with n(1) count show ?thesis
      by (auto simp: roomy_nodes_def eligible_def free_slots_def node_has_capacity_def split: option.splits)
  qed
qed

definition sample_node :: "string \<Rightarrow> string \<Rightarrow> kube_node" where
  "sample_node name limit = \<lparr>kn_metadata = \<lparr>km_name = name, km_namespace = [], km_labels = mnil,
     km_annotations = mput mnil sandbox_node_max_annotation limit\<rparr>, kn_unschedulable = False,
     kn_conditions = [\<lparr>nc_type = ''Ready'', nc_status = ''True'', nc_reason = [], nc_message = []\<rparr>]\<rparr>"

lemma sample_limits:
  "node_max_sandbox_pods (sample_node x ''1'') d = Some 1" "node_max_sandbox_pods (sample_node x ''2'') d = Some 2"
  "node_max_sandbox_pods (sample_node x ''9223372036854775807'') d = Some 9223372036854775807"
proof -
  have trim: "trim_space ''1'' = ''1''" "trim_space ''2'' = ''2''" "trim_space ''9223372036854775807'' = ''9223372036854775807''"
    by code_simp+
  have "atoi ''1'' = (1, None)" "atoi ''2'' = (2, None)" "atoi ''9223372036854775807'' = (9223372036854775807, None)"
    by (simp_all add: atoi_def is_digit_def digit_val_def byte_def max_int64_def)
  with trim show "node_max_sandbox_pods (sample_node x ''1'') d = Some 1" "node_max_sandbox_pods (sample_node x ''2'') d = Some 2"
    "node_max_sandbox_pods (sample_node x ''9223372036854775807'') d = Some 9223372036854775807"
    by (simp_all add: node_max_sandbox_pods_def sample_node_def mget0_def lookup_update)
qed

lemma sample_usable: "node_usable (sample_node x l)"
  by (simp add: node_usable_def sample_node_def node_ready_def node_disk_pressure_def mget0_def lookup_update
      sandbox_node_max_annotation_def sandbox_node_mode_annotation_def)

lemma sample_name: "km_name (kn_metadata (sample_node x l)) = x"
  by (simp add: sample_node_def)

lemmas select_eval = select_among_def count_pods_def consider_node_def consider_limited_def best_init_def Let_def
  sample_limits sample_usable sample_name mget0_def int64_def

lemma sample_select:
  "select_among None [sample_node ''a'' ''1'', sample_node ''b'' ''2''] [] [] [] mnil = Inr ''b''"
  by (simp add: select_eval)

lemma select_node_sound_witness:
  "\<exists>n \<in> set [sample_node ''a'' ''1'', sample_node ''b'' ''2'']. km_name (kn_metadata n) = ''b'' \<and> node_usable n"
  using select_node_sound[OF sample_select] by (auto simp: max_int64_def)

text \<open>
  A preferred node is never replaced: SelectNode returns it or reports that the workspace's node
  is unavailable, so a persisted workspace does not silently move; and the storage usage of the
  other nodes plays no part.
\<close>

theorem preferred_never_replaced:
  "select_among fallback nodes pods (c # cs) excluded bytes \<in> {Inr (c # cs), Inl ErrWorkspaceNodeUnavailable} \<and>
   select_among fallback nodes pods (c # cs) excluded bytes = select_among fallback nodes pods (c # cs) excluded' bytes'"
  by (auto simp: select_among_def split: prod.split option.split)

text \<open>
  The free slots are added up as Go ints without a guard: two idle nodes that each allow the
  largest int of sandboxes are reported as having no capacity.
\<close>

theorem free_slots_overflow:
  "select_among None [sample_node ''a'' ''9223372036854775807'', sample_node ''b'' ''9223372036854775807''] [] [] [] mnil
     = Inl ErrCapacityBusy"
  by (simp add: select_eval)

end
