(* ===== verification/Chatrun_Types.thy ===== *)
theory Chatrun_Types
  imports Convo_Types
begin

text \<open>
  The data model of \<open>apps/gateway/internal/chatrun/store.go\<close>: runs, plans and questions of a
  conversation, the inputs and results of the run store, and the rules on candidates. Statuses are
  Go strings; the named constants are abbreviations.
\<close>

section \<open>Constants\<close>

abbreviation status_running :: string where "status_running \<equiv> ''running''"
abbreviation status_success :: string where "status_success \<equiv> ''success''"
abbreviation status_error :: string where "status_error \<equiv> ''error''"
abbreviation status_cancelled :: string where "status_cancelled \<equiv> ''cancelled''"
abbreviation status_interrupted :: string where "status_interrupted \<equiv> ''interrupted''"
abbreviation status_waiting_input :: string where "status_waiting_input \<equiv> ''waiting_input''"

abbreviation mode_execute :: string where "mode_execute \<equiv> ''execute''"
abbreviation mode_plan :: string where "mode_plan \<equiv> ''plan''"

abbreviation plan_ready :: string where "plan_ready \<equiv> ''ready''"
abbreviation plan_executing :: string where "plan_executing \<equiv> ''executing''"
abbreviation plan_completed :: string where "plan_completed \<equiv> ''completed''"
abbreviation plan_stopped :: string where "plan_stopped \<equiv> ''stopped''"
abbreviation plan_failed :: string where "plan_failed \<equiv> ''failed''"
abbreviation plan_superseded :: string where "plan_superseded \<equiv> ''superseded''"
abbreviation plan_cancelled :: string where "plan_cancelled \<equiv> ''cancelled''"

abbreviation question_pending :: string where "question_pending \<equiv> ''pending''"
abbreviation question_answering :: string where "question_answering \<equiv> ''answering''"
abbreviation question_answered :: string where "question_answered \<equiv> ''answered''"
abbreviation question_cancelled :: string where "question_cancelled \<equiv> ''cancelled''"

definition is_terminal :: "string \<Rightarrow> bool" where
  "is_terminal status \<longleftrightarrow> status = status_success \<or> status = status_error \<or> status = status_cancelled
     \<or> status = status_interrupted \<or> status = status_waiting_input"

definition normalize_interaction_mode :: "string \<Rightarrow> string" where
  "normalize_interaction_mode mode = (if mode = mode_plan then mode_plan else mode_execute)"

section \<open>Runs, plans, questions\<close>

record chat_run =
  run_id :: string
  run_root_span_id :: string
  run_conversation_id :: string
  run_conversation_title :: string
  run_user_id :: string
  run_source :: string
  run_model_route_id :: string
  run_model_alias :: string
  run_reasoning_effort :: string
  run_client_request_id :: string
  run_interaction_mode :: string
  run_plan_id :: string
  run_status :: string
  run_started_at :: gtime
  run_completed_at :: "gtime option"
  run_last_activity_at :: gtime
  run_error_code :: string
  run_duration_ms :: int
  run_tool_call_count :: int
  run_llm_call_count :: int

definition run_zero :: chat_run where
  "run_zero = \<lparr>run_id = [], run_root_span_id = [], run_conversation_id = [], run_conversation_title = [],
     run_user_id = [], run_source = [], run_model_route_id = [], run_model_alias = [], run_reasoning_effort = [],
     run_client_request_id = [], run_interaction_mode = [], run_plan_id = [], run_status = [], run_started_at = 0,
     run_completed_at = None, run_last_activity_at = 0, run_error_code = [], run_duration_ms = 0,
     run_tool_call_count = 0, run_llm_call_count = 0\<rparr>"

record chat_plan =
  plan_id :: string
  plan_conversation_id :: string
  plan_version :: int
  plan_status :: string
  plan_source_run_id :: string
  plan_runtime_id :: string
  plan_model_route_id :: string
  plan_model_alias :: string
  plan_reasoning_effort :: string
  plan_content_markdown :: string
  plan_workspace_revision :: string
  plan_approved_by :: string
  plan_approved_at :: "gtime option"
  plan_created_at :: gtime
  plan_updated_at :: gtime

definition plan_zero :: chat_plan where
  "plan_zero = \<lparr>plan_id = [], plan_conversation_id = [], plan_version = 0, plan_status = [], plan_source_run_id = [],
     plan_runtime_id = [], plan_model_route_id = [], plan_model_alias = [], plan_reasoning_effort = [],
     plan_content_markdown = [], plan_workspace_revision = [], plan_approved_by = [], plan_approved_at = None,
     plan_created_at = 0, plan_updated_at = 0\<rparr>"

record plan_candidate =
  pc_id :: string
  pc_runtime_id :: string
  pc_model_route_id :: string
  pc_model_alias :: string
  pc_reasoning_effort :: string
  pc_content_markdown :: string
  pc_workspace_revision :: string

record chat_question =
  q_id :: string
  q_conversation_id :: string
  q_version :: int
  q_status :: string
  q_source_run_id :: string
  q_answer_run_id :: string
  q_interaction_mode :: string
  q_runtime_id :: string
  q_model_route_id :: string
  q_model_alias :: string
  q_reasoning_effort :: string
  q_skill_id :: string
  q_text :: string
  q_options :: "question_option list"
  q_answer :: "question_answer option"
  q_answered_by :: string
  q_answered_at :: "gtime option"
  q_created_at :: gtime
  q_updated_at :: gtime

definition question_zero :: chat_question where
  "question_zero = \<lparr>q_id = [], q_conversation_id = [], q_version = 0, q_status = [], q_source_run_id = [],
     q_answer_run_id = [], q_interaction_mode = [], q_runtime_id = [], q_model_route_id = [], q_model_alias = [],
     q_reasoning_effort = [], q_skill_id = [], q_text = [], q_options = [], q_answer = None, q_answered_by = [],
     q_answered_at = None, q_created_at = 0, q_updated_at = 0\<rparr>"

record question_candidate =
  qc_id :: string
  qc_runtime_id :: string
  qc_model_route_id :: string
  qc_model_alias :: string
  qc_reasoning_effort :: string
  qc_skill_id :: string
  qc_interaction_mode :: string
  qc_text :: string
  qc_options :: "question_option list"

text \<open>The loop over the options with the ids and labels seen so far.\<close>

fun valid_options :: "string list \<Rightarrow> string list \<Rightarrow> question_option list \<Rightarrow> bool" where
  "valid_options ids labels [] = True"
| "valid_options ids labels (opt # opts) =
     (let id = trim_space (opt_id opt); label = trim_space (opt_label opt) in
      if id = [] \<or> label = [] \<or> length label > 1024 then False
      else if id \<in> set ids then False
      else if label \<in> set labels then False
      else valid_options (id # ids) (label # labels) opts)"

definition valid_question_candidate :: "question_candidate \<Rightarrow> bool" where
  "valid_question_candidate c =
     (if trim_space (qc_id c) = [] \<or> trim_space (qc_runtime_id c) = [] \<or> trim_space (qc_text c) = []
         \<or> length (qc_text c) > 16384 \<or> length (qc_options c) > 8 then False
      else valid_options [] [] (qc_options c))"

section \<open>Inputs and results\<close>

record start_input =
  si_run :: chat_run
  si_conversation :: conversation
  si_user_message :: message
  si_project_base_ref :: string
  si_project_base_sha :: string
  si_project_task_branch :: string
  si_revision_plan_id :: string
  si_expected_revision_plan_version :: int

record start_result =
  sr_run :: chat_run
  sr_conversation :: conversation
  sr_created :: bool

record finalize_input =
  fi_run_id :: string
  fi_user_id :: string
  fi_status :: string
  fi_error_code :: string
  fi_runtime_accepted :: bool
  fi_assistant_message :: "message option"
  fi_reveal :: bool
  fi_conversation_title :: string
  fi_completed_at :: gtime
  fi_tool_call_count :: int
  fi_llm_call_count :: int
  fi_plan_candidate :: "plan_candidate option"
  fi_question_candidate :: "question_candidate option"

record finalize_result =
  fr_run :: chat_run
  fr_plan :: "chat_plan option"
  fr_question :: "chat_question option"
  fr_answered_question :: "chat_question option"
  fr_restored_question :: "chat_question option"
  fr_superseded_plan_id :: string

record question_answer_input =
  qi_run :: chat_run
  qi_conversation_id :: string
  qi_user_id :: string
  qi_question_id :: string
  qi_expected_version :: int
  qi_answer :: question_answer
  qi_user_message :: message
  qi_answered_at :: gtime

record question_answer_result =
  qr_run :: chat_run
  qr_conversation :: conversation
  qr_question :: chat_question
  qr_created :: bool

record plan_execution_input =
  pi_run :: chat_run
  pi_conversation_id :: string
  pi_user_id :: string
  pi_expected_version :: int
  pi_plan_id :: string
  pi_approved_at :: gtime

record plan_execution_result =
  pr_run :: chat_run
  pr_conversation :: conversation
  pr_plan :: chat_plan
  pr_created :: bool

text \<open>
  The errors of the store. \<open>RunConflict\<close> carries the run and conversation of the result that is
  returned with it, where there is one; \<open>ConvoFailed\<close> is an error of the conversation store passed on.
\<close>

datatype chatrun_error =
    RunNotFound
  | RunConflict "(chat_run \<times> conversation) option"
  | RunRuntimeMismatch | RunAgentMismatch | RunAgentArchived
  | RunFolderNotFound | RunFolderMismatch
  | RunProjectNotFound | RunProjectNotReady | RunProjectMismatch | RunProjectBranchExists
  | PlanNotCurrent | PlanState | PlanModelUnavailable
  | QuestionPending | QuestionNotCurrent | QuestionState | QuestionModelUnavailable
  | ConvoFailed convo_error

section \<open>Message parts\<close>

definition plan_part :: "chat_plan \<Rightarrow> part" where
  "plan_part p = part_zero\<lparr>part_type := part_plan_t, part_plan_id := plan_id p, part_version := plan_version p,
     part_status := plan_status p, part_plan_content_markdown := plan_content_markdown p\<rparr>"

definition question_part :: "chat_question \<Rightarrow> part" where
  "question_part q = part_zero\<lparr>part_type := part_question_t, part_question_id := q_id q, part_version := q_version q,
     part_status := q_status q, part_question := q_text q, part_question_options := q_options q,
     part_question_answer := q_answer q\<rparr>"

end
