(* ===== verification/Convo_Memory.thy ===== *)
theory Convo_Memory
  imports Convo_Types "HOL-Library.Multiset"
begin

text \<open>
  \<open>apps/gateway/internal/convo/memory.go\<close>: the in-process conversation store, all operations. An
  operation takes the store and returns its result and the new store; a read returns its result.
  \<open>strings.ToLower\<close> and \<open>strings.EqualFold\<close> rest on the Unicode case tables and are an argument.
\<close>

record text_case =
  tc_lower :: "string \<Rightarrow> string"
  tc_equal_fold :: "string \<Rightarrow> string \<Rightarrow> bool"

text \<open>Simple case folding compares by folded runes, so it is an equivalence.\<close>

definition folding :: "text_case \<Rightarrow> bool" where
  "folding tc \<longleftrightarrow> (\<forall>a. tc_equal_fold tc a a) \<and> (\<forall>a b. tc_equal_fold tc a b \<longrightarrow> tc_equal_fold tc b a) \<and>
     (\<forall>a b c. tc_equal_fold tc a b \<longrightarrow> tc_equal_fold tc b c \<longrightarrow> tc_equal_fold tc a c)"

record convo_memory =
  cm_convs :: "(string, conversation) gomap"
  cm_msgs :: "(string, message list) gomap"
  cm_arts :: "(string, artifact) gomap"
  cm_folders :: "(string, folder) gomap"

type_synonym 'a convo_result = "(convo_error + 'a) \<times> convo_memory"

definition new_convo_memory :: convo_memory where
  "new_convo_memory = \<lparr>cm_convs = mnil, cm_msgs = mnil, cm_arts = mnil, cm_folders = mnil\<rparr>"

section \<open>Conversations\<close>

definition conv_defaults :: "conversation \<Rightarrow> conversation" where
  "conv_defaults c =
     (let c = (if conv_chat_type c = [] then c\<lparr>conv_chat_type := ''chat''\<rparr> else c)
      in if conv_runtime_id c = [] then c\<lparr>conv_runtime_id := default_runtime_id\<rparr> else c)"

text \<open>The placement checks of \<open>UpsertConversation\<close>; None when they pass.\<close>

definition check_placement :: "conversation \<Rightarrow> convo_memory \<Rightarrow> convo_error option" where
  "check_placement c m =
     (if conv_folder_id c \<noteq> [] \<and> conv_project_id c \<noteq> [] then Some UnsupportedChatType
      else if conv_project_id c \<noteq> [] \<and> conv_chat_type c \<noteq> ''chat'' then Some UnsupportedChatType
      else if conv_folder_id c \<noteq> [] then
        (if conv_chat_type c \<noteq> ''chat'' then Some UnsupportedChatType
         else case mget (cm_folders m) (conv_folder_id c) of
             None \<Rightarrow> Some ConvoNotFound
           | Some f \<Rightarrow> if folder_user_id f \<noteq> conv_user_id c then Some ConvoNotFound else None)
      else None)"

definition refresh_conversation :: "conversation \<Rightarrow> conversation \<Rightarrow> conversation" where
  "refresh_conversation c existing =
     (let existing = (if conv_agent_id existing = [] \<and> conv_chat_type existing = ''chat''
            \<and> conv_channel_connector_id existing = [] \<and> conv_channel_connector_id c \<noteq> []
          then existing\<lparr>conv_channel_connector_id := conv_channel_connector_id c\<rparr> else existing)
      in existing\<lparr>conv_updated_at := conv_updated_at c\<rparr>)"

definition snapshot_mismatch :: "conversation \<Rightarrow> bool" where
  "snapshot_mismatch c \<longleftrightarrow> (conv_agent_id c = []) \<noteq> (conv_agent_snapshot c = None) \<or>
     (case conv_agent_snapshot c of None \<Rightarrow> False
      | Some s \<Rightarrow> conv_agent_version c \<le> 0 \<or> snap_id s \<noteq> conv_agent_id c \<or> snap_version s \<noteq> conv_agent_version c)"

definition upsert_conversation :: "conversation \<Rightarrow> convo_memory \<Rightarrow> unit convo_result" where
  "upsert_conversation c0 m =
     (let c = conv_defaults c0 in
      case check_placement c m of
        Some e \<Rightarrow> (Inl e, m)
      | None \<Rightarrow>
          (case mget (cm_convs m) (conv_id c) of
             Some existing \<Rightarrow>
               if conv_user_id c \<noteq> [] \<and> conv_user_id existing \<noteq> conv_user_id c then (Inl ConvoNotFound, m)
               else if conv_runtime_id existing \<noteq> conv_runtime_id c then (Inl ConvoRuntimeMismatch, m)
               else if conv_agent_id existing \<noteq> conv_agent_id c then (Inl ConvoAgentMismatch, m)
               else if conv_project_id c \<noteq> [] \<and> conv_project_id existing \<noteq> conv_project_id c
               then (Inl ConvoProjectMismatch, m)
               else (Inr (), m\<lparr>cm_convs := mput (cm_convs m) (conv_id c) (refresh_conversation c existing)\<rparr>)
           | None \<Rightarrow>
               if conv_user_id c = [] then (Inl ConvoNotFound, m)
               else if snapshot_mismatch c then (Inl ConvoAgentMismatch, m)
               else (Inr (), m\<lparr>cm_convs := mput (cm_convs m) (conv_id c) c\<rparr>)))"

text \<open>\<open>c, ok := m.convs[convID]; if !ok || c.UserID != userID\<close>\<close>

definition owned_conversation :: "string \<Rightarrow> string \<Rightarrow> convo_memory \<Rightarrow> conversation option" where
  "owned_conversation cid user m = (case mget (cm_convs m) cid of
     None \<Rightarrow> None | Some c \<Rightarrow> if conv_user_id c \<noteq> user then None else Some c)"

definition owned_folder :: "string \<Rightarrow> string \<Rightarrow> convo_memory \<Rightarrow> folder option" where
  "owned_folder fid user m = (case mget (cm_folders m) fid of
     None \<Rightarrow> None | Some f \<Rightarrow> if folder_user_id f \<noteq> user then None else Some f)"

definition put_conversation :: "string \<Rightarrow> conversation \<Rightarrow> convo_memory \<Rightarrow> convo_memory" where
  "put_conversation cid c m = m\<lparr>cm_convs := mput (cm_convs m) cid c\<rparr>"

definition reveal_conversation :: "string \<Rightarrow> string \<Rightarrow> string \<Rightarrow> gtime \<Rightarrow> convo_memory \<Rightarrow> unit convo_result" where
  "reveal_conversation cid user title updated m =
     (case owned_conversation cid user m of
        None \<Rightarrow> (Inl ConvoNotFound, m)
      | Some c \<Rightarrow>
          (let c = (if title \<noteq> [] then c\<lparr>conv_title := title\<rparr> else c)
           in (Inr (), put_conversation cid (c\<lparr>conv_hidden := False, conv_updated_at := updated\<rparr>) m)))"

definition move_conversation ::
  "string \<Rightarrow> string \<Rightarrow> string \<Rightarrow> gtime \<Rightarrow> convo_memory \<Rightarrow> conversation convo_result" where
  "move_conversation cid user fid updated m =
     (case owned_conversation cid user m of
        None \<Rightarrow> (Inl ConvoNotFound, m)
      | Some c \<Rightarrow>
          if conv_chat_type c \<noteq> ''chat'' then (Inl UnsupportedChatType, m)
          else if conv_project_id c \<noteq> [] then (Inl UnsupportedChatType, m)
          else if fid \<noteq> [] \<and> owned_folder fid user m = None then (Inl ConvoNotFound, m)
          else (let c = c\<lparr>conv_folder_id := fid, conv_updated_at := updated\<rparr>
                in (Inr c, put_conversation cid c m)))"

definition rename_conversation :: "string \<Rightarrow> string \<Rightarrow> string \<Rightarrow> convo_memory \<Rightarrow> conversation convo_result" where
  "rename_conversation cid user title m =
     (case owned_conversation cid user m of
        None \<Rightarrow> (Inl ConvoNotFound, m)
      | Some c \<Rightarrow> (let c = c\<lparr>conv_title := title\<rparr> in (Inr c, put_conversation cid c m)))"

text \<open>Conversations leave with their messages and artifacts.\<close>

definition drop_conversations :: "string set \<Rightarrow> convo_memory \<Rightarrow> convo_memory" where
  "drop_conversations ids m = m\<lparr>
     cm_convs := DAList.filter (\<lambda>(id, _). id \<notin> ids) (cm_convs m),
     cm_msgs := DAList.filter (\<lambda>(id, _). id \<notin> ids) (cm_msgs m),
     cm_arts := DAList.filter (\<lambda>(_, a). art_conversation_id a \<notin> ids) (cm_arts m)\<rparr>"

definition delete_conversation :: "string \<Rightarrow> string \<Rightarrow> convo_memory \<Rightarrow> unit convo_result" where
  "delete_conversation cid user m =
     (case owned_conversation cid user m of
        None \<Rightarrow> (Inl ConvoNotFound, m)
      | Some _ \<Rightarrow> (Inr (), drop_conversations {cid} m))"

definition get_conversation :: "string \<Rightarrow> string \<Rightarrow> convo_memory \<Rightarrow> convo_error + conversation" where
  "get_conversation cid user m =
     (case owned_conversation cid user m of None \<Rightarrow> Inl ConvoNotFound | Some c \<Rightarrow> Inr c)"

definition list_conversations :: "string \<Rightarrow> convo_memory \<Rightarrow> conversation list" where
  \<comment> \<open>most recently updated first, then by descending id\<close>
  "list_conversations user m =
     rev (sort_key (\<lambda>c. (conv_updated_at c, conv_id c))
       (filter (\<lambda>c. conv_user_id c = user \<and> \<not> conv_hidden c) (mvals (cm_convs m))))"

section \<open>Folders\<close>

definition list_folders :: "text_case \<Rightarrow> string \<Rightarrow> convo_memory \<Rightarrow> folder list" where
  "list_folders tc user m =
     sort_key (\<lambda>f. (tc_lower tc (folder_name f), folder_id f))
       (filter (\<lambda>f. folder_user_id f = user) (mvals (cm_folders m)))"

definition get_folder :: "string \<Rightarrow> string \<Rightarrow> convo_memory \<Rightarrow> convo_error + folder" where
  "get_folder fid user m =
     (case owned_folder fid user m of None \<Rightarrow> Inl ConvoNotFound | Some f \<Rightarrow> Inr f)"

definition create_folder :: "text_case \<Rightarrow> folder \<Rightarrow> convo_memory \<Rightarrow> folder convo_result" where
  "create_folder tc f m =
     (case normalize_folder_name (folder_name f) of
        Inl e \<Rightarrow> (Inl e, m)
      | Inr name \<Rightarrow>
          if list_ex (\<lambda>g. folder_user_id g = folder_user_id f \<and> tc_equal_fold tc (folder_name g) name)
               (mvals (cm_folders m))
          then (Inl FolderNameConflict, m)
          else (let f = f\<lparr>folder_name := name\<rparr>
                in (Inr f, m\<lparr>cm_folders := mput (cm_folders m) (folder_id f) f\<rparr>)))"

definition rename_folder ::
  "text_case \<Rightarrow> string \<Rightarrow> string \<Rightarrow> string \<Rightarrow> gtime \<Rightarrow> convo_memory \<Rightarrow> folder convo_result" where
  "rename_folder tc fid user name updated m =
     (case normalize_folder_name name of
        Inl e \<Rightarrow> (Inl e, m)
      | Inr name \<Rightarrow>
          (case owned_folder fid user m of
             None \<Rightarrow> (Inl ConvoNotFound, m)
           | Some f \<Rightarrow>
               if list_ex (\<lambda>(id, g). id \<noteq> fid \<and> folder_user_id g = user \<and> tc_equal_fold tc (folder_name g) name)
                    (mitems (cm_folders m))
               then (Inl FolderNameConflict, m)
               else (let f = f\<lparr>folder_name := name, folder_updated_at := updated\<rparr>
                     in (Inr f, m\<lparr>cm_folders := mput (cm_folders m) fid f\<rparr>))))"

definition list_folder_conversation_ids :: "string \<Rightarrow> string \<Rightarrow> convo_memory \<Rightarrow> convo_error + string list" where
  "list_folder_conversation_ids fid user m =
     (case owned_folder fid user m of
        None \<Rightarrow> Inl ConvoNotFound
      | Some _ \<Rightarrow> Inr (sort (map conv_id (filter (\<lambda>c. conv_user_id c = user \<and> conv_folder_id c = fid)
          (mvals (cm_convs m))))))"

definition delete_folder :: "string \<Rightarrow> string \<Rightarrow> convo_memory \<Rightarrow> string list convo_result" where
  "delete_folder fid user m =
     (case owned_folder fid user m of
        None \<Rightarrow> (Inl ConvoNotFound, m)
      | Some _ \<Rightarrow>
          (let ids = map fst (filter (\<lambda>(_, c). conv_user_id c = user \<and> conv_folder_id c = fid) (mitems (cm_convs m)));
               m = drop_conversations (set ids) m
           in (Inr (sort ids), m\<lparr>cm_folders := mdel (cm_folders m) fid\<rparr>)))"

section \<open>Messages and artifacts\<close>

definition messages_of :: "string \<Rightarrow> convo_memory \<Rightarrow> message list" where
  "messages_of cid m = (case mget (cm_msgs m) cid of None \<Rightarrow> [] | Some ms \<Rightarrow> ms)"

definition insert_message :: "message \<Rightarrow> convo_memory \<Rightarrow> unit convo_result" where
  "insert_message msg m =
     (let ms = messages_of (msg_conversation_id msg) m in
      if list_ex (\<lambda>e. msg_id e = msg_id msg) ms then (Inr (), m)
      else (Inr (), m\<lparr>cm_msgs := mput (cm_msgs m) (msg_conversation_id msg) (ms @ [msg])\<rparr>))"

definition upsert_message :: "message \<Rightarrow> convo_memory \<Rightarrow> unit convo_result" where
  "upsert_message msg m =
     (let ms = messages_of (msg_conversation_id msg) m;
          ms' = (case update_first (\<lambda>e. msg_id e = msg_id msg) (\<lambda>_. msg) ms of
                   Some ms' \<Rightarrow> ms' | None \<Rightarrow> ms @ [msg])
      in (Inr (), m\<lparr>cm_msgs := mput (cm_msgs m) (msg_conversation_id msg) ms'\<rparr>))"

definition message_role_order :: "string \<Rightarrow> int" where
  "message_role_order role = (if role = ''user'' then 0 else if role = ''assistant'' then 1 else 2)"

definition message_key :: "message \<Rightarrow> gtime \<times> int \<times> string" where
  "message_key msg = (msg_created_at msg, message_role_order (msg_role msg), msg_id msg)"

definition get_messages :: "string \<Rightarrow> string \<Rightarrow> convo_memory \<Rightarrow> convo_error + message list" where
  "get_messages cid user m =
     (case owned_conversation cid user m of
        None \<Rightarrow> Inl ConvoNotFound
      | Some _ \<Rightarrow> Inr (sort_key message_key (messages_of cid m)))"

definition get_message :: "string \<Rightarrow> string \<Rightarrow> string \<Rightarrow> convo_memory \<Rightarrow> convo_error + message" where
  "get_message cid mid user m =
     (case owned_conversation cid user m of
        None \<Rightarrow> Inl ConvoNotFound
      | Some _ \<Rightarrow> (case find (\<lambda>msg. msg_id msg = mid) (messages_of cid m) of
            None \<Rightarrow> Inl ConvoNotFound | Some msg \<Rightarrow> Inr msg))"

definition upsert_artifact :: "artifact \<Rightarrow> convo_memory \<Rightarrow> unit convo_result" where
  "upsert_artifact a m = (Inr (), m\<lparr>cm_arts := mput (cm_arts m) (art_id a) a\<rparr>)"

definition get_artifact :: "string \<Rightarrow> string \<Rightarrow> string \<Rightarrow> convo_memory \<Rightarrow> convo_error + artifact" where
  "get_artifact cid aid user m =
     (case owned_conversation cid user m of
        None \<Rightarrow> Inl ConvoNotFound
      | Some _ \<Rightarrow> (case mget (cm_arts m) aid of
            None \<Rightarrow> Inl ConvoNotFound
          | Some a \<Rightarrow> if art_conversation_id a \<noteq> cid \<or> art_user_id a \<noteq> user then Inl ConvoNotFound else Inr a))"

end
