(* ===== verification/Chatrun_Memory.thy ===== *)
theory Chatrun_Memory
  imports Chatrun_Types Convo_Memory
begin

text \<open>
  \<open>apps/gateway/internal/chatrun/memory.go\<close>: the run store over the in-process conversation store,
  all operations. \<open>clock\<close> is what \<open>time.Now().UTC()\<close> returns. A loop over a Go map folds over the
  entries the map had when the loop began: the loops only overwrite the entry they stand on.
\<close>

record chat_memory =
  cr_runs :: "(string, chat_run) gomap"
  cr_plans :: "(string, chat_plan) gomap"
  cr_versions :: "(string, int) gomap"
  cr_questions :: "(string, chat_question) gomap"
  cr_question_versions :: "(string, int) gomap"
  cr_unavailable_models :: "(string, bool) gomap"
  cr_convo :: convo_memory

definition new_chat_memory :: "convo_memory \<Rightarrow> chat_memory" where
  "new_chat_memory conversations = \<lparr>cr_runs = mnil, cr_plans = mnil, cr_versions = mnil, cr_questions = mnil,
     cr_question_versions = mnil, cr_unavailable_models = mnil, cr_convo = conversations\<rparr>"

type_synonym 'a chat_result = "(chatrun_error + 'a) \<times> chat_memory"

section \<open>Shared steps\<close>

definition put_run :: "string \<Rightarrow> chat_run \<Rightarrow> chat_memory \<Rightarrow> chat_memory" where
  "put_run k r m = m\<lparr>cr_runs := mput (cr_runs m) k r\<rparr>"

definition put_plan :: "string \<Rightarrow> chat_plan \<Rightarrow> chat_memory \<Rightarrow> chat_memory" where
  "put_plan k p m = m\<lparr>cr_plans := mput (cr_plans m) k p\<rparr>"

definition put_question :: "string \<Rightarrow> chat_question \<Rightarrow> chat_memory \<Rightarrow> chat_memory" where
  "put_question k q m = m\<lparr>cr_questions := mput (cr_questions m) k q\<rparr>"

definition open_question :: "string \<Rightarrow> chat_question \<Rightarrow> bool" where
  "open_question cid q \<longleftrightarrow> q_conversation_id q = cid \<and> (q_status q = question_pending \<or> q_status q = question_answering)"

definition has_open_question :: "string \<Rightarrow> chat_memory \<Rightarrow> bool" where
  "has_open_question cid m \<longleftrightarrow> list_ex (open_question cid) (mvals (cr_questions m))"

definition running_in :: "string \<Rightarrow> chat_memory \<Rightarrow> chat_run option" where
  "running_in cid m = find (\<lambda>r. run_conversation_id r = cid \<and> run_status r = status_running) (mvals (cr_runs m))"

definition same_request :: "string \<Rightarrow> string \<Rightarrow> string \<Rightarrow> chat_memory \<Rightarrow> chat_run option" where
  "same_request user cid request m = find (\<lambda>r. run_user_id r = user \<and> run_conversation_id r = cid
     \<and> run_client_request_id r \<noteq> [] \<and> run_client_request_id r = request) (mvals (cr_runs m))"

definition plan_usable :: "chat_plan \<Rightarrow> bool" where
  "plan_usable p \<longleftrightarrow> plan_status p = plan_ready \<or> plan_status p = plan_stopped"

definition assistant_message_id :: "string \<Rightarrow> string" where
  "assistant_message_id run = run @ ''-assistant''"

text \<open>
  The status of a plan or a question is shown in the assistant message of the run it came from. The
  code rewrites the parts in place and upserts the message.
\<close>

definition rewrite_parts :: "string \<Rightarrow> string \<Rightarrow> string \<Rightarrow> (part \<Rightarrow> part) \<Rightarrow> chat_memory \<Rightarrow> convo_error option \<times> chat_memory" where
  "rewrite_parts cid user mid f m =
     (case get_messages cid user (cr_convo m) of
        Inl e \<Rightarrow> (Some e, m)
      | Inr msgs \<Rightarrow> (case find (\<lambda>msg. msg_id msg = mid) msgs of
            None \<Rightarrow> (None, m)
          | Some msg \<Rightarrow> (case upsert_message (msg\<lparr>msg_parts := map f (msg_parts msg)\<rparr>) (cr_convo m) of
                (Inl e, c) \<Rightarrow> (Some e, m\<lparr>cr_convo := c\<rparr>)
              | (Inr _, c) \<Rightarrow> (None, m\<lparr>cr_convo := c\<rparr>))))"

definition mark_question_part :: "chat_question \<Rightarrow> part \<Rightarrow> part" where
  "mark_question_part q p = (if part_type p = part_question_t \<and> part_question_id p = q_id q
     then p\<lparr>part_status := q_status q, part_question_answer := q_answer q\<rparr> else p)"

definition update_question_message_status :: "chat_question \<Rightarrow> chat_memory \<Rightarrow> convo_error option \<times> chat_memory" where
  "update_question_message_status q m =
     (let source = mget0 run_zero (cr_runs m) (q_source_run_id q)
      in rewrite_parts (q_conversation_id q) (run_user_id source) (assistant_message_id (q_source_run_id q))
           (mark_question_part q) m)"

definition mark_plan_part :: "chat_plan \<Rightarrow> part \<Rightarrow> part" where
  "mark_plan_part pl p = (if part_type p = part_plan_t \<and> part_plan_id p = plan_id pl
     then p\<lparr>part_status := plan_status pl\<rparr> else p)"

definition update_plan_message_status :: "chat_plan \<Rightarrow> chat_memory \<Rightarrow> convo_error option \<times> chat_memory" where
  "update_plan_message_status pl m =
     (case mget (cr_runs m) (plan_source_run_id pl) of
        None \<Rightarrow> (None, m)
      | Some source \<Rightarrow> rewrite_parts (plan_conversation_id pl) (run_user_id source)
           (assistant_message_id (plan_source_run_id pl)) (mark_plan_part pl) m)"

section \<open>Start\<close>

definition start_existing :: "conversation \<Rightarrow> conversation \<Rightarrow> chatrun_error + conversation" where
  "start_existing c existing =
     (if conv_agent_id c \<noteq> conv_agent_id existing then Inl RunAgentMismatch
      else if conv_runtime_id c \<noteq> [] \<and> conv_runtime_id c \<noteq> conv_runtime_id existing then Inl RunRuntimeMismatch
      else let effective = (if conv_agent_id existing = [] \<and> conv_chat_type existing = ''chat''
               \<and> conv_channel_connector_id existing = [] \<and> conv_channel_connector_id c \<noteq> []
             then existing\<lparr>conv_channel_connector_id := conv_channel_connector_id c\<rparr> else existing)
           in if conv_project_id c \<noteq> [] \<and> conv_project_id c \<noteq> conv_project_id existing then Inl RunProjectMismatch
              else Inr (effective\<lparr>conv_updated_at := conv_updated_at c\<rparr>))"

definition start_new :: "conversation \<Rightarrow> convo_memory \<Rightarrow> chatrun_error + conversation" where
  "start_new c cm =
     (let c = (if conv_runtime_id c = [] then c\<lparr>conv_runtime_id := default_runtime_id\<rparr> else c)
      in if conv_folder_id c \<noteq> [] \<and> (case get_folder (conv_folder_id c) (conv_user_id c) cm of Inl _ \<Rightarrow> True | Inr _ \<Rightarrow> False)
         then Inl RunFolderNotFound
         else if conv_folder_id c \<noteq> [] \<and> conv_project_id c \<noteq> [] then Inl RunProjectMismatch
         else Inr c)"

definition start_effective :: "conversation \<Rightarrow> convo_memory \<Rightarrow> chatrun_error + conversation" where
  "start_effective c cm =
     (case get_conversation (conv_id c) (conv_user_id c) cm of
        Inr existing \<Rightarrow> start_existing c existing
      | Inl ConvoNotFound \<Rightarrow> start_new c cm
      | Inl e \<Rightarrow> Inl (ConvoFailed e))"

definition start_run :: "chat_run \<Rightarrow> conversation \<Rightarrow> chat_run" where
  "start_run r effective =
     (case conv_agent_snapshot effective of
        None \<Rightarrow> r
      | Some s \<Rightarrow> r\<lparr>run_model_route_id := snap_model_route_id s, run_model_alias := snap_model_alias s\<rparr>)"

definition check_revision :: "start_input \<Rightarrow> string \<Rightarrow> chat_memory \<Rightarrow> chatrun_error option" where
  "check_revision i cid m =
     (if si_revision_plan_id i = [] then None
      else case mget (cr_plans m) (si_revision_plan_id i) of
          None \<Rightarrow> Some PlanNotCurrent
        | Some p \<Rightarrow>
            if plan_conversation_id p \<noteq> cid \<or> plan_version p \<noteq> si_expected_revision_plan_version i then Some PlanNotCurrent
            else if \<not> plan_usable p then Some PlanState else None)"

definition start_upsert_error :: "convo_error \<Rightarrow> chatrun_error" where
  "start_upsert_error e = (case e of ConvoNotFound \<Rightarrow> RunNotFound | ConvoRuntimeMismatch \<Rightarrow> RunRuntimeMismatch
     | ConvoAgentMismatch \<Rightarrow> RunAgentMismatch | _ \<Rightarrow> ConvoFailed e)"

text \<open>From the folder check on: the conversation is upserted, then the run is admitted.\<close>

definition start_admit :: "start_input \<Rightarrow> conversation \<Rightarrow> chat_run \<Rightarrow> chat_memory \<Rightarrow> start_result chat_result" where
  "start_admit i effective r m =
     (case upsert_conversation effective (cr_convo m) of
        (Inl e, c) \<Rightarrow> (Inl (start_upsert_error e), m\<lparr>cr_convo := c\<rparr>)
      | (Inr _, c) \<Rightarrow>
          (let m = m\<lparr>cr_convo := c\<rparr> in
           case running_in (run_conversation_id r) m of
             Some running \<Rightarrow> (Inl (RunConflict (Some (running, effective))), m)
           | None \<Rightarrow>
               (case insert_message (si_user_message i) (cr_convo m) of
                  (Inl e, c) \<Rightarrow> (Inl (ConvoFailed e), m\<lparr>cr_convo := c\<rparr>)
                | (Inr _, c) \<Rightarrow>
                    (Inr \<lparr>sr_run = r, sr_conversation = effective, sr_created = True\<rparr>,
                     put_run (run_id r) r (m\<lparr>cr_convo := c\<rparr>)))))"

definition chat_start :: "start_input \<Rightarrow> chat_memory \<Rightarrow> start_result chat_result" where
  "chat_start i m =
     (let c = si_conversation i; cid = run_conversation_id (si_run i) in
      case start_effective c (cr_convo m) of
        Inl e \<Rightarrow> (Inl e, m)
      | Inr effective \<Rightarrow>
          (let r = start_run ((si_run i)\<lparr>run_interaction_mode := normalize_interaction_mode (run_interaction_mode (si_run i))\<rparr>) effective in
           case same_request (run_user_id r) cid (run_client_request_id r) m of
             Some existing \<Rightarrow> (Inr \<lparr>sr_run = existing, sr_conversation = effective, sr_created = False\<rparr>, m)
           | None \<Rightarrow>
               (case check_revision i cid m of
                  Some e \<Rightarrow> (Inl e, m)
                | None \<Rightarrow>
                    if (case get_conversation (conv_id c) (conv_user_id c) (cr_convo m) of Inl _ \<Rightarrow> False | Inr _ \<Rightarrow> True)
                       \<and> conv_folder_id c \<noteq> [] \<and> conv_folder_id c \<noteq> conv_folder_id effective
                    then (Inl RunFolderMismatch, m)
                    else if has_open_question cid m then (Inl QuestionPending, m)
                    else start_admit i effective r m)))"

section \<open>Reads and drafts\<close>

definition chat_get_owned :: "string \<Rightarrow> string \<Rightarrow> chat_memory \<Rightarrow> chatrun_error + chat_run" where
  "chat_get_owned rid user m = (case mget (cr_runs m) rid of None \<Rightarrow> Inl RunNotFound
     | Some r \<Rightarrow> if run_user_id r \<noteq> user then Inl RunNotFound else Inr r)"

definition chat_get_request :: "string \<Rightarrow> string \<Rightarrow> string \<Rightarrow> chat_memory \<Rightarrow> chatrun_error + chat_run" where
  "chat_get_request cid user request m =
     (case same_request user cid request m of None \<Rightarrow> Inl RunNotFound | Some r \<Rightarrow> Inr r)"

definition chat_active :: "string \<Rightarrow> string \<Rightarrow> chat_memory \<Rightarrow> chatrun_error + chat_run" where
  "chat_active cid user m =
     (case find (\<lambda>r. run_conversation_id r = cid \<and> run_user_id r = user \<and> run_status r = status_running)
         (mvals (cr_runs m)) of
        None \<Rightarrow> Inl RunNotFound | Some r \<Rightarrow> Inr r)"

definition chat_save_draft :: "string \<Rightarrow> string \<Rightarrow> message \<Rightarrow> gtime \<Rightarrow> chat_memory \<Rightarrow> unit chat_result" where
  "chat_save_draft rid user msg clock m =
     (case mget (cr_runs m) rid of
        None \<Rightarrow> (Inl RunNotFound, m)
      | Some r \<Rightarrow>
          if run_user_id r \<noteq> user \<or> run_status r \<noteq> status_running then (Inl RunNotFound, m)
          else (let m = put_run rid (r\<lparr>run_last_activity_at := clock\<rparr>) m in
                case upsert_message msg (cr_convo m) of
                  (Inl e, c) \<Rightarrow> (Inl (ConvoFailed e), m\<lparr>cr_convo := c\<rparr>)
                | (Inr _, c) \<Rightarrow> (Inr (), m\<lparr>cr_convo := c\<rparr>)))"

definition is_owner :: "string \<Rightarrow> string \<Rightarrow> chat_memory \<Rightarrow> bool" where
  \<comment> \<open>\<open>m.convo.GetConversation\<close> succeeds\<close>
  "is_owner cid user m = (case get_conversation cid user (cr_convo m) of Inl _ \<Rightarrow> False | Inr _ \<Rightarrow> True)"

definition chat_get_question :: "string \<Rightarrow> string \<Rightarrow> string \<Rightarrow> chat_memory \<Rightarrow> chatrun_error + chat_question" where
  "chat_get_question cid qid user m =
     (if \<not> is_owner cid user m then Inl RunNotFound
      else case mget (cr_questions m) qid of None \<Rightarrow> Inl RunNotFound
        | Some q \<Rightarrow> if q_conversation_id q \<noteq> cid then Inl RunNotFound else Inr q)"

definition chat_list_questions :: "string \<Rightarrow> string \<Rightarrow> chat_memory \<Rightarrow> chatrun_error + chat_question list" where
  "chat_list_questions cid user m =
     (if \<not> is_owner cid user m then Inl RunNotFound
      else Inr (filter (\<lambda>q. q_conversation_id q = cid) (mvals (cr_questions m))))"

definition chat_list_awaiting :: "string \<Rightarrow> chat_memory \<Rightarrow> string list" where
  "chat_list_awaiting user m =
     (let candidates = remdups (map q_conversation_id (filter (\<lambda>q. q_status q = question_pending) (mvals (cr_questions m)))
            @ map plan_conversation_id (filter plan_usable (mvals (cr_plans m))))
      in sort (filter (\<lambda>cid. is_owner cid user m) candidates))"

definition chat_list_runs :: "string \<Rightarrow> string \<Rightarrow> chat_memory \<Rightarrow> chatrun_error + chat_run list" where
  "chat_list_runs cid user m =
     (if \<not> is_owner cid user m then Inl RunNotFound
      else Inr (filter (\<lambda>r. run_conversation_id r = cid \<and> run_user_id r = user) (mvals (cr_runs m))))"

definition chat_get_plan :: "string \<Rightarrow> string \<Rightarrow> string \<Rightarrow> chat_memory \<Rightarrow> chatrun_error + chat_plan" where
  "chat_get_plan cid pid user m =
     (case mget (cr_plans m) pid of
        None \<Rightarrow> Inl RunNotFound
      | Some p \<Rightarrow>
          if plan_conversation_id p \<noteq> cid then Inl RunNotFound
          else (case get_conversation cid user (cr_convo m) of
              Inl _ \<Rightarrow> Inl RunNotFound
            | Inr c \<Rightarrow> if conv_user_id c \<noteq> user then Inl RunNotFound else Inr p))"

definition chat_list_plans :: "string \<Rightarrow> string \<Rightarrow> chat_memory \<Rightarrow> chatrun_error + chat_plan list" where
  "chat_list_plans cid user m =
     (if \<not> is_owner cid user m then Inl RunNotFound
      else Inr (filter (\<lambda>p. plan_conversation_id p = cid) (mvals (cr_plans m))))"

section \<open>Finalize\<close>

definition finish_run :: "finalize_input \<Rightarrow> gtime \<Rightarrow> chat_run \<Rightarrow> chat_run" where
  "finish_run i now r =
     r\<lparr>run_status := fi_status i, run_error_code := fi_error_code i, run_tool_call_count := fi_tool_call_count i,
       run_llm_call_count := (if fi_llm_call_count i > run_llm_call_count r then fi_llm_call_count i else run_llm_call_count r),
       run_completed_at := Some now,
       run_duration_ms := (if run_started_at r \<noteq> 0 \<and> \<not> now < run_started_at r
         then milliseconds (time_sub now (run_started_at r)) else run_duration_ms r),
       run_last_activity_at := now\<rparr>"

text \<open>What \<open>Finalize\<close> has worked out so far.\<close>

record finalizing =
  fz_run :: chat_run
  fz_message :: "message option"
  fz_plan :: "chat_plan option"
  fz_question :: "chat_question option"
  fz_answered :: "chat_question option"
  fz_restored :: "chat_question option"
  fz_superseded :: string

text \<open>A question that the run was answering: answered when the runtime took the answer, else open again.\<close>

definition settle_question :: "bool \<Rightarrow> gtime \<Rightarrow> chat_question \<Rightarrow> chat_question" where
  "settle_question accepted now q =
     (if accepted then q\<lparr>q_status := question_answered, q_updated_at := now\<rparr>
      else q\<lparr>q_status := question_pending, q_answer_run_id := [], q_answer := None, q_answered_by := [],
             q_answered_at := None, q_updated_at := now\<rparr>)"

definition being_answered_by :: "string \<Rightarrow> chat_question \<Rightarrow> bool" where
  "being_answered_by rid q \<longleftrightarrow> q_answer_run_id q = rid \<and> q_status q = question_answering"

definition settle_step :: "bool \<Rightarrow> gtime \<Rightarrow> string \<times> chat_question \<Rightarrow> finalizing \<times> chat_memory \<Rightarrow> finalizing \<times> chat_memory" where
  "settle_step accepted now e s =
     (let (qid, q) = e; (z, m) = s in
      if being_answered_by (run_id (fz_run z)) q
      then (let q = settle_question accepted now q in
            ((if accepted then z\<lparr>fz_answered := Some q\<rparr> else z\<lparr>fz_restored := Some q\<rparr>),
             snd (update_question_message_status q (put_question qid q m))))
      else s)"

definition settle_questions :: "bool \<Rightarrow> gtime \<Rightarrow> finalizing \<Rightarrow> chat_memory \<Rightarrow> finalizing \<times> chat_memory" where
  "settle_questions accepted now z m = fold (settle_step accepted now) (mitems (cr_questions m)) (z, m)"

definition add_part :: "gtime \<Rightarrow> part \<Rightarrow> finalizing \<Rightarrow> message" where
  "add_part now p z =
     (let msg = (case fz_message z of Some msg \<Rightarrow> msg
        | None \<Rightarrow> \<lparr>msg_id = assistant_message_id (run_id (fz_run z)),
            msg_conversation_id = run_conversation_id (fz_run z), msg_role = ''assistant'', msg_parts = [],
            msg_metadata = [], msg_created_at = now\<rparr>)
      in msg\<lparr>msg_parts := msg_parts msg @ [p]\<rparr>)"

definition supersede_step :: "string \<Rightarrow> gtime \<Rightarrow> string \<times> chat_plan \<Rightarrow> finalizing \<times> chat_memory \<Rightarrow> finalizing \<times> chat_memory" where
  "supersede_step cid now e s =
     (let (pid, p) = e; (z, m) = s in
      if plan_conversation_id p = cid \<and> plan_usable p
      then (let p = p\<lparr>plan_status := plan_superseded, plan_updated_at := now\<rparr> in
            (z\<lparr>fz_superseded := pid\<rparr>, snd (update_plan_message_status p (put_plan pid p m))))
      else s)"

definition new_plan :: "plan_candidate \<Rightarrow> chat_run \<Rightarrow> int \<Rightarrow> gtime \<Rightarrow> chat_plan" where
  "new_plan c r version now = \<lparr>plan_id = pc_id c, plan_conversation_id = run_conversation_id r, plan_version = version,
     plan_status = plan_ready, plan_source_run_id = run_id r, plan_runtime_id = pc_runtime_id c,
     plan_model_route_id = pc_model_route_id c, plan_model_alias = pc_model_alias c,
     plan_reasoning_effort = pc_reasoning_effort c, plan_content_markdown = pc_content_markdown c,
     plan_workspace_revision = pc_workspace_revision c, plan_approved_by = [], plan_approved_at = None,
     plan_created_at = now, plan_updated_at = now\<rparr>"

definition adopt_plan :: "plan_candidate \<Rightarrow> gtime \<Rightarrow> finalizing \<Rightarrow> chat_memory \<Rightarrow> finalizing \<times> chat_memory" where
  "adopt_plan c now z m =
     (let cid = run_conversation_id (fz_run z);
          (z, m) = fold (supersede_step cid now) (mitems (cr_plans m)) (z, m);
          version = mget0 0 (cr_versions m) cid + 1;
          m = m\<lparr>cr_versions := mput (cr_versions m) cid version\<rparr>;
          p = new_plan c (fz_run z) version now;
          m = put_plan (plan_id p) p m;
          z = z\<lparr>fz_run := (fz_run z)\<lparr>run_plan_id := plan_id p\<rparr>\<rparr>
      in (z\<lparr>fz_message := Some (add_part now (plan_part p) z), fz_plan := Some p\<rparr>, m))"

definition finalize_plan :: "finalize_input \<Rightarrow> gtime \<Rightarrow> finalizing \<Rightarrow> chat_memory \<Rightarrow> finalizing chat_result" where
  "finalize_plan i now z m =
     (case fi_plan_candidate i of
        None \<Rightarrow> (Inr z, m)
      | Some c \<Rightarrow>
          if run_interaction_mode (fz_run z) = mode_plan \<and> fi_status i = status_success
          then (if pc_id c = [] \<or> pc_content_markdown c = [] \<or> length (pc_content_markdown c) > 131072
                then (Inl PlanState, m)
                else let (z, m) = adopt_plan c now z m in (Inr z, m))
          else (Inr z, m))"

definition new_question :: "question_candidate \<Rightarrow> chat_run \<Rightarrow> int \<Rightarrow> gtime \<Rightarrow> chat_question" where
  "new_question c r version now = \<lparr>q_id = qc_id c, q_conversation_id = run_conversation_id r, q_version = version,
     q_status = question_pending, q_source_run_id = run_id r, q_answer_run_id = [],
     q_interaction_mode = normalize_interaction_mode (qc_interaction_mode c), q_runtime_id = qc_runtime_id c,
     q_model_route_id = qc_model_route_id c, q_model_alias = qc_model_alias c,
     q_reasoning_effort = qc_reasoning_effort c, q_skill_id = qc_skill_id c, q_text = qc_text c,
     q_options = qc_options c, q_answer = None, q_answered_by = [], q_answered_at = None,
     q_created_at = now, q_updated_at = now\<rparr>"

definition adopt_question :: "question_candidate \<Rightarrow> gtime \<Rightarrow> finalizing \<Rightarrow> chat_memory \<Rightarrow> finalizing \<times> chat_memory" where
  "adopt_question c now z m =
     (let cid = run_conversation_id (fz_run z);
          version = mget0 0 (cr_question_versions m) cid + 1;
          m = m\<lparr>cr_question_versions := mput (cr_question_versions m) cid version\<rparr>;
          q = new_question c (fz_run z) version now
      in (z\<lparr>fz_message := Some (add_part now (question_part q) z), fz_question := Some q\<rparr>, put_question (q_id q) q m))"

definition finalize_question :: "finalize_input \<Rightarrow> gtime \<Rightarrow> finalizing \<Rightarrow> chat_memory \<Rightarrow> finalizing chat_result" where
  "finalize_question i now z m =
     (case fi_question_candidate i of
        None \<Rightarrow> (Inr z, m)
      | Some c \<Rightarrow>
          if fi_status i = status_waiting_input
          then (if \<not> valid_question_candidate c then (Inl QuestionState, m)
                else if has_open_question (run_conversation_id (fz_run z)) m then (Inl QuestionPending, m)
                else let (z, m) = adopt_question c now z m in (Inr z, m))
          else (Inr z, m))"

text \<open>What the status of the run makes of the plan it executed.\<close>

definition executed_status :: "string \<Rightarrow> string" where
  "executed_status status = (if status = status_success then plan_completed
     else if status = status_cancelled \<or> status = status_interrupted then plan_stopped else plan_failed)"

definition finalize_execution :: "finalize_input \<Rightarrow> gtime \<Rightarrow> finalizing \<Rightarrow> chat_memory \<Rightarrow> finalizing chat_result" where
  "finalize_execution i now z m =
     (if run_plan_id (fz_run z) \<noteq> [] \<and> run_interaction_mode (fz_run z) = mode_execute
      then (case mget (cr_plans m) (run_plan_id (fz_run z)) of
          None \<Rightarrow> (Inl RunNotFound, m)
        | Some p \<Rightarrow>
            (let p = p\<lparr>plan_status := executed_status (fi_status i), plan_updated_at := now\<rparr>
             in (Inr (z\<lparr>fz_plan := Some p\<rparr>), snd (update_plan_message_status p (put_plan (plan_id p) p m)))))
      else (Inr z, m))"

definition and_then :: "'a chat_result \<Rightarrow> ('a \<Rightarrow> chat_memory \<Rightarrow> 'b chat_result) \<Rightarrow> 'b chat_result" where
  "and_then r f = (case r of (Inl e, m) \<Rightarrow> (Inl e, m) | (Inr x, m) \<Rightarrow> f x m)"

text \<open>The part of \<open>Finalize\<close> under the mutex, for a run that is not terminal.\<close>

definition finalize_running :: "finalize_input \<Rightarrow> gtime \<Rightarrow> chat_run \<Rightarrow> chat_memory \<Rightarrow> finalizing chat_result" where
  "finalize_running i now r m =
     (let z = \<lparr>fz_run = finish_run i now r, fz_message = fi_assistant_message i, fz_plan = None, fz_question = None,
            fz_answered = None, fz_restored = None, fz_superseded = []\<rparr>;
          (z, m) = settle_questions (fi_runtime_accepted i) now z m
      in and_then (and_then (finalize_plan i now z m) (finalize_question i now)) (\<lambda>z m.
         and_then (finalize_execution i now z m) (\<lambda>z m. (Inr z, put_run (fi_run_id i) (fz_run z) m))))"

text \<open>After the mutex is released: publish the assistant message, then reveal the conversation.\<close>

definition finalize_publish :: "finalize_input \<Rightarrow> gtime \<Rightarrow> finalizing \<Rightarrow> chat_memory \<Rightarrow> finalize_result chat_result" where
  "finalize_publish i now z m =
     (let r = fz_run z; result = \<lparr>fr_run = r, fr_plan = fz_plan z, fr_question = fz_question z,
            fr_answered_question = fz_answered z, fr_restored_question = fz_restored z,
            fr_superseded_plan_id = fz_superseded z\<rparr>;
          reveal = (\<lambda>c. if fi_reveal i
            then snd (reveal_conversation (run_conversation_id r) (run_user_id r) (fi_conversation_title i) now c) else c)
      in case fz_message z of
           None \<Rightarrow> (Inr result, m\<lparr>cr_convo := reveal (cr_convo m)\<rparr>)
         | Some msg \<Rightarrow> (case upsert_message msg (cr_convo m) of
             (Inl e, c) \<Rightarrow> (Inl (ConvoFailed e), m\<lparr>cr_convo := c\<rparr>)
           | (Inr _, c) \<Rightarrow> (Inr result, m\<lparr>cr_convo := reveal c\<rparr>)))"

definition chat_finalize :: "finalize_input \<Rightarrow> gtime \<Rightarrow> chat_memory \<Rightarrow> finalize_result chat_result" where
  "chat_finalize i clock m =
     (case mget (cr_runs m) (fi_run_id i) of
        None \<Rightarrow> (Inl RunNotFound, m)
      | Some r \<Rightarrow>
          if run_user_id r \<noteq> fi_user_id i then (Inl RunNotFound, m)
          else if is_terminal (run_status r)
          then (Inr \<lparr>fr_run = r, fr_plan = None, fr_question = None, fr_answered_question = None,
                  fr_restored_question = None, fr_superseded_plan_id = []\<rparr>, m)
          else (let now = or_now (fi_completed_at i) clock
                in and_then (finalize_running i now r m) (finalize_publish i now)))"

section \<open>Questions\<close>

definition answer_run :: "question_answer_input \<Rightarrow> chat_question \<Rightarrow> chat_run" where
  "answer_run i q = (qi_run i)\<lparr>run_conversation_id := qi_conversation_id i, run_user_id := qi_user_id i,
     run_interaction_mode := normalize_interaction_mode (q_interaction_mode q),
     run_reasoning_effort := q_reasoning_effort q\<rparr>"

definition answering_question :: "question_answer_input \<Rightarrow> gtime \<Rightarrow> string \<Rightarrow> chat_question \<Rightarrow> chat_question" where
  "answering_question i now rid q = q\<lparr>q_status := question_answering, q_answer_run_id := rid,
     q_answer := Some (qi_answer i), q_answered_by := qi_user_id i, q_answered_at := Some now, q_updated_at := now\<rparr>"

text \<open>The answer is admitted: the run starts, the user message is stored, the question waits for the runtime.\<close>

definition admit_answer :: "question_answer_input \<Rightarrow> gtime \<Rightarrow> conversation \<Rightarrow> chat_question \<Rightarrow> chat_memory \<Rightarrow>
    question_answer_result chat_result" where
  "admit_answer i clock c q m =
     (let r = answer_run i q; m1 = put_run (run_id r) r m in
      case insert_message (qi_user_message i) (cr_convo m1) of
        (Inl e, cm) \<Rightarrow> (Inl (ConvoFailed e), m1\<lparr>cr_runs := mdel (cr_runs m1) (run_id r), cr_convo := cm\<rparr>)
      | (Inr _, cm) \<Rightarrow>
          (let now = or_now (qi_answered_at i) clock;
               q = answering_question i now (run_id r) q;
               (e, m) = update_question_message_status q (put_question (q_id q) q (m1\<lparr>cr_convo := cm\<rparr>))
           in case e of
                Some err \<Rightarrow> (Inl (ConvoFailed err), m)
              | None \<Rightarrow> (Inr \<lparr>qr_run = r, qr_conversation = c, qr_question = q, qr_created = True\<rparr>, m)))"

definition answer_first_time :: "question_answer_input \<Rightarrow> gtime \<Rightarrow> conversation \<Rightarrow> chat_memory \<Rightarrow>
    question_answer_result chat_result" where
  "answer_first_time i clock c m =
     (case mget (cr_questions m) (qi_question_id i) of
        None \<Rightarrow> (Inl RunNotFound, m)
      | Some q \<Rightarrow>
          if q_conversation_id q \<noteq> qi_conversation_id i then (Inl RunNotFound, m)
          else if q_version q \<noteq> qi_expected_version i then (Inl QuestionNotCurrent, m)
          else if q_status q \<noteq> question_pending then (Inl QuestionState, m)
          else if q_model_route_id q = [] \<or> mget0 False (cr_unavailable_models m) (q_model_route_id q)
          then (Inl QuestionModelUnavailable, m)
          else (case running_in (qi_conversation_id i) m of
              Some running \<Rightarrow> (Inl (RunConflict (Some (running, c))), m)
            | None \<Rightarrow> admit_answer i clock c q m))"

definition chat_start_question_answer :: "question_answer_input \<Rightarrow> gtime \<Rightarrow> chat_memory \<Rightarrow>
    question_answer_result chat_result" where
  "chat_start_question_answer i clock m =
     (case get_conversation (qi_conversation_id i) (qi_user_id i) (cr_convo m) of
        Inl _ \<Rightarrow> (Inl RunNotFound, m)
      | Inr c \<Rightarrow>
          (case same_request (qi_user_id i) (qi_conversation_id i) (run_client_request_id (qi_run i)) m of
             Some existing \<Rightarrow>
               (case mget (cr_questions m) (qi_question_id i) of
                  None \<Rightarrow> (Inl QuestionNotCurrent, m)
                | Some q \<Rightarrow>
                    if q_answer_run_id q \<noteq> run_id existing then (Inl QuestionNotCurrent, m)
                    else (Inr \<lparr>qr_run = existing, qr_conversation = c, qr_question = q, qr_created = False\<rparr>, m))
           | None \<Rightarrow> answer_first_time i clock c m))"

definition chat_accept_question_answer ::
  "string \<Rightarrow> string \<Rightarrow> string \<Rightarrow> gtime \<Rightarrow> gtime \<Rightarrow> chat_memory \<Rightarrow> chat_question chat_result" where
  "chat_accept_question_answer rid qid user t clock m =
     (case mget (cr_runs m) rid of
        None \<Rightarrow> (Inl RunNotFound, m)
      | Some r \<Rightarrow>
          if run_user_id r \<noteq> user \<or> run_status r \<noteq> status_running then (Inl RunNotFound, m)
          else (case mget (cr_questions m) qid of
              None \<Rightarrow> (Inl RunNotFound, m)
            | Some q \<Rightarrow>
                if q_conversation_id q \<noteq> run_conversation_id r \<or> q_answer_run_id q \<noteq> rid then (Inl RunNotFound, m)
                else if q_status q = question_answered then (Inr q, m)
                else if q_status q \<noteq> question_answering then (Inl QuestionState, m)
                else (let q' = q\<lparr>q_status := question_answered, q_updated_at := or_now t clock\<rparr>;
                          previous = mget0 question_zero (cr_questions m) (q_id q');
                          (e, m') = update_question_message_status q' (put_question (q_id q') q' m)
                      in case e of
                           None \<Rightarrow> (Inr q', m')
                         | Some err \<Rightarrow> (Inl (ConvoFailed err), put_question (q_id q') previous m'))))"

definition chat_cancel_question ::
  "string \<Rightarrow> string \<Rightarrow> string \<Rightarrow> int \<Rightarrow> gtime \<Rightarrow> gtime \<Rightarrow> chat_memory \<Rightarrow> chat_question chat_result" where
  "chat_cancel_question cid qid user version t clock m =
     (if \<not> is_owner cid user m then (Inl RunNotFound, m)
      else case mget (cr_questions m) qid of
          None \<Rightarrow> (Inl RunNotFound, m)
        | Some q \<Rightarrow>
            if q_conversation_id q \<noteq> cid then (Inl RunNotFound, m)
            else if q_version q \<noteq> version then (Inl QuestionNotCurrent, m)
            else if q_status q \<noteq> question_pending then (Inl QuestionState, m)
            else (let q = q\<lparr>q_status := question_cancelled, q_updated_at := or_now t clock\<rparr>;
                      (e, m) = update_question_message_status q (put_question (q_id q) q m)
                  in case e of Some err \<Rightarrow> (Inl (ConvoFailed err), m) | None \<Rightarrow> (Inr q, m)))"

section \<open>Plans\<close>

definition approve_plan :: "string \<Rightarrow> gtime \<Rightarrow> chat_plan \<Rightarrow> chat_plan" where
  "approve_plan user now p =
     (let p = (if plan_status p = plan_ready then p\<lparr>plan_approved_by := user, plan_approved_at := Some now\<rparr> else p)
      in p\<lparr>plan_status := plan_executing, plan_updated_at := now\<rparr>)"

definition execution_run :: "plan_execution_input \<Rightarrow> chat_plan \<Rightarrow> chat_run" where
  "execution_run i p = (pi_run i)\<lparr>run_conversation_id := pi_conversation_id i, run_user_id := pi_user_id i,
     run_interaction_mode := mode_execute, run_plan_id := plan_id p, run_reasoning_effort := plan_reasoning_effort p\<rparr>"

definition execute_first_time :: "plan_execution_input \<Rightarrow> gtime \<Rightarrow> conversation \<Rightarrow> chat_memory \<Rightarrow>
    plan_execution_result chat_result" where
  "execute_first_time i clock c m =
     (case mget (cr_plans m) (pi_plan_id i) of
        None \<Rightarrow> (Inl RunNotFound, m)
      | Some p \<Rightarrow>
          if plan_conversation_id p \<noteq> pi_conversation_id i then (Inl RunNotFound, m)
          else if plan_version p \<noteq> pi_expected_version i
              \<or> mget0 0 (cr_versions m) (pi_conversation_id i) \<noteq> plan_version p then (Inl PlanNotCurrent, m)
          else if \<not> plan_usable p then (Inl PlanState, m)
          else if has_open_question (pi_conversation_id i) m then (Inl QuestionPending, m)
          else if plan_model_route_id p = [] \<or> mget0 False (cr_unavailable_models m) (plan_model_route_id p)
          then (Inl PlanModelUnavailable, m)
          else if running_in (pi_conversation_id i) m \<noteq> None then (Inl (RunConflict None), m)
          else (let p = approve_plan (pi_user_id i) (or_now (pi_approved_at i) clock) p;
                    r = execution_run i p;
                    m = put_run (run_id r) r (put_plan (plan_id p) p m)
                in (Inr \<lparr>pr_run = r, pr_conversation = c, pr_plan = p, pr_created = True\<rparr>,
                    snd (update_plan_message_status p m))))"

definition chat_start_plan_execution :: "plan_execution_input \<Rightarrow> gtime \<Rightarrow> chat_memory \<Rightarrow>
    plan_execution_result chat_result" where
  "chat_start_plan_execution i clock m =
     (case get_conversation (pi_conversation_id i) (pi_user_id i) (cr_convo m) of
        Inl _ \<Rightarrow> (Inl RunNotFound, m)
      | Inr c \<Rightarrow>
          (case same_request (pi_user_id i) (pi_conversation_id i) (run_client_request_id (pi_run i)) m of
             Some existing \<Rightarrow> (Inr \<lparr>pr_run = existing, pr_conversation = c,
                 pr_plan = mget0 plan_zero (cr_plans m) (pi_plan_id i), pr_created = False\<rparr>, m)
           | None \<Rightarrow> execute_first_time i clock c m))"

definition chat_cancel_plan ::
  "string \<Rightarrow> string \<Rightarrow> string \<Rightarrow> int \<Rightarrow> gtime \<Rightarrow> gtime \<Rightarrow> chat_memory \<Rightarrow> chat_plan chat_result" where
  "chat_cancel_plan cid pid user version t clock m =
     (if \<not> is_owner cid user m then (Inl RunNotFound, m)
      else case mget (cr_plans m) pid of
          None \<Rightarrow> (Inl RunNotFound, m)
        | Some p \<Rightarrow>
            if plan_conversation_id p \<noteq> cid then (Inl RunNotFound, m)
            else if plan_version p \<noteq> version then (Inl PlanNotCurrent, m)
            else if \<not> plan_usable p then (Inl PlanState, m)
            else (let p = p\<lparr>plan_status := plan_cancelled, plan_updated_at := or_now t clock\<rparr>;
                      (e, m) = update_plan_message_status p (put_plan (plan_id p) p m)
                  in case e of Some err \<Rightarrow> (Inl (ConvoFailed err), m) | None \<Rightarrow> (Inr p, m)))"

section \<open>Restart\<close>

definition interrupt_question :: "string \<Rightarrow> gtime \<Rightarrow> string \<times> chat_question \<Rightarrow> chat_memory \<Rightarrow> chat_memory" where
  "interrupt_question rid now e m =
     (let (qid, q) = e in
      if being_answered_by rid q
      then (let q = settle_question True now q in snd (update_question_message_status q (put_question qid q m)))
      else m)"

definition interrupt_plan :: "chat_run \<Rightarrow> gtime \<Rightarrow> chat_memory \<Rightarrow> chat_memory" where
  "interrupt_plan r now m =
     (if run_plan_id r \<noteq> [] \<and> run_interaction_mode r = mode_execute
      then (let p = (mget0 plan_zero (cr_plans m) (run_plan_id r))\<lparr>plan_status := plan_stopped, plan_updated_at := now\<rparr>
            in snd (update_plan_message_status p (put_plan (plan_id p) p m)))
      else m)"

definition interrupt_run :: "gtime \<Rightarrow> string \<times> chat_run \<Rightarrow> int \<times> chat_memory \<Rightarrow> int \<times> chat_memory" where
  "interrupt_run now e s =
     (let (rid, r) = e; (count, m) = s in
      if run_status r \<noteq> status_running then s
      else (let r = r\<lparr>run_status := status_interrupted, run_error_code := ''GATEWAY_RESTARTED'',
                run_completed_at := Some now, run_last_activity_at := now\<rparr>;
                m = interrupt_plan r now (put_run rid r m)
            in (count + 1, fold (interrupt_question (run_id r) now) (mitems (cr_questions m)) m)))"

definition chat_interrupt_running :: "gtime \<Rightarrow> chat_memory \<Rightarrow> int \<times> chat_memory" where
  "chat_interrupt_running now m = fold (interrupt_run now) (mitems (cr_runs m)) (0, m)"

end
