(* ===== verification/Chatrun_Spec.thy ===== *)
theory Chatrun_Spec
  imports Chatrun_Memory
begin

text \<open>
  What the run store promises, stated over its runs, plans, plan counters and questions as plain maps:
  the moves that are allowed (\<open>chat_move\<close>), the invariant they keep (\<open>view_ok\<close>), and the life of a
  run, a plan and a question. The operations of \<open>Chatrun_Memory\<close> are shown to be sequences of these
  moves in \<open>Chatrun_Refines\<close>.
\<close>

section \<open>Views\<close>

record chat_view =
  v_runs :: "string \<Rightarrow> chat_run option"
  v_plans :: "string \<Rightarrow> chat_plan option"
  v_versions :: "string \<Rightarrow> int"
  v_questions :: "string \<Rightarrow> chat_question option"

definition view :: "chat_memory \<Rightarrow> chat_view" where
  "view m = \<lparr>v_runs = mget (cr_runs m), v_plans = mget (cr_plans m), v_versions = mget0 0 (cr_versions m),
     v_questions = mget (cr_questions m)\<rparr>"

abbreviation running :: "chat_run \<Rightarrow> bool" where "running r \<equiv> run_status r = status_running"

definition idle :: "string \<Rightarrow> chat_view \<Rightarrow> bool" where
  "idle cid v \<longleftrightarrow> (\<forall>k r. v_runs v k = Some r \<longrightarrow> run_conversation_id r = cid \<longrightarrow> \<not> running r)"

definition no_open :: "string \<Rightarrow> chat_view \<Rightarrow> bool" where
  "no_open cid v \<longleftrightarrow> (\<forall>k q. v_questions v k = Some q \<longrightarrow> \<not> open_question cid q)"

definition executes :: "chat_run \<Rightarrow> bool" where
  "executes r \<longleftrightarrow> run_plan_id r \<noteq> [] \<and> run_interaction_mode r = mode_execute"

section \<open>Moves\<close>

text \<open>The fields of a run that never change.\<close>

definition same_run :: "chat_run \<Rightarrow> chat_run \<Rightarrow> bool" where
  "same_run r r' \<longleftrightarrow> run_id r' = run_id r \<and> run_conversation_id r' = run_conversation_id r \<and>
     run_user_id r' = run_user_id r \<and> run_client_request_id r' = run_client_request_id r \<and>
     run_interaction_mode r' = run_interaction_mode r \<and> run_started_at r' = run_started_at r \<and>
     (run_interaction_mode r = mode_execute \<longrightarrow> run_plan_id r' = run_plan_id r)"

definition map_entries :: "('v \<Rightarrow> bool) \<Rightarrow> ('v \<Rightarrow> 'v) \<Rightarrow> ('k \<Rightarrow> 'v option) \<Rightarrow> 'k \<Rightarrow> 'v option" where
  "map_entries P f g k = map_option (\<lambda>x. if P x then f x else x) (g k)"

definition settle_all :: "string \<Rightarrow> bool \<Rightarrow> gtime \<Rightarrow> chat_view \<Rightarrow> chat_view" where
  "settle_all rid accepted now v =
     v\<lparr>v_questions := map_entries (being_answered_by rid) (settle_question accepted now) (v_questions v)\<rparr>"

definition supersede_all :: "string \<Rightarrow> gtime \<Rightarrow> (string \<Rightarrow> chat_plan option) \<Rightarrow> string \<Rightarrow> chat_plan option" where
  "supersede_all cid now = map_entries (\<lambda>p. plan_conversation_id p = cid \<and> plan_usable p)
     (\<lambda>p. p\<lparr>plan_status := plan_superseded, plan_updated_at := now\<rparr>)"

inductive chat_move :: "chat_view \<Rightarrow> chat_view \<Rightarrow> bool" where
  admit: "\<lbrakk>v_runs v (run_id r) = None; running r; \<not> executes r; idle (run_conversation_id r) v;
      no_open (run_conversation_id r) v\<rbrakk>
    \<Longrightarrow> chat_move v (v\<lparr>v_runs := (v_runs v)(run_id r \<mapsto> r)\<rparr>)"
| draft: "\<lbrakk>v_runs v k = Some r; running r\<rbrakk>
    \<Longrightarrow> chat_move v (v\<lparr>v_runs := (v_runs v)(k \<mapsto> r\<lparr>run_last_activity_at := t\<rparr>)\<rparr>)"
| answer: "\<lbrakk>v_questions v k = Some q; q_status q = question_pending; v_runs v (run_id r) = None; running r;
      \<not> executes r; run_conversation_id r = q_conversation_id q; idle (q_conversation_id q) v\<rbrakk>
    \<Longrightarrow> chat_move v (v\<lparr>v_runs := (v_runs v)(run_id r \<mapsto> r),
         v_questions := (v_questions v)(k \<mapsto> answering_question i now (run_id r) q)\<rparr>)"
| execute: "\<lbrakk>v_plans v k = Some p; plan_usable p; v_versions v (plan_conversation_id p) = plan_version p;
      v_runs v (run_id r) = None; running r; run_plan_id r = k; run_conversation_id r = plan_conversation_id p;
      run_interaction_mode r = mode_execute;
      idle (plan_conversation_id p) v; no_open (plan_conversation_id p) v\<rbrakk>
    \<Longrightarrow> chat_move v (v\<lparr>v_runs := (v_runs v)(run_id r \<mapsto> r), v_plans := (v_plans v)(k \<mapsto> approve_plan user now p)\<rparr>)"
| settle: "\<lbrakk>v_runs v rid = Some r; running r\<rbrakk> \<Longrightarrow> chat_move v (settle_all rid accepted now v)"
| accept: "\<lbrakk>v_questions v k = Some q; q_status q = question_answering\<rbrakk>
    \<Longrightarrow> chat_move v (v\<lparr>v_questions := (v_questions v)(k \<mapsto> settle_question True now q)\<rparr>)"
| cancel_question: "\<lbrakk>v_questions v k = Some q; q_status q = question_pending\<rbrakk>
    \<Longrightarrow> chat_move v (v\<lparr>v_questions := (v_questions v)(k \<mapsto> q\<lparr>q_status := question_cancelled, q_updated_at := now\<rparr>)\<rparr>)"
| cancel_plan: "\<lbrakk>v_plans v k = Some p; plan_usable p\<rbrakk>
    \<Longrightarrow> chat_move v (v\<lparr>v_plans := (v_plans v)(k \<mapsto> p\<lparr>plan_status := plan_cancelled, plan_updated_at := now\<rparr>)\<rparr>)"
| adopt_plan: "\<lbrakk>v_runs v rid = Some r; running r; run_interaction_mode r = mode_plan; v_plans v (pc_id c) = None; pc_id c \<noteq> [];
      cid = run_conversation_id r; run_conversation_id src = cid\<rbrakk>
    \<Longrightarrow> chat_move v (v\<lparr>v_versions := (v_versions v)(cid := v_versions v cid + 1),
         v_plans := (supersede_all cid now (v_plans v))(pc_id c \<mapsto> new_plan c src (v_versions v cid + 1) now)\<rparr>)"
| adopt_question: "\<lbrakk>v_runs v rid = Some r; running r; v_questions v (qc_id c) = None;
      no_open (run_conversation_id r) v; run_conversation_id src = run_conversation_id r\<rbrakk>
    \<Longrightarrow> chat_move v (v\<lparr>v_questions := (v_questions v)(qc_id c \<mapsto> new_question c src version now)\<rparr>)"
| finish: "\<lbrakk>v_runs v k = Some r; running r; same_run r r'; is_terminal (run_status r'); \<not> executes r;
      \<And>j q. v_questions v j = Some q \<Longrightarrow> \<not> being_answered_by k q\<rbrakk>
    \<Longrightarrow> chat_move v (v\<lparr>v_runs := (v_runs v)(k \<mapsto> r')\<rparr>)"
| finish_plan: "\<lbrakk>v_runs v k = Some r; running r; same_run r r'; is_terminal (run_status r'); executes r;
      \<And>j q. v_questions v j = Some q \<Longrightarrow> \<not> being_answered_by k q;
      v_plans v (run_plan_id r) = Some p; plan_status p = plan_executing\<rbrakk>
    \<Longrightarrow> chat_move v (v\<lparr>v_runs := (v_runs v)(k \<mapsto> r'),
         v_plans := (v_plans v)(run_plan_id r \<mapsto> p\<lparr>plan_status := executed_status s, plan_updated_at := now\<rparr>)\<rparr>)"

section \<open>The invariant\<close>

definition one_running :: "(string \<Rightarrow> chat_run option) \<Rightarrow> bool" where
  "one_running R \<longleftrightarrow> (\<forall>j k r r'. R j = Some r \<longrightarrow> R k = Some r' \<longrightarrow> running r \<longrightarrow> running r' \<longrightarrow>
     run_conversation_id r = run_conversation_id r' \<longrightarrow> j = k)"

definition runs_ok :: "(string \<Rightarrow> chat_run option) \<Rightarrow> bool" where
  "runs_ok R \<longleftrightarrow> (\<forall>k r. R k = Some r \<longrightarrow> run_id r = k \<and> (running r \<or> is_terminal (run_status r))) \<and> one_running R"

definition one_open :: "(string \<Rightarrow> chat_question option) \<Rightarrow> bool" where
  "one_open Q \<longleftrightarrow> (\<forall>j k p q. Q j = Some p \<longrightarrow> Q k = Some q \<longrightarrow> open_question (q_conversation_id q) p \<longrightarrow>
     open_question (q_conversation_id q) q \<longrightarrow> j = k)"

definition answers :: "(string \<Rightarrow> chat_run option) \<Rightarrow> chat_question \<Rightarrow> bool" where
  "answers R q \<longleftrightarrow> (\<exists>r. R (q_answer_run_id q) = Some r \<and> running r \<and> run_conversation_id r = q_conversation_id q)"

definition questions_ok :: "(string \<Rightarrow> chat_run option) \<Rightarrow> (string \<Rightarrow> chat_question option) \<Rightarrow> bool" where
  "questions_ok R Q \<longleftrightarrow> (\<forall>k q. Q k = Some q \<longrightarrow> q_id q = k) \<and> one_open Q \<and>
     (\<forall>k q. Q k = Some q \<longrightarrow> q_status q = question_answering \<longrightarrow> answers R q)"

definition live_plan :: "chat_plan \<Rightarrow> bool" where
  "live_plan p \<longleftrightarrow> plan_usable p \<or> plan_status p = plan_executing"

definition versions_ok :: "(string \<Rightarrow> chat_plan option) \<Rightarrow> (string \<Rightarrow> int) \<Rightarrow> bool" where
  "versions_ok P V \<longleftrightarrow> (\<forall>k p. P k = Some p \<longrightarrow> plan_version p \<le> V (plan_conversation_id p) \<and>
       (live_plan p \<longrightarrow> plan_version p = V (plan_conversation_id p))) \<and>
     (\<forall>j k p q. P j = Some p \<longrightarrow> P k = Some q \<longrightarrow> plan_conversation_id p = plan_conversation_id q \<longrightarrow>
       plan_version p = plan_version q \<longrightarrow> j = k)"

definition executed_by :: "(string \<Rightarrow> chat_run option) \<Rightarrow> string \<Rightarrow> chat_plan \<Rightarrow> bool" where
  "executed_by R k p \<longleftrightarrow> (\<exists>j r. R j = Some r \<and> running r \<and> executes r \<and> run_plan_id r = k \<and>
     run_conversation_id r = plan_conversation_id p)"

definition plans_ok :: "(string \<Rightarrow> chat_run option) \<Rightarrow> (string \<Rightarrow> chat_plan option) \<Rightarrow> (string \<Rightarrow> int) \<Rightarrow> bool" where
  "plans_ok R P V \<longleftrightarrow> (\<forall>k p. P k = Some p \<longrightarrow> plan_id p = k \<and> k \<noteq> []) \<and> versions_ok P V \<and>
     (\<forall>k p. P k = Some p \<longrightarrow> plan_status p = plan_executing \<longrightarrow> executed_by R k p) \<and>
     (\<forall>j r. R j = Some r \<longrightarrow> running r \<longrightarrow> executes r \<longrightarrow>
        (\<exists>p. P (run_plan_id r) = Some p \<and> plan_status p = plan_executing \<and> plan_conversation_id p = run_conversation_id r))"

definition view_ok :: "chat_view \<Rightarrow> bool" where
  "view_ok v \<longleftrightarrow> runs_ok (v_runs v) \<and> questions_ok (v_runs v) (v_questions v) \<and>
     plans_ok (v_runs v) (v_plans v) (v_versions v)"

lemma view_okI:
  "\<lbrakk>runs_ok (v_runs v); questions_ok (v_runs v) (v_questions v); plans_ok (v_runs v) (v_plans v) (v_versions v)\<rbrakk> \<Longrightarrow> view_ok v"
  by (simp add: view_ok_def)

lemma view_okD:
  assumes "view_ok v"
  shows "runs_ok (v_runs v)" "questions_ok (v_runs v) (v_questions v)" "plans_ok (v_runs v) (v_plans v) (v_versions v)"
  using assms by (simp_all add: view_ok_def)

lemma runs_okD:
  assumes "runs_ok R"
  shows "R k = Some r \<Longrightarrow> run_id r = k"
    "\<lbrakk>R j = Some r; R k = Some r'; running r; running r'; run_conversation_id r = run_conversation_id r'\<rbrakk> \<Longrightarrow> j = k"
    "R k = Some r \<Longrightarrow> running r \<or> is_terminal (run_status r)"
  using assms unfolding runs_ok_def one_running_def by blast+

lemma terminal_not_running: "is_terminal s \<Longrightarrow> s \<noteq> status_running"
  by (auto simp: is_terminal_def)

lemma questions_okD:
  assumes "questions_ok R Q"
  shows "Q k = Some q \<Longrightarrow> q_id q = k"
    "\<lbrakk>Q j = Some p; Q k = Some q; open_question (q_conversation_id q) p; open_question (q_conversation_id q) q\<rbrakk> \<Longrightarrow> j = k"
    "\<lbrakk>Q k = Some q; q_status q = question_answering\<rbrakk> \<Longrightarrow> answers R q"
  using assms unfolding questions_ok_def one_open_def by blast+

lemma plans_okD:
  assumes "plans_ok R P V"
  shows "P k = Some p \<Longrightarrow> plan_id p = k" "P k = Some p \<Longrightarrow> k \<noteq> []"
    "P k = Some p \<Longrightarrow> plan_version p \<le> V (plan_conversation_id p)"
    "\<lbrakk>P k = Some p; live_plan p\<rbrakk> \<Longrightarrow> plan_version p = V (plan_conversation_id p)"
    "\<lbrakk>P j = Some p; P k = Some q; plan_conversation_id p = plan_conversation_id q; plan_version p = plan_version q\<rbrakk> \<Longrightarrow> j = k"
    "\<lbrakk>P k = Some p; plan_status p = plan_executing\<rbrakk> \<Longrightarrow> executed_by R k p"
    "\<lbrakk>R j = Some r; running r; executes r\<rbrakk> \<Longrightarrow> \<exists>p. P (run_plan_id r) = Some p \<and>
       plan_status p = plan_executing \<and> plan_conversation_id p = run_conversation_id r"
  using assms unfolding plans_ok_def versions_ok_def by blast+

section \<open>Each part of the invariant under each kind of update\<close>

subsection \<open>Runs\<close>

lemma runs_ok_admit:
  assumes "runs_ok R" "\<And>k r'. R k = Some r' \<Longrightarrow> run_conversation_id r' = run_conversation_id r \<Longrightarrow> \<not> running r'"
    "running r"
  shows "runs_ok (R(run_id r \<mapsto> r))"
  using assms unfolding runs_ok_def one_running_def by (auto; metis)

lemma runs_ok_update:
  assumes "runs_ok R" "R k = Some r" "run_id r' = run_id r" "run_conversation_id r' = run_conversation_id r"
    "running r' \<Longrightarrow> running r" "running r' \<or> is_terminal (run_status r')"
  shows "runs_ok (R(k \<mapsto> r'))"
  unfolding runs_ok_def one_running_def
proof (intro conjI allI impI)
  fix j x assume "(R(k \<mapsto> r')) j = Some x"
  then show "run_id x = j" "running x \<or> is_terminal (run_status x)"
    using assms runs_okD(1,3)[OF assms(1)] by (auto split: if_splits)
next
  fix j l x y assume "(R(k \<mapsto> r')) j = Some x" "(R(k \<mapsto> r')) l = Some y" "running x" "running y"
    "run_conversation_id x = run_conversation_id y"
  then show "j = l" using assms(2-) runs_okD(2)[OF assms(1)] by (auto split: if_splits; metis)
qed

subsection \<open>Questions\<close>

lemma answers_upd: "answers R q \<Longrightarrow> R k = None \<Longrightarrow> answers (R(k \<mapsto> r)) q"
  by (auto simp: answers_def)

lemma questions_ok_new_run: "questions_ok R Q \<Longrightarrow> R k = None \<Longrightarrow> questions_ok (R(k \<mapsto> r)) Q"
  using answers_upd unfolding questions_ok_def by blast

lemma questions_ok_update_run:
  assumes "questions_ok R Q" "R k = Some r" "run_conversation_id r' = run_conversation_id r"
    "running r' \<or> (\<forall>j q. Q j = Some q \<longrightarrow> \<not> being_answered_by k q)"
  shows "questions_ok (R(k \<mapsto> r')) Q"
proof -
  have "answers (R(k \<mapsto> r')) q" if q: "Q j = Some q" "q_status q = question_answering" for j q
    using questions_okD(3)[OF assms(1) q] assms(2-) q
    by (auto simp: answers_def being_answered_by_def)
  with assms(1) show ?thesis unfolding questions_ok_def by blast
qed

text \<open>A question may change if it stays itself, opens only if it was open, and is answered by a running run.\<close>

lemma questions_ok_update:
  assumes "questions_ok R Q" "\<And>k q. Q' k = Some q \<Longrightarrow> \<exists>p. Q k = Some p \<and> q_id q = q_id p \<and>
      q_conversation_id q = q_conversation_id p \<and> (open_question (q_conversation_id q) q \<longrightarrow> open_question (q_conversation_id p) p) \<and>
      (q_status q = question_answering \<longrightarrow> answers R q)"
  shows "questions_ok R Q'"
  unfolding questions_ok_def one_open_def
proof (intro conjI allI impI)
  fix k q assume "Q' k = Some q" then show "q_id q = k"
    using assms(2)[of k q] questions_okD(1)[OF assms(1), of k] by auto
next
  fix j k p q assume a: "Q' j = Some p" "Q' k = Some q"
    and o: "open_question (q_conversation_id q) p" "open_question (q_conversation_id q) q"
  obtain p0 where p0: "Q j = Some p0" "q_conversation_id p = q_conversation_id p0"
    "open_question (q_conversation_id p) p \<longrightarrow> open_question (q_conversation_id p0) p0"
    using assms(2)[OF a(1)] by blast
  obtain q0 where q0: "Q k = Some q0" "q_conversation_id q = q_conversation_id q0"
    "open_question (q_conversation_id q) q \<longrightarrow> open_question (q_conversation_id q0) q0"
    using assms(2)[OF a(2)] by blast
  have same: "q_conversation_id p = q_conversation_id q" using o(1) by (simp add: open_question_def)
  show "j = k"
  proof (rule questions_okD(2)[OF assms(1) p0(1) q0(1)])
    show "open_question (q_conversation_id q0) p0" "open_question (q_conversation_id q0) q0"
      using o p0(2,3) q0(2,3) same by simp_all
  qed
next
  fix k q assume "Q' k = Some q" "q_status q = question_answering" then show "answers R q"
    using assms(2)[of k q] by auto
qed

lemma questions_ok_new:
  assumes "questions_ok R Q" "\<And>k p. Q k = Some p \<Longrightarrow> \<not> open_question (q_conversation_id q) p" "q_status q = question_pending"
  shows "questions_ok R (Q(q_id q \<mapsto> q))"
  unfolding questions_ok_def one_open_def
proof (intro conjI allI impI)
  fix j k x y assume a: "(Q(q_id q \<mapsto> q)) j = Some x" "(Q(q_id q \<mapsto> q)) k = Some y"
    and o: "open_question (q_conversation_id y) x" "open_question (q_conversation_id y) y"
  have same: "q_conversation_id x = q_conversation_id y" using o(1) by (simp add: open_question_def)
  show "j = k"
  proof (cases "j = q_id q")
    case True
    then have "x = q" using a(1) by simp
    with a(2) o(2) same assms(2)[of k y] True show ?thesis by (cases "k = q_id q") auto
  next
    case False
    then have j: "Q j = Some x" using a(1) by simp
    then have "k \<noteq> q_id q" using a(2) o(1) assms(2)[OF j] by auto
    then have "Q k = Some y" using a(2) by simp
    from questions_okD(2)[OF assms(1) j this o] show ?thesis .
  qed
next
  fix k x assume x: "(Q(q_id q \<mapsto> q)) k = Some x"
  then show "q_id x = k" using questions_okD(1)[OF assms(1), of k x] by (cases "k = q_id q") auto
  show "answers R x" if "q_status x = question_answering"
    using that x assms(3) questions_okD(3)[OF assms(1), of k x] by (cases "k = q_id q") auto
qed

lemma settle_question_fields [simp]:
  "q_id (settle_question a now q) = q_id q" "q_conversation_id (settle_question a now q) = q_conversation_id q"
  "q_status (settle_question a now q) = (if a then question_answered else question_pending)"
  by (simp_all add: settle_question_def)

lemma settle_question_open:
  "open_question cid (settle_question a now q) \<Longrightarrow> q_status q = question_answering \<Longrightarrow> open_question cid q"
  by (simp add: open_question_def)

lemma map_entries_Some:
  "map_entries P f g k = Some y \<longleftrightarrow> (\<exists>x. g k = Some x \<and> y = (if P x then f x else x))"
  unfolding map_entries_def map_option_eq_Some by blast

lemma questions_ok_settle:
  assumes "questions_ok R Q"
  shows "questions_ok R (map_entries (being_answered_by rid) (settle_question a now) Q)"
proof (rule questions_ok_update[OF assms])
  fix k q assume "map_entries (being_answered_by rid) (settle_question a now) Q k = Some q"
  then obtain p where p: "Q k = Some p" "q = (if being_answered_by rid p then settle_question a now p else p)"
    unfolding map_entries_Some by blast
  then show "\<exists>p. Q k = Some p \<and> q_id q = q_id p \<and> q_conversation_id q = q_conversation_id p \<and>
      (open_question (q_conversation_id q) q \<longrightarrow> open_question (q_conversation_id p) p) \<and>
      (q_status q = question_answering \<longrightarrow> answers R q)"
  proof (cases "being_answered_by rid p")
    case True
    with p show ?thesis by (simp add: being_answered_by_def open_question_def)
  next
    case False
    with p questions_okD(3)[OF assms p(1)] show ?thesis by simp
  qed
qed

subsection \<open>Plans\<close>

lemma executed_by_upd: "executed_by R k p \<Longrightarrow> R j = None \<Longrightarrow> executed_by (R(j \<mapsto> r)) k p"
  unfolding executed_by_def by (metis fun_upd_other option.distinct(1))

lemma plans_ok_new_run:
  assumes "plans_ok R P V" "R k = None" "\<not> executes r"
  shows "plans_ok (R(k \<mapsto> r)) P V"
proof -
  have "\<exists>p. P (run_plan_id r') = Some p \<and> plan_status p = plan_executing \<and> plan_conversation_id p = run_conversation_id r'"
    if "(R(k \<mapsto> r)) j = Some r'" "running r'" "executes r'" for j r'
  proof -
    from that assms(3) have "R j = Some r'" by (auto split: if_splits)
    then show ?thesis using plans_okD(7)[OF assms(1)] that by blast
  qed
  moreover have "executed_by (R(k \<mapsto> r)) i p" if "executed_by R i p" for i p
    by (rule executed_by_upd[OF that assms(2)])
  ultimately show ?thesis using assms(1) unfolding plans_ok_def by blast
qed

lemma plans_ok_update_run:
  assumes "plans_ok R P V" "R k = Some r" "same_run r r'" "running r' \<longrightarrow> running r"
    "running r' \<or> \<not> executes r" "running r' \<longrightarrow> run_plan_id r' = run_plan_id r"
  shows "plans_ok (R(k \<mapsto> r')) P V"
proof -
  have same: "run_conversation_id r' = run_conversation_id r" "run_interaction_mode r' = run_interaction_mode r"
    using assms(3) by (simp_all add: same_run_def)
  have "executed_by (R(k \<mapsto> r')) i p" if p: "executed_by R i p" for i p
  proof -
    from p obtain j x where x: "R j = Some x" "running x" "executes x" "run_plan_id x = i"
      "run_conversation_id x = plan_conversation_id p" by (auto simp: executed_by_def)
    show ?thesis
    proof (cases "j = k")
      case True
      with x assms(2) have "x = r" by simp
      with x assms(5,6) same show ?thesis
        unfolding executed_by_def by (intro exI[of _ k] exI[of _ r']) (auto simp: executes_def)
    next
      case False
      with x show ?thesis unfolding executed_by_def by (intro exI[of _ j] exI[of _ x]) simp
    qed
  qed
  moreover have "\<exists>p. P (run_plan_id x) = Some p \<and> plan_status p = plan_executing \<and> plan_conversation_id p = run_conversation_id x"
    if x: "(R(k \<mapsto> r')) j = Some x" "running x" "executes x" for j x
  proof (cases "j = k")
    case True
    with x have "x = r'" by simp
    with x assms(4,6) same have "running r" "executes r" by (auto simp: executes_def)
    with plans_okD(7)[OF assms(1,2)] \<open>x = r'\<close> x assms(6) same show ?thesis by simp
  next
    case False
    with x plans_okD(7)[OF assms(1)] show ?thesis by simp
  qed
  ultimately show ?thesis using assms(1) unfolding plans_ok_def by blast
qed

text \<open>Plans of the same conversation and version, not more alive than before.\<close>

lemma versions_ok_update:
  assumes "versions_ok P V" "\<And>k p. P' k = Some p \<Longrightarrow> \<exists>q. P k = Some q \<and> plan_conversation_id p = plan_conversation_id q \<and>
      plan_version p = plan_version q \<and> (live_plan p \<longrightarrow> live_plan q)"
  shows "versions_ok P' V"
  unfolding versions_ok_def
proof (intro conjI allI impI)
  fix k p assume "P' k = Some p"
  from assms(2)[OF this] obtain q where q: "P k = Some q" "plan_conversation_id p = plan_conversation_id q"
      "plan_version p = plan_version q" "live_plan p \<longrightarrow> live_plan q" by blast
  then show "plan_version p \<le> V (plan_conversation_id p)"
    using assms(1) unfolding versions_ok_def by metis
  show "plan_version p = V (plan_conversation_id p)" if "live_plan p"
    using assms(1) q that unfolding versions_ok_def by metis
next
  fix j k p q assume a: "P' j = Some p" "P' k = Some q" "plan_conversation_id p = plan_conversation_id q"
    "plan_version p = plan_version q"
  from assms(2)[OF a(1)] assms(2)[OF a(2)] a(3,4) show "j = k"
    using assms(1) unfolding versions_ok_def by metis
qed

text \<open>A usable plan starts to run, is cancelled, or is executed to its end.\<close>

lemma live_plan_simps [simp]:
  "live_plan (p\<lparr>plan_status := s, plan_updated_at := t\<rparr>) \<longleftrightarrow> s = plan_ready \<or> s = plan_stopped \<or> s = plan_executing"
  "plan_status (approve_plan u t p) = plan_executing" "plan_version (approve_plan u t p) = plan_version p"
  "plan_conversation_id (approve_plan u t p) = plan_conversation_id p" "plan_id (approve_plan u t p) = plan_id p"
  by (auto simp: live_plan_def plan_usable_def approve_plan_def Let_def)

lemma plans_ok_execute:
  assumes ok: "plans_ok R P V" and p: "P k = Some p" "plan_usable p" and r: "R (run_id r) = None" "running r"
      "run_plan_id r = k" "run_conversation_id r = plan_conversation_id p" "run_interaction_mode r = mode_execute"
    and idle: "\<And>j x. R j = Some x \<Longrightarrow> run_conversation_id x = plan_conversation_id p \<Longrightarrow> \<not> running x"
  shows "plans_ok (R(run_id r \<mapsto> r)) (P(k \<mapsto> approve_plan user now p)) V"
proof -
  let ?p = "approve_plan user now p" and ?R = "R(run_id r \<mapsto> r)"
  have "executes r" using r plans_okD(2)[OF ok p(1)] by (simp add: executes_def)
  then have run: "executed_by ?R k ?p"
    using r unfolding executed_by_def by (intro exI[of _ "run_id r"] exI[of _ r]) simp
  have "versions_ok (P(k \<mapsto> ?p)) V"
  proof (rule versions_ok_update)
    show "versions_ok P V" using ok by (simp add: plans_ok_def)
    fix j x assume "(P(k \<mapsto> ?p)) j = Some x"
    then show "\<exists>q. P j = Some q \<and> plan_conversation_id x = plan_conversation_id q \<and>
        plan_version x = plan_version q \<and> (live_plan x \<longrightarrow> live_plan q)"
      using p by (cases "j = k") (auto simp: live_plan_def)
  qed
  moreover have "\<exists>q. (P(k \<mapsto> ?p)) (run_plan_id x) = Some q \<and> plan_status q = plan_executing \<and>
      plan_conversation_id q = run_conversation_id x" if x: "?R j = Some x" "running x" "executes x" for j x
  proof (cases "j = run_id r")
    case True
    with x r show ?thesis by simp
  next
    case False
    with x have x': "R j = Some x" by simp
    from plans_okD(7)[OF ok x' x(2,3)] obtain q where q: "P (run_plan_id x) = Some q" "plan_status q = plan_executing"
      "plan_conversation_id q = run_conversation_id x" by blast
    with idle[OF x'] x(2) p(1) have "run_plan_id x \<noteq> k" by auto
    with q show ?thesis by simp
  qed
  moreover have "executed_by ?R j x" if x: "(P(k \<mapsto> ?p)) j = Some x" "plan_status x = plan_executing" for j x
    using run executed_by_upd[OF plans_okD(6)[OF ok _ x(2)] r(1)] x by (cases "j = k") auto
  moreover have "plan_id x = j \<and> j \<noteq> []" if "(P(k \<mapsto> ?p)) j = Some x" for j x
    using that plans_okD(1,2)[OF ok] p(1) by (cases "j = k") auto
  ultimately show ?thesis unfolding plans_ok_def by blast
qed

lemma plans_ok_cancel:
  assumes ok: "plans_ok R P V" and p: "P k = Some p" "plan_usable p"
  shows "plans_ok R (P(k \<mapsto> p\<lparr>plan_status := plan_cancelled, plan_updated_at := now\<rparr>)) V"
proof -
  let ?p = "p\<lparr>plan_status := plan_cancelled, plan_updated_at := now\<rparr>"
  have "versions_ok (P(k \<mapsto> ?p)) V"
  proof (rule versions_ok_update)
    show "versions_ok P V" using ok by (simp add: plans_ok_def)
    fix j x assume "(P(k \<mapsto> ?p)) j = Some x"
    then show "\<exists>q. P j = Some q \<and> plan_conversation_id x = plan_conversation_id q \<and>
        plan_version x = plan_version q \<and> (live_plan x \<longrightarrow> live_plan q)"
      using p by (cases "j = k") (auto simp: live_plan_def)
  qed
  moreover have "\<exists>q. (P(k \<mapsto> ?p)) (run_plan_id x) = Some q \<and> plan_status q = plan_executing \<and>
      plan_conversation_id q = run_conversation_id x" if x: "R j = Some x" "running x" "executes x" for j x
  proof -
    from plans_okD(7)[OF ok x] p have "run_plan_id x \<noteq> k" by (auto simp: plan_usable_def)
    with plans_okD(7)[OF ok x] show ?thesis by simp
  qed
  moreover have "executed_by R j x" if x: "(P(k \<mapsto> ?p)) j = Some x" "plan_status x = plan_executing" for j x
    using plans_okD(6)[OF ok _ x(2)] x by (cases "j = k") auto
  moreover have "plan_id x = j \<and> j \<noteq> []" if "(P(k \<mapsto> ?p)) j = Some x" for j x
    using that plans_okD(1,2)[OF ok] p(1) by (cases "j = k") auto
  ultimately show ?thesis unfolding plans_ok_def by blast
qed

lemma plans_ok_finish:
  assumes ok: "plans_ok R P V" and one: "runs_ok R" and r: "R k = Some r" "running r" "executes r" "\<not> running r'"
    and p: "P (run_plan_id r) = Some p"
  shows "plans_ok (R(k \<mapsto> r')) (P(run_plan_id r \<mapsto> p\<lparr>plan_status := executed_status s, plan_updated_at := now\<rparr>)) V"
proof -
  let ?p = "p\<lparr>plan_status := executed_status s, plan_updated_at := now\<rparr>" and ?k = "run_plan_id r"
  from plans_okD(7)[OF ok r(1-3)] p have exec: "plan_status p = plan_executing"
    "plan_conversation_id p = run_conversation_id r" by auto
  have ended: "plan_status ?p \<noteq> plan_executing" by (simp add: executed_status_def)
  have "versions_ok (P(?k \<mapsto> ?p)) V"
  proof (rule versions_ok_update)
    show "versions_ok P V" using ok by (simp add: plans_ok_def)
    fix j x assume "(P(?k \<mapsto> ?p)) j = Some x"
    then show "\<exists>q. P j = Some q \<and> plan_conversation_id x = plan_conversation_id q \<and>
        plan_version x = plan_version q \<and> (live_plan x \<longrightarrow> live_plan q)"
      using p exec by (cases "j = ?k") (auto simp: live_plan_def)
  qed
  moreover have "\<exists>q. (P(?k \<mapsto> ?p)) (run_plan_id x) = Some q \<and> plan_status q = plan_executing \<and>
      plan_conversation_id q = run_conversation_id x" if x: "(R(k \<mapsto> r')) j = Some x" "running x" "executes x" for j x
  proof -
    have j: "j \<noteq> k" "R j = Some x" using x r(4) by (auto split: if_splits)
    from plans_okD(7)[OF ok j(2) x(2,3)] obtain q where q: "P (run_plan_id x) = Some q" "plan_status q = plan_executing"
      "plan_conversation_id q = run_conversation_id x" by blast
    have "run_plan_id x \<noteq> ?k"
      using runs_okD(2)[OF one j(2) r(1) x(2) r(2)] j(1) q p exec(2) by auto
    with q show ?thesis by simp
  qed
  moreover have "executed_by (R(k \<mapsto> r')) j x" if x: "(P(?k \<mapsto> ?p)) j = Some x" "plan_status x = plan_executing" for j x
  proof -
    have j: "j \<noteq> ?k" "P j = Some x" using x ended by (auto split: if_splits)
    from plans_okD(6)[OF ok j(2) x(2)] obtain i y where y: "R i = Some y" "running y" "executes y"
      "run_plan_id y = j" "run_conversation_id y = plan_conversation_id x" by (auto simp: executed_by_def)
    with j(1) r(1) have "i \<noteq> k" by auto
    with y show ?thesis unfolding executed_by_def by (intro exI[of _ i] exI[of _ y]) simp
  qed
  moreover have "plan_id x = j \<and> j \<noteq> []" if "(P(?k \<mapsto> ?p)) j = Some x" for j x
    using that plans_okD(1,2)[OF ok] p by (cases "j = ?k") auto
  ultimately show ?thesis unfolding plans_ok_def by blast
qed

lemma supersede_all_Some:
  assumes "supersede_all cid now P k = Some x"
  obtains p where "P k = Some p" "plan_id x = plan_id p" "plan_conversation_id x = plan_conversation_id p"
    "plan_version x = plan_version p" "live_plan x \<Longrightarrow> plan_conversation_id p = cid \<Longrightarrow> plan_status p = plan_executing"
    "live_plan x \<Longrightarrow> live_plan p" "plan_status x = plan_executing \<longleftrightarrow> plan_status p = plan_executing"
proof -
  from assms obtain p where p: "P k = Some p" "x = (if plan_conversation_id p = cid \<and> plan_usable p
      then p\<lparr>plan_status := plan_superseded, plan_updated_at := now\<rparr> else p)"
    unfolding supersede_all_def map_entries_Some by blast
  show thesis
    by (cases "plan_conversation_id p = cid \<and> plan_usable p")
      (use p in \<open>auto intro!: that[of p] simp: live_plan_def plan_usable_def\<close>)
qed

lemma plans_ok_adopt:
  assumes ok: "plans_ok R P V" and new: "P k = None" "k \<noteq> []" and src: "run_conversation_id src = cid" "pc_id c = k"
    and idle: "\<And>j p. P j = Some p \<Longrightarrow> plan_conversation_id p = cid \<Longrightarrow> plan_status p \<noteq> plan_executing"
  shows "plans_ok R ((supersede_all cid now P)(k \<mapsto> new_plan c src (V cid + 1) now)) (V(cid := V cid + 1))"
proof -
  let ?n = "new_plan c src (V cid + 1) now"
  let ?P = "(supersede_all cid now P)(k \<mapsto> ?n)" and ?V = "V(cid := V cid + 1)"
  have n: "plan_id ?n = k" "plan_conversation_id ?n = cid" "plan_version ?n = V cid + 1" "plan_status ?n = plan_ready"
    using src by (simp_all add: new_plan_def)
  have old: "\<exists>q. P j = Some q \<and> plan_id x = j \<and> j \<noteq> [] \<and> plan_conversation_id x = plan_conversation_id q \<and>
      plan_version x = plan_version q \<and> plan_version x \<le> V (plan_conversation_id x) \<and>
      (live_plan x \<longrightarrow> plan_conversation_id x \<noteq> cid \<and> plan_version x = V (plan_conversation_id x)) \<and>
      (plan_status x = plan_executing \<longrightarrow> plan_status q = plan_executing)"
    if "?P j = Some x" "j \<noteq> k" for j x
  proof -
    from that have "supersede_all cid now P j = Some x" by simp
    then obtain p where p: "P j = Some p" "plan_id x = plan_id p" "plan_conversation_id x = plan_conversation_id p"
      "plan_version x = plan_version p" "live_plan x \<Longrightarrow> plan_conversation_id p = cid \<Longrightarrow> plan_status p = plan_executing"
      "live_plan x \<Longrightarrow> live_plan p" "plan_status x = plan_executing \<longleftrightarrow> plan_status p = plan_executing"
      by (rule supersede_all_Some) blast
    show ?thesis
      using p plans_okD(1-4)[OF ok p(1)] idle[OF p(1)] by (intro exI[of _ p]) auto
  qed
  have "versions_ok ?P ?V"
    unfolding versions_ok_def
  proof (intro conjI allI impI)
    fix j x assume x: "?P j = Some x"
    show "plan_version x \<le> ?V (plan_conversation_id x)"
      using x n old[OF x] by (cases "j = k") (auto split: if_splits)
    show "plan_version x = ?V (plan_conversation_id x)" if "live_plan x"
      using x n old[OF x] that by (cases "j = k") (auto split: if_splits)
  next
    fix i j x y assume x: "?P i = Some x" "?P j = Some y" and same: "plan_conversation_id x = plan_conversation_id y"
      "plan_version x = plan_version y"
    show "i = j"
    proof (cases "i = k \<or> j = k")
      case True
      then show ?thesis using x n same old[OF x(1)] old[OF x(2)] by (cases "i = k"; cases "j = k") auto
    next
      case False
      then obtain p q where "P i = Some p" "plan_conversation_id x = plan_conversation_id p" "plan_version x = plan_version p"
        "P j = Some q" "plan_conversation_id y = plan_conversation_id q" "plan_version y = plan_version q"
        using old[OF x(1)] old[OF x(2)] by blast
      then show ?thesis using plans_okD(5)[OF ok, of i p j q] same by simp
    qed
  qed
  moreover have "\<exists>q. ?P (run_plan_id x) = Some q \<and> plan_status q = plan_executing \<and>
      plan_conversation_id q = run_conversation_id x" if x: "R j = Some x" "running x" "executes x" for j x
  proof -
    from plans_okD(7)[OF ok x] obtain q where q: "P (run_plan_id x) = Some q" "plan_status q = plan_executing"
      "plan_conversation_id q = run_conversation_id x" by blast
    then have "supersede_all cid now P (run_plan_id x) = Some q"
      by (simp add: supersede_all_def map_entries_def plan_usable_def)
    with q new show ?thesis by auto
  qed
  moreover have "executed_by R j x" if x: "?P j = Some x" "plan_status x = plan_executing" for j x
  proof -
    have j: "j \<noteq> k" using x n by auto
    from old[OF x(1) j] x(2) obtain q where q: "P j = Some q" "plan_status q = plan_executing"
      "plan_conversation_id x = plan_conversation_id q" by blast
    from plans_okD(6)[OF ok q(1,2)] q(3) show ?thesis by (simp add: executed_by_def)
  qed
  moreover have "plan_id x = j \<and> j \<noteq> []" if x: "?P j = Some x" for j x
    using x n new old[OF x] by (cases "j = k") auto
  ultimately show ?thesis unfolding plans_ok_def by blast
qed

section \<open>Every move keeps the invariant\<close>

lemma idleD: "idle cid v \<Longrightarrow> v_runs v k = Some r \<Longrightarrow> run_conversation_id r = cid \<Longrightarrow> \<not> running r"
  unfolding idle_def by blast

lemma no_openD: "no_open cid v \<Longrightarrow> v_questions v k = Some q \<Longrightarrow> \<not> open_question cid q"
  unfolding no_open_def by blast

lemma same_run_draft: "same_run r (r\<lparr>run_last_activity_at := t\<rparr>)"
  by (simp add: same_run_def)

lemma questions_ok_single:
  assumes "questions_ok R Q" "Q k = Some p" "q_id q = q_id p" "q_conversation_id q = q_conversation_id p"
    "open_question (q_conversation_id q) q \<longrightarrow> open_question (q_conversation_id p) p"
    "q_status q = question_answering \<longrightarrow> answers R q"
  shows "questions_ok R (Q(k \<mapsto> q))"
proof (rule questions_ok_update[OF assms(1)])
  fix j x assume x: "(Q(k \<mapsto> q)) j = Some x"
  show "\<exists>p. Q j = Some p \<and> q_id x = q_id p \<and> q_conversation_id x = q_conversation_id p \<and>
      (open_question (q_conversation_id x) x \<longrightarrow> open_question (q_conversation_id p) p) \<and>
      (q_status x = question_answering \<longrightarrow> answers R x)"
  proof (cases "j = k")
    case True
    with x assms(2-) show ?thesis by (intro exI[of _ p]) simp
  next
    case False
    with x have "Q j = Some x" by simp
    with questions_okD(3)[OF assms(1) this] show ?thesis by (intro exI[of _ x]) simp
  qed
qed

theorem chat_move_ok:
  assumes "chat_move v w" "view_ok v"
  shows "view_ok w"
  using assms
proof (induction rule: chat_move.induct)
  case (admit v r)
  note ok = view_okD[OF admit.prems]
  show ?case
    using admit.hyps idleD[OF admit.hyps(4)]
    by (intro view_okI; simp) (blast intro: runs_ok_admit questions_ok_new_run plans_ok_new_run ok)+
next
  case (draft v k r t)
  note ok = view_okD[OF draft.prems]
  let ?r = "r\<lparr>run_last_activity_at := t\<rparr>"
  have "runs_ok ((v_runs v)(k \<mapsto> ?r))" by (rule runs_ok_update[OF ok(1) draft.hyps(1)]) (simp_all add: draft.hyps)
  moreover have "questions_ok ((v_runs v)(k \<mapsto> ?r)) (v_questions v)"
    by (rule questions_ok_update_run[OF ok(2) draft.hyps(1)]) (simp_all add: draft.hyps)
  moreover have "plans_ok ((v_runs v)(k \<mapsto> ?r)) (v_plans v) (v_versions v)"
    by (rule plans_ok_update_run[OF ok(3) draft.hyps(1) same_run_draft]) (simp_all add: draft.hyps)
  ultimately show ?case by (intro view_okI) simp_all
next
  case (answer v k q r i now)
  note ok = view_okD[OF answer.prems]
  let ?R = "(v_runs v)(run_id r \<mapsto> r)" and ?q = "answering_question i now (run_id r) q"
  have q: "q_id ?q = q_id q" "q_conversation_id ?q = q_conversation_id q" "q_answer_run_id ?q = run_id r"
    by (simp_all add: answering_question_def)
  have "runs_ok ?R" using answer.hyps idleD[OF answer.hyps(7)] by (intro runs_ok_admit[OF ok(1)]) auto
  moreover have "questions_ok ?R ((v_questions v)(k \<mapsto> ?q))"
    using answer.hyps q
    by (intro questions_ok_single[OF questions_ok_new_run[OF ok(2)] answer.hyps(1)])
      (simp_all add: open_question_def answers_def)
  moreover have "plans_ok ?R (v_plans v) (v_versions v)"
    by (rule plans_ok_new_run[OF ok(3) answer.hyps(3,5)])
  ultimately show ?case by (intro view_okI) simp_all
next
  case (execute v k p r user now)
  note ok = view_okD[OF execute.prems]
  let ?R = "(v_runs v)(run_id r \<mapsto> r)"
  note idle = idleD[OF execute.hyps(9)]
  have "runs_ok ?R" using execute.hyps idle by (intro runs_ok_admit[OF ok(1)]) auto
  moreover have "questions_ok ?R (v_questions v)" by (rule questions_ok_new_run[OF ok(2) execute.hyps(4)])
  moreover have "plans_ok ?R ((v_plans v)(k \<mapsto> approve_plan user now p)) (v_versions v)"
    by (rule plans_ok_execute[OF ok(3) execute.hyps(1,2,4,5,6,7,8)]) (rule idle)
  ultimately show ?case by (intro view_okI) simp_all
next
  case (settle v rid r accepted now)
  then show ?case by (simp add: view_ok_def settle_all_def questions_ok_settle)
next
  case (accept v k q now)
  note ok = view_okD[OF accept.prems]
  have "questions_ok (v_runs v) ((v_questions v)(k \<mapsto> settle_question True now q))"
    using accept.hyps by (intro questions_ok_single[OF ok(2) accept.hyps(1)]) (simp_all add: open_question_def)
  with ok show ?case by (intro view_okI) simp_all
next
  case (cancel_question v k q now)
  note ok = view_okD[OF cancel_question.prems]
  have "questions_ok (v_runs v) ((v_questions v)(k \<mapsto> q\<lparr>q_status := question_cancelled, q_updated_at := now\<rparr>))"
    by (rule questions_ok_single[OF ok(2) cancel_question.hyps(1)]) (simp_all add: open_question_def)
  with ok show ?case by (intro view_okI) simp_all
next
  case (cancel_plan v k p now)
  note ok = view_okD[OF cancel_plan.prems]
  with plans_ok_cancel[OF ok(3) cancel_plan.hyps] show ?case by (intro view_okI) simp_all
next
  case (adopt_plan v rid r c cid src now)
  note ok = view_okD[OF adopt_plan.prems]
  have "plan_status p \<noteq> plan_executing" if p: "v_plans v j = Some p" "plan_conversation_id p = cid" for j p
  proof
    assume "plan_status p = plan_executing"
    from plans_okD(6)[OF ok(3) p(1) this] obtain i x where x: "v_runs v i = Some x" "running x" "executes x"
      "run_conversation_id x = plan_conversation_id p" by (auto simp: executed_by_def)
    with runs_okD(2)[OF ok(1) x(1) adopt_plan.hyps(1) x(2) adopt_plan.hyps(2)] p(2) adopt_plan.hyps
    have "x = r" by simp
    with x(3) adopt_plan.hyps(3) show False by (simp add: executes_def)
  qed
  then have "plans_ok (v_runs v) ((supersede_all cid now (v_plans v))(pc_id c \<mapsto> new_plan c src (v_versions v cid + 1) now))
      ((v_versions v)(cid := v_versions v cid + 1))"
    using adopt_plan.hyps by (intro plans_ok_adopt[OF ok(3)]) auto
  with ok show ?case by (intro view_okI) simp_all
next
  case (adopt_question v rid r c src version now)
  note ok = view_okD[OF adopt_question.prems]
  let ?q = "new_question c src version now"
  have "q_id ?q = qc_id c" "q_conversation_id ?q = run_conversation_id r" "q_status ?q = question_pending"
    using adopt_question.hyps by (simp_all add: new_question_def)
  then have "questions_ok (v_runs v) ((v_questions v)(qc_id c \<mapsto> ?q))"
    using questions_ok_new[OF ok(2), of ?q] no_openD[OF adopt_question.hyps(4)] by simp
  with ok show ?case by (intro view_okI) simp_all
next
  case (finish v k r r')
  note ok = view_okD[OF finish.prems]
  note over = terminal_not_running[OF finish.hyps(4)]
  have "runs_ok ((v_runs v)(k \<mapsto> r'))"
    using finish.hyps over by (intro runs_ok_update[OF ok(1) finish.hyps(1)]) (simp_all add: same_run_def)
  moreover have "questions_ok ((v_runs v)(k \<mapsto> r')) (v_questions v)"
    using finish.hyps over by (intro questions_ok_update_run[OF ok(2) finish.hyps(1)]) (auto simp: same_run_def)
  moreover have "plans_ok ((v_runs v)(k \<mapsto> r')) (v_plans v) (v_versions v)"
    using finish.hyps over by (intro plans_ok_update_run[OF ok(3) finish.hyps(1,3)]) simp_all
  ultimately show ?case by (intro view_okI) simp_all
next
  case (finish_plan v k r r' p s now)
  note ok = view_okD[OF finish_plan.prems]
  note over = terminal_not_running[OF finish_plan.hyps(4)]
  have "runs_ok ((v_runs v)(k \<mapsto> r'))"
    using finish_plan.hyps over by (intro runs_ok_update[OF ok(1) finish_plan.hyps(1)]) (simp_all add: same_run_def)
  moreover have "questions_ok ((v_runs v)(k \<mapsto> r')) (v_questions v)"
    using finish_plan.hyps by (intro questions_ok_update_run[OF ok(2) finish_plan.hyps(1)]) (auto simp: same_run_def)
  moreover note plans_ok_finish[OF ok(3,1) finish_plan.hyps(1,2,5) over finish_plan.hyps(7)]
  ultimately show ?case by (intro view_okI) simp_all
qed

lemma chat_moves_ok: "chat_move\<^sup>*\<^sup>* v w \<Longrightarrow> view_ok v \<Longrightarrow> view_ok w"
  by (induction rule: rtranclp_induct) (auto intro: chat_move_ok)

section \<open>The life of an entry\<close>

text \<open>
  The contract of a store whose entries are never removed and only move along an edge relation; runs,
  plans and questions are three instances.
\<close>

locale lifecycle =
  fixes step :: "'s \<Rightarrow> 's \<Rightarrow> bool" and entry :: "'s \<Rightarrow> 'k \<Rightarrow> 'e option" and edge :: "'e \<Rightarrow> 'e \<Rightarrow> bool"
  assumes step_edge: "step s t \<Longrightarrow> entry s k = Some e \<Longrightarrow> \<exists>e'. entry t k = Some e' \<and> (e' = e \<or> edge e e')"
begin

lemma steps_edges:
  assumes "step\<^sup>*\<^sup>* s t" "entry s k = Some e"
  shows "\<exists>e'. entry t k = Some e' \<and> edge\<^sup>*\<^sup>* e e'"
  using assms
proof (induction rule: rtranclp_induct)
  case (step t u)
  then obtain e' where e': "entry t k = Some e'" "edge\<^sup>*\<^sup>* e e'" by blast
  from step_edge[OF step.hyps(2) e'(1)] e'(2) show ?case by (auto intro: rtranclp.rtrancl_into_rtrancl)
qed auto

lemma frozen:
  assumes "step\<^sup>*\<^sup>* s t" "entry s k = Some e" "\<And>e'. \<not> edge e e'"
  shows "entry t k = Some e"
  using steps_edges[OF assms(1,2)] assms(3) by (metis converse_rtranclpE)

lemma kept:
  assumes "step\<^sup>*\<^sup>* s t" "entry s k = Some e" "\<And>a b. edge a b \<Longrightarrow> f b = f a"
  shows "\<exists>e'. entry t k = Some e' \<and> f e' = f e"
proof -
  have "edge\<^sup>*\<^sup>* e e' \<Longrightarrow> f e' = f e" for e'
    by (induction rule: rtranclp_induct) (simp_all add: assms(3))
  with steps_edges[OF assms(1,2)] show ?thesis by blast
qed

end

text \<open>A run changes only while it is running, and then not its identity.\<close>

definition run_edge :: "chat_run \<Rightarrow> chat_run \<Rightarrow> bool" where
  "run_edge r r' \<longleftrightarrow> running r \<and> same_run r r'"

definition plan_moves :: "(string \<times> string) set" where
  "plan_moves = {(plan_ready, plan_executing), (plan_ready, plan_superseded), (plan_ready, plan_cancelled),
     (plan_stopped, plan_executing), (plan_stopped, plan_superseded), (plan_stopped, plan_cancelled),
     (plan_executing, plan_completed), (plan_executing, plan_stopped), (plan_executing, plan_failed)}"

text \<open>A plan moves along its statuses; only its approval and its last update change with it.\<close>

definition plan_edge :: "chat_plan \<Rightarrow> chat_plan \<Rightarrow> bool" where
  "plan_edge p p' \<longleftrightarrow> (plan_status p, plan_status p') \<in> plan_moves \<and>
     p' = p\<lparr>plan_status := plan_status p', plan_approved_by := plan_approved_by p',
       plan_approved_at := plan_approved_at p', plan_updated_at := plan_updated_at p'\<rparr>"

definition question_moves :: "(string \<times> string) set" where
  "question_moves = {(question_pending, question_answering), (question_pending, question_cancelled),
     (question_answering, question_answered), (question_answering, question_pending)}"

definition question_edge :: "chat_question \<Rightarrow> chat_question \<Rightarrow> bool" where
  "question_edge q q' \<longleftrightarrow> (q_status q, q_status q') \<in> question_moves \<and>
     q' = q\<lparr>q_status := q_status q', q_answer_run_id := q_answer_run_id q', q_answer := q_answer q',
       q_answered_by := q_answered_by q', q_answered_at := q_answered_at q', q_updated_at := q_updated_at q'\<rparr>"

lemma same_run_refl [simp]: "same_run r r" by (simp add: same_run_def)

interpretation runs_life: lifecycle chat_move v_runs run_edge
proof unfold_locales
  fix v w k e assume "chat_move v w" "v_runs v k = Some e"
  then show "\<exists>e'. v_runs w k = Some e' \<and> (e' = e \<or> run_edge e e')"
    by (induction rule: chat_move.induct) (auto simp: run_edge_def settle_all_def same_run_draft)
qed

lemma plan_edges:
  "plan_usable p \<Longrightarrow> plan_edge p (approve_plan user now p)"
  "plan_usable p \<Longrightarrow> plan_edge p (p\<lparr>plan_status := plan_cancelled, plan_updated_at := now\<rparr>)"
  "plan_usable p \<Longrightarrow> plan_edge p (p\<lparr>plan_status := plan_superseded, plan_updated_at := now\<rparr>)"
  "plan_status p = plan_executing \<Longrightarrow> plan_edge p (p\<lparr>plan_status := executed_status s, plan_updated_at := now\<rparr>)"
  by (cases p; auto simp: plan_edge_def plan_moves_def plan_usable_def approve_plan_def executed_status_def)+

interpretation plans_life: lifecycle chat_move v_plans plan_edge
proof unfold_locales
  fix v w k e assume "chat_move v w" "v_plans v k = Some e"
  then show "\<exists>e'. v_plans w k = Some e' \<and> (e' = e \<or> plan_edge e e')"
  proof (induction rule: chat_move.induct)
    case (execute v j p r user now)
    show ?case using execute.prems execute.hyps(1) plan_edges(1)[OF execute.hyps(2)] by (cases "k = j") simp_all
  next
    case (cancel_plan v j p now)
    show ?case using cancel_plan.prems cancel_plan.hyps(1) plan_edges(2)[OF cancel_plan.hyps(2)] by (cases "k = j") simp_all
  next
    case (finish_plan v j r r' p s now)
    show ?case using finish_plan.prems finish_plan.hyps(7) plan_edges(4)[OF finish_plan.hyps(8)]
      by (cases "k = run_plan_id r") simp_all
  next
    case (adopt_plan v rid r c cid src now)
    then have "k \<noteq> pc_id c" by auto
    with adopt_plan plan_edges(3)[of e now] show ?case
      by (cases "plan_conversation_id e = cid \<and> plan_usable e") (simp_all add: supersede_all_def map_entries_def)
  qed (simp_all add: settle_all_def)
qed

interpretation questions_life: lifecycle chat_move v_questions question_edge
proof unfold_locales
  fix v w k e assume "chat_move v w" "v_questions v k = Some e"
  then show "\<exists>e'. v_questions w k = Some e' \<and> (e' = e \<or> question_edge e e')"
    by (induction rule: chat_move.induct)
      (auto simp: question_edge_def question_moves_def answering_question_def settle_question_def settle_all_def
        map_entries_def being_answered_by_def)
qed

end
