(* ===== verification/Convo_Laws.thy ===== *)
theory Convo_Laws
  imports Convo_Memory
begin

text \<open>
  The conversation store's contract: its well-formedness, kept by every operation; ownership; what
  deletion removes; what an upsert may change; how messages are listed. The locale
  \<open>message_log\<close> is the contract of a conversation's message list that the chat runs rely on.
\<close>

section \<open>Well-formed stores\<close>

definition folder_ok :: "string \<Rightarrow> folder \<Rightarrow> bool" where
  "folder_ok k f \<longleftrightarrow> folder_id f = k \<and> normalize_folder_name (folder_name f) = Inr (folder_name f)"

text \<open>A conversation in a folder: a plain chat of the folder's owner.\<close>

definition conv_ok :: "convo_memory \<Rightarrow> string \<Rightarrow> conversation \<Rightarrow> bool" where
  "conv_ok m k c \<longleftrightarrow> conv_id c = k \<and> conv_user_id c \<noteq> [] \<and> conv_chat_type c \<noteq> [] \<and> conv_runtime_id c \<noteq> [] \<and>
     (conv_folder_id c \<noteq> [] \<longrightarrow> conv_project_id c = [] \<and> conv_chat_type c = ''chat'' \<and>
        (\<exists>f. mget (cm_folders m) (conv_folder_id c) = Some f \<and> folder_user_id f = conv_user_id c))"

definition names_unique :: "text_case \<Rightarrow> convo_memory \<Rightarrow> bool" where
  "names_unique tc m \<longleftrightarrow> (\<forall>i j f g. mget (cm_folders m) i = Some f \<longrightarrow> mget (cm_folders m) j = Some g \<longrightarrow>
     folder_user_id f = folder_user_id g \<longrightarrow> tc_equal_fold tc (folder_name f) (folder_name g) \<longrightarrow> i = j)"

definition store_ok :: "text_case \<Rightarrow> convo_memory \<Rightarrow> bool" where
  "store_ok tc m \<longleftrightarrow> (\<forall>k c. mget (cm_convs m) k = Some c \<longrightarrow> conv_ok m k c) \<and>
     (\<forall>k f. mget (cm_folders m) k = Some f \<longrightarrow> folder_ok k f) \<and> names_unique tc m \<and>
     (\<forall>k. distinct (map msg_id (messages_of k m))) \<and>
     (\<forall>k a. mget (cm_arts m) k = Some a \<longrightarrow> art_id a = k)"

lemma store_okD:
  assumes "store_ok tc m"
  shows "mget (cm_convs m) k = Some c \<Longrightarrow> conv_ok m k c" "mget (cm_folders m) k = Some f \<Longrightarrow> folder_ok k f"
    "names_unique tc m" "distinct (map msg_id (messages_of k m))" "mget (cm_arts m) k = Some a \<Longrightarrow> art_id a = k"
  using assms unfolding store_ok_def by blast+

lemma store_ok_new: "store_ok tc new_convo_memory"
  by (simp add: store_ok_def new_convo_memory_def names_unique_def messages_of_def)

text \<open>Replacing one conversation, one folder, one message list.\<close>

lemma store_ok_put:
  assumes "store_ok tc m" "conv_ok m cid c"
  shows "store_ok tc (put_conversation cid c m)"
proof -
  have "conv_ok (put_conversation cid c m) k d = conv_ok m k d" for k d
    by (simp add: conv_ok_def put_conversation_def)
  with assms show ?thesis
    by (auto simp: store_ok_def put_conversation_def lookup_update names_unique_def messages_of_def)
qed

lemma owned_Some: "owned_conversation cid user m = Some c \<longleftrightarrow>
    mget (cm_convs m) cid = Some c \<and> conv_user_id c = user"
  by (auto simp: owned_conversation_def split: option.splits)

lemma owned_folder_Some: "owned_folder fid user m = Some f \<longleftrightarrow>
    mget (cm_folders m) fid = Some f \<and> folder_user_id f = user"
  by (auto simp: owned_folder_def split: option.splits)

lemma put_conversation_def': "m\<lparr>cm_convs := mput (cm_convs m) cid c\<rparr> = put_conversation cid c m"
  by (simp add: put_conversation_def)

lemma conv_defaults_fields [simp]:
  "conv_id (conv_defaults c) = conv_id c" "conv_user_id (conv_defaults c) = conv_user_id c"
  "conv_folder_id (conv_defaults c) = conv_folder_id c" "conv_project_id (conv_defaults c) = conv_project_id c"
  "conv_updated_at (conv_defaults c) = conv_updated_at c" "conv_chat_type (conv_defaults c) \<noteq> []"
  "conv_runtime_id (conv_defaults c) \<noteq> []"
  by (auto simp: conv_defaults_def Let_def default_runtime_id_def)

lemma check_placement_ok:
  assumes "check_placement c m = None" "conv_folder_id c \<noteq> []"
  shows "conv_project_id c = [] \<and> conv_chat_type c = ''chat'' \<and>
    (\<exists>f. mget (cm_folders m) (conv_folder_id c) = Some f \<and> folder_user_id f = conv_user_id c)"
  using assms by (auto simp: check_placement_def split: if_splits option.splits)

lemma refresh_fields [simp]:
  "conv_id (refresh_conversation c d) = conv_id d" "conv_user_id (refresh_conversation c d) = conv_user_id d"
  "conv_chat_type (refresh_conversation c d) = conv_chat_type d" "conv_runtime_id (refresh_conversation c d) = conv_runtime_id d"
  "conv_folder_id (refresh_conversation c d) = conv_folder_id d" "conv_project_id (refresh_conversation c d) = conv_project_id d"
  "conv_title (refresh_conversation c d) = conv_title d" "conv_hidden (refresh_conversation c d) = conv_hidden d"
  "conv_updated_at (refresh_conversation c d) = conv_updated_at c"
  by (simp_all add: refresh_conversation_def Let_def)

lemma upsert_conversation_ok:
  assumes "store_ok tc m"
  shows "store_ok tc (snd (upsert_conversation c m))"
proof (cases "check_placement (conv_defaults c) m")
  case None
  show ?thesis
  proof (cases "mget (cm_convs m) (conv_id c)")
    case (Some existing)
    then have "conv_ok m (conv_id c) (refresh_conversation (conv_defaults c) existing)"
      using store_okD(1)[OF assms Some] by (simp add: conv_ok_def)
    with assms None Some show ?thesis
      by (simp add: upsert_conversation_def Let_def put_conversation_def' store_ok_put)
  next
    case new: None
    have "conv_user_id c \<noteq> [] \<Longrightarrow> conv_ok m (conv_id c) (conv_defaults c)"
      using check_placement_ok[OF None] by (simp add: conv_ok_def)
    with assms None new show ?thesis
      by (simp add: upsert_conversation_def Let_def put_conversation_def' store_ok_put)
  qed
qed (simp add: upsert_conversation_def assms)

lemma reveal_conversation_ok:
  "store_ok tc m \<Longrightarrow> store_ok tc (snd (reveal_conversation cid user title t m))"
  using store_okD(1)[of tc m cid]
  by (auto simp: reveal_conversation_def Let_def owned_Some conv_ok_def intro!: store_ok_put split: option.split)

lemma rename_conversation_ok:
  "store_ok tc m \<Longrightarrow> store_ok tc (snd (rename_conversation cid user title m))"
  using store_okD(1)[of tc m cid]
  by (auto simp: rename_conversation_def Let_def owned_Some conv_ok_def intro!: store_ok_put split: option.split)

lemma move_conversation_ok:
  assumes "store_ok tc m"
  shows "store_ok tc (snd (move_conversation cid user fid t m))"
proof (cases "owned_conversation cid user m")
  case (Some c)
  then have c: "conv_ok m cid c" "conv_user_id c = user"
    using store_okD(1)[OF assms] by (simp_all add: owned_Some)
  have "conv_ok m cid (c\<lparr>conv_folder_id := fid, conv_updated_at := t\<rparr>)"
    if "conv_chat_type c = ''chat''" "conv_project_id c = []" "fid \<noteq> [] \<longrightarrow> owned_folder fid user m \<noteq> None"
    using c that by (auto simp: conv_ok_def owned_folder_Some)
  then show ?thesis
    using assms Some by (auto simp: move_conversation_def Let_def intro!: store_ok_put)
qed (simp add: move_conversation_def assms)

text \<open>Removing conversations, then perhaps a folder that nothing refers to.\<close>

lemma drop_lookup [simp]:
  "mget (cm_convs (drop_conversations ids m)) k = (if k \<in> ids then None else mget (cm_convs m) k)"
  "mget (cm_msgs (drop_conversations ids m)) k = (if k \<in> ids then None else mget (cm_msgs m) k)"
  "mget (cm_arts (drop_conversations ids m)) a = Some x \<longleftrightarrow>
     mget (cm_arts m) a = Some x \<and> art_conversation_id x \<notin> ids"
  "cm_folders (drop_conversations ids m) = cm_folders m"
proof -
  have filt: "mget (DAList.filter P f) k = Some v \<longleftrightarrow> mget f k = Some v \<and> P (k, v)" for P f k v
    by (auto simp: mget_filter split: option.splits if_splits)
  have pick: "(\<And>v. x = Some v \<longleftrightarrow> y = Some v) \<Longrightarrow> x = y" for x y :: "'a option"
    by (metis not_None_eq)
  show "mget (cm_convs (drop_conversations ids m)) k = (if k \<in> ids then None else mget (cm_convs m) k)"
    by (rule pick) (simp add: drop_conversations_def filt)
  show "mget (cm_msgs (drop_conversations ids m)) k = (if k \<in> ids then None else mget (cm_msgs m) k)"
    by (rule pick) (simp add: drop_conversations_def filt)
qed (auto simp: drop_conversations_def mitems_iff[symmetric] mitems_filter)

lemma messages_of_drop: "messages_of k (drop_conversations ids m) = (if k \<in> ids then [] else messages_of k m)"
  by (simp add: messages_of_def)

lemma drop_conversations_ok: "store_ok tc m \<Longrightarrow> store_ok tc (drop_conversations ids m)"
  by (simp add: store_ok_def names_unique_def messages_of_drop conv_ok_def)

lemma delete_conversation_ok: "store_ok tc m \<Longrightarrow> store_ok tc (snd (delete_conversation cid user m))"
  by (simp add: delete_conversation_def drop_conversations_ok split: option.split)

lemma drop_folder_ok:
  assumes "store_ok tc m" "\<And>k c. mget (cm_convs m) k = Some c \<Longrightarrow> conv_folder_id c \<noteq> fid"
  shows "store_ok tc (m\<lparr>cm_folders := mdel (cm_folders m) fid\<rparr>)"
  using assms by (auto simp: store_ok_def names_unique_def messages_of_def conv_ok_def)

lemma drop_root_folder_ok:
  "store_ok tc m \<Longrightarrow> store_ok tc (m\<lparr>cm_folders := mdel (cm_folders m) []\<rparr>)"
  by (auto simp: store_ok_def names_unique_def messages_of_def conv_ok_def)

lemma delete_folder_ok:
  assumes "store_ok tc m"
  shows "store_ok tc (snd (delete_folder fid user m))"
proof (cases "owned_folder fid user m")
  case (Some f)
  define ids where "ids = set (map fst (filter (\<lambda>(_, c). conv_user_id c = user \<and> conv_folder_id c = fid) (mitems (cm_convs m))))"
  have ids: "k \<in> ids \<longleftrightarrow> (\<exists>c. mget (cm_convs m) k = Some c \<and> conv_user_id c = user \<and> conv_folder_id c = fid)" for k
    by (force simp: ids_def mitems_iff[symmetric])
  show ?thesis
  proof (cases "fid = []")
    case False
    have "conv_folder_id c \<noteq> fid" if "mget (cm_convs (drop_conversations ids m)) k = Some c" for k c
      using that ids[of k] store_okD(1)[OF assms, of k c] False Some
      by (auto simp: conv_ok_def owned_folder_Some split: if_splits)
    then have "store_ok tc ((drop_conversations ids m)\<lparr>cm_folders := mdel (cm_folders (drop_conversations ids m)) fid\<rparr>)"
      by (intro drop_folder_ok drop_conversations_ok assms)
    with Some show ?thesis by (simp add: delete_folder_def Let_def ids_def)
  next
    case True
    with Some drop_root_folder_ok[OF drop_conversations_ok[OF assms, of ids]] show ?thesis
      by (simp add: delete_folder_def Let_def ids_def)
  qed
qed (simp add: delete_folder_def assms)

text \<open>
  A new folder's id is one no folder has: the service draws it at random before the call.
\<close>

lemma normalize_folder_name_idem:
  "normalize_folder_name n = Inr name \<Longrightarrow> normalize_folder_name name = Inr name"
  using normalize_folder_name_ok by blast

lemma folding_sym: "folding tc \<Longrightarrow> tc_equal_fold tc a b = tc_equal_fold tc b a"
  unfolding folding_def by blast

lemma put_folder_ok:
  assumes m: "store_ok tc m" and tc: "folding tc" and f: "folder_ok fid f"
    and owner: "\<And>g. mget (cm_folders m) fid = Some g \<Longrightarrow> folder_user_id g = folder_user_id f"
    and fresh: "\<And>i g. i \<noteq> fid \<Longrightarrow> mget (cm_folders m) i = Some g \<Longrightarrow> folder_user_id g = folder_user_id f \<Longrightarrow>
      \<not> tc_equal_fold tc (folder_name g) (folder_name f)"
  shows "store_ok tc (m\<lparr>cm_folders := mput (cm_folders m) fid f\<rparr>)"
proof -
  let ?m = "m\<lparr>cm_folders := mput (cm_folders m) fid f\<rparr>"
  have "conv_ok ?m k c" if "mget (cm_convs m) k = Some c" for k c
    using store_okD(1)[OF m that] owner by (auto simp: conv_ok_def lookup_update)
  moreover have "names_unique tc ?m"
    unfolding names_unique_def
  proof (intro allI impI)
    fix i j a b assume ab: "mget (cm_folders ?m) i = Some a" "mget (cm_folders ?m) j = Some b"
      and u: "folder_user_id a = folder_user_id b" and e: "tc_equal_fold tc (folder_name a) (folder_name b)"
    have "tc_equal_fold tc (folder_name b) (folder_name a)" using e folding_sym[OF tc] by blast
    with ab u e fresh[of i a] fresh[of j b] store_okD(3)[OF m, unfolded names_unique_def, rule_format, of i a j b]
    show "i = j" by (auto simp: lookup_update split: if_splits)
  qed
  ultimately show ?thesis using m f
    by (auto simp: store_ok_def lookup_update messages_of_def)
qed

lemma create_folder_ok:
  assumes "store_ok tc m" "folding tc" "mget (cm_folders m) (folder_id f) = None"
  shows "store_ok tc (snd (create_folder tc f m))"
proof (cases "normalize_folder_name (folder_name f)")
  case (Inr name)
  then have "folder_ok (folder_id f) (f\<lparr>folder_name := name\<rparr>)"
    by (simp add: folder_ok_def normalize_folder_name_idem)
  then show ?thesis using assms Inr
    by (fastforce simp: create_folder_def Let_def list_ex_iff mitems_iff[symmetric] intro!: put_folder_ok)
qed (simp add: create_folder_def assms)

lemma rename_folder_ok:
  assumes "store_ok tc m" "folding tc"
  shows "store_ok tc (snd (rename_folder tc fid user name t m))"
proof (cases "normalize_folder_name name")
  case (Inr n)
  show ?thesis
  proof (cases "owned_folder fid user m")
    case (Some f)
    then have "folder_ok fid (f\<lparr>folder_name := n, folder_updated_at := t\<rparr>)"
      using Inr store_okD(2)[OF assms(1), of fid f]
      by (simp add: folder_ok_def normalize_folder_name_idem owned_folder_Some)
    then have put: "\<lbrakk>\<And>i g. i \<noteq> fid \<Longrightarrow> mget (cm_folders m) i = Some g \<Longrightarrow> folder_user_id g = user \<Longrightarrow>
        \<not> tc_equal_fold tc (folder_name g) n\<rbrakk> \<Longrightarrow>
      store_ok tc (m\<lparr>cm_folders := mput (cm_folders m) fid (f\<lparr>folder_name := n, folder_updated_at := t\<rparr>)\<rparr>)"
      using assms Some by (intro put_folder_ok) (auto simp: owned_folder_Some)
    show ?thesis using assms(1) Inr Some
      by (auto simp: rename_folder_def Let_def list_ex_iff mitems_iff[symmetric] intro!: put)
  qed (simp add: rename_folder_def assms Inr)
qed (simp add: rename_folder_def assms)

section \<open>The message log of a conversation\<close>

text \<open>
  What a chat run relies on: the first insert of an id wins, the last upsert of an id wins, and
  neither touches another message or another conversation.
\<close>

locale message_log =
  fixes log :: "'s \<Rightarrow> string \<Rightarrow> message list"
    and insert_msg upsert_msg :: "message \<Rightarrow> 's \<Rightarrow> 's"
  assumes insert_log: "log (insert_msg x s) k = (if k \<noteq> msg_conversation_id x \<or> msg_id x \<in> msg_id ` set (log s k)
      then log s k else log s k @ [x])"
    and upsert_log: "log (upsert_msg x s) k = (if k \<noteq> msg_conversation_id x then log s k
      else if msg_id x \<in> msg_id ` set (log s k)
      then the (update_first (\<lambda>e. msg_id e = msg_id x) (\<lambda>_. x) (log s k)) else log s k @ [x])"
begin

definition unique :: "'s \<Rightarrow> bool" where "unique s \<longleftrightarrow> (\<forall>k. distinct (map msg_id (log s k)))"

lemma update_first_ids:
  "msg_id x \<in> msg_id ` set ms \<Longrightarrow>
     map msg_id (the (update_first (\<lambda>e. msg_id e = msg_id x) (\<lambda>_. x) ms)) = map msg_id ms"
proof (induction ms)
  case (Cons y ms)
  show ?case
  proof (cases "msg_id y = msg_id x")
    case False
    with Cons have "msg_id x \<in> msg_id ` set ms" by auto
    then obtain ms' where "update_first (\<lambda>e. msg_id e = msg_id x) (\<lambda>_. x) ms = Some ms'"
      by (cases "update_first (\<lambda>e. msg_id e = msg_id x) (\<lambda>_. x) ms") (auto simp: update_first_None)
    with Cons False \<open>msg_id x \<in> msg_id ` set ms\<close> show ?thesis by simp
  qed simp
qed simp

lemma insert_unique: "unique s \<Longrightarrow> unique (insert_msg x s)"
  by (auto simp: unique_def insert_log)

lemma upsert_unique: "unique s \<Longrightarrow> unique (upsert_msg x s)"
  by (auto simp: unique_def upsert_log update_first_ids)

lemma find_update_first:
  "\<exists>y \<in> set ms. msg_id y = msg_id x \<Longrightarrow>
     find (\<lambda>e. msg_id e = i) (the (update_first (\<lambda>e. msg_id e = msg_id x) (\<lambda>_. x) ms)) =
       (if i = msg_id x then Some x else find (\<lambda>e. msg_id e = i) ms)"
proof (induction ms)
  case (Cons y ms)
  show ?case
  proof (cases "msg_id y = msg_id x")
    case False
    with Cons have ex: "\<exists>y \<in> set ms. msg_id y = msg_id x" by auto
    then obtain ms' where "update_first (\<lambda>e. msg_id e = msg_id x) (\<lambda>_. x) ms = Some ms'"
      by (cases "update_first (\<lambda>e. msg_id e = msg_id x) (\<lambda>_. x) ms") (auto simp: update_first_None)
    with Cons.IH[OF ex] False show ?thesis by auto
  qed auto
qed simp

lemma find_append_new:
  "msg_id x \<notin> msg_id ` set ms \<Longrightarrow>
     find (\<lambda>e. msg_id e = i) (ms @ [x]) = (if i = msg_id x then Some x else find (\<lambda>e. msg_id e = i) ms)"
  by (induction ms) auto

lemma upsert_find:
  "find (\<lambda>e. msg_id e = i) (log (upsert_msg x s) k) =
     (if k = msg_conversation_id x \<and> i = msg_id x then Some x else find (\<lambda>e. msg_id e = i) (log s k))"
proof (cases "k = msg_conversation_id x \<and> msg_id x \<in> msg_id ` set (log s k)")
  case True
  then have here: "k = msg_conversation_id x" "msg_id x \<in> msg_id ` set (log s (msg_conversation_id x))"
    and "\<exists>y \<in> set (log s (msg_conversation_id x)). msg_id y = msg_id x" by auto
  from here find_update_first[OF this(3)] show ?thesis by (simp add: upsert_log)
qed (auto simp: upsert_log find_append_new)

lemma insert_find:
  "find (\<lambda>e. msg_id e = i) (log (insert_msg x s) k) =
     (if k = msg_conversation_id x \<and> i = msg_id x \<and> find (\<lambda>e. msg_id e = i) (log s k) = None then Some x
      else find (\<lambda>e. msg_id e = i) (log s k))"
proof -
  have "find (\<lambda>e. msg_id e = i) (log s k) = None \<longleftrightarrow> i \<notin> msg_id ` set (log s k)"
    by (auto simp: find_None_iff)
  then show ?thesis by (auto simp: insert_log find_append_new)
qed

lemma upsert_upsert_find:
  "find (\<lambda>e. msg_id e = i) (log (upsert_msg x (upsert_msg x s)) k) =
     find (\<lambda>e. msg_id e = i) (log (upsert_msg x s) k)"
  by (simp add: upsert_find)

end

definition inserted :: "message \<Rightarrow> convo_memory \<Rightarrow> convo_memory" where
  "inserted x m = snd (insert_message x m)"

definition upserted :: "message \<Rightarrow> convo_memory \<Rightarrow> convo_memory" where
  "upserted x m = snd (upsert_message x m)"

lemma messages_of_put: "messages_of k (m\<lparr>cm_msgs := mput (cm_msgs m) c ms\<rparr>) = (if k = c then ms else messages_of k m)"
  by (simp add: messages_of_def lookup_update)

interpretation log: message_log "\<lambda>m k. messages_of k m" inserted upserted
proof unfold_locales
  fix x s k
  show "messages_of k (inserted x s) = (if k \<noteq> msg_conversation_id x \<or> msg_id x \<in> msg_id ` set (messages_of k s)
      then messages_of k s else messages_of k s @ [x])"
    by (auto simp: inserted_def insert_message_def Let_def list_ex_iff messages_of_put intro: rev_image_eqI)
  let ?upd = "update_first (\<lambda>e. msg_id e = msg_id x) (\<lambda>_. x)"
  have none: "?upd l = None \<longleftrightarrow> msg_id x \<notin> msg_id ` set l" for l
    unfolding update_first_None by (auto simp: image_iff eq_commute)
  have "messages_of k (upserted x s) = (if k \<noteq> msg_conversation_id x then messages_of k s
      else case ?upd (messages_of k s) of Some ms' \<Rightarrow> ms' | None \<Rightarrow> messages_of k s @ [x])"
    by (auto simp: upserted_def upsert_message_def Let_def messages_of_put split: option.split)
  then show "messages_of k (upserted x s) = (if k \<noteq> msg_conversation_id x then messages_of k s
      else if msg_id x \<in> msg_id ` set (messages_of k s) then the (?upd (messages_of k s)) else messages_of k s @ [x])"
    using none[of "messages_of k s"]
    by (cases "k = msg_conversation_id x"; cases "?upd (messages_of k s)"; clarify?; simp)
qed

lemma inserted_other [simp]:
  "cm_convs (inserted x m) = cm_convs m" "cm_folders (inserted x m) = cm_folders m" "cm_arts (inserted x m) = cm_arts m"
  by (simp_all add: inserted_def insert_message_def Let_def)

lemma upserted_other [simp]:
  "cm_convs (upserted x m) = cm_convs m" "cm_folders (upserted x m) = cm_folders m" "cm_arts (upserted x m) = cm_arts m"
  by (simp_all add: upserted_def upsert_message_def Let_def)

lemma log_changed_ok:
  assumes "store_ok tc m" "log.unique m'" "cm_convs m' = cm_convs m" "cm_folders m' = cm_folders m" "cm_arts m' = cm_arts m"
  shows "store_ok tc m'"
  using assms by (simp add: store_ok_def names_unique_def conv_ok_def log.unique_def)

lemma store_ok_unique: "store_ok tc m \<Longrightarrow> log.unique m"
  by (simp add: store_ok_def log.unique_def)

lemma insert_message_ok: "store_ok tc m \<Longrightarrow> store_ok tc (inserted x m)"
  by (rule log_changed_ok) (auto intro: log.insert_unique store_ok_unique)

lemma upsert_message_ok: "store_ok tc m \<Longrightarrow> store_ok tc (upserted x m)"
  by (rule log_changed_ok) (auto intro: log.upsert_unique store_ok_unique)

lemma upsert_artifact_ok: "store_ok tc m \<Longrightarrow> store_ok tc (snd (upsert_artifact a m))"
  by (auto simp: upsert_artifact_def store_ok_def names_unique_def conv_ok_def messages_of_def lookup_update)

end
