(* ===== verification/Convo_Properties.thy ===== *)
theory Convo_Properties
  imports Convo_Laws
begin

text \<open>
  Properties of the conversation store, over every store reachable by its operations. A folder is
  created under an id that no folder has: \<open>httpapi\<close> draws it at random just before the call.
\<close>

section \<open>Runs of the store\<close>

datatype convo_call =
    UpsertConv conversation
  | RevealConv string string string gtime
  | MoveConv string string string gtime
  | RenameConv string string string
  | DeleteConv string string
  | CreateFolder folder
  | RenameFolder string string string gtime
  | DeleteFolder string string
  | InsertMsg message
  | UpsertMsg message
  | UpsertArt artifact

primrec convo_exec :: "text_case \<Rightarrow> convo_call \<Rightarrow> convo_memory \<Rightarrow> convo_memory" where
  "convo_exec tc (UpsertConv c) m = snd (upsert_conversation c m)"
| "convo_exec tc (RevealConv cid u title t) m = snd (reveal_conversation cid u title t m)"
| "convo_exec tc (MoveConv cid u fid t) m = snd (move_conversation cid u fid t m)"
| "convo_exec tc (RenameConv cid u title) m = snd (rename_conversation cid u title m)"
| "convo_exec tc (DeleteConv cid u) m = snd (delete_conversation cid u m)"
| "convo_exec tc (CreateFolder f) m = snd (create_folder tc f m)"
| "convo_exec tc (RenameFolder fid u name t) m = snd (rename_folder tc fid u name t m)"
| "convo_exec tc (DeleteFolder fid u) m = snd (delete_folder fid u m)"
| "convo_exec tc (InsertMsg x) m = snd (insert_message x m)"
| "convo_exec tc (UpsertMsg x) m = snd (upsert_message x m)"
| "convo_exec tc (UpsertArt a) m = snd (upsert_artifact a m)"

fun fresh_folder :: "convo_call \<Rightarrow> convo_memory \<Rightarrow> bool" where
  "fresh_folder (CreateFolder f) m = (mget (cm_folders m) (folder_id f) = None)"
| "fresh_folder _ m = True"

inductive convo_reach :: "text_case \<Rightarrow> convo_memory \<Rightarrow> bool" for tc where
  reach_new: "convo_reach tc new_convo_memory"
| reach_call: "convo_reach tc m \<Longrightarrow> fresh_folder call m \<Longrightarrow> convo_reach tc (convo_exec tc call m)"

lemma convo_exec_ok:
  "store_ok tc m \<Longrightarrow> folding tc \<Longrightarrow> fresh_folder call m \<Longrightarrow> store_ok tc (convo_exec tc call m)"
  by (cases call)
    (simp_all add: upsert_conversation_ok reveal_conversation_ok move_conversation_ok rename_conversation_ok
      delete_conversation_ok create_folder_ok rename_folder_ok delete_folder_ok upsert_artifact_ok
      insert_message_ok[unfolded inserted_def] upsert_message_ok[unfolded upserted_def])

lemma convo_reach_ok: "convo_reach tc m \<Longrightarrow> folding tc \<Longrightarrow> store_ok tc m"
  by (induction rule: convo_reach.induct) (simp_all add: store_ok_new convo_exec_ok)

text \<open>A run from a given store, for concrete inputs.\<close>

lemma convo_reach_run:
  "convo_reach tc m \<Longrightarrow> (\<And>call m. call \<in> set calls \<Longrightarrow> fresh_folder call m) \<Longrightarrow>
     convo_reach tc (fold (convo_exec tc) calls m)"
  by (induction calls arbitrary: m) (auto intro: reach_call)

section \<open>A sample\<close>

definition ascii_case :: text_case where
  "ascii_case = \<lparr>tc_lower = id, tc_equal_fold = (=)\<rparr>"

lemma ascii_case_folding: "folding ascii_case"
  by (simp add: folding_def ascii_case_def)

definition sample_conv :: "string \<Rightarrow> string \<Rightarrow> int \<Rightarrow> conversation" where
  "sample_conv cid user t = \<lparr>conv_id = cid, conv_user_id = user, conv_tenant_id = [], conv_title = ''t'',
     conv_chat_type = [], conv_folder_id = [], conv_project_id = [], conv_hidden = False, conv_runtime_id = [],
     conv_agent_id = [], conv_agent_version = 0, conv_agent_snapshot = None, conv_channel_connector_id = [],
     conv_created_at = t, conv_updated_at = t\<rparr>"

definition sample_msg :: "string \<Rightarrow> string \<Rightarrow> string \<Rightarrow> int \<Rightarrow> message" where
  "sample_msg mid cid role t = \<lparr>msg_id = mid, msg_conversation_id = cid, msg_role = role, msg_parts = [],
     msg_metadata = [], msg_created_at = t\<rparr>"

definition sample_folder :: folder where
  "sample_folder = \<lparr>folder_id = ''f'', folder_user_id = ''u'', folder_name = ''F'', folder_created_at = 0, folder_updated_at = 0\<rparr>"

definition sample_store :: convo_memory where
  "sample_store = \<lparr>cm_convs = mput (mput mnil ''c'' (conv_defaults (sample_conv ''c'' ''u'' 1)\<lparr>conv_folder_id := ''f''\<rparr>))
        ''d'' (conv_defaults (sample_conv ''d'' ''v'' 2)),
     cm_msgs = mput mnil ''c'' [sample_msg ''m2'' ''c'' ''assistant'' 3, sample_msg ''m1'' ''c'' ''user'' 3],
     cm_arts = mnil, cm_folders = mput mnil ''f'' sample_folder\<rparr>"

text \<open>A run that puts the conversation \<open>c\<close> with two messages into the folder \<open>f\<close> of \<open>u\<close>.\<close>

definition sample_calls :: "convo_call list" where
  "sample_calls = [CreateFolder sample_folder, UpsertConv (sample_conv ''c'' ''u'' 1), MoveConv ''c'' ''u'' ''f'' 1,
     UpsertConv (sample_conv ''d'' ''v'' 2), InsertMsg (sample_msg ''m2'' ''c'' ''assistant'' 3),
     InsertMsg (sample_msg ''m1'' ''c'' ''user'' 3)]"

lemma normalize_sample_name: "normalize_folder_name ''F'' = Inr ''F''"
proof -
  have "trim_space ''F'' = ''F''" by code_simp
  moreover have "rune_count ''F'' = 1" by code_simp
  ultimately show ?thesis by (simp add: normalize_folder_name_def)
qed

lemma sample_run: "fold (convo_exec ascii_case) sample_calls new_convo_memory = sample_store"
  by (simp add: sample_calls_def sample_store_def new_convo_memory_def normalize_sample_name Let_def
      create_folder_def upsert_conversation_def move_conversation_def insert_message_def conv_defaults_def
      check_placement_def sample_conv_def sample_msg_def sample_folder_def ascii_case_def snapshot_mismatch_def
      owned_conversation_def owned_folder_def put_conversation_def messages_of_def lookup_update mput_mput
      default_runtime_id_def)

lemma sample_reach: "convo_reach ascii_case sample_store"
  unfolding sample_run[symmetric] sample_calls_def
  by (simp only: fold_simps, intro reach_call reach_new)
    (simp_all add: new_convo_memory_def)

lemma sample_entries:
  "mget (cm_folders sample_store) ''f'' = Some sample_folder"
  "mget (cm_convs sample_store) ''c'' = Some (conv_defaults (sample_conv ''c'' ''u'' 1)\<lparr>conv_folder_id := ''f''\<rparr>)"
  "mget (cm_convs sample_store) ''d'' = Some (conv_defaults (sample_conv ''d'' ''v'' 2))"
  by (simp_all add: sample_store_def lookup_update)

lemma sample_convs: "mget (cm_convs sample_store) k =
    (if k = ''d'' then Some (conv_defaults (sample_conv ''d'' ''v'' 2))
     else if k = ''c'' then Some (conv_defaults (sample_conv ''c'' ''u'' 1)\<lparr>conv_folder_id := ''f''\<rparr>) else None)"
  by (simp add: sample_store_def lookup_update)

lemma sample_owners [simp]:
  "folder_user_id sample_folder = ''u''" "conv_user_id (sample_conv cid user t) = user"
  "conv_id (sample_conv cid user t) = cid" "conv_hidden (conv_defaults (sample_conv cid user t)) = False"
  "conv_folder_id (sample_conv cid user t) = []" "msg_id (sample_msg mid cid role t) = mid"
  "msg_conversation_id (sample_msg mid cid role t) = cid"
  by (simp_all add: sample_folder_def sample_conv_def conv_defaults_def Let_def sample_msg_def)

section \<open>Properties\<close>

text \<open>
  C10. Every reachable store is well formed: each conversation is under its own id, has an owner, a
  chat type and a runtime, and if it is in a folder it is a plain chat, in no project, of the folder's
  owner; folder names are trimmed, not empty, and unique per user up to case; a conversation has at
  most one message of an id; an artifact is under its own id.
\<close>

theorem convo_store_wf:
  assumes "convo_reach tc m" "folding tc"
  shows "store_ok tc m"
  using assms by (rule convo_reach_ok)

lemma convo_store_wf_witness:
  "store_ok ascii_case (convo_exec ascii_case (MoveConv ''c'' ''u'' ''f'' 5)
     (convo_exec ascii_case (UpsertConv (sample_conv ''c'' ''u'' 1))
       (convo_exec ascii_case (CreateFolder sample_folder) new_convo_memory)))"
  by (rule convo_store_wf[OF _ ascii_case_folding])
    (intro reach_call reach_new; simp add: new_convo_memory_def)

text \<open>
  C11. The eight operations that take a conversation and the caller treat a conversation of another user as a
  missing one: the four reads answer not-found, and the four writes answer not-found and leave the store as it was.
  The list of a user's conversations holds only his own. (UpsertConversation, which creates what is missing,
  and the two operations that store a message are not among them.)
\<close>

theorem conversation_private:
  assumes "\<And>c. mget (cm_convs m) cid = Some c \<Longrightarrow> conv_user_id c \<noteq> user"
  shows "get_conversation cid user m = Inl ConvoNotFound \<and> get_messages cid user m = Inl ConvoNotFound \<and>
    get_message cid mid user m = Inl ConvoNotFound \<and> get_artifact cid aid user m = Inl ConvoNotFound \<and>
    reveal_conversation cid user title t m = (Inl ConvoNotFound, m) \<and>
    move_conversation cid user fid t m = (Inl ConvoNotFound, m) \<and>
    rename_conversation cid user title m = (Inl ConvoNotFound, m) \<and>
    delete_conversation cid user m = (Inl ConvoNotFound, m) \<and>
    (\<forall>c \<in> set (list_conversations user m). conv_user_id c = user)"
proof -
  have "owned_conversation cid user m = None"
    using assms by (auto simp: owned_conversation_def split: option.split)
  then show ?thesis
    by (simp add: get_conversation_def get_messages_def get_message_def get_artifact_def reveal_conversation_def
        move_conversation_def rename_conversation_def delete_conversation_def list_conversations_def)
qed

lemma conversation_private_witness:
  "get_messages ''d'' ''u'' sample_store = Inl ConvoNotFound \<and>
   delete_conversation ''d'' ''u'' sample_store = (Inl ConvoNotFound, sample_store)"
  using conversation_private[of sample_store "''d''" "''u''"]
  by (simp add: sample_store_def sample_conv_def conv_defaults_def Let_def lookup_update)

text \<open>
  Upserting an existing conversation never changes who owns it nor what it runs: on success only
  the time of the last update changes, and an empty channel connector of a plain chat without an
  agent may be filled in; the caller is the owner (or gave no user) and asked for the same runtime and
  agent. On any error nothing changes.
\<close>

theorem upsert_keeps_identity:
  assumes "mget (cm_convs m) (conv_id c) = Some old"
  shows "case upsert_conversation c m of
      (Inl e, m') \<Rightarrow> m' = m
    | (Inr _, m') \<Rightarrow> (conv_user_id c = [] \<or> conv_user_id c = conv_user_id old) \<and>
        conv_runtime_id old = (if conv_runtime_id c = [] then default_runtime_id else conv_runtime_id c) \<and>
        conv_agent_id old = conv_agent_id c \<and> (conv_project_id c = [] \<or> conv_project_id c = conv_project_id old) \<and>
        (\<exists>connector. m' = put_conversation (conv_id c)
            (old\<lparr>conv_updated_at := conv_updated_at c, conv_channel_connector_id := connector\<rparr>) m \<and>
          (connector = conv_channel_connector_id old \<or> conv_channel_connector_id old = [] \<and>
             connector = conv_channel_connector_id c \<and> conv_agent_id old = [] \<and> conv_chat_type old = ''chat''))"
proof -
  have runtime: "conv_runtime_id (conv_defaults c) = (if conv_runtime_id c = [] then default_runtime_id else conv_runtime_id c)"
    and agent: "conv_agent_id (conv_defaults c) = conv_agent_id c"
    and connector: "conv_channel_connector_id (conv_defaults c) = conv_channel_connector_id c"
    by (simp_all add: conv_defaults_def Let_def)
  have refresh: "\<exists>con. refresh_conversation (conv_defaults c) old =
        old\<lparr>conv_updated_at := conv_updated_at c, conv_channel_connector_id := con\<rparr> \<and>
      (con = conv_channel_connector_id old \<or> conv_channel_connector_id old = [] \<and>
         con = conv_channel_connector_id c \<and> conv_agent_id old = [] \<and> conv_chat_type old = ''chat'')"
    by (cases "conv_agent_id old = [] \<and> conv_chat_type old = ''chat''
        \<and> conv_channel_connector_id old = [] \<and> conv_channel_connector_id c \<noteq> []")
      (force simp: refresh_conversation_def connector Let_def)+
  show ?thesis
  proof (cases "check_placement (conv_defaults c) m")
    case None
    obtain con where con: "refresh_conversation (conv_defaults c) old =
        old\<lparr>conv_updated_at := conv_updated_at c, conv_channel_connector_id := con\<rparr>"
      "con = conv_channel_connector_id old \<or> conv_channel_connector_id old = [] \<and>
         con = conv_channel_connector_id c \<and> conv_agent_id old = [] \<and> conv_chat_type old = ''chat''"
      using refresh by blast
    show ?thesis
      using None assms agent con(2)
      by (auto simp: upsert_conversation_def Let_def put_conversation_def con(1) runtime intro!: exI[of _ con])
  qed (simp add: upsert_conversation_def)
qed

lemma upsert_keeps_identity_witness:
  "snd (upsert_conversation (sample_conv ''d'' ''v'' 9\<lparr>conv_title := ''new''\<rparr>) sample_store) =
     put_conversation ''d'' (conv_defaults (sample_conv ''d'' ''v'' 9)\<lparr>conv_created_at := 2\<rparr>) sample_store \<and>
   fst (upsert_conversation (sample_conv ''d'' ''u'' 9) sample_store) = Inl ConvoNotFound \<and>
   (let c = sample_conv ''d'' ''u'' 9 in snd (upsert_conversation c sample_store) = sample_store)"
proof -
  have d: "mget (cm_convs sample_store) (conv_id (sample_conv ''d'' ''u'' 9)) =
      Some (conv_defaults (sample_conv ''d'' ''v'' 2))"
    by (simp add: sample_store_def sample_conv_def lookup_update)
  have "fst (upsert_conversation (sample_conv ''d'' ''u'' 9) sample_store) = Inl ConvoNotFound"
    by (simp add: upsert_conversation_def conv_defaults_def check_placement_def sample_conv_def sample_store_def
        Let_def lookup_update default_runtime_id_def)
  moreover from this upsert_keeps_identity[OF d] have "snd (upsert_conversation (sample_conv ''d'' ''u'' 9) sample_store) = sample_store"
    by (cases "upsert_conversation (sample_conv ''d'' ''u'' 9) sample_store") simp
  moreover have "snd (upsert_conversation (sample_conv ''d'' ''v'' 9\<lparr>conv_title := ''new''\<rparr>) sample_store) =
     put_conversation ''d'' (conv_defaults (sample_conv ''d'' ''v'' 9)\<lparr>conv_created_at := 2\<rparr>) sample_store"
    by (simp add: upsert_conversation_def conv_defaults_def check_placement_def sample_conv_def sample_store_def
        Let_def lookup_update default_runtime_id_def refresh_conversation_def put_conversation_def)
  ultimately show ?thesis by simp
qed

text \<open>
  Deleting a folder deletes the conversations in it, with their messages and artifacts, reports
  their ids in order, and touches no other conversation, message or artifact; nothing is left that
  refers to the folder.
\<close>

theorem delete_folder_cascades:
  assumes m: "convo_reach tc m" "folding tc" and f: "mget (cm_folders m) fid = Some f" and fid: "fid \<noteq> []"
  shows "\<exists>ids m'. delete_folder fid (folder_user_id f) m = (Inr ids, m') \<and> sorted ids \<and> distinct ids \<and>
    set ids = {k. \<exists>c. mget (cm_convs m) k = Some c \<and> conv_folder_id c = fid} \<and>
    (\<forall>k. mget (cm_convs m') k = (if k \<in> set ids then None else mget (cm_convs m) k)) \<and>
    (\<forall>k. messages_of k m' = (if k \<in> set ids then [] else messages_of k m)) \<and>
    (\<forall>k a. mget (cm_arts m') k = Some a \<longleftrightarrow> mget (cm_arts m) k = Some a \<and> art_conversation_id a \<notin> set ids) \<and>
    (\<forall>k. mget (cm_folders m') k = (if k = fid then None else mget (cm_folders m) k)) \<and>
    (\<forall>k c. mget (cm_convs m') k = Some c \<longrightarrow> conv_folder_id c \<noteq> fid)"
proof -
  let ?mine = "filter (\<lambda>(_, c). conv_user_id c = folder_user_id f \<and> conv_folder_id c = fid) (mitems (cm_convs m))"
  let ?ids = "map fst ?mine"
  let ?m' = "drop_conversations (set ?ids) m\<lparr>cm_folders := mdel (cm_folders m) fid\<rparr>"
  have run: "delete_folder fid (folder_user_id f) m = (Inr (sort ?ids), ?m')"
    using f by (simp add: delete_folder_def owned_folder_def Let_def)
  have owner: "conv_user_id c = folder_user_id f" if "mget (cm_convs m) k = Some c" "conv_folder_id c = fid" for k c
    using store_okD(1)[OF convo_reach_ok[OF m] that(1)] f fid that(2) by (simp add: conv_ok_def)
  have ids: "set ?ids = {k. \<exists>c. mget (cm_convs m) k = Some c \<and> conv_folder_id c = fid}"
    using owner by (force simp: mitems_iff)
  have dist: "distinct ?ids"
    using distinct_map_filter[of fst "mitems (cm_convs m)"] by (simp add: DAList.impl_of_distinct)
  have gone: "mget (cm_convs ?m') k = (if k \<in> set ?ids then None else mget (cm_convs m) k)" for k
    by simp
  have msgs: "messages_of k ?m' = (if k \<in> set ?ids then [] else messages_of k m)" for k
    using messages_of_drop[of k "set ?ids" m] by (simp add: messages_of_def)
  have left: "conv_folder_id c \<noteq> fid" if "mget (cm_convs ?m') k = Some c" for k c
    using that ids by (auto split: if_splits)
  have rest: "mget (cm_arts ?m') k = Some a \<longleftrightarrow> mget (cm_arts m) k = Some a \<and> art_conversation_id a \<notin> set ?ids"
    "mget (cm_folders ?m') k = (if k = fid then None else mget (cm_folders m) k)" for k a
    by simp_all
  show ?thesis
    by (intro exI[of _ "sort ?ids"] exI[of _ ?m'] conjI allI impI, unfold set_sort)
      (rule run ids gone msgs rest left sorted_sort distinct_sort[THEN iffD2, OF dist] | assumption)+
qed

lemma message_key_id: "message_key a = message_key b \<Longrightarrow> msg_id a = msg_id b"
  by (simp add: message_key_def)

lemma delete_folder_cascades_witness:
  "\<exists>ids m'. delete_folder ''f'' ''u'' sample_store = (Inr ids, m') \<and> set ids = {''c''} \<and>
     mget (cm_convs m') ''c'' = None \<and> messages_of ''c'' m' = [] \<and> mget (cm_convs m') ''d'' = mget (cm_convs sample_store) ''d''"
proof -
  have "{k. \<exists>c. mget (cm_convs sample_store) k = Some c \<and> conv_folder_id c = ''f''} = {''c''}"
    by (auto simp: sample_convs)
  then obtain ids m' where "delete_folder ''f'' ''u'' sample_store = (Inr ids, m')" "set ids = {''c''}"
    "\<And>k. mget (cm_convs m') k = (if k \<in> set ids then None else mget (cm_convs sample_store) k)"
    "\<And>k. messages_of k m' = (if k \<in> set ids then [] else messages_of k sample_store)"
    using delete_folder_cascades[OF sample_reach ascii_case_folding sample_entries(1)] by auto
  then show ?thesis by simp
qed

text \<open>
  What UpsertMessage stores, GetMessage gives back to the owner of the conversation, and every
  other message is as it was; GetMessages lists the messages in order of creation, user before
  assistant before other roles at the same instant, then by id, each id once.
\<close>

theorem message_roundtrip:
  assumes m: "convo_reach tc m" "folding tc"
    and c: "mget (cm_convs m) cid = Some c" and x: "msg_conversation_id x = cid"
  defines "m' \<equiv> snd (upsert_message x m)" and "user \<equiv> conv_user_id c"
  shows "get_message cid (msg_id x) user m' = Inr x \<and>
    (\<forall>i. i \<noteq> msg_id x \<longrightarrow> get_message cid i user m' = get_message cid i user m) \<and>
    (\<forall>k. k \<noteq> cid \<longrightarrow> get_messages k user m' = get_messages k user m) \<and>
    (\<exists>ms. get_messages cid user m' = Inr ms \<and> mset ms = mset (messages_of cid m') \<and> distinct (map msg_id ms) \<and>
       sorted_wrt (\<lambda>a b. (msg_created_at a, message_role_order (msg_role a), msg_id a) <
         (msg_created_at b, message_role_order (msg_role b), msg_id b)) ms)"
proof -
  have m': "m' = upserted x m" by (simp add: m'_def upserted_def)
  have owned: "owned_conversation k user m' = owned_conversation k user m" for k
    by (simp add: m' owned_conversation_def)
  have mine: "owned_conversation cid user m = Some c" using c by (simp add: owned_conversation_def user_def)
  have found: "find (\<lambda>e. msg_id e = i) (messages_of k m') =
      (if k = cid \<and> i = msg_id x then Some x else find (\<lambda>e. msg_id e = i) (messages_of k m))" for i k
    using log.upsert_find[where i = i and x = x and s = m and k = k] x by (simp add: m')
  have other: "messages_of k m' = messages_of k m" if "k \<noteq> cid" for k
    using that x by (simp add: m' log.upsert_log)
  let ?ms = "sort_key message_key (messages_of cid m')"
  have "distinct (map msg_id (messages_of cid m'))"
    using log.upsert_unique[OF store_ok_unique[OF convo_reach_ok[OF m]], of x]
    by (simp add: m' log.unique_def)
  then have dist: "distinct (map msg_id ?ms)" and strict: "sorted_wrt (\<lambda>a b. message_key a < message_key b) ?ms"
    using sort_key_strict[of msg_id "messages_of cid m'" message_key, OF _ message_key_id] by blast+
  have "get_messages cid user m' = Inr ?ms" using mine by (simp add: get_messages_def owned)
  moreover have "get_messages k user m' = get_messages k user m" if "k \<noteq> cid" for k
    by (simp add: get_messages_def owned other[OF that] split: option.split)
  moreover have "get_message cid (msg_id x) user m' = Inr x" using mine by (simp add: get_message_def owned found)
  moreover have "get_message cid i user m' = get_message cid i user m" if "i \<noteq> msg_id x" for i
    using that by (simp add: get_message_def owned found cong: option.case_cong)
  moreover have "sorted_wrt (\<lambda>a b. (msg_created_at a, message_role_order (msg_role a), msg_id a) <
      (msg_created_at b, message_role_order (msg_role b), msg_id b)) ?ms"
    using strict by (rule sorted_wrt_mono_rel[rotated]) (simp only: message_key_def)
  ultimately show ?thesis using dist by simp
qed

lemma message_roundtrip_witness:
  "get_message ''c'' ''m1'' ''u'' (snd (upsert_message (sample_msg ''m1'' ''c'' ''user'' 7) sample_store)) =
     Inr (sample_msg ''m1'' ''c'' ''user'' 7)"
  using message_roundtrip[OF sample_reach ascii_case_folding sample_entries(2), of "sample_msg ''m1'' ''c'' ''user'' 7"]
  by simp

text \<open>
  ListConversations lists exactly the user's visible conversations, each once, the most recently
  updated first and, at the same instant, by descending id.
\<close>

theorem list_conversations_own:
  assumes "convo_reach tc m" "folding tc"
  shows "set (list_conversations user m) =
      {c. mget (cm_convs m) (conv_id c) = Some c \<and> conv_user_id c = user \<and> \<not> conv_hidden c} \<and>
    sorted_wrt (\<lambda>a b. (conv_updated_at a, conv_id a) > (conv_updated_at b, conv_id b)) (list_conversations user m)"
proof -
  let ?key = "\<lambda>c. (conv_updated_at c, conv_id c)"
  let ?own = "filter (\<lambda>c. conv_user_id c = user \<and> \<not> conv_hidden c) (mvals (cm_convs m))"
  have id: "mget (cm_convs m) k = Some c \<Longrightarrow> conv_id c = k" for k c
    using store_okD(1)[OF convo_reach_ok[OF assms]] by (simp add: conv_ok_def)
  have "set ?own = {c. mget (cm_convs m) (conv_id c) = Some c \<and> conv_user_id c = user \<and> \<not> conv_hidden c}"
  proof (intro set_eqI iffI)
    fix c assume "c \<in> set ?own"
    then obtain k where "mget (cm_convs m) k = Some c" "conv_user_id c = user" "\<not> conv_hidden c"
      by (auto simp: mitems_iff)
    with id show "c \<in> {c. mget (cm_convs m) (conv_id c) = Some c \<and> conv_user_id c = user \<and> \<not> conv_hidden c}" by auto
  qed (auto dest: mvalsI)
  moreover have "map conv_id (mvals (cm_convs m)) = map fst (mitems (cm_convs m))"
    using id by (auto simp: mitems_iff)
  then have "distinct (map conv_id (mvals (cm_convs m)))" by (simp only: DAList.impl_of_distinct)
  then have "distinct (map conv_id ?own)" by (rule distinct_map_filter)
  then have "sorted_wrt (\<lambda>a b. ?key a < ?key b) (sort_key ?key ?own)"
    by (rule sort_key_strict) simp
  ultimately show ?thesis
    unfolding list_conversations_def sorted_wrt_rev by (simp only: set_rev set_sort)
qed

lemma list_conversations_own_witness:
  "conv_id ` set (list_conversations ''v'' sample_store) = {''d''}"
proof -
  have "{c. mget (cm_convs sample_store) (conv_id c) = Some c \<and> conv_user_id c = ''v'' \<and> \<not> conv_hidden c} =
      {conv_defaults (sample_conv ''d'' ''v'' 2)}"
  proof (intro set_eqI iffI)
    fix c assume "c \<in> {c. mget (cm_convs sample_store) (conv_id c) = Some c \<and> conv_user_id c = ''v'' \<and> \<not> conv_hidden c}"
    then have c: "mget (cm_convs sample_store) (conv_id c) = Some c" "conv_user_id c = ''v''" by auto
    then show "c \<in> {conv_defaults (sample_conv ''d'' ''v'' 2)}"
      unfolding sample_convs by (cases "conv_id c = ''d''"; cases "conv_id c = ''c''") auto
  qed (simp add: sample_convs)
  then show ?thesis
    using list_conversations_own[OF sample_reach ascii_case_folding, of "''v''"] by simp
qed

end
