(* ===== verification/Chatrun_Refines.thy ===== *)
theory Chatrun_Refines
  imports Chatrun_Spec Convo_Properties
begin

text \<open>
  Each operation of the run store is a sequence of the moves of \<open>Chatrun_Spec\<close>, on every branch and on
  every error, whatever the conversation store says in between. The caller's duties (\<open>call_ok\<close>) are the
  ones \<open>httpapi/simple_chat.go\<close>, \<open>plan_mode.go\<close> and \<open>question_mode.go\<close> meet: ids are new, a new run is running
  and, unless it is started to execute a plan, names none, a run is finished with a final status. The id of a run is the
  trace id of its request: it is new as long as no client repeats the trace id of an earlier request.
\<close>

section \<open>Calls\<close>

datatype chat_call =
    StartRun start_input
  | SaveDraft string string message gtime
  | FinalizeRun finalize_input gtime
  | AnswerQuestion question_answer_input gtime
  | AcceptAnswer string string string gtime gtime
  | CancelQuestion string string string int gtime gtime
  | ExecutePlan plan_execution_input gtime
  | CancelPlan string string string int gtime gtime
  | InterruptRuns gtime
  | ConvoCall convo_call

primrec chat_exec :: "text_case \<Rightarrow> chat_call \<Rightarrow> chat_memory \<Rightarrow> chat_memory" where
  "chat_exec tc (StartRun i) m = snd (chat_start i m)"
| "chat_exec tc (SaveDraft rid u msg t) m = snd (chat_save_draft rid u msg t m)"
| "chat_exec tc (FinalizeRun i t) m = snd (chat_finalize i t m)"
| "chat_exec tc (AnswerQuestion i t) m = snd (chat_start_question_answer i t m)"
| "chat_exec tc (AcceptAnswer rid qid u now t) m = snd (chat_accept_question_answer rid qid u now t m)"
| "chat_exec tc (CancelQuestion cid qid u v now t) m = snd (chat_cancel_question cid qid u v now t m)"
| "chat_exec tc (ExecutePlan i t) m = snd (chat_start_plan_execution i t m)"
| "chat_exec tc (CancelPlan cid pid u v now t) m = snd (chat_cancel_plan cid pid u v now t m)"
| "chat_exec tc (InterruptRuns t) m = snd (chat_interrupt_running t m)"
| "chat_exec tc (ConvoCall c) m = m\<lparr>cr_convo := convo_exec tc c (cr_convo m)\<rparr>"

definition fresh_run :: "chat_run \<Rightarrow> chat_memory \<Rightarrow> bool" where
  "fresh_run r m \<longleftrightarrow> mget (cr_runs m) (run_id r) = None \<and> run_status r = status_running"

definition new_run :: "chat_run \<Rightarrow> chat_memory \<Rightarrow> bool" where
  "new_run r m \<longleftrightarrow> fresh_run r m \<and> run_plan_id r = []"

definition new_plan_id :: "finalize_input \<Rightarrow> chat_memory \<Rightarrow> bool" where
  "new_plan_id i m \<longleftrightarrow> (case fi_plan_candidate i of None \<Rightarrow> True | Some c \<Rightarrow> mget (cr_plans m) (pc_id c) = None)"

definition new_question_id :: "finalize_input \<Rightarrow> chat_memory \<Rightarrow> bool" where
  "new_question_id i m \<longleftrightarrow>
     (case fi_question_candidate i of None \<Rightarrow> True | Some c \<Rightarrow> mget (cr_questions m) (qc_id c) = None)"

fun call_ok :: "chat_call \<Rightarrow> chat_memory \<Rightarrow> bool" where
  "call_ok (StartRun i) m = new_run (si_run i) m"
| "call_ok (FinalizeRun i t) m = (is_terminal (fi_status i) \<and> new_plan_id i m \<and> new_question_id i m)"
| "call_ok (AnswerQuestion i t) m = new_run (qi_run i) m"
| "call_ok (ExecutePlan i t) m = fresh_run (pi_run i) m"
| "call_ok (ConvoCall c) m = fresh_folder c (cr_convo m)"
| "call_ok _ m = True"

section \<open>The view of a store\<close>

lemma view_simps [simp]:
  "v_runs (view m) = mget (cr_runs m)" "v_plans (view m) = mget (cr_plans m)"
  "v_versions (view m) = mget0 0 (cr_versions m)" "v_questions (view m) = mget (cr_questions m)"
  by (simp_all add: view_def)

lemma view_eqI:
  "\<lbrakk>cr_runs m = cr_runs n; cr_plans m = cr_plans n; cr_versions m = cr_versions n; cr_questions m = cr_questions n\<rbrakk>
    \<Longrightarrow> view m = view n"
  by (simp add: view_def)

lemma view_convo [simp]: "view (m\<lparr>cr_convo := c\<rparr>) = view m"
  by (simp add: view_def)

lemma view_question_versions [simp]: "view (m\<lparr>cr_question_versions := c\<rparr>) = view m"
  by (simp add: view_def)

lemma view_put [simp]:
  "view (put_run k r m) = (view m)\<lparr>v_runs := (v_runs (view m))(k \<mapsto> r)\<rparr>"
  "view (put_plan k p m) = (view m)\<lparr>v_plans := (v_plans (view m))(k \<mapsto> p)\<rparr>"
  "view (put_question k q m) = (view m)\<lparr>v_questions := (v_questions (view m))(k \<mapsto> q)\<rparr>"
  by (simp_all add: view_def put_run_def put_plan_def put_question_def fun_eq_iff lookup_update)

lemma put_fields [simp]:
  "cr_runs (put_run k r m) = mput (cr_runs m) k r" "cr_plans (put_run k r m) = cr_plans m"
  "cr_questions (put_run k r m) = cr_questions m" "cr_versions (put_run k r m) = cr_versions m"
  "cr_convo (put_run k r m) = cr_convo m"
  "cr_runs (put_plan k p m) = cr_runs m" "cr_plans (put_plan k p m) = mput (cr_plans m) k p"
  "cr_questions (put_plan k p m) = cr_questions m" "cr_versions (put_plan k p m) = cr_versions m"
  "cr_convo (put_plan k p m) = cr_convo m"
  "cr_runs (put_question k q m) = cr_runs m" "cr_plans (put_question k q m) = cr_plans m"
  "cr_questions (put_question k q m) = mput (cr_questions m) k q" "cr_versions (put_question k q m) = cr_versions m"
  "cr_convo (put_question k q m) = cr_convo m"
  by (simp_all add: put_run_def put_plan_def put_question_def)

text \<open>Rewriting a message part touches the conversation store only.\<close>

lemma rewrite_parts_convo: "\<exists>c. snd (rewrite_parts cid u mid f m) = m\<lparr>cr_convo := c\<rparr>"
proof -
  have same: "m = m\<lparr>cr_convo := cr_convo m\<rparr>" by simp
  show ?thesis
    unfolding rewrite_parts_def by (auto split: sum.split option.split prod.split intro: same)
qed

lemma update_question_convo: "\<exists>c. snd (update_question_message_status q m) = m\<lparr>cr_convo := c\<rparr>"
  unfolding update_question_message_status_def Let_def by (rule rewrite_parts_convo)

lemma update_plan_convo: "\<exists>c. snd (update_plan_message_status p m) = m\<lparr>cr_convo := c\<rparr>"
proof (cases "mget (cr_runs m) (plan_source_run_id p)")
  case None
  then show ?thesis by (auto simp: update_plan_message_status_def intro: exI[of _ "cr_convo m"])
next
  case (Some r)
  then show ?thesis using rewrite_parts_convo by (simp add: update_plan_message_status_def)
qed

lemma update_question_fields [simp]:
  "cr_runs (snd (update_question_message_status q m)) = cr_runs m"
  "cr_plans (snd (update_question_message_status q m)) = cr_plans m"
  "cr_questions (snd (update_question_message_status q m)) = cr_questions m"
  "cr_versions (snd (update_question_message_status q m)) = cr_versions m"
  "view (snd (update_question_message_status q m)) = view m"
  using update_question_convo[of q m] by auto

lemma update_plan_fields [simp]:
  "cr_runs (snd (update_plan_message_status p m)) = cr_runs m"
  "cr_plans (snd (update_plan_message_status p m)) = cr_plans m"
  "cr_questions (snd (update_plan_message_status p m)) = cr_questions m"
  "cr_versions (snd (update_plan_message_status p m)) = cr_versions m"
  "view (snd (update_plan_message_status p m)) = view m"
  using update_plan_convo[of p m] by auto

lemma running_in_None: "running_in cid m = None \<longleftrightarrow> idle cid (view m)"
  unfolding running_in_def find_None_iff idle_def view_simps mvals_none by blast

lemma has_open_question_iff: "has_open_question cid m \<longleftrightarrow> \<not> no_open cid (view m)"
  unfolding has_open_question_def list_ex_iff no_open_def view_simps mvals_ex by blast

section \<open>Loops over a map\<close>

text \<open>
  A loop that overwrites the entries satisfying \<open>P\<close> by \<open>f\<close> and keeps an invariant \<open>I\<close> of the rest of
  the state turns the map into \<open>map_entries P f\<close>.
\<close>

lemma fold_entries:
  assumes "distinct (map fst es)" "I s"
    and step: "\<And>k x s. I s \<Longrightarrow> I (step (k, x) s) \<and> get (step (k, x) s) = (if P x then (get s)(k \<mapsto> f x) else get s)"
  shows "I (fold step es s) \<and> get (fold step es s) =
    (\<lambda>k. case map_of es k of None \<Rightarrow> get s k | Some x \<Rightarrow> if P x then Some (f x) else get s k)"
  using assms(1,2)
proof (induction es arbitrary: s)
  case Nil
  then show ?case by simp
next
  case (Cons e es)
  obtain k x where e: "e = (k, x)" by force
  from step[OF Cons.prems(2), of k x] have I: "I (step e s)"
    and g: "get (step e s) = (if P x then (get s)(k \<mapsto> f x) else get s)" by (simp_all add: e)
  have nk: "map_of es k = None" using Cons.prems(1) by (simp add: e map_of_eq_None_iff)
  from Cons.IH[OF _ I] Cons.prems(1) have IH: "I (fold step es (step e s))" "get (fold step es (step e s)) =
    (\<lambda>k. case map_of es k of None \<Rightarrow> get (step e s) k | Some x \<Rightarrow> if P x then Some (f x) else get (step e s) k)"
    by simp_all
  show ?case
    using IH nk by (auto simp: e g[unfolded e] fun_eq_iff split: option.split)
qed

lemma fold_map_entries:
  assumes "I s" "get s = mget M"
    and "\<And>k x s. I s \<Longrightarrow> I (step (k, x) s) \<and> get (step (k, x) s) = (if P x then (get s)(k \<mapsto> f x) else get s)"
  shows "I (fold step (mitems M) s)" "get (fold step (mitems M) s) = map_entries P f (mget M)"
proof -
  have d: "distinct (map fst (mitems M))" by simp
  have m: "map_of (mitems M) = mget M" by (simp add: DAList.lookup.rep_eq)
  note main = fold_entries[of "mitems M" I s step get P f, OF d assms(1) assms(3)]
  show "I (fold step (mitems M) s)" using main by blast
  show "get (fold step (mitems M) s) = map_entries P f (mget M)"
    using main by (auto simp: m assms(2) map_entries_def fun_eq_iff split: option.split)
qed

section \<open>Admitting runs\<close>

abbreviation reaches :: "chat_memory \<Rightarrow> chat_memory \<Rightarrow> bool" where
  "reaches m n \<equiv> chat_move\<^sup>*\<^sup>* (view m) (view n)"

lemma move_to: "chat_move (view m) w \<Longrightarrow> view n = w \<Longrightarrow> reaches m n"
  by auto

lemma stays: "view n = view m \<Longrightarrow> reaches m n"
  by simp

lemma new_run_not_executing: "run_plan_id r = [] \<Longrightarrow> \<not> executes r"
  by (simp add: executes_def)

lemma start_run_fields [simp]:
  "run_id (start_run r c) = run_id r" "run_status (start_run r c) = run_status r"
  "run_plan_id (start_run r c) = run_plan_id r" "run_conversation_id (start_run r c) = run_conversation_id r"
  "run_user_id (start_run r c) = run_user_id r" "run_client_request_id (start_run r c) = run_client_request_id r"
  by (simp_all add: start_run_def split: option.split)

text \<open>Inserting and upserting a message never fail.\<close>

lemma insert_message_Inr: "insert_message x c = (Inr (), inserted x c)"
  by (simp add: inserted_def insert_message_def Let_def)

lemma upsert_message_Inr: "upsert_message x c = (Inr (), upserted x c)"
  by (simp add: upserted_def upsert_message_def Let_def)

lemma start_admit_reaches:
  assumes "new_run r m" "no_open (run_conversation_id r) (view m)"
  shows "reaches m (snd (start_admit i c r m))"
proof (cases "upsert_conversation c (cr_convo m)")
  case (Pair res cm)
  let ?m = "m\<lparr>cr_convo := cm\<rparr>"
  show ?thesis
  proof (cases res)
    case (Inl e)
    with Pair show ?thesis by (simp add: start_admit_def)
  next
    case (Inr u)
    note up = Pair[unfolded Inr]
    show ?thesis
    proof (cases "running_in (run_conversation_id r) ?m")
      case (Some x)
      with up show ?thesis by (simp add: start_admit_def)
    next
      case None
      then have "idle (run_conversation_id r) (view m)" by (simp add: running_in_None)
      then have move: "chat_move (view m) ((view m)\<lparr>v_runs := (v_runs (view m))(run_id r \<mapsto> r)\<rparr>)"
        using assms new_run_not_executing[of r] by (intro admit) (simp_all add: new_run_def fresh_run_def)
      obtain cm' where ins: "insert_message (si_user_message i) cm = (Inr (), cm')"
        using insert_message_Inr by blast
      show ?thesis
        by (rule move_to[OF move]) (use up None ins in \<open>simp add: start_admit_def\<close>)
    qed
  qed
qed

lemma chat_start_reaches:
  assumes "new_run (si_run i) m"
  shows "reaches m (snd (chat_start i m))"
proof (cases "start_effective (si_conversation i) (cr_convo m)")
  case (Inr effective)
  let ?r = "start_run ((si_run i)\<lparr>run_interaction_mode := normalize_interaction_mode (run_interaction_mode (si_run i))\<rparr>) effective"
  have "new_run ?r m" using assms by (simp add: new_run_def fresh_run_def)
  then have "no_open (run_conversation_id (si_run i)) (view m) \<Longrightarrow> reaches m (snd (start_admit i effective ?r m))"
    by (intro start_admit_reaches) simp_all
  then show ?thesis using Inr
    by (auto simp: chat_start_def Let_def has_open_question_iff split: option.split)
qed (simp add: chat_start_def)

lemma chat_save_draft_reaches: "reaches m (snd (chat_save_draft rid u msg t m))"
proof (cases "mget (cr_runs m) rid")
  case (Some r)
  show ?thesis
  proof (cases "run_user_id r = u \<and> running r")
    case True
    then have "chat_move (view m) ((view m)\<lparr>v_runs := (v_runs (view m))(rid \<mapsto> r\<lparr>run_last_activity_at := t\<rparr>)\<rparr>)"
      using Some by (intro draft) simp_all
    then show ?thesis
      by (rule move_to) (use True Some in \<open>simp add: chat_save_draft_def upsert_message_Inr Let_def\<close>)
  qed (use Some in \<open>auto simp: chat_save_draft_def\<close>)
qed (simp add: chat_save_draft_def)

section \<open>Questions\<close>

lemma admit_answer_reaches:
  assumes "new_run (qi_run i) m" "mget (cr_questions m) k = Some q" "q_id q = k" "q_status q = question_pending"
    "q_conversation_id q = qi_conversation_id i" "idle (q_conversation_id q) (view m)"
  shows "reaches m (snd (admit_answer i t c q m))"
proof -
  let ?r = "answer_run i q" and ?now = "or_now (qi_answered_at i) t"
  let ?q = "answering_question i ?now (run_id ?r) q"
  have r: "run_id ?r = run_id (qi_run i)" "run_status ?r = run_status (qi_run i)"
    "run_plan_id ?r = run_plan_id (qi_run i)" "run_conversation_id ?r = qi_conversation_id i"
    by (simp_all add: answer_run_def)
  have move: "chat_move (view m) ((view m)\<lparr>v_runs := (v_runs (view m))(run_id ?r \<mapsto> ?r),
      v_questions := (v_questions (view m))(k \<mapsto> ?q)\<rparr>)"
    using assms r new_run_not_executing[of ?r] by (intro answer) (simp_all add: new_run_def fresh_run_def)
  obtain cm where ins: "insert_message (qi_user_message i) (cr_convo m) = (Inr (), cm)"
    using insert_message_Inr by blast
  let ?m = "put_question k ?q ((put_run (run_id ?r) ?r m)\<lparr>cr_convo := cm\<rparr>)"
  have qid: "q_id ?q = k" using assms(3) by (simp add: answering_question_def)
  have "snd (admit_answer i t c q m) = snd (update_question_message_status ?q ?m)"
    using ins qid by (simp add: admit_answer_def Let_def split: prod.split option.split)
  then have "view (snd (admit_answer i t c q m)) = view ?m" by simp
  then show ?thesis by (intro move_to[OF move]) simp
qed

lemma chat_answer_reaches:
  assumes "new_run (qi_run i) m" "view_ok (view m)"
  shows "reaches m (snd (chat_start_question_answer i t m))"
proof -
  have first: "reaches m (snd (answer_first_time i t c m))" for c
  proof (cases "mget (cr_questions m) (qi_question_id i)")
    case (Some q)
    have "q_id q = qi_question_id i" using questions_okD(1)[OF view_okD(2)[OF assms(2)]] Some by simp
    then show ?thesis
      using Some assms(1) admit_answer_reaches[OF assms(1) Some, of t c]
      by (auto simp: answer_first_time_def running_in_None split: option.split)
  qed (simp add: answer_first_time_def)
  then show ?thesis
    by (auto simp: chat_start_question_answer_def split: sum.split option.split)
qed

lemma chat_accept_reaches:
  assumes "view_ok (view m)"
  shows "reaches m (snd (chat_accept_question_answer rid qid u now t m))"
proof -
  { fix r q assume r: "mget (cr_runs m) rid = Some r" and q: "mget (cr_questions m) qid = Some q" "q_status q = question_answering"
    let ?q = "q\<lparr>q_status := question_answered, q_updated_at := or_now now t\<rparr>"
    have qid: "q_id q = qid" using questions_okD(1)[OF view_okD(2)[OF assms]] q(1) by simp
    have move: "reaches m (put_question qid ?q m)"
      using accept[of "view m" qid q "or_now now t"] q by (intro move_to) (simp_all add: settle_question_def)
    have undo: "view (put_question qid q (snd (update_question_message_status ?q (put_question qid ?q m)))) = view m"
      using q by (simp add: view_def fun_eq_iff lookup_update)
    have "reaches m (snd (let q' = ?q; previous = mget0 question_zero (cr_questions m) (q_id q');
           (e, m') = update_question_message_status q' (put_question (q_id q') q' m)
       in case e of None \<Rightarrow> (Inr q', m') | Some err \<Rightarrow> (Inl (ConvoFailed err), put_question (q_id q') previous m')))"
    proof (cases "update_question_message_status ?q (put_question qid ?q m)")
      case (Pair e m')
      then have m': "m' = snd (update_question_message_status ?q (put_question qid ?q m))" by simp
      have "view m' = view (put_question qid ?q m)" unfolding m' by (rule update_question_fields(5))
      moreover have "view (put_question qid q m') = view m" using undo m' by simp
      ultimately show ?thesis
        using Pair qid q move by (cases e) (simp_all add: mget0_def)
    qed }
  note change = this
  show ?thesis
  proof (cases "mget (cr_runs m) rid")
    case (Some r)
    show ?thesis
    proof (cases "mget (cr_questions m) qid")
      case (Some q)
      with \<open>mget (cr_runs m) rid = Some r\<close> change[of r q] show ?thesis
        by (simp add: chat_accept_question_answer_def)
    qed (use Some in \<open>simp add: chat_accept_question_answer_def\<close>)
  qed (simp add: chat_accept_question_answer_def)
qed

lemma chat_cancel_question_reaches:
  assumes "view_ok (view m)"
  shows "reaches m (snd (chat_cancel_question cid qid u v now t m))"
proof (cases "mget (cr_questions m) qid")
  case (Some q)
  let ?q = "q\<lparr>q_status := question_cancelled, q_updated_at := or_now now t\<rparr>"
  have qid: "q_id q = qid" using questions_okD(1)[OF view_okD(2)[OF assms]] Some by simp
  have move: "reaches m (put_question qid ?q m)" if "q_status q = question_pending"
    using cancel_question[of "view m" qid q "or_now now t"] Some that by (intro move_to) simp_all
  have "view (snd (case update_question_message_status ?q (put_question qid ?q m) of
      (e, m) \<Rightarrow> (case e of Some err \<Rightarrow> (Inl (ConvoFailed err), m) | None \<Rightarrow> (Inr ?q, m)))) = view (put_question qid ?q m)"
    using update_question_fields(5)[of ?q "put_question qid ?q m"]
    by (cases "update_question_message_status ?q (put_question qid ?q m)") (auto split: option.split)
  with move Some qid show ?thesis
    by (simp add: chat_cancel_question_def Let_def)
qed (simp add: chat_cancel_question_def)

section \<open>Plans\<close>

lemma chat_cancel_plan_reaches:
  assumes "view_ok (view m)"
  shows "reaches m (snd (chat_cancel_plan cid pid u v now t m))"
proof (cases "mget (cr_plans m) pid")
  case (Some p)
  let ?p = "p\<lparr>plan_status := plan_cancelled, plan_updated_at := or_now now t\<rparr>"
  have pid: "plan_id p = pid" using plans_okD(1)[OF view_okD(3)[OF assms]] Some by simp
  have move: "reaches m (put_plan pid ?p m)" if "plan_usable p"
    using cancel_plan[of "view m" pid p "or_now now t"] Some that by (intro move_to) simp_all
  have "view (snd (case update_plan_message_status ?p (put_plan pid ?p m) of
      (e, m) \<Rightarrow> (case e of Some err \<Rightarrow> (Inl (ConvoFailed err), m) | None \<Rightarrow> (Inr ?p, m)))) = view (put_plan pid ?p m)"
    using update_plan_fields(5)[of ?p "put_plan pid ?p m"]
    by (cases "update_plan_message_status ?p (put_plan pid ?p m)") (auto split: option.split)
  with move Some pid show ?thesis
    by (simp add: chat_cancel_plan_def Let_def)
qed (simp add: chat_cancel_plan_def)

lemma approve_plan_id [simp]: "plan_id (approve_plan u t p) = plan_id p"
  by (simp add: approve_plan_def Let_def)

lemma execute_first_time_reaches:
  assumes "fresh_run (pi_run i) m" "view_ok (view m)"
  shows "reaches m (snd (execute_first_time i t c m))"
proof (cases "mget (cr_plans m) (pi_plan_id i)")
  case (Some p)
  let ?p = "approve_plan (pi_user_id i) (or_now (pi_approved_at i) t) p"
  let ?r = "execution_run i ?p"
  let ?m = "put_run (run_id ?r) ?r (put_plan (plan_id ?p) ?p m)"
  have pid: "plan_id p = pi_plan_id i" using plans_okD(1)[OF view_okD(3)[OF assms(2)]] Some by simp
  have r: "run_id ?r = run_id (pi_run i)" "run_status ?r = run_status (pi_run i)" "run_plan_id ?r = pi_plan_id i"
    "run_conversation_id ?r = pi_conversation_id i" "run_interaction_mode ?r = mode_execute"
    by (simp_all add: execution_run_def pid)
  have "reaches m (snd (update_plan_message_status ?p ?m))"
    if ok: "plan_conversation_id p = pi_conversation_id i" "mget0 0 (cr_versions m) (pi_conversation_id i) = plan_version p"
      "plan_usable p" "\<not> has_open_question (pi_conversation_id i) m" "running_in (pi_conversation_id i) m = None"
  proof -
    have "chat_move (view m) ((view m)\<lparr>v_runs := (v_runs (view m))(run_id ?r \<mapsto> ?r), v_plans := (v_plans (view m))(pi_plan_id i \<mapsto> ?p)\<rparr>)"
      using ok assms(1) Some r by (intro execute) (simp_all add: fresh_run_def running_in_None has_open_question_iff)
    then show ?thesis by (rule move_to) (simp add: pid)
  qed
  then show ?thesis using Some by (simp add: execute_first_time_def Let_def)
qed (simp add: execute_first_time_def)

lemma chat_execute_reaches:
  "fresh_run (pi_run i) m \<Longrightarrow> view_ok (view m) \<Longrightarrow> reaches m (snd (chat_start_plan_execution i t m))"
  using execute_first_time_reaches by (auto simp: chat_start_plan_execution_def split: sum.split option.split)

section \<open>Finalize\<close>

lemma finish_run_fields [simp]:
  "run_id (finish_run i now r) = run_id r" "run_status (finish_run i now r) = fi_status i"
  "run_conversation_id (finish_run i now r) = run_conversation_id r" "same_run r (finish_run i now r)"
  by (simp_all add: finish_run_def same_run_def)

lemma settle_questions_effect:
  assumes "settle_questions a now z m = (z', m')"
  shows "view m' = settle_all (run_id (fz_run z)) a now (view m)" "fz_run z' = fz_run z" "fz_message z' = fz_message z"
    "cr_runs m' = cr_runs m" "cr_plans m' = cr_plans m" "cr_versions m' = cr_versions m"
proof -
  let ?I = "\<lambda>s :: finalizing \<times> chat_memory. fz_run (fst s) = fz_run z \<and> fz_message (fst s) = fz_message z \<and>
    cr_runs (snd s) = cr_runs m \<and> cr_plans (snd s) = cr_plans m \<and> cr_versions (snd s) = cr_versions m"
  let ?get = "\<lambda>s :: finalizing \<times> chat_memory. mget (cr_questions (snd s))"
  have step: "?I (settle_step a now (k, q) s) \<and> ?get (settle_step a now (k, q) s) =
      (if being_answered_by (run_id (fz_run z)) q then (?get s)(k \<mapsto> settle_question a now q) else ?get s)"
    if "?I s" for k q s
    using that by (cases s) (auto simp: settle_step_def Let_def fun_eq_iff lookup_update)
  note main = fold_map_entries[of ?I "(z, m)" ?get "cr_questions m" "settle_step a now", OF _ _ step]
  have s: "fold (settle_step a now) (mitems (cr_questions m)) (z, m) = (z', m')"
    using assms by (simp add: settle_questions_def)
  have I: "?I (z', m')" using main(1) unfolding s by simp
  have Q: "mget (cr_questions m') = map_entries (being_answered_by (run_id (fz_run z))) (settle_question a now) (mget (cr_questions m))"
    using main(2) unfolding s by simp
  from I show "fz_run z' = fz_run z" "fz_message z' = fz_message z"
    "cr_runs m' = cr_runs m" "cr_plans m' = cr_plans m" "cr_versions m' = cr_versions m" by simp_all
  from I Q show "view m' = settle_all (run_id (fz_run z)) a now (view m)"
    by (simp add: view_def settle_all_def)
qed

text \<open>Where \<open>Finalize\<close> stands between two stages: the run \<open>k\<close> is still running in the store.\<close>

definition in_stage :: "string \<Rightarrow> chat_run \<Rightarrow> finalizing \<Rightarrow> chat_memory \<Rightarrow> bool" where
  "in_stage k r z m \<longleftrightarrow> view_ok (view m) \<and> mget (cr_runs m) k = Some r \<and> running r \<and> same_run r (fz_run z) \<and>
     is_terminal (run_status (fz_run z)) \<and>
     (\<forall>j q. mget (cr_questions m) j = Some q \<longrightarrow> \<not> being_answered_by k q)"

lemma in_stageD:
  assumes "in_stage k r z m"
  shows "view_ok (view m)" "mget (cr_runs m) k = Some r" "running r" "same_run r (fz_run z)"
    "is_terminal (run_status (fz_run z))"
    "mget (cr_questions m) j = Some q \<Longrightarrow> \<not> being_answered_by k q"
  using assms unfolding in_stage_def by blast+

lemma settle_stage:
  assumes "view_ok (view m)" "mget (cr_runs m) k = Some r" "running r" "is_terminal (fi_status i)" "new_question_id i m"
    "settle_questions a now z m = (z', m')" "fz_run z = finish_run i now r"
  shows "reaches m m'" "in_stage k r z' m'" "new_question_id i m'" "cr_plans m' = cr_plans m"
proof -
  note eff = settle_questions_effect[OF assms(6)]
  have k: "run_id r = k" using runs_okD(1)[OF view_okD(1)[OF assms(1)]] assms(2) by simp
  have "chat_move (view m) (settle_all k a now (view m))" using assms(2,3) by (intro settle) simp_all
  then show r: "reaches m m'" using eff(1) assms(7) k by simp
  have Q: "mget (cr_questions m') = map_entries (being_answered_by k) (settle_question a now) (mget (cr_questions m))"
    using eff(1) assms(7) k by (simp add: view_def settle_all_def)
  have answered: "\<not> being_answered_by k q" if "mget (cr_questions m') j = Some q" for j q
  proof -
    from that obtain p where "q = (if being_answered_by k p then settle_question a now p else p)"
      unfolding Q map_entries_Some by blast
    then show ?thesis by (cases "being_answered_by k p") (simp_all add: being_answered_by_def)
  qed
  have "mget (cr_questions m') c = None" if "mget (cr_questions m) c = None" for c
    using that unfolding Q by (simp add: map_entries_def)
  then show "new_question_id i m'"
    using assms(5) by (auto simp: new_question_id_def split: option.splits)
  show "cr_plans m' = cr_plans m" by (rule eff(5))
  from answered show "in_stage k r z' m'"
    using assms(2-4,7) eff chat_moves_ok[OF r assms(1)] by (auto simp: in_stage_def)
qed

lemma supersede_effect:
  assumes "fold (supersede_step cid now) (mitems (cr_plans m)) (z, m) = (z', m')"
  shows "view m' = (view m)\<lparr>v_plans := supersede_all cid now (v_plans (view m))\<rparr>" "fz_run z' = fz_run z"
    "cr_runs m' = cr_runs m" "cr_questions m' = cr_questions m" "cr_versions m' = cr_versions m"
    "mget (cr_plans m') = supersede_all cid now (mget (cr_plans m))"
proof -
  let ?I = "\<lambda>s :: finalizing \<times> chat_memory. fz_run (fst s) = fz_run z \<and>
    cr_runs (snd s) = cr_runs m \<and> cr_questions (snd s) = cr_questions m \<and> cr_versions (snd s) = cr_versions m"
  let ?get = "\<lambda>s :: finalizing \<times> chat_memory. mget (cr_plans (snd s))"
  let ?P = "\<lambda>p. plan_conversation_id p = cid \<and> plan_usable p"
  let ?f = "\<lambda>p. p\<lparr>plan_status := plan_superseded, plan_updated_at := now\<rparr>"
  have step: "?I (supersede_step cid now (k, q) s) \<and> ?get (supersede_step cid now (k, q) s) =
      (if ?P q then (?get s)(k \<mapsto> ?f q) else ?get s)" if "?I s" for k q s
    using that by (cases s) (auto simp: supersede_step_def Let_def fun_eq_iff lookup_update)
  note main = fold_map_entries[of ?I "(z, m)" ?get "cr_plans m" "supersede_step cid now", OF _ _ step]
  have I: "?I (z', m')" using main(1) unfolding assms by simp
  show Q: "mget (cr_plans m') = supersede_all cid now (mget (cr_plans m))"
    using main(2) unfolding assms supersede_all_def by simp
  from I show "fz_run z' = fz_run z" "cr_runs m' = cr_runs m" "cr_questions m' = cr_questions m"
    "cr_versions m' = cr_versions m" by simp_all
  from I Q show "view m' = (view m)\<lparr>v_plans := supersede_all cid now (v_plans (view m))\<rparr>"
    by (simp add: view_def)
qed

lemma adopt_plan_stage:
  assumes "in_stage k r z m" "run_interaction_mode r = mode_plan" "fi_plan_candidate i = Some c" "pc_id c \<noteq> []"
    "adopt_plan c now z m = (z', m')" "new_plan_id i m"
  shows "reaches m m'" "in_stage k r z' m'" "cr_questions m' = cr_questions m"
proof -
  note st = in_stageD[OF assms(1)]
  let ?cid = "run_conversation_id (fz_run z)"
  have cid: "?cid = run_conversation_id r" using st(4) by (simp add: same_run_def)
  obtain z1 m1 where sup: "fold (supersede_step ?cid now) (mitems (cr_plans m)) (z, m) = (z1, m1)" by force
  note eff = supersede_effect[OF sup]
  let ?v = "mget0 0 (cr_versions m) ?cid + 1" and ?p = "new_plan c (fz_run z) (mget0 0 (cr_versions m) ?cid + 1) now"
  have pid: "plan_id ?p = pc_id c" by (simp add: new_plan_def)
  have m': "m' = put_plan (pc_id c) ?p (m1\<lparr>cr_versions := mput (cr_versions m1) ?cid ?v\<rparr>)"
    and z': "fz_run z' = (fz_run z)\<lparr>run_plan_id := pc_id c\<rparr>"
    using assms(5) eff(2) by (auto simp: adopt_plan_def sup eff(5) pid Let_def)
  have fresh: "mget (cr_plans m) (pc_id c) = None"
    using assms(3,6) by (simp add: new_plan_id_def)
  have "view m' = (view m)\<lparr>v_versions := (v_versions (view m))(?cid := v_versions (view m) ?cid + 1),
      v_plans := (supersede_all ?cid now (v_plans (view m)))(pc_id c \<mapsto> new_plan c (fz_run z) (v_versions (view m) ?cid + 1) now)\<rparr>"
    unfolding m' using eff by (simp add: view_def fun_eq_iff lookup_update mget0_def)
  then have "chat_move (view m) (view m')"
    using st assms(2,4) cid fresh by (simp only:, intro adopt_plan[of _ k r]) simp_all
  then show r: "reaches m m'" by blast
  have same: "same_run r (fz_run z')" using st(4) assms(2) by (simp add: same_run_def z')
  show "in_stage k r z' m'"
    using st chat_moves_ok[OF r st(1)] same eff by (simp add: in_stage_def m' z')
  show "cr_questions m' = cr_questions m" using eff by (simp add: m')
qed

lemma finalize_plan_stage:
  assumes "in_stage k r z m" "new_plan_id i m" "finalize_plan i now z m = (res, m')"
  shows "reaches m m' \<and> cr_questions m' = cr_questions m \<and> (\<forall>z'. res = Inr z' \<longrightarrow> in_stage k r z' m')"
proof (cases "fi_plan_candidate i")
  case None
  then show ?thesis using assms(1,3) by (auto simp: finalize_plan_def)
next
  case (Some c)
  have mode: "run_interaction_mode (fz_run z) = run_interaction_mode r"
    using in_stageD(4)[OF assms(1)] by (simp add: same_run_def)
  obtain z1 m1 where a: "adopt_plan c now z m = (z1, m1)" by force
  show ?thesis
  proof (cases "run_interaction_mode r = mode_plan \<and> pc_id c \<noteq> []")
    case True
    then have "reaches m m1" "in_stage k r z1 m1" "cr_questions m1 = cr_questions m"
      using adopt_plan_stage[OF assms(1) _ Some _ a assms(2)] by auto
    then show ?thesis using assms(1,3) Some a by (auto simp: finalize_plan_def split: if_splits)
  next
    case False
    then show ?thesis using assms(1,3) Some by (auto simp: finalize_plan_def mode split: if_splits)
  qed
qed

lemma adopt_question_stage:
  assumes "in_stage k r z m" "fi_question_candidate i = Some c" "new_question_id i m"
    "\<not> has_open_question (run_conversation_id r) m" "adopt_question c now z m = (z', m')"
  shows "reaches m m' \<and> in_stage k r z' m'"
proof -
  note st = in_stageD[OF assms(1)]
  have cid: "run_conversation_id (fz_run z) = run_conversation_id r" using st(4) by (simp add: same_run_def)
  let ?v = "mget0 0 (cr_question_versions m) (run_conversation_id r) + 1"
  let ?q = "new_question c (fz_run z) ?v now"
  let ?m = "put_question (qc_id c) ?q (m\<lparr>cr_question_versions := mput (cr_question_versions m) (run_conversation_id r) ?v\<rparr>)"
  have qid: "q_id ?q = qc_id c" by (simp add: new_question_def)
  have m': "m' = ?m" and z': "fz_run z' = fz_run z"
    using assms(5) qid by (auto simp: adopt_question_def cid Let_def)
  have "mget (cr_questions m) (qc_id c) = None" using assms(2,3) by (simp add: new_question_id_def)
  then have "chat_move (view m) ((view m)\<lparr>v_questions := (v_questions (view m))(qc_id c \<mapsto> ?q)\<rparr>)"
    using st assms(4) cid by (intro adopt_question[of _ k r]) (simp_all add: has_open_question_iff)
  then have reach: "reaches m m'" by (rule move_to) (simp add: m')
  have "\<not> being_answered_by k q" if "mget (cr_questions m') j = Some q" for j q
  proof (cases "j = qc_id c")
    case True
    with that have "q = ?q" by (simp add: m' lookup_update)
    then show ?thesis by (simp add: being_answered_by_def new_question_def)
  next
    case False
    with that st(6)[of j q] show ?thesis by (simp add: m' lookup_update)
  qed
  with reach chat_moves_ok[OF reach st(1)] st z' show ?thesis by (simp add: in_stage_def m')
qed

lemma finalize_question_stage:
  assumes "in_stage k r z m" "new_question_id i m" "finalize_question i now z m = (res, m')"
  shows "reaches m m' \<and> (\<forall>z'. res = Inr z' \<longrightarrow> in_stage k r z' m')"
proof (cases "fi_question_candidate i")
  case None
  then show ?thesis using assms by (auto simp: finalize_question_def)
next
  case (Some c)
  have cid: "run_conversation_id (fz_run z) = run_conversation_id r"
    using in_stageD(4)[OF assms(1)] by (simp add: same_run_def)
  obtain z1 m1 where a: "adopt_question c now z m = (z1, m1)" by force
  show ?thesis
    using assms adopt_question_stage[OF assms(1) Some assms(2) _ a] Some a
    by (auto simp: finalize_question_def cid split: if_splits)
qed

lemma executes_same: "same_run r r' \<Longrightarrow> executes r' = executes r"
  by (auto simp: same_run_def executes_def)

lemma finalize_finish:
  assumes "in_stage k r z m" "finalize_execution i now z m = (res, m1)"
  shows "\<exists>z'. res = Inr z' \<and> fz_run z' = fz_run z \<and> reaches m (put_run k (fz_run z) m1)"
proof -
  note st = in_stageD[OF assms(1)]
  have answered: "\<And>j q. v_questions (view m) j = Some q \<Longrightarrow> \<not> being_answered_by k q" using st(6) by simp
  show ?thesis
  proof (cases "executes r")
    case False
    then have "\<not> executes (fz_run z)" using executes_same[OF st(4)] by simp
    then have eff: "res = Inr z" "m1 = m" using assms(2) by (auto simp: finalize_execution_def executes_def)
    have "chat_move (view m) ((view m)\<lparr>v_runs := (v_runs (view m))(k \<mapsto> fz_run z)\<rparr>)"
      using st False answered by (intro finish) simp_all
    then show ?thesis using eff by (intro exI[of _ z]) (simp add: move_to)
  next
    case True
    then have ex: "executes (fz_run z)" "run_plan_id (fz_run z) = run_plan_id r"
      using executes_same[OF st(4)] st(4) by (auto simp: executes_def same_run_def)
    obtain p where p: "mget (cr_plans m) (run_plan_id r) = Some p" "plan_status p = plan_executing"
      using plans_okD(7)[OF view_okD(3)[OF st(1)], of k r] st True by auto
    let ?p = "p\<lparr>plan_status := executed_status (fi_status i), plan_updated_at := now\<rparr>"
    have pid: "plan_id ?p = run_plan_id r" using plans_okD(1)[OF view_okD(3)[OF st(1)]] p(1) by simp
    have eff: "res = Inr (z\<lparr>fz_plan := Some ?p\<rparr>)" "m1 = snd (update_plan_message_status ?p (put_plan (run_plan_id r) ?p m))"
      using assms(2) ex p pid by (auto simp: finalize_execution_def executes_def Let_def)
    have "chat_move (view m) ((view m)\<lparr>v_runs := (v_runs (view m))(k \<mapsto> fz_run z),
        v_plans := (v_plans (view m))(run_plan_id r \<mapsto> ?p)\<rparr>)"
      using st True answered p by (intro finish_plan) simp_all
    then have "reaches m (put_run k (fz_run z) m1)"
      unfolding eff(2) by (rule move_to) simp
    then show ?thesis using eff(1) by simp
  qed
qed

lemma and_then_reaches:
  assumes "reaches m (snd res)" "\<And>x. fst res = Inr x \<Longrightarrow> reaches (snd res) (snd (f x (snd res)))"
  shows "reaches m (snd (and_then res f))"
proof (cases res)
  case (Pair a b)
  show ?thesis
  proof (cases a)
    case (Inr x)
    with Pair assms show ?thesis by (auto simp: and_then_def intro: rtranclp_trans)
  qed (use Pair assms(1) in \<open>simp add: and_then_def\<close>)
qed

lemma finalize_publish_view: "view (snd (finalize_publish i now z m)) = view m"
  by (auto simp: finalize_publish_def Let_def upsert_message_Inr split: option.split)

lemma finalize_running_reaches:
  assumes "view_ok (view m)" "mget (cr_runs m) (fi_run_id i) = Some r" "running r" "is_terminal (fi_status i)"
    "new_plan_id i m" "new_question_id i m"
  shows "reaches m (snd (finalize_running i now r m))"
proof -
  let ?z = "\<lparr>fz_run = finish_run i now r, fz_message = fi_assistant_message i, fz_plan = None, fz_question = None,
      fz_answered = None, fz_restored = None, fz_superseded = []\<rparr>" and ?k = "fi_run_id i"
  obtain z0 m0 where s: "settle_questions (fi_runtime_accepted i) now ?z m = (z0, m0)" by force
  note st0 = settle_stage[OF assms(1-4,6) s, simplified]
  obtain r1 m1 where p: "finalize_plan i now z0 m0 = (r1, m1)" by force
  have "new_plan_id i m0" using assms(5) unfolding new_plan_id_def st0(4) .
  note st1 = finalize_plan_stage[OF st0(2) this p]
  have new1: "new_question_id i m1" 
  proof -
    have "cr_questions m1 = cr_questions m0" using st1 by blast
    with st0(3) show ?thesis unfolding new_question_id_def by (cases "fi_question_candidate i") simp_all
  qed
  have step2: "reaches m1 (snd (finalize_question i now z1 m1)) \<and>
      (\<forall>z2. fst (finalize_question i now z1 m1) = Inr z2 \<longrightarrow> in_stage ?k r z2 (snd (finalize_question i now z1 m1)))"
    if "r1 = Inr z1" for z1
    using finalize_question_stage[of ?k r z1 m1 i now "fst (finalize_question i now z1 m1)" "snd (finalize_question i now z1 m1)"]
      st1 that new1 by simp
  let ?s2 = "and_then (r1, m1) (finalize_question i now)"
  have to2: "reaches m1 (snd ?s2)"
    using step2 by (cases r1) (simp_all add: and_then_def)
  have in2: "in_stage ?k r z2 (snd ?s2)" if "fst ?s2 = Inr z2" for z2
    using step2 that by (cases r1) (simp_all add: and_then_def)
  have fin: "reaches n (snd (and_then (finalize_execution i now z2 n) (\<lambda>z m. (Inr z, put_run ?k (fz_run z) m))))"
    if "in_stage ?k r z2 n" for z2 n
  proof -
    obtain res n1 where e: "finalize_execution i now z2 n = (res, n1)" by force
    from finalize_finish[OF that e] show ?thesis by (auto simp: e and_then_def)
  qed
  have "reaches m1 (snd (and_then ?s2 (\<lambda>z m. and_then (finalize_execution i now z m)
      (\<lambda>z m. (Inr z, put_run ?k (fz_run z) m)))))"
    by (rule and_then_reaches[OF to2]) (rule fin[OF in2])
  moreover have "reaches m m1" using st0(1) st1 by (meson rtranclp_trans)
  ultimately show ?thesis
    unfolding finalize_running_def Let_def s prod.case p by (meson rtranclp_trans)
qed

lemma chat_finalize_reaches:
  assumes "view_ok (view m)" "is_terminal (fi_status i)" "new_plan_id i m" "new_question_id i m"
  shows "reaches m (snd (chat_finalize i t m))"
proof (cases "mget (cr_runs m) (fi_run_id i)")
  case (Some r)
  show ?thesis
  proof (cases "run_user_id r \<noteq> fi_user_id i \<or> is_terminal (run_status r)")
    case True
    with Some show ?thesis by (auto simp: chat_finalize_def)
  next
    case False
    then have "running r" using runs_okD(3)[OF view_okD(1)[OF assms(1)]] Some by auto
    then have "reaches m (snd (and_then (finalize_running i now r m) (finalize_publish i now)))" for now
      using finalize_running_reaches[OF assms(1) Some _ assms(2-4)] finalize_publish_view
      by (intro and_then_reaches) simp_all
    with Some False show ?thesis by (simp add: chat_finalize_def Let_def)
  qed
qed (simp add: chat_finalize_def)

section \<open>Restart\<close>

lemma interrupt_questions_effect:
  assumes "m' = fold (interrupt_question rid now) (mitems (cr_questions m)) m"
  shows "cr_runs m' = cr_runs m" "cr_plans m' = cr_plans m" "cr_versions m' = cr_versions m"
    "mget (cr_questions m') = map_entries (being_answered_by rid) (settle_question True now) (mget (cr_questions m))"
proof -
  let ?I = "\<lambda>s. cr_runs s = cr_runs m \<and> cr_plans s = cr_plans m \<and> cr_versions s = cr_versions m"
  have step: "?I (interrupt_question rid now (k, q) s) \<and> mget (cr_questions (interrupt_question rid now (k, q) s)) =
      (if being_answered_by rid q then (mget (cr_questions s))(k \<mapsto> settle_question True now q) else mget (cr_questions s))"
    if "?I s" for k q s
    using that by (auto simp: interrupt_question_def Let_def fun_eq_iff lookup_update)
  note main = fold_map_entries[of ?I m "\<lambda>s. mget (cr_questions s)" "cr_questions m" "interrupt_question rid now", OF _ _ step]
  show "cr_runs m' = cr_runs m" "cr_plans m' = cr_plans m" "cr_versions m' = cr_versions m"
    "mget (cr_questions m') = map_entries (being_answered_by rid) (settle_question True now) (mget (cr_questions m))"
    using main unfolding assms by simp_all
qed

lemma interrupt_run_reaches:
  assumes "view_ok (view m)" "mget (cr_runs m) k = Some r"
  shows "reaches m (snd (interrupt_run now (k, r) (n, m))) \<and>
    (\<forall>j. j \<noteq> k \<longrightarrow> mget (cr_runs (snd (interrupt_run now (k, r) (n, m)))) j = mget (cr_runs m) j)"
proof (cases "running r")
  case True
  let ?r = "r\<lparr>run_status := status_interrupted, run_error_code := ''GATEWAY_RESTARTED'',
      run_completed_at := Some now, run_last_activity_at := now\<rparr>"
  let ?m1 = "put_run k ?r m"
  let ?m2 = "interrupt_plan ?r now ?m1"
  define m3 where "m3 = fold (interrupt_question (run_id r) now) (mitems (cr_questions ?m2)) ?m2"
  note eff = interrupt_questions_effect[OF m3_def]
  have res: "snd (interrupt_run now (k, r) (n, m)) = m3"
    using True by (simp add: interrupt_run_def Let_def m3_def)
  have k: "run_id r = k" using runs_okD(1)[OF view_okD(1)[OF assms(1)]] assms(2) by simp
  have same: "same_run r ?r" "is_terminal (run_status ?r)" by (simp_all add: same_run_def is_terminal_def)
  let ?w = "settle_all k True now (view m)"
  have settled: "chat_move (view m) ?w" using assms(2) True by (intro settle) simp_all
  have answered: "\<not> being_answered_by k q" if q: "v_questions ?w j = Some q" for j q
  proof -
    from q have "map_entries (being_answered_by k) (settle_question True now) (mget (cr_questions m)) j = Some q"
      by (simp add: settle_all_def)
    then obtain p where "q = (if being_answered_by k p then settle_question True now p else p)"
      unfolding map_entries_Some by blast
    then show ?thesis by (cases "being_answered_by k p") (simp_all add: being_answered_by_def)
  qed
  have w: "v_runs ?w = mget (cr_runs m)" "v_plans ?w = mget (cr_plans m)" by (simp_all add: settle_all_def)
  show ?thesis
  proof (cases "executes r")
    case False
    then have m2: "?m2 = ?m1" by (auto simp: interrupt_plan_def executes_def)
    have "chat_move ?w (?w\<lparr>v_runs := (v_runs ?w)(k \<mapsto> ?r)\<rparr>)"
      using assms(2) True same False answered w by (intro finish) simp_all
    moreover have "view m3 = ?w\<lparr>v_runs := (v_runs ?w)(k \<mapsto> ?r)\<rparr>"
      using eff k by (simp add: view_def settle_all_def m2 fun_eq_iff lookup_update)
    ultimately show ?thesis using settled eff res by (auto simp: m2 lookup_update)
  next
    case ex: True
    obtain p where p: "mget (cr_plans m) (run_plan_id r) = Some p" "plan_status p = plan_executing"
      using plans_okD(7)[OF view_okD(3)[OF assms(1)], of k r] assms(2) True ex by auto
    let ?p = "p\<lparr>plan_status := executed_status status_interrupted, plan_updated_at := now\<rparr>"
    have pid: "plan_id p = run_plan_id r" using plans_okD(1)[OF view_okD(3)[OF assms(1)]] p(1) by simp
    have m2: "?m2 = snd (update_plan_message_status ?p (put_plan (run_plan_id r) ?p ?m1))"
      using ex p pid by (simp add: interrupt_plan_def executes_def mget0_def executed_status_def Let_def)
    have "chat_move ?w (?w\<lparr>v_runs := (v_runs ?w)(k \<mapsto> ?r), v_plans := (v_plans ?w)(run_plan_id r \<mapsto> ?p)\<rparr>)"
      using assms(2) True same ex answered p w by (intro finish_plan) simp_all
    moreover have "view m3 = ?w\<lparr>v_runs := (v_runs ?w)(k \<mapsto> ?r), v_plans := (v_plans ?w)(run_plan_id r \<mapsto> ?p)\<rparr>"
      using eff k by (simp add: view_def settle_all_def m2 fun_eq_iff lookup_update)
    ultimately show ?thesis using settled eff res by (auto simp: m2 lookup_update)
  qed
qed (simp add: interrupt_run_def)

lemma interrupt_all_reaches:
  assumes "view_ok (view m)" "distinct (map fst es)" "\<And>k r. (k, r) \<in> set es \<Longrightarrow> mget (cr_runs m) k = Some r"
  shows "reaches m (snd (fold (interrupt_run now) es (n, m)))"
  using assms
proof (induction es arbitrary: n m)
  case (Cons e es)
  obtain k r where e: "e = (k, r)" by force
  obtain n1 m1 where s: "interrupt_run now (k, r) (n, m) = (n1, m1)" by force
  have r: "mget (cr_runs m) k = Some r" using Cons.prems(3) by (simp add: e)
  from interrupt_run_reaches[OF Cons.prems(1) r, of now n] s
  have one: "reaches m m1" "\<And>j. j \<noteq> k \<Longrightarrow> mget (cr_runs m1) j = mget (cr_runs m) j" by simp_all
  have "mget (cr_runs m1) j = Some x" if "(j, x) \<in> set es" for j x
  proof -
    from that Cons.prems(2) have "j \<noteq> k" by (force simp: e)
    with one(2) Cons.prems(3)[of j x] that show ?thesis by simp
  qed
  with Cons.IH[OF chat_moves_ok[OF one(1) Cons.prems(1)], of n1] Cons.prems(2)
  have "reaches m1 (snd (fold (interrupt_run now) es (n1, m1)))" by simp
  with one(1) show ?case by (simp add: e s)
qed simp

lemma chat_interrupt_reaches: "view_ok (view m) \<Longrightarrow> reaches m (snd (chat_interrupt_running now m))"
  unfolding chat_interrupt_running_def by (rule interrupt_all_reaches) (simp_all add: mitems_iff)

section \<open>Refinement and reachability\<close>

lemma chat_exec_reaches:
  assumes "call_ok call m" "view_ok (view m)"
  shows "reaches m (chat_exec tc call m)"
  using assms
  by (cases call)
    (simp_all add: chat_start_reaches chat_save_draft_reaches chat_finalize_reaches chat_answer_reaches
      chat_accept_reaches chat_cancel_question_reaches chat_execute_reaches chat_cancel_plan_reaches
      chat_interrupt_reaches)

inductive chat_reach :: "text_case \<Rightarrow> chat_memory \<Rightarrow> bool" for tc where
  chat_new: "convo_reach tc c \<Longrightarrow> chat_reach tc (new_chat_memory c)"
| chat_step: "chat_reach tc m \<Longrightarrow> call_ok call m \<Longrightarrow> chat_reach tc (chat_exec tc call m)"

lemma new_view_ok: "view_ok (view (new_chat_memory c))"
  by (simp add: view_ok_def runs_ok_def one_running_def questions_ok_def one_open_def plans_ok_def versions_ok_def
      new_chat_memory_def)

lemma chat_reach_ok: "chat_reach tc m \<Longrightarrow> view_ok (view m)"
  by (induction rule: chat_reach.induct) (auto simp: new_view_ok intro: chat_moves_ok[OF chat_exec_reaches])

end
