(* ===== verification/Chatrun_Convo.thy ===== *)
theory Chatrun_Convo
  imports Chatrun_Refines
begin

text \<open>
  The run store and the conversation store together: no operation of the run store breaks the
  conversation store, and what \<open>Start\<close> and \<open>Finalize\<close> leave behind for a repeated call.
\<close>

section \<open>The conversation store stays well formed\<close>

abbreviation convo_ok :: "text_case \<Rightarrow> chat_memory \<Rightarrow> bool" where "convo_ok tc m \<equiv> store_ok tc (cr_convo m)"

lemma rewrite_parts_ok: "convo_ok tc m \<Longrightarrow> convo_ok tc (snd (rewrite_parts cid u mid f m))"
  by (auto simp: rewrite_parts_def upsert_message_Inr upsert_message_ok split: sum.split option.split)

lemma update_question_ok: "convo_ok tc m \<Longrightarrow> convo_ok tc (snd (update_question_message_status q m))"
  by (simp add: update_question_message_status_def Let_def rewrite_parts_ok)

lemma update_plan_ok: "convo_ok tc m \<Longrightarrow> convo_ok tc (snd (update_plan_message_status p m))"
  by (simp add: update_plan_message_status_def rewrite_parts_ok split: option.split)

lemma fold_keeps: "(\<And>e s. I s \<Longrightarrow> I (step e s)) \<Longrightarrow> I s \<Longrightarrow> I (fold step es s)"
  by (induction es arbitrary: s) auto

lemma start_convo_ok: "convo_ok tc m \<Longrightarrow> convo_ok tc (snd (chat_start i m))"
proof -
  assume ok: "convo_ok tc m"
  have "convo_ok tc (snd (start_admit i e r m))" for e r
    using upsert_conversation_ok[OF ok, of e]
    by (cases "upsert_conversation e (cr_convo m)")
      (auto simp: start_admit_def Let_def insert_message_Inr insert_message_ok split: sum.split option.split)
  with ok show ?thesis
    by (auto simp: chat_start_def Let_def split: sum.split option.split)
qed

lemma draft_convo_ok: "convo_ok tc m \<Longrightarrow> convo_ok tc (snd (chat_save_draft rid u msg t m))"
  by (auto simp: chat_save_draft_def Let_def upsert_message_Inr upsert_message_ok split: option.split)

lemma settle_convo_ok: "convo_ok tc m \<Longrightarrow> convo_ok tc (snd (settle_questions a now z m))"
  unfolding settle_questions_def
  by (rule fold_keeps) (auto simp: settle_step_def Let_def update_question_ok split: prod.split)

lemma supersede_convo_ok: "convo_ok tc m \<Longrightarrow> convo_ok tc (snd (fold (supersede_step cid now) es (z, m)))"
  by (rule fold_keeps) (auto simp: supersede_step_def Let_def update_plan_ok split: prod.split)

lemma and_then_ok: "convo_ok tc (snd res) \<Longrightarrow> (\<And>x m. convo_ok tc m \<Longrightarrow> convo_ok tc (snd (f x m))) \<Longrightarrow> convo_ok tc (snd (and_then res f))"
  by (auto simp: and_then_def split: sum.split prod.split)

lemma finalize_plan_convo_ok: "convo_ok tc m \<Longrightarrow> convo_ok tc (snd (finalize_plan i now z m))"
  using supersede_convo_ok[of tc m "run_conversation_id (fz_run z)" now "mitems (cr_plans m)" z]
  by (auto simp: finalize_plan_def adopt_plan_def Let_def put_plan_def split: option.split prod.split)

lemma finalize_question_convo_ok: "convo_ok tc m \<Longrightarrow> convo_ok tc (snd (finalize_question i now z m))"
  by (auto simp: finalize_question_def adopt_question_def Let_def put_question_def split: option.split)

lemma finalize_execution_convo_ok: "convo_ok tc m \<Longrightarrow> convo_ok tc (snd (finalize_execution i now z m))"
  by (auto simp: finalize_execution_def Let_def update_plan_ok split: option.split)

lemma finalize_convo_ok:
  assumes "convo_ok tc m" shows "convo_ok tc (snd (chat_finalize i t m))"
proof -
  have run: "convo_ok tc (snd (finalize_running i now r m))" for now r
  proof -
    let ?z = "\<lparr>fz_run = finish_run i now r, fz_message = fi_assistant_message i, fz_plan = None, fz_question = None,
      fz_answered = None, fz_restored = None, fz_superseded = []\<rparr>"
    obtain z0 m0 where s: "settle_questions (fi_runtime_accepted i) now ?z m = (z0, m0)" by force
    have "convo_ok tc m0" using settle_convo_ok[OF assms, of "fi_runtime_accepted i" now ?z] s by simp
    then show ?thesis
      unfolding finalize_running_def Let_def s prod.case
      by (intro and_then_ok finalize_plan_convo_ok finalize_question_convo_ok finalize_execution_convo_ok) simp_all
  qed
  have publish: "convo_ok tc (snd (finalize_publish i now z n))" if "convo_ok tc n" for now z n
    using that upsert_message_ok[OF that]
    by (auto simp: finalize_publish_def Let_def upsert_message_Inr reveal_conversation_ok split: option.split)
  have "convo_ok tc (snd (and_then (finalize_running i now r m) (finalize_publish i now)))" for now r
    by (rule and_then_ok[OF run publish])
  with assms show ?thesis
    by (simp add: chat_finalize_def Let_def split: option.split)
qed

lemma case_error_snd: "snd (case x of (e, m') \<Rightarrow> (case e of None \<Rightarrow> (Inr a, m') | Some b \<Rightarrow> (Inl (g b), m'))) = snd x"
  by (cases x) (simp split: option.split)

lemma case_error_snd': "snd (case x of (e, m') \<Rightarrow> (case e of Some b \<Rightarrow> (Inl (g b), m') | None \<Rightarrow> (Inr a, m'))) = snd x"
  by (cases x) (simp split: option.split)

lemma answer_convo_ok:
  assumes "convo_ok tc m" shows "convo_ok tc (snd (chat_start_question_answer i t m))"
proof -
  have "convo_ok tc (snd (admit_answer i t c q m))" for c q
    using assms by (simp add: admit_answer_def Let_def insert_message_Inr case_error_snd update_question_ok insert_message_ok)
  with assms have "convo_ok tc (snd (answer_first_time i t c m))" for c
    by (auto simp: answer_first_time_def split: option.split)
  with assms show ?thesis
    by (auto simp: chat_start_question_answer_def split: option.split sum.split)
qed

lemma accept_convo_ok:
  assumes "convo_ok tc m" shows "convo_ok tc (snd (chat_accept_question_answer rid qid u now t m))"
proof -
  have "convo_ok tc (snd (case update_question_message_status q (put_question k q m) of
      (e, m') \<Rightarrow> (case e of None \<Rightarrow> (Inr a, m') | Some err \<Rightarrow> (Inl (ConvoFailed err), put_question j p m'))))" for q k j p and a :: chat_question
    using update_question_ok[of tc "put_question k q m" q] assms
    by (cases "update_question_message_status q (put_question k q m)") (auto split: option.split)
  with assms show ?thesis
    by (auto simp: chat_accept_question_answer_def Let_def split: option.split)
qed

lemma cancel_question_convo_ok: "convo_ok tc m \<Longrightarrow> convo_ok tc (snd (chat_cancel_question cid qid u v now t m))"
  by (auto simp: chat_cancel_question_def Let_def case_error_snd update_question_ok split: option.split)

lemma execute_convo_ok:
  assumes "convo_ok tc m" shows "convo_ok tc (snd (chat_start_plan_execution i t m))"
proof -
  have "convo_ok tc (snd (execute_first_time i t c m))" for c
    using assms by (auto simp: execute_first_time_def Let_def update_plan_ok split: option.split)
  with assms show ?thesis by (auto simp: chat_start_plan_execution_def split: option.split sum.split)
qed

lemma cancel_plan_convo_ok: "convo_ok tc m \<Longrightarrow> convo_ok tc (snd (chat_cancel_plan cid pid u v now t m))"
  by (auto simp: chat_cancel_plan_def Let_def case_error_snd update_plan_ok split: option.split)

lemma interrupt_convo_ok:
  assumes "convo_ok tc m" shows "convo_ok tc (snd (chat_interrupt_running now m))"
proof -
  have questions: "convo_ok tc (fold (interrupt_question rid now) es n)" if "convo_ok tc n" for rid es n
    using that by (rule fold_keeps[rotated]) (auto simp: interrupt_question_def Let_def update_question_ok)
  have plan: "convo_ok tc (interrupt_plan r now n)" if "convo_ok tc n" for r n
    using that by (auto simp: interrupt_plan_def Let_def update_plan_ok)
  have step: "convo_ok tc (snd (interrupt_run now e s))" if "convo_ok tc (snd s)" for e s
    using that by (cases s; cases e) (auto simp: interrupt_run_def Let_def intro!: questions plan)
  show ?thesis
    unfolding chat_interrupt_running_def by (rule fold_keeps[where I = "\<lambda>s. convo_ok tc (snd s)"]) (auto intro: step assms)
qed

lemma chat_exec_convo_ok:
  assumes "convo_ok tc m" "folding tc" "call_ok call m"
  shows "convo_ok tc (chat_exec tc call m)"
  using assms
  by (cases call)
    (simp_all add: start_convo_ok draft_convo_ok finalize_convo_ok answer_convo_ok accept_convo_ok cancel_question_convo_ok
      execute_convo_ok cancel_plan_convo_ok interrupt_convo_ok convo_exec_ok)

lemma chat_reach_convo_ok: "chat_reach tc m \<Longrightarrow> folding tc \<Longrightarrow> convo_ok tc m"
  by (induction rule: chat_reach.induct) (auto simp: new_chat_memory_def chat_exec_convo_ok convo_reach_ok)

section \<open>Calling \<open>Start\<close> again\<close>

lemma find_none_mput:
  assumes "find P (mvals f) = None" "P x"
  shows "find P (mvals (mput f k x)) = Some x"
proof (cases "find P (mvals (mput f k x))")
  case None
  then have "\<not> P x" unfolding find_None_iff mvals_none by (metis lookup_update_eq)
  with assms(2) show ?thesis by simp
next
  case (Some y)
  then have "P y" "y \<in> set (mvals (mput f k x))" by (auto simp: find_Some_iff intro: nth_mem)
  then obtain j where j: "mget (mput f k x) j = Some y" unfolding mvals_iff by blast
  have none: "\<And>j y. mget f j = Some y \<Longrightarrow> \<not> P y" using assms(1) unfolding find_None_iff mvals_none by blast
  from j \<open>P y\<close> none have "y = x" by (cases "j = k") (auto simp: lookup_update)
  with Some show ?thesis by simp
qed

lemma upsert_folders: "upsert_conversation e c = (res, c') \<Longrightarrow> cm_folders c' = cm_folders c"
  by (auto simp: upsert_conversation_def Let_def split: option.splits if_splits)

text \<open>Once \<open>Start\<close> has upserted the conversation, the same request passes its conversation checks again.\<close>

lemma start_effective_again:
  assumes "store_ok tc c" "start_effective cv c = Inr e" "upsert_conversation e c = (Inr (), c')"
  shows "\<exists>e'. start_effective cv (inserted x c') = Inr e'"
proof (cases "get_conversation (conv_id cv) (conv_user_id cv) c")
  case (Inr old)
  then have old: "mget (cm_convs c) (conv_id cv) = Some old" "conv_user_id old = conv_user_id cv"
    by (auto simp: get_conversation_def owned_Some split: option.splits)
  have se: "start_existing cv old = Inr e" using assms(2) Inr by (simp add: start_effective_def)
  then obtain con where e: "e = old\<lparr>conv_channel_connector_id := con, conv_updated_at := conv_updated_at cv\<rparr>"
    and checks: "conv_agent_id cv = conv_agent_id old" "conv_runtime_id cv \<noteq> [] \<longrightarrow> conv_runtime_id cv = conv_runtime_id old"
      "conv_project_id cv \<noteq> [] \<longrightarrow> conv_project_id cv = conv_project_id old"
    unfolding start_existing_def Let_def by (cases old) (auto split: if_splits)
  have id: "conv_id e = conv_id cv" using store_okD(1)[OF assms(1) old(1)] e by (simp add: conv_ok_def)
  have "\<exists>new. mget (cm_convs c') (conv_id cv) = Some new \<and> conv_user_id new = conv_user_id cv \<and>
      conv_agent_id new = conv_agent_id old \<and> conv_runtime_id new = conv_runtime_id old \<and> conv_project_id new = conv_project_id old"
    using assms(3) old id
    by (auto simp: upsert_conversation_def Let_def lookup_update refresh_conversation_def split: if_splits option.splits)
  then obtain new where new: "mget (cm_convs c') (conv_id cv) = Some new" "conv_user_id new = conv_user_id cv"
      "conv_agent_id new = conv_agent_id old" "conv_runtime_id new = conv_runtime_id old"
      "conv_project_id new = conv_project_id old" by blast
  then have "get_conversation (conv_id cv) (conv_user_id cv) (inserted x c') = Inr new"
    by (simp add: get_conversation_def owned_conversation_def)
  then show ?thesis using checks new by (auto simp: start_effective_def start_existing_def Let_def)
next
  case (Inl err)
  then have err: "err = ConvoNotFound" by (auto simp: get_conversation_def split: option.splits)
  have sn: "start_new cv c = Inr e" using assms(2) Inl err by (simp add: start_effective_def)
  then have e: "e = (if conv_runtime_id cv = [] then cv\<lparr>conv_runtime_id := default_runtime_id\<rparr> else cv)"
    by (auto simp: start_new_def Let_def split: if_splits)
  have id: "conv_id e = conv_id cv" "conv_user_id e = conv_user_id cv" by (simp_all add: e)
  show ?thesis
  proof (cases "mget (cm_convs c) (conv_id cv)")
    case None
    then have c': "c' = c\<lparr>cm_convs := mput (cm_convs c) (conv_id cv) (conv_defaults e)\<rparr>"
      using assms(3) id by (auto simp: upsert_conversation_def Let_def split: if_splits option.splits)
    have "get_conversation (conv_id cv) (conv_user_id cv) (inserted x c') = Inr (conv_defaults e)"
      by (simp add: c' get_conversation_def owned_conversation_def lookup_update id)
    moreover have "conv_agent_id (conv_defaults e) = conv_agent_id cv" "conv_project_id (conv_defaults e) = conv_project_id cv"
      "conv_runtime_id cv \<noteq> [] \<longrightarrow> conv_runtime_id (conv_defaults e) = conv_runtime_id cv"
      by (simp_all add: e conv_defaults_def Let_def)
    ultimately show ?thesis by (auto simp: start_effective_def start_existing_def Let_def)
  next
    case (Some other)
    then have "conv_user_id other \<noteq> conv_user_id cv"
      using Inl by (auto simp: get_conversation_def owned_conversation_def split: if_splits option.splits)
    then have empty: "conv_user_id cv = []" and own: "conv_user_id other \<noteq> []"
      using assms(3) Some id store_okD(1)[OF assms(1) Some]
      by (auto simp: upsert_conversation_def Let_def conv_ok_def split: if_splits option.splits)
    have "\<exists>new. mget (cm_convs c') (conv_id cv) = Some new \<and> conv_user_id new = conv_user_id other"
      using assms(3) Some id
      by (auto simp: upsert_conversation_def Let_def lookup_update refresh_conversation_def split: if_splits option.splits)
    then have "get_conversation (conv_id cv) (conv_user_id cv) (inserted x c') = Inl ConvoNotFound"
      using empty own by (auto simp: get_conversation_def owned_conversation_def)
    moreover have "start_new cv (inserted x c') = Inr e"
      using sn upsert_folders[OF assms(3)] by (simp add: start_new_def get_folder_def owned_folder_def)
    ultimately show ?thesis by (simp add: start_effective_def)
  qed
qed

lemma same_request_put:
  assumes "same_request u cid req m = None" "run_user_id r = u" "run_conversation_id r = cid"
    "run_client_request_id r = req" "req \<noteq> []"
  shows "same_request u cid req (put_run k r m) = Some r"
  unfolding same_request_def put_fields(1)
  by (rule find_none_mput) (use assms in \<open>simp_all add: same_request_def\<close>)

lemma same_request_convo [simp]: "same_request u cid req (m\<lparr>cr_convo := c\<rparr>) = same_request u cid req m"
  by (simp add: same_request_def)

lemma start_admit_Inr:
  assumes "start_admit i e r m = (Inr res, m')"
  obtains c where "upsert_conversation e (cr_convo m) = (Inr (), c)" "sr_run res = r"
    "m' = put_run (run_id r) r (m\<lparr>cr_convo := inserted (si_user_message i) c\<rparr>)"
proof (cases "upsert_conversation e (cr_convo m)")
  case (Pair a c)
  with assms show thesis
    by (cases a) (auto simp: start_admit_def Let_def insert_message_Inr split: option.splits intro: that)
qed

lemma start_again:
  assumes ok: "store_ok tc (cr_convo m)" and start: "chat_start i m = (Inr res, m')"
    and req: "run_client_request_id (si_run i) \<noteq> []"
    and same: "si_conversation j = si_conversation i" "run_user_id (si_run j) = run_user_id (si_run i)"
      "run_conversation_id (si_run j) = run_conversation_id (si_run i)"
      "run_client_request_id (si_run j) = run_client_request_id (si_run i)"
  shows "\<exists>c. chat_start j m' = (Inr \<lparr>sr_run = sr_run res, sr_conversation = c, sr_created = False\<rparr>, m')"
proof -
  let ?u = "run_user_id (si_run i)" and ?cid = "run_conversation_id (si_run i)" and ?req = "run_client_request_id (si_run i)"
  from start obtain e where e: "start_effective (si_conversation i) (cr_convo m) = Inr e"
    by (auto simp: chat_start_def Let_def split: sum.splits)
  define r where "r = start_run ((si_run i)\<lparr>run_interaction_mode := normalize_interaction_mode (run_interaction_mode (si_run i))\<rparr>) e"
  have r: "run_user_id r = ?u" "run_conversation_id r = ?cid" "run_client_request_id r = ?req" by (simp_all add: r_def)
  have repeat: "chat_start j n = (Inr \<lparr>sr_run = x, sr_conversation = e', sr_created = False\<rparr>, n)"
    if "start_effective (si_conversation i) (cr_convo n) = Inr e'" "same_request ?u ?cid ?req n = Some x" for n e' x
    using that same by (simp add: chat_start_def Let_def)
  show ?thesis
  proof (cases "same_request ?u ?cid ?req m")
    case (Some x)
    then have "m' = m" "sr_run res = x" using start e by (auto simp: chat_start_def Let_def)
    with repeat[OF e Some] show ?thesis by blast
  next
    case None
    have "start_admit i e r m = (Inr res, m')"
      using start e None by (auto simp: chat_start_def Let_def r_def split: option.splits if_splits)
    then obtain c where c: "upsert_conversation e (cr_convo m) = (Inr (), c)" "sr_run res = r"
      "m' = put_run (run_id r) r (m\<lparr>cr_convo := inserted (si_user_message i) c\<rparr>)"
      by (rule start_admit_Inr)
    obtain e' where "start_effective (si_conversation i) (cr_convo m') = Inr e'"
      using start_effective_again[OF ok e c(1)] c(3) by auto
    moreover have "same_request ?u ?cid ?req m' = Some (sr_run res)"
      unfolding c(2,3) using None r req by (intro same_request_put) simp_all
    ultimately show ?thesis using repeat by blast
  qed
qed

section \<open>Calling \<open>Finalize\<close> again\<close>

lemma finalize_plan_status:
  "finalize_plan i now z m = (Inr z', m') \<Longrightarrow> run_status (fz_run z') = run_status (fz_run z)"
proof -
  assume fin: "finalize_plan i now z m = (Inr z', m')"
  obtain z1 m1 where sup: "fold (supersede_step (run_conversation_id (fz_run z)) now) (mitems (cr_plans m)) (z, m) = (z1, m1)"
    by force
  have adopted: "run_status (fz_run z2) = run_status (fz_run z)" if "adopt_plan c now z m = (z2, m2)" for c z2 m2
    using that supersede_effect(2)[OF sup] by (auto simp: adopt_plan_def Let_def sup)
  show ?thesis
    using fin by (auto simp: finalize_plan_def dest: adopted split: option.splits if_splits prod.splits)
qed

lemma finalize_question_status:
  "finalize_question i now z m = (Inr z', m') \<Longrightarrow> run_status (fz_run z') = run_status (fz_run z)"
  by (auto simp: finalize_question_def adopt_question_def Let_def split: option.splits if_splits)

lemma finalize_execution_status:
  "finalize_execution i now z m = (Inr z', m') \<Longrightarrow> run_status (fz_run z') = run_status (fz_run z)"
  by (auto simp: finalize_execution_def Let_def split: option.splits if_splits)

lemma finalize_running_stored:
  assumes "finalize_running i now r m = (Inr z, m')"
  shows "mget (cr_runs m') (fi_run_id i) = Some (fz_run z)" "run_status (fz_run z) = fi_status i"
proof -
  let ?z = "\<lparr>fz_run = finish_run i now r, fz_message = fi_assistant_message i, fz_plan = None, fz_question = None,
      fz_answered = None, fz_restored = None, fz_superseded = []\<rparr>"
  obtain z0 m0 where s: "settle_questions (fi_runtime_accepted i) now ?z m = (z0, m0)" by force
  from assms obtain z1 m1 z2 m2 z3 m3 where st: "finalize_plan i now z0 m0 = (Inr z1, m1)"
    "finalize_question i now z1 m1 = (Inr z2, m2)" "finalize_execution i now z2 m2 = (Inr z3, m3)"
    "z = z3" "m' = put_run (fi_run_id i) (fz_run z3) m3"
    by (auto simp: finalize_running_def Let_def s and_then_def split: prod.splits sum.splits)
  show "mget (cr_runs m') (fi_run_id i) = Some (fz_run z)" by (simp add: st)
  show "run_status (fz_run z) = fi_status i"
    using finalize_plan_status[OF st(1)] finalize_question_status[OF st(2)] finalize_execution_status[OF st(3)]
      settle_questions_effect(2)[OF s] st(4) by simp
qed

lemma finalize_publish_runs:
  "finalize_publish i now z m = (Inr res, m') \<Longrightarrow> cr_runs m' = cr_runs m \<and> fr_run res = fz_run z"
  by (auto simp: finalize_publish_def Let_def upsert_message_Inr split: option.splits)

lemma finalize_stored:
  assumes "chat_finalize i t m = (Inr res, m')" "is_terminal (fi_status i)"
  shows "mget (cr_runs m') (fi_run_id i) = Some (fr_run res) \<and> is_terminal (run_status (fr_run res))"
proof -
  from assms(1) obtain r where r: "mget (cr_runs m) (fi_run_id i) = Some r" "run_user_id r = fi_user_id i"
    by (auto simp: chat_finalize_def split: option.splits if_splits)
  show ?thesis
  proof (cases "is_terminal (run_status r)")
    case True
    with assms(1) r show ?thesis by (auto simp: chat_finalize_def)
  next
    case False
    with assms(1) r have "and_then (finalize_running i (or_now (fi_completed_at i) t) r m)
        (finalize_publish i (or_now (fi_completed_at i) t)) = (Inr res, m')"
      by (simp add: chat_finalize_def Let_def)
    then obtain z n where "finalize_running i (or_now (fi_completed_at i) t) r m = (Inr z, n)"
      "finalize_publish i (or_now (fi_completed_at i) t) z n = (Inr res, m')"
      by (auto simp: and_then_def split: prod.splits sum.splits)
    with finalize_running_stored finalize_publish_runs assms(2) show ?thesis by fastforce
  qed
qed

section \<open>After a restart\<close>

lemma interrupt_run_ended:
  assumes "view_ok (view m)" "mget (cr_runs m) k = Some r"
  shows "\<exists>r'. mget (cr_runs (snd (interrupt_run now (k, r) (n, m)))) k = Some r' \<and> \<not> running r'"
proof (cases "running r")
  case True
  let ?r = "r\<lparr>run_status := status_interrupted, run_error_code := ''GATEWAY_RESTARTED'',
      run_completed_at := Some now, run_last_activity_at := now\<rparr>"
  let ?m2 = "interrupt_plan ?r now (put_run k ?r m)"
  have "cr_runs ?m2 = mput (cr_runs m) k ?r"
    by (simp add: interrupt_plan_def Let_def)
  then show ?thesis
    using True interrupt_questions_effect(1)[OF refl, of "run_id r" now ?m2] by (simp add: interrupt_run_def Let_def)
next
  case False
  with assms(2) show ?thesis by (simp add: interrupt_run_def)
qed

lemma interrupt_all_ended:
  assumes "view_ok (view m)" "distinct (map fst es)" "\<And>k r. (k, r) \<in> set es \<Longrightarrow> mget (cr_runs m) k = Some r"
    "\<And>k r. mget (cr_runs m) k = Some r \<Longrightarrow> k \<in> fst ` set es \<or> \<not> running r"
  shows "\<forall>k r. mget (cr_runs (snd (fold (interrupt_run now) es (n, m)))) k = Some r \<longrightarrow> \<not> running r"
  using assms
proof (induction es arbitrary: n m)
  case (Cons e es)
  obtain k r where e: "e = (k, r)" by force
  obtain n1 m1 where s: "interrupt_run now (k, r) (n, m) = (n1, m1)" by force
  have r: "mget (cr_runs m) k = Some r" using Cons.prems(3) by (simp add: e)
  from interrupt_run_reaches[OF Cons.prems(1) r, of now n] s
  have one: "reaches m m1" "\<And>j. j \<noteq> k \<Longrightarrow> mget (cr_runs m1) j = mget (cr_runs m) j" by simp_all
  from interrupt_run_ended[OF Cons.prems(1) r, of now n] s
  obtain r' where r': "mget (cr_runs m1) k = Some r'" "\<not> running r'" by auto
  have "mget (cr_runs m1) j = Some x" if "(j, x) \<in> set es" for j x
  proof -
    from that Cons.prems(2) have "j \<noteq> k" by (force simp: e)
    with one(2) Cons.prems(3)[of j x] that show ?thesis by simp
  qed
  moreover have "j \<in> fst ` set es \<or> \<not> running x" if "mget (cr_runs m1) j = Some x" for j x
  proof (cases "j = k")
    case False
    with that one(2) have "mget (cr_runs m) j = Some x" by simp
    with Cons.prems(4)[OF this] False show ?thesis by (auto simp: e)
  qed (use that r' in auto)
  moreover have "distinct (map fst es)" using Cons.prems(2) by simp
  ultimately show ?case
    using Cons.IH[OF chat_moves_ok[OF one(1) Cons.prems(1)], of n1] by (simp add: e s)
qed auto

lemma chat_interrupt_ended:
  assumes "view_ok (view m)"
  shows "mget (cr_runs (snd (chat_interrupt_running now m))) k = Some r \<Longrightarrow> \<not> running r"
proof -
  have "\<forall>k r. mget (cr_runs (snd (fold (interrupt_run now) (mitems (cr_runs m)) (0, m)))) k = Some r \<longrightarrow> \<not> running r"
  proof (rule interrupt_all_ended[OF assms])
    show "\<And>k r. mget (cr_runs m) k = Some r \<Longrightarrow> k \<in> fst ` set (mitems (cr_runs m)) \<or> \<not> running r"
      by (force simp: mitems_iff[symmetric])
  qed (simp_all add: mitems_iff)
  then show "mget (cr_runs (snd (chat_interrupt_running now m))) k = Some r \<Longrightarrow> \<not> running r"
    unfolding chat_interrupt_running_def by blast
qed

end
