(* ===== verification/Chatrun_Properties.thy ===== *)
theory Chatrun_Properties
  imports Chatrun_Convo
begin

text \<open>
  Properties of the run store, over every store reachable by its operations and those of the
  conversation store beside it.
\<close>

definition chat_steps :: "text_case \<Rightarrow> chat_memory \<Rightarrow> chat_memory \<Rightarrow> bool" where
  "chat_steps tc = (\<lambda>m n. \<exists>call. call_ok call m \<and> n = chat_exec tc call m)\<^sup>*\<^sup>*"

lemma chat_steps_moves:
  assumes "chat_steps tc m n" "view_ok (view m)"
  shows "reaches m n \<and> view_ok (view n)"
  using assms unfolding chat_steps_def
proof (induction rule: rtranclp_induct)
  case (step n n')
  then obtain call where "call_ok call n" "n' = chat_exec tc call n" by blast
  with step chat_exec_reaches[of call n tc] show ?case
    by (metis chat_moves_ok rtranclp_trans)
qed simp

lemma chat_steps_one: "call_ok call m \<Longrightarrow> chat_steps tc m (chat_exec tc call m)"
  unfolding chat_steps_def by blast

section \<open>A sample\<close>

definition sample_chat_run :: "string \<Rightarrow> string \<Rightarrow> string \<Rightarrow> chat_run" where
  "sample_chat_run rid request mode = run_zero\<lparr>run_id := rid, run_conversation_id := ''c'', run_user_id := ''u'',
     run_client_request_id := request, run_interaction_mode := mode, run_status := status_running, run_started_at := 5\<rparr>"

definition sample_start :: start_input where
  "sample_start = \<lparr>si_run = sample_chat_run ''r'' ''q1'' mode_plan, si_conversation = sample_conv ''c'' ''u'' 5,
     si_user_message = sample_msg ''r-user'' ''c'' ''user'' 5, si_project_base_ref = [], si_project_base_sha = [],
     si_project_task_branch = [], si_revision_plan_id = [], si_expected_revision_plan_version = 0\<rparr>"

definition sample_finish :: finalize_input where
  "sample_finish = \<lparr>fi_run_id = ''r'', fi_user_id = ''u'', fi_status = status_success, fi_error_code = [],
     fi_runtime_accepted = True, fi_assistant_message = None, fi_reveal = False, fi_conversation_title = [],
     fi_completed_at = 9, fi_tool_call_count = 0, fi_llm_call_count = 0,
     fi_plan_candidate = Some \<lparr>pc_id = ''p'', pc_runtime_id = ''claude-code'', pc_model_route_id = ''m'', pc_model_alias = [],
       pc_reasoning_effort = [], pc_content_markdown = ''plan'', pc_workspace_revision = []\<rparr>,
     fi_question_candidate = None\<rparr>"

definition chat0 :: chat_memory where "chat0 = new_chat_memory sample_store"
definition chat1 :: chat_memory where "chat1 = chat_exec ascii_case (StartRun sample_start) chat0"
definition chat2 :: chat_memory where "chat2 = chat_exec ascii_case (FinalizeRun sample_finish 9) chat1"

lemma chat0_fields: "cr_runs chat0 = mnil" "cr_plans chat0 = mnil" "cr_questions chat0 = mnil"
  "cr_versions chat0 = mnil" "cr_convo chat0 = sample_store" "cr_question_versions chat0 = mnil"
  by (simp_all add: chat0_def new_chat_memory_def)

definition sample_now :: conversation where
  "sample_now = conv_defaults (sample_conv ''c'' ''u'' 1)\<lparr>conv_folder_id := ''f'', conv_updated_at := 5\<rparr>"

lemma sample_effective: "start_effective (sample_conv ''c'' ''u'' 5) sample_store = Inr sample_now"
  by (simp add: start_effective_def get_conversation_def owned_conversation_def sample_convs start_existing_def
      conv_defaults_def sample_conv_def sample_now_def Let_def)

lemma sample_upserted: "\<exists>c. upsert_conversation sample_now sample_store = (Inr (), c)"
  by (simp add: upsert_conversation_def check_placement_def conv_defaults_def sample_conv_def Let_def sample_convs
      sample_now_def sample_entries(1) sample_folder_def default_runtime_id_def)

lemma sample_run_simps [simp]:
  "run_id (sample_chat_run k q md) = k" "run_conversation_id (sample_chat_run k q md) = ''c''"
  "run_user_id (sample_chat_run k q md) = ''u''" "run_client_request_id (sample_chat_run k q md) = q"
  "run_interaction_mode (sample_chat_run k q md) = md" "run_status (sample_chat_run k q md) = status_running"
  "run_plan_id (sample_chat_run k q md) = []" "run_started_at (sample_chat_run k q md) = 5"
  "sample_chat_run k q md\<lparr>run_interaction_mode := md'\<rparr> = sample_chat_run k q md'"
  by (simp_all add: sample_chat_run_def run_zero_def)

lemma sample_start_simps [simp]:
  "si_run sample_start = sample_chat_run ''r'' ''q1'' mode_plan" "si_conversation sample_start = sample_conv ''c'' ''u'' 5"
  "si_user_message sample_start = sample_msg ''r-user'' ''c'' ''user'' 5" "si_revision_plan_id sample_start = []"
  by (simp_all add: sample_start_def)

lemma chat1_run: "cr_runs chat1 = mput mnil ''r'' (sample_chat_run ''r'' ''q1'' mode_plan)"
  "cr_plans chat1 = mnil" "cr_questions chat1 = mnil" "cr_versions chat1 = mnil"
proof -
  obtain c where up: "upsert_conversation sample_now sample_store = (Inr (), c)" using sample_upserted by blast
  have mode: "start_run (sample_chat_run ''r'' ''q1'' mode_plan) sample_now = sample_chat_run ''r'' ''q1'' mode_plan"
    by (simp add: start_run_def sample_now_def conv_defaults_def sample_conv_def Let_def)
  have "snd (chat_start sample_start chat0) = put_run ''r'' (sample_chat_run ''r'' ''q1'' mode_plan)
      (chat0\<lparr>cr_convo := inserted (sample_msg ''r-user'' ''c'' ''user'' 5) c\<rparr>)"
    by (simp add: chat_start_def chat0_fields sample_effective start_admit_def up mode
        normalize_interaction_mode_def same_request_def check_revision_def
        has_open_question_def running_in_def insert_message_Inr Let_def)
  then show "cr_runs chat1 = mput mnil ''r'' (sample_chat_run ''r'' ''q1'' mode_plan)"
    "cr_plans chat1 = mnil" "cr_questions chat1 = mnil" "cr_versions chat1 = mnil"
    by (simp_all add: chat1_def chat0_fields)
qed

lemma sample_new_run: "call_ok (StartRun sample_start) chat0"
  by (simp add: new_run_def fresh_run_def chat0_fields)

lemma chat1_reach: "chat_reach ascii_case chat1"
  unfolding chat1_def chat0_def
  by (rule chat_step[OF chat_new[OF sample_reach]]) (use sample_new_run in \<open>simp only: chat0_def\<close>)

lemma sample_finish_ok: "call_ok (FinalizeRun sample_finish 9) chat1"
  by (simp add: sample_finish_def is_terminal_def new_plan_id_def new_question_id_def chat1_run)

lemma chat2_reach: "chat_reach ascii_case chat2"
  unfolding chat2_def by (rule chat_step[OF chat1_reach sample_finish_ok])

lemma chat1_chat2: "chat_steps ascii_case chat1 chat2"
  unfolding chat2_def by (rule chat_steps_one[OF sample_finish_ok])

text \<open>The plan the sample run proposed, and the question another ending of it asks.\<close>

definition sample_plan :: chat_plan where
  "sample_plan = \<lparr>plan_id = ''p'', plan_conversation_id = ''c'', plan_version = 1, plan_status = plan_ready,
     plan_source_run_id = ''r'', plan_runtime_id = ''claude-code'', plan_model_route_id = ''m'', plan_model_alias = [],
     plan_reasoning_effort = [], plan_content_markdown = ''plan'', plan_workspace_revision = [], plan_approved_by = [],
     plan_approved_at = None, plan_created_at = 9, plan_updated_at = 9\<rparr>"

lemma chat2_plan: "mget (cr_plans chat2) ''p'' = Some sample_plan"
  by (simp add: chat2_def chat_finalize_def sample_finish_def chat1_run lookup_update is_terminal_def Let_def
      or_now_def finalize_running_def settle_questions_def finalize_plan_def adopt_plan_def finalize_question_def
      finalize_execution_def and_then_def finalize_publish_def upsert_message_Inr finish_run_def new_plan_def
      sample_chat_run_def run_zero_def sample_plan_def put_plan_def put_run_def mget0_def)

definition sample_ask :: finalize_input where
  "sample_ask = sample_finish\<lparr>fi_status := status_waiting_input, fi_plan_candidate := None,
     fi_question_candidate := Some \<lparr>qc_id = ''k'', qc_runtime_id = ''claude-code'', qc_model_route_id = ''m'',
       qc_model_alias = [], qc_reasoning_effort = [], qc_skill_id = [], qc_interaction_mode = mode_plan,
       qc_text = ''which'', qc_options = []\<rparr>\<rparr>"

definition chat2q :: chat_memory where "chat2q = chat_exec ascii_case (FinalizeRun sample_ask 9) chat1"

lemma sample_ask_ok: "call_ok (FinalizeRun sample_ask 9) chat1"
  by (simp add: sample_ask_def sample_finish_def is_terminal_def new_plan_id_def new_question_id_def chat1_run)

lemma chat2q_reach: "chat_reach ascii_case chat2q"
  unfolding chat2q_def by (rule chat_step[OF chat1_reach sample_ask_ok])

lemma chat2q_question:
  "\<exists>q. mget (cr_questions chat2q) ''k'' = Some q \<and> q_status q = question_pending \<and> q_text q = ''which''"
proof -
  have trim: "trim_space ''k'' = ''k''" "trim_space ''claude-code'' = ''claude-code''" "trim_space ''which'' = ''which''"
    by code_simp+
  show ?thesis
    by (simp add: chat2q_def chat_finalize_def sample_ask_def sample_finish_def chat1_run lookup_update is_terminal_def Let_def
      or_now_def finalize_running_def settle_questions_def finalize_plan_def adopt_question_def finalize_question_def
      finalize_execution_def and_then_def finalize_publish_def upsert_message_Inr finish_run_def new_question_def
      sample_chat_run_def run_zero_def put_question_def put_run_def mget0_def trim valid_question_candidate_def
      has_open_question_def)
qed

section \<open>Properties\<close>

text \<open>
  C12. In every reachable run store a conversation has at most one running run and at most one open
  question; a question being answered names a running run of its conversation; plans of a
  conversation have different versions, none above its counter, and a plan that can run or runs is the
  latest; a plan is executing exactly while a running run executes it.
\<close>

theorem chat_invariant:
  assumes "chat_reach tc m"
  shows "(\<forall>j k r s. mget (cr_runs m) j = Some r \<longrightarrow> mget (cr_runs m) k = Some s \<longrightarrow> running r \<longrightarrow> running s \<longrightarrow>
      run_conversation_id r = run_conversation_id s \<longrightarrow> j = k) \<and>
    (\<forall>j k p q. mget (cr_questions m) j = Some p \<longrightarrow> mget (cr_questions m) k = Some q \<longrightarrow>
      open_question (q_conversation_id q) p \<longrightarrow> open_question (q_conversation_id q) q \<longrightarrow> j = k) \<and>
    (\<forall>k q. mget (cr_questions m) k = Some q \<longrightarrow> q_status q = question_answering \<longrightarrow>
      (\<exists>r. mget (cr_runs m) (q_answer_run_id q) = Some r \<and> running r \<and> run_conversation_id r = q_conversation_id q)) \<and>
    (\<forall>j k p q. mget (cr_plans m) j = Some p \<longrightarrow> mget (cr_plans m) k = Some q \<longrightarrow>
      plan_conversation_id p = plan_conversation_id q \<longrightarrow> plan_version p = plan_version q \<longrightarrow> j = k) \<and>
    (\<forall>k p. mget (cr_plans m) k = Some p \<longrightarrow> plan_version p \<le> mget0 0 (cr_versions m) (plan_conversation_id p) \<and>
      (plan_usable p \<or> plan_status p = plan_executing \<longrightarrow> plan_version p = mget0 0 (cr_versions m) (plan_conversation_id p))) \<and>
    (\<forall>k p. mget (cr_plans m) k = Some p \<longrightarrow> (plan_status p = plan_executing \<longleftrightarrow>
      (\<exists>j r. mget (cr_runs m) j = Some r \<and> running r \<and> run_interaction_mode r = mode_execute \<and> run_plan_id r = k)))"
proof -
  note ok = view_okD[OF chat_reach_ok[OF assms], unfolded view_simps]
  have exec: "plan_status p = plan_executing \<longleftrightarrow>
      (\<exists>j r. mget (cr_runs m) j = Some r \<and> running r \<and> run_interaction_mode r = mode_execute \<and> run_plan_id r = k)"
    if p: "mget (cr_plans m) k = Some p" for k p
  proof
    assume "plan_status p = plan_executing"
    from plans_okD(6)[OF ok(3) p this]
    show "\<exists>j r. mget (cr_runs m) j = Some r \<and> running r \<and> run_interaction_mode r = mode_execute \<and> run_plan_id r = k"
      unfolding executed_by_def executes_def by blast
  next
    assume "\<exists>j r. mget (cr_runs m) j = Some r \<and> running r \<and> run_interaction_mode r = mode_execute \<and> run_plan_id r = k"
    then obtain j r where r: "mget (cr_runs m) j = Some r" "running r" "run_interaction_mode r = mode_execute" "run_plan_id r = k"
      by blast
    have "executes r" using r plans_okD(2)[OF ok(3) p] by (simp add: executes_def)
    from plans_okD(7)[OF ok(3) r(1,2) this] p r(4) show "plan_status p = plan_executing" by auto
  qed
  show ?thesis
  proof (intro conjI allI impI)
    fix k q assume "mget (cr_questions m) k = Some q" "q_status q = question_answering"
    from questions_okD(3)[OF ok(2) this]
    show "\<exists>r. mget (cr_runs m) (q_answer_run_id q) = Some r \<and> running r \<and> run_conversation_id r = q_conversation_id q"
      unfolding answers_def .
  next
    fix k p assume "mget (cr_plans m) k = Some p" "plan_usable p \<or> plan_status p = plan_executing"
    then show "plan_version p = mget0 0 (cr_versions m) (plan_conversation_id p)"
      using plans_okD(4)[OF ok(3)] unfolding live_plan_def by blast
  qed (rule runs_okD(2)[OF ok(1)] questions_okD(2)[OF ok(2)] plans_okD(3,5)[OF ok(3)] exec; assumption)+
qed

lemma chat_invariant_witness:
  "{k. \<exists>s. mget (cr_runs chat1) k = Some s \<and> running s \<and> run_conversation_id s = ''c''} = {''r''}"
proof -
  have r: "mget (cr_runs chat1) ''r'' = Some (sample_chat_run ''r'' ''q1'' mode_plan)" by (simp add: chat1_run lookup_update)
  have live: "running (sample_chat_run ''r'' ''q1'' mode_plan)" "run_conversation_id (sample_chat_run ''r'' ''q1'' mode_plan) = ''c''"
    by simp_all
  have "k = ''r''" if "mget (cr_runs chat1) k = Some s" "running s" "run_conversation_id s = ''c''" for k s
    by (rule conjunct1[OF chat_invariant[OF chat1_reach], rule_format, OF that(1) r that(2)]) (simp_all add: that)
  then show ?thesis using r live by blast
qed

text \<open>
  C13. Each operation of the run store, on every branch and with every error it returns, is a sequence
  of the moves of the specification: admit a run, note a draft, take or settle an answer, accept or
  cancel a question, approve, supersede or cancel a plan, finish a run with the plan it executes.
\<close>

theorem chat_refines:
  assumes "chat_reach tc m" "call_ok call m"
  shows "chat_move\<^sup>*\<^sup>* (view m) (view (chat_exec tc call m)) \<and> view_ok (view (chat_exec tc call m))"
  using chat_exec_reaches[OF assms(2) chat_reach_ok[OF assms(1)]] chat_reach_ok[OF chat_step[OF assms]] by blast

lemma chat_refines_witness: "chat_move\<^sup>*\<^sup>* (view chat1) (view chat2) \<and> view_ok (view chat2)"
  unfolding chat2_def by (rule chat_refines[OF chat1_reach sample_finish_ok])

text \<open>
  C14. A run never disappears and never changes its identity: id, conversation, owner, request, mode and
  start. Once it is final (succeeded, failed, cancelled, interrupted, waiting for input), no sequence
  of operations changes anything in it.
\<close>

theorem run_life:
  assumes "chat_reach tc m" "chat_steps tc m n" "mget (cr_runs m) k = Some r"
  shows "\<exists>r'. mget (cr_runs n) k = Some r' \<and> same_run r r' \<and> (is_terminal (run_status r) \<longrightarrow> r' = r)"
proof -
  have moves: "reaches m n" using chat_steps_moves[OF assms(2) chat_reach_ok[OF assms(1)]] by blast
  have r: "v_runs (view m) k = Some r" using assms(3) by simp
  have same: "run_edge\<^sup>*\<^sup>* r r' \<Longrightarrow> same_run r r'" for r'
    by (induction rule: rtranclp_induct) (auto simp: run_edge_def same_run_def)
  show ?thesis
  proof (cases "is_terminal (run_status r)")
    case True
    then have "\<And>r'. \<not> run_edge r r'" using terminal_not_running by (auto simp: run_edge_def)
    from runs_life.frozen[OF moves r this] show ?thesis by simp
  next
    case False
    with runs_life.steps_edges[OF moves r] same show ?thesis by auto
  qed
qed

lemma run_life_witness:
  "\<exists>r'. mget (cr_runs chat2) ''r'' = Some r' \<and> same_run (sample_chat_run ''r'' ''q1'' mode_plan) r'"
  using run_life[OF chat1_reach chat1_chat2, of "''r''"] by (auto simp: chat1_run lookup_update)

text \<open>
  A plan never disappears; its id, conversation, version, source, model and text never change; its
  status moves only ready or stopped to executing, superseded or cancelled, and executing to completed,
  stopped or failed. A completed, failed, superseded or cancelled plan stays as it is.
\<close>

theorem plan_life:
  assumes "chat_reach tc m" "chat_steps tc m n" "mget (cr_plans m) k = Some p"
  shows "\<exists>p'. mget (cr_plans n) k = Some p' \<and> (plan_status p, plan_status p') \<in> plan_moves\<^sup>* \<and>
    p' = p\<lparr>plan_status := plan_status p', plan_approved_by := plan_approved_by p',
      plan_approved_at := plan_approved_at p', plan_updated_at := plan_updated_at p'\<rparr> \<and>
    (plan_status p \<in> {plan_completed, plan_failed, plan_superseded, plan_cancelled} \<longrightarrow> p' = p)"
proof -
  have moves: "reaches m n" using chat_steps_moves[OF assms(2) chat_reach_ok[OF assms(1)]] by blast
  have p: "v_plans (view m) k = Some p" using assms(3) by simp
  let ?kept = "\<lambda>p'. p' = p\<lparr>plan_status := plan_status p', plan_approved_by := plan_approved_by p',
      plan_approved_at := plan_approved_at p', plan_updated_at := plan_updated_at p'\<rparr>"
  have edges: "plan_edge\<^sup>*\<^sup>* p p' \<Longrightarrow> (plan_status p, plan_status p') \<in> plan_moves\<^sup>* \<and> ?kept p'" for p'
  proof (induction rule: rtranclp_induct)
    case (step p1 p2)
    then show ?case by (cases p, cases p1, cases p2) (auto simp: plan_edge_def intro: rtrancl_into_rtrancl)
  qed simp
  show ?thesis
  proof (cases "plan_status p \<in> {plan_completed, plan_failed, plan_superseded, plan_cancelled}")
    case True
    then have "\<And>p'. \<not> plan_edge p p'" by (auto simp: plan_edge_def plan_moves_def)
    from plans_life.frozen[OF moves p this] show ?thesis by simp
  next
    case False
    with plans_life.steps_edges[OF moves p] edges show ?thesis by auto
  qed
qed

lemma plan_life_witness:
  "\<exists>p. mget (cr_plans (chat_exec ascii_case (CancelPlan ''c'' ''p'' ''u'' 1 10 10) chat2)) ''p'' = Some p \<and>
     plan_content_markdown p = ''plan'' \<and> plan_version p = 1"
proof -
  have "chat_steps ascii_case chat2 (chat_exec ascii_case (CancelPlan ''c'' ''p'' ''u'' 1 10 10) chat2)"
    by (rule chat_steps_one) simp
  from plan_life[OF chat2_reach this chat2_plan] obtain p where
    "mget (cr_plans (chat_exec ascii_case (CancelPlan ''c'' ''p'' ''u'' 1 10 10) chat2)) ''p'' = Some p"
    and p: "p = sample_plan\<lparr>plan_status := plan_status p, plan_approved_by := plan_approved_by p,
      plan_approved_at := plan_approved_at p, plan_updated_at := plan_updated_at p\<rparr>" by blast
  moreover have "plan_content_markdown p = ''plan''" "plan_version p = 1"
    by (subst p, simp add: sample_plan_def)+
  ultimately show ?thesis by blast
qed

text \<open>
  A question never disappears; its id, conversation, version, text and options never change; its
  status moves only pending to answering or cancelled, and answering to answered or back to pending.
  An answered or cancelled question stays as it is.
\<close>

theorem question_life:
  assumes "chat_reach tc m" "chat_steps tc m n" "mget (cr_questions m) k = Some q"
  shows "\<exists>q'. mget (cr_questions n) k = Some q' \<and> (q_status q, q_status q') \<in> question_moves\<^sup>* \<and>
    q' = q\<lparr>q_status := q_status q', q_answer_run_id := q_answer_run_id q', q_answer := q_answer q',
      q_answered_by := q_answered_by q', q_answered_at := q_answered_at q', q_updated_at := q_updated_at q'\<rparr> \<and>
    (q_status q \<in> {question_answered, question_cancelled} \<longrightarrow> q' = q)"
proof -
  have moves: "reaches m n" using chat_steps_moves[OF assms(2) chat_reach_ok[OF assms(1)]] by blast
  have q: "v_questions (view m) k = Some q" using assms(3) by simp
  let ?kept = "\<lambda>q'. q' = q\<lparr>q_status := q_status q', q_answer_run_id := q_answer_run_id q', q_answer := q_answer q',
      q_answered_by := q_answered_by q', q_answered_at := q_answered_at q', q_updated_at := q_updated_at q'\<rparr>"
  have edges: "question_edge\<^sup>*\<^sup>* q q' \<Longrightarrow> (q_status q, q_status q') \<in> question_moves\<^sup>* \<and> ?kept q'" for q'
  proof (induction rule: rtranclp_induct)
    case (step q1 q2)
    then show ?case by (cases q, cases q1, cases q2) (auto simp: question_edge_def intro: rtrancl_into_rtrancl)
  qed simp
  show ?thesis
  proof (cases "q_status q \<in> {question_answered, question_cancelled}")
    case True
    then have "\<And>q'. \<not> question_edge q q'" by (auto simp: question_edge_def question_moves_def)
    from questions_life.frozen[OF moves q this] show ?thesis by simp
  next
    case False
    with questions_life.steps_edges[OF moves q] edges show ?thesis by auto
  qed
qed

lemma question_life_witness:
  "\<exists>q. mget (cr_questions (chat_exec ascii_case (CancelQuestion ''c'' ''k'' ''u'' 1 10 10) chat2q)) ''k'' = Some q \<and>
     q_text q = ''which''"
proof -
  obtain q0 where q0: "mget (cr_questions chat2q) ''k'' = Some q0" "q_text q0 = ''which''" using chat2q_question by blast
  have "chat_steps ascii_case chat2q (chat_exec ascii_case (CancelQuestion ''c'' ''k'' ''u'' 1 10 10) chat2q)"
    by (rule chat_steps_one) simp
  from question_life[OF chat2q_reach this q0(1)] obtain q where
    "mget (cr_questions (chat_exec ascii_case (CancelQuestion ''c'' ''k'' ''u'' 1 10 10) chat2q)) ''k'' = Some q"
    and q: "q = q0\<lparr>q_status := q_status q, q_answer_run_id := q_answer_run_id q, q_answer := q_answer q,
      q_answered_by := q_answered_by q, q_answered_at := q_answered_at q, q_updated_at := q_updated_at q\<rparr>" by blast
  moreover have "q_text q = ''which''" by (subst q) (simp add: q0)
  ultimately show ?thesis by blast
qed

text \<open>
  Start is idempotent: when a start succeeded, repeating it with the same conversation, user and
  client request id, whatever else it says and whatever run id was drawn for it, returns the run of the
  first, says that nothing was created, and changes nothing.
\<close>

theorem start_once:
  assumes "chat_reach tc m" "folding tc" "chat_start i m = (Inr res, m')" "run_client_request_id (si_run i) \<noteq> []"
    "si_conversation j = si_conversation i" "run_user_id (si_run j) = run_user_id (si_run i)"
    "run_conversation_id (si_run j) = run_conversation_id (si_run i)"
    "run_client_request_id (si_run j) = run_client_request_id (si_run i)"
  shows "\<exists>c. chat_start j m' = (Inr \<lparr>sr_run = sr_run res, sr_conversation = c, sr_created = False\<rparr>, m')"
  by (rule start_again[OF chat_reach_convo_ok[OF assms(1,2)] assms(3-8)])

lemma start_once_witness:
  "\<exists>res c. fst (chat_start sample_start chat0) = Inr res \<and>
     chat_start (sample_start\<lparr>si_run := sample_chat_run ''other'' ''q1'' mode_execute\<rparr>) chat1 =
       (Inr \<lparr>sr_run = sr_run res, sr_conversation = c, sr_created = False\<rparr>, chat1)"
proof -
  have m1: "chat1 = snd (chat_start sample_start chat0)" by (simp add: chat1_def)
  obtain res where res: "fst (chat_start sample_start chat0) = Inr res"
  proof -
    obtain c where "upsert_conversation sample_now sample_store = (Inr (), c)" using sample_upserted by blast
    then show thesis
      using that by (simp add: chat_start_def chat0_fields sample_effective start_admit_def same_request_def
          check_revision_def has_open_question_def running_in_def insert_message_Inr Let_def)
  qed
  have "chat_reach ascii_case chat0" unfolding chat0_def by (rule chat_new[OF sample_reach])
  moreover have "chat_start sample_start chat0 = (Inr res, chat1)" using res m1 by (metis prod.collapse)
  ultimately show ?thesis
    using start_once[OF _ ascii_case_folding, of chat0 sample_start res chat1
        "sample_start\<lparr>si_run := sample_chat_run ''other'' ''q1'' mode_execute\<rparr>"] res by simp
qed

text \<open>
  Finalize happens once: when it succeeded, the run it returned is the stored one and is final,
  and any later finalization of the run by its user returns that run and changes nothing.
\<close>

theorem finalize_once:
  assumes "chat_finalize i t m = (Inr res, m')" "is_terminal (fi_status i)"
    "fi_run_id j = fi_run_id i" "fi_user_id j = run_user_id (fr_run res)"
  shows "mget (cr_runs m') (fi_run_id i) = Some (fr_run res) \<and> is_terminal (run_status (fr_run res)) \<and>
    chat_finalize j u m' = (Inr \<lparr>fr_run = fr_run res, fr_plan = None, fr_question = None,
      fr_answered_question = None, fr_restored_question = None, fr_superseded_plan_id = []\<rparr>, m')"
  using finalize_stored[OF assms(1,2)] assms(3,4) by (simp add: chat_finalize_def)

lemma finalize_once_witness:
  "\<exists>r. mget (cr_runs chat2) ''r'' = Some r \<and> run_status r = status_success \<and>
     snd (chat_finalize (sample_finish\<lparr>fi_status := status_error\<rparr>) 20 chat2) = chat2"
proof -
  have fin: "\<exists>res. fst (chat_finalize sample_finish 9 chat1) = Inr res \<and> run_user_id (fr_run res) = ''u'' \<and>
      run_status (fr_run res) = status_success"
    by (simp add: chat_finalize_def sample_finish_def chat1_run lookup_update is_terminal_def Let_def
      or_now_def finalize_running_def settle_questions_def finalize_plan_def adopt_plan_def finalize_question_def
      finalize_execution_def and_then_def finalize_publish_def upsert_message_Inr finish_run_def new_plan_def
      sample_chat_run_def run_zero_def put_plan_def put_run_def mget0_def)
  then obtain res where res: "chat_finalize sample_finish 9 chat1 = (Inr res, chat2)"
    "run_user_id (fr_run res) = ''u''" "run_status (fr_run res) = status_success"
    by (metis chat2_def chat_exec.simps(3) prod.collapse)
  have ids: "fi_run_id sample_finish = ''r''" "fi_user_id sample_finish = ''u''" "is_terminal (fi_status sample_finish)"
    by (simp_all add: sample_finish_def is_terminal_def)
  show ?thesis
    using finalize_once[OF res(1), of "sample_finish\<lparr>fi_status := status_error\<rparr>" 20] res(2,3) ids by auto
qed

text \<open>
  C15. A restart frees every conversation: after InterruptRunning every run is final, no question is
  being answered, no plan is executing, and no conversation is blocked by a running run.
\<close>

theorem restart_frees:
  fixes now :: gtime
  assumes "chat_reach tc m"
  defines "m' \<equiv> snd (chat_interrupt_running now m)"
  shows "(\<forall>k r. mget (cr_runs m') k = Some r \<longrightarrow> is_terminal (run_status r)) \<and>
    (\<forall>k q. mget (cr_questions m') k = Some q \<longrightarrow> q_status q \<noteq> question_answering) \<and>
    (\<forall>k p. mget (cr_plans m') k = Some p \<longrightarrow> plan_status p \<noteq> plan_executing) \<and>
    (\<forall>cid. running_in cid m' = None)"
proof -
  have reach: "chat_reach tc (chat_exec tc (InterruptRuns now) m)" by (rule chat_step[OF assms(1)]) simp
  then have "chat_reach tc m'" by (simp add: m'_def)
  note ok = view_okD[OF chat_reach_ok[OF this], unfolded view_simps]
  have ended: "\<not> running r" if "mget (cr_runs m') k = Some r" for k r
    using chat_interrupt_ended[OF chat_reach_ok[OF assms(1)]] that unfolding m'_def .
  have "is_terminal (run_status r)" if "mget (cr_runs m') k = Some r" for k r
    using runs_okD(3)[OF ok(1) that] ended[OF that] by blast
  moreover have "q_status q \<noteq> question_answering" if "mget (cr_questions m') k = Some q" for k q
    using questions_okD(3)[OF ok(2) that] ended unfolding answers_def by blast
  moreover have "plan_status p \<noteq> plan_executing" if "mget (cr_plans m') k = Some p" for k p
    using plans_okD(6)[OF ok(3) that] ended unfolding executed_by_def by blast
  moreover have "running_in cid m' = None" for cid
    using ended unfolding running_in_None idle_def view_simps by blast
  ultimately show ?thesis by blast
qed

lemma restart_frees_witness: "running_in ''c'' chat1 \<noteq> None \<and> running_in ''c'' (snd (chat_interrupt_running 9 chat1)) = None"
proof -
  have "mvals (cr_runs chat1) = [sample_chat_run ''r'' ''q1'' mode_plan]" by (simp add: chat1_run mitems_put)
  then have "running_in ''c'' chat1 \<noteq> None" by (simp add: running_in_def)
  with restart_frees[OF chat1_reach, of 9] show ?thesis by blast
qed

end
