(* ===== verification/Admin_Types.thy ===== *)
theory Admin_Types
  imports Go_Strings
begin

text \<open>
  The data model of \<open>apps/admin-api/internal/store/store.go\<close>: the rows of the admin store, field by
  field, and the state of its in-process implementation (\<open>store/memory.go\<close>). Statuses, scopes and
  kinds are Go strings. A \<open>json.RawMessage\<close> is a byte slice that may be nil, so it is an option; a value of
  type \<open>any\<close> in the attributes of a span is its JSON text, since the store only copies it.
\<close>

datatype store_error = StoreNotFound | StoreConflict | StoreVersionConflict

type_synonym raw = "string option"

text \<open>\<open>append([]byte(nil), raw...)\<close>: an empty slice comes back nil.\<close>

definition clone_raw :: "raw \<Rightarrow> raw" where
  "clone_raw r = (if r = Some [] then None else r)"

lemma clone_raw_simps [simp]:
  "clone_raw None = None" "clone_raw (Some []) = None" "s \<noteq> [] \<Longrightarrow> clone_raw (Some s) = Some s"
  "clone_raw (clone_raw r) = clone_raw r"
  by (simp_all add: clone_raw_def)

section \<open>Accounts\<close>

record token_record =
  tok_id :: string
  tok_user_id :: string
  tok_tenant_id :: string
  tok_issuer :: string
  tok_issued_at :: gtime
  tok_expires_at :: gtime
  tok_revoked :: bool
  tok_revoked_at :: gtime
  tok_created_by :: string

record quota_override =
  qo_scope :: string
  qo_subject :: string
  qo_limit :: int
  qo_updated_at :: gtime
  qo_updated_by :: string

record system_setting =
  ss_key :: string
  ss_value :: raw
  ss_version :: int
  ss_updated_at :: gtime
  ss_updated_by :: string

record auth_user =
  au_id :: string
  au_username :: string
  au_email :: string
  au_name :: string
  au_tenant_id :: string
  au_role :: string
  au_enabled :: bool
  au_version :: int
  au_password_hash :: string
  au_created_at :: gtime
  au_updated_at :: gtime
  au_last_login_at :: gtime
  au_created_by :: string
  au_updated_by :: string
  au_password_updated :: gtime
  au_deleted_at :: gtime
  au_deleted_by :: string

record auth_user_identifier =
  ai_id :: string
  ai_user_id :: string
  ai_kind :: string
  ai_value :: string
  ai_display_value :: string
  ai_verified :: bool
  ai_primary :: bool
  ai_created_at :: gtime
  ai_updated_at :: gtime

text \<open>The closure \<open>add\<close>: a value that is empty or was added before adds nothing.\<close>

definition add_identifier :: "auth_user \<Rightarrow> string \<Rightarrow> string \<Rightarrow> bool \<Rightarrow> auth_user_identifier list \<Rightarrow> auth_user_identifier list" where
  "add_identifier u kind v primary out =
     (if v = [] \<or> v \<in> ai_value ` set out then out
      else out @ [\<lparr>ai_id = au_id u @ '':'' @ kind @ '':'' @ v, ai_user_id = au_id u, ai_kind = kind, ai_value = v,
        ai_display_value = v, ai_verified = True, ai_primary = primary, ai_created_at = au_created_at u,
        ai_updated_at = au_updated_at u\<rparr>])"

definition auth_user_identifiers_for :: "auth_user \<Rightarrow> auth_user_identifier list" where
  "auth_user_identifiers_for u =
     add_identifier u ''email'' (au_email u) True (add_identifier u ''username'' (au_username u) False [])"

record user_agent_instructions =
  ui_user_id :: string
  ui_content :: string
  ui_version :: int
  ui_updated_at :: gtime
  ui_updated_by :: string

section \<open>Catalogs\<close>

record skill =
  sk_id :: string
  sk_runtime_id :: string
  sk_name :: string
  sk_description :: string
  sk_version :: string
  sk_entrypoint :: string
  sk_enabled :: bool
  sk_scope :: string
  sk_owner_user_id :: string
  sk_source_type :: string
  sk_source_url :: string
  sk_source_ref :: string
  sk_source_path :: string
  sk_bundle_object_key :: string
  sk_content_sha256 :: string
  sk_manifest :: raw
  sk_frontmatter :: raw
  sk_result_contract :: raw
  sk_skill_md :: string
  sk_file_count :: int
  sk_size_bytes :: int
  sk_created_at :: gtime
  sk_updated_at :: gtime
  sk_created_by :: string
  sk_updated_by :: string

record user_skill_preference =
  sp_user_id :: string
  sp_skill_id :: string
  sp_enabled :: bool
  sp_updated_at :: gtime

record mcp_server =
  mc_id :: string
  mc_name :: string
  mc_description :: string
  mc_transport :: string
  mc_command :: string
  mc_args :: raw
  mc_url :: string
  mc_url_var_ciphertext :: raw
  mc_url_var_hint :: raw
  mc_env_ciphertext :: raw
  mc_env_hint :: raw
  mc_header_ciphertext :: raw
  mc_header_hint :: raw
  mc_enabled :: bool
  mc_default_enabled :: bool
  mc_source :: string
  mc_status :: string
  mc_created_at :: gtime
  mc_updated_at :: gtime
  mc_created_by :: string
  mc_updated_by :: string

record user_mcp_preference =
  mp_user_id :: string
  mp_mcp_id :: string
  mp_enabled :: bool
  mp_updated_at :: gtime

record agent_prompt =
  ap_id :: string
  ap_name :: string
  ap_content :: string
  ap_enabled :: bool
  ap_scope :: string
  ap_priority :: int
  ap_version :: int
  ap_created_at :: gtime
  ap_updated_at :: gtime
  ap_created_by :: string
  ap_updated_by :: string

record llm_provider =
  lp_id :: string
  lp_name :: string
  lp_type :: string
  lp_base_url :: string
  lp_api_key_ciphertext :: string
  lp_api_key_hint :: string
  lp_icon_type :: string
  lp_icon_slug :: string
  lp_icon_url :: string
  lp_enabled :: bool
  lp_created_at :: gtime
  lp_updated_at :: gtime

record llm_model_route =
  lr_id :: string
  lr_alias :: string
  lr_provider_id :: string
  lr_protocol :: string
  lr_real_model :: string
  lr_label :: string
  lr_icon_type :: string
  lr_icon_slug :: string
  lr_icon_url :: string
  lr_enabled :: bool
  lr_visible :: bool
  lr_is_default :: bool
  lr_sort_order :: int
  lr_embedding_dimension :: int
  lr_reasoning_efforts :: "string list"
  lr_server_web_tools_enabled :: bool
  lr_created_at :: gtime
  lr_updated_at :: gtime

record memory_config =
  mg_enabled :: bool
  mg_resetting :: bool
  mg_extraction_model_route_id :: string
  mg_embedding_model_route_id :: string
  mg_version :: int
  mg_updated_at :: gtime
  mg_updated_by :: string

record memory_index_lock =
  ml_route_id :: string
  ml_provider_id :: string
  ml_model :: string
  ml_base_url :: string
  ml_dimension :: int

section \<open>Scheduled tasks\<close>

record scheduled_task =
  st_id :: string
  st_owner_type :: string
  st_owner_user_id :: string
  st_conversation_id :: string
  st_name :: string
  st_description :: string
  st_status :: string
  st_schedule_kind :: string
  st_schedule_spec :: raw
  st_timezone :: string
  st_prompt :: string
  st_model_route_id :: string
  st_model_alias :: string
  st_max_turns :: int
  st_config :: raw
  st_expires_at :: gtime
  st_next_run_at :: gtime
  st_last_run_at :: gtime
  st_run_count :: int
  st_last_status :: string
  st_last_error :: string
  st_created_at :: gtime
  st_updated_at :: gtime
  st_created_by :: string
  st_updated_by :: string

record task_attachment =
  ta_id :: string
  ta_task_id :: string
  ta_filename :: string
  ta_mime :: string
  ta_size_bytes :: int
  ta_object_key :: string
  ta_content_b64 :: string
  ta_created_at :: gtime
  ta_created_by :: string

record task_run =
  tr_id :: string
  tr_task_id :: string
  tr_scheduled_for :: gtime
  tr_status :: string
  tr_worker_id :: string
  tr_session_id :: string
  tr_model_route_id :: string
  tr_model_alias :: string
  tr_output_text :: string
  tr_error :: string
  tr_started_at :: gtime
  tr_finished_at :: gtime
  tr_created_at :: gtime
  tr_updated_at :: gtime

record task_run_event =
  te_id :: int
  te_run_id :: string
  te_seq :: int
  te_kind :: string
  te_data :: raw
  te_created_at :: gtime

section \<open>Conversation audit\<close>

record conversation_run =
  vr_trace_id :: string
  vr_root_span_id :: string
  vr_conversation_id :: string
  vr_conversation_title :: string
  vr_user_id :: string
  vr_user_email :: string
  vr_source :: string
  vr_model_alias :: string
  vr_status :: string
  vr_started_at :: gtime
  vr_completed_at :: gtime
  vr_last_activity_at :: gtime
  vr_duration_ms :: int
  vr_ttft_ms :: int
  vr_llm_call_count :: int
  vr_tool_call_count :: int
  vr_input_tokens :: int
  vr_output_tokens :: int
  vr_cache_tokens :: int
  vr_error_code :: string
  vr_safe_error_summary :: string
  vr_detail_status :: string
  vr_created_at :: gtime
  vr_updated_at :: gtime

record run_query =
  rq_search :: string
  rq_status :: string
  rq_source :: string
  rq_from :: gtime
  rq_until :: gtime
  rq_limit :: int
  rq_offset :: int

record trace_span =
  ts_id :: int
  ts_trace_id :: string
  ts_span_id :: string
  ts_parent_span_id :: string
  ts_schema_version :: int
  ts_service :: string
  ts_name :: string
  ts_category :: string
  ts_started_at :: gtime
  ts_duration_us :: int
  ts_status :: string
  ts_attributes :: "(string, string) gomap option"
  ts_created_at :: gtime
  ts_updated_at :: gtime

record span_query =
  sq_trace_id :: string
  sq_after_id :: int
  sq_limit :: int

section \<open>The in-process store\<close>

record admin_memory =
  am_users :: "(string, auth_user) gomap"
  am_identifiers :: "(string, string) gomap"
  am_tokens :: "(string, token_record) gomap"
  am_quotas :: "(string, quota_override) gomap"
  am_settings :: "(string, system_setting) gomap"
  am_skills :: "(string, skill) gomap"
  am_skill_prefs :: "(string, user_skill_preference) gomap"
  am_mcps :: "(string, mcp_server) gomap"
  am_mcp_prefs :: "(string, user_mcp_preference) gomap"
  am_user_instructions :: "(string, user_agent_instructions) gomap"
  am_agent_prompts :: "(string, agent_prompt) gomap"
  am_llm_providers :: "(string, llm_provider) gomap"
  am_llm_models :: "(string, llm_model_route) gomap"
  am_memory_config :: memory_config
  am_memory_index_lock :: memory_index_lock
  am_memory_reset_accounts :: "(string, unit) gomap"
  am_tasks :: "(string, scheduled_task) gomap"
  am_attachments :: "(string, task_attachment) gomap"
  am_runs :: "(string, task_run) gomap"
  am_run_events :: "(string, task_run_event list) gomap"
  am_conversation_runs :: "(string, conversation_run) gomap"
  am_conversation_spans :: "(string, (string, trace_span) gomap) gomap"
  am_run_event_seq :: int
  am_conversation_span_seq :: int

definition memory_config_zero :: memory_config where
  "memory_config_zero = \<lparr>mg_enabled = False, mg_resetting = False, mg_extraction_model_route_id = [],
     mg_embedding_model_route_id = [], mg_version = 0, mg_updated_at = 0, mg_updated_by = []\<rparr>"

definition memory_index_lock_zero :: memory_index_lock where
  "memory_index_lock_zero = \<lparr>ml_route_id = [], ml_provider_id = [], ml_model = [], ml_base_url = [], ml_dimension = 0\<rparr>"

definition new_admin_memory :: admin_memory where
  "new_admin_memory = \<lparr>am_users = mnil, am_identifiers = mnil, am_tokens = mnil, am_quotas = mnil, am_settings = mnil,
     am_skills = mnil, am_skill_prefs = mnil, am_mcps = mnil, am_mcp_prefs = mnil, am_user_instructions = mnil,
     am_agent_prompts = mnil, am_llm_providers = mnil, am_llm_models = mnil, am_memory_config = memory_config_zero,
     am_memory_index_lock = memory_index_lock_zero, am_memory_reset_accounts = mnil, am_tasks = mnil,
     am_attachments = mnil, am_runs = mnil, am_run_events = mnil, am_conversation_runs = mnil,
     am_conversation_spans = mnil, am_run_event_seq = 0, am_conversation_span_seq = 0\<rparr>"

type_synonym 'a admin_result = "(store_error + 'a) \<times> admin_memory"

end
