(* ===== verification/Admin_Catalog.thy ===== *)
theory Admin_Catalog
  imports Admin_Types
begin

text \<open>
  \<open>apps/admin-api/internal/store/memory.go\<close>, second part: skills and MCP servers with the users'
  preferences, agent instructions and prompts, model providers with their routes, and the switch of the
  user memory with its index lock and reset.
\<close>

section \<open>Skills\<close>

definition normalize_skill :: "skill \<Rightarrow> skill" where
  "normalize_skill s =
     (let s = (if sk_runtime_id s = [] then s\<lparr>sk_runtime_id := sk_id s\<rparr> else s);
          s = (if sk_scope s = [] then s\<lparr>sk_scope := ''admin''\<rparr> else s);
          s = (if sk_source_type s = [] then s\<lparr>sk_source_type := ''manual''\<rparr> else s);
          s = (if sk_manifest s = None then s\<lparr>sk_manifest := Some ''[]''\<rparr> else s)
      in if sk_frontmatter s = None then s\<lparr>sk_frontmatter := Some ''{}''\<rparr> else s)"

definition clone_skill :: "skill \<Rightarrow> skill" where
  "clone_skill s = (let s = normalize_skill s
     in s\<lparr>sk_manifest := clone_raw (sk_manifest s), sk_frontmatter := clone_raw (sk_frontmatter s)\<rparr>)"

definition skill_pref_key :: "string \<Rightarrow> string \<Rightarrow> string" where "skill_pref_key user sid = user @ ''/'' @ sid"

definition put_skill :: "string \<Rightarrow> skill \<Rightarrow> admin_memory \<Rightarrow> admin_memory" where
  "put_skill i s m = m\<lparr>am_skills := mput (am_skills m) i s\<rparr>"

definition create_skill :: "skill \<Rightarrow> admin_memory \<Rightarrow> unit admin_result" where
  "create_skill s m =
     (if mget (am_skills m) (sk_id s) \<noteq> None then (Inl StoreConflict, m)
      else (Inr (), put_skill (sk_id s) (clone_skill s) m))"

definition get_skill :: "string \<Rightarrow> admin_memory \<Rightarrow> store_error + skill" where
  "get_skill i m = (case mget (am_skills m) i of None \<Rightarrow> Inl StoreNotFound | Some s \<Rightarrow> Inr (clone_skill s))"

definition list_skills :: "bool \<Rightarrow> admin_memory \<Rightarrow> skill list" where
  "list_skills only_enabled m = sort_key sk_id
     (map clone_skill (filter (\<lambda>s. \<not> (only_enabled \<and> \<not> sk_enabled s)) (mvals (am_skills m))))"

definition list_skills_for_user :: "string \<Rightarrow> admin_memory \<Rightarrow> skill list" where
  "list_skills_for_user user m = sort_key sk_id
     (map clone_skill (filter (\<lambda>s. sk_scope s = ''user'' \<and> sk_owner_user_id s = user)
        (map normalize_skill (mvals (am_skills m)))))"

definition update_skill :: "skill \<Rightarrow> admin_memory \<Rightarrow> unit admin_result" where
  "update_skill s m =
     (if mget (am_skills m) (sk_id s) = None then (Inl StoreNotFound, m)
      else (Inr (), put_skill (sk_id s) (clone_skill s) m))"

definition set_skill_enabled :: "string \<Rightarrow> bool \<Rightarrow> gtime \<Rightarrow> string \<Rightarrow> admin_memory \<Rightarrow> unit admin_result" where
  "set_skill_enabled i enabled at actor m =
     (case mget (am_skills m) i of
        None \<Rightarrow> (Inl StoreNotFound, m)
      | Some s \<Rightarrow> (Inr (), put_skill i (s\<lparr>sk_enabled := enabled, sk_updated_at := at, sk_updated_by := actor\<rparr>) m))"

definition update_bundled_skill :: "skill \<Rightarrow> admin_memory \<Rightarrow> unit admin_result" where
  "update_bundled_skill s m =
     (case mget (am_skills m) (sk_id s) of
        None \<Rightarrow> (Inl StoreNotFound, m)
      | Some existing \<Rightarrow>
          (let existing = normalize_skill existing in
           if sk_source_type existing \<noteq> ''bundled'' then (Inl StoreConflict, m)
           else (Inr (), put_skill (sk_id s) ((clone_skill s)\<lparr>sk_enabled := sk_enabled existing,
                   sk_source_type := sk_source_type existing, sk_created_at := sk_created_at existing,
                   sk_created_by := sk_created_by existing\<rparr>) m)))"

definition delete_skill :: "string \<Rightarrow> admin_memory \<Rightarrow> unit admin_result" where
  "delete_skill i m =
     (if mget (am_skills m) i = None then (Inl StoreNotFound, m)
      else (Inr (), m\<lparr>am_skills := mdel (am_skills m) i,
              am_skill_prefs := DAList.filter (\<lambda>(_, p). sp_skill_id p \<noteq> i) (am_skill_prefs m)\<rparr>))"

definition set_user_skill_preference :: "user_skill_preference \<Rightarrow> admin_memory \<Rightarrow> unit admin_result" where
  "set_user_skill_preference p m =
     (if mget (am_skills m) (sp_skill_id p) = None then (Inl StoreNotFound, m)
      else (Inr (), m\<lparr>am_skill_prefs := mput (am_skill_prefs m) (skill_pref_key (sp_user_id p) (sp_skill_id p)) p\<rparr>))"

definition list_user_skill_preferences :: "string \<Rightarrow> admin_memory \<Rightarrow> user_skill_preference list" where
  "list_user_skill_preferences user m = sort_key sp_skill_id (filter (\<lambda>p. sp_user_id p = user) (mvals (am_skill_prefs m)))"

definition delete_user_skill_preference :: "string \<Rightarrow> string \<Rightarrow> admin_memory \<Rightarrow> admin_memory" where
  "delete_user_skill_preference user sid m = m\<lparr>am_skill_prefs := mdel (am_skill_prefs m) (skill_pref_key user sid)\<rparr>"

section \<open>MCP servers\<close>

definition or_raw :: "raw \<Rightarrow> string \<Rightarrow> raw" where
  \<comment> \<open>\<open>if x == nil { x = []byte(d) }\<close>\<close>
  "or_raw r d = (case r of None \<Rightarrow> Some d | Some _ \<Rightarrow> r)"

definition normalize_mcp_server :: "mcp_server \<Rightarrow> mcp_server" where
  "normalize_mcp_server s = s\<lparr>mc_args := or_raw (mc_args s) ''[]'', mc_env_ciphertext := or_raw (mc_env_ciphertext s) ''{}'',
     mc_env_hint := or_raw (mc_env_hint s) ''{}'', mc_url_var_ciphertext := or_raw (mc_url_var_ciphertext s) ''{}'',
     mc_url_var_hint := or_raw (mc_url_var_hint s) ''{}'', mc_header_ciphertext := or_raw (mc_header_ciphertext s) ''{}'',
     mc_header_hint := or_raw (mc_header_hint s) ''{}'',
     mc_source := (if mc_source s = [] then ''admin'' else mc_source s),
     mc_status := (if mc_status s = [] then ''active'' else mc_status s)\<rparr>"

definition clone_mcp_server :: "mcp_server \<Rightarrow> mcp_server" where
  "clone_mcp_server s = (let s = normalize_mcp_server s
     in s\<lparr>mc_args := clone_raw (mc_args s), mc_url_var_ciphertext := clone_raw (mc_url_var_ciphertext s),
          mc_url_var_hint := clone_raw (mc_url_var_hint s), mc_env_ciphertext := clone_raw (mc_env_ciphertext s),
          mc_env_hint := clone_raw (mc_env_hint s), mc_header_ciphertext := clone_raw (mc_header_ciphertext s),
          mc_header_hint := clone_raw (mc_header_hint s)\<rparr>)"

definition mcp_pref_key :: "string \<Rightarrow> string \<Rightarrow> string" where "mcp_pref_key user mid = user @ ''/'' @ mid"

definition create_mcp_server :: "mcp_server \<Rightarrow> admin_memory \<Rightarrow> unit admin_result" where
  "create_mcp_server s m =
     (if mget (am_mcps m) (mc_id s) \<noteq> None then (Inl StoreConflict, m)
      else (Inr (), m\<lparr>am_mcps := mput (am_mcps m) (mc_id s) (clone_mcp_server s)\<rparr>))"

definition get_mcp_server :: "string \<Rightarrow> admin_memory \<Rightarrow> store_error + mcp_server" where
  "get_mcp_server i m = (case mget (am_mcps m) i of None \<Rightarrow> Inl StoreNotFound | Some s \<Rightarrow> Inr (clone_mcp_server s))"

definition list_mcp_servers :: "bool \<Rightarrow> admin_memory \<Rightarrow> mcp_server list" where
  "list_mcp_servers only_enabled m = sort_key mc_id
     (map clone_mcp_server (filter (\<lambda>s. \<not> (only_enabled \<and> \<not> mc_enabled s)) (mvals (am_mcps m))))"

definition update_mcp_server :: "mcp_server \<Rightarrow> admin_memory \<Rightarrow> unit admin_result" where
  "update_mcp_server s m =
     (if mget (am_mcps m) (mc_id s) = None then (Inl StoreNotFound, m)
      else (Inr (), m\<lparr>am_mcps := mput (am_mcps m) (mc_id s) (clone_mcp_server s)\<rparr>))"

definition delete_mcp_server :: "string \<Rightarrow> admin_memory \<Rightarrow> unit admin_result" where
  "delete_mcp_server i m =
     (if mget (am_mcps m) i = None then (Inl StoreNotFound, m)
      else (Inr (), m\<lparr>am_mcps := mdel (am_mcps m) i,
              am_mcp_prefs := DAList.filter (\<lambda>(_, p). mp_mcp_id p \<noteq> i) (am_mcp_prefs m)\<rparr>))"

definition set_user_mcp_preference :: "user_mcp_preference \<Rightarrow> admin_memory \<Rightarrow> unit admin_result" where
  "set_user_mcp_preference p m =
     (if mget (am_mcps m) (mp_mcp_id p) = None then (Inl StoreNotFound, m)
      else (Inr (), m\<lparr>am_mcp_prefs := mput (am_mcp_prefs m) (mcp_pref_key (mp_user_id p) (mp_mcp_id p)) p\<rparr>))"

definition list_user_mcp_preferences :: "string \<Rightarrow> admin_memory \<Rightarrow> user_mcp_preference list" where
  "list_user_mcp_preferences user m = sort_key mp_mcp_id (filter (\<lambda>p. mp_user_id p = user) (mvals (am_mcp_prefs m)))"

definition delete_user_mcp_preference :: "string \<Rightarrow> string \<Rightarrow> admin_memory \<Rightarrow> admin_memory" where
  "delete_user_mcp_preference user mid m = m\<lparr>am_mcp_prefs := mdel (am_mcp_prefs m) (mcp_pref_key user mid)\<rparr>"

section \<open>Agent instructions and prompts\<close>

definition get_user_agent_instructions :: "string \<Rightarrow> admin_memory \<Rightarrow> store_error + user_agent_instructions" where
  "get_user_agent_instructions user m =
     (case mget (am_user_instructions m) user of None \<Rightarrow> Inl StoreNotFound | Some i \<Rightarrow> Inr i)"

definition set_user_agent_instructions :: "user_agent_instructions \<Rightarrow> admin_memory \<Rightarrow> user_agent_instructions admin_result" where
  "set_user_agent_instructions i m =
     (if mget (am_users m) (ui_user_id i) = None then (Inl StoreNotFound, m)
      else (let i = i\<lparr>ui_version := (case mget (am_user_instructions m) (ui_user_id i) of
                    None \<Rightarrow> 1 | Some current \<Rightarrow> int64 (ui_version current + 1))\<rparr>
            in (Inr i, m\<lparr>am_user_instructions := mput (am_user_instructions m) (ui_user_id i) i\<rparr>)))"

definition normalize_agent_prompt :: "agent_prompt \<Rightarrow> agent_prompt" where
  "normalize_agent_prompt p = p\<lparr>ap_scope := (if ap_scope p = [] then ''global'' else ap_scope p),
     ap_name := (if ap_name p = [] then ap_id p else ap_name p)\<rparr>"

definition create_agent_prompt :: "agent_prompt \<Rightarrow> admin_memory \<Rightarrow> unit admin_result" where
  "create_agent_prompt p m =
     (let p = normalize_agent_prompt p in
      if mget (am_agent_prompts m) (ap_id p) \<noteq> None then (Inl StoreConflict, m)
      else (Inr (), m\<lparr>am_agent_prompts := mput (am_agent_prompts m) (ap_id p) p\<rparr>))"

definition get_agent_prompt :: "string \<Rightarrow> admin_memory \<Rightarrow> store_error + agent_prompt" where
  "get_agent_prompt i m =
     (case mget (am_agent_prompts m) i of None \<Rightarrow> Inl StoreNotFound | Some p \<Rightarrow> Inr (normalize_agent_prompt p))"

definition list_agent_prompts :: "bool \<Rightarrow> admin_memory \<Rightarrow> agent_prompt list" where
  "list_agent_prompts only_enabled m = sort_key (\<lambda>p. (ap_priority p, ap_id p))
     (filter (\<lambda>p. \<not> (only_enabled \<and> \<not> ap_enabled p)) (map normalize_agent_prompt (mvals (am_agent_prompts m))))"

definition update_agent_prompt :: "agent_prompt \<Rightarrow> admin_memory \<Rightarrow> unit admin_result" where
  "update_agent_prompt p m =
     (let p = normalize_agent_prompt p in
      if mget (am_agent_prompts m) (ap_id p) = None then (Inl StoreNotFound, m)
      else (Inr (), m\<lparr>am_agent_prompts := mput (am_agent_prompts m) (ap_id p) p\<rparr>))"

section \<open>Model providers and routes\<close>

definition put_provider :: "llm_provider \<Rightarrow> admin_memory \<Rightarrow> admin_memory" where
  "put_provider p m = m\<lparr>am_llm_providers := mput (am_llm_providers m) (lp_id p) p\<rparr>"

definition create_llm_provider :: "llm_provider \<Rightarrow> admin_memory \<Rightarrow> unit admin_result" where
  "create_llm_provider p m =
     (if mget (am_llm_providers m) (lp_id p) \<noteq> None then (Inl StoreConflict, m) else (Inr (), put_provider p m))"

definition get_llm_provider :: "string \<Rightarrow> admin_memory \<Rightarrow> store_error + llm_provider" where
  "get_llm_provider i m = (case mget (am_llm_providers m) i of None \<Rightarrow> Inl StoreNotFound | Some p \<Rightarrow> Inr p)"

definition list_llm_providers :: "admin_memory \<Rightarrow> llm_provider list" where
  "list_llm_providers m = sort_key lp_id (mvals (am_llm_providers m))"

definition update_llm_provider :: "llm_provider \<Rightarrow> admin_memory \<Rightarrow> unit admin_result" where
  "update_llm_provider p m =
     (if mget (am_llm_providers m) (lp_id p) = None then (Inl StoreNotFound, m) else (Inr (), put_provider p m))"

definition delete_llm_provider :: "string \<Rightarrow> admin_memory \<Rightarrow> unit admin_result" where
  "delete_llm_provider i m =
     (if mget (am_llm_providers m) i = None then (Inl StoreNotFound, m)
      else if list_ex (\<lambda>r. lr_provider_id r = i) (mvals (am_llm_models m)) then (Inl StoreConflict, m)
      else (Inr (), m\<lparr>am_llm_providers := mdel (am_llm_providers m) i\<rparr>))"

text \<open>The loop that takes the default flag away from every other route of the protocol.\<close>

definition clear_defaults :: "llm_model_route \<Rightarrow> bool \<Rightarrow> admin_memory \<Rightarrow> admin_memory" where
  "clear_defaults r but_id m =
     (if lr_is_default r
      then m\<lparr>am_llm_models := mmap (\<lambda>i e. if (but_id \<and> i = lr_id r) \<or> lr_protocol e \<noteq> lr_protocol r then e
               else e\<lparr>lr_is_default := False\<rparr>) (am_llm_models m)\<rparr>
      else m)"

definition put_route :: "llm_model_route \<Rightarrow> admin_memory \<Rightarrow> admin_memory" where
  "put_route r m = m\<lparr>am_llm_models := mput (am_llm_models m) (lr_id r) r\<rparr>"

definition create_llm_model_route :: "llm_model_route \<Rightarrow> admin_memory \<Rightarrow> unit admin_result" where
  "create_llm_model_route r m =
     (if mget (am_llm_models m) (lr_id r) \<noteq> None then (Inl StoreConflict, m)
      else if mget (am_llm_providers m) (lr_provider_id r) = None then (Inl StoreNotFound, m)
      else if list_ex (\<lambda>e. lr_provider_id e = lr_provider_id r \<and> lr_alias e = lr_alias r) (mvals (am_llm_models m))
      then (Inl StoreConflict, m)
      else (Inr (), put_route r (clear_defaults r False m)))"

definition get_llm_model_route :: "string \<Rightarrow> admin_memory \<Rightarrow> store_error + llm_model_route" where
  "get_llm_model_route i m = (case mget (am_llm_models m) i of None \<Rightarrow> Inl StoreNotFound | Some r \<Rightarrow> Inr r)"

definition list_llm_model_routes :: "admin_memory \<Rightarrow> llm_model_route list" where
  "list_llm_model_routes m = sort_key (\<lambda>r. (\<not> lr_is_default r, lr_sort_order r, lr_alias r, lr_provider_id r))
     (mvals (am_llm_models m))"

definition update_llm_model_route :: "llm_model_route \<Rightarrow> admin_memory \<Rightarrow> unit admin_result" where
  "update_llm_model_route r m =
     (if mget (am_llm_models m) (lr_id r) = None then (Inl StoreNotFound, m)
      else if mget (am_llm_providers m) (lr_provider_id r) = None then (Inl StoreNotFound, m)
      else if list_ex (\<lambda>(i, e). i \<noteq> lr_id r \<and> lr_provider_id e = lr_provider_id r \<and> lr_alias e = lr_alias r)
          (mitems (am_llm_models m))
      then (Inl StoreConflict, m)
      else (Inr (), put_route r (clear_defaults r True m)))"

definition delete_llm_model_route :: "string \<Rightarrow> admin_memory \<Rightarrow> unit admin_result" where
  "delete_llm_model_route i m =
     (if mget (am_llm_models m) i = None then (Inl StoreNotFound, m)
      else (Inr (), m\<lparr>am_llm_models := mdel (am_llm_models m) i\<rparr>))"

section \<open>The user memory switch\<close>

definition get_memory_config :: "admin_memory \<Rightarrow> memory_config" where
  "get_memory_config m = am_memory_config m"

definition get_memory_index_lock :: "admin_memory \<Rightarrow> store_error + memory_index_lock" where
  "get_memory_index_lock m =
     (if ml_dimension (am_memory_index_lock m) = 0 then Inl StoreNotFound else Inr (am_memory_index_lock m))"

definition lock_incomplete :: "memory_config \<Rightarrow> memory_index_lock \<Rightarrow> bool" where
  "lock_incomplete c l \<longleftrightarrow> trim_space (mg_embedding_model_route_id c) = [] \<or> ml_dimension l \<le> 0 \<or>
     trim_space (ml_route_id l) = [] \<or> trim_space (ml_provider_id l) = [] \<or>
     trim_space (ml_model l) = [] \<or> trim_space (ml_base_url l) = []"

definition update_memory_config ::
  "memory_config \<Rightarrow> int \<Rightarrow> memory_index_lock \<Rightarrow> admin_memory \<Rightarrow> memory_config admin_result" where
  "update_memory_config c expected l m =
     (if mg_version (am_memory_config m) \<noteq> expected then (Inl StoreVersionConflict, m)
      else if mg_resetting (am_memory_config m) then (Inl StoreConflict, m)
      else if mg_enabled c \<and> lock_incomplete c l then (Inl StoreConflict, m)
      else if mg_enabled c \<and> ml_dimension (am_memory_index_lock m) \<noteq> 0 \<and> am_memory_index_lock m \<noteq> l
      then (Inl StoreConflict, m)
      else (let m = (if mg_enabled c then m\<lparr>am_memory_index_lock := l\<rparr> else m);
                c = c\<lparr>mg_version := int64 (expected + 1)\<rparr>
            in (Inr c, m\<lparr>am_memory_config := c\<rparr>)))"

definition begin_memory_reset :: "string \<Rightarrow> gtime \<Rightarrow> admin_memory \<Rightarrow> admin_memory" where
  "begin_memory_reset actor now m =
     (let c = am_memory_config m;
          c = (if \<not> mg_resetting c then c\<lparr>mg_version := int64 (mg_version c + 1)\<rparr> else c)
      in m\<lparr>am_memory_config := c\<lparr>mg_resetting := True, mg_enabled := False, mg_extraction_model_route_id := [],
             mg_embedding_model_route_id := [], mg_updated_by := actor, mg_updated_at := now\<rparr>\<rparr>)"

definition list_memory_reset_accounts :: "admin_memory \<Rightarrow> string list" where
  "list_memory_reset_accounts m = sort (map fst (mitems (am_memory_reset_accounts m)))"

definition complete_memory_reset_account :: "string \<Rightarrow> admin_memory \<Rightarrow> admin_memory" where
  "complete_memory_reset_account tenant m = m\<lparr>am_memory_reset_accounts := mdel (am_memory_reset_accounts m) tenant\<rparr>"

definition complete_memory_reset :: "admin_memory \<Rightarrow> unit admin_result" where
  "complete_memory_reset m =
     (if mitems (am_memory_reset_accounts m) \<noteq> [] then (Inl StoreConflict, m)
      else (Inr (), m\<lparr>am_memory_index_lock := memory_index_lock_zero,
              am_memory_config := (am_memory_config m)\<lparr>mg_resetting := False\<rparr>\<rparr>))"

end
