(* ===== verification/Admin_Accounts.thy ===== *)
theory Admin_Accounts
  imports Admin_Types
begin

text \<open>
  \<open>apps/admin-api/internal/store/memory.go\<close>, first part: the whitelist of users with its index of login
  identifiers, tokens, quota overrides and system settings. An operation that changes the store returns
  its result and the new store; a read returns its result.
\<close>

section \<open>Users\<close>

abbreviation identifiers_of :: "auth_user \<Rightarrow> string list" where
  "identifiers_of u \<equiv> map ai_value (auth_user_identifiers_for u)"

definition identifier_taken :: "auth_user \<Rightarrow> admin_memory \<Rightarrow> bool" where
  "identifier_taken u m = list_ex (\<lambda>v. case mget (am_identifiers m) v of None \<Rightarrow> False | Some owner \<Rightarrow> owner \<noteq> au_id u)
     (identifiers_of u)"

definition store_user :: "auth_user \<Rightarrow> admin_memory \<Rightarrow> admin_memory" where
  "store_user u m = m\<lparr>am_users := mput (am_users m) (au_id u) u,
     am_identifiers := fold (\<lambda>v ids. mput ids v (au_id u)) (identifiers_of u) (am_identifiers m)\<rparr>"

definition create_auth_user :: "auth_user \<Rightarrow> admin_memory \<Rightarrow> unit admin_result" where
  "create_auth_user u m =
     (let u = (if au_version u \<le> 0 then u\<lparr>au_version := 1\<rparr> else u) in
      if mget (am_users m) (au_id u) \<noteq> None then (Inl StoreConflict, m)
      else if identifier_taken u m then (Inl StoreConflict, m)
      else (Inr (), store_user u m))"

definition get_auth_user :: "string \<Rightarrow> admin_memory \<Rightarrow> store_error + auth_user" where
  "get_auth_user uid m = (case mget (am_users m) uid of None \<Rightarrow> Inl StoreNotFound | Some u \<Rightarrow> Inr u)"

definition get_auth_user_by_email :: "string \<Rightarrow> admin_memory \<Rightarrow> store_error + auth_user" where
  "get_auth_user_by_email email m =
     (case find (\<lambda>u. au_email u = email) (mvals (am_users m)) of None \<Rightarrow> Inl StoreNotFound | Some u \<Rightarrow> Inr u)"

definition get_auth_user_by_identifier :: "string \<Rightarrow> admin_memory \<Rightarrow> store_error + auth_user" where
  "get_auth_user_by_identifier v m =
     (case mget (am_identifiers m) v of None \<Rightarrow> Inl StoreNotFound | Some uid \<Rightarrow> get_auth_user uid m)"

definition list_auth_users :: "admin_memory \<Rightarrow> auth_user list" where
  "list_auth_users m = sort_key au_email (filter (\<lambda>u. au_deleted_at u = 0) (mvals (am_users m)))"

definition forget_identifiers :: "string \<Rightarrow> (string, string) gomap \<Rightarrow> (string, string) gomap" where
  "forget_identifiers uid ids = DAList.filter (\<lambda>(_, owner). owner \<noteq> uid) ids"

text \<open>The expected version is a pointer, nil in \<open>UpdateAuthUser\<close>.\<close>

definition change_auth_user :: "auth_user \<Rightarrow> int option \<Rightarrow> admin_memory \<Rightarrow> unit admin_result" where
  "change_auth_user u expected m =
     (case mget (am_users m) (au_id u) of
        None \<Rightarrow> (Inl StoreNotFound, m)
      | Some existing \<Rightarrow>
          if expected \<noteq> None \<and> expected \<noteq> Some (au_version existing) then (Inl StoreVersionConflict, m)
          else if identifier_taken u m then (Inl StoreConflict, m)
          else (Inr (), store_user u (m\<lparr>am_identifiers := forget_identifiers (au_id u) (am_identifiers m)\<rparr>)))"

definition update_auth_user :: "auth_user \<Rightarrow> admin_memory \<Rightarrow> unit admin_result" where
  "update_auth_user u = change_auth_user u None"

definition update_auth_user_version :: "auth_user \<Rightarrow> int \<Rightarrow> admin_memory \<Rightarrow> unit admin_result" where
  "update_auth_user_version u expected = change_auth_user u (Some expected)"

definition delete_auth_user :: "string \<Rightarrow> string \<Rightarrow> gtime \<Rightarrow> admin_memory \<Rightarrow> unit admin_result" where
  "delete_auth_user uid actor at m =
     (case mget (am_users m) uid of
        None \<Rightarrow> (Inl StoreNotFound, m)
      | Some u \<Rightarrow>
          if au_deleted_at u \<noteq> 0 then (Inl StoreNotFound, m)
          else (Inr (), m\<lparr>am_users := mput (am_users m) uid (u\<lparr>au_enabled := False, au_deleted_at := at, au_deleted_by := actor,
             au_updated_at := at, au_updated_by := actor, au_version := int64 (au_version u + 1)\<rparr>)\<rparr>))"

definition touch_auth_user_login :: "string \<Rightarrow> gtime \<Rightarrow> admin_memory \<Rightarrow> unit admin_result" where
  "touch_auth_user_login uid at m =
     (case mget (am_users m) uid of
        None \<Rightarrow> (Inl StoreNotFound, m)
      | Some u \<Rightarrow> (Inr (), m\<lparr>am_users := mput (am_users m) uid (u\<lparr>au_last_login_at := at\<rparr>)\<rparr>))"

section \<open>Tokens\<close>

definition create_token :: "token_record \<Rightarrow> admin_memory \<Rightarrow> unit admin_result" where
  "create_token r m =
     (if mget (am_tokens m) (tok_id r) \<noteq> None then (Inl StoreConflict, m)
      else (Inr (), m\<lparr>am_tokens := mput (am_tokens m) (tok_id r) r\<rparr>))"

definition get_token :: "string \<Rightarrow> admin_memory \<Rightarrow> store_error + token_record" where
  "get_token i m = (case mget (am_tokens m) i of None \<Rightarrow> Inl StoreNotFound | Some r \<Rightarrow> Inr r)"

definition list_tokens :: "string \<Rightarrow> admin_memory \<Rightarrow> token_record list" where
  "list_tokens user m = sort_key (\<lambda>r. - tok_issued_at r)
     (filter (\<lambda>r. \<not> (user \<noteq> [] \<and> tok_user_id r \<noteq> user)) (mvals (am_tokens m)))"

definition revoke_token :: "string \<Rightarrow> gtime \<Rightarrow> admin_memory \<Rightarrow> unit admin_result" where
  "revoke_token i at m =
     (case mget (am_tokens m) i of
        None \<Rightarrow> (Inl StoreNotFound, m)
      | Some r \<Rightarrow> (Inr (), m\<lparr>am_tokens := mput (am_tokens m) i (r\<lparr>tok_revoked := True, tok_revoked_at := at\<rparr>)\<rparr>))"

definition is_revoked :: "string \<Rightarrow> admin_memory \<Rightarrow> store_error + bool" where
  "is_revoked i m = (case mget (am_tokens m) i of None \<Rightarrow> Inl StoreNotFound | Some r \<Rightarrow> Inr (tok_revoked r))"

section \<open>Quota overrides\<close>

definition quota_key :: "string \<Rightarrow> string \<Rightarrow> string" where "quota_key scope subject = scope @ ''/'' @ subject"

definition set_quota :: "quota_override \<Rightarrow> admin_memory \<Rightarrow> admin_memory" where
  "set_quota q m = m\<lparr>am_quotas := mput (am_quotas m) (quota_key (qo_scope q) (qo_subject q)) q\<rparr>"

definition get_quota :: "string \<Rightarrow> string \<Rightarrow> admin_memory \<Rightarrow> store_error + quota_override" where
  "get_quota scope subject m =
     (case mget (am_quotas m) (quota_key scope subject) of None \<Rightarrow> Inl StoreNotFound | Some q \<Rightarrow> Inr q)"

definition list_quotas :: "admin_memory \<Rightarrow> quota_override list" where
  "list_quotas m = sort_key (\<lambda>q. (qo_scope q, qo_subject q)) (mvals (am_quotas m))"

definition delete_quota :: "string \<Rightarrow> string \<Rightarrow> admin_memory \<Rightarrow> unit admin_result" where
  "delete_quota scope subject m =
     (let k = quota_key scope subject in
      if mget (am_quotas m) k = None then (Inl StoreNotFound, m)
      else (Inr (), m\<lparr>am_quotas := mdel (am_quotas m) k\<rparr>))"

section \<open>System settings\<close>

definition clone_setting :: "system_setting \<Rightarrow> system_setting" where
  "clone_setting s = s\<lparr>ss_value := clone_raw (ss_value s)\<rparr>"

definition get_system_setting :: "string \<Rightarrow> admin_memory \<Rightarrow> store_error + system_setting" where
  "get_system_setting k m = (case mget (am_settings m) k of None \<Rightarrow> Inl StoreNotFound | Some s \<Rightarrow> Inr (clone_setting s))"

definition list_system_settings :: "admin_memory \<Rightarrow> system_setting list" where
  "list_system_settings m = sort_key ss_key (map clone_setting (mvals (am_settings m)))"

definition setting_version :: "string \<Rightarrow> admin_memory \<Rightarrow> int" where
  "setting_version k m = (case mget (am_settings m) k of None \<Rightarrow> 0 | Some s \<Rightarrow> ss_version s)"

definition set_system_setting :: "system_setting \<Rightarrow> int \<Rightarrow> admin_memory \<Rightarrow> system_setting admin_result" where
  "set_system_setting s expected m =
     (let current = setting_version (ss_key s) m in
      if expected \<ge> 0 \<and> expected \<noteq> current then (Inl StoreConflict, m)
      else (let s = clone_setting (s\<lparr>ss_version := int64 (current + 1)\<rparr>)
            in (Inr s, m\<lparr>am_settings := mput (am_settings m) (ss_key s) s\<rparr>)))"

definition delete_system_setting :: "string \<Rightarrow> int \<Rightarrow> admin_memory \<Rightarrow> unit admin_result" where
  "delete_system_setting k expected m =
     (case mget (am_settings m) k of
        None \<Rightarrow> (Inl (if expected > 0 then StoreConflict else StoreNotFound), m)
      | Some s \<Rightarrow>
          if expected \<ge> 0 \<and> expected \<noteq> ss_version s then (Inl StoreConflict, m)
          else (Inr (), m\<lparr>am_settings := mdel (am_settings m) k\<rparr>))"

end
