(* ===== verification/Account_Laws.thy ===== *)
theory Account_Laws
  imports Admin_Accounts
begin

text \<open>
  The index of login identifiers agrees with the users, under every operation on accounts. Locale
  \<open>versioned\<close> is the contract of optimistic updates that settings, accounts and the memory switch share: a write
  that names an expected version goes through only when that version is stored, and then moves it on.
\<close>

section \<open>The identifier index\<close>

lemma identifiers_of_set: "set (identifiers_of u) = {au_username u, au_email u} - {[]}"
  by (auto simp: auth_user_identifiers_for_def add_identifier_def)

definition indexed :: "(string, auth_user) gomap \<Rightarrow> (string, string) gomap \<Rightarrow> bool" where
  "indexed users ids \<longleftrightarrow> (\<forall>k u. mget users k = Some u \<longrightarrow> au_id u = k) \<and>
     (\<forall>v uid. mget ids v = Some uid \<longleftrightarrow> (\<exists>u. mget users uid = Some u \<and> v \<in> set (identifiers_of u)))"

abbreviation users_ok :: "admin_memory \<Rightarrow> bool" where "users_ok m \<equiv> indexed (am_users m) (am_identifiers m)"

lemma users_okD:
  assumes "users_ok m"
  shows "mget (am_users m) k = Some u \<Longrightarrow> au_id u = k"
    and "mget (am_identifiers m) v = Some uid \<longleftrightarrow> (\<exists>u. mget (am_users m) uid = Some u \<and> v \<in> set (identifiers_of u))"
  using assms unfolding indexed_def by blast+

lemma not_taken: "\<not> identifier_taken u m \<longleftrightarrow>
  (\<forall>v \<in> set (identifiers_of u). \<forall>owner. mget (am_identifiers m) v = Some owner \<longrightarrow> owner = au_id u)"
  unfolding identifier_taken_def list_ex_iff by (auto split: option.splits)

lemma store_user_maps:
  "mget (am_users (store_user u m)) k = (if k = au_id u then Some u else mget (am_users m) k)"
  "mget (am_identifiers (store_user u m)) v = (if v \<in> set (identifiers_of u) then Some (au_id u) else mget (am_identifiers m) v)"
  by (simp_all add: store_user_def lookup_update mget_fold_put del: set_map)

text \<open>Storing a user whose identifiers nobody else has, over an index that has forgotten the user.\<close>

lemma store_user_ok:
  assumes keyed: "\<And>k x. mget users k = Some x \<Longrightarrow> au_id x = k"
    and index: "\<And>v uid. mget ids v = Some uid \<longleftrightarrow> uid \<noteq> au_id u \<and> (\<exists>x. mget users uid = Some x \<and> v \<in> set (identifiers_of x))"
    and free: "\<And>v owner. v \<in> set (identifiers_of u) \<Longrightarrow> mget ids v \<noteq> Some owner"
    and m: "am_users m = users" "am_identifiers m = ids"
  shows "users_ok (store_user u m)"
  unfolding indexed_def store_user_maps m
proof (intro conjI allI impI iffI)
  fix k x assume "(if k = au_id u then Some u else mget users k) = Some x"
  then show "au_id x = k" using keyed by (auto split: if_splits)
next
  fix v uid assume "(if v \<in> set (identifiers_of u) then Some (au_id u) else mget ids v) = Some uid"
  then show "\<exists>x. (if uid = au_id u then Some u else mget users uid) = Some x \<and> v \<in> set (identifiers_of x)"
    using index[of v uid] by (cases "v \<in> set (identifiers_of u)") auto
next
  fix v uid assume "\<exists>x. (if uid = au_id u then Some u else mget users uid) = Some x \<and> v \<in> set (identifiers_of x)"
  then obtain x where x: "(if uid = au_id u then Some u else mget users uid) = Some x" "v \<in> set (identifiers_of x)" by blast
  show "(if v \<in> set (identifiers_of u) then Some (au_id u) else mget ids v) = Some uid"
  proof (cases "uid = au_id u")
    case False
    with x have "mget ids v = Some uid" using index[of v uid] by auto
    with free[of v uid] show ?thesis by auto
  qed (use x in auto)
qed

lemma create_auth_user_ok:
  assumes ok: "users_ok m"
  shows "users_ok (snd (create_auth_user u m))"
proof -
  define w where "w = (if au_version u \<le> 0 then u\<lparr>au_version := 1\<rparr> else u)"
  show ?thesis
  proof (cases "mget (am_users m) (au_id w) \<noteq> None \<or> identifier_taken w m")
    case False
    then have new: "mget (am_users m) (au_id w) = None" and "\<not> identifier_taken w m" by auto
    then have free: "v \<in> set (identifiers_of w) \<Longrightarrow> mget (am_identifiers m) v \<noteq> Some owner" for v owner
      using users_okD(2)[OF ok] unfolding not_taken by (metis option.distinct(1))
    have "users_ok (store_user w m)"
      by (rule store_user_ok[OF users_okD(1)[OF ok] _ free refl refl]) (use users_okD(2)[OF ok] new in auto)
    with False show ?thesis by (simp add: create_auth_user_def w_def[symmetric])
  qed (use ok in \<open>auto simp: create_auth_user_def Let_def w_def\<close>)
qed

lemma change_auth_user_ok:
  assumes ok: "users_ok m"
  shows "users_ok (snd (change_auth_user u e m))"
proof (cases "mget (am_users m) (au_id u)")
  case (Some old)
  show ?thesis
  proof (cases "(e \<noteq> None \<and> e \<noteq> Some (au_version old)) \<or> identifier_taken u m")
    case False
    let ?n = "m\<lparr>am_identifiers := forget_identifiers (au_id u) (am_identifiers m)\<rparr>"
    have ids: "mget (am_identifiers ?n) v = Some uid \<longleftrightarrow> uid \<noteq> au_id u \<and> mget (am_identifiers m) v = Some uid" for v uid
      by (auto simp: forget_identifiers_def mget_filter split: option.splits)
    have "users_ok (store_user u ?n)"
    proof (rule store_user_ok[OF _ _ _ refl refl])
      fix k x assume "mget (am_users ?n) k = Some x"
      then show "au_id x = k" using users_okD(1)[OF ok] by simp
    next
      fix v uid
      show "mget (am_identifiers ?n) v = Some uid \<longleftrightarrow>
          uid \<noteq> au_id u \<and> (\<exists>x. mget (am_users ?n) uid = Some x \<and> v \<in> set (identifiers_of x))"
        unfolding ids users_okD(2)[OF ok] by simp
    next
      fix v owner assume "v \<in> set (identifiers_of u)"
      moreover have "\<not> identifier_taken u m" using False by blast
      ultimately show "mget (am_identifiers ?n) v \<noteq> Some owner" unfolding ids not_taken by blast
    qed
    with Some False show ?thesis by (auto simp: change_auth_user_def)
  qed (use Some ok in \<open>auto simp: change_auth_user_def\<close>)
qed (use ok in \<open>simp add: change_auth_user_def\<close>)

text \<open>A change of a user's other fields leaves the index right.\<close>

lemma retouch_ok:
  assumes ok: "indexed users ids" and "mget users uid = Some u" "au_id w = au_id u"
    "au_username w = au_username u" "au_email w = au_email u"
  shows "indexed (mput users uid w) ids"
proof -
  have same: "set (identifiers_of w) = set (identifiers_of u)" unfolding identifiers_of_set using assms by simp
  have id: "au_id w = uid" using assms unfolding indexed_def by auto
  have "(\<exists>x. mget (mput users uid w) k = Some x \<and> v \<in> set (identifiers_of x)) \<longleftrightarrow>
      (\<exists>x. mget users k = Some x \<and> v \<in> set (identifiers_of x))" for k v
    by (cases "k = uid") (auto simp: lookup_update assms(2) same simp del: set_map)
  with ok id show ?thesis unfolding indexed_def by (auto simp: lookup_update simp del: set_map)
qed

lemma delete_auth_user_ok: "users_ok m \<Longrightarrow> users_ok (snd (delete_auth_user uid actor t m))"
  by (auto simp: delete_auth_user_def intro: retouch_ok split: option.splits)

lemma touch_auth_user_login_ok: "users_ok m \<Longrightarrow> users_ok (snd (touch_auth_user_login uid t m))"
  by (auto simp: touch_auth_user_login_def intro: retouch_ok split: option.splits)

text \<open>Looking a login up through the index is looking it up in the table.\<close>

lemma identifier_lookup:
  assumes "users_ok m"
  shows "get_auth_user_by_identifier v m = Inr u \<longleftrightarrow>
    mget (am_users m) (au_id u) = Some u \<and> v \<noteq> [] \<and> (v = au_username u \<or> v = au_email u)"
proof -
  have "get_auth_user_by_identifier v m = Inr u \<longleftrightarrow>
      (\<exists>uid. mget (am_identifiers m) v = Some uid \<and> mget (am_users m) uid = Some u)"
    by (auto simp: get_auth_user_by_identifier_def get_auth_user_def split: option.splits)
  also have "\<dots> \<longleftrightarrow> (\<exists>uid. mget (am_users m) uid = Some u \<and> v \<in> set (identifiers_of u))"
    unfolding users_okD(2)[OF assms] by (metis option.inject)
  also have "\<dots> \<longleftrightarrow> mget (am_users m) (au_id u) = Some u \<and> v \<in> set (identifiers_of u)"
    using users_okD(1)[OF assms] by metis
  finally show ?thesis unfolding identifiers_of_set by auto
qed

lemma identifier_unique:
  assumes "users_ok m" "mget (am_users m) j = Some u" "mget (am_users m) k = Some w"
    "v \<in> set (identifiers_of u)" "v \<in> set (identifiers_of w)"
  shows "j = k"
  using users_okD(2)[OF assms(1)] assms(2-) by (metis option.inject)

section \<open>Optimistic updates\<close>

locale versioned =
  fixes ver :: "'s \<Rightarrow> 'k \<Rightarrow> int" and store :: "'k \<Rightarrow> 'v \<Rightarrow> int \<Rightarrow> 's \<Rightarrow> bool \<times> 's"
  assumes store_checks: "0 \<le> e \<Longrightarrow> fst (store k v e s) \<Longrightarrow> ver s k = e"
    and store_moves: "fst (store k v e s) \<Longrightarrow> ver (snd (store k v e s)) k = int64 (ver s k + 1)"
    and refused_keeps: "\<not> fst (store k v e s) \<Longrightarrow> snd (store k v e s) = s"
begin

text \<open>Of two writers that read the same version only the first gets through.\<close>

lemma second_writer_refused:
  assumes "0 \<le> e" "fst (store k v e s)"
  shows "\<not> fst (store k w e (snd (store k v e s)))"
proof
  assume "fst (store k w e (snd (store k v e s)))"
  then have "ver (snd (store k v e s)) k = e" using store_checks[OF assms(1)] by blast
  with store_moves[OF assms(2)] store_checks[OF assms] have "int64 (e + 1) = e" by simp
  then show False using int64_bump by blast
qed

end

definition accepted :: "('e + 'a) \<times> 's \<Rightarrow> bool \<times> 's" where
  "accepted r = (case r of (Inl _, s) \<Rightarrow> (False, s) | (Inr _, s) \<Rightarrow> (True, s))"

lemma accepted_simps [simp]: "accepted (Inl e, s) = (False, s)" "accepted (Inr a, s) = (True, s)"
  by (simp_all add: accepted_def)

definition store_setting :: "string \<Rightarrow> system_setting \<Rightarrow> int \<Rightarrow> admin_memory \<Rightarrow> bool \<times> admin_memory" where
  "store_setting k s e m = accepted (set_system_setting (s\<lparr>ss_key := k\<rparr>) e m)"

interpretation setting: versioned "\<lambda>m k. setting_version k m" store_setting
  by unfold_locales
    (auto simp: store_setting_def set_system_setting_def setting_version_def clone_setting_def Let_def lookup_update split: if_splits)

text \<open>The service moves the version of an account on before it stores it.\<close>

definition user_version :: "admin_memory \<Rightarrow> string \<Rightarrow> int" where
  "user_version m k = (case mget (am_users m) k of None \<Rightarrow> 0 | Some u \<Rightarrow> au_version u)"

definition store_account :: "string \<Rightarrow> auth_user \<Rightarrow> int \<Rightarrow> admin_memory \<Rightarrow> bool \<times> admin_memory" where
  "store_account k u e m = accepted (update_auth_user_version (u\<lparr>au_id := k, au_version := int64 (e + 1)\<rparr>) e m)"

lemma store_account_cases:
  "store_account k u e m = (case mget (am_users m) k of
     None \<Rightarrow> (False, m)
   | Some old \<Rightarrow> if au_version old \<noteq> e \<or> identifier_taken (u\<lparr>au_id := k, au_version := int64 (e + 1)\<rparr>) m then (False, m)
       else (True, store_user (u\<lparr>au_id := k, au_version := int64 (e + 1)\<rparr>)
         (m\<lparr>am_identifiers := forget_identifiers k (am_identifiers m)\<rparr>)))"
  by (auto simp: store_account_def update_auth_user_version_def change_auth_user_def split: option.split)

interpretation account: versioned user_version store_account
proof unfold_locales
  fix k u e m assume "fst (store_account k u e m)"
  then obtain old where old: "mget (am_users m) k = Some old" "au_version old = e"
    "store_account k u e m = (True, store_user (u\<lparr>au_id := k, au_version := int64 (e + 1)\<rparr>)
       (m\<lparr>am_identifiers := forget_identifiers k (am_identifiers m)\<rparr>))"
    unfolding store_account_cases by (auto split: option.splits if_splits)
  then show "user_version m k = e" "user_version (snd (store_account k u e m)) k = int64 (user_version m k + 1)"
    by (simp_all add: user_version_def store_user_maps)
next
  fix k u e m assume "\<not> fst (store_account k u e m)"
  then show "snd (store_account k u e m) = m" by (auto simp: store_account_cases split: option.splits if_splits)
qed

end
