(* ===== verification/Catalog_Laws.thy ===== *)
theory Catalog_Laws
  imports Admin_Catalog Account_Laws
begin

text \<open>
  What the catalog keeps: routes belong to providers, an alias is unique per provider, a protocol has at
  most one default route; preferences point to skills and servers that exist; the switch of the user
  memory is off during a reset and its index lock moves only through a reset.
\<close>

section \<open>Routes\<close>

definition routes_ok :: "(string, llm_provider) gomap \<Rightarrow> (string, llm_model_route) gomap \<Rightarrow> bool" where
  "routes_ok providers routes \<longleftrightarrow>
     (\<forall>k p. mget providers k = Some p \<longrightarrow> lp_id p = k) \<and>
     (\<forall>k r. mget routes k = Some r \<longrightarrow> lr_id r = k \<and> mget providers (lr_provider_id r) \<noteq> None) \<and>
     (\<forall>j k r s. mget routes j = Some r \<longrightarrow> mget routes k = Some s \<longrightarrow> lr_provider_id r = lr_provider_id s \<longrightarrow>
        lr_alias r = lr_alias s \<longrightarrow> j = k) \<and>
     (\<forall>j k r s. mget routes j = Some r \<longrightarrow> mget routes k = Some s \<longrightarrow> lr_is_default r \<longrightarrow> lr_is_default s \<longrightarrow>
        lr_protocol r = lr_protocol s \<longrightarrow> j = k)"

abbreviation models_ok :: "admin_memory \<Rightarrow> bool" where "models_ok m \<equiv> routes_ok (am_llm_providers m) (am_llm_models m)"

lemma routes_okD:
  assumes "routes_ok P R"
  shows "mget P k = Some p \<Longrightarrow> lp_id p = k"
    and "mget R k = Some r \<Longrightarrow> lr_id r = k" "mget R k = Some r \<Longrightarrow> mget P (lr_provider_id r) \<noteq> None"
    and "mget R j = Some r \<Longrightarrow> mget R k = Some s \<Longrightarrow> lr_provider_id r = lr_provider_id s \<Longrightarrow> lr_alias r = lr_alias s \<Longrightarrow> j = k"
    and "mget R j = Some r \<Longrightarrow> mget R k = Some s \<Longrightarrow> lr_is_default r \<Longrightarrow> lr_is_default s \<Longrightarrow> lr_protocol r = lr_protocol s \<Longrightarrow> j = k"
  using assms unfolding routes_ok_def by blast+

text \<open>Fewer routes, weaker defaults, as long as the providers stay.\<close>

lemma routes_sub:
  assumes ok: "routes_ok P R" and keyed: "\<And>k p. mget P' k = Some p \<Longrightarrow> lp_id p = k"
    and sub: "\<And>k s. mget R' k = Some s \<Longrightarrow> \<exists>e. mget R k = Some e \<and> lr_id s = lr_id e \<and> lr_provider_id s = lr_provider_id e \<and>
      lr_alias s = lr_alias e \<and> lr_protocol s = lr_protocol e \<and> (lr_is_default s \<longrightarrow> lr_is_default e)"
    and provider: "\<And>k s. mget R k = Some s \<Longrightarrow> mget P' (lr_provider_id s) \<noteq> None"
  shows "routes_ok P' R'"
  unfolding routes_ok_def
proof (intro conjI allI impI)
  fix k p assume "mget P' k = Some p" then show "lp_id p = k" by (rule keyed)
next
  fix k s assume "mget R' k = Some s"
  from sub[OF this] obtain e where e: "mget R k = Some e" "lr_id s = lr_id e" "lr_provider_id s = lr_provider_id e" by blast
  show "lr_id s = k" unfolding e(2) by (rule routes_okD(2)[OF ok e(1)])
  show "mget P' (lr_provider_id s) \<noteq> None" unfolding e(3) by (rule provider[OF e(1)])
next
  fix j k s t
  assume s: "mget R' j = Some s" and t: "mget R' k = Some t" and eq: "lr_provider_id s = lr_provider_id t" "lr_alias s = lr_alias t"
  from sub[OF s] obtain e where e: "mget R j = Some e" "lr_provider_id s = lr_provider_id e" "lr_alias s = lr_alias e" by blast
  from sub[OF t] obtain f where f: "mget R k = Some f" "lr_provider_id t = lr_provider_id f" "lr_alias t = lr_alias f" by blast
  show "j = k" by (rule routes_okD(4)[OF ok e(1) f(1)]) (use e f eq in simp_all)
next
  fix j k s t
  assume s: "mget R' j = Some s" and t: "mget R' k = Some t"
    and eq: "lr_is_default s" "lr_is_default t" "lr_protocol s = lr_protocol t"
  from sub[OF s] eq obtain e where e: "mget R j = Some e" "lr_is_default e" "lr_protocol s = lr_protocol e" by blast
  from sub[OF t] eq obtain f where f: "mget R k = Some f" "lr_is_default f" "lr_protocol t = lr_protocol f" by blast
  show "j = k" by (rule routes_okD(5)[OF ok e(1) f(1) e(2) f(2)]) (use e f eq in simp)
qed

lemma put_provider_ok:
  assumes ok: "routes_ok P R"
  shows "routes_ok (mput P (lp_id p) p) R"
proof (rule routes_sub[OF ok])
  fix k q assume "mget (mput P (lp_id p) p) k = Some q"
  then show "lp_id q = k" using routes_okD(1)[OF ok] by (simp add: gm.get_put split: if_splits)
next
  fix k s assume "mget R k = Some s"
  then show "mget (mput P (lp_id p) p) (lr_provider_id s) \<noteq> None" using routes_okD(3)[OF ok] by (simp add: gm.get_put)
qed blast

lemma drop_provider_ok:
  assumes ok: "routes_ok P R" and unused: "\<And>k r. mget R k = Some r \<Longrightarrow> lr_provider_id r \<noteq> i"
  shows "routes_ok (mdel P i) R"
proof (rule routes_sub[OF ok])
  fix k q assume "mget (mdel P i) k = Some q"
  then show "lp_id q = k" using routes_okD(1)[OF ok] by (simp add: gm.get_del split: if_splits)
next
  fix k s assume "mget R k = Some s"
  then show "mget (mdel P i) (lr_provider_id s) \<noteq> None" using routes_okD(3)[OF ok] unused by (simp add: gm.get_del)
qed blast

lemma drop_route_ok:
  assumes ok: "routes_ok P R"
  shows "routes_ok P (mdel R i)"
proof (rule routes_sub[OF ok routes_okD(1)[OF ok] _ routes_okD(3)[OF ok]])
  fix k s assume "mget (mdel R i) k = Some s"
  then have "mget R k = Some s" by (simp add: gm.get_del split: if_splits)
  then show "\<exists>e. mget R k = Some e \<and> lr_id s = lr_id e \<and> lr_provider_id s = lr_provider_id e \<and>
      lr_alias s = lr_alias e \<and> lr_protocol s = lr_protocol e \<and> (lr_is_default s \<longrightarrow> lr_is_default e)" by blast
qed

text \<open>Storing a route whose alias is free, after the other defaults of its protocol were cleared.\<close>

lemma put_route_ok:
  assumes ok: "routes_ok P R" and provider: "mget P (lr_provider_id r) \<noteq> None"
    and free: "\<And>k s. mget R k = Some s \<Longrightarrow> k \<noteq> lr_id r \<Longrightarrow> lr_provider_id s = lr_provider_id r \<Longrightarrow> lr_alias s \<noteq> lr_alias r"
    and other: "\<And>k s. mget R k = Some s \<Longrightarrow> k \<noteq> lr_id r \<Longrightarrow> lr_protocol s = lr_protocol r \<Longrightarrow> lr_is_default r \<Longrightarrow> \<not> lr_is_default s"
  shows "routes_ok P (mput R (lr_id r) r)"
  unfolding routes_ok_def
proof (intro conjI allI impI)
  fix k p assume "mget P k = Some p" then show "lp_id p = k" by (rule routes_okD(1)[OF ok])
next
  fix k s assume s: "mget (mput R (lr_id r) r) k = Some s"
  then show "lr_id s = k" using routes_okD(2)[OF ok, of k s] by (cases "k = lr_id r") (auto simp: lookup_update)
  from s show "mget P (lr_provider_id s) \<noteq> None"
    using routes_okD(3)[OF ok, of k s] provider by (cases "k = lr_id r") (auto simp: lookup_update)
next
  fix j k s t
  assume *: "mget (mput R (lr_id r) r) j = Some s" "mget (mput R (lr_id r) r) k = Some t"
    "lr_provider_id s = lr_provider_id t" "lr_alias s = lr_alias t"
  show "j = k"
    using * free[of j s] free[of k t] routes_okD(4)[OF ok, of j s k t]
    by (cases "j = lr_id r"; cases "k = lr_id r") (auto simp: lookup_update)
next
  fix j k s t
  assume *: "mget (mput R (lr_id r) r) j = Some s" "mget (mput R (lr_id r) r) k = Some t"
    "lr_is_default s" "lr_is_default t" "lr_protocol s = lr_protocol t"
  show "j = k"
  proof (cases "j = lr_id r")
    case True
    with *(1) have "s = r" by (simp add: gm.get_put)
    with True * other[of k t] show ?thesis by (cases "k = lr_id r") (simp_all add: gm.get_put)
  next
    case False
    with *(1) have s: "mget R j = Some s" by (simp add: gm.get_put)
    show ?thesis
    proof (cases "k = lr_id r")
      case True
      with *(2) have "t = r" by (simp add: gm.get_put)
      with False * other[OF s] show ?thesis by simp
    next
      case False
      with *(2) have t: "mget R k = Some t" by (simp add: gm.get_put)
      show ?thesis by (rule routes_okD(5)[OF ok s t *(3-5)])
    qed
  qed
qed

definition weaken :: "llm_model_route \<Rightarrow> bool \<Rightarrow> string \<Rightarrow> llm_model_route \<Rightarrow> llm_model_route" where
  "weaken r but k e = (if lr_is_default r \<and> \<not> (but \<and> k = lr_id r) \<and> lr_protocol e = lr_protocol r
     then e\<lparr>lr_is_default := False\<rparr> else e)"

lemma clear_defaults_get:
  "mget (am_llm_models (clear_defaults r but m)) k = map_option (weaken r but k) (mget (am_llm_models m) k)"
  by (cases "mget (am_llm_models m) k"; cases "lr_is_default r") (simp_all add: clear_defaults_def weaken_def)

lemma weaken_keeps [simp]:
  "lr_id (weaken r but k e) = lr_id e" "lr_provider_id (weaken r but k e) = lr_provider_id e"
  "lr_alias (weaken r but k e) = lr_alias e" "lr_protocol (weaken r but k e) = lr_protocol e"
  by (simp_all add: weaken_def)

lemma weaken_default: "lr_is_default (weaken r but k e) \<Longrightarrow> lr_is_default e"
  by (simp add: weaken_def split: if_splits)

lemma clear_defaults_ok:
  assumes ok: "models_ok m"
  shows "routes_ok (am_llm_providers m) (am_llm_models (clear_defaults r but m))"
proof (rule routes_sub[OF ok routes_okD(1)[OF ok] _ routes_okD(3)[OF ok]])
  fix k s assume "mget (am_llm_models (clear_defaults r but m)) k = Some s"
  then obtain e where e: "mget (am_llm_models m) k = Some e" "s = weaken r but k e" by (auto simp: clear_defaults_get)
  show "\<exists>e. mget (am_llm_models m) k = Some e \<and> lr_id s = lr_id e \<and> lr_provider_id s = lr_provider_id e \<and>
      lr_alias s = lr_alias e \<and> lr_protocol s = lr_protocol e \<and> (lr_is_default s \<longrightarrow> lr_is_default e)"
    by (rule exI[of _ e]) (use e weaken_default[of r but k e] in simp)
qed

lemma store_route_ok:
  assumes ok: "models_ok m" and provider: "mget (am_llm_providers m) (lr_provider_id r) \<noteq> None"
    and free: "\<And>k s. mget (am_llm_models m) k = Some s \<Longrightarrow> k \<noteq> lr_id r \<Longrightarrow> lr_provider_id s = lr_provider_id r \<Longrightarrow> lr_alias s \<noteq> lr_alias r"
  shows "models_ok (put_route r (clear_defaults r but m))"
proof -
  have "routes_ok (am_llm_providers m) (mput (am_llm_models (clear_defaults r but m)) (lr_id r) r)"
  proof (rule put_route_ok[OF clear_defaults_ok[OF ok] provider])
    fix k s assume s: "mget (am_llm_models (clear_defaults r but m)) k = Some s" "k \<noteq> lr_id r" "lr_provider_id s = lr_provider_id r"
    then obtain e where "mget (am_llm_models m) k = Some e" "s = weaken r but k e" by (auto simp: clear_defaults_get)
    with s(2,3) show "lr_alias s \<noteq> lr_alias r" using free[of k e] by simp
  next
    fix k s assume s: "mget (am_llm_models (clear_defaults r but m)) k = Some s" "k \<noteq> lr_id r"
      "lr_protocol s = lr_protocol r" "lr_is_default r"
    then obtain e where "mget (am_llm_models m) k = Some e" "s = weaken r but k e" by (auto simp: clear_defaults_get)
    with s(3) have "lr_protocol e = lr_protocol r" by simp
    with s(2,4) have "\<not> lr_is_default (weaken r but k e)" by (simp add: weaken_def)
    then show "\<not> lr_is_default s" unfolding \<open>s = weaken r but k e\<close> .
  qed
  moreover have "am_llm_providers (clear_defaults r but m) = am_llm_providers m" by (simp add: clear_defaults_def)
  ultimately show ?thesis by (simp add: put_route_def)
qed

text \<open>A refused call changes nothing.\<close>

lemma route_refused:
  "fst (create_llm_model_route r m) = Inl e \<Longrightarrow> snd (create_llm_model_route r m) = m"
  "fst (update_llm_model_route r m) = Inl e \<Longrightarrow> snd (update_llm_model_route r m) = m"
  "fst (delete_llm_provider i m) = Inl e \<Longrightarrow> snd (delete_llm_provider i m) = m"
  by (simp_all add: create_llm_model_route_def update_llm_model_route_def delete_llm_provider_def split: if_splits)

lemma create_route_ok:
  assumes ok: "models_ok m"
  shows "models_ok (snd (create_llm_model_route r m))"
proof (cases "fst (create_llm_model_route r m)")
  case (Inr u)
  then have *: "mget (am_llm_providers m) (lr_provider_id r) \<noteq> None"
    "\<not> (\<exists>e \<in> set (mvals (am_llm_models m)). lr_provider_id e = lr_provider_id r \<and> lr_alias e = lr_alias r)"
    "snd (create_llm_model_route r m) = put_route r (clear_defaults r False m)"
    by (auto simp: create_llm_model_route_def list_ex_iff split: if_splits)
  have "models_ok (put_route r (clear_defaults r False m))"
    by (rule store_route_ok[OF ok *(1)]) (use *(2) in \<open>unfold mvals_ex, blast\<close>)
  with * show ?thesis by simp
qed (simp add: route_refused(1)[of r m] ok)

lemma update_route_ok:
  assumes ok: "models_ok m"
  shows "models_ok (snd (update_llm_model_route r m))"
proof (cases "fst (update_llm_model_route r m)")
  case (Inr u)
  then have *: "mget (am_llm_providers m) (lr_provider_id r) \<noteq> None"
    "\<not> list_ex (\<lambda>(i, e). i \<noteq> lr_id r \<and> lr_provider_id e = lr_provider_id r \<and> lr_alias e = lr_alias r) (mitems (am_llm_models m))"
    "snd (update_llm_model_route r m) = put_route r (clear_defaults r True m)"
    by (auto simp: update_llm_model_route_def split: if_splits)
  have "k \<noteq> lr_id r \<Longrightarrow> lr_provider_id s = lr_provider_id r \<Longrightarrow> lr_alias s \<noteq> lr_alias r"
    if "mget (am_llm_models m) k = Some s" for k s
    using *(2) that unfolding list_ex_iff mitems_iff[symmetric] by auto
  with * show ?thesis by (simp add: store_route_ok[OF ok])
qed (simp add: route_refused(2)[of r m] ok)

lemma provider_calls_ok:
  assumes ok: "models_ok m"
  shows "models_ok (snd (create_llm_provider p m))" "models_ok (snd (update_llm_provider p m))"
    "models_ok (snd (delete_llm_model_route i m))"
  using ok by (simp_all add: create_llm_provider_def update_llm_provider_def put_provider_def put_provider_ok
      delete_llm_model_route_def drop_route_ok)

lemma delete_provider_ok:
  assumes ok: "models_ok m"
  shows "models_ok (snd (delete_llm_provider i m))"
proof (cases "fst (delete_llm_provider i m)")
  case (Inr u)
  then have unused: "\<not> list_ex (\<lambda>r. lr_provider_id r = i) (mvals (am_llm_models m))"
    and after: "snd (delete_llm_provider i m) = m\<lparr>am_llm_providers := mdel (am_llm_providers m) i\<rparr>"
    by (cases "mget (am_llm_providers m) i"; cases "list_ex (\<lambda>r. lr_provider_id r = i) (mvals (am_llm_models m))";
        simp add: delete_llm_provider_def)+
  have "lr_provider_id r \<noteq> i" if "mget (am_llm_models m) k = Some r" for k r
    using unused that unfolding list_ex_iff mvals_ex by blast
  from drop_provider_ok[OF ok this] after show ?thesis by simp
qed (simp add: route_refused(3)[of i m] ok)

text \<open>Reading the routes: the default route of a protocol comes first.\<close>

lemma defaults_first:
  "sorted_wrt (\<lambda>a b. lr_is_default b \<longrightarrow> lr_is_default a) (list_llm_model_routes m)"
proof -
  let ?key = "\<lambda>r. (\<not> lr_is_default r, lr_sort_order r, lr_alias r, lr_provider_id r)"
  have "sorted (map ?key (list_llm_model_routes m))" unfolding list_llm_model_routes_def by (rule sorted_sort_key)
  then have "sorted_wrt (\<lambda>a b. ?key a \<le> ?key b) (list_llm_model_routes m)" by (simp only: sorted_map)
  then show ?thesis by (rule sorted_wrt_mono_rel[rotated]) (auto simp: less_eq_prod_def)
qed

section \<open>Preferences\<close>

abbreviation skill_prefs_ok :: "admin_memory \<Rightarrow> bool" where
  "skill_prefs_ok m \<equiv> pointing (\<lambda>p. skill_pref_key (sp_user_id p) (sp_skill_id p)) sp_skill_id (am_skill_prefs m) (am_skills m)"

abbreviation mcp_prefs_ok :: "admin_memory \<Rightarrow> bool" where
  "mcp_prefs_ok m \<equiv> pointing (\<lambda>p. mcp_pref_key (mp_user_id p) (mp_mcp_id p)) mp_mcp_id (am_mcp_prefs m) (am_mcps m)"

lemma skill_calls_prefs:
  assumes "skill_prefs_ok m"
  shows "skill_prefs_ok (snd (create_skill s m))" "skill_prefs_ok (snd (update_skill s m))"
    "skill_prefs_ok (snd (set_skill_enabled i e t a m))" "skill_prefs_ok (snd (update_bundled_skill s m))"
    "skill_prefs_ok (snd (delete_skill i m))" "skill_prefs_ok (snd (set_user_skill_preference p m))"
    "skill_prefs_ok (delete_user_skill_preference u i m)"
  using assms pointing_put[OF assms, of p]
  by (simp_all add: create_skill_def update_skill_def set_skill_enabled_def update_bundled_skill_def Let_def put_skill_def
      delete_skill_def set_user_skill_preference_def delete_user_skill_preference_def pointing_target
      pointing_drop_target pointing_del split: option.split)

lemma mcp_calls_prefs:
  assumes "mcp_prefs_ok m"
  shows "mcp_prefs_ok (snd (create_mcp_server s m))" "mcp_prefs_ok (snd (update_mcp_server s m))"
    "mcp_prefs_ok (snd (delete_mcp_server i m))" "mcp_prefs_ok (snd (set_user_mcp_preference p m))"
    "mcp_prefs_ok (delete_user_mcp_preference u i m)"
  using assms pointing_put[OF assms, of p]
  by (simp_all add: create_mcp_server_def update_mcp_server_def delete_mcp_server_def set_user_mcp_preference_def
      delete_user_mcp_preference_def pointing_target pointing_drop_target pointing_del)

section \<open>The user memory\<close>

definition memory_ok :: "memory_config \<Rightarrow> memory_index_lock \<Rightarrow> bool" where
  "memory_ok c l \<longleftrightarrow> (mg_enabled c \<longrightarrow> \<not> mg_resetting c \<and> \<not> lock_incomplete c l)"

abbreviation switch_ok :: "admin_memory \<Rightarrow> bool" where
  "switch_ok m \<equiv> memory_ok (am_memory_config m) (am_memory_index_lock m)"

lemma lock_incomplete_config:
  "mg_embedding_model_route_id c = mg_embedding_model_route_id d \<Longrightarrow> lock_incomplete c l = lock_incomplete d l"
  by (simp add: lock_incomplete_def)

text \<open>The service stores a configuration that does not claim a reset.\<close>

lemma update_memory_config_ok:
  assumes "switch_ok m" "\<not> mg_resetting c"
  shows "switch_ok (snd (update_memory_config c e l m))"
  using assms lock_incomplete_config[of "c\<lparr>mg_version := int64 (e + 1)\<rparr>" c]
  by (auto simp: update_memory_config_def memory_ok_def Let_def)

lemma reset_calls_ok:
  "switch_ok (begin_memory_reset actor t m)" "switch_ok m \<Longrightarrow> switch_ok (complete_memory_reset_account k m)"
  by (simp_all add: begin_memory_reset_def complete_memory_reset_account_def memory_ok_def Let_def)

lemma complete_memory_reset_ok:
  assumes "switch_ok m" "mg_resetting (am_memory_config m)"
  shows "switch_ok (snd (complete_memory_reset m))"
  using assms by (auto simp: complete_memory_reset_def memory_ok_def)

definition store_config :: "unit \<Rightarrow> memory_config \<times> memory_index_lock \<Rightarrow> int \<Rightarrow> admin_memory \<Rightarrow> bool \<times> admin_memory" where
  "store_config _ v e m = accepted (update_memory_config (fst v) e (snd v) m)"

definition config_refused :: "memory_config \<times> memory_index_lock \<Rightarrow> int \<Rightarrow> admin_memory \<Rightarrow> bool" where
  "config_refused v e m \<longleftrightarrow> mg_version (am_memory_config m) \<noteq> e \<or> mg_resetting (am_memory_config m) \<or>
     mg_enabled (fst v) \<and> (lock_incomplete (fst v) (snd v) \<or> ml_dimension (am_memory_index_lock m) \<noteq> 0 \<and> am_memory_index_lock m \<noteq> snd v)"

lemma store_config_cases:
  "config_refused v e m \<Longrightarrow> store_config k v e m = (False, m)"
  "\<not> config_refused v e m \<Longrightarrow> store_config k v e m = (True, m\<lparr>am_memory_config := (fst v)\<lparr>mg_version := int64 (e + 1)\<rparr>,
     am_memory_index_lock := (if mg_enabled (fst v) then snd v else am_memory_index_lock m)\<rparr>)"
  unfolding store_config_def update_memory_config_def config_refused_def Let_def by auto

interpretation config: versioned "\<lambda>m _. mg_version (am_memory_config m)" store_config
proof unfold_locales
  fix k v e m assume "fst (store_config k v e m)"
  then have ok: "\<not> config_refused v e m" using store_config_cases(1)[of v e m k] by auto
  then show "mg_version (am_memory_config m) = e" unfolding config_refused_def by blast
  then show "mg_version (am_memory_config (snd (store_config k v e m))) = int64 (mg_version (am_memory_config m) + 1)"
    unfolding store_config_cases(2)[OF ok] by simp
next
  fix k v e m assume kept: "\<not> fst (store_config k v e m)"
  have "config_refused v e m"
  proof (rule ccontr)
    assume "\<not> config_refused v e m"
    from store_config_cases(2)[OF this, of k] kept show False by simp
  qed
  from store_config_cases(1)[OF this, of k] show "snd (store_config k v e m) = m" by (simp only: snd_conv)
qed

end
