(* ===== verification/Admin_Tasks.thy ===== *)
theory Admin_Tasks
  imports Admin_Types
begin

text \<open>
  \<open>apps/admin-api/internal/store/memory.go\<close>, third part: scheduled tasks with their attachments, the runs
  of a task and the events of a run. A loop over a Go map folds over the entries the map had when the
  loop began.
\<close>

definition clone_task :: "scheduled_task \<Rightarrow> scheduled_task" where
  "clone_task t = t\<lparr>st_schedule_spec := clone_raw (st_schedule_spec t), st_config := clone_raw (st_config t)\<rparr>"

definition clone_run_event :: "task_run_event \<Rightarrow> task_run_event" where
  "clone_run_event e = e\<lparr>te_data := clone_raw (te_data e)\<rparr>"

text \<open>\<open>if limit > 0 && len(out) > limit { out = out[:limit] }\<close>\<close>

definition limited :: "int \<Rightarrow> 'a list \<Rightarrow> 'a list" where
  "limited limit xs = (if limit > 0 \<and> int (length xs) > limit then take (nat limit) xs else xs)"

definition put_task :: "string \<Rightarrow> scheduled_task \<Rightarrow> admin_memory \<Rightarrow> admin_memory" where
  "put_task i t m = m\<lparr>am_tasks := mput (am_tasks m) i (clone_task t)\<rparr>"

definition put_task_run :: "task_run \<Rightarrow> admin_memory \<Rightarrow> admin_memory" where
  "put_task_run r m = m\<lparr>am_runs := mput (am_runs m) (tr_id r) r\<rparr>"

section \<open>Tasks\<close>

primrec add_attachments :: "task_attachment list \<Rightarrow> admin_memory \<Rightarrow> unit admin_result" where
  "add_attachments [] m = (Inr (), m)"
| "add_attachments (a # as) m =
     (if mget (am_attachments m) (ta_id a) \<noteq> None then (Inl StoreConflict, m)
      else add_attachments as (m\<lparr>am_attachments := mput (am_attachments m) (ta_id a) a\<rparr>))"

definition create_scheduled_task :: "scheduled_task \<Rightarrow> task_attachment list \<Rightarrow> admin_memory \<Rightarrow> unit admin_result" where
  "create_scheduled_task t as m =
     (if mget (am_tasks m) (st_id t) \<noteq> None then (Inl StoreConflict, m)
      else add_attachments as (put_task (st_id t) t m))"

definition get_scheduled_task :: "string \<Rightarrow> admin_memory \<Rightarrow> store_error + scheduled_task" where
  "get_scheduled_task i m = (case mget (am_tasks m) i of None \<Rightarrow> Inl StoreNotFound | Some t \<Rightarrow> Inr (clone_task t))"

definition get_scheduled_task_for_owner :: "string \<Rightarrow> string \<Rightarrow> admin_memory \<Rightarrow> store_error + scheduled_task" where
  "get_scheduled_task_for_owner i owner m =
     (case mget (am_tasks m) i of
        None \<Rightarrow> Inl StoreNotFound
      | Some t \<Rightarrow> if st_owner_user_id t \<noteq> owner then Inl StoreNotFound else Inr (clone_task t))"

definition list_scheduled_tasks :: "admin_memory \<Rightarrow> scheduled_task list" where
  "list_scheduled_tasks m = sort_key (\<lambda>t. - st_updated_at t) (map clone_task (mvals (am_tasks m)))"

definition list_scheduled_tasks_for_owner :: "string \<Rightarrow> admin_memory \<Rightarrow> scheduled_task list" where
  "list_scheduled_tasks_for_owner owner m = sort_key (\<lambda>t. - st_updated_at t)
     (map clone_task (filter (\<lambda>t. st_owner_user_id t = owner) (mvals (am_tasks m))))"

definition drop_attachments :: "string \<Rightarrow> admin_memory \<Rightarrow> admin_memory" where
  "drop_attachments tid m = m\<lparr>am_attachments := DAList.filter (\<lambda>(_, a). ta_task_id a \<noteq> tid) (am_attachments m)\<rparr>"

definition put_attachments :: "task_attachment list \<Rightarrow> admin_memory \<Rightarrow> admin_memory" where
  "put_attachments as m = m\<lparr>am_attachments := fold (\<lambda>a atts. mput atts (ta_id a) a) as (am_attachments m)\<rparr>"

definition update_scheduled_task ::
  "scheduled_task \<Rightarrow> bool \<Rightarrow> task_attachment list \<Rightarrow> admin_memory \<Rightarrow> unit admin_result" where
  "update_scheduled_task t replacing as m =
     (if mget (am_tasks m) (st_id t) = None then (Inl StoreNotFound, m)
      else (let m = put_task (st_id t) t m
            in (Inr (), if replacing then put_attachments as (drop_attachments (st_id t) m) else m)))"

text \<open>Deleting a task takes its attachments, its runs and their events along.\<close>

definition drop_task_runs :: "string \<Rightarrow> admin_memory \<Rightarrow> admin_memory" where
  "drop_task_runs tid m = fold (\<lambda>(rid, r) m. if tr_task_id r = tid
       then m\<lparr>am_runs := mdel (am_runs m) rid, am_run_events := mdel (am_run_events m) rid\<rparr> else m) (mitems (am_runs m)) m"

definition remove_task :: "string \<Rightarrow> admin_memory \<Rightarrow> admin_memory" where
  "remove_task i m = drop_task_runs i (drop_attachments i (m\<lparr>am_tasks := mdel (am_tasks m) i\<rparr>))"

definition delete_scheduled_task :: "string \<Rightarrow> admin_memory \<Rightarrow> unit admin_result" where
  "delete_scheduled_task i m =
     (if mget (am_tasks m) i = None then (Inl StoreNotFound, m) else (Inr (), remove_task i m))"

definition delete_scheduled_task_for_owner :: "string \<Rightarrow> string \<Rightarrow> admin_memory \<Rightarrow> unit admin_result" where
  "delete_scheduled_task_for_owner i owner m =
     (case mget (am_tasks m) i of
        None \<Rightarrow> (Inl StoreNotFound, m)
      | Some t \<Rightarrow> if st_owner_user_id t \<noteq> owner then (Inl StoreNotFound, m) else (Inr (), remove_task i m))"

definition list_task_attachments :: "string \<Rightarrow> admin_memory \<Rightarrow> task_attachment list" where
  "list_task_attachments tid m = sort_key ta_created_at (filter (\<lambda>a. ta_task_id a = tid) (mvals (am_attachments m)))"

section \<open>Scheduling\<close>

text \<open>The condition under which a task may start at an instant, spelled out twice in the code.\<close>

definition task_due :: "gtime \<Rightarrow> scheduled_task \<Rightarrow> bool" where
  "task_due now t \<longleftrightarrow> \<not> (st_status t \<noteq> ''active'' \<or> st_owner_user_id t = [] \<or> st_next_run_at t = 0 \<or> st_next_run_at t > now \<or>
     (st_expires_at t \<noteq> 0 \<and> st_expires_at t < now))"

definition list_due_tasks :: "gtime \<Rightarrow> int \<Rightarrow> admin_memory \<Rightarrow> scheduled_task list" where
  "list_due_tasks now limit m =
     limited limit (sort_key st_next_run_at (map clone_task (filter (task_due now) (mvals (am_tasks m)))))"

definition task_expiring :: "gtime \<Rightarrow> scheduled_task \<Rightarrow> bool" where
  "task_expiring now t \<longleftrightarrow> (st_status t = ''active'' \<or> st_status t = ''paused'') \<and> st_expires_at t \<noteq> 0 \<and> st_expires_at t < now"

definition expire_task :: "gtime \<Rightarrow> scheduled_task \<Rightarrow> scheduled_task" where
  "expire_task now t = t\<lparr>st_status := ''expired'', st_next_run_at := 0, st_updated_at := now\<rparr>"

definition expire_scheduled_tasks :: "gtime \<Rightarrow> int \<Rightarrow> admin_memory \<Rightarrow> scheduled_task list \<times> admin_memory" where
  "expire_scheduled_tasks now limit m =
     (let candidates = limited limit (sort_key st_expires_at (filter (task_expiring now) (mvals (am_tasks m))))
      in (map (\<lambda>t. clone_task (expire_task now t)) candidates,
          fold (\<lambda>t. put_task (st_id t) (expire_task now t)) candidates m))"

definition run_live :: "task_run \<Rightarrow> bool" where
  "run_live r \<longleftrightarrow> tr_status r = ''queued'' \<or> tr_status r = ''running''"

definition claim_task :: "task_run \<Rightarrow> gtime \<Rightarrow> scheduled_task \<Rightarrow> scheduled_task" where
  "claim_task r next t =
     (let t = t\<lparr>st_next_run_at := next, st_updated_at := tr_updated_at r\<rparr>
      in if st_conversation_id t = [] then t\<lparr>st_conversation_id := ''sched-'' @ st_id t\<rparr> else t)"

text \<open>A pair of the claimed task and true; nothing claimed is the pair of the zero task and false.\<close>

definition try_start_task_run ::
  "string \<Rightarrow> task_run \<Rightarrow> gtime \<Rightarrow> admin_memory \<Rightarrow> scheduled_task option admin_result" where
  "try_start_task_run tid r next m =
     (case mget (am_tasks m) tid of
        None \<Rightarrow> (Inl StoreNotFound, m)
      | Some t \<Rightarrow>
          if \<not> task_due (tr_scheduled_for r) t then (Inr None, m)
          else if list_ex (\<lambda>e. tr_task_id e = tid \<and> run_live e) (mvals (am_runs m)) then (Inr None, m)
          else if mget (am_runs m) (tr_id r) \<noteq> None then (Inl StoreConflict, m)
          else (let t = claim_task r next t
                in (Inr (Some (clone_task t)), put_task_run r (put_task tid t m))))"

section \<open>Runs\<close>

definition get_task_run :: "string \<Rightarrow> admin_memory \<Rightarrow> store_error + task_run" where
  "get_task_run i m = (case mget (am_runs m) i of None \<Rightarrow> Inl StoreNotFound | Some r \<Rightarrow> Inr r)"

definition list_task_runs :: "string \<Rightarrow> string \<Rightarrow> int \<Rightarrow> admin_memory \<Rightarrow> task_run list" where
  "list_task_runs tid status limit m = limited limit (sort_key (\<lambda>r. - tr_created_at r)
     (filter (\<lambda>r. \<not> (tid \<noteq> [] \<and> tr_task_id r \<noteq> tid) \<and> \<not> (status \<noteq> [] \<and> tr_status r \<noteq> status)) (mvals (am_runs m))))"

definition heartbeat_task_run :: "string \<Rightarrow> string \<Rightarrow> gtime \<Rightarrow> admin_memory \<Rightarrow> bool admin_result" where
  "heartbeat_task_run i worker now m =
     (case mget (am_runs m) i of
        None \<Rightarrow> (Inl StoreNotFound, m)
      | Some r \<Rightarrow>
          if tr_status r \<noteq> ''running'' \<or> (worker \<noteq> [] \<and> tr_worker_id r \<noteq> worker) then (Inr False, m)
          else (Inr True, m\<lparr>am_runs := mput (am_runs m) i (r\<lparr>tr_updated_at := now\<rparr>)\<rparr>))"

definition run_stale :: "gtime \<Rightarrow> task_run \<Rightarrow> bool" where
  "run_stale before r =
     (let updated = (if tr_updated_at r = 0 then tr_created_at r else tr_updated_at r)
      in tr_status r = ''running'' \<and> updated \<noteq> 0 \<and> updated < before)"

text \<open>What the end of a run does to its task; the first argument is the task's next instant.\<close>

definition settle_task_status :: "scheduled_task \<Rightarrow> scheduled_task" where
  "settle_task_status t =
     (if st_schedule_kind t = ''once'' \<and> st_next_run_at t = 0 then t\<lparr>st_status := ''completed''\<rparr>
      else if st_expires_at t \<noteq> 0 \<and> st_next_run_at t = 0 then t\<lparr>st_status := ''expired''\<rparr>
      else t)"

definition count_run :: "scheduled_task \<Rightarrow> scheduled_task" where
  "count_run t = t\<lparr>st_run_count := int64 (st_run_count t + 1)\<rparr>"

definition expire_run :: "gtime \<Rightarrow> string \<Rightarrow> task_run \<Rightarrow> task_run" where
  "expire_run now err r = r\<lparr>tr_status := ''error'', tr_error := err, tr_finished_at := now, tr_updated_at := now\<rparr>"

primrec expire_runs :: "gtime \<Rightarrow> string \<Rightarrow> task_run list \<Rightarrow> task_run list \<Rightarrow> admin_memory \<Rightarrow> task_run list admin_result" where
  "expire_runs now err [] done m = (Inr done, m)"
| "expire_runs now err (r # rs) done m =
     (let r = expire_run now err r; m = put_task_run r m in
      case mget (am_tasks m) (tr_task_id r) of
        None \<Rightarrow> (Inl StoreNotFound, m)
      | Some t \<Rightarrow>
          (let t = t\<lparr>st_last_run_at := now, st_last_status := tr_status r, st_last_error := tr_error r, st_updated_at := now\<rparr>
           in expire_runs now err rs (done @ [r]) (put_task (st_id t) (count_run (settle_task_status t)) m)))"

definition expire_stale_task_runs :: "gtime \<Rightarrow> gtime \<Rightarrow> string \<Rightarrow> int \<Rightarrow> admin_memory \<Rightarrow> task_run list admin_result" where
  "expire_stale_task_runs before now err limit m =
     expire_runs now err (limited limit (sort_key tr_updated_at (filter (run_stale before) (mvals (am_runs m))))) [] m"

definition finish_task :: "task_run \<Rightarrow> gtime \<Rightarrow> scheduled_task \<Rightarrow> scheduled_task" where
  "finish_task r next t = count_run (settle_task_status (t\<lparr>st_last_run_at := tr_finished_at r,
     st_last_status := tr_status r, st_last_error := tr_error r, st_updated_at := tr_updated_at r, st_next_run_at := next\<rparr>))"

definition update_task_run :: "task_run \<Rightarrow> gtime \<Rightarrow> bool \<Rightarrow> admin_memory \<Rightarrow> unit admin_result" where
  "update_task_run r next terminal m =
     (if mget (am_runs m) (tr_id r) = None then (Inl StoreNotFound, m)
      else (let m = put_task_run r m in
            if \<not> terminal then (Inr (), m)
            else (case mget (am_tasks m) (tr_task_id r) of
                    None \<Rightarrow> (Inl StoreNotFound, m)
                  | Some t \<Rightarrow> (Inr (), put_task (st_id t) (finish_task r next t) m))))"

definition append_task_run_event :: "task_run_event \<Rightarrow> admin_memory \<Rightarrow> unit admin_result" where
  "append_task_run_event e m =
     (if mget (am_runs m) (te_run_id e) = None then (Inl StoreNotFound, m)
      else (let seq = int64 (am_run_event_seq m + 1);
                events = mget0 [] (am_run_events m) (te_run_id e)
            in (Inr (), m\<lparr>am_run_event_seq := seq,
                  am_run_events := mput (am_run_events m) (te_run_id e) (events @ [clone_run_event (e\<lparr>te_id := seq\<rparr>)])\<rparr>)))"

definition list_task_run_events :: "string \<Rightarrow> admin_memory \<Rightarrow> task_run_event list" where
  "list_task_run_events rid m = sort_key te_seq (map clone_run_event (mget0 [] (am_run_events m) rid))"

end
