(* ===== verification/Task_Laws.thy ===== *)
theory Task_Laws
  imports Admin_Tasks
begin

text \<open>
  Scheduled tasks: attachments, runs and events belong to something that exists, a task has at most one
  live run, and what claiming, finishing, expiring and deleting do.
\<close>

section \<open>Well-formed task tables\<close>

definition lone_runs :: "(string, task_run) gomap \<Rightarrow> bool" where
  "lone_runs R \<longleftrightarrow> (\<forall>j k r s. mget R j = Some r \<longrightarrow> mget R k = Some s \<longrightarrow> run_live r \<longrightarrow> run_live s \<longrightarrow>
     tr_task_id r = tr_task_id s \<longrightarrow> j = k)"

definition events_ok :: "(string, task_run) gomap \<Rightarrow> (string, task_run_event list) gomap \<Rightarrow> bool" where
  "events_ok R E \<longleftrightarrow> (\<forall>k es. mget E k = Some es \<longrightarrow> mget R k \<noteq> None \<and> (\<forall>e \<in> set es. te_run_id e = k))"

definition tasks_ok :: "admin_memory \<Rightarrow> bool" where
  "tasks_ok m \<longleftrightarrow> (\<forall>k t. mget (am_tasks m) k = Some t \<longrightarrow> st_id t = k) \<and>
     pointing ta_id ta_task_id (am_attachments m) (am_tasks m) \<and> pointing tr_id tr_task_id (am_runs m) (am_tasks m) \<and>
     events_ok (am_runs m) (am_run_events m) \<and> lone_runs (am_runs m)"

lemma tasks_okI:
  assumes "\<And>k t. mget (am_tasks m) k = Some t \<Longrightarrow> st_id t = k" "pointing ta_id ta_task_id (am_attachments m) (am_tasks m)"
    "pointing tr_id tr_task_id (am_runs m) (am_tasks m)" "events_ok (am_runs m) (am_run_events m)" "lone_runs (am_runs m)"
  shows "tasks_ok m"
  using assms unfolding tasks_ok_def by blast

lemma tasks_okD:
  assumes "tasks_ok m"
  shows "mget (am_tasks m) k = Some t \<Longrightarrow> st_id t = k" "pointing ta_id ta_task_id (am_attachments m) (am_tasks m)"
    "pointing tr_id tr_task_id (am_runs m) (am_tasks m)" "events_ok (am_runs m) (am_run_events m)" "lone_runs (am_runs m)"
  using assms unfolding tasks_ok_def by blast+

lemma task_of_run:
  assumes "tasks_ok m" "mget (am_runs m) k = Some r"
  shows "tr_id r = k" "mget (am_tasks m) (tr_task_id r) \<noteq> None"
  using tasks_okD(3)[OF assms(1)] assms(2) unfolding pointing_def by auto

lemma lone_runsD:
  assumes "tasks_ok m" "mget (am_runs m) j = Some r" "mget (am_runs m) k = Some s" "run_live r" "run_live s"
    "tr_task_id r = tr_task_id s"
  shows "j = k"
  using tasks_okD(5)[OF assms(1)] assms(2-) unfolding lone_runs_def by blast

lemma clone_task_keeps [simp]:
  "st_id (clone_task t) = st_id t" "st_status (clone_task t) = st_status t" "st_next_run_at (clone_task t) = st_next_run_at t"
  "st_owner_user_id (clone_task t) = st_owner_user_id t" "st_expires_at (clone_task t) = st_expires_at t"
  "st_run_count (clone_task t) = st_run_count t" "st_last_status (clone_task t) = st_last_status t"
  "st_schedule_kind (clone_task t) = st_schedule_kind t" "st_conversation_id (clone_task t) = st_conversation_id t"
  "clone_task (clone_task t) = clone_task t"
  by (simp_all add: clone_task_def)

lemma put_task_maps [simp]:
  "am_tasks (put_task i t m) = mput (am_tasks m) i (clone_task t)" "am_attachments (put_task i t m) = am_attachments m"
  "am_runs (put_task i t m) = am_runs m" "am_run_events (put_task i t m) = am_run_events m"
  by (simp_all add: put_task_def)

lemma put_run_maps [simp]:
  "am_runs (put_task_run r m) = mput (am_runs m) (tr_id r) r" "am_tasks (put_task_run r m) = am_tasks m"
  "am_attachments (put_task_run r m) = am_attachments m" "am_run_events (put_task_run r m) = am_run_events m"
  by (simp_all add: put_task_run_def)

lemma put_task_ok: "tasks_ok m \<Longrightarrow> st_id t = i \<Longrightarrow> tasks_ok (put_task i t m)"
  by (rule tasks_okI) (auto simp: gm.get_put tasks_okD pointing_target split: if_splits)

lemma put_run_ok:
  assumes ok: "tasks_ok m" and task: "mget (am_tasks m) (tr_task_id r) \<noteq> None"
    and lone: "\<And>k s. mget (am_runs m) k = Some s \<Longrightarrow> k \<noteq> tr_id r \<Longrightarrow> run_live s \<Longrightarrow> run_live r \<Longrightarrow> tr_task_id s \<noteq> tr_task_id r"
  shows "tasks_ok (put_task_run r m)"
proof (rule tasks_okI)
  show "pointing tr_id tr_task_id (am_runs (put_task_run r m)) (am_tasks (put_task_run r m))"
    using pointing_put[OF tasks_okD(3)[OF ok] task] by simp
  show "events_ok (am_runs (put_task_run r m)) (am_run_events (put_task_run r m))"
    using tasks_okD(4)[OF ok] unfolding events_ok_def by (auto simp: gm.get_put)
  show "lone_runs (am_runs (put_task_run r m))"
    unfolding lone_runs_def
  proof (intro allI impI)
    fix j k s t
    assume *: "mget (am_runs (put_task_run r m)) j = Some s" "mget (am_runs (put_task_run r m)) k = Some t"
      "run_live s" "run_live t" "tr_task_id s = tr_task_id t"
    consider "j = tr_id r" "k = tr_id r" | "j = tr_id r" "k \<noteq> tr_id r" | "j \<noteq> tr_id r" "k = tr_id r"
      | "j \<noteq> tr_id r" "k \<noteq> tr_id r" by blast
    then show "j = k"
    proof cases
      case 2 then show ?thesis using * lone[of k t] by (simp add: gm.get_put)
    next
      case 3 then show ?thesis using * lone[of j s] by (simp add: gm.get_put)
    next
      case 4 then show ?thesis using * lone_runsD[OF ok, of j s k t] by (simp add: gm.get_put)
    qed simp
  qed
qed (use tasks_okD[OF ok] in simp_all)

section \<open>Tasks\<close>

lemma add_attachments_ok:
  assumes "tasks_ok m" "\<And>a. a \<in> set as \<Longrightarrow> mget (am_tasks m) (ta_task_id a) \<noteq> None"
  shows "tasks_ok (snd (add_attachments as m))"
  using assms
proof (induction as arbitrary: m)
  case (Cons a as)
  let ?m = "m\<lparr>am_attachments := mput (am_attachments m) (ta_id a) a\<rparr>"
  have "tasks_ok ?m" using Cons.prems tasks_okD[OF Cons.prems(1)]
    by (intro tasks_okI) (auto intro: pointing_put)
  then have "tasks_ok (snd (add_attachments as ?m))" by (rule Cons.IH) (use Cons.prems in simp)
  with Cons.prems(1) show ?case by simp
qed simp

lemma create_task_ok:
  assumes "tasks_ok m" "\<And>a. a \<in> set as \<Longrightarrow> ta_task_id a = st_id t"
  shows "tasks_ok (snd (create_scheduled_task t as m))"
  using assms add_attachments_ok[OF put_task_ok[OF assms(1) refl], of as t]
  by (simp add: create_scheduled_task_def gm.get_put)

lemma drop_attachments_ok: "tasks_ok m \<Longrightarrow> tasks_ok (drop_attachments i m)"
  by (rule tasks_okI) (auto simp: drop_attachments_def mget_filter tasks_okD pointing_def split: option.splits if_splits dest: tasks_okD)

lemma put_attachments_ok:
  assumes "tasks_ok m" "\<And>a. a \<in> set as \<Longrightarrow> mget (am_tasks m) (ta_task_id a) \<noteq> None"
  shows "tasks_ok (put_attachments as m)"
proof -
  have "pointing ta_id ta_task_id A T \<Longrightarrow> \<forall>a \<in> set as. mget T (ta_task_id a) \<noteq> None \<Longrightarrow>
      pointing ta_id ta_task_id (fold (\<lambda>a atts. mput atts (ta_id a) a) as A) T" for A T
    by (induction as arbitrary: A) (simp_all add: pointing_put)
  from this[OF tasks_okD(2)[OF assms(1)]] have "pointing ta_id ta_task_id (am_attachments (put_attachments as m)) (am_tasks m)"
    using assms(2) by (simp add: put_attachments_def)
  then show ?thesis using tasks_okD[OF assms(1)] by (intro tasks_okI) (auto simp: put_attachments_def)
qed

lemma update_task_ok:
  assumes ok: "tasks_ok m" and own: "\<And>a. a \<in> set as \<Longrightarrow> ta_task_id a = st_id t"
  shows "tasks_ok (snd (update_scheduled_task t replacing as m))"
proof -
  have "tasks_ok (put_attachments as (drop_attachments (st_id t) (put_task (st_id t) t m)))"
    by (rule put_attachments_ok[OF drop_attachments_ok[OF put_task_ok[OF ok refl]]]) (simp add: own drop_attachments_def gm.get_put)
  with ok show ?thesis by (simp add: update_scheduled_task_def Let_def put_task_ok)
qed

text \<open>Deleting a task: ranging over the runs deletes the task's runs and their events.\<close>

lemma drop_task_runs_eq:
  "drop_task_runs i m = m\<lparr>am_runs := fold (\<lambda>(k, r) R. if tr_task_id r = i then mdel R k else R) (mitems (am_runs m)) (am_runs m),
     am_run_events := fold (\<lambda>(k, r) E. if tr_task_id r = i then mdel E k else E) (mitems (am_runs m)) (am_run_events m)\<rparr>"
proof -
  have "fold (\<lambda>(rid, r) m. if tr_task_id r = i then m\<lparr>am_runs := mdel (am_runs m) rid, am_run_events := mdel (am_run_events m) rid\<rparr> else m) xs m
    = m\<lparr>am_runs := fold (\<lambda>(k, r) R. if tr_task_id r = i then mdel R k else R) xs (am_runs m),
        am_run_events := fold (\<lambda>(k, r) E. if tr_task_id r = i then mdel E k else E) xs (am_run_events m)\<rparr>" for xs
    by (induction xs arbitrary: m) auto
  then show ?thesis unfolding drop_task_runs_def .
qed

lemma fold_del:
  "mget (fold (\<lambda>(k, r) R. if P r then mdel R k else R) xs R) j = (if \<exists>r. (j, r) \<in> set xs \<and> P r then None else mget R j)"
  by (induction xs arbitrary: R) (auto simp: gm.get_del)

lemma drop_task_runs_maps [simp]:
  "am_tasks (drop_task_runs i m) = am_tasks m" "am_attachments (drop_task_runs i m) = am_attachments m"
  by (simp_all add: drop_task_runs_eq)

lemma drop_task_runs_events:
  "mget (am_run_events (drop_task_runs i m)) k =
     (if \<exists>r. mget (am_runs m) k = Some r \<and> tr_task_id r = i then None else mget (am_run_events m) k)"
  unfolding drop_task_runs_eq by (simp add: fold_del mitems_iff)

lemma drop_task_runs_get:
  "mget (am_runs (drop_task_runs i m)) k = (case mget (am_runs m) k of None \<Rightarrow> None | Some r \<Rightarrow> if tr_task_id r = i then None else Some r)"
  by (auto simp: drop_task_runs_eq fold_del mitems_iff split: option.split)

lemma remove_task_maps:
  "am_tasks (remove_task i m) = mdel (am_tasks m) i"
  "am_attachments (remove_task i m) = DAList.filter (\<lambda>(_, a). ta_task_id a \<noteq> i) (am_attachments m)"
  "mget (am_runs (remove_task i m)) k = (case mget (am_runs m) k of None \<Rightarrow> None | Some r \<Rightarrow> if tr_task_id r = i then None else Some r)"
  "mget (am_run_events (remove_task i m)) k =
     (if \<exists>r. mget (am_runs m) k = Some r \<and> tr_task_id r = i then None else mget (am_run_events m) k)"
  by (auto simp: remove_task_def drop_attachments_def drop_task_runs_get drop_task_runs_events)

lemma remove_task_ok:
  assumes ok: "tasks_ok m"
  shows "tasks_ok (remove_task i m)"
proof (rule tasks_okI)
  fix k t assume "mget (am_tasks (remove_task i m)) k = Some t"
  then show "st_id t = k" using tasks_okD(1)[OF ok] by (simp add: remove_task_maps gm.get_del split: if_splits)
next
  show "pointing ta_id ta_task_id (am_attachments (remove_task i m)) (am_tasks (remove_task i m))"
    using pointing_drop_target[OF tasks_okD(2)[OF ok]] by (simp add: remove_task_maps)
next
  show "pointing tr_id tr_task_id (am_runs (remove_task i m)) (am_tasks (remove_task i m))"
    using tasks_okD(3)[OF ok] unfolding pointing_def
    by (auto simp: remove_task_maps gm.get_del split: option.splits if_splits)
next
  show "events_ok (am_runs (remove_task i m)) (am_run_events (remove_task i m))"
    unfolding events_ok_def
  proof (intro allI impI)
    fix k es assume "mget (am_run_events (remove_task i m)) k = Some es"
    then have es: "mget (am_run_events m) k = Some es" and other: "\<not> (\<exists>r. mget (am_runs m) k = Some r \<and> tr_task_id r = i)"
      unfolding remove_task_maps by (simp_all split: if_split_asm)
    from es have "mget (am_runs m) k \<noteq> None \<and> (\<forall>e \<in> set es. te_run_id e = k)"
      using tasks_okD(4)[OF ok] unfolding events_ok_def by blast
    with other show "mget (am_runs (remove_task i m)) k \<noteq> None \<and> (\<forall>e \<in> set es. te_run_id e = k)"
      unfolding remove_task_maps by auto
  qed
next
  have "mget (am_runs m) k = Some r" if "mget (am_runs (remove_task i m)) k = Some r" for k r
    using that by (simp add: remove_task_maps split: option.splits if_splits)
  then show "lone_runs (am_runs (remove_task i m))"
    using tasks_okD(5)[OF ok] unfolding lone_runs_def by blast
qed

lemma delete_task_ok:
  assumes "tasks_ok m"
  shows "tasks_ok (snd (delete_scheduled_task i m))" "tasks_ok (snd (delete_scheduled_task_for_owner i owner m))"
  using assms remove_task_ok[OF assms, of i]
  by (simp_all add: delete_scheduled_task_def delete_scheduled_task_for_owner_def split: option.split)

lemma expire_tasks_ok:
  assumes "tasks_ok m"
  shows "tasks_ok (snd (expire_scheduled_tasks now limit m))"
proof -
  have "tasks_ok m \<Longrightarrow> tasks_ok (fold (\<lambda>t. put_task (st_id t) (expire_task now t)) ts m)" for ts
    by (induction ts arbitrary: m) (simp_all add: put_task_ok expire_task_def)
  with assms show ?thesis by (simp add: expire_scheduled_tasks_def Let_def)
qed

section \<open>Claiming and finishing\<close>

text \<open>The four ways a claim ends.\<close>

lemma try_start_cases:
  assumes "try_start_task_run tid r next m = (res, m')"
  obtains "m' = m" "res = Inl StoreNotFound" "mget (am_tasks m) tid = None"
  | t where "m' = m" "res = Inr None" "mget (am_tasks m) tid = Some t"
      "\<not> task_due (tr_scheduled_for r) t \<or> (\<exists>k e. mget (am_runs m) k = Some e \<and> tr_task_id e = tid \<and> run_live e)"
  | "m' = m" "res = Inl StoreConflict" "mget (am_runs m) (tr_id r) \<noteq> None"
  | t where "mget (am_tasks m) tid = Some t" "task_due (tr_scheduled_for r) t" "mget (am_runs m) (tr_id r) = None"
      "\<And>k e. mget (am_runs m) k = Some e \<Longrightarrow> tr_task_id e = tid \<Longrightarrow> \<not> run_live e"
      "res = Inr (Some (clone_task (claim_task r next t)))" "m' = put_task_run r (put_task tid (claim_task r next t) m)"
proof (cases "mget (am_tasks m) tid")
  case None
  with assms that(1) show thesis by (simp add: try_start_task_run_def)
next
  case (Some t)
  consider "\<not> task_due (tr_scheduled_for r) t" | "\<exists>e \<in> set (mvals (am_runs m)). tr_task_id e = tid \<and> run_live e"
    | "task_due (tr_scheduled_for r) t" "\<not> (\<exists>e \<in> set (mvals (am_runs m)). tr_task_id e = tid \<and> run_live e)" by blast
  then show thesis
  proof cases
    case 1
    with Some assms show thesis by (intro that(2)[of t]) (simp_all add: try_start_task_run_def)
  next
    case 2
    then have "list_ex (\<lambda>e. tr_task_id e = tid \<and> run_live e) (mvals (am_runs m))" unfolding list_ex_iff .
    with Some assms have "m' = m" "res = Inr None"
      by (cases "task_due (tr_scheduled_for r) t"; simp add: try_start_task_run_def)+
    with Some 2 show thesis unfolding mvals_ex by (intro that(2)[of t]) simp_all
  next
    case 3
    then have none: "\<not> list_ex (\<lambda>e. tr_task_id e = tid \<and> run_live e) (mvals (am_runs m))" unfolding list_ex_iff by blast
    show thesis
    proof (cases "mget (am_runs m) (tr_id r)")
      case None
      show thesis
      proof (rule that(4)[OF Some 3(1) None])
        show "\<not> run_live e" if "mget (am_runs m) k = Some e" "tr_task_id e = tid" for k e
          using 3(2) that unfolding mvals_ex by blast
        show "res = Inr (Some (clone_task (claim_task r next t)))" "m' = put_task_run r (put_task tid (claim_task r next t) m)"
          using assms Some 3(1) none None by (simp_all add: try_start_task_run_def Let_def)
      qed
    next
      case (Some x)
      with assms \<open>mget (am_tasks m) tid = Some t\<close> 3(1) none show thesis
        by (intro that(3)) (simp_all add: try_start_task_run_def)
    qed
  qed
qed

lemma claim_task_keeps [simp]:
  "st_id (claim_task r next t) = st_id t" "st_status (claim_task r next t) = st_status t"
  "st_next_run_at (claim_task r next t) = next" "st_run_count (claim_task r next t) = st_run_count t"
  by (simp_all add: claim_task_def Let_def)

lemma try_start_ok:
  assumes ok: "tasks_ok m" and own: "tr_task_id r = tid"
  shows "tasks_ok (snd (try_start_task_run tid r next m))"
proof (cases "try_start_task_run tid r next m")
  case (Pair res m')
  from Pair show ?thesis
  proof (cases rule: try_start_cases)
    case (4 t)
    have "tasks_ok (put_task_run r (put_task tid (claim_task r next t) m))"
    proof (rule put_run_ok)
      show "tasks_ok (put_task tid (claim_task r next t) m)"
        by (rule put_task_ok[OF ok]) (simp add: tasks_okD(1)[OF ok 4(1)])
      show "mget (am_tasks (put_task tid (claim_task r next t) m)) (tr_task_id r) \<noteq> None"
        by (simp add: own gm.get_put)
      fix k s assume "mget (am_runs (put_task tid (claim_task r next t) m)) k = Some s" "run_live s"
      then show "tr_task_id s \<noteq> tr_task_id r" using 4(4)[of k s] own by auto
    qed
    then show ?thesis by (simp add: Pair 4(6))
  qed (use ok Pair in simp_all)
qed

lemma heartbeat_ok:
  assumes ok: "tasks_ok m"
  shows "tasks_ok (snd (heartbeat_task_run i w now m))"
proof (cases "mget (am_runs m) i")
  case (Some r)
  let ?r = "r\<lparr>tr_updated_at := now\<rparr>"
  have "tasks_ok (put_task_run ?r m)"
  proof (rule put_run_ok[OF ok])
    show "mget (am_tasks m) (tr_task_id ?r) \<noteq> None" using task_of_run(2)[OF ok Some] by simp
    fix k s assume "mget (am_runs m) k = Some s" "k \<noteq> tr_id ?r" "run_live s" "run_live ?r"
    then show "tr_task_id s \<noteq> tr_task_id ?r"
      using lone_runsD[OF ok, of k s i r] Some task_of_run(1)[OF ok Some] by (auto simp: run_live_def)
  qed
  then have "tasks_ok (m\<lparr>am_runs := mput (am_runs m) i ?r\<rparr>)" using task_of_run(1)[OF ok Some] by (simp add: put_task_run_def)
  with ok Some show ?thesis by (simp add: heartbeat_task_run_def)
qed (use ok in \<open>simp add: heartbeat_task_run_def\<close>)

lemma settle_keeps [simp]:
  "st_id (settle_task_status t) = st_id t" "st_run_count (settle_task_status t) = st_run_count t"
  "st_next_run_at (settle_task_status t) = st_next_run_at t" "st_last_status (settle_task_status t) = st_last_status t"
  "st_id (count_run t) = st_id t" "st_status (count_run t) = st_status t" "st_next_run_at (count_run t) = st_next_run_at t"
  "st_run_count (count_run t) = int64 (st_run_count t + 1)" "st_last_status (count_run t) = st_last_status t"
  by (simp_all add: settle_task_status_def count_run_def)

lemma finish_task_keeps [simp]:
  "st_id (finish_task r next t) = st_id t" "st_run_count (finish_task r next t) = int64 (st_run_count t + 1)"
  "st_last_status (finish_task r next t) = tr_status r" "st_next_run_at (finish_task r next t) = next"
  by (simp_all add: finish_task_def)

text \<open>A run is updated only when it ends, and never to another task.\<close>

lemma update_run_ok:
  assumes ok: "tasks_ok m" and over: "\<not> run_live r"
    and same: "\<And>s. mget (am_runs m) (tr_id r) = Some s \<Longrightarrow> tr_task_id s = tr_task_id r"
  shows "tasks_ok (snd (update_task_run r next terminal m))"
proof (cases "mget (am_runs m) (tr_id r)")
  case (Some s)
  have task: "mget (am_tasks m) (tr_task_id r) \<noteq> None" using task_of_run(2)[OF ok Some] same[OF Some] by simp
  have put: "tasks_ok (put_task_run r m)" by (rule put_run_ok[OF ok task]) (use over in simp)
  have "tasks_ok (put_task (st_id t) (finish_task r next t) (put_task_run r m))" for t
    by (rule put_task_ok[OF put]) simp
  with Some put show ?thesis by (simp add: update_task_run_def Let_def split: option.split)
qed (use ok in \<open>simp add: update_task_run_def\<close>)

lemma expire_run_keeps [simp]:
  "tr_id (expire_run now err r) = tr_id r" "tr_task_id (expire_run now err r) = tr_task_id r" "\<not> run_live (expire_run now err r)"
  by (simp_all add: expire_run_def run_live_def)

text \<open>What the loop over stale runs leaves behind: every one of them has failed, and no error is returned.\<close>

lemma expire_runs_all:
  assumes "tasks_ok m" "\<And>r. r \<in> set rs \<Longrightarrow> mget (am_tasks m) (tr_task_id r) \<noteq> None"
  shows "fst (expire_runs now err rs done m) = Inr (done @ map (expire_run now err) rs) \<and>
    tasks_ok (snd (expire_runs now err rs done m)) \<and>
    (\<forall>k. mget (am_runs (snd (expire_runs now err rs done m))) k =
      (case find (\<lambda>r. tr_id r = k) (rev rs) of None \<Rightarrow> mget (am_runs m) k | Some r \<Rightarrow> Some (expire_run now err r)))"
  using assms
proof (induction rs arbitrary: m "done")
  case (Cons r rs)
  let ?r = "expire_run now err r"
  from Cons.prems(2)[of r] obtain t where t: "mget (am_tasks m) (tr_task_id r) = Some t" by auto
  define u where "u = count_run (settle_task_status (t\<lparr>st_last_run_at := now, st_last_status := tr_status ?r,
    st_last_error := tr_error ?r, st_updated_at := now\<rparr>))"
  define n where "n = put_task (st_id t) u (put_task_run ?r m)"
  have step: "expire_runs now err (r # rs) done m = expire_runs now err rs (done @ [?r]) n"
    by (simp add: t n_def u_def Let_def)
  have ok: "tasks_ok n" unfolding n_def
    by (rule put_task_ok[OF put_run_ok[OF Cons.prems(1)]]) (simp_all add: t u_def)
  have there: "mget (am_tasks n) (tr_task_id x) \<noteq> None" if "x \<in> set rs" for x
    using Cons.prems(2)[of x] that by (simp add: n_def gm.get_put)
  have "mget (am_runs n) k = (if k = tr_id r then Some ?r else mget (am_runs m) k)" for k
    by (simp add: n_def gm.get_put)
  then have "(case find (\<lambda>r. tr_id r = k) (rev rs) of None \<Rightarrow> mget (am_runs n) k | Some r \<Rightarrow> Some (expire_run now err r)) =
    (case find (\<lambda>r. tr_id r = k) (rev (r # rs)) of None \<Rightarrow> mget (am_runs m) k | Some r \<Rightarrow> Some (expire_run now err r))" for k
    by (simp add: find_append split: option.split)
  with Cons.IH[OF ok there, of "done @ [?r]"] show ?case unfolding step by simp
qed simp

end
