(* ===== verification/Admin_Traces.thy ===== *)
theory Admin_Traces
  imports Admin_Types Convo_Memory
begin

text \<open>
  \<open>apps/admin-api/internal/store/memory.go\<close>, last part: the audit of conversation runs and the spans of
  their traces. The arguments \<open>now\<close>, \<open>created\<close> and \<open>updated\<close> are what the calls of \<open>time.Now().UTC()\<close> return.
\<close>

section \<open>Runs\<close>

definition stamp_run :: "gtime \<Rightarrow> conversation_run option \<Rightarrow> conversation_run \<Rightarrow> conversation_run" where
  "stamp_run now existing r =
     (let r = (case existing of Some e \<Rightarrow> if vr_created_at r = 0 then r\<lparr>vr_created_at := vr_created_at e\<rparr> else r | None \<Rightarrow> r);
          r = (if vr_created_at r = 0 then r\<lparr>vr_created_at := now\<rparr> else r)
      in if vr_updated_at r = 0 then r\<lparr>vr_updated_at := now\<rparr> else r)"

definition upsert_conversation_run :: "conversation_run \<Rightarrow> gtime \<Rightarrow> admin_memory \<Rightarrow> unit admin_result" where
  "upsert_conversation_run r now m =
     (if vr_trace_id r = [] then (Inl StoreNotFound, m)
      else (Inr (), m\<lparr>am_conversation_runs := mput (am_conversation_runs m) (vr_trace_id r)
              (stamp_run now (mget (am_conversation_runs m) (vr_trace_id r)) r)\<rparr>))"

definition get_conversation_run :: "string \<Rightarrow> admin_memory \<Rightarrow> store_error + conversation_run" where
  "get_conversation_run i m = (case mget (am_conversation_runs m) i of None \<Rightarrow> Inl StoreNotFound | Some r \<Rightarrow> Inr r)"

text \<open>\<open>strings.Join(fields, sep)\<close>\<close>

fun join_with :: "string \<Rightarrow> string list \<Rightarrow> string" where
  "join_with sep [] = []"
| "join_with sep [x] = x"
| "join_with sep (x # xs) = x @ sep @ join_with sep xs"

definition run_text :: "conversation_run \<Rightarrow> string" where
  "run_text r = join_with '' '' [vr_user_id r, vr_user_email r, vr_conversation_id r, vr_conversation_title r, vr_trace_id r]"

definition run_selected :: "text_case \<Rightarrow> run_query \<Rightarrow> conversation_run \<Rightarrow> bool" where
  "run_selected tc q r =
     (let search = tc_lower tc (trim_space (rq_search q)) in
      \<not> (rq_status q \<noteq> [] \<and> vr_status r \<noteq> rq_status q \<or> rq_source q \<noteq> [] \<and> vr_source r \<noteq> rq_source q) \<and>
      \<not> (rq_from q \<noteq> 0 \<and> vr_started_at r < rq_from q \<or> rq_until q \<noteq> 0 \<and> vr_started_at r > rq_until q) \<and>
      \<not> (search \<noteq> [] \<and> \<not> str_contains (tc_lower tc (run_text r)) search))"

text \<open>\<open>out[start:end]\<close>: a slice out of bounds panics, which is None.\<close>

definition slice_of :: "'a list \<Rightarrow> int \<Rightarrow> int \<Rightarrow> 'a list option" where
  "slice_of xs a b = (if 0 \<le> a \<and> a \<le> b \<and> b \<le> int (length xs) then Some (take (nat b - nat a) (drop (nat a) xs)) else None)"

definition list_conversation_runs :: "text_case \<Rightarrow> run_query \<Rightarrow> admin_memory \<Rightarrow> conversation_run list option" where
  "list_conversation_runs tc q m =
     (let out = sort_key (\<lambda>r. - vr_started_at r) (filter (run_selected tc q) (mvals (am_conversation_runs m)));
          n = int (length out);
          start = min (rq_offset q) n;
          stop = int64 (start + rq_limit q)
      in slice_of out start (if rq_limit q > 0 \<and> stop < n then stop else n))"

section \<open>Spans\<close>

definition put_spans :: "string \<Rightarrow> (string, trace_span) gomap \<Rightarrow> admin_memory \<Rightarrow> admin_memory" where
  "put_spans tid spans m = m\<lparr>am_conversation_spans := mput (am_conversation_spans m) tid spans\<rparr>"

definition upsert_trace_span :: "trace_span \<Rightarrow> gtime \<Rightarrow> gtime \<Rightarrow> admin_memory \<Rightarrow> unit admin_result" where
  "upsert_trace_span s created updated m =
     (if mget (am_conversation_runs m) (ts_trace_id s) = None then (Inl StoreNotFound, m)
      else (let spans = mget0 mnil (am_conversation_spans m) (ts_trace_id s);
                (s, seq) = (case mget spans (ts_span_id s) of
                    Some e \<Rightarrow> (s\<lparr>ts_id := ts_id e, ts_created_at := ts_created_at e\<rparr>, am_conversation_span_seq m)
                  | None \<Rightarrow> (let seq = int64 (am_conversation_span_seq m + 1) in (s\<lparr>ts_id := seq, ts_created_at := created\<rparr>, seq)));
                s = s\<lparr>ts_updated_at := updated\<rparr>
            in (Inr (), put_spans (ts_trace_id s) (mput spans (ts_span_id s) s) (m\<lparr>am_conversation_span_seq := seq\<rparr>))))"

definition list_trace_spans :: "span_query \<Rightarrow> admin_memory \<Rightarrow> trace_span list" where
  "list_trace_spans q m =
     (let out = sort_key ts_id (filter (\<lambda>s. ts_id s > sq_after_id q) (mvals (mget0 mnil (am_conversation_spans m) (sq_trace_id q))))
      in if sq_limit q > 0 \<and> int (length out) > sq_limit q then take (nat (sq_limit q)) out else out)"

definition expire_trace ::
  "gtime \<Rightarrow> string \<times> (string, trace_span) gomap \<Rightarrow> int \<times> admin_memory \<Rightarrow> int \<times> admin_memory" where
  "expire_trace before e s =
     (let (tid, spans) = e; (removed, m) = s;
          kept = DAList.filter (\<lambda>(_, x). \<not> ts_created_at x < before) spans;
          removed = removed + int (length (mitems spans) - length (mitems kept));
          m = put_spans tid kept m
      in if mitems kept = []
         then (case mget (am_conversation_runs m) tid of
                 None \<Rightarrow> (removed, m)
               | Some r \<Rightarrow> (removed, if vr_started_at r < before
                   then m\<lparr>am_conversation_runs := mput (am_conversation_runs m) tid (r\<lparr>vr_detail_status := ''expired''\<rparr>)\<rparr> else m))
         else (removed, m))"

definition expire_trace_spans :: "gtime \<Rightarrow> admin_memory \<Rightarrow> int \<times> admin_memory" where
  "expire_trace_spans before m = fold (expire_trace before) (mitems (am_conversation_spans m)) (0, m)"

definition run_abandoned :: "gtime \<Rightarrow> conversation_run \<Rightarrow> bool" where
  "run_abandoned before r \<longleftrightarrow> vr_status r = ''running'' \<and> vr_last_activity_at r < before"

definition interrupt_stale_runs :: "gtime \<Rightarrow> gtime \<Rightarrow> admin_memory \<Rightarrow> int \<times> admin_memory" where
  "interrupt_stale_runs before now m =
     (int (length (filter (run_abandoned before) (mvals (am_conversation_runs m)))),
      m\<lparr>am_conversation_runs := mmap (\<lambda>_ r. if run_abandoned before r
          then r\<lparr>vr_status := ''interrupted'', vr_completed_at := now,
                 vr_duration_ms := milliseconds (time_sub now (vr_started_at r)), vr_updated_at := now\<rparr>
          else r) (am_conversation_runs m)\<rparr>)"

end
