(* ===== verification/Admin_Laws.thy ===== *)
theory Admin_Laws
  imports Catalog_Laws Task_Laws Admin_Traces
begin

text \<open>
  All calls of the admin store together: what a call may assume of its arguments (\<open>admin_call_ok\<close>, the duties
  that \<open>service/scheduled_tasks.go\<close>, \<open>scheduler.go\<close> and \<open>admin.go\<close> meet), the stores reachable through
  calls, and the invariant of the store, each part of which only the calls of one group can touch.
\<close>

section \<open>Calls\<close>

datatype account_call =
    CreateUser auth_user | UpdateUser auth_user | UpdateUserVersion auth_user int | DeleteUser string string gtime
  | TouchLogin string gtime | CreateToken token_record | RevokeToken string gtime | SetQuota quota_override
  | DeleteQuota string string | SetSetting system_setting int | DeleteSetting string int

fun account_exec :: "account_call \<Rightarrow> admin_memory \<Rightarrow> admin_memory" where
  "account_exec (CreateUser u) m = snd (create_auth_user u m)"
| "account_exec (UpdateUser u) m = snd (update_auth_user u m)"
| "account_exec (UpdateUserVersion u e) m = snd (update_auth_user_version u e m)"
| "account_exec (DeleteUser i a t) m = snd (delete_auth_user i a t m)"
| "account_exec (TouchLogin i t) m = snd (touch_auth_user_login i t m)"
| "account_exec (CreateToken r) m = snd (create_token r m)"
| "account_exec (RevokeToken i t) m = snd (revoke_token i t m)"
| "account_exec (SetQuota q) m = set_quota q m"
| "account_exec (DeleteQuota s u) m = snd (delete_quota s u m)"
| "account_exec (SetSetting s e) m = snd (set_system_setting s e m)"
| "account_exec (DeleteSetting k e) m = snd (delete_system_setting k e m)"

datatype catalog_call =
    CreateSkill skill | UpdateSkill skill | SetSkillEnabled string bool gtime string | UpdateBundledSkill skill
  | DeleteSkill string | SetSkillPref user_skill_preference | DropSkillPref string string
  | CreateMcp mcp_server | UpdateMcp mcp_server | DeleteMcp string | SetMcpPref user_mcp_preference | DropMcpPref string string
  | SetInstructions user_agent_instructions | CreatePrompt agent_prompt | UpdatePrompt agent_prompt
  | CreateProvider llm_provider | UpdateProvider llm_provider | DeleteProvider string
  | CreateRoute llm_model_route | UpdateRoute llm_model_route | DeleteRoute string
  | UpdateMemory memory_config int memory_index_lock | BeginReset string gtime | ResetAccount string | CompleteReset

fun catalog_exec :: "catalog_call \<Rightarrow> admin_memory \<Rightarrow> admin_memory" where
  "catalog_exec (CreateSkill s) m = snd (create_skill s m)"
| "catalog_exec (UpdateSkill s) m = snd (update_skill s m)"
| "catalog_exec (SetSkillEnabled i e t a) m = snd (set_skill_enabled i e t a m)"
| "catalog_exec (UpdateBundledSkill s) m = snd (update_bundled_skill s m)"
| "catalog_exec (DeleteSkill i) m = snd (delete_skill i m)"
| "catalog_exec (SetSkillPref p) m = snd (set_user_skill_preference p m)"
| "catalog_exec (DropSkillPref u i) m = delete_user_skill_preference u i m"
| "catalog_exec (CreateMcp s) m = snd (create_mcp_server s m)"
| "catalog_exec (UpdateMcp s) m = snd (update_mcp_server s m)"
| "catalog_exec (DeleteMcp i) m = snd (delete_mcp_server i m)"
| "catalog_exec (SetMcpPref p) m = snd (set_user_mcp_preference p m)"
| "catalog_exec (DropMcpPref u i) m = delete_user_mcp_preference u i m"
| "catalog_exec (SetInstructions i) m = snd (set_user_agent_instructions i m)"
| "catalog_exec (CreatePrompt p) m = snd (create_agent_prompt p m)"
| "catalog_exec (UpdatePrompt p) m = snd (update_agent_prompt p m)"
| "catalog_exec (CreateProvider p) m = snd (create_llm_provider p m)"
| "catalog_exec (UpdateProvider p) m = snd (update_llm_provider p m)"
| "catalog_exec (DeleteProvider i) m = snd (delete_llm_provider i m)"
| "catalog_exec (CreateRoute r) m = snd (create_llm_model_route r m)"
| "catalog_exec (UpdateRoute r) m = snd (update_llm_model_route r m)"
| "catalog_exec (DeleteRoute i) m = snd (delete_llm_model_route i m)"
| "catalog_exec (UpdateMemory c e l) m = snd (update_memory_config c e l m)"
| "catalog_exec (BeginReset a t) m = begin_memory_reset a t m"
| "catalog_exec (ResetAccount k) m = complete_memory_reset_account k m"
| "catalog_exec CompleteReset m = snd (complete_memory_reset m)"

datatype task_call =
    CreateTask scheduled_task "task_attachment list" | UpdateTask scheduled_task bool "task_attachment list"
  | DeleteTask string | DeleteTaskForOwner string string | ExpireTasks gtime int
  | TryStart string task_run gtime | Heartbeat string string gtime | ExpireStale gtime gtime string int
  | UpdateRun task_run gtime bool | AppendEvent task_run_event

fun task_exec :: "task_call \<Rightarrow> admin_memory \<Rightarrow> admin_memory" where
  "task_exec (CreateTask t as) m = snd (create_scheduled_task t as m)"
| "task_exec (UpdateTask t b as) m = snd (update_scheduled_task t b as m)"
| "task_exec (DeleteTask i) m = snd (delete_scheduled_task i m)"
| "task_exec (DeleteTaskForOwner i o') m = snd (delete_scheduled_task_for_owner i o' m)"
| "task_exec (ExpireTasks t l) m = snd (expire_scheduled_tasks t l m)"
| "task_exec (TryStart i r t) m = snd (try_start_task_run i r t m)"
| "task_exec (Heartbeat i w t) m = snd (heartbeat_task_run i w t m)"
| "task_exec (ExpireStale b t e l) m = snd (expire_stale_task_runs b t e l m)"
| "task_exec (UpdateRun r t f) m = snd (update_task_run r t f m)"
| "task_exec (AppendEvent e) m = snd (append_task_run_event e m)"

datatype trace_call =
    UpsertRun conversation_run gtime | UpsertSpan trace_span gtime gtime | ExpireSpans gtime | InterruptStale gtime gtime

fun trace_exec :: "trace_call \<Rightarrow> admin_memory \<Rightarrow> admin_memory" where
  "trace_exec (UpsertRun r t) m = snd (upsert_conversation_run r t m)"
| "trace_exec (UpsertSpan s t u) m = snd (upsert_trace_span s t u m)"
| "trace_exec (ExpireSpans t) m = snd (expire_trace_spans t m)"
| "trace_exec (InterruptStale b t) m = snd (interrupt_stale_runs b t m)"

datatype admin_call = Account account_call | Catalog catalog_call | Task task_call | Trace trace_call

fun admin_exec :: "admin_call \<Rightarrow> admin_memory \<Rightarrow> admin_memory" where
  "admin_exec (Account c) m = account_exec c m"
| "admin_exec (Catalog c) m = catalog_exec c m"
| "admin_exec (Task c) m = task_exec c m"
| "admin_exec (Trace c) m = trace_exec c m"

text \<open>
  The service gives attachments the id of their task, starts a run for the task it claims, updates a run
  only to end it, stores a memory configuration that does not claim a reset and completes a reset it began.
\<close>

fun admin_call_ok :: "admin_call \<Rightarrow> admin_memory \<Rightarrow> bool" where
  "admin_call_ok (Task (CreateTask t as)) m \<longleftrightarrow> (\<forall>a \<in> set as. ta_task_id a = st_id t)"
| "admin_call_ok (Task (UpdateTask t b as)) m \<longleftrightarrow> (\<forall>a \<in> set as. ta_task_id a = st_id t)"
| "admin_call_ok (Task (TryStart i r t)) m \<longleftrightarrow> tr_task_id r = i"
| "admin_call_ok (Task (UpdateRun r t f)) m \<longleftrightarrow> \<not> run_live r \<and>
     (\<forall>s. mget (am_runs m) (tr_id r) = Some s \<longrightarrow> tr_task_id s = tr_task_id r)"
| "admin_call_ok (Catalog (UpdateMemory c e l)) m \<longleftrightarrow> \<not> mg_resetting c"
| "admin_call_ok (Catalog CompleteReset) m \<longleftrightarrow> mg_resetting (am_memory_config m)"
| "admin_call_ok _ m \<longleftrightarrow> True"

inductive admin_reach :: "admin_memory \<Rightarrow> bool" where
  admin_new: "admin_reach new_admin_memory"
| admin_step: "admin_reach m \<Longrightarrow> admin_call_ok c m \<Longrightarrow> admin_reach (admin_exec c m)"

section \<open>Who touches what\<close>

definition account_part :: "admin_memory \<Rightarrow> (string, auth_user) gomap \<times> (string, string) gomap" where
  "account_part m = (am_users m, am_identifiers m)"

definition catalog_part where
  "catalog_part m = (am_skills m, am_skill_prefs m, am_mcps m, am_mcp_prefs m, am_llm_providers m, am_llm_models m,
     am_memory_config m, am_memory_index_lock m)"

definition task_part where
  "task_part m = (am_tasks m, am_attachments m, am_runs m, am_run_events m)"

lemmas parts = account_part_def catalog_part_def task_part_def

lemma account_frame: "catalog_part (account_exec c m) = catalog_part m" "task_part (account_exec c m) = task_part m"
  by (cases c; simp add: parts create_auth_user_def store_user_def update_auth_user_def update_auth_user_version_def
      change_auth_user_def delete_auth_user_def touch_auth_user_login_def create_token_def revoke_token_def set_quota_def
      delete_quota_def set_system_setting_def delete_system_setting_def Let_def split: option.split)+

lemma catalog_frame: "account_part (catalog_exec c m) = account_part m" "task_part (catalog_exec c m) = task_part m"
  by (cases c; simp add: parts create_skill_def update_skill_def set_skill_enabled_def update_bundled_skill_def put_skill_def
      delete_skill_def set_user_skill_preference_def delete_user_skill_preference_def create_mcp_server_def
      update_mcp_server_def delete_mcp_server_def set_user_mcp_preference_def delete_user_mcp_preference_def
      set_user_agent_instructions_def create_agent_prompt_def update_agent_prompt_def create_llm_provider_def
      update_llm_provider_def put_provider_def delete_llm_provider_def create_llm_model_route_def update_llm_model_route_def
      put_route_def clear_defaults_def delete_llm_model_route_def update_memory_config_def begin_memory_reset_def
      complete_memory_reset_account_def complete_memory_reset_def Let_def split: option.split)+

text \<open>The calls on tasks that loop.\<close>

lemma task_loops_frame:
  "account_part (snd (add_attachments as m)) = account_part m" "catalog_part (snd (add_attachments as m)) = catalog_part m"
  "account_part (fold (\<lambda>t. put_task (st_id t) (f t)) ts m) = account_part m"
  "catalog_part (fold (\<lambda>t. put_task (st_id t) (f t)) ts m) = catalog_part m"
proof -
  show "account_part (snd (add_attachments as m)) = account_part m" "catalog_part (snd (add_attachments as m)) = catalog_part m"
    by (induction as arbitrary: m) (simp_all add: parts)
  show "account_part (fold (\<lambda>t. put_task (st_id t) (f t)) ts m) = account_part m"
    "catalog_part (fold (\<lambda>t. put_task (st_id t) (f t)) ts m) = catalog_part m"
    by (induction ts arbitrary: m) (simp_all add: parts put_task_def)
qed

lemma expire_runs_frame:
  "account_part (snd (expire_runs now err rs done m)) = account_part m"
  "catalog_part (snd (expire_runs now err rs done m)) = catalog_part m"
proof -
  have "account_part (snd (expire_runs now err rs done m)) = account_part m \<and>
      catalog_part (snd (expire_runs now err rs done m)) = catalog_part m"
    by (induction rs arbitrary: m "done") (simp_all add: parts put_task_def put_task_run_def Let_def split: option.split)
  then show "account_part (snd (expire_runs now err rs done m)) = account_part m"
    "catalog_part (snd (expire_runs now err rs done m)) = catalog_part m" by blast+
qed

lemma put_task_parts: "account_part (put_task i t m) = account_part m" "catalog_part (put_task i t m) = catalog_part m"
  by (simp_all add: parts put_task_def)

lemma task_frame: "account_part (task_exec c m) = account_part m \<and> catalog_part (task_exec c m) = catalog_part m"
proof (cases c)
  case (CreateTask t as)
  then show ?thesis by (simp add: create_scheduled_task_def task_loops_frame put_task_parts)
next
  case (ExpireTasks t l)
  then show ?thesis by (simp add: expire_scheduled_tasks_def task_loops_frame Let_def)
next
  case (ExpireStale b t e l)
  then show ?thesis by (simp add: expire_stale_task_runs_def expire_runs_frame)
qed (simp_all add: parts update_scheduled_task_def put_task_def put_attachments_def drop_attachments_def
    delete_scheduled_task_def delete_scheduled_task_for_owner_def remove_task_def drop_task_runs_eq try_start_task_run_def
    put_task_run_def heartbeat_task_run_def update_task_run_def append_task_run_event_def Let_def split: option.split)

lemma expire_trace_parts:
  "account_part (snd (expire_trace b e s)) = account_part (snd s)" "catalog_part (snd (expire_trace b e s)) = catalog_part (snd s)"
  "task_part (snd (expire_trace b e s)) = task_part (snd s)"
  by (cases e; cases s; simp add: parts expire_trace_def put_spans_def Let_def split: option.split)+

lemma trace_frame:
  "account_part (trace_exec c m) = account_part m \<and> catalog_part (trace_exec c m) = catalog_part m \<and>
   task_part (trace_exec c m) = task_part m"
proof (cases c)
  case (ExpireSpans t)
  have "account_part (snd (fold (expire_trace t) es s)) = account_part (snd s) \<and>
      catalog_part (snd (fold (expire_trace t) es s)) = catalog_part (snd s) \<and>
      task_part (snd (fold (expire_trace t) es s)) = task_part (snd s)" for es s
    by (induction es arbitrary: s) (simp_all add: expire_trace_parts)
  with ExpireSpans show ?thesis by (simp add: expire_trace_spans_def)
qed (simp_all add: parts upsert_conversation_run_def upsert_trace_span_def put_spans_def interrupt_stale_runs_def Let_def
    split: option.split)

end
