(* ===== verification/Admin_Properties.thy ===== *)
theory Admin_Properties
  imports Admin_Laws
begin

text \<open>
  Properties of the admin store, over every store reachable by its calls.
\<close>

section \<open>The invariant\<close>

definition admin_ok :: "admin_memory \<Rightarrow> bool" where
  "admin_ok m \<longleftrightarrow> users_ok m \<and> models_ok m \<and> skill_prefs_ok m \<and> mcp_prefs_ok m \<and> switch_ok m \<and> tasks_ok m"

lemma admin_ok_parts:
  "account_part n = account_part m \<Longrightarrow> users_ok m \<Longrightarrow> users_ok n"
  "catalog_part n = catalog_part m \<Longrightarrow> models_ok m \<and> skill_prefs_ok m \<and> mcp_prefs_ok m \<and> switch_ok m \<Longrightarrow>
     models_ok n \<and> skill_prefs_ok n \<and> mcp_prefs_ok n \<and> switch_ok n"
  "task_part n = task_part m \<Longrightarrow> tasks_ok m \<Longrightarrow> tasks_ok n"
  by (simp_all add: parts tasks_ok_def)

lemma account_calls_ok: "users_ok m \<Longrightarrow> users_ok (account_exec c m)"
proof (cases c)
qed (simp_all add: create_auth_user_ok update_auth_user_def update_auth_user_version_def change_auth_user_ok
    delete_auth_user_ok touch_auth_user_login_ok create_token_def revoke_token_def set_quota_def delete_quota_def
    set_system_setting_def delete_system_setting_def Let_def split: option.split)

lemma catalog_other:
  "models_ok m \<Longrightarrow> models_ok (catalog_exec (SetInstructions i) m) \<and> models_ok (catalog_exec (CreatePrompt p) m) \<and>
     models_ok (catalog_exec (UpdatePrompt p) m)"
  by (simp add: set_user_agent_instructions_def create_agent_prompt_def update_agent_prompt_def Let_def)

lemmas skill_defs = create_skill_def update_skill_def set_skill_enabled_def update_bundled_skill_def put_skill_def
  delete_skill_def set_user_skill_preference_def delete_user_skill_preference_def
lemmas mcp_defs = create_mcp_server_def update_mcp_server_def delete_mcp_server_def set_user_mcp_preference_def
  delete_user_mcp_preference_def
lemmas prompt_defs = set_user_agent_instructions_def create_agent_prompt_def update_agent_prompt_def
lemmas model_defs = create_llm_provider_def update_llm_provider_def put_provider_def delete_llm_provider_def
  create_llm_model_route_def update_llm_model_route_def put_route_def clear_defaults_def delete_llm_model_route_def
lemmas switch_defs = update_memory_config_def begin_memory_reset_def complete_memory_reset_account_def complete_memory_reset_def

lemma catalog_models: "models_ok m \<Longrightarrow> models_ok (catalog_exec c m)"
  by (cases c) (simp_all add: create_route_ok update_route_ok provider_calls_ok delete_provider_ok
      skill_defs mcp_defs prompt_defs switch_defs Let_def split: option.split)

lemma catalog_skill_prefs: "skill_prefs_ok m \<Longrightarrow> skill_prefs_ok (catalog_exec c m)"
  by (cases c) (simp_all add: skill_calls_prefs mcp_defs prompt_defs model_defs switch_defs Let_def split: option.split)

lemma catalog_mcp_prefs: "mcp_prefs_ok m \<Longrightarrow> mcp_prefs_ok (catalog_exec c m)"
  by (cases c) (simp_all add: mcp_calls_prefs skill_defs prompt_defs model_defs switch_defs Let_def split: option.split)

lemma catalog_switch: "switch_ok m \<Longrightarrow> admin_call_ok (Catalog c) m \<Longrightarrow> switch_ok (catalog_exec c m)"
  by (cases c) (simp_all add: update_memory_config_ok reset_calls_ok complete_memory_reset_ok skill_defs mcp_defs prompt_defs
      model_defs Let_def split: option.split)

lemma stale_runs_have_tasks:
  assumes ok: "tasks_ok m" and r: "r \<in> set (limited l (sort_key f (filter P (mvals (am_runs m)))))"
  shows "mget (am_tasks m) (tr_task_id r) \<noteq> None"
proof -
  from r have "r \<in> set (mvals (am_runs m))" by (auto simp: limited_def split: if_splits dest: in_set_takeD)
  then show ?thesis unfolding mvals_iff using task_of_run(2)[OF ok] by blast
qed

lemma append_event_ok:
  assumes ok: "tasks_ok m"
  shows "tasks_ok (snd (append_task_run_event e m))"
proof (cases "mget (am_runs m) (te_run_id e)")
  case (Some r)
  have "\<forall>x \<in> set (mget0 [] (am_run_events m) (te_run_id e)). te_run_id x = te_run_id e"
    using tasks_okD(4)[OF ok] unfolding events_ok_def mget0_def by (cases "mget (am_run_events m) (te_run_id e)") auto
  with tasks_okD(4)[OF ok] Some have "events_ok (am_runs m) (mput (am_run_events m) (te_run_id e)
      (mget0 [] (am_run_events m) (te_run_id e) @ [clone_run_event (e\<lparr>te_id := i\<rparr>)]))" for i
    unfolding events_ok_def by (auto simp: gm.get_put clone_run_event_def)
  with Some show ?thesis using tasks_okD[OF ok] by (intro tasks_okI) (auto simp: append_task_run_event_def Let_def)
qed (use ok in \<open>simp add: append_task_run_event_def\<close>)

lemma task_calls_ok:
  assumes ok: "tasks_ok m" and c: "admin_call_ok (Task c) m"
  shows "tasks_ok (task_exec c m)"
proof (cases c)
  case (CreateTask t as)
  with c show ?thesis by (simp add: create_task_ok[OF ok])
next
  case (UpdateTask t b as)
  with c show ?thesis by (simp add: update_task_ok[OF ok])
next
  case (UpdateRun r t f)
  with c show ?thesis by (simp add: update_run_ok[OF ok])
next
  case (ExpireStale b t e l)
  let ?rs = "limited l (sort_key tr_updated_at (filter (run_stale b) (mvals (am_runs m))))"
  have "tasks_ok (snd (expire_runs t e ?rs [] m))"
    using expire_runs_all[OF ok, of ?rs] stale_runs_have_tasks[OF ok] by blast
  with ExpireStale show ?thesis by (simp add: expire_stale_task_runs_def)
qed (use c in \<open>simp_all add: ok delete_task_ok expire_tasks_ok try_start_ok heartbeat_ok append_event_ok\<close>)

lemma admin_step_ok:
  assumes ok: "admin_ok m" and c: "admin_call_ok c m"
  shows "admin_ok (admin_exec c m)"
proof (cases c)
  case (Account a)
  with ok show ?thesis using account_calls_ok[of m a] 
    admin_ok_parts(2)[OF account_frame(1)[of a m]] admin_ok_parts(3)[OF account_frame(2)[of a m]]
    unfolding admin_ok_def by simp
next
  case (Catalog a)
  with ok c show ?thesis using admin_ok_parts(1)[OF catalog_frame(1)[of a m]] admin_ok_parts(3)[OF catalog_frame(2)[of a m]]
    catalog_models[of m a] catalog_skill_prefs[of m a] catalog_mcp_prefs[of m a] catalog_switch[of m a]
    unfolding admin_ok_def by simp
next
  case (Task a)
  with ok c show ?thesis using admin_ok_parts(1)[OF conjunct1[OF task_frame[of a m]]]
    admin_ok_parts(2)[OF conjunct2[OF task_frame[of a m]]] task_calls_ok[of m a]
    unfolding admin_ok_def by simp
next
  case (Trace a)
  with ok show ?thesis using trace_frame[of a m] admin_ok_parts[of "trace_exec a m" m] unfolding admin_ok_def by simp
qed

lemma admin_reach_ok: "admin_reach m \<Longrightarrow> admin_ok m"
proof (induction rule: admin_reach.induct)
  case admin_new
  show ?case
    by (simp add: admin_ok_def new_admin_memory_def indexed_def routes_ok_def pointing_def memory_ok_def memory_config_zero_def
        tasks_ok_def events_ok_def lone_runs_def)
qed (rule admin_step_ok)

lemma admin_reachD:
  assumes "admin_reach m"
  shows "users_ok m" "models_ok m" "skill_prefs_ok m" "mcp_prefs_ok m" "switch_ok m" "tasks_ok m"
  using admin_reach_ok[OF assms] unfolding admin_ok_def by blast+

section \<open>Sample stores\<close>

definition sample_user :: "string \<Rightarrow> string \<Rightarrow> auth_user" where
  "sample_user i name = \<lparr>au_id = i, au_username = name, au_email = name @ ''@x'', au_name = name, au_tenant_id = [],
     au_role = ''user'', au_enabled = True, au_version = 1, au_password_hash = ''h'', au_created_at = 1, au_updated_at = 1,
     au_last_login_at = 0, au_created_by = [], au_updated_by = [], au_password_updated = 1, au_deleted_at = 0, au_deleted_by = []\<rparr>"

definition sample_task :: scheduled_task where
  "sample_task = \<lparr>st_id = ''t'', st_owner_type = ''user'', st_owner_user_id = ''u'', st_conversation_id = [], st_name = ''n'',
     st_description = [], st_status = ''active'', st_schedule_kind = ''daily'', st_schedule_spec = Some ''{}'', st_timezone = ''UTC'',
     st_prompt = ''p'', st_model_route_id = ''m'', st_model_alias = ''m'', st_max_turns = 30, st_config = Some ''{}'',
     st_expires_at = 0, st_next_run_at = 10, st_last_run_at = 0, st_run_count = 0, st_last_status = [], st_last_error = [],
     st_created_at = 1, st_updated_at = 1, st_created_by = ''u'', st_updated_by = ''u''\<rparr>"

definition sample_run :: "string \<Rightarrow> gtime \<Rightarrow> task_run" where
  "sample_run i t = \<lparr>tr_id = i, tr_task_id = ''t'', tr_scheduled_for = t, tr_status = ''running'', tr_worker_id = ''w'',
     tr_session_id = ''s'', tr_model_route_id = ''m'', tr_model_alias = ''m'', tr_output_text = [], tr_error = [],
     tr_started_at = t, tr_finished_at = 0, tr_created_at = t, tr_updated_at = t\<rparr>"

definition admin0 :: admin_memory where "admin0 = admin_exec (Account (CreateUser (sample_user ''u'' ''ann''))) new_admin_memory"
definition admin1 :: admin_memory where "admin1 = admin_exec (Task (CreateTask sample_task [])) admin0"
definition admin2 :: admin_memory where "admin2 = admin_exec (Task (TryStart ''t'' (sample_run ''r'' 20) 100)) admin1"

lemma admin_samples_reach: "admin_reach admin0" "admin_reach admin1" "admin_reach admin2"
proof -
  show 0: "admin_reach admin0" unfolding admin0_def by (rule admin_step[OF admin_new]) simp
  show 1: "admin_reach admin1" unfolding admin1_def by (rule admin_step[OF 0]) simp
  show "admin_reach admin2" unfolding admin2_def by (rule admin_step[OF 1]) (simp add: sample_run_def)
qed

lemma clone_sample_task [simp]: "clone_task sample_task = sample_task"
  by (simp add: clone_task_def sample_task_def)

lemma admin0_maps:
  "mget (am_users admin0) k = (if k = ''u'' then Some (sample_user ''u'' ''ann'') else None)"
  "mget (am_tasks admin0) k = None" "mget (am_runs admin0) k = None"
  by (simp_all add: admin0_def create_auth_user_def identifier_taken_def auth_user_identifiers_for_def add_identifier_def
      store_user_def sample_user_def new_admin_memory_def gm.get_put Let_def)

lemma admin1_eq: "admin1 = put_task ''t'' sample_task admin0"
  by (simp add: admin1_def create_scheduled_task_def admin0_maps) (simp add: sample_task_def)

lemma admin1_maps:
  "mget (am_tasks admin1) k = (if k = ''t'' then Some sample_task else None)" "mget (am_runs admin1) k = None"
  by (simp_all add: admin1_eq gm.get_put admin0_maps)

lemma admin1_runs: "mvals (am_runs admin1) = []"
proof -
  have "set (mvals (am_runs admin1)) = {}" unfolding mvals_iff[THEN Collect_cong, simplified] by (simp add: set_eq_iff mvals_iff admin1_maps del: set_map)
  then show ?thesis by simp
qed

lemma admin2_eq: "admin2 = put_task_run (sample_run ''r'' 20) (put_task ''t'' (claim_task (sample_run ''r'' 20) 100 sample_task) admin1)"
proof -
  have "task_due 20 sample_task" by (simp add: task_due_def sample_task_def)
  then show ?thesis
    unfolding admin2_def by (simp add: try_start_task_run_def admin1_maps admin1_runs Let_def del: map_is_Nil_conv) (simp add: sample_run_def)
qed

lemma admin2_maps:
  "mget (am_runs admin2) k = (if k = ''r'' then Some (sample_run ''r'' 20) else None)"
  "mget (am_tasks admin2) k = (if k = ''t'' then Some (claim_task (sample_run ''r'' 20) 100 sample_task) else None)"
proof -
  have "clone_task (claim_task (sample_run ''r'' 20) 100 sample_task) = claim_task (sample_run ''r'' 20) 100 sample_task"
    by (simp add: clone_task_def claim_task_def sample_task_def)
  then show "mget (am_runs admin2) k = (if k = ''r'' then Some (sample_run ''r'' 20) else None)"
    "mget (am_tasks admin2) k = (if k = ''t'' then Some (claim_task (sample_run ''r'' 20) 100 sample_task) else None)"
    by (simp_all add: admin2_eq gm.get_put admin1_maps) (simp_all add: sample_run_def)
qed

section \<open>Accounts\<close>

text \<open>
  C17. Logging in through the identifier index is looking the login up in the user table: an identifier
  finds the one user that has it as username or email, and the scan by email agrees with the index.
\<close>

theorem login_index:
  assumes "admin_reach m"
  shows "(get_auth_user_by_identifier v m = Inr u \<longleftrightarrow>
      mget (am_users m) (au_id u) = Some u \<and> v \<noteq> [] \<and> (v = au_username u \<or> v = au_email u)) \<and>
    (v \<noteq> [] \<longrightarrow> get_auth_user_by_email v m = Inr u \<longrightarrow> get_auth_user_by_identifier v m = Inr u)"
proof (intro conjI impI)
  note ok = admin_reachD(1)[OF assms]
  show "get_auth_user_by_identifier v m = Inr u \<longleftrightarrow>
      mget (am_users m) (au_id u) = Some u \<and> v \<noteq> [] \<and> (v = au_username u \<or> v = au_email u)"
    by (rule identifier_lookup[OF ok])
  assume "v \<noteq> []" "get_auth_user_by_email v m = Inr u"
  then have "find (\<lambda>u. au_email u = v) (map snd (mitems (am_users m))) = Some u"
    by (simp add: get_auth_user_by_email_def split: option.splits)
  from gm.find_value_some[OF this] obtain k where "mget (am_users m) k = Some u" "au_email u = v" by blast
  with \<open>v \<noteq> []\<close> show "get_auth_user_by_identifier v m = Inr u"
    unfolding identifier_lookup[OF ok] using users_okD(1)[OF ok] by blast
qed

lemma login_index_witness:
  "get_auth_user_by_identifier ''ann'' admin0 = Inr (sample_user ''u'' ''ann'') \<and>
   get_auth_user_by_identifier ''ann@x'' admin0 = Inr (sample_user ''u'' ''ann'')"
  using login_index[OF admin_samples_reach(1), of "''ann''" "sample_user ''u'' ''ann''"]
    login_index[OF admin_samples_reach(1), of "''ann@x''" "sample_user ''u'' ''ann''"]
  by (simp add: admin0_maps) (simp add: sample_user_def)

text \<open>
  Of two writers that read the same version of a setting only the first gets through: it is stored
  when the version the writer read is still there, the write moves the version on, the second writer is
  refused and changes nothing, and what was stored is read back.
\<close>

theorem stale_setting_refused:
  assumes "0 \<le> e" "set_system_setting s e m = (Inr s', m')" "ss_key t = ss_key s"
  shows "setting_version (ss_key s) m = e \<and> get_system_setting (ss_key s) m' = Inr s' \<and> ss_version s' = int64 (e + 1) \<and>
    set_system_setting t e m' = (Inl StoreConflict, m')"
proof -
  from assms have *: "setting_version (ss_key s) m = e" "s' = clone_setting (s\<lparr>ss_version := int64 (e + 1)\<rparr>)"
    "m' = m\<lparr>am_settings := mput (am_settings m) (ss_key s) s'\<rparr>"
    by (auto simp: set_system_setting_def Let_def clone_setting_def split: if_splits)
  have v: "setting_version (ss_key s) m' = int64 (e + 1)" by (simp add: * setting_version_def gm.get_put clone_setting_def)
  then have "set_system_setting t e m' = (Inl StoreConflict, m')"
    using assms(1) int64_bump[of e] by (simp add: set_system_setting_def assms(3))
  with * show ?thesis by (simp add: get_system_setting_def gm.get_put clone_setting_def)
qed

lemma stale_setting_refused_witness:
  "setting_version ''k'' new_admin_memory = 0 \<and>
   set_system_setting \<lparr>ss_key = ''k'', ss_value = Some ''2'', ss_version = 0, ss_updated_at = 6, ss_updated_by = ''b''\<rparr> 0
     (snd (set_system_setting \<lparr>ss_key = ''k'', ss_value = Some ''1'', ss_version = 0, ss_updated_at = 5, ss_updated_by = ''a''\<rparr> 0
       new_admin_memory)) =
   (Inl StoreConflict,
     snd (set_system_setting \<lparr>ss_key = ''k'', ss_value = Some ''1'', ss_version = 0, ss_updated_at = 5, ss_updated_by = ''a''\<rparr> 0
       new_admin_memory))"
proof -
  let ?s = "\<lparr>ss_key = ''k'', ss_value = Some ''1'', ss_version = 0, ss_updated_at = 5, ss_updated_by = ''a''\<rparr>"
  have "set_system_setting ?s 0 new_admin_memory = (Inr (?s\<lparr>ss_version := 1\<rparr>), snd (set_system_setting ?s 0 new_admin_memory))"
    by (simp add: set_system_setting_def setting_version_def new_admin_memory_def clone_setting_def int64_def Let_def)
  from stale_setting_refused[OF _ this, of "\<lparr>ss_key = ''k'', ss_value = Some ''2'', ss_version = 0, ss_updated_at = 6, ss_updated_by = ''b''\<rparr>"]
  show ?thesis by simp
qed

section \<open>Catalogs\<close>

text \<open>
  C18. Every reachable catalog is consistent: a route belongs to a provider, a provider has no alias
  twice, a protocol has at most one default route, and a user's preference points to a skill or server
  that exists.
\<close>

theorem catalog_consistent:
  assumes "admin_reach m"
  shows "(\<forall>k r. mget (am_llm_models m) k = Some r \<longrightarrow> lr_id r = k \<and> mget (am_llm_providers m) (lr_provider_id r) \<noteq> None) \<and>
    (\<forall>j k r s. mget (am_llm_models m) j = Some r \<longrightarrow> mget (am_llm_models m) k = Some s \<longrightarrow> lr_provider_id r = lr_provider_id s \<longrightarrow>
      lr_alias r = lr_alias s \<longrightarrow> j = k) \<and>
    (\<forall>j k r s. mget (am_llm_models m) j = Some r \<longrightarrow> mget (am_llm_models m) k = Some s \<longrightarrow> lr_is_default r \<longrightarrow> lr_is_default s \<longrightarrow>
      lr_protocol r = lr_protocol s \<longrightarrow> j = k) \<and>
    (\<forall>k p. mget (am_skill_prefs m) k = Some p \<longrightarrow> mget (am_skills m) (sp_skill_id p) \<noteq> None) \<and>
    (\<forall>k q. mget (am_mcp_prefs m) k = Some q \<longrightarrow> mget (am_mcps m) (mp_mcp_id q) \<noteq> None)"
proof (intro conjI)
  note ok = routes_okD[OF admin_reachD(2)[OF assms]]
  show "\<forall>k r. mget (am_llm_models m) k = Some r \<longrightarrow> lr_id r = k \<and> mget (am_llm_providers m) (lr_provider_id r) \<noteq> None"
    using ok(2,3) by blast
  show "\<forall>j k r s. mget (am_llm_models m) j = Some r \<longrightarrow> mget (am_llm_models m) k = Some s \<longrightarrow>
      lr_provider_id r = lr_provider_id s \<longrightarrow> lr_alias r = lr_alias s \<longrightarrow> j = k"
    using ok(4) by blast
  show "\<forall>j k r s. mget (am_llm_models m) j = Some r \<longrightarrow> mget (am_llm_models m) k = Some s \<longrightarrow> lr_is_default r \<longrightarrow>
      lr_is_default s \<longrightarrow> lr_protocol r = lr_protocol s \<longrightarrow> j = k"
    using ok(5) by blast
  show "\<forall>k p. mget (am_skill_prefs m) k = Some p \<longrightarrow> mget (am_skills m) (sp_skill_id p) \<noteq> None"
    using admin_reachD(3)[OF assms] unfolding pointing_def by blast
  show "\<forall>k q. mget (am_mcp_prefs m) k = Some q \<longrightarrow> mget (am_mcps m) (mp_mcp_id q) \<noteq> None"
    using admin_reachD(4)[OF assms] unfolding pointing_def by blast
qed

definition sample_provider :: llm_provider where
  "sample_provider = \<lparr>lp_id = ''p'', lp_name = ''P'', lp_type = ''anthropic'', lp_base_url = ''b'', lp_api_key_ciphertext = [],
     lp_api_key_hint = [], lp_icon_type = [], lp_icon_slug = [], lp_icon_url = [], lp_enabled = True, lp_created_at = 1, lp_updated_at = 1\<rparr>"

definition sample_route :: "string \<Rightarrow> llm_model_route" where
  "sample_route i = \<lparr>lr_id = i, lr_alias = i, lr_provider_id = ''p'', lr_protocol = ''anthropic'', lr_real_model = i, lr_label = i,
     lr_icon_type = [], lr_icon_slug = [], lr_icon_url = [], lr_enabled = True, lr_visible = True, lr_is_default = True,
     lr_sort_order = 0, lr_embedding_dimension = 0, lr_reasoning_efforts = [], lr_server_web_tools_enabled = False,
     lr_created_at = 1, lr_updated_at = 1\<rparr>"

text \<open>Two default routes are created; only the second is the default then.\<close>

definition catalog0 :: admin_memory where
  "catalog0 = admin_exec (Catalog (CreateProvider sample_provider)) new_admin_memory"

definition catalog1 :: admin_memory where "catalog1 = admin_exec (Catalog (CreateRoute (sample_route ''a''))) catalog0"
definition catalog2 :: admin_memory where "catalog2 = admin_exec (Catalog (CreateRoute (sample_route ''b''))) catalog1"

lemma catalog2_reach: "admin_reach catalog2"
proof -
  have 0: "admin_reach catalog0" unfolding catalog0_def by (rule admin_step[OF admin_new]) simp
  have 1: "admin_reach catalog1" unfolding catalog1_def by (rule admin_step[OF 0]) simp
  show ?thesis unfolding catalog2_def by (rule admin_step[OF 1]) simp
qed

lemma catalog0_maps: "am_llm_providers catalog0 = mput mnil ''p'' sample_provider" "am_llm_models catalog0 = mnil"
  by (simp_all add: catalog0_def create_llm_provider_def put_provider_def new_admin_memory_def) (simp add: sample_provider_def)

lemma sample_route_fields [simp]:
  "lr_id (sample_route i) = i" "lr_alias (sample_route i) = i" "lr_provider_id (sample_route i) = ''p''"
  "lr_protocol (sample_route i) = ''anthropic''" "lr_is_default (sample_route i)"
  by (simp_all add: sample_route_def)

lemma catalog1_maps:
  "am_llm_providers catalog1 = mput mnil ''p'' sample_provider" "mitems (am_llm_models catalog1) = [(''a'', sample_route ''a'')]"
  by (simp_all add: catalog1_def create_llm_model_route_def catalog0_maps put_route_def clear_defaults_def gm.get_put
      mitems_put mitems_mmap)

lemma catalog2_maps: "mget (am_llm_models catalog2) ''b'' = Some (sample_route ''b'')"
proof -
  have a: "mget (am_llm_models catalog1) ''b'' = None" by (simp add: DAList.lookup.rep_eq catalog1_maps)
  have "\<not> list_ex (\<lambda>e. lr_provider_id e = ''p'' \<and> lr_alias e = ''b'') (mvals (am_llm_models catalog1))"
    by (simp add: catalog1_maps)
  with a show ?thesis by (simp add: catalog2_def create_llm_model_route_def catalog1_maps put_route_def gm.get_put)
qed

lemma catalog_consistent_witness:
  "{k. \<exists>r. mget (am_llm_models catalog2) k = Some r \<and> lr_is_default r \<and> lr_protocol r = ''anthropic''} = {''b''}"
proof -
  have "k = ''b''" if "mget (am_llm_models catalog2) k = Some r" "lr_is_default r" "lr_protocol r = ''anthropic''" for k r
    by (rule conjunct1[OF conjunct2[OF conjunct2[OF catalog_consistent[OF catalog2_reach]]], rule_format, OF that(1) catalog2_maps that(2)])
      (simp_all add: that)
  moreover have "\<exists>r. mget (am_llm_models catalog2) ''b'' = Some r \<and> lr_is_default r \<and> lr_protocol r = ''anthropic''"
    using catalog2_maps by simp
  ultimately show ?thesis by blast
qed

text \<open>
  The user memory is on only outside a reset and with a complete index lock, and an initialized
  index lock changes in no call but the one that completes a reset.
\<close>

theorem memory_index_fixed:
  assumes "admin_reach m" "admin_call_ok c m"
  shows "(mg_enabled (am_memory_config m) \<longrightarrow> \<not> mg_resetting (am_memory_config m) \<and>
      \<not> lock_incomplete (am_memory_config m) (am_memory_index_lock m)) \<and>
    (ml_dimension (am_memory_index_lock m) \<noteq> 0 \<longrightarrow> c \<noteq> Catalog CompleteReset \<longrightarrow>
      am_memory_index_lock (admin_exec c m) = am_memory_index_lock m)"
proof (intro conjI impI)
  show "mg_enabled (am_memory_config m) \<Longrightarrow> \<not> mg_resetting (am_memory_config m)"
    "mg_enabled (am_memory_config m) \<Longrightarrow> \<not> lock_incomplete (am_memory_config m) (am_memory_index_lock m)"
    using admin_reachD(5)[OF assms(1)] unfolding memory_ok_def by blast+
  assume dim: "ml_dimension (am_memory_index_lock m) \<noteq> 0" and c: "c \<noteq> Catalog CompleteReset"
  have same: "am_memory_index_lock n = am_memory_index_lock m" if "catalog_part n = catalog_part m" for n
    using that by (simp add: catalog_part_def)
  show "am_memory_index_lock (admin_exec c m) = am_memory_index_lock m"
  proof (cases c)
    case (Account a) then show ?thesis using same[OF account_frame(1)[of a m]] by simp
  next
    case (Catalog a)
    with c dim show ?thesis
      by (cases a) (simp_all add: skill_defs mcp_defs prompt_defs model_defs switch_defs Let_def split: option.split)
  next
    case (Task a) then show ?thesis using same[OF conjunct2[OF task_frame[of a m]]] by simp
  next
    case (Trace a) then show ?thesis using same[of "trace_exec a m"] trace_frame[of a m] by simp
  qed
qed

definition sample_lock :: memory_index_lock where
  "sample_lock = \<lparr>ml_route_id = ''e'', ml_provider_id = ''p'', ml_model = ''e'', ml_base_url = ''b'', ml_dimension = 8\<rparr>"

definition memory0 :: admin_memory where
  "memory0 = admin_exec (Catalog (UpdateMemory (memory_config_zero\<lparr>mg_enabled := True, mg_embedding_model_route_id := ''e''\<rparr>) 0
     sample_lock)) new_admin_memory"

lemma memory0_reach: "admin_reach memory0"
  unfolding memory0_def by (rule admin_step[OF admin_new]) (simp add: memory_config_zero_def)

lemma memory0_lock: "am_memory_index_lock memory0 = sample_lock" "mg_enabled (am_memory_config memory0)"
proof -
  have [simp]: "trim_space ''e'' = ''e''" "trim_space ''p'' = ''p''" "trim_space ''b'' = ''b''" by code_simp+
  show "am_memory_index_lock memory0 = sample_lock" "mg_enabled (am_memory_config memory0)"
    by (simp_all add: memory0_def update_memory_config_def new_admin_memory_def memory_config_zero_def memory_index_lock_zero_def
        lock_incomplete_def sample_lock_def Let_def)
qed

lemma memory_index_fixed_witness:
  "am_memory_index_lock (admin_exec (Catalog (BeginReset ''root'' 5)) memory0) = sample_lock \<and>
   \<not> mg_resetting (am_memory_config memory0)"
  using memory_index_fixed[OF memory0_reach, of "Catalog (BeginReset ''root'' 5)"] memory0_lock
  by (simp del: admin_exec.simps add: sample_lock_def)

section \<open>Scheduled tasks\<close>

text \<open>
  C16. In every reachable store attachments and runs belong to a task, events to a run, and a task has at
  most one run that is queued or running.
\<close>

theorem one_run_per_task:
  assumes "admin_reach m"
  shows "(\<forall>j k r s. mget (am_runs m) j = Some r \<longrightarrow> mget (am_runs m) k = Some s \<longrightarrow> run_live r \<longrightarrow> run_live s \<longrightarrow>
      tr_task_id r = tr_task_id s \<longrightarrow> j = k) \<and>
    (\<forall>k r. mget (am_runs m) k = Some r \<longrightarrow> mget (am_tasks m) (tr_task_id r) \<noteq> None) \<and>
    (\<forall>k a. mget (am_attachments m) k = Some a \<longrightarrow> mget (am_tasks m) (ta_task_id a) \<noteq> None) \<and>
    (\<forall>k es. mget (am_run_events m) k = Some es \<longrightarrow> mget (am_runs m) k \<noteq> None)"
proof (intro conjI)
  note ok = tasks_okD(2-5)[OF admin_reachD(6)[OF assms]]
  show "\<forall>j k r s. mget (am_runs m) j = Some r \<longrightarrow> mget (am_runs m) k = Some s \<longrightarrow> run_live r \<longrightarrow> run_live s \<longrightarrow>
      tr_task_id r = tr_task_id s \<longrightarrow> j = k"
    using ok(4) unfolding lone_runs_def .
  show "\<forall>k r. mget (am_runs m) k = Some r \<longrightarrow> mget (am_tasks m) (tr_task_id r) \<noteq> None"
    using ok(2) unfolding pointing_def by blast
  show "\<forall>k a. mget (am_attachments m) k = Some a \<longrightarrow> mget (am_tasks m) (ta_task_id a) \<noteq> None"
    using ok(1) unfolding pointing_def by blast
  show "\<forall>k es. mget (am_run_events m) k = Some es \<longrightarrow> mget (am_runs m) k \<noteq> None"
    using ok(3) unfolding events_ok_def by blast
qed

lemma one_run_per_task_witness:
  "{k. \<exists>r. mget (am_runs admin2) k = Some r \<and> run_live r \<and> tr_task_id r = ''t''} = {''r''} \<and>
   mget (am_tasks admin2) ''t'' \<noteq> None"
proof -
  note all = one_run_per_task[OF admin_samples_reach(3)]
  have r: "mget (am_runs admin2) ''r'' = Some (sample_run ''r'' 20)" by (simp add: admin2_maps)
  have live: "run_live (sample_run ''r'' 20)" "tr_task_id (sample_run ''r'' 20) = ''t''" by (simp_all add: run_live_def sample_run_def)
  have "k = ''r''" if "mget (am_runs admin2) k = Some s" "run_live s" "tr_task_id s = ''t''" for k s
    by (rule conjunct1[OF all, rule_format, OF that(1) r that(2) live(1)]) (simp add: that live)
  moreover have "\<exists>s. mget (am_runs admin2) ''r'' = Some s \<and> run_live s \<and> tr_task_id s = ''t''" using r live by blast
  moreover have "mget (am_tasks admin2) (tr_task_id (sample_run ''r'' 20)) \<noteq> None"
    using conjunct1[OF conjunct2[OF all]] r by blast
  ultimately show ?thesis unfolding live(2) by blast
qed

definition claimable :: "string \<Rightarrow> gtime \<Rightarrow> admin_memory \<Rightarrow> bool" where
  "claimable tid now m \<longleftrightarrow> (\<exists>t. mget (am_tasks m) tid = Some t \<and> task_due now t) \<and>
     \<not> (\<exists>k e. mget (am_runs m) k = Some e \<and> tr_task_id e = tid \<and> run_live e)"

lemma live_run_blocks:
  assumes "mget (am_runs m) k = Some e" "tr_task_id e = tid" "run_live e" "mget (am_tasks m) tid = Some t"
  shows "try_start_task_run tid s u m = (Inr None, m)"
proof -
  have "\<exists>x \<in> set (mvals (am_runs m)). tr_task_id x = tid \<and> run_live x" using assms unfolding mvals_ex by blast
  then have "list_ex (\<lambda>e. tr_task_id e = tid \<and> run_live e) (mvals (am_runs m))" unfolding list_ex_iff .
  with assms(4) show ?thesis by (cases "task_due (tr_scheduled_for s) t") (simp_all add: try_start_task_run_def)
qed

text \<open>
  TryStartScheduledTaskRun claims a task exactly when the task is due at the run's instant and has no
  live run; then the run is stored as given, the task waits for its next instant, and no second run can be
  claimed as long as nothing else happens. Otherwise nothing changes.
\<close>

theorem claim_once:
  assumes "admin_reach m" "tr_task_id r = tid" "run_live r" "mget (am_runs m) (tr_id r) = None"
  shows "case try_start_task_run tid r next m of
      (Inr (Some t), m') \<Rightarrow> claimable tid (tr_scheduled_for r) m \<and> mget (am_runs m') (tr_id r) = Some r \<and>
        mget (am_tasks m') tid = Some t \<and> st_next_run_at t = next \<and> (\<forall>s u. try_start_task_run tid s u m' = (Inr None, m'))
    | (_, m') \<Rightarrow> \<not> claimable tid (tr_scheduled_for r) m \<and> m' = m"
proof (cases "try_start_task_run tid r next m")
  case (Pair res m')
  from Pair show ?thesis
  proof (cases rule: try_start_cases)
    case 1
    then show ?thesis by (simp add: Pair claimable_def)
  next
    case (2 t)
    then have "\<not> claimable tid (tr_scheduled_for r) m" unfolding claimable_def by auto
    with 2 show ?thesis by (simp add: Pair)
  next
    case 3
    with assms(4) show ?thesis by simp
  next
    case (4 t)
    then have free: "claimable tid (tr_scheduled_for r) m" unfolding claimable_def by blast
    have run: "mget (am_runs m') (tr_id r) = Some r" by (simp add: 4(6) gm.get_put)
    have task: "mget (am_tasks m') tid = Some (clone_task (claim_task r next t))" by (simp add: 4(6) gm.get_put)
    have "try_start_task_run tid s u m' = (Inr None, m')" for s u
      by (rule live_run_blocks[OF run assms(2,3) task])
    with free run task show ?thesis by (simp add: Pair 4(5))
  qed
qed

lemma claim_once_witness:
  "try_start_task_run ''t'' (sample_run ''q'' 21) 200 admin2 = (Inr None, admin2) \<and> claimable ''t'' 20 admin1"
proof -
  have r: "tr_task_id (sample_run ''r'' 20) = ''t''" "run_live (sample_run ''r'' 20)" "tr_scheduled_for (sample_run ''r'' 20) = 20"
    by (simp_all add: sample_run_def run_live_def)
  have "\<exists>t. try_start_task_run ''t'' (sample_run ''r'' 20) 100 admin1 = (Inr (Some t), admin2)"
    using admin1_maps(1)[of "''t''"] by (simp add: admin2_def try_start_task_run_def admin1_runs admin1_maps Let_def del: map_is_Nil_conv)
      (simp add: sample_run_def sample_task_def task_due_def)
  then obtain t where t: "try_start_task_run ''t'' (sample_run ''r'' 20) 100 admin1 = (Inr (Some t), admin2)" by blast
  from claim_once[OF admin_samples_reach(2) r(1,2) admin1_maps(2), of 100] show ?thesis unfolding t r(3) by simp
qed

lemma expire_stale_eq:
  assumes ok: "tasks_ok m" and limit: "limit \<le> 0"
  shows "\<exists>done m'. expire_stale_task_runs before now err limit m = (Inr done, m') \<and>
    set done = expire_run now err ` {r. \<exists>k. mget (am_runs m) k = Some r \<and> run_stale before r} \<and>
    (\<forall>k. mget (am_runs m') k = map_option (\<lambda>r. if run_stale before r then expire_run now err r else r) (mget (am_runs m) k))"
proof -
  define rs where "rs = sort_key tr_updated_at (filter (run_stale before) (mvals (am_runs m)))"
  have rs: "set rs = {r. \<exists>k. mget (am_runs m) k = Some r \<and> run_stale before r}"
    unfolding rs_def using mvals_iff[of _ "am_runs m"] by auto
  have lim: "limited limit rs = rs" using limit by (simp add: limited_def)
  have all: "mget (am_tasks m) (tr_task_id r) \<noteq> None" if "r \<in> set rs" for r
    using that task_of_run(2)[OF ok] unfolding rs by blast
  note e = expire_runs_all[OF ok, of rs now err "[]", OF all]
  have "mget (am_runs (snd (expire_runs now err rs [] m))) k =
      map_option (\<lambda>r. if run_stale before r then expire_run now err r else r) (mget (am_runs m) k)" for k
  proof (cases "find (\<lambda>r. tr_id r = k) (rev rs)")
    case None
    have "\<not> run_stale before r" if "mget (am_runs m) k = Some r" for r
      using None that task_of_run(1)[OF ok that] rs unfolding find_None_iff by auto
    with None e show ?thesis by (cases "mget (am_runs m) k") simp_all
  next
    case (Some r)
    then have "tr_id r = k" "r \<in> set rs" unfolding find_Some_iff by (auto simp: rev_nth)
    with rs obtain j where "mget (am_runs m) j = Some r" "run_stale before r" by blast
    with task_of_run(1)[OF ok] \<open>tr_id r = k\<close> have "mget (am_runs m) k = Some r" "run_stale before r" by auto
    with Some e show ?thesis by simp
  qed
  moreover have "fst (expire_runs now err rs [] m) = Inr (map (expire_run now err) rs)" using e by simp
  ultimately show ?thesis unfolding expire_stale_task_runs_def rs_def[symmetric] lim
    by (intro exI[of _ "map (expire_run now err) rs"] exI[of _ "snd (expire_runs now err rs [] m)"])
      (simp add: prod_eq_iff rs)
qed

text \<open>
  ExpireStaleScheduledTaskRuns without a limit never fails: it returns the runs it ended, each of
  them is stored as failed, no run that was stale before lives on, other runs are as they were, and a due
  task whose only live run was stale can be claimed again.
\<close>

theorem stale_runs_released:
  assumes "admin_reach m" "limit \<le> 0"
  shows "\<exists>done m'. expire_stale_task_runs before now err limit m = (Inr done, m') \<and>
    set done = expire_run now err ` {r. \<exists>k. mget (am_runs m) k = Some r \<and> run_stale before r} \<and>
    (\<forall>k. mget (am_runs m') k = map_option (\<lambda>r. if run_stale before r then expire_run now err r else r) (mget (am_runs m) k)) \<and>
    (\<forall>tid t u. mget (am_tasks m') tid = Some t \<longrightarrow> task_due u t \<longrightarrow>
      (\<forall>k r. mget (am_runs m) k = Some r \<longrightarrow> tr_task_id r = tid \<longrightarrow> run_live r \<longrightarrow> run_stale before r) \<longrightarrow> claimable tid u m')"
proof -
  from expire_stale_eq[OF admin_reachD(6)[OF assms(1)] assms(2)] obtain ended m'
    where *: "expire_stale_task_runs before now err limit m = (Inr ended, m')"
      "set ended = expire_run now err ` {r. \<exists>k. mget (am_runs m) k = Some r \<and> run_stale before r}"
      "\<And>k. mget (am_runs m') k = map_option (\<lambda>r. if run_stale before r then expire_run now err r else r) (mget (am_runs m) k)"
    by blast
  have "claimable tid u m'" if "mget (am_tasks m') tid = Some t" "task_due u t"
    and stale: "\<And>k r. mget (am_runs m) k = Some r \<Longrightarrow> tr_task_id r = tid \<Longrightarrow> run_live r \<Longrightarrow> run_stale before r" for tid t u
  proof -
    have False if e: "mget (am_runs m') k = Some e" "tr_task_id e = tid" "run_live e" for k e
    proof -
      from e(1) obtain r where r: "mget (am_runs m) k = Some r" "e = (if run_stale before r then expire_run now err r else r)"
        unfolding *(3) by auto
      show False
      proof (cases "run_stale before r")
        case True
        with r(2) e(3) show ?thesis by simp
      next
        case False
        with r(2) have "e = r" by simp
        with stale[OF r(1)] e(2,3) False show ?thesis by simp
      qed
    qed
    with that(1,2) show ?thesis unfolding claimable_def by blast
  qed
  with * show ?thesis by blast
qed

lemma admin2_items: "mitems (am_runs admin2) = [(''r'', sample_run ''r'' 20)]"
  using admin1_runs by (simp add: admin2_eq mitems_put) (simp add: sample_run_def)

lemma stale_runs_released_witness:
  "run_stale 50 (sample_run ''r'' 20) \<and> fst (expire_stale_task_runs 50 60 ''lost'' 0 admin2) = Inr [expire_run 60 ''lost'' (sample_run ''r'' 20)] \<and>
   mget (am_runs (snd (expire_stale_task_runs 50 60 ''lost'' 0 admin2))) ''r'' = Some (expire_run 60 ''lost'' (sample_run ''r'' 20))"
proof -
  have stale: "run_stale 50 (sample_run ''r'' 20)" by (simp add: run_stale_def sample_run_def)
  from stale_runs_released[OF admin_samples_reach(3), of 0 50 60 "''lost''"] obtain ended m' where *:
    "expire_stale_task_runs 50 60 ''lost'' 0 admin2 = (Inr ended, m')"
    "mget (am_runs m') ''r'' = map_option (\<lambda>r. if run_stale 50 r then expire_run 60 ''lost'' r else r) (mget (am_runs admin2) ''r'')"
    by auto
  have "ended = [expire_run 60 ''lost'' (sample_run ''r'' 20)]"
    using *(1) stale by (simp add: expire_stale_task_runs_def admin2_items limited_def Let_def split: option.splits)
  with * stale show ?thesis by (simp add: admin2_maps)
qed

text \<open>
  Deleting a task by its owner removes the task with its attachments, its runs and their events, and
  nothing else; anybody else gets the error of a missing task and changes nothing.
\<close>

theorem delete_task_cascades:
  "case mget (am_tasks m) i of
     Some t \<Rightarrow> (if st_owner_user_id t \<noteq> owner then delete_scheduled_task_for_owner i owner m = (Inl StoreNotFound, m)
       else fst (delete_scheduled_task_for_owner i owner m) = Inr () \<and>
         (\<forall>k. mget (am_tasks (snd (delete_scheduled_task_for_owner i owner m))) k = (if k = i then None else mget (am_tasks m) k)) \<and>
         (\<forall>k. mget (am_attachments (snd (delete_scheduled_task_for_owner i owner m))) k =
            (case mget (am_attachments m) k of None \<Rightarrow> None | Some a \<Rightarrow> if ta_task_id a = i then None else Some a)) \<and>
         (\<forall>k. mget (am_runs (snd (delete_scheduled_task_for_owner i owner m))) k =
            (case mget (am_runs m) k of None \<Rightarrow> None | Some r \<Rightarrow> if tr_task_id r = i then None else Some r)) \<and>
         (\<forall>k. mget (am_run_events (snd (delete_scheduled_task_for_owner i owner m))) k =
            (if \<exists>r. mget (am_runs m) k = Some r \<and> tr_task_id r = i then None else mget (am_run_events m) k)))
   | None \<Rightarrow> delete_scheduled_task_for_owner i owner m = (Inl StoreNotFound, m)"
proof (cases "mget (am_tasks m) i")
  case (Some t)
  show ?thesis
  proof (cases "st_owner_user_id t = owner")
    case True
    with Some have eq: "delete_scheduled_task_for_owner i owner m = (Inr (), remove_task i m)"
      by (simp add: delete_scheduled_task_for_owner_def)
    have "mget (DAList.filter (\<lambda>(_, a). ta_task_id a \<noteq> i) (am_attachments m)) k =
        (case mget (am_attachments m) k of None \<Rightarrow> None | Some a \<Rightarrow> if ta_task_id a = i then None else Some a)" for k
      by (simp add: mget_filter split: option.split)
    with Some True show ?thesis unfolding eq by (simp add: remove_task_maps(1,2) gm.get_del)
      (auto simp: remove_task_maps(3,4))
  qed (use Some in \<open>simp add: delete_scheduled_task_for_owner_def\<close>)
qed (simp add: delete_scheduled_task_for_owner_def)

text \<open>
  Finishing a run does not look at the state of the run: one that was already ended, for instance
  because its worker's heartbeats came too late, is overwritten with the worker's result, and its task counts it
  a second time.
\<close>

theorem finish_not_guarded:
  assumes "admin_reach m" "mget (am_runs m) (tr_id r) = Some ended" "\<not> run_live ended" "tr_task_id r = tr_task_id ended"
  shows "\<exists>t u m'. mget (am_tasks m) (tr_task_id r) = Some t \<and> update_task_run r next True m = (Inr (), m') \<and>
    mget (am_runs m') (tr_id r) = Some r \<and> mget (am_tasks m') (tr_task_id r) = Some u \<and>
    st_run_count u = int64 (st_run_count t + 1) \<and> st_last_status u = tr_status r"
proof -
  note ok = admin_reachD(6)[OF assms(1)]
  from task_of_run(2)[OF ok assms(2)] assms(4) obtain t where t: "mget (am_tasks m) (tr_task_id r) = Some t" by auto
  have id: "st_id t = tr_task_id r" by (rule tasks_okD(1)[OF ok t])
  let ?m = "put_task (st_id t) (finish_task r next t) (put_task_run r m)"
  have "update_task_run r next True m = (Inr (), ?m)" using assms(2) t by (simp add: update_task_run_def Let_def)
  moreover have "mget (am_runs ?m) (tr_id r) = Some r" by (simp add: gm.get_put)
  moreover have "mget (am_tasks ?m) (tr_task_id r) = Some (clone_task (finish_task r next t))" by (simp add: gm.get_put id)
  moreover have "st_run_count (clone_task (finish_task r next t)) = int64 (st_run_count t + 1)"
    "st_last_status (clone_task (finish_task r next t)) = tr_status r" by simp_all
  ultimately show ?thesis using t by blast
qed

text \<open>The sample run is expired, then its worker reports success: one run, counted twice.\<close>

definition admin3 :: admin_memory where "admin3 = admin_exec (Task (ExpireStale 50 60 ''lost'' 0)) admin2"

definition finished_run :: task_run where
  "finished_run = (sample_run ''r'' 20)\<lparr>tr_status := ''success'', tr_finished_at := 70, tr_updated_at := 70\<rparr>"

lemma admin3_reach: "admin_reach admin3"
  unfolding admin3_def by (rule admin_step[OF admin_samples_reach(3)]) simp

lemma admin3_maps:
  "mget (am_runs admin3) ''r'' = Some (expire_run 60 ''lost'' (sample_run ''r'' 20))"
  "\<exists>t. mget (am_tasks admin3) ''t'' = Some t \<and> st_run_count t = 1 \<and> st_last_status t = ''error''"
proof -
  have stale: "run_stale 50 (sample_run ''r'' 20)" by (simp add: run_stale_def sample_run_def)
  have task: "tr_task_id (sample_run ''r'' 20) = ''t''" "tr_id (sample_run ''r'' 20) = ''r''" by (simp_all add: sample_run_def)
  let ?u = "(claim_task (sample_run ''r'' 20) 100 sample_task)\<lparr>st_last_run_at := 60, st_last_status := ''error'', st_last_error := ''lost'', st_updated_at := 60\<rparr>"
  have id: "st_id sample_task = ''t''" by (simp add: sample_task_def)
  have eq: "admin3 = put_task ''t'' (count_run (settle_task_status ?u)) (put_task_run (expire_run 60 ''lost'' (sample_run ''r'' 20)) admin2)"
    by (simp add: admin3_def expire_stale_task_runs_def admin2_items limited_def stale admin2_maps task id Let_def)
      (simp add: expire_run_def)
  show "mget (am_runs admin3) ''r'' = Some (expire_run 60 ''lost'' (sample_run ''r'' 20))" by (simp add: eq gm.get_put task)
  have "st_run_count sample_task = 0" by (simp add: sample_task_def)
  then show "\<exists>t. mget (am_tasks admin3) ''t'' = Some t \<and> st_run_count t = 1 \<and> st_last_status t = ''error''"
    by (simp add: eq gm.get_put int64_def)
qed

lemma finish_not_guarded_witness:
  "\<exists>u. mget (am_tasks (snd (update_task_run finished_run 300 True admin3))) ''t'' = Some u \<and> st_run_count u = 2 \<and>
    st_last_status u = ''success''"
proof -
  have f: "tr_id finished_run = ''r''" "tr_task_id finished_run = ''t''" "tr_status finished_run = ''success''"
    "tr_task_id finished_run = tr_task_id (expire_run 60 ''lost'' (sample_run ''r'' 20))"
    by (simp_all add: finished_run_def sample_run_def)
  have "mget (am_runs admin3) (tr_id finished_run) = Some (expire_run 60 ''lost'' (sample_run ''r'' 20))"
    unfolding f(1) by (rule admin3_maps(1))
  from finish_not_guarded[OF admin3_reach this expire_run_keeps(3) f(4), of 300] admin3_maps(2)
  show ?thesis unfolding f(2,3) by (auto simp: int64_def)
qed

end
