(* ===== verification/Go_Time.thy ===== *)
theory Go_Time
  imports Go_Strings "HOL-Library.Monad_Syntax"
begin

text \<open>
  The parts of Go's \<open>time\<close> package that the scheduler calls: the proleptic Gregorian calendar, \<open>time.Date\<close>
  with its normalisation and its choice of the zone offset, the wall-clock fields of an instant in a
  location, and \<open>time.Parse(time.RFC3339, s)\<close>. Seconds are counted from Go's zero instant, 1 January of
  year 1, a Monday. The time-zone database is not code: a location is a function that gives, for each
  second, the offset in force and the span in which it holds.
\<close>

section \<open>The calendar\<close>

definition leap :: "int \<Rightarrow> bool" where
  "leap y \<longleftrightarrow> y mod 4 = 0 \<and> (y mod 100 \<noteq> 0 \<or> y mod 400 = 0)"

definition year_start :: "int \<Rightarrow> int" where
  "year_start y = 365 * (y - 1) + (y - 1) div 4 - (y - 1) div 100 + (y - 1) div 400"

definition month_lengths :: "bool \<Rightarrow> int list" where
  "month_lengths l = [31, if l then 29 else 28, 31, 30, 31, 30, 31, 31, 30, 31, 30, 31]"

definition days_in :: "int \<Rightarrow> int \<Rightarrow> int" where
  "days_in y mo = month_lengths (leap y) ! nat (mo - 1)"

text \<open>The first day of a month counted from January of year 0, so that a month past December needs no care.\<close>

definition month_start :: "int \<Rightarrow> int" where
  "month_start k = year_start (k div 12) + sum_list (take (nat (k mod 12)) (month_lengths (leap (k div 12))))"

definition month_size :: "int \<Rightarrow> int" where
  "month_size k = days_in (k div 12) (k mod 12 + 1)"

definition month_no :: "int \<Rightarrow> int \<Rightarrow> int" where
  "month_no y mo = 12 * y + (mo - 1)"

text \<open>The day number of \<open>time.Date(y, mo, d, ...)\<close>: month and day may lie outside their ranges.\<close>

definition day_no :: "int \<Rightarrow> int \<Rightarrow> int \<Rightarrow> int" where
  "day_no y mo d = month_start (month_no y mo) + (d - 1)"

text \<open>The year of a day: whole blocks of 400, 100, 4 and 1 years.\<close>

definition year_of :: "int \<Rightarrow> int" where
  "year_of n = (let r = n mod 146097; c = min 3 (r div 36524); r1 = r - 36524 * c; q = r1 div 1461;
     r2 = r1 mod 1461; a = min 3 (r2 div 365) in 400 * (n div 146097) + 100 * c + 4 * q + a + 1)"

primrec find_month :: "int list \<Rightarrow> int \<Rightarrow> int \<Rightarrow> int \<times> int" where
  "find_month [] mo d = (mo, d)"
| "find_month (l # ls) mo d = (if d \<le> l then (mo, d) else find_month ls (mo + 1) (d - l))"

text \<open>Year, month and day of the month of a day number.\<close>

definition civil :: "int \<Rightarrow> int \<times> int \<times> int" where
  "civil n = (let y = year_of n; (mo, d) = find_month (month_lengths (leap y)) 1 (n - year_start y + 1) in (y, mo, d))"

lemma int_div_mod_unique:
  fixes a b q r :: int
  assumes "a = b * q + r" "0 \<le> r" "r < b"
  shows "a div b = q" "a mod b = r"
  using assms by (simp_all add: int_div_pos_eq int_mod_pos_eq)

lemma div_pred:
  fixes k y :: int
  assumes "0 < k"
  shows "y div k = (y - 1) div k + (if y mod k = 0 then 1 else 0)"
proof (cases "y mod k = 0")
  case True
  have "y - 1 = k * (y div k - 1) + (k - 1)" using True div_mult_mod_eq[of y k] by (simp add: algebra_simps)
  from int_div_mod_unique(1)[OF this] assms True show ?thesis by simp
next
  case False
  have "y - 1 = k * (y div k) + (y mod k - 1)" using div_mult_mod_eq[of y k] by (simp add: algebra_simps)
  moreover have "0 \<le> y mod k - 1" "y mod k - 1 < k" using False assms pos_mod_sign[of k y] pos_mod_bound[of k y] by linarith+
  ultimately have "(y - 1) div k = y div k" by (rule int_div_mod_unique(1))
  with False show ?thesis by simp
qed

lemma year_start_step: "year_start (y + 1) = year_start y + (if leap y then 366 else 365)"
proof -
  have m: "y mod 400 = 0 \<Longrightarrow> y mod 100 = 0" "y mod 100 = 0 \<Longrightarrow> y mod 4 = 0"
    using mod_mod_cancel[of 100 400 y] mod_mod_cancel[of 4 100 y] by simp_all
  have d: "y div 4 = (y - 1) div 4 + (if y mod 4 = 0 then 1 else 0)"
    "y div 100 = (y - 1) div 100 + (if y mod 100 = 0 then 1 else 0)"
    "y div 400 = (y - 1) div 400 + (if y mod 400 = 0 then 1 else 0)" by (rule div_pred, simp)+
  have s: "year_start (y + 1) = 365 * y + y div 4 - y div 100 + y div 400" by (simp add: year_start_def)
  have add: "365 * y + (a + p) - (b + q) + (c + r) = 365 * (y - 1) + a - b + c + (365 + p - q + r)" for a b c p q r by simp
  have "365 + (if y mod 4 = 0 then 1 else 0) - (if y mod 100 = 0 then 1 else 0) + (if y mod 400 = 0 then 1 else 0) =
      (if leap y then 366 else (365::int))"
    unfolding leap_def using m by (cases "y mod 4 = 0"; cases "y mod 100 = 0"; cases "y mod 400 = 0") simp_all
  then show ?thesis unfolding s d add by (simp only: year_start_def)
qed

lemma month_sum: "sum_list (month_lengths l) = (if l then 366 else 365)"
  by (simp add: month_lengths_def)

lemma twelve_cases:
  fixes r :: int
  assumes "0 \<le> r" "r < 12"
  obtains "r = 0" | "r = 1" | "r = 2" | "r = 3" | "r = 4" | "r = 5" | "r = 6" | "r = 7" | "r = 8" | "r = 9" | "r = 10" | "r = 11"
  using assms by (smt (verit, best))

lemma month_no_parts:
  assumes "1 \<le> mo" "mo \<le> 12"
  shows "month_no y mo div 12 = y" "month_no y mo mod 12 = mo - 1"
  unfolding month_no_def by (rule int_div_mod_unique[of _ _ _ "mo - 1"]; use assms in simp)+

lemma month_size_no: "1 \<le> mo \<Longrightarrow> mo \<le> 12 \<Longrightarrow> month_size (month_no y mo) = days_in y mo"
  by (simp add: month_size_def month_no_parts)

lemma month_start_step: "month_start (k + 1) = month_start k + month_size k"
proof (cases "k mod 12 = 11")
  case True
  then have "k + 1 = 12 * (k div 12 + 1) + 0" using mult_div_mod_eq[of 12 k] by simp
  then have k: "(k + 1) div 12 = k div 12 + 1" "(k + 1) mod 12 = 0" by (rule int_div_mod_unique; simp)+
  show ?thesis unfolding month_start_def month_size_def days_in_def k True
    by (simp add: year_start_step month_lengths_def)
next
  case False
  define r where "r = nat (k mod 12)"
  have r: "k mod 12 = int r" "r < 11" using False pos_mod_bound[of 12 k] by (simp_all add: r_def nat_less_iff)
  then have "k + 1 = 12 * (k div 12) + int (Suc r)" using mult_div_mod_eq[of 12 k] by simp
  then have k: "(k + 1) div 12 = k div 12" "(k + 1) mod 12 = int (Suc r)" by (rule int_div_mod_unique; use r(2) in simp)+
  have "r < length (month_lengths (leap (k div 12)))" using r(2) by (simp add: month_lengths_def)
  then show ?thesis unfolding month_start_def month_size_def days_in_def k r(1)
    by (simp add: take_Suc_conv_app_nth nat_add_distrib)
qed

lemma month_size_bounds: "28 \<le> month_size k \<and> month_size k \<le> 31"
proof -
  have "0 \<le> k mod 12" "k mod 12 < 12" by simp_all
  then show ?thesis
    by (cases rule: twelve_cases) (simp_all add: month_size_def days_in_def month_lengths_def eval_nat_numeral)
qed

lemma month_start_mono: "j \<le> k \<Longrightarrow> month_start j + 28 * (k - j) \<le> month_start k"
proof (induction k rule: int_ge_induct)
  case (step k)
  then show ?case using month_start_step[of k] month_size_bounds[of k] by (simp add: algebra_simps)
qed simp

text \<open>The calendar date of a day number is a date in range, and its day number is the day.\<close>

lemma year_of_bounds: "year_start (year_of n) \<le> n \<and> n < year_start (year_of n + 1)"
proof -
  define k where "k = n div 146097"
  define r where "r = n mod 146097"
  define c where "c = min 3 (r div 36524)"
  define r1 where "r1 = r - 36524 * c"
  define q where "q = r1 div 1461"
  define r2 where "r2 = r1 mod 1461"
  define a where "a = min 3 (r2 div 365)"
  have n: "n = 146097 * k + r" "0 \<le> r" "r < 146097" unfolding k_def r_def by simp_all
  have c: "0 \<le> c" "c \<le> 3" "0 \<le> r1" "r1 < 36524 \<or> (c = 3 \<and> r1 < 36525)"
    using n div_mult_mod_eq[of r 36524] pos_mod_sign[of 36524 r] pos_mod_bound[of 36524 r] unfolding c_def r1_def by linarith+
  have q: "r1 = 1461 * q + r2" "0 \<le> r2" "r2 < 1461" "0 \<le> q" "q \<le> 24" 
    using c div_mult_mod_eq[of r1 1461] unfolding q_def r2_def by auto
  define e where "e = r2 div 365"
  define f where "f = r2 mod 365"
  have e: "r2 = 365 * e + f" "0 \<le> f" "f < 365" "e = r2 div 365" unfolding e_def f_def by simp_all
  then have a: "0 \<le> a" "a \<le> 3" "365 * a \<le> r2" "a < 3 \<Longrightarrow> r2 < 365 * a + 365"
    using q(2) unfolding a_def e(4)[symmetric] by (auto simp: min_def)
  have y: "year_of n = 400 * k + 100 * c + 4 * q + a + 1"
    unfolding year_of_def Let_def a_def r2_def q_def r1_def c_def r_def k_def ..
  have start: "year_start (400 * k + 100 * c + 4 * q + b + 1) = 146097 * k + 36524 * c + 1461 * q + 365 * b"
    if "0 \<le> b" "b \<le> 3" for b
  proof -
    have "(400 * k + 100 * c + 4 * q + b) div 4 = 100 * k + 25 * c + q"
      by (rule int_div_mod_unique(1)[where r = b]) (use that in simp_all)
    moreover have "(400 * k + 100 * c + 4 * q + b) div 100 = 4 * k + c"
      by (rule int_div_mod_unique(1)[where r = "4 * q + b"]) (use that q in simp_all)
    moreover have "(400 * k + 100 * c + 4 * q + b) div 400 = k"
      by (rule int_div_mod_unique(1)[where r = "100 * c + 4 * q + b"]) (use that q c in simp_all)
    ultimately show ?thesis by (simp add: year_start_def)
  qed
  have leap: "leap (400 * k + 100 * c + 4 * q + a + 1) = (a = 3 \<and> (q = 24 \<longrightarrow> c = 3))"
  proof -
    have e4: "(400 * k + 100 * c + 4 * q + a + 1) mod 4 = (a + 1) mod 4"
      using mod_mult_self2[of "a + 1" 4 "100 * k + 25 * c + q"] by (simp add: algebra_simps)
    have f4: "(a + 1) mod 4 = 0 \<longleftrightarrow> a = 3" using a(1,2) by (smt (verit) mod_pos_pos_trivial mod_self)
    have e100: "(400 * k + 100 * c + 4 * q + a + 1) mod 100 = (4 * q + a + 1) mod 100"
      using mod_mult_self2[of "4 * q + a + 1" 100 "4 * k + c"] by (simp add: algebra_simps)
    have f100: "(4 * q + a + 1) mod 100 = 0 \<longleftrightarrow> a = 3 \<and> q = 24" using a(1,2) q(4,5) by (smt (verit) mod_pos_pos_trivial mod_self)
    have e400: "(400 * k + 100 * c + 4 * q + a + 1) mod 400 = (100 * c + 4 * q + a + 1) mod 400"
      using mod_mult_self2[of "100 * c + 4 * q + a + 1" 400 k] by (simp add: algebra_simps)
    have f400: "(100 * c + 4 * q + a + 1) mod 400 = 0 \<longleftrightarrow> a = 3 \<and> q = 24 \<and> c = 3"
      using a(1,2) q(4,5) c(1,2) by (smt (verit) mod_pos_pos_trivial mod_self)
    show ?thesis unfolding leap_def e4 e100 e400 f4 f100 f400 by blast
  qed
  have step: "year_start (400 * k + 100 * c + 4 * q + a + 1 + 1) =
      146097 * k + 36524 * c + 1461 * q + 365 * a + (if a = 3 \<and> (q = 24 \<longrightarrow> c = 3) then 366 else 365)"
    by (subst year_start_step) (simp only: start[OF a(1,2)] leap)
  have at: "n = 146097 * k + 36524 * c + 1461 * q + r2" using n(1) q(1) by (simp add: r1_def)
  have len: "r2 < 365 * a + (if a = 3 \<and> (q = 24 \<longrightarrow> c = 3) then 366 else 365)"
  proof (cases "a = 3")
    case True
    show ?thesis
    proof (cases "q = 24 \<and> c \<noteq> 3")
      case True
      with c(4) q(1) have "r2 < 1460" by simp
      with True \<open>a = 3\<close> show ?thesis by simp
    qed (use True q(3) in simp)
  qed (use a in simp)
  have "year_start (400 * k + 100 * c + 4 * q + a + 1) \<le> n"
    unfolding start[OF a(1,2)] at using a(3) by simp
  moreover have "n < year_start (400 * k + 100 * c + 4 * q + a + 1 + 1)"
    unfolding step at using len by simp
  ultimately show ?thesis unfolding y by blast
qed

lemma find_month_spec:
  assumes "0 < d" "d \<le> sum_list ls"
  shows "\<exists>i < length ls. find_month ls mo d = (mo + int i, d - sum_list (take i ls)) \<and>
    0 < d - sum_list (take i ls) \<and> d - sum_list (take i ls) \<le> ls ! i"
  using assms
proof (induction ls arbitrary: mo d)
  case (Cons l ls)
  show ?case
  proof (cases "d \<le> l")
    case True
    then show ?thesis using Cons.prems by (intro exI[of _ 0]) simp
  next
    case False
    with Cons.IH[of "d - l" "mo + 1"] Cons.prems obtain i where
      "i < length ls" "find_month ls (mo + 1) (d - l) = (mo + 1 + int i, d - l - sum_list (take i ls))"
      "0 < d - l - sum_list (take i ls)" "d - l - sum_list (take i ls) \<le> ls ! i" by auto
    with False show ?thesis by (intro exI[of _ "Suc i"]) auto
  qed
qed simp

lemma civil_sound:
  assumes "civil n = (y, mo, d)"
  shows "1 \<le> mo \<and> mo \<le> 12 \<and> 1 \<le> d \<and> d \<le> days_in y mo \<and> day_no y mo d = n"
proof -
  have y: "y = year_of n" and fm: "find_month (month_lengths (leap y)) 1 (n - year_start y + 1) = (mo, d)"
    using assms by (auto simp: civil_def Let_def split: prod.splits)
  have "0 < n - year_start y + 1" "n - year_start y + 1 \<le> sum_list (month_lengths (leap y))"
    using year_of_bounds[of n] by (simp_all add: y year_start_step month_sum split: if_splits)
  from find_month_spec[OF this, of 1] fm obtain i where i: "i < 12" "mo = 1 + int i"
    "d = n - year_start y + 1 - sum_list (take i (month_lengths (leap y)))" "0 < d" "d \<le> month_lengths (leap y) ! i"
    by (auto simp: month_lengths_def)
  have "(12 * y + int i) div 12 = y" "(12 * y + int i) mod 12 = int i" using i(1) by simp_all
  with i show ?thesis by (simp add: day_no_def month_no_def month_start_def days_in_def)
qed

lemma civil_month:
  assumes "civil n = (y, mo, d)"
  shows "month_start (month_no y mo) \<le> n" "n < month_start (month_no y mo + 1)"
proof -
  have "month_size (month_no y mo) = days_in y mo" by (rule month_size_no) (use civil_sound[OF assms] in simp_all)
  then show "month_start (month_no y mo) \<le> n" "n < month_start (month_no y mo + 1)"
    using civil_sound[OF assms] month_start_step[of "month_no y mo"] by (auto simp: day_no_def)
qed

lemma month_unique:
  assumes "month_start j \<le> n" "n < month_start (j + 1)" "month_start k \<le> n" "n < month_start (k + 1)"
  shows "j = k"
  using assms month_start_mono[of "j + 1" k] month_start_mono[of "k + 1" j] by (cases j k rule: linorder_cases) auto

lemma civil_day_no:
  assumes "1 \<le> mo" "mo \<le> 12" "1 \<le> d" "d \<le> days_in y mo"
  shows "civil (day_no y mo d) = (y, mo, d)"
proof -
  obtain y' mo' d' where c: "civil (day_no y mo d) = (y', mo', d')" by (cases "civil (day_no y mo d)") auto
  have "month_size (month_no y mo) = days_in y mo" by (rule month_size_no) (use assms in simp_all)
  then have "month_start (month_no y mo) \<le> day_no y mo d" "day_no y mo d < month_start (month_no y mo + 1)"
    using assms month_start_step[of "month_no y mo"] by (auto simp: day_no_def)
  from month_unique[OF this civil_month[OF c]] have k: "month_no y mo = month_no y' mo'" .
  then have "y = y' \<and> mo = mo'" using month_no_parts[OF assms(1,2), of y] month_no_parts[of mo' y'] civil_sound[OF c] by simp
  with c civil_sound[OF c] show ?thesis by (simp add: day_no_def)
qed

section \<open>Instants in a location\<close>

record zone_span =
  zs_offset :: int
  zs_start :: int
  zs_end :: int

type_synonym location = "int \<Rightarrow> zone_span"

abbreviation nanos :: int where "nanos \<equiv> 1000000000"

definition secs :: "gtime \<Rightarrow> int" where "secs t = t div nanos"

definition utc_zone :: location where
  "utc_zone s = \<lparr>zs_offset = 0, zs_start = min_int64, zs_end = max_int64\<rparr>"

text \<open>The reading of the wall clock, in seconds; the date and the clock are parts of it.\<close>

definition wall_secs :: "location \<Rightarrow> gtime \<Rightarrow> int" where
  "wall_secs loc t = secs t + zs_offset (loc (secs t))"

definition wall_day :: "location \<Rightarrow> gtime \<Rightarrow> int" where "wall_day loc t = wall_secs loc t div 86400"
definition wall_clock :: "location \<Rightarrow> gtime \<Rightarrow> int" where "wall_clock loc t = wall_secs loc t mod 86400"
definition hour_of :: "location \<Rightarrow> gtime \<Rightarrow> int" where "hour_of loc t = wall_clock loc t div 3600"

definition weekday :: "location \<Rightarrow> gtime \<Rightarrow> int" where
  \<comment> \<open>Sunday is 0, and day 0 was a Monday\<close>
  "weekday loc t = (wall_day loc t + 1) mod 7"

text \<open>
  \<open>time.Date\<close> looks the offset up as if the reading were in UTC, and once more when the instant it finds
  lies outside the span of that offset.
\<close>

definition time_date :: "location \<Rightarrow> int \<Rightarrow> int \<Rightarrow> int \<Rightarrow> int \<Rightarrow> int \<Rightarrow> int \<Rightarrow> int \<Rightarrow> gtime" where
  "time_date loc y mo d h mi s ns =
     (let naive = 86400 * day_no y mo d + 3600 * h + 60 * mi + s;
          z = loc naive; utc = naive - zs_offset z;
          off = (if zs_offset z = 0 then 0
                 else if utc < zs_start z \<or> utc \<ge> zs_end z then zs_offset (loc utc) else zs_offset z)
      in nanos * (naive - off) + ns)"

text \<open>Over a stretch of time in which the offset does not change, the wall clock runs like any clock.\<close>

definition steady :: "location \<Rightarrow> int \<Rightarrow> int \<Rightarrow> int \<Rightarrow> bool" where
  "steady loc off lo hi \<longleftrightarrow> (\<forall>s. lo \<le> s \<longrightarrow> s \<le> hi \<longrightarrow> zs_offset (loc s) = off)"

lemma steadyD: "steady loc off lo hi \<Longrightarrow> lo \<le> s \<Longrightarrow> s \<le> hi \<Longrightarrow> zs_offset (loc s) = off"
  unfolding steady_def by blast

lemma time_date_steady:
  assumes "steady loc off lo hi" "n = 86400 * day_no y mo d + 3600 * h + 60 * mi + s"
    "lo \<le> n" "n \<le> hi" "lo \<le> n - off" "n - off \<le> hi"
  shows "time_date loc y mo d h mi s ns = nanos * (n - off) + ns"
  using steadyD[OF assms(1), of n] steadyD[OF assms(1), of "n - off"] assms(2-) by (simp add: time_date_def Let_def)

section \<open>RFC 3339\<close>

definition digit_at :: "string \<Rightarrow> nat \<Rightarrow> bool" where
  "digit_at s i \<longleftrightarrow> i < length s \<and> is_digit (s ! i)"

definition two_digits :: "string \<Rightarrow> int" where
  "two_digits s = int (digit_val (s ! 0) * 10 + digit_val (s ! 1))"

text \<open>\<open>getnum\<close>: two digits, or, where the layout allows it, one.\<close>

definition getnum :: "string \<Rightarrow> bool \<Rightarrow> (int \<times> string) option" where
  "getnum s fixed =
     (if \<not> digit_at s 0 then None
      else if \<not> digit_at s 1 then (if fixed then None else Some (int (digit_val (s ! 0)), drop 1 s))
      else Some (two_digits s, drop 2 s))"

definition num_in :: "string \<Rightarrow> bool \<Rightarrow> int \<Rightarrow> int \<Rightarrow> (int \<times> string) option" where
  "num_in s fixed lo hi = (case getnum s fixed of None \<Rightarrow> None
     | Some (n, rest) \<Rightarrow> if lo \<le> n \<and> n \<le> hi then Some (n, rest) else None)"

definition skip_char :: "char \<Rightarrow> string \<Rightarrow> string option" where
  "skip_char c s = (case s of [] \<Rightarrow> None | d # rest \<Rightarrow> if d = c then Some rest else None)"

definition decimal :: "string \<Rightarrow> int" where
  "decimal s = foldl (\<lambda>n c. 10 * n + int (digit_val c)) 0 s"

definition long_year :: "string \<Rightarrow> (int \<times> string) option" where
  "long_year s =
     (if length s < 4 \<or> \<not> list_all is_digit (take 4 s) then None else Some (decimal (take 4 s), drop 4 s))"

text \<open>A fraction after the seconds is read although the layout has none; digits past the ninth are dropped.\<close>

definition fraction :: "string \<Rightarrow> int \<times> string" where
  "fraction s =
     (if length s \<ge> 2 \<and> (s ! 0 = CHR ''.'' \<or> s ! 0 = CHR '','') \<and> digit_at s 1
      then (let ds = takeWhile is_digit (drop 1 s); kept = take 9 ds
            in (decimal kept * 10 ^ (9 - length kept), drop (1 + length ds) s))
      else (0, s))"

definition zone_suffix :: "string \<Rightarrow> (int \<times> string) option" where
  "zone_suffix s =
     (if s \<noteq> [] \<and> hd s = CHR ''Z'' then Some (0, tl s)
      else if length s < 6 \<or> s ! 3 \<noteq> CHR '':'' then None
      else case (getnum (take 2 (drop 1 s)) True, getnum (take 2 (drop 4 s)) True) of
          (Some (hr, _), Some (mm, _)) \<Rightarrow>
            if hr > 24 \<or> mm > 60 then None
            else if s ! 0 = CHR ''+'' then Some ((hr * 60 + mm) * 60, drop 6 s)
            else if s ! 0 = CHR ''-'' then Some (- ((hr * 60 + mm) * 60), drop 6 s)
            else None
        | _ \<Rightarrow> None)"

definition parse_rfc3339 :: "string \<Rightarrow> gtime option" where
  "parse_rfc3339 s = do {
     (y, s) \<leftarrow> long_year s;
     s \<leftarrow> skip_char CHR ''-'' s;
     (mo, s) \<leftarrow> num_in s True 1 12;
     s \<leftarrow> skip_char CHR ''-'' s;
     (d, s) \<leftarrow> getnum s True;
     s \<leftarrow> skip_char CHR ''T'' s;
     (h, s) \<leftarrow> num_in s False 0 23;
     s \<leftarrow> skip_char CHR '':'' s;
     (mi, s) \<leftarrow> num_in s True 0 59;
     s \<leftarrow> skip_char CHR '':'' s;
     (sec, s) \<leftarrow> num_in s True 0 59;
     (let (ns, s) = fraction s in do {
        (off, s) \<leftarrow> zone_suffix s;
        if s \<noteq> [] \<or> d < 1 \<or> d > days_in y mo then None
        else Some (time_date utc_zone y mo d h mi sec ns - nanos * off) })
   }"

lemma parse_rfc3339_eval:
  "parse_rfc3339 ''2026-02-28T09:05:07Z'' = Some 63907866307000000000"
  "parse_rfc3339 ''2026-02-28T9:05:07.25+08:00'' = Some 63907837507250000000"
  "parse_rfc3339 ''2026-02-29T09:05:07Z'' = None"
  by code_simp+

end
