(* ===== verification/Task_Schedule.thy ===== *)
theory Task_Schedule
  imports Go_Time Go_Json Admin_Types
begin

text \<open>
  The computation of a task's next run, the end of \<open>apps/admin-api/internal/service/scheduled_tasks.go\<close>,
  with the errors of the service and its environment: the time-zone database (\<open>time.LoadLocation\<close>), the
  parser of JSON texts (\<open>json.Unmarshal\<close> up to the tree of values; \<open>Go_Json\<close> stores the tree into the fields
  of a struct), the Unicode tables of \<open>strings.ToLower\<close>, \<open>bcrypt.CompareHashAndPassword\<close>
  and \<open>json.Marshal\<close> of a map of strings.
\<close>

datatype svc_error =
    InvalidArg | Unauthenticated | AccountDisabled | ProtectedAdmin | SelfPermission | CurrentPassword
  | PermissionDenied | ScheduleInPast | ScheduleExpiration | NotConfigured | RemoteErr string | StoreErr store_error

record service_env =
  se_location :: "string \<Rightarrow> location option"
  se_json :: "string \<Rightarrow> json option"
  se_lower :: "string \<Rightarrow> string"
  se_compare :: "string \<Rightarrow> string \<Rightarrow> bool"
  se_marshal :: "(string, string) gomap \<Rightarrow> string"

definition raw_bytes :: "raw \<Rightarrow> string" where
  "raw_bytes r = (case r of None \<Rightarrow> [] | Some s \<Rightarrow> s)"

definition struct_entries :: "service_env \<Rightarrow> raw \<Rightarrow> (string \<times> json) list option" where
  "struct_entries E spec =
     (case se_json E (raw_bytes spec) of Some (JObject es) \<Rightarrow> Some es | Some JNull \<Rightarrow> Some [] | _ \<Rightarrow> None)"

section \<open>The specifications of the kinds\<close>

definition valid_clock :: "int \<Rightarrow> int \<Rightarrow> bool" where
  "valid_clock h mi \<longleftrightarrow> h \<ge> 0 \<and> h \<le> 23 \<and> mi \<ge> 0 \<and> mi \<le> 59"

definition once_spec :: "service_env \<Rightarrow> raw \<Rightarrow> gtime option" where
  "once_spec E spec = do {
     es \<leftarrow> struct_entries E spec;
     s \<leftarrow> read_str ''run_at'' es [];
     if trim_space s = [] then None else parse_rfc3339 (trim_space s)
   }"

definition hourly_spec :: "service_env \<Rightarrow> raw \<Rightarrow> int option" where
  "hourly_spec E spec = do {
     es \<leftarrow> struct_entries E spec;
     mi \<leftarrow> read_int ''minute'' es 0;
     if mi < 0 \<or> mi > 59 then None else Some mi
   }"

definition daily_spec :: "service_env \<Rightarrow> raw \<Rightarrow> (int \<times> int) option" where
  "daily_spec E spec = do {
     es \<leftarrow> struct_entries E spec;
     h \<leftarrow> read_int ''hour'' es 0;
     mi \<leftarrow> read_int ''minute'' es 0;
     if \<not> valid_clock h mi then None else Some (h, mi)
   }"

definition weekly_spec :: "service_env \<Rightarrow> raw \<Rightarrow> (int \<times> int \<times> int) option" where
  "weekly_spec E spec = do {
     es \<leftarrow> struct_entries E spec;
     wd \<leftarrow> read_int ''weekday'' es 0;
     h \<leftarrow> read_int ''hour'' es 0;
     mi \<leftarrow> read_int ''minute'' es 0;
     if wd < 1 \<or> wd > 7 \<or> \<not> valid_clock h mi then None else Some (wd, h, mi)
   }"

definition monthly_spec :: "service_env \<Rightarrow> raw \<Rightarrow> (int \<times> int \<times> int) option" where
  "monthly_spec E spec = do {
     es \<leftarrow> struct_entries E spec;
     d \<leftarrow> read_int ''day'' es 0;
     h \<leftarrow> read_int ''hour'' es 0;
     mi \<leftarrow> read_int ''minute'' es 0;
     if d < 1 \<or> d > 31 \<or> \<not> valid_clock h mi then None else Some (d, h, mi)
   }"

section \<open>The next run\<close>

definition next_hourly :: "location \<Rightarrow> int \<Rightarrow> gtime \<Rightarrow> gtime" where
  "next_hourly loc mi after =
     (let (y, mo, d) = civil (wall_day loc after);
          candidate = time_date loc y mo d (hour_of loc after) mi 0 0
      in if \<not> candidate > after then candidate + 3600 * nanos else candidate)"

definition next_daily :: "location \<Rightarrow> int \<times> int \<Rightarrow> gtime \<Rightarrow> gtime" where
  "next_daily loc = (\<lambda>(h, mi) after.
     (let (y, mo, d) = civil (wall_day loc after);
          candidate = time_date loc y mo d h mi 0 0
      in if \<not> candidate > after then time_date loc y mo (d + 1) h mi 0 0 else candidate))"

definition next_weekly :: "location \<Rightarrow> int \<times> int \<times> int \<Rightarrow> gtime \<Rightarrow> gtime" where
  "next_weekly loc = (\<lambda>(wd, h, mi) after.
     (let (y, mo, d) = civil (wall_day loc after);
          current = (if weekday loc after = 0 then 7 else weekday loc after);
          days = (wd - current + 7) mod 7;
          candidate = time_date loc y mo (d + days) h mi 0 0
      in if \<not> candidate > after then time_date loc y mo (d + 7) h mi 0 0 else candidate))"

definition monthly_candidate :: "location \<Rightarrow> int \<Rightarrow> int \<Rightarrow> int \<times> int \<times> int \<Rightarrow> gtime" where
  "monthly_candidate loc y mo = (\<lambda>(day, h, mi).
     (let (_, _, last) = civil (wall_day loc (time_date loc y (mo + 1) 0 0 0 0 0))
      in time_date loc y mo (if day > last then last else day) h mi 0 0))"

definition next_monthly :: "location \<Rightarrow> int \<times> int \<times> int \<Rightarrow> gtime \<Rightarrow> gtime" where
  "next_monthly loc s after =
     (let (y, mo, _) = civil (wall_day loc after);
          candidate = monthly_candidate loc y mo s
      in if \<not> candidate > after
         then (let (y', mo', _) = civil (wall_day loc (time_date loc y (mo + 1) 1 0 0 0 0)) in monthly_candidate loc y' mo' s)
         else candidate)"

definition compute_next :: "service_env \<Rightarrow> string \<Rightarrow> raw \<Rightarrow> string \<Rightarrow> gtime \<Rightarrow> svc_error + gtime" where
  "compute_next E kind spec tz after =
     (case se_location E tz of
        None \<Rightarrow> Inl InvalidArg
      | Some loc \<Rightarrow>
          if kind = ''once'' then (case once_spec E spec of None \<Rightarrow> Inl InvalidArg
            | Some t \<Rightarrow> if \<not> t > after then Inl ScheduleInPast else Inr t)
          else if kind = ''hourly'' then (case hourly_spec E spec of None \<Rightarrow> Inl InvalidArg | Some s \<Rightarrow> Inr (next_hourly loc s after))
          else if kind = ''daily'' then (case daily_spec E spec of None \<Rightarrow> Inl InvalidArg | Some s \<Rightarrow> Inr (next_daily loc s after))
          else if kind = ''weekly'' then (case weekly_spec E spec of None \<Rightarrow> Inl InvalidArg | Some s \<Rightarrow> Inr (next_weekly loc s after))
          else if kind = ''monthly'' then (case monthly_spec E spec of None \<Rightarrow> Inl InvalidArg | Some s \<Rightarrow> Inr (next_monthly loc s after))
          else Inl InvalidArg)"

text \<open>The zero instant stands for no further run.\<close>

definition next_run_after_task :: "service_env \<Rightarrow> scheduled_task \<Rightarrow> gtime \<Rightarrow> svc_error + gtime" where
  "next_run_after_task E t after =
     (if st_schedule_kind t = ''once'' then Inr 0
      else (case compute_next E (st_schedule_kind t) (st_schedule_spec t) (st_timezone t) after of
              Inl e \<Rightarrow> Inl e
            | Inr next \<Rightarrow> if st_expires_at t \<noteq> 0 \<and> next > st_expires_at t then Inr 0 else Inr next))"

end
