(* ===== verification/Task_Service.thy ===== *)
theory Task_Service
  imports Task_Schedule Admin_Tasks Admin_Accounts
begin

text \<open>
  The rest of \<open>apps/admin-api/internal/service/scheduled_tasks.go\<close>: what administrators and users do with
  scheduled tasks. The service holds no lock across its calls of the store, so an operation is a plan, made
  from what it reads, and a write; the operation of the code is the two run back to back. A clock
  reading and a fresh identifier are arguments, one for each call of \<open>a.now\<close> and \<open>newID\<close>.
\<close>

section \<open>Inputs and results\<close>

record task_input =
  ti_owner_user_id :: string
  ti_name :: string
  ti_description :: string
  ti_status :: string
  ti_schedule_kind :: string
  ti_schedule_spec :: raw
  ti_timezone :: string
  ti_prompt :: string
  ti_model_route_id :: string
  ti_model_alias :: string
  ti_config :: raw
  ti_expires_at :: gtime
  ti_replace_expires_at :: bool
  ti_attachments :: "task_attachment list"
  ti_replace_attachments :: bool
  ti_actor :: string

record task_owner =
  to_id :: string
  to_name :: string
  to_email :: string

record task_detail =
  td_task :: scheduled_task
  td_attachments :: "task_attachment list"
  td_owner :: "task_owner option"

type_synonym 'a svc_result = "(svc_error + 'a) \<times> admin_memory"

definition zero_task :: scheduled_task where
  "zero_task = \<lparr>st_id = [], st_owner_type = [], st_owner_user_id = [], st_conversation_id = [], st_name = [],
     st_description = [], st_status = [], st_schedule_kind = [], st_schedule_spec = None, st_timezone = [], st_prompt = [],
     st_model_route_id = [], st_model_alias = [], st_max_turns = 0, st_config = None, st_expires_at = 0, st_next_run_at = 0,
     st_last_run_at = 0, st_run_count = 0, st_last_status = [], st_last_error = [], st_created_at = 0, st_updated_at = 0,
     st_created_by = [], st_updated_by = []\<rparr>"

definition raw_or_empty_object :: "raw \<Rightarrow> raw" where
  "raw_or_empty_object r = (if trim_space (raw_bytes r) = [] then Some ''{}'' else clone_raw r)"

definition normalize_task_status :: "string \<Rightarrow> string" where
  "normalize_task_status s = (if trim_space s = [] then ''active'' else trim_space s)"

definition valid_task_status :: "string \<Rightarrow> bool" where
  "valid_task_status s \<longleftrightarrow> s = ''active'' \<or> s = ''paused'' \<or> s = ''completed'' \<or> s = ''expired''"

text \<open>\<open>strings.ToLower\<close>: the Unicode tables are consulted only when the text is not ASCII.\<close>

definition to_lower :: "service_env \<Rightarrow> string \<Rightarrow> string" where
  "to_lower E s = (if list_all (\<lambda>c. byte c < 128) s then map ascii_lower s else se_lower E s)"

definition normalize_identifier :: "service_env \<Rightarrow> string \<Rightarrow> string" where
  "normalize_identifier E s = to_lower E (trim_space s)"

definition resolve_task_owner :: "service_env \<Rightarrow> string \<Rightarrow> admin_memory \<Rightarrow> svc_error + auth_user" where
  "resolve_task_owner E ident m =
     (let ident = trim_space ident in
      if ident = [] then Inl Unauthenticated
      else (case get_auth_user ident m of
              Inr u \<Rightarrow> Inr u
            | Inl _ \<Rightarrow> (case get_auth_user_by_identifier (normalize_identifier E ident) m of
                          Inl e \<Rightarrow> Inl (StoreErr e) | Inr u \<Rightarrow> Inr u)))"

definition validate_task_owner :: "scheduled_task \<Rightarrow> admin_memory \<Rightarrow> svc_error option" where
  "validate_task_owner t m =
     (if trim_space (st_owner_user_id t) = [] then Some InvalidArg
      else (case get_auth_user (st_owner_user_id t) m of
              Inl _ \<Rightarrow> Some AccountDisabled
            | Inr u \<Rightarrow> if \<not> au_enabled u then Some AccountDisabled else None))"

definition task_detail_of :: "scheduled_task \<Rightarrow> task_attachment list \<Rightarrow> admin_memory \<Rightarrow> task_detail" where
  "task_detail_of t as m = \<lparr>td_task = t, td_attachments = as,
     td_owner = (if trim_space (st_owner_user_id t) = [] then None
                 else (case get_auth_user (st_owner_user_id t) m of
                         Inl _ \<Rightarrow> None
                       | Inr u \<Rightarrow> Some \<lparr>to_id = au_id u, to_name = au_name u, to_email = au_email u\<rparr>))\<rparr>"

section \<open>From an input to a task\<close>

definition keep_if :: "bool \<Rightarrow> string \<Rightarrow> string \<Rightarrow> string" where
  \<comment> \<open>\<open>v := strings.TrimSpace(in); if !create && v == "" { v = existing }\<close>\<close>
  "keep_if create old given = (if \<not> create \<and> trim_space given = [] then old else trim_space given)"

definition keep_raw :: "bool \<Rightarrow> raw \<Rightarrow> raw \<Rightarrow> raw" where
  "keep_raw create old given =
     (let r = raw_or_empty_object given
      in if \<not> create \<and> r = Some ''{}'' \<and> raw_bytes old \<noteq> [] then raw_or_empty_object old else r)"

definition input_status :: "scheduled_task \<Rightarrow> task_input \<Rightarrow> bool \<Rightarrow> string" where
  "input_status old inp create =
     (if \<not> create \<and> trim_space (ti_status inp) = [] then st_status old else normalize_task_status (ti_status inp))"

definition input_timezone :: "scheduled_task \<Rightarrow> task_input \<Rightarrow> bool \<Rightarrow> string" where
  "input_timezone old inp create =
     (if trim_space (ti_timezone inp) \<noteq> [] then trim_space (ti_timezone inp)
      else if \<not> create \<and> st_timezone old \<noteq> [] then st_timezone old
      else ''Asia/Shanghai'')"

definition input_expires :: "scheduled_task \<Rightarrow> task_input \<Rightarrow> bool \<Rightarrow> gtime" where
  "input_expires old inp create = (if create \<or> ti_replace_expires_at inp then ti_expires_at inp else st_expires_at old)"

text \<open>The task with every field set; \<open>now\<close> is the last of three clock readings.\<close>

definition fill_task :: "scheduled_task \<Rightarrow> task_input \<Rightarrow> bool \<Rightarrow> string \<Rightarrow> gtime \<Rightarrow> gtime \<Rightarrow> scheduled_task" where
  "fill_task old inp create new_id next now =
     (let t = (if create then old\<lparr>st_id := new_id, st_owner_type := ''user'', st_owner_user_id := trim_space (ti_owner_user_id inp),
                 st_conversation_id := ''sched-'' @ new_id, st_created_at := now, st_created_by := ti_actor inp\<rparr> else old);
          alias = keep_if create (st_model_alias old) (ti_model_alias inp);
          route = keep_if create (st_model_route_id old) (ti_model_route_id inp)
      in t\<lparr>st_name := keep_if create (st_name old) (ti_name inp),
           st_description := (if \<not> create \<and> ti_description inp = [] then st_description old else trim_space (ti_description inp)),
           st_status := input_status old inp create,
           st_schedule_kind := keep_if create (st_schedule_kind old) (ti_schedule_kind inp),
           st_schedule_spec := keep_raw create (st_schedule_spec old) (ti_schedule_spec inp),
           st_timezone := input_timezone old inp create,
           st_prompt := keep_if create (st_prompt old) (ti_prompt inp),
           st_model_route_id := (if route = [] then alias else route),
           st_model_alias := alias,
           st_max_turns := 30,
           st_config := keep_raw create (st_config old) (ti_config inp),
           st_expires_at := input_expires old inp create,
           st_next_run_at := (if input_status old inp create \<noteq> ''active'' then 0 else next),
           st_updated_at := now,
           st_updated_by := ti_actor inp\<rparr>)"

definition task_from_input ::
  "service_env \<Rightarrow> gtime \<times> gtime \<times> gtime \<Rightarrow> string \<Rightarrow> scheduled_task \<Rightarrow> task_input \<Rightarrow> bool \<Rightarrow> svc_error + scheduled_task" where
  "task_from_input E clock new_id old inp create =
     (let (n1, n2, n3) = clock;
          kind = keep_if create (st_schedule_kind old) (ti_schedule_kind inp);
          alias = keep_if create (st_model_alias old) (ti_model_alias inp);
          route = keep_if create (st_model_route_id old) (ti_model_route_id inp);
          spec = keep_raw create (st_schedule_spec old) (ti_schedule_spec inp);
          expires = input_expires old inp create
      in if keep_if create (st_name old) (ti_name inp) = [] \<or> kind = [] \<or> keep_if create (st_prompt old) (ti_prompt inp) = []
           \<or> (if route = [] then alias else route) = [] \<or> alias = [] \<or> \<not> valid_task_status (input_status old inp create)
         then Inl InvalidArg
         else if kind = ''once'' \<and> expires \<noteq> 0 then Inl InvalidArg
         else if expires \<noteq> 0 \<and> \<not> expires > n1 then Inl ScheduleExpiration
         else (case compute_next E kind spec (input_timezone old inp create) n2 of
                 Inl e \<Rightarrow> Inl e
               | Inr next \<Rightarrow>
                   if expires \<noteq> 0 \<and> next > expires then Inl ScheduleExpiration
                   else if create \<and> trim_space (ti_owner_user_id inp) = [] then Inl InvalidArg
                   else Inr (fill_task old inp create new_id next n3)))"

section \<open>Creating and updating\<close>

definition fill_attachments :: "string \<Rightarrow> (nat \<Rightarrow> string) \<Rightarrow> gtime \<Rightarrow> string \<Rightarrow> task_attachment list \<Rightarrow> task_attachment list" where
  "fill_attachments tid fresh at actor as = map (\<lambda>(i, a). a\<lparr>ta_task_id := tid,
     ta_id := (if ta_id a = [] then fresh i else ta_id a),
     ta_created_at := (if ta_created_at a = 0 then at else ta_created_at a),
     ta_created_by := (if ta_created_by a = [] then actor else ta_created_by a)\<rparr>) (enumerate 0 as)"

definition act_as :: "string \<Rightarrow> auth_user \<Rightarrow> task_input \<Rightarrow> task_input" where
  "act_as ident owner inp = inp\<lparr>ti_owner_user_id := au_id owner,
     ti_actor := (if trim_space (ti_actor inp) = [] then trim_space ident else ti_actor inp)\<rparr>"

definition plan_create ::
  "service_env \<Rightarrow> gtime \<times> gtime \<times> gtime \<Rightarrow> string \<Rightarrow> (nat \<Rightarrow> string) \<Rightarrow> string \<Rightarrow> task_input \<Rightarrow> admin_memory \<Rightarrow>
   svc_error + scheduled_task \<times> task_attachment list" where
  "plan_create E clock new_id fresh ident inp m =
     (case resolve_task_owner E ident m of
        Inl _ \<Rightarrow> Inl Unauthenticated
      | Inr owner \<Rightarrow> (let inp = act_as ident owner inp in
          case task_from_input E clock new_id zero_task inp True of
            Inl e \<Rightarrow> Inl e
          | Inr t \<Rightarrow> (case validate_task_owner t m of
                Some e \<Rightarrow> Inl e
              | None \<Rightarrow> Inr (t, fill_attachments (st_id t) fresh (st_created_at t) (ti_actor inp) (ti_attachments inp)))))"

definition create_user_task ::
  "service_env \<Rightarrow> gtime \<times> gtime \<times> gtime \<Rightarrow> string \<Rightarrow> (nat \<Rightarrow> string) \<Rightarrow> string \<Rightarrow> task_input \<Rightarrow> admin_memory \<Rightarrow> task_detail svc_result" where
  "create_user_task E clock new_id fresh ident inp m =
     (case plan_create E clock new_id fresh ident inp m of
        Inl e \<Rightarrow> (Inl e, m)
      | Inr (t, as) \<Rightarrow> (case create_scheduled_task t as m of
            (Inl e, m) \<Rightarrow> (Inl (StoreErr e), m)
          | (Inr _, m) \<Rightarrow> (Inr (task_detail_of t as m), m)))"

text \<open>A write of a row that exists, and the answer that the updating operations share.\<close>

definition write_task :: "scheduled_task \<Rightarrow> bool \<Rightarrow> task_attachment list \<Rightarrow> admin_memory \<Rightarrow> task_detail svc_result" where
  "write_task t replacing as m =
     (case update_scheduled_task t replacing as m of
        (Inl e, m) \<Rightarrow> (Inl (StoreErr e), m)
      | (Inr _, m) \<Rightarrow> (Inr (task_detail_of t (list_task_attachments (st_id t) m) m), m))"

definition input_attachments :: "scheduled_task \<Rightarrow> (nat \<Rightarrow> string) \<Rightarrow> task_input \<Rightarrow> task_attachment list" where
  "input_attachments t fresh inp =
     (if ti_replace_attachments inp then fill_attachments (st_id t) fresh (st_updated_at t) (ti_actor inp) (ti_attachments inp)
      else ti_attachments inp)"

text \<open>\<open>UpdateScheduledTask\<close>: an administrator may give a task without an owner one.\<close>

definition adopt_task :: "string \<Rightarrow> scheduled_task \<Rightarrow> admin_memory \<Rightarrow> svc_error + scheduled_task" where
  "adopt_task requested t m =
     (if st_owner_user_id t = [] \<and> requested \<noteq> []
      then (case get_auth_user requested m of
              Inl _ \<Rightarrow> Inl InvalidArg
            | Inr u \<Rightarrow> if \<not> au_enabled u then Inl InvalidArg
                       else Inr (t\<lparr>st_owner_type := ''user'', st_owner_user_id := requested, st_conversation_id := ''sched-'' @ st_id t\<rparr>))
      else if requested \<noteq> [] \<and> requested \<noteq> st_owner_user_id t then Inl PermissionDenied
      else Inr t)"

definition plan_update ::
  "service_env \<Rightarrow> gtime \<times> gtime \<times> gtime \<Rightarrow> string \<Rightarrow> task_input \<Rightarrow> admin_memory \<Rightarrow> svc_error + scheduled_task" where
  "plan_update E clock i inp m =
     (case get_scheduled_task i m of
        Inl e \<Rightarrow> Inl (StoreErr e)
      | Inr old \<Rightarrow> (case adopt_task (trim_space (ti_owner_user_id inp)) old m of
            Inl e \<Rightarrow> Inl e
          | Inr old \<Rightarrow> task_from_input E clock [] old inp False))"

definition update_task ::
  "service_env \<Rightarrow> gtime \<times> gtime \<times> gtime \<Rightarrow> (nat \<Rightarrow> string) \<Rightarrow> string \<Rightarrow> task_input \<Rightarrow> admin_memory \<Rightarrow> task_detail svc_result" where
  "update_task E clock fresh i inp m =
     (case plan_update E clock i inp m of
        Inl e \<Rightarrow> (Inl e, m)
      | Inr t \<Rightarrow> write_task t (ti_replace_attachments inp) (input_attachments t fresh inp) m)"

definition plan_user_update ::
  "service_env \<Rightarrow> gtime \<times> gtime \<times> gtime \<Rightarrow> string \<Rightarrow> string \<Rightarrow> task_input \<Rightarrow> admin_memory \<Rightarrow> svc_error + scheduled_task \<times> task_input" where
  "plan_user_update E clock i ident inp m =
     (case resolve_task_owner E ident m of
        Inl e \<Rightarrow> Inl e
      | Inr owner \<Rightarrow> (case get_scheduled_task_for_owner i (au_id owner) m of
            Inl e \<Rightarrow> Inl (StoreErr e)
          | Inr old \<Rightarrow> (let inp = act_as ident owner inp in
              case task_from_input E clock [] old inp False of Inl e \<Rightarrow> Inl e | Inr t \<Rightarrow> Inr (t, inp))))"

definition update_user_task ::
  "service_env \<Rightarrow> gtime \<times> gtime \<times> gtime \<Rightarrow> (nat \<Rightarrow> string) \<Rightarrow> string \<Rightarrow> string \<Rightarrow> task_input \<Rightarrow> admin_memory \<Rightarrow> task_detail svc_result" where
  "update_user_task E clock fresh i ident inp m =
     (case plan_user_update E clock i ident inp m of
        Inl e \<Rightarrow> (Inl e, m)
      | Inr (t, inp) \<Rightarrow> write_task t (ti_replace_attachments inp) (input_attachments t fresh inp) m)"

section \<open>Reading and deleting\<close>

definition with_attachments :: "admin_memory \<Rightarrow> scheduled_task \<Rightarrow> task_detail" where
  "with_attachments m t = task_detail_of t (list_task_attachments (st_id t) m) m"

definition list_tasks :: "admin_memory \<Rightarrow> task_detail list" where
  "list_tasks m = map (with_attachments m) (list_scheduled_tasks m)"

definition list_user_tasks :: "service_env \<Rightarrow> string \<Rightarrow> admin_memory \<Rightarrow> svc_error + task_detail list" where
  "list_user_tasks E ident m =
     (case resolve_task_owner E ident m of
        Inl e \<Rightarrow> Inl e
      | Inr owner \<Rightarrow> Inr (map (with_attachments m) (list_scheduled_tasks_for_owner (au_id owner) m)))"

definition get_task :: "string \<Rightarrow> admin_memory \<Rightarrow> svc_error + task_detail" where
  "get_task i m = (case get_scheduled_task i m of
     Inl e \<Rightarrow> Inl (StoreErr e) | Inr t \<Rightarrow> Inr (task_detail_of t (list_task_attachments i m) m))"

definition get_user_task :: "service_env \<Rightarrow> string \<Rightarrow> string \<Rightarrow> admin_memory \<Rightarrow> svc_error + task_detail" where
  "get_user_task E i ident m =
     (case resolve_task_owner E ident m of
        Inl e \<Rightarrow> Inl e
      | Inr owner \<Rightarrow> (case get_scheduled_task_for_owner i (au_id owner) m of
            Inl e \<Rightarrow> Inl (StoreErr e) | Inr t \<Rightarrow> Inr (task_detail_of t (list_task_attachments i m) m)))"

definition store_answer :: "'a admin_result \<Rightarrow> 'a svc_result" where
  "store_answer r = (case r of (Inl e, m) \<Rightarrow> (Inl (StoreErr e), m) | (Inr v, m) \<Rightarrow> (Inr v, m))"

definition delete_task :: "string \<Rightarrow> admin_memory \<Rightarrow> unit svc_result" where
  "delete_task i m = store_answer (delete_scheduled_task i m)"

definition delete_user_task :: "service_env \<Rightarrow> string \<Rightarrow> string \<Rightarrow> admin_memory \<Rightarrow> unit svc_result" where
  "delete_user_task E i ident m =
     (case resolve_task_owner E ident m of
        Inl e \<Rightarrow> (Inl e, m)
      | Inr owner \<Rightarrow> store_answer (delete_scheduled_task_for_owner i (au_id owner) m))"

section \<open>Pausing, resuming and running now\<close>

definition next_run_for_activation :: "service_env \<Rightarrow> gtime \<Rightarrow> scheduled_task \<Rightarrow> svc_error + gtime" where
  "next_run_for_activation E now t =
     (case compute_next E (st_schedule_kind t) (st_schedule_spec t) (st_timezone t) now of
        Inl e \<Rightarrow> Inl e
      | Inr next \<Rightarrow> if st_expires_at t \<noteq> 0 \<and> next > st_expires_at t then Inl ScheduleExpiration else Inr next)"

text \<open>The part that \<open>SetScheduledTaskStatus\<close> and \<open>SetUserScheduledTaskStatus\<close> spell out twice.\<close>

definition switch_task :: "service_env \<Rightarrow> gtime \<times> gtime \<Rightarrow> string \<Rightarrow> string \<Rightarrow> scheduled_task \<Rightarrow> admin_memory \<Rightarrow> svc_error + scheduled_task" where
  "switch_task E clock status actor t m =
     (let (n1, n2) = clock; t = t\<lparr>st_status := status, st_updated_at := n1, st_updated_by := actor\<rparr>
      in if status = ''active''
         then (case validate_task_owner t m of
                 Some e \<Rightarrow> Inl e
               | None \<Rightarrow> (case next_run_for_activation E n2 t of Inl e \<Rightarrow> Inl e | Inr next \<Rightarrow> Inr (t\<lparr>st_next_run_at := next\<rparr>)))
         else Inr (t\<lparr>st_next_run_at := 0\<rparr>))"

definition plan_status :: "service_env \<Rightarrow> gtime \<times> gtime \<Rightarrow> string \<Rightarrow> string \<Rightarrow> string \<Rightarrow> admin_memory \<Rightarrow> svc_error + scheduled_task" where
  "plan_status E clock i status actor m =
     (if status \<noteq> ''active'' \<and> status \<noteq> ''paused'' then Inl InvalidArg
      else (case get_scheduled_task i m of Inl e \<Rightarrow> Inl (StoreErr e) | Inr t \<Rightarrow> switch_task E clock status actor t m))"

definition plan_user_status :: "service_env \<Rightarrow> gtime \<times> gtime \<Rightarrow> string \<Rightarrow> string \<Rightarrow> string \<Rightarrow> admin_memory \<Rightarrow> svc_error + scheduled_task" where
  "plan_user_status E clock i ident status m =
     (if status \<noteq> ''active'' \<and> status \<noteq> ''paused'' then Inl InvalidArg
      else (case resolve_task_owner E ident m of
          Inl e \<Rightarrow> Inl e
        | Inr owner \<Rightarrow> (case get_scheduled_task_for_owner i (au_id owner) m of
              Inl e \<Rightarrow> Inl (StoreErr e) | Inr t \<Rightarrow> switch_task E clock status ident t m)))"

definition plan_run_now :: "gtime \<times> gtime \<Rightarrow> string \<Rightarrow> string \<Rightarrow> admin_memory \<Rightarrow> svc_error + scheduled_task" where
  "plan_run_now clock i actor m =
     (let (n1, n2) = clock in
      case get_scheduled_task i m of
        Inl e \<Rightarrow> Inl (StoreErr e)
      | Inr t \<Rightarrow>
          if st_status t \<noteq> ''active'' then Inl InvalidArg
          else (case validate_task_owner t m of
                  Some e \<Rightarrow> Inl e
                | None \<Rightarrow> if st_expires_at t \<noteq> 0 \<and> st_expires_at t < n1 then Inl ScheduleExpiration
                          else Inr (t\<lparr>st_next_run_at := n2, st_updated_at := n2, st_updated_by := actor\<rparr>)))"

text \<open>The operations: the plan, then a write that leaves the attachments alone.\<close>

definition put_planned :: "svc_error + scheduled_task \<Rightarrow> admin_memory \<Rightarrow> task_detail svc_result" where
  "put_planned plan m = (case plan of Inl e \<Rightarrow> (Inl e, m) | Inr t \<Rightarrow> write_task t False [] m)"

definition set_task_status :: "service_env \<Rightarrow> gtime \<times> gtime \<Rightarrow> string \<Rightarrow> string \<Rightarrow> string \<Rightarrow> admin_memory \<Rightarrow> task_detail svc_result" where
  "set_task_status E clock i status actor m = put_planned (plan_status E clock i status actor m) m"

definition set_user_task_status :: "service_env \<Rightarrow> gtime \<times> gtime \<Rightarrow> string \<Rightarrow> string \<Rightarrow> string \<Rightarrow> admin_memory \<Rightarrow> task_detail svc_result" where
  "set_user_task_status E clock i ident status m = put_planned (plan_user_status E clock i ident status m) m"

definition enqueue_task_now :: "gtime \<times> gtime \<Rightarrow> string \<Rightarrow> string \<Rightarrow> admin_memory \<Rightarrow> task_detail svc_result" where
  "enqueue_task_now clock i actor m = put_planned (plan_run_now clock i actor m) m"

section \<open>Runs\<close>

definition list_runs :: "string \<Rightarrow> string \<Rightarrow> int \<Rightarrow> admin_memory \<Rightarrow> task_run list" where
  "list_runs tid status limit m = list_task_runs tid status (if limit \<le> 0 \<or> limit > 200 then 50 else limit) m"

definition get_run :: "string \<Rightarrow> admin_memory \<Rightarrow> svc_error + task_run \<times> task_run_event list" where
  "get_run i m = (case get_task_run i m of Inl e \<Rightarrow> Inl (StoreErr e) | Inr r \<Rightarrow> Inr (r, list_task_run_events i m))"

text \<open>\<open>summarizeOutput\<close> keeps both ends of a long output.\<close>

definition summarize_output :: "string \<Rightarrow> string" where
  "summarize_output s =
     (let s = trim_space s in
      if length s \<le> 12000 then s
      else take 6000 s @ [CHR 0x0A] @ ''...[truncated]...'' @ [CHR 0x0A] @ drop (length s - 6000) s)"

end
