(* ===== verification/Admin_Settings.thy ===== *)
theory Admin_Settings
  imports Go_Json Admin_Accounts Task_Schedule
begin

text \<open>
  \<open>apps/admin-api/internal/service/settings.go\<close>: the settings an administrator may override, the coercion of
  a value to the kind of its setting, and the value in effect, from the store, else from the process
  environment, else the default. The environment of these functions: \<open>os.LookupEnv\<close>, the parsers of JSON
  texts and of float64 literals, \<open>json.Marshal\<close> on strings, and Kubernetes quantities. A float64 that came
  from JSON is finite, so it is a mantissa and a binary exponent.
\<close>

datatype any_value = VNil | VBool bool | VInt int | VFloat int int | VString string | VOther

record quantity =
  qu_sign :: int
  qu_value :: int
  qu_text :: string

record setting_env =
  sv_getenv :: "string \<Rightarrow> string option"
  sv_json :: "string \<Rightarrow> json option"
  sv_float :: "string \<Rightarrow> (int \<times> int) option"
  sv_quote :: "string \<Rightarrow> string"
  sv_quantity :: "string \<Rightarrow> quantity option"
  sv_started :: bool

record setting_def =
  sd_key :: string
  sd_group :: string
  sd_label :: string
  sd_description :: string
  sd_kind :: string
  sd_env :: string
  sd_default :: any_value
  sd_editable :: bool
  sd_min :: int
  sd_max :: int

record setting_view =
  sw_def :: setting_def
  sw_value :: any_value
  sw_source :: string
  sw_configured :: bool
  sw_version :: int
  sw_updated_at :: gtime
  sw_updated_by :: string

section \<open>The table of settings\<close>

abbreviation scheduler_enabled_key :: string where "scheduler_enabled_key \<equiv> ''scheduler.enabled''"
abbreviation scheduler_poll_key :: string where "scheduler_poll_key \<equiv> ''scheduler.poll_secs''"
abbreviation scheduler_run_key :: string where "scheduler_run_key \<equiv> ''scheduler.run_timeout_secs''"
abbreviation scheduler_heartbeat_key :: string where "scheduler_heartbeat_key \<equiv> ''scheduler.heartbeat_secs''"
abbreviation scheduler_lease_key :: string where "scheduler_lease_key \<equiv> ''scheduler.lease_timeout_secs''"

definition int_setting :: "string \<Rightarrow> string \<Rightarrow> string \<Rightarrow> string \<Rightarrow> string \<Rightarrow> int \<Rightarrow> int \<Rightarrow> int \<Rightarrow> setting_def" where
  "int_setting k gr l d e n lo hi = \<lparr>sd_key = k, sd_group = gr, sd_label = l, sd_description = d, sd_kind = ''int'',
     sd_env = e, sd_default = VInt n, sd_editable = True, sd_min = lo, sd_max = hi\<rparr>"

definition setting_definitions :: "setting_def list" where
  "setting_definitions =
   [int_setting ''execution.agent_max_turns'' ''Execution'' ''Agent Max Turns''
      ''Maximum model turns for the next new Agent Run. Client requests may choose a lower value.''
      ''COCOLA_AGENT_MAX_TURNS'' 200 1 1000,
    int_setting ''execution.tool_step_timeout_secs'' ''Execution'' ''Tool Maximum Runtime''
      ''Hard runtime limit in seconds for one tool execution in the next new Agent Run. Quiet commands remain running until this limit or an explicit Stop.''
      ''COCOLA_AGENT_TOOL_STEP_TIMEOUT_SECS'' 3600 30 86400,
    int_setting ''execution.sandbox_idle_timeout_minutes'' ''Execution'' ''Sandbox Idle Timeout (minutes)''
      ''Minutes of inactivity before a Sandbox is reclaimed. Active leases adopt changes within about one minute.''
      ''COCOLA_SANDBOX_IDLE_TIMEOUT_MINUTES'' 30 5 1440,
    \<lparr>sd_key = scheduler_enabled_key, sd_group = ''Scheduler'', sd_label = ''Scheduler Enabled'',
      sd_description = ''Pause or resume due-task execution while the scheduler worker is running.'', sd_kind = ''bool'',
      sd_env = ''COCOLA_SCHEDULER_ENABLED'', sd_default = VBool True, sd_editable = True, sd_min = 0, sd_max = 0\<rparr>,
    int_setting scheduler_poll_key ''Scheduler'' ''Poll Interval'' ''Seconds between due-task scans.''
      ''COCOLA_SCHEDULER_POLL_SECS'' 60 1 3600,
    int_setting scheduler_run_key ''Scheduler'' ''Run Timeout'' ''Maximum seconds allowed for a scheduled task run.''
      ''COCOLA_SCHEDULER_RUN_TIMEOUT_SECS'' 3600 60 86400,
    int_setting scheduler_heartbeat_key ''Scheduler'' ''Heartbeat Interval'' ''Seconds between running-task lease heartbeats.''
      ''COCOLA_SCHEDULER_HEARTBEAT_SECS'' 30 1 3600,
    int_setting scheduler_lease_key ''Scheduler'' ''Lease Timeout''
      ''Seconds after which a running task without heartbeat is marked expired.''
      ''COCOLA_SCHEDULER_LEASE_TIMEOUT_SECS'' 300 60 86400,
    \<lparr>sd_key = ''storage.session_volume_default_size'', sd_group = ''Storage'', sd_label = ''Session Volume Request'',
      sd_description = ''Soft capacity request for the next new local Workspace. Existing volumes are unchanged.'',
      sd_kind = ''quantity'', sd_env = ''COCOLA_SESSION_VOLUME_SIZE'', sd_default = VString ''2Gi'', sd_editable = True,
      sd_min = 0, sd_max = 0\<rparr>,
    int_setting ''observability.trace_retention_days'' ''Observability'' ''Trace Retention''
      ''Days to retain detailed conversation spans. Conversation audit summaries are kept.''
      ''COCOLA_TRACE_RETENTION_DAYS'' 30 1 365]"

definition setting_definition :: "string \<Rightarrow> setting_def option" where
  "setting_definition k = find (\<lambda>d. sd_key d = k) setting_definitions"

section \<open>Coercion\<close>

text \<open>The test \<open>v != float64(int(v))\<close> passes the whole numbers that an int64 holds.\<close>

definition whole_float :: "int \<Rightarrow> int \<Rightarrow> int option" where
  "whole_float m e =
     (let v = (if e \<ge> 0 then Some (m * 2 ^ nat e) else if m mod 2 ^ nat (- e) = 0 then Some (m div 2 ^ nat (- e)) else None)
      in case v of None \<Rightarrow> None | Some n \<Rightarrow> if min_int64 \<le> n \<and> n \<le> max_int64 then Some n else None)"

definition in_bounds :: "setting_def \<Rightarrow> int \<Rightarrow> bool" where
  "in_bounds d n \<longleftrightarrow> \<not> (sd_min d \<noteq> 0 \<and> n < sd_min d) \<and> \<not> (sd_max d \<noteq> 0 \<and> n > sd_max d)"

definition coerce_setting_value :: "setting_env \<Rightarrow> setting_def \<Rightarrow> any_value \<Rightarrow> svc_error + any_value" where
  "coerce_setting_value S d v =
     (if sd_kind d = ''bool'' then (case v of VBool b \<Rightarrow> Inr (VBool b) | _ \<Rightarrow> Inl InvalidArg)
      else if sd_kind d = ''int''
      then (case (case v of VFloat mant e \<Rightarrow> whole_float mant e | VInt n \<Rightarrow> Some n | _ \<Rightarrow> None) of
              None \<Rightarrow> Inl InvalidArg
            | Some n \<Rightarrow> if in_bounds d n then Inr (VInt n) else Inl InvalidArg)
      else if sd_kind d = ''string'' then (case v of VString s \<Rightarrow> Inr (VString (trim_space s)) | _ \<Rightarrow> Inl InvalidArg)
      else if sd_kind d = ''quantity''
      then (case v of
              VString s \<Rightarrow> (case sv_quantity S (trim_space s) of
                  None \<Rightarrow> Inl InvalidArg
                | Some q \<Rightarrow> if qu_sign q \<le> 0 \<or> qu_value q \<le> 0 then Inl InvalidArg else Inr (VString (qu_text q)))
            | _ \<Rightarrow> Inl InvalidArg)
      else Inl PermissionDenied)"

definition any_of_json :: "setting_env \<Rightarrow> json \<Rightarrow> any_value option" where
  "any_of_json S j =
     (case j of JNull \<Rightarrow> Some VNil | JBool b \<Rightarrow> Some (VBool b) | JString s \<Rightarrow> Some (VString s)
      | JNumber s \<Rightarrow> (case sv_float S s of None \<Rightarrow> None | Some (mant, e) \<Rightarrow> Some (VFloat mant e))
      | _ \<Rightarrow> Some VOther)"

definition decode_setting_value :: "setting_env \<Rightarrow> setting_def \<Rightarrow> raw \<Rightarrow> svc_error + any_value" where
  "decode_setting_value S d r =
     (case Option.bind (sv_json S (raw_bytes r)) (any_of_json S) of
        None \<Rightarrow> Inl InvalidArg | Some v \<Rightarrow> coerce_setting_value S d v)"

definition marshal_value :: "setting_env \<Rightarrow> any_value \<Rightarrow> raw" where
  "marshal_value S v = Some (case v of VBool b \<Rightarrow> (if b then ''true'' else ''false'') | VInt n \<Rightarrow> itoa n
     | VString s \<Rightarrow> sv_quote S s | _ \<Rightarrow> ''null'')"

definition normalize_setting_value :: "setting_env \<Rightarrow> setting_def \<Rightarrow> any_value \<Rightarrow> svc_error + any_value \<times> raw" where
  "normalize_setting_value S d v =
     (case coerce_setting_value S d v of Inl e \<Rightarrow> Inl e | Inr v \<Rightarrow> Inr (v, marshal_value S v))"

definition false_words :: "string list" where
  "false_words = [''0'', ''false'', ''FALSE'', ''False'', ''no'', ''NO'', ''off'', ''OFF'']"

definition true_words :: "string list" where
  "true_words = [''1'', ''true'', ''TRUE'', ''True'', ''yes'', ''YES'', ''on'', ''ON'']"

definition env_bool_false_value :: "string \<Rightarrow> bool" where
  "env_bool_false_value v = (trim_space v \<in> set false_words)"

definition parse_bool_setting :: "string \<Rightarrow> svc_error + bool" where
  "parse_bool_setting v =
     (if trim_space v \<in> set true_words then Inr True else if trim_space v \<in> set false_words then Inr False else Inl InvalidArg)"

text \<open>A number that does not parse gives the default, and no error.\<close>

definition parse_setting_string :: "setting_env \<Rightarrow> setting_def \<Rightarrow> string \<Rightarrow> svc_error + any_value" where
  "parse_setting_string S d s =
     (if sd_kind d = ''bool''
      then (if sd_key d = scheduler_enabled_key then Inr (VBool (\<not> env_bool_false_value s))
            else (case parse_bool_setting s of Inl e \<Rightarrow> Inl e | Inr b \<Rightarrow> Inr (VBool b)))
      else if sd_kind d = ''int''
      then (case atoi (trim_space s) of (_, Some _) \<Rightarrow> Inr (sd_default d) | (n, None) \<Rightarrow> coerce_setting_value S d (VInt n))
      else if sd_kind d = ''string'' then Inr (VString (trim_space s))
      else if sd_kind d = ''quantity'' then coerce_setting_value S d (VString (trim_space s))
      else Inr (sd_default d))"

section \<open>The value in effect\<close>

definition zero_setting :: system_setting where
  "zero_setting = \<lparr>ss_key = [], ss_value = None, ss_version = 0, ss_updated_at = 0, ss_updated_by = []\<rparr>"

definition fallback_value :: "setting_env \<Rightarrow> setting_def \<Rightarrow> any_value \<times> string \<times> bool" where
  "fallback_value S d =
     (case (if sd_env d \<noteq> [] then sv_getenv S (sd_env d) else None) of
        None \<Rightarrow> (sd_default d, ''default'', sd_default d \<noteq> VNil)
      | Some s \<Rightarrow> (case parse_setting_string S d s of
            Inr v \<Rightarrow> (v, ''env'', s \<noteq> [])
          | Inl _ \<Rightarrow> (sd_default d, ''default'', sd_default d \<noteq> VNil)))"

definition effective_setting_value :: "setting_env \<Rightarrow> setting_def \<Rightarrow> system_setting \<Rightarrow> any_value \<times> string \<times> bool" where
  "effective_setting_value S d override =
     (if ss_key override \<noteq> []
      then (case decode_setting_value S d (ss_value override) of
              Inr v \<Rightarrow> (v, ''db'', True)
            | Inl _ \<Rightarrow> fallback_value S d)
      else fallback_value S d)"

definition setting_view_of :: "setting_env \<Rightarrow> setting_def \<Rightarrow> system_setting \<Rightarrow> setting_view" where
  "setting_view_of S d override =
     (let (v, source, configured) = effective_setting_value S d override
      in \<lparr>sw_def = d\<lparr>sd_editable := (if sd_key d = scheduler_enabled_key \<and> \<not> sv_started S then False else sd_editable d)\<rparr>,
          sw_value = v, sw_source = source, sw_configured = configured, sw_version = ss_version override,
          sw_updated_at = ss_updated_at override, sw_updated_by = ss_updated_by override\<rparr>)"

definition list_settings :: "setting_env \<Rightarrow> admin_memory \<Rightarrow> setting_view list" where
  "list_settings S m =
     (let overrides = map_of (rev (map (\<lambda>s. (ss_key s, s)) (list_system_settings m)))
      in map (\<lambda>d. setting_view_of S d (case overrides (sd_key d) of None \<Rightarrow> zero_setting | Some s \<Rightarrow> s)) setting_definitions)"

definition update_setting ::
  "setting_env \<Rightarrow> gtime \<Rightarrow> string \<Rightarrow> any_value \<Rightarrow> int \<Rightarrow> string \<Rightarrow> admin_memory \<Rightarrow> (svc_error + setting_view) \<times> admin_memory" where
  "update_setting S now k v expected actor m =
     (case setting_definition k of
        None \<Rightarrow> (Inl (StoreErr StoreNotFound), m)
      | Some d \<Rightarrow>
          if \<not> sd_editable d then (Inl PermissionDenied, m)
          else if sd_key d = scheduler_enabled_key \<and> \<not> sv_started S then (Inl PermissionDenied, m)
          else (case normalize_setting_value S d v of
                  Inl e \<Rightarrow> (Inl e, m)
                | Inr (_, r) \<Rightarrow>
                    (case set_system_setting \<lparr>ss_key = k, ss_value = r, ss_version = 0, ss_updated_at = now, ss_updated_by = actor\<rparr> expected m of
                       (Inl e, m) \<Rightarrow> (Inl (StoreErr e), m)
                     | (Inr s, m) \<Rightarrow> (Inr (setting_view_of S d s), m))))"

definition reset_setting :: "setting_env \<Rightarrow> string \<Rightarrow> int \<Rightarrow> admin_memory \<Rightarrow> (svc_error + unit) \<times> admin_memory" where
  "reset_setting S k expected m =
     (case setting_definition k of
        None \<Rightarrow> (Inl (StoreErr StoreNotFound), m)
      | Some d \<Rightarrow>
          if \<not> sd_editable d then (Inl PermissionDenied, m)
          else if sd_key d = scheduler_enabled_key \<and> \<not> sv_started S then (Inl PermissionDenied, m)
          else (case delete_system_setting k expected m of
                  (Inl StoreNotFound, m) \<Rightarrow> (Inr (), m)
                | (Inl e, m) \<Rightarrow> (Inl (StoreErr e), m)
                | (Inr _, m) \<Rightarrow> (Inr (), m)))"

text \<open>What the scheduler reads: the stored value when it decodes, else the fallback, else an argument.\<close>

definition setting_value :: "setting_env \<Rightarrow> (any_value \<Rightarrow> 'a option) \<Rightarrow> string \<Rightarrow> 'a \<Rightarrow> admin_memory \<Rightarrow> 'a" where
  "setting_value S as k fallback m =
     (case setting_definition k of
        None \<Rightarrow> fallback
      | Some d \<Rightarrow>
          (let stored = (case get_system_setting k m of
                 Inl _ \<Rightarrow> None
               | Inr s \<Rightarrow> (case decode_setting_value S d (ss_value s) of Inl _ \<Rightarrow> None | Inr v \<Rightarrow> as v))
           in case stored of
                Some x \<Rightarrow> x
              | None \<Rightarrow> (case as (fst (effective_setting_value S d zero_setting)) of Some x \<Rightarrow> x | None \<Rightarrow> fallback)))"

definition as_int :: "any_value \<Rightarrow> int option" where
  "as_int v = (case v of VInt n \<Rightarrow> Some n | _ \<Rightarrow> None)"

definition as_bool :: "any_value \<Rightarrow> bool option" where
  "as_bool v = (case v of VBool b \<Rightarrow> Some b | _ \<Rightarrow> None)"

definition setting_int :: "setting_env \<Rightarrow> string \<Rightarrow> int \<Rightarrow> admin_memory \<Rightarrow> int" where
  "setting_int S = setting_value S as_int"

definition setting_bool :: "setting_env \<Rightarrow> string \<Rightarrow> bool \<Rightarrow> admin_memory \<Rightarrow> bool" where
  "setting_bool S = setting_value S as_bool"

definition seconds_duration :: "int \<Rightarrow> duration" where
  "seconds_duration n = int64 (n * 1000000000)"

section \<open>Values have the type of their setting\<close>

fun value_typed :: "setting_def \<Rightarrow> any_value \<Rightarrow> bool" where
  "value_typed d (VBool b) \<longleftrightarrow> sd_kind d = ''bool''"
| "value_typed d (VInt n) \<longleftrightarrow> sd_kind d = ''int'' \<and> in_bounds d n"
| "value_typed d (VString s) \<longleftrightarrow> sd_kind d = ''string'' \<or> sd_kind d = ''quantity''"
| "value_typed d _ \<longleftrightarrow> False"

lemma coerce_typed: "coerce_setting_value S d v = Inr w \<Longrightarrow> value_typed d w"
  by (auto simp: coerce_setting_value_def split: if_splits any_value.splits option.splits)

lemma defaults_typed: "d \<in> set setting_definitions \<Longrightarrow> value_typed d (sd_default d)"
  by (auto simp: setting_definitions_def int_setting_def in_bounds_def)

lemma decode_typed: "decode_setting_value S d r = Inr w \<Longrightarrow> value_typed d w"
  by (auto simp: decode_setting_value_def coerce_typed split: option.splits)

lemma parse_typed: "value_typed d (sd_default d) \<Longrightarrow> parse_setting_string S d s = Inr w \<Longrightarrow> value_typed d w"
  by (auto simp: parse_setting_string_def coerce_typed split: if_splits sum.splits prod.splits option.splits)

lemma fallback_typed: "value_typed d (sd_default d) \<Longrightarrow> value_typed d (fst (fallback_value S d))"
  by (auto simp: fallback_value_def split: option.splits sum.splits dest: parse_typed)

lemma effective_typed: "d \<in> set setting_definitions \<Longrightarrow> value_typed d (fst (effective_setting_value S d s))"
  by (auto simp: effective_setting_value_def fallback_typed defaults_typed split: sum.splits dest: decode_typed)

lemma find_found: "find P xs = Some x \<Longrightarrow> x \<in> set xs \<and> P x"
  by (induction xs) (auto split: if_splits)

lemma setting_definition_in: "setting_definition k = Some d \<Longrightarrow> d \<in> set setting_definitions \<and> sd_key d = k"
  unfolding setting_definition_def by (rule find_found)

text \<open>An integer setting is read within its bounds, whatever is stored and whatever the environment holds.\<close>

lemma setting_int_bounds:
  assumes d: "setting_definition k = Some d" and kind: "sd_kind d = ''int''"
  shows "in_bounds d (setting_int S k fallback m)"
proof -
  have int: "\<exists>n. as_int v = Some n \<and> in_bounds d n" if "value_typed d v" for v
    using that kind by (cases v) (simp_all add: as_int_def)
  have "value_typed d (fst (effective_setting_value S d zero_setting))"
    using setting_definition_in[OF d] by (simp add: effective_typed)
  from int[OF this] show ?thesis
    unfolding setting_int_def setting_value_def using d
    by (auto simp: Let_def split: sum.splits option.splits dest!: decode_typed int)
qed

end
