(* ===== verification/Task_Scheduler.thy ===== *)
theory Task_Scheduler
  imports Task_Service Admin_Settings
begin

text \<open>
  \<open>apps/admin-api/internal/service/scheduler.go\<close> and the events of \<open>user_events.go\<close>: the configuration in effect,
  one pass of the scheduler, the execution of a due task from its claim to its result, and the reading of
  the gateway's event stream. The run itself is done by the gateway: its outcome is an argument. The
  passes work on the in-process store, whose reads of attachments do not fail.
\<close>

section \<open>Configuration\<close>

record scheduler_config =
  sc_enabled :: bool
  sc_gateway_url :: string
  sc_worker_id :: string
  sc_poll_every :: duration
  sc_run_timeout :: duration
  sc_heartbeat_every :: duration
  sc_lease_timeout :: duration

definition lease_or_default :: "duration \<Rightarrow> duration \<Rightarrow> duration" where
  "lease_or_default lease heartbeat = (if lease \<le> 0 then max (300 * nanos) (int64 (heartbeat * 4)) else lease)"

text \<open>\<open>StartScheduler\<close>: nothing is started when the scheduler is disabled; the loop starts with every duration set.\<close>

definition start_scheduler :: "scheduler_config \<Rightarrow> svc_error + scheduler_config option" where
  "start_scheduler c =
     (if \<not> sc_enabled c then Inr None
      else if trim_space (sc_gateway_url c) = [] then Inl InvalidArg
      else (let heartbeat = (if sc_heartbeat_every c \<le> 0 then 30 * nanos else sc_heartbeat_every c)
            in Inr (Some (c\<lparr>sc_worker_id := (if sc_worker_id c = [] then ''admin-api'' else sc_worker_id c),
                 sc_poll_every := (if sc_poll_every c \<le> 0 then 60 * nanos else sc_poll_every c),
                 sc_run_timeout := (if sc_run_timeout c \<le> 0 then 3600 * nanos else sc_run_timeout c),
                 sc_heartbeat_every := heartbeat,
                 sc_lease_timeout := lease_or_default (sc_lease_timeout c) heartbeat\<rparr>))))"

text \<open>\<open>int(d.Seconds())\<close>: whole seconds towards zero. It is only a fallback that no setting of the table needs.\<close>

definition whole_seconds :: "duration \<Rightarrow> int" where
  "whole_seconds d = sgn d * (\<bar>d\<bar> div nanos)"

definition effective_scheduler_config :: "setting_env \<Rightarrow> scheduler_config \<Rightarrow> admin_memory \<Rightarrow> scheduler_config" where
  "effective_scheduler_config S c m =
     (let secs_of = (\<lambda>k d. seconds_duration (setting_int S k (whole_seconds d) m))
      in c\<lparr>sc_enabled := setting_bool S scheduler_enabled_key (sc_enabled c) m,
           sc_poll_every := secs_of scheduler_poll_key (sc_poll_every c),
           sc_run_timeout := secs_of scheduler_run_key (sc_run_timeout c),
           sc_heartbeat_every := secs_of scheduler_heartbeat_key (sc_heartbeat_every c),
           sc_lease_timeout := secs_of scheduler_lease_key (sc_lease_timeout c)\<rparr>)"

definition next_poll :: "setting_env \<Rightarrow> scheduler_config \<Rightarrow> admin_memory \<Rightarrow> duration" where
  "next_poll S c m =
     (let d = sc_poll_every (effective_scheduler_config S c m) in if d \<le> 0 then 60 * nanos else d)"

section \<open>Events for the owner\<close>

record user_event =
  ue_type :: string
  ue_user_id :: string
  ue_occurred_at :: gtime
  ue_conversation_id :: string
  ue_task_id :: string
  ue_run_id :: string
  ue_title :: string
  ue_status :: string
  ue_run_started_at :: gtime
  ue_run_updated_at :: gtime
  ue_run_finished_at :: gtime
  ue_error :: string

definition run_started_at :: "task_run \<Rightarrow> gtime" where
  "run_started_at r = (if tr_started_at r \<noteq> 0 then tr_started_at r else tr_created_at r)"

definition task_conversation :: "scheduled_task \<Rightarrow> string" where
  "task_conversation t = (if st_conversation_id t = [] then ''sched-'' @ st_id t else st_conversation_id t)"

definition task_user_event :: "string \<Rightarrow> scheduled_task \<Rightarrow> task_run \<Rightarrow> string \<Rightarrow> string \<Rightarrow> gtime \<Rightarrow> user_event" where
  "task_user_event ty t r status err at = \<lparr>ue_type = ty, ue_user_id = st_owner_user_id t, ue_occurred_at = at,
     ue_conversation_id = task_conversation t, ue_task_id = st_id t, ue_run_id = tr_id r, ue_title = st_name t,
     ue_status = status, ue_run_started_at = run_started_at r, ue_run_updated_at = tr_updated_at r,
     ue_run_finished_at = tr_finished_at r, ue_error = err\<rparr>"

definition publish_task_event :: "string \<Rightarrow> scheduled_task \<Rightarrow> task_run \<Rightarrow> string \<Rightarrow> string \<Rightarrow> gtime \<Rightarrow> admin_memory \<Rightarrow> user_event list" where
  "publish_task_event ty t r status err now m =
     (if trim_space (st_owner_user_id t) = [] then []
      else (case get_auth_user (st_owner_user_id t) m of
              Inl _ \<Rightarrow> []
            | Inr u \<Rightarrow> [(task_user_event ty t r status err now)\<lparr>ue_user_id := au_email u\<rparr>]))"

abbreviation run_started_event :: string where "run_started_event \<equiv> ''scheduled_task.run.started''"
abbreviation run_finished_event :: string where "run_finished_event \<equiv> ''scheduled_task.run.finished''"
abbreviation run_failed_event :: string where "run_failed_event \<equiv> ''scheduled_task.run.failed''"

text \<open>What a reconnecting browser is told.\<close>

definition run_still_active :: "scheduled_task \<Rightarrow> task_run \<Rightarrow> gtime \<Rightarrow> bool" where
  "run_still_active t r now \<longleftrightarrow>
     \<not> (st_last_run_at t \<noteq> 0 \<and> (run_started_at r = 0 \<or> \<not> st_last_run_at t < run_started_at r)) \<and>
     (let updated = (if tr_updated_at r = 0 then tr_created_at r else tr_updated_at r)
      in updated = 0 \<or> time_sub now updated \<le> 7200 * nanos)"

definition zero_run :: task_run where
  "zero_run = \<lparr>tr_id = [], tr_task_id = [], tr_scheduled_for = 0, tr_status = [], tr_worker_id = [], tr_session_id = [],
     tr_model_route_id = [], tr_model_alias = [], tr_output_text = [], tr_error = [], tr_started_at = 0, tr_finished_at = 0,
     tr_created_at = 0, tr_updated_at = 0\<rparr>"

definition snapshot_of_task :: "auth_user \<Rightarrow> gtime \<Rightarrow> admin_memory \<Rightarrow> scheduled_task \<Rightarrow> user_event list" where
  "snapshot_of_task owner now m t =
     (let running = list_task_runs (st_id t) ''running'' 1 m in
      if running \<noteq> [] \<and> run_still_active t (hd running) now
      then [(task_user_event run_started_event t (hd running) ''running'' []
              (if run_started_at (hd running) = 0 then now else run_started_at (hd running)))\<lparr>ue_user_id := au_email owner\<rparr>]
      else if st_last_run_at t \<noteq> 0 \<and> st_last_run_at t > now - 600 * nanos
      then [(task_user_event (if st_last_status t = ''error'' then run_failed_event else run_finished_event) t
              (zero_run\<lparr>tr_task_id := st_id t, tr_status := st_last_status t\<rparr>) (st_last_status t) (st_last_error t)
              (st_last_run_at t))\<lparr>ue_user_id := au_email owner\<rparr>]
      else [])"

definition user_event_snapshot :: "service_env \<Rightarrow> gtime \<Rightarrow> string \<Rightarrow> admin_memory \<Rightarrow> svc_error + user_event list" where
  "user_event_snapshot E now ident m =
     (case resolve_task_owner E ident m of
        Inl e \<Rightarrow> Inl e
      | Inr owner \<Rightarrow> Inr (concat (map (snapshot_of_task owner now m) (list_scheduled_tasks_for_owner (au_id owner) m))))"

section \<open>The gateway's answer\<close>

record run_event =
  re_kind :: string
  re_data :: "(string, string) gomap"

datatype run_error = CallFailed string | BadEvent string | StreamCut | EndedWith string

definition decode_event :: "service_env \<Rightarrow> string \<Rightarrow> run_event option" where
  "decode_event E s =
     (case se_json E s of
        Some JNull \<Rightarrow> Some \<lparr>re_kind = [], re_data = mnil\<rparr>
      | Some (JObject es) \<Rightarrow>
          (case (read_str ''kind'' es [], read_strings ''data'' es mnil) of
             (Some k, Some d) \<Rightarrow> Some \<lparr>re_kind = k, re_data = d\<rparr>
           | _ \<Rightarrow> None)
      | _ \<Rightarrow> None)"

text \<open>The loop over the lines of the body, up to the first event of kind \<open>done\<close>.\<close>

fun read_stream :: "service_env \<Rightarrow> string list \<Rightarrow> string \<Rightarrow> run_event list \<Rightarrow> run_event list \<times> run_error option" where
  "read_stream E [] name seen = (seen, Some StreamCut)"
| "read_stream E (l # ls) name seen =
     (if has_prefix l ''event:'' then read_stream E ls (trim_space (drop 6 l)) seen
      else if \<not> has_prefix l ''data:'' then read_stream E ls name seen
      else (case decode_event E (trim_space (drop 5 l)) of
              None \<Rightarrow> (seen, Some (BadEvent l))
            | Some ev \<Rightarrow>
                (let ev = (if re_kind ev = [] then ev\<lparr>re_kind := name\<rparr> else ev); seen = seen @ [ev] in
                 if re_kind ev = ''done''
                 then (let status = trim_space (mget0 [] (re_data ev) ''status'')
                       in (seen, if status = ''success'' then None
                                 else Some (EndedWith (if status = [] then ''unknown'' else status))))
                 else read_stream E ls name seen)))"

text \<open>A failure of the scanner after the last line is its error, given as an argument.\<close>

definition read_chat :: "service_env \<Rightarrow> string list \<Rightarrow> string option \<Rightarrow> run_event list \<times> run_error option" where
  "read_chat E ls broken =
     (case read_stream E ls [] [] of
        (seen, Some StreamCut) \<Rightarrow> (seen, Some (case broken of None \<Rightarrow> StreamCut | Some e \<Rightarrow> CallFailed e))
      | r \<Rightarrow> r)"

section \<open>Executing a due task\<close>

record task_claim =
  cl_task :: scheduled_task
  cl_run :: task_run
  cl_next :: gtime

record run_outcome =
  ro_session_id :: string
  ro_events :: "run_event list"
  ro_error :: "string option"

definition due_run :: "scheduler_config \<Rightarrow> gtime \<Rightarrow> string \<Rightarrow> scheduled_task \<Rightarrow> task_run" where
  "due_run c now rid t = zero_run\<lparr>tr_id := rid, tr_task_id := st_id t, tr_scheduled_for := now, tr_status := ''running'',
     tr_worker_id := sc_worker_id c, tr_session_id := ''sched-'' @ st_id t @ ''-'' @ rid, tr_model_route_id := st_model_route_id t,
     tr_model_alias := st_model_alias t, tr_started_at := now, tr_created_at := now, tr_updated_at := now\<rparr>"

definition stop_task :: "string \<Rightarrow> gtime \<Rightarrow> scheduled_task \<Rightarrow> scheduled_task" where
  "stop_task status now t = t\<lparr>st_status := status, st_next_run_at := 0, st_updated_at := now\<rparr>"

text \<open>Up to the claim; a schedule that cannot be computed is tried again in five minutes.\<close>

definition next_or_retry :: "service_env \<Rightarrow> gtime \<Rightarrow> scheduled_task \<Rightarrow> gtime" where
  "next_or_retry E now t = (case next_run_after_task E t now of Inl _ \<Rightarrow> now + 300 * nanos | Inr next \<Rightarrow> next)"

definition owner_gone :: "scheduled_task \<Rightarrow> admin_memory \<Rightarrow> bool" where
  "owner_gone t m = (case get_auth_user (st_owner_user_id t) m of Inl _ \<Rightarrow> True | Inr u \<Rightarrow> \<not> au_enabled u)"

definition begin_due :: "service_env \<Rightarrow> scheduler_config \<Rightarrow> gtime \<Rightarrow> string \<Rightarrow> scheduled_task \<Rightarrow> admin_memory \<Rightarrow> task_claim option \<times> admin_memory" where
  "begin_due E c now rid t m =
     (if st_expires_at t \<noteq> 0 \<and> st_expires_at t < now
      then (None, snd (update_scheduled_task (stop_task ''expired'' now t) False [] m))
      else if owner_gone t m
      then (None, snd (update_scheduled_task ((stop_task ''paused'' now t)\<lparr>st_last_error := ''Task owner is disabled or unavailable''\<rparr>) False [] m))
      else (let next = next_or_retry E now t; r = due_run c now rid t in
            case try_start_task_run (st_id t) r next m of
              (Inr (Some t), m) \<Rightarrow> (Some \<lparr>cl_task = t, cl_run = r, cl_next = next\<rparr>, m)
            | (_, m) \<Rightarrow> (None, m)))"

text \<open>While the gateway streams: each event is appended to the run; a failure to append is ignored.\<close>

definition append_event :: "service_env \<Rightarrow> string \<Rightarrow> int \<Rightarrow> gtime \<Rightarrow> run_event \<Rightarrow> admin_memory \<Rightarrow> admin_memory" where
  "append_event E rid sq now ev m = snd (append_task_run_event \<lparr>te_id = 0, te_run_id = rid, te_seq = sq, te_kind = re_kind ev,
     te_data = Some (se_marshal E (re_data ev)), te_created_at = now\<rparr> m)"

definition append_events :: "service_env \<Rightarrow> string \<Rightarrow> (nat \<Rightarrow> gtime) \<Rightarrow> run_event list \<Rightarrow> admin_memory \<Rightarrow> admin_memory" where
  "append_events E rid clock evs m = fold (\<lambda>(i, ev). append_event E rid (int i + 1) (clock i) ev) (enumerate 0 evs) m"

definition output_of :: "run_event list \<Rightarrow> string" where
  "output_of evs = concat (map (\<lambda>ev. if re_kind ev = ''text'' then mget0 [] (re_data ev) ''text'' else []) evs)"

definition finish_due_run :: "gtime \<Rightarrow> task_run \<Rightarrow> gtime \<Rightarrow> string \<Rightarrow> string \<Rightarrow> string \<Rightarrow> admin_memory \<Rightarrow> unit admin_result" where
  "finish_due_run now r next status output err m = update_task_run (r\<lparr>tr_status := status, tr_output_text := summarize_output output,
     tr_error := err, tr_finished_at := now, tr_updated_at := now\<rparr>) next True m"

definition end_due :: "gtime \<Rightarrow> task_claim \<Rightarrow> run_outcome \<Rightarrow> admin_memory \<Rightarrow> user_event list \<times> admin_memory" where
  "end_due now cl out m =
     (let r = (cl_run cl)\<lparr>tr_session_id := ro_session_id out\<rparr>; t = cl_task cl;
          (status, err) = (case ro_error out of None \<Rightarrow> (''success'', []) | Some e \<Rightarrow> (''error'', e)) in
      case finish_due_run now r (cl_next cl) status (output_of (ro_events out)) err m of
        (Inl _, m) \<Rightarrow> (publish_task_event run_failed_event t r ''error'' ''Task result could not be saved'' now m, m)
      | (Inr _, m) \<Rightarrow> (publish_task_event (if status = ''success'' then run_finished_event else run_failed_event) t r status err now m, m))"

text \<open>
  The whole of \<open>executeDueTask\<close> when nothing else happens to the store meanwhile. The clock gives the
  reading at the start, at the end (the events for the owner carry the same readings) and at each event of
  the stream; the runner sees the claimed task and its attachments.
\<close>

record exec_clock =
  ck_begin :: gtime
  ck_end :: gtime
  ck_event :: "nat \<Rightarrow> gtime"

type_synonym runner = "scheduled_task \<Rightarrow> task_attachment list \<Rightarrow> run_outcome"

definition execute_due_task ::
  "service_env \<Rightarrow> scheduler_config \<Rightarrow> runner \<Rightarrow> exec_clock \<Rightarrow> string \<Rightarrow> scheduled_task \<Rightarrow> admin_memory \<Rightarrow> user_event list \<times> admin_memory" where
  "execute_due_task E c run ck rid t m =
     (case begin_due E c (ck_begin ck) rid t m of
        (None, m) \<Rightarrow> ([], m)
      | (Some cl, m) \<Rightarrow>
          (let started = publish_task_event run_started_event (cl_task cl) (cl_run cl) ''running'' [] (ck_begin ck) m;
               out = run (cl_task cl) (list_task_attachments (st_id (cl_task cl)) m);
               m = append_events E rid (ck_event ck) (ro_events out) m;
               (ended, m) = end_due (ck_end ck) cl out m
           in (started @ ended, m)))"

section \<open>One pass\<close>

definition stale_error :: string where
  "stale_error = ''scheduled task run expired after worker heartbeat timeout''"

definition expire_stale :: "scheduler_config \<Rightarrow> gtime \<Rightarrow> admin_memory \<Rightarrow> user_event list \<times> admin_memory" where
  "expire_stale c now m =
     (let lease = lease_or_default (sc_lease_timeout c) (if sc_heartbeat_every c \<le> 0 then 30 * nanos else sc_heartbeat_every c) in
      case expire_stale_task_runs (now - lease) now stale_error 20 m of
        (Inl _, m) \<Rightarrow> ([], m)
      | (Inr rs, m) \<Rightarrow>
          (concat (map (\<lambda>r. case get_scheduled_task (tr_task_id r) m of
              Inl _ \<Rightarrow> [] | Inr t \<Rightarrow> publish_task_event run_failed_event t r ''error'' stale_error now m) rs), m))"

primrec execute_all ::
  "service_env \<Rightarrow> scheduler_config \<Rightarrow> runner \<Rightarrow> (nat \<Rightarrow> exec_clock) \<Rightarrow> (nat \<Rightarrow> string) \<Rightarrow> nat \<Rightarrow> scheduled_task list \<Rightarrow> admin_memory \<Rightarrow>
   user_event list \<times> admin_memory" where
  "execute_all E c run cks fresh i [] m = ([], m)"
| "execute_all E c run cks fresh i (t # ts) m =
     (let (evs, m) = execute_due_task E c run (cks i) (fresh i) t m; (more, m) = execute_all E c run cks fresh (Suc i) ts m
      in (evs @ more, m))"

definition run_scheduler_once ::
  "service_env \<Rightarrow> setting_env \<Rightarrow> scheduler_config \<Rightarrow> runner \<Rightarrow> gtime \<Rightarrow> (nat \<Rightarrow> exec_clock) \<Rightarrow> (nat \<Rightarrow> string) \<Rightarrow> admin_memory \<Rightarrow>
   user_event list \<times> admin_memory" where
  "run_scheduler_once E S base run now cks fresh m =
     (let c = effective_scheduler_config S base m;
          (stale, m) = expire_stale c now m;
          m = snd (expire_scheduled_tasks now 100 m)
      in if \<not> sc_enabled c then (stale, m)
         else (let (evs, m) = execute_all E c run cks fresh 0 (list_due_tasks now 5 m) m in (stale @ evs, m)))"

text \<open>The heartbeat of a run while the gateway streams.\<close>

definition heartbeat_tick :: "scheduler_config \<Rightarrow> string \<Rightarrow> gtime \<Rightarrow> admin_memory \<Rightarrow> admin_memory" where
  "heartbeat_tick c rid now m = snd (heartbeat_task_run rid (sc_worker_id c) now m)"

end
