(* ===== verification/Schedule_Laws.thy ===== *)
theory Schedule_Laws
  imports Task_Schedule
begin

text \<open>
  What a schedule means: the instants at which it fires, stated on the reading of the wall clock. The
  next run is the first of them after a given instant, wherever the zone keeps its offset in between.
\<close>

section \<open>The meaning of a schedule\<close>

datatype schedule = Hourly int | Daily int | Weekly int int | Monthly int int

text \<open>The clock of a day is counted in seconds; days of the week run from Monday, 1, to Sunday, 7.\<close>

fun rings :: "schedule \<Rightarrow> int \<Rightarrow> bool" where
  "rings (Hourly c) w \<longleftrightarrow> w mod 3600 = c"
| "rings (Daily c) w \<longleftrightarrow> w mod 86400 = c"
| "rings (Weekly wd c) w \<longleftrightarrow> w mod 86400 = c \<and> (w div 86400) mod 7 = wd - 1"
| "rings (Monthly day c) w \<longleftrightarrow> w mod 86400 = c \<and> (case civil (w div 86400) of (y, mo, d) \<Rightarrow> d = min day (days_in y mo))"

definition fires :: "location \<Rightarrow> schedule \<Rightarrow> gtime \<Rightarrow> bool" where
  "fires loc s t \<longleftrightarrow> t mod nanos = 0 \<and> rings s (wall_secs loc t)"

definition schedule_of :: "service_env \<Rightarrow> string \<Rightarrow> raw \<Rightarrow> schedule option" where
  "schedule_of E kind spec =
     (if kind = ''hourly'' then map_option (\<lambda>mi. Hourly (60 * mi)) (hourly_spec E spec)
      else if kind = ''daily'' then map_option (\<lambda>(h, mi). Daily (3600 * h + 60 * mi)) (daily_spec E spec)
      else if kind = ''weekly'' then map_option (\<lambda>(wd, h, mi). Weekly wd (3600 * h + 60 * mi)) (weekly_spec E spec)
      else if kind = ''monthly'' then map_option (\<lambda>(d, h, mi). Monthly d (3600 * h + 60 * mi)) (monthly_spec E spec)
      else None)"

section \<open>The first ring after a reading\<close>

definition month_ring :: "int \<Rightarrow> int \<Rightarrow> int \<Rightarrow> int" where
  "month_ring day c k = 86400 * (month_start k + min day (month_size k) - 1) + c"

fun next_ring :: "schedule \<Rightarrow> int \<Rightarrow> int" where
  "next_ring (Hourly c) l = (let w = 3600 * (l div 3600) + c in if w > l then w else w + 3600)"
| "next_ring (Daily c) l = (let w = 86400 * (l div 86400) + c in if w > l then w else w + 86400)"
| "next_ring (Weekly wd c) l =
     (let days = (wd - 1 - l div 86400 mod 7) mod 7; w = 86400 * (l div 86400 + days) + c
      in if w > l then w else 86400 * (l div 86400 + 7) + c)"
| "next_ring (Monthly day c) l =
     (let (y, mo, _) = civil (l div 86400); k = month_no y mo
      in if month_ring day c k > l then month_ring day c k else month_ring day c (k + 1))"

fun schedule_ok :: "schedule \<Rightarrow> bool" where
  "schedule_ok (Hourly c) \<longleftrightarrow> 0 \<le> c \<and> c < 3600"
| "schedule_ok (Daily c) \<longleftrightarrow> 0 \<le> c \<and> c < 86400"
| "schedule_ok (Weekly wd c) \<longleftrightarrow> 1 \<le> wd \<and> wd \<le> 7 \<and> 0 \<le> c \<and> c < 86400"
| "schedule_ok (Monthly day c) \<longleftrightarrow> 1 \<le> day \<and> day \<le> 31 \<and> 0 \<le> c \<and> c < 86400"

definition first_ring :: "schedule \<Rightarrow> int \<Rightarrow> int \<Rightarrow> bool" where
  "first_ring s l w \<longleftrightarrow> l < w \<and> rings s w \<and> (\<forall>v. l < v \<longrightarrow> v < w \<longrightarrow> \<not> rings s v)"

text \<open>A clock that rings every \<open>p\<close> seconds.\<close>

lemma periodic_ring:
  fixes p c l :: int
  assumes "0 < p" "0 \<le> c" "c < p" and w: "w = (let w = p * (l div p) + c in if w > l then w else w + p)"
  shows "l < w" "w \<le> l + p" "w mod p = c" "\<And>v. l < v \<Longrightarrow> v < w \<Longrightarrow> v mod p \<noteq> c"
proof -
  have "p * (l div p) + l mod p = l" "0 \<le> l mod p" "l mod p < p" using assms(1) by simp_all
  then show lw: "l < w" and wl: "w \<le> l + p" using w assms(2,3) unfolding Let_def by (smt (verit))+
  show wm: "w mod p = c" using w assms(2,3) by (auto simp: Let_def)
  fix v assume v: "l < v" "v < w"
  show "v mod p \<noteq> c"
  proof
    assume "v mod p = c"
    with wm have "(w - v) mod p = 0" by (simp add: mod_eq_dvd_iff[symmetric] flip: dvd_eq_mod_eq_0)
    then obtain i where i: "w - v = p * i" by (auto simp: mod_eq_0_iff_dvd)
    have "0 < p * i" "p * i < p" using i v wl by linarith+
    with assms(1) have "0 < i" using zero_less_mult_pos by blast
    then have "p * 1 \<le> p * i" using assms(1) by (intro mult_left_mono) simp_all
    with \<open>p * i < p\<close> show False by simp
  qed
qed

lemma week_clock:
  fixes w c wd :: int
  assumes "0 \<le> c" "c < 86400" "0 \<le> wd" "wd < 7"
  shows "w mod 86400 = c \<and> (w div 86400) mod 7 = wd \<longleftrightarrow> w mod 604800 = 86400 * wd + c"
proof -
  have split: "w mod 604800 = 86400 * (w div 86400 mod 7) + w mod 86400"
    using zmod_zmult2_eq[of 7 w 86400] by simp
  have m: "0 \<le> w mod 86400" "w mod 86400 < 86400" by simp_all
  show ?thesis unfolding split
  proof
    assume "86400 * (w div 86400 mod 7) + w mod 86400 = 86400 * wd + c"
    moreover from this have "w div 86400 mod 7 = wd" using m assms(1,2) by linarith
    ultimately show "w mod 86400 = c \<and> w div 86400 mod 7 = wd" by simp
  qed simp
qed

lemma next_week:
  fixes l c wd :: int
  assumes "0 \<le> c" "c < 86400" "1 \<le> wd" "wd \<le> 7"
  shows "next_ring (Weekly wd c) l =
    (let w = 604800 * (l div 604800) + (86400 * (wd - 1) + c) in if w > l then w else w + 604800)"
proof -
  define q where "q = l div 86400 div 7"
  define m where "m = l div 86400 mod 7"
  define s where "s = l mod 86400"
  have D: "l div 86400 = 7 * q + m" "0 \<le> m" "m < 7" unfolding q_def m_def by simp_all
  have l: "l = 86400 * (7 * q + m) + s" "0 \<le> s" "s < 86400"
    using mult_div_mod_eq[of 86400 l] unfolding D(1)[symmetric] s_def by simp_all
  have Q: "l div 604800 = q" unfolding q_def using zdiv_zmult2_eq[of 7 l 86400] by simp
  have M: "(7 * q + m) mod 7 = m" using D(1) m_def by simp
  show ?thesis
  proof (cases "m \<le> wd - 1")
    case True
    then have days: "(wd - 1 - m) mod 7 = wd - 1 - m" using D(2) assms(4) by simp
    have w: "86400 * (7 * q + m + (wd - 1 - m)) + c = 604800 * q + (86400 * (wd - 1) + c)" by simp
    have "m = wd - 1" if "\<not> 604800 * q + (86400 * (wd - 1) + c) > l"
      using l True assms(1) that by (smt (verit))
    then show ?thesis unfolding next_ring.simps D(1) M days w Q Let_def by auto
  next
    case False
    have "(wd - 1 - m) mod 7 = (wd - 1 - m + 7) mod 7" by (rule mod_add_self2[symmetric])
    also have "\<dots> = wd - 1 - m + 7" using False assms(3) D(3) by (intro mod_pos_pos_trivial) simp_all
    finally have days: "(wd - 1 - m) mod 7 = wd - 1 - m + 7" .
    have w: "86400 * (7 * q + m + (wd - 1 - m + 7)) + c = 604800 * q + (86400 * (wd - 1) + c) + 604800" by simp
    have "604800 * q + (86400 * (wd - 1) + c) + 604800 > l" "\<not> 604800 * q + (86400 * (wd - 1) + c) > l"
      using l False assms D(3) by (smt (verit))+
    then show ?thesis unfolding next_ring.simps D(1) M days w Q Let_def by auto
  qed
qed

lemma month_ring_month:
  assumes "1 \<le> day" "day \<le> 31" "0 \<le> c" "c < 86400"
  shows "86400 * month_start k \<le> month_ring day c k" "month_ring day c k < 86400 * month_start (k + 1)"
    "month_ring day c k div 86400 = month_start k + min day (month_size k) - 1" "month_ring day c k mod 86400 = c"
proof -
  have m: "1 \<le> min day (month_size k)" "min day (month_size k) \<le> month_size k" using month_size_bounds[of k] assms by simp_all
  show d: "month_ring day c k div 86400 = month_start k + min day (month_size k) - 1" "month_ring day c k mod 86400 = c"
    unfolding month_ring_def using int_div_mod_unique[of _ 86400 "month_start k + min day (month_size k) - 1" c] assms by simp_all
  show "86400 * month_start k \<le> month_ring day c k" "month_ring day c k < 86400 * month_start (k + 1)"
    using m assms month_start_step[of k] unfolding month_ring_def by (smt (verit))+
qed

text \<open>The only ring of a month.\<close>

lemma rings_monthly:
  assumes day: "1 \<le> day" "day \<le> 31" and c: "0 \<le> c" "c < 86400" and k: "month_start k \<le> w div 86400" "w div 86400 < month_start (k + 1)"
  shows "rings (Monthly day c) w \<longleftrightarrow> w = month_ring day c k"
proof -
  obtain y mo d where cv: "civil (w div 86400) = (y, mo, d)" by (cases "civil (w div 86400)") auto
  note s = civil_sound[OF cv]
  have kk: "k = month_no y mo" by (rule month_unique[OF k civil_month[OF cv]])
  have size: "month_size k = days_in y mo" unfolding kk by (rule month_size_no) (use s in simp_all)
  have "w div 86400 = month_start k + (d - 1)" using s by (simp add: day_no_def kk)
  moreover have "w = 86400 * (w div 86400) + w mod 86400" by simp
  ultimately have w: "w = 86400 * (month_start k + (d - 1)) + w mod 86400" by simp
  have "rings (Monthly day c) w \<longleftrightarrow> w mod 86400 = c \<and> d = min day (days_in y mo)" by (simp add: cv)
  also have "\<dots> \<longleftrightarrow> w = month_ring day c k"
  proof
    assume "w mod 86400 = c \<and> d = min day (days_in y mo)"
    with w show "w = month_ring day c k" unfolding month_ring_def size by simp
  next
    assume eq: "w = month_ring day c k"
    with month_ring_month[OF day c, of k] have "w mod 86400 = c" "w div 86400 = month_start k + min day (month_size k) - 1" by simp_all
    with \<open>w div 86400 = month_start k + (d - 1)\<close> show "w mod 86400 = c \<and> d = min day (days_in y mo)" by (simp add: size)
  qed
  finally show ?thesis .
qed

lemma div_day: "86400 * a \<le> (w::int) \<Longrightarrow> w < 86400 * b \<Longrightarrow> a \<le> w div 86400 \<and> w div 86400 < b"
  by linarith

lemma first_ring_monthly:
  assumes day: "1 \<le> day" "day \<le> 31" and c: "0 \<le> c" "c < 86400"
  shows "first_ring (Monthly day c) l (next_ring (Monthly day c) l) \<and> next_ring (Monthly day c) l \<le> l + 5356800"
proof -
  obtain y mo d where cv: "civil (l div 86400) = (y, mo, d)" by (cases "civil (l div 86400)") auto
  define k where "k = month_no y mo"
  note M = month_ring_month[OF day c] and R = rings_monthly[OF day c]
  have k: "month_start k \<le> l div 86400" "l div 86400 < month_start (k + 1)" using civil_month[OF cv] by (simp_all add: k_def)
  have lk: "86400 * month_start k \<le> l" "l < 86400 * month_start (k + 1)" using k by linarith+
  have ring: "rings (Monthly day c) (month_ring day c j)" for j
    using R[of j "month_ring day c j"] div_day[OF M(1,2)[of j]] by blast
  have lens: "month_start (k + 1) \<le> month_start k + 31" "month_start (k + 1 + 1) \<le> month_start (k + 1) + 31"
    using month_start_step[of k] month_start_step[of "k + 1"] month_size_bounds[of k] month_size_bounds[of "k + 1"] by simp_all
  show ?thesis
  proof (cases "month_ring day c k > l")
    case True
    then have n: "next_ring (Monthly day c) l = month_ring day c k" by (simp add: cv k_def Let_def)
    have "\<not> rings (Monthly day c) v" if "l < v" "v < month_ring day c k" for v
    proof -
      have "86400 * month_start k \<le> v" "v < 86400 * month_start (k + 1)" using that lk M(2)[of k] by linarith+
      with R[of k v] div_day[OF this] that show ?thesis by auto
    qed
    with True ring[of k] M(2)[of k] lk lens show ?thesis unfolding n first_ring_def by auto
  next
    case False
    then have n: "next_ring (Monthly day c) l = month_ring day c (k + 1)" by (simp add: cv k_def Let_def)
    have "\<not> rings (Monthly day c) v" if v: "l < v" "v < month_ring day c (k + 1)" for v
    proof (cases "v < 86400 * month_start (k + 1)")
      case True
      have "86400 * month_start k \<le> v" using v lk by linarith
      from R[of k v] div_day[OF this True] False v show ?thesis by auto
    next
      case False
      then have "86400 * month_start (k + 1) \<le> v" "v < 86400 * month_start (k + 1 + 1)" using v M(2)[of "k + 1"] by linarith+
      from R[of "k + 1" v] div_day[OF this] v show ?thesis by auto
    qed
    with ring[of "k + 1"] M(1,2)[of "k + 1"] lk lens show ?thesis unfolding n first_ring_def by auto
  qed
qed

text \<open>Every schedule rings again within 62 days, and \<open>next_ring\<close> is when.\<close>

lemma first_ring_next:
  assumes "schedule_ok s"
  shows "first_ring s l (next_ring s l) \<and> next_ring s l \<le> l + 5356800"
proof (cases s)
  case (Hourly c)
  from periodic_ring[of 3600 c "next_ring s l" l] assms show ?thesis unfolding Hourly first_ring_def by auto
next
  case (Daily c)
  from periodic_ring[of 86400 c "next_ring s l" l] assms show ?thesis unfolding Daily first_ring_def by auto
next
  case (Weekly wd c)
  with assms have ok: "0 \<le> c" "c < 86400" "1 \<le> wd" "wd \<le> 7" by simp_all
  have rings: "rings (Weekly wd c) v \<longleftrightarrow> v mod 604800 = 86400 * (wd - 1) + c" for v
    using week_clock[of c "wd - 1" v] ok by simp
  have c: "0 \<le> 86400 * (wd - 1) + c" "86400 * (wd - 1) + c < 604800" using ok by simp_all
  have pos: "(0::int) < 604800" by simp
  note week = periodic_ring[OF pos c next_week[OF ok]]
  have "next_ring (Weekly wd c) l \<le> l + 5356800" using week(2)[of l] by simp
  moreover have "first_ring (Weekly wd c) l (next_ring (Weekly wd c) l)"
    unfolding first_ring_def rings using week(1,3,4)[of l] by blast
  ultimately show ?thesis unfolding Weekly by blast
next
  case (Monthly day c)
  then show ?thesis using assms first_ring_monthly[of day c l] by simp
qed

section \<open>The next run is the next ring\<close>

text \<open>
  The offset is the same from 33 days before an instant to 64 days after it, read either way; a zone that
  never changes its offset is steady around every instant.
\<close>

definition steady_around :: "location \<Rightarrow> int \<Rightarrow> gtime \<Rightarrow> bool" where
  "steady_around loc off t \<longleftrightarrow> \<bar>off\<bar> \<le> 86400 \<and> steady loc off (secs t - 2851200) (secs t + 5529600)"

lemma steady_around_wall:
  assumes "steady_around loc off t" "secs t - 2851200 \<le> secs u" "secs u \<le> secs t + 5529600"
  shows "wall_secs loc u = secs u + off"
proof -
  have "zs_offset (loc (secs u)) = off"
    by (rule steadyD[of loc off "secs t - 2851200" "secs t + 5529600"]) (use assms in \<open>auto simp: steady_around_def\<close>)
  then show ?thesis by (simp add: wall_secs_def)
qed

text \<open>A reading between 31 days before and 62 days after belongs to one instant.\<close>

lemma steady_around_date:
  assumes "steady_around loc off t" "n = 86400 * day_no y mo d + 3600 * h + 60 * mi + s"
    "secs t + off - 2678400 \<le> n" "n \<le> secs t + off + 5356800"
  shows "time_date loc y mo d h mi s 0 = nanos * (n - off)"
proof -
  have z: "- 86400 \<le> off" "off \<le> 86400" "steady loc off (secs t - 2851200) (secs t + 5529600)"
    using assms(1) unfolding steady_around_def by auto
  have "time_date loc y mo d h mi s 0 = nanos * (n - off) + 0"
    by (rule time_date_steady[OF z(3) assms(2)]) (use z(1,2) assms(3,4) in linarith)+
  then show ?thesis by simp
qed

lemma secs_whole [simp]: "secs (nanos * u) = u"
  by (simp add: secs_def)

lemma after_whole: "nanos * u > t \<longleftrightarrow> u > secs t"
proof -
  have "t = nanos * secs t + t mod nanos" "0 \<le> t mod nanos" "t mod nanos < nanos" by (simp_all add: secs_def)
  then show ?thesis by (smt (verit))
qed

lemma day_clock: "86400 * (l div 86400) + 3600 * (l mod 86400 div 3600) = 3600 * (l div 3600)" for l :: int
proof -
  have "l div 3600 mod 24 = l mod 86400 div 3600" using zmod_zmult2_eq[of 24 l 3600] by simp
  moreover have "l div 3600 div 24 = l div 86400" using zdiv_zmult2_eq[of 24 l 3600] by simp
  ultimately show ?thesis using mult_div_mod_eq[of 24 "l div 3600"] by simp
qed

lemma reading: "steady_around loc off t \<Longrightarrow> wall_secs loc t = secs t + off"
  using steady_around_wall[of loc off t t] by (simp del: not_less)

text \<open>The instant of a date counted in days from the day of an instant, and of a day of a month.\<close>

lemma date_of_day:
  assumes "steady_around loc off t" "civil (wall_day loc t) = (y, mo, d)" "w = 86400 * (wall_day loc t + k) + c" "c = 3600 * h + 60 * mi"
    "wall_secs loc t - 2678400 \<le> w" "w \<le> wall_secs loc t + 5356800"
  shows "time_date loc y mo (d + k) h mi 0 0 = nanos * (w - off)"
proof (rule steady_around_date[OF assms(1)])
  have "day_no y mo (d + k) = wall_day loc t + k" using civil_sound[OF assms(2)] by (simp add: day_no_def)
  with assms(3,4) show "w = 86400 * day_no y mo (d + k) + 3600 * h + 60 * mi + 0" by simp
qed (use assms(5,6) reading[OF assms(1)] in simp_all)

lemma month_shift: "month_no y (mo + i) = month_no y mo + i"
  by (simp add: month_no_def)

text \<open>Day 0 of the next month is the last day of a month.\<close>

lemma last_day:
  assumes "1 \<le> m" "m \<le> month_size k"
  shows "civil (month_start k + m - 1) = (k div 12, k mod 12 + 1, m)"
proof -
  have k: "month_no (k div 12) (k mod 12 + 1) = k" by (simp add: month_no_def)
  have "civil (day_no (k div 12) (k mod 12 + 1) m) = (k div 12, k mod 12 + 1, m)"
    by (rule civil_day_no) (use assms in \<open>simp_all add: month_size_def\<close>)
  then show ?thesis unfolding day_no_def k by (simp add: algebra_simps)
qed

lemma whole_day:
  assumes "steady_around loc off t" "0 \<le> c" "c < 86400" "wall_secs loc t - 2678400 \<le> 86400 * n + c" "86400 * n + c \<le> wall_secs loc t + 5356800"
  shows "wall_day loc (nanos * (86400 * n + c - off)) = n"
proof -
  have s: "secs (nanos * (86400 * n + c - off)) = 86400 * n + c - off" by (rule secs_whole)
  have "wall_secs loc (nanos * (86400 * n + c - off)) = 86400 * n + c - off + off"
    using steady_around_wall[OF assms(1), of "nanos * (86400 * n + c - off)"] assms(4,5) reading[OF assms(1)] unfolding s by linarith
  with assms(2,3) show ?thesis by (simp add: wall_day_def)
qed

text \<open>Each schedule, as the code computes it.\<close>

lemma pick: "(if \<not> nanos * (a - off) > t then nanos * (b - off) else nanos * (a - off)) =
    nanos * ((if a > secs t + off then a else b) - off)"
  unfolding after_whole by (simp add: less_diff_eq)

lemma next_hourly_ring:
  assumes st: "steady_around loc off t" and mi: "0 \<le> mi" "mi \<le> 59"
  shows "next_hourly loc mi t = nanos * (next_ring (Hourly (60 * mi)) (wall_secs loc t) - off)"
proof -
  obtain y mo d where cv: "civil (wall_day loc t) = (y, mo, d)" by (cases "civil (wall_day loc t)") auto
  define w where "w = 3600 * (wall_secs loc t div 3600) + 60 * mi"
  have near: "wall_secs loc t - 2678400 \<le> w" "w \<le> wall_secs loc t + 5356800"
    using mi mult_div_mod_eq[of 3600 "wall_secs loc t"] pos_mod_bound[of 3600 "wall_secs loc t"] pos_mod_sign[of 3600 "wall_secs loc t"]
    unfolding w_def by linarith+
  have w: "w = 86400 * (wall_day loc t + 0) + (3600 * hour_of loc t + 60 * mi)"
    using day_clock[of "wall_secs loc t"] by (simp add: w_def wall_day_def wall_clock_def hour_of_def)
  from date_of_day[OF st cv w refl near] have date: "time_date loc y mo d (hour_of loc t) mi 0 0 = nanos * (w - off)" by simp
  have add: "nanos * (w - off) + 3600 * nanos = nanos * (w + 3600 - off)" by (simp add: algebra_simps)
  show ?thesis
    unfolding next_hourly_def cv prod.case Let_def date add pick next_ring.simps reading[OF st, symmetric] w_def[symmetric] ..
qed

lemma day_bounds: "86400 * wall_day loc t \<le> wall_secs loc t" "wall_secs loc t < 86400 * wall_day loc t + 86400"
  unfolding wall_day_def by linarith+

lemma next_daily_ring:
  assumes st: "steady_around loc off t" and c: "valid_clock h mi"
  shows "next_daily loc (h, mi) t = nanos * (next_ring (Daily (3600 * h + 60 * mi)) (wall_secs loc t) - off)"
proof -
  obtain y mo d where cv: "civil (wall_day loc t) = (y, mo, d)" by (cases "civil (wall_day loc t)") auto
  have c: "0 \<le> 3600 * h + 60 * mi" "3600 * h + 60 * mi < 86400" using c unfolding valid_clock_def by linarith+
  have date: "time_date loc y mo (d + k) h mi 0 0 = nanos * (86400 * (wall_day loc t + k) + (3600 * h + 60 * mi) - off)"
    if "0 \<le> k" "k \<le> 1" for k
    by (rule date_of_day[OF st cv refl refl]) (use that day_bounds[of loc t] c in \<open>simp_all add: distrib_left\<close>)
  have date0: "time_date loc y mo d h mi 0 0 = nanos * (86400 * wall_day loc t + (3600 * h + 60 * mi) - off)"
    and date1: "time_date loc y mo (d + 1) h mi 0 0 = nanos * (86400 * wall_day loc t + (3600 * h + 60 * mi) + 86400 - off)"
    using date[of 0] date[of 1] by (simp_all add: algebra_simps)
  show ?thesis
    unfolding next_daily_def cv prod.case Let_def date0 date1 pick next_ring.simps reading[OF st, symmetric] wall_day_def[symmetric] ..
qed

lemma sunday: "(n + 1) mod 7 = 0 \<Longrightarrow> n mod 7 = 6" for n :: int
  by presburger

lemma next_weekly_ring:
  assumes st: "steady_around loc off t" and wd: "1 \<le> wd" "wd \<le> 7" and c: "valid_clock h mi"
  shows "next_weekly loc (wd, h, mi) t = nanos * (next_ring (Weekly wd (3600 * h + 60 * mi)) (wall_secs loc t) - off)"
proof -
  obtain y mo d where cv: "civil (wall_day loc t) = (y, mo, d)" by (cases "civil (wall_day loc t)") auto
  have c: "0 \<le> 3600 * h + 60 * mi" "3600 * h + 60 * mi < 86400" using c unfolding valid_clock_def by linarith+
  have date: "time_date loc y mo (d + k) h mi 0 0 = nanos * (86400 * (wall_day loc t + k) + (3600 * h + 60 * mi) - off)"
    if "0 \<le> k" "k \<le> 7" for k
    by (rule date_of_day[OF st cv refl refl]) (use that day_bounds[of loc t] c in \<open>simp_all add: distrib_left\<close>)
  define iso where "iso = (if weekday loc t = 0 then 7 else weekday loc t)"
  have iso: "(iso - 1) mod 7 = wall_day loc t mod 7"
  proof (cases "weekday loc t = 0")
    case True
    then have "(wall_day loc t + 1) mod 7 = 0" by (simp add: weekday_def)
    then have "wall_day loc t mod 7 = 6" by (rule sunday)
    with True show ?thesis by (simp add: iso_def)
  next
    case False
    then show ?thesis by (simp add: iso_def weekday_def mod_diff_left_eq)
  qed
  have days: "(wd - iso + 7) mod 7 = (wd - 1 - wall_day loc t mod 7) mod 7"
    unfolding iso[symmetric] mod_diff_right_eq by simp
  have date7: "time_date loc y mo (d + 7) h mi 0 0 = nanos * (86400 * (wall_day loc t + 7) + (3600 * h + 60 * mi) - off)"
    by (rule date) simp_all
  have in_week: "0 \<le> (wd - 1 - wall_day loc t mod 7) mod 7" "(wd - 1 - wall_day loc t mod 7) mod 7 \<le> 7" by simp_all
  show ?thesis
    unfolding next_weekly_def cv prod.case Let_def iso_def[symmetric] days date[OF in_week] date7 pick next_ring.simps
      reading[OF st, symmetric] wall_day_def[symmetric] ..
qed

lemma monthly_candidate_ring:
  assumes st: "steady_around loc off t" and day: "1 \<le> day" "day \<le> 31" and c: "valid_clock h mi" and k: "k = month_no y mo"
    and near: "wall_day loc t - 30 \<le> month_start k" "month_start (k + 1) \<le> wall_day loc t + 62"
  shows "monthly_candidate loc y mo (day, h, mi) = nanos * (month_ring day (3600 * h + 60 * mi) k - off)"
proof -
  have size: "1 \<le> month_size k" "month_size k \<le> month_size k" "month_size k \<le> 31" using month_size_bounds[of k] by simp_all
  have c: "0 \<le> 3600 * h + 60 * mi" "3600 * h + 60 * mi < 86400" using c unfolding valid_clock_def by linarith+
  have at: "time_date loc y (mo + i) d h' mi' 0 0 = nanos * (86400 * (month_start (k + i) + d - 1) + (3600 * h' + 60 * mi') - off)"
    if "wall_secs loc t - 2678400 \<le> 86400 * (month_start (k + i) + d - 1) + (3600 * h' + 60 * mi')"
      "86400 * (month_start (k + i) + d - 1) + (3600 * h' + 60 * mi') \<le> wall_secs loc t + 5356800" for i d h' mi'
  proof (rule steady_around_date[OF st])
    have "day_no y (mo + i) d = month_start (k + i) + d - 1" by (simp add: day_no_def month_shift k)
    then show "86400 * (month_start (k + i) + d - 1) + (3600 * h' + 60 * mi') = 86400 * day_no y (mo + i) d + 3600 * h' + 60 * mi' + 0" by simp
  qed (use that reading[OF st] in simp_all)
  have step: "month_start (k + 1) = month_start k + month_size k" by (rule month_start_step)
  have last: "time_date loc y (mo + 1) 0 0 0 0 0 = nanos * (86400 * (month_start k + month_size k - 1) + 0 - off)"
    using at[of 1 0 0 0] near size day_bounds[of loc t] by (simp add: step distrib_left)
  have "wall_day loc (nanos * (86400 * (month_start k + month_size k - 1) + 0 - off)) = month_start k + month_size k - 1"
    by (rule whole_day[OF st]) (use near size step day_bounds[of loc t] in \<open>simp_all add: distrib_left\<close>)
  then have cv: "civil (wall_day loc (time_date loc y (mo + 1) 0 0 0 0 0)) = (k div 12, k mod 12 + 1, month_size k)"
    unfolding last by (simp only: last_day[OF size(1,2)])
  have min: "(if day > month_size k then month_size k else day) = min day (month_size k)" by simp
  have "time_date loc y mo (min day (month_size k)) h mi 0 0 = nanos * (month_ring day (3600 * h + 60 * mi) k - off)"
    using at[of 0 "min day (month_size k)" h mi] near size day step day_bounds[of loc t] c
    by (simp add: month_ring_def distrib_left min_def)
  then show ?thesis unfolding monthly_candidate_def prod.case cv Let_def min .
qed

lemma next_monthly_ring:
  assumes st: "steady_around loc off t" and day: "1 \<le> day" "day \<le> 31" and c: "valid_clock h mi"
  shows "next_monthly loc (day, h, mi) t = nanos * (next_ring (Monthly day (3600 * h + 60 * mi)) (wall_secs loc t) - off)"
proof -
  obtain y mo d where cv: "civil (wall_day loc t) = (y, mo, d)" by (cases "civil (wall_day loc t)") auto
  define k where "k = month_no y mo"
  have k: "month_start k \<le> wall_day loc t" "wall_day loc t < month_start (k + 1)" using civil_month[OF cv] by (simp_all add: k_def)
  have step: "month_start (k + 1) = month_start k + month_size k" "month_start (k + 1 + 1) = month_start (k + 1) + month_size (k + 1)"
    by (rule month_start_step)+
  have size: "28 \<le> month_size k" "month_size k \<le> 31" "1 \<le> month_size (k + 1)" "month_size (k + 1) \<le> 31"
    using month_size_bounds[of k] month_size_bounds[of "k + 1"] by simp_all
  have this_month: "monthly_candidate loc y mo (day, h, mi) = nanos * (month_ring day (3600 * h + 60 * mi) k - off)"
    by (rule monthly_candidate_ring[OF st day c k_def]) (use k step(1) size in linarith)+
  have "time_date loc y (mo + 1) 1 0 0 0 0 = nanos * (86400 * month_start (k + 1) - off)"
  proof (rule steady_around_date[OF st])
    show "86400 * month_start (k + 1) = 86400 * day_no y (mo + 1) 1 + 3600 * 0 + 60 * 0 + 0"
      by (simp add: day_no_def month_shift k_def)
  qed (use k step(1) size day_bounds[of loc t] reading[OF st] in \<open>simp_all add: distrib_left\<close>)
  moreover have "wall_day loc (nanos * (86400 * month_start (k + 1) + 0 - off)) = month_start (k + 1)"
    by (rule whole_day[OF st]) (use k step(1) size day_bounds[of loc t] in \<open>simp_all add: distrib_left\<close>)
  ultimately have next_month: "civil (wall_day loc (time_date loc y (mo + 1) 1 0 0 0 0)) = ((k + 1) div 12, (k + 1) mod 12 + 1, 1)"
    using last_day[of 1 "k + 1"] size(3) by simp
  have next_no: "k + 1 = month_no ((k + 1) div 12) ((k + 1) mod 12 + 1)" by (simp add: month_no_def)
  have "monthly_candidate loc ((k + 1) div 12) ((k + 1) mod 12 + 1) (day, h, mi) = nanos * (month_ring day (3600 * h + 60 * mi) (k + 1) - off)"
    by (rule monthly_candidate_ring[OF st day c next_no]) (use k step size in linarith)+
  with next_month show ?thesis
    unfolding next_monthly_def cv prod.case Let_def this_month next_month
    by (simp only: pick next_ring.simps reading[OF st, symmetric] wall_day_def[symmetric] cv prod.case Let_def k_def[symmetric])
qed

section \<open>The first instant at which a schedule fires\<close>

definition first_fire :: "location \<Rightarrow> schedule \<Rightarrow> gtime \<Rightarrow> gtime \<Rightarrow> bool" where
  "first_fire loc s after t \<longleftrightarrow> after < t \<and> fires loc s t \<and> (\<forall>u. after < u \<longrightarrow> u < t \<longrightarrow> \<not> fires loc s u)"

lemma ring_fires:
  assumes st: "steady_around loc off after" and s: "schedule_ok s" and t: "t = nanos * (next_ring s (wall_secs loc after) - off)"
  shows "first_fire loc s after t \<and> t \<le> after + 5356800 * nanos"
proof -
  define w where "w = next_ring s (wall_secs loc after)"
  note L = reading[OF st]
  from first_ring_next[OF s] have w: "wall_secs loc after < w" "rings s w" "\<And>v. wall_secs loc after < v \<Longrightarrow> v < w \<Longrightarrow> \<not> rings s v"
    "w \<le> wall_secs loc after + 5356800" unfolding first_ring_def w_def by blast+
  have st_secs: "secs t = w - off" unfolding t w_def by (rule secs_whole)
  have "wall_secs loc t = secs t + off"
    by (rule steady_around_wall[OF st]) (use w(1,4) L st_secs in simp_all)
  with w(2) st_secs have "fires loc s t" by (simp add: fires_def t w_def)
  moreover have "after < t" using w(1) L unfolding t w_def[symmetric] after_whole by simp
  moreover have "\<not> fires loc s u" if u: "after < u" "u < t" for u
  proof
    assume f: "fires loc s u"
    then have whole: "u = nanos * secs u" using mult_div_mod_eq[of nanos u] by (simp add: fires_def secs_def)
    then have "secs after < secs u" using u(1) after_whole[of after "secs u"] by simp
    moreover have "secs u < w - off" using u(2) unfolding t w_def[symmetric] by (subst (asm) whole) simp
    ultimately have near: "secs after < secs u" "secs u < w - off" .
    have "wall_secs loc u = secs u + off"
      by (rule steady_around_wall[OF st]) (use near w(4) L in simp_all)
    then show False using w(3)[of "wall_secs loc u"] near L f by (simp add: fires_def)
  qed
  moreover have "t \<le> after + 5356800 * nanos"
  proof -
    have "nanos * secs after \<le> after" using after_whole[of after "secs after"] by linarith
    then show ?thesis using w(4) L unfolding t w_def[symmetric] by (simp add: algebra_simps)
  qed
  ultimately show ?thesis unfolding first_fire_def by blast
qed

lemma specs_ok:
  "hourly_spec E spec = Some mi \<Longrightarrow> 0 \<le> mi \<and> mi \<le> 59"
  "daily_spec E spec = Some (h, mi) \<Longrightarrow> valid_clock h mi"
  "weekly_spec E spec = Some (wd, h, mi) \<Longrightarrow> 1 \<le> wd \<and> wd \<le> 7 \<and> valid_clock h mi"
  "monthly_spec E spec = Some (d, h, mi) \<Longrightarrow> 1 \<le> d \<and> d \<le> 31 \<and> valid_clock h mi"
  by (auto simp: hourly_spec_def daily_spec_def weekly_spec_def monthly_spec_def split: Option.bind_splits if_splits)

lemma valid_clock_day: "valid_clock h mi \<Longrightarrow> 0 \<le> 3600 * h + 60 * mi \<and> 3600 * h + 60 * mi < 86400"
  unfolding valid_clock_def by linarith

lemma compute_next_fires:
  assumes run: "compute_next E kind spec tz after = Inr t" and kind: "kind \<noteq> ''once''"
    and loc: "se_location E tz = Some loc" and st: "steady_around loc off after"
  shows "\<exists>s. schedule_of E kind spec = Some s \<and> first_fire loc s after t \<and> t \<le> after + 5356800 * nanos"
proof -
  consider mi where "kind = ''hourly''" "hourly_spec E spec = Some mi" "t = next_hourly loc mi after"
    | h mi where "kind = ''daily''" "daily_spec E spec = Some (h, mi)" "t = next_daily loc (h, mi) after"
    | wd h mi where "kind = ''weekly''" "weekly_spec E spec = Some (wd, h, mi)" "t = next_weekly loc (wd, h, mi) after"
    | dy h mi where "kind = ''monthly''" "monthly_spec E spec = Some (dy, h, mi)" "t = next_monthly loc (dy, h, mi) after"
    using run kind loc by (auto simp: compute_next_def split: if_splits option.splits)
  then show ?thesis
  proof cases
    case 1
    with specs_ok(1)[OF 1(2)] ring_fires[OF st _ , of "Hourly (60 * mi)" t] next_hourly_ring[OF st, of mi] show ?thesis
      by (simp add: schedule_of_def)
  next
    case 2
    with specs_ok(2)[OF 2(2)] ring_fires[OF st _ , of "Daily (3600 * h + 60 * mi)" t] next_daily_ring[OF st, of h mi] valid_clock_day show ?thesis
      by (simp add: schedule_of_def)
  next
    case 3
    with specs_ok(3)[OF 3(2)] ring_fires[OF st _ , of "Weekly wd (3600 * h + 60 * mi)" t] next_weekly_ring[OF st, of wd h mi] valid_clock_day show ?thesis
      by (simp add: schedule_of_def)
  next
    case 4
    with specs_ok(4)[OF 4(2)] ring_fires[OF st _ , of "Monthly dy (3600 * h + 60 * mi)" t] next_monthly_ring[OF st, of dy h mi] valid_clock_day show ?thesis
      by (simp add: schedule_of_def)
  qed
qed

end
