(* ===== verification/Task_Typing.thy ===== *)
theory Task_Typing
  imports Task_Scheduler Schedule_Laws Task_Laws
begin

text \<open>
  Stored tasks are well-typed: their status is one of the four, their required texts are there and their
  schedule decodes. Every operation of the service and of the scheduler keeps this, even when the plan it
  writes was made from an older store, and the schedule of a well-typed task can always be computed.
\<close>

section \<open>Well-typed tasks\<close>

definition spec_typed :: "service_env \<Rightarrow> string \<Rightarrow> raw \<Rightarrow> string \<Rightarrow> bool" where
  "spec_typed E kind spec tz \<longleftrightarrow> se_location E tz \<noteq> None \<and>
     (if kind = ''once'' then once_spec E spec \<noteq> None else schedule_of E kind spec \<noteq> None)"

definition task_typed :: "service_env \<Rightarrow> scheduled_task \<Rightarrow> bool" where
  "task_typed E t \<longleftrightarrow> valid_task_status (st_status t) \<and> st_name t \<noteq> [] \<and> st_prompt t \<noteq> [] \<and> st_model_alias t \<noteq> [] \<and>
     st_model_route_id t \<noteq> [] \<and> spec_typed E (st_schedule_kind t) (st_schedule_spec t) (st_timezone t)"

lemma raw_bytes_clone [simp]: "raw_bytes (clone_raw r) = raw_bytes r"
  by (simp add: raw_bytes_def clone_raw_def split: option.split)

lemma struct_entries_clone [simp]: "struct_entries E (clone_raw r) = struct_entries E r"
  by (simp add: struct_entries_def)

lemma specs_clone [simp]:
  "once_spec E (clone_raw r) = once_spec E r" "schedule_of E kind (clone_raw r) = schedule_of E kind r"
  by (simp_all add: once_spec_def schedule_of_def hourly_spec_def daily_spec_def weekly_spec_def monthly_spec_def)

lemma clone_typed [simp]: "task_typed E (clone_task t) = task_typed E t"
  by (simp add: task_typed_def spec_typed_def clone_task_def)

lemma computed_typed: "compute_next E kind spec tz after = Inr n \<Longrightarrow> spec_typed E kind spec tz"
  by (auto simp: compute_next_def spec_typed_def schedule_of_def split: option.splits if_splits)

lemma typed_computes:
  assumes "spec_typed E kind spec tz" "kind \<noteq> ''once''"
  shows "\<exists>n. compute_next E kind spec tz after = Inr n"
  using assms by (auto simp: compute_next_def spec_typed_def schedule_of_def split: option.splits if_splits)

lemma typed_next_run:
  assumes "task_typed E t"
  shows "\<exists>n. next_run_after_task E t now = Inr n \<and> next_or_retry E now t = n"
proof (cases "st_schedule_kind t = ''once''")
  case False
  from typed_computes[OF _ this, of E "st_schedule_spec t" "st_timezone t" now] assms obtain n where
    "compute_next E (st_schedule_kind t) (st_schedule_spec t) (st_timezone t) now = Inr n"
    unfolding task_typed_def by blast
  with False show ?thesis by (simp add: next_run_after_task_def next_or_retry_def)
qed (simp add: next_run_after_task_def next_or_retry_def)

text \<open>Whatever an input says, a task made from it is well-typed.\<close>

lemma input_typed:
  assumes "task_from_input E clock i old inp create = Inr t"
  shows "task_typed E t"
proof -
  obtain n1 n2 n3 where clock: "clock = (n1, n2, n3)" by (cases clock) auto
  from assms obtain nx where c: "compute_next E (keep_if create (st_schedule_kind old) (ti_schedule_kind inp))
      (keep_raw create (st_schedule_spec old) (ti_schedule_spec inp)) (input_timezone old inp create) n2 = Inr nx"
    and t: "t = fill_task old inp create i nx n3"
    and ok: "keep_if create (st_name old) (ti_name inp) \<noteq> []" "keep_if create (st_prompt old) (ti_prompt inp) \<noteq> []"
      "keep_if create (st_model_alias old) (ti_model_alias inp) \<noteq> []" "valid_task_status (input_status old inp create)"
    unfolding task_from_input_def Let_def clock prod.case by (auto split: if_splits sum.splits)
  from computed_typed[OF c] ok show ?thesis unfolding t task_typed_def fill_task_def Let_def by simp
qed

lemma typed_fields:
  assumes "task_typed E t" "st_name u = st_name t" "st_prompt u = st_prompt t" "st_model_alias u = st_model_alias t"
    "st_model_route_id u = st_model_route_id t" "st_schedule_kind u = st_schedule_kind t" "st_schedule_spec u = st_schedule_spec t"
    "st_timezone u = st_timezone t" "valid_task_status (st_status u)"
  shows "task_typed E u"
  using assms by (simp add: task_typed_def)

lemma typed_status: "task_typed E t \<Longrightarrow> valid_task_status (st_status t)"
  by (simp add: task_typed_def)

text \<open>The changes of state of the scheduler and of the service.\<close>

lemma typed_changes:
  assumes t: "task_typed E t"
  shows "task_typed E (expire_task now t)" "task_typed E (claim_task r next t)" "task_typed E (settle_task_status t)"
    "task_typed E (count_run t)" "task_typed E (finish_task r next t)" "task_typed E (stop_task ''expired'' now t)"
    "task_typed E ((stop_task ''paused'' now t)\<lparr>st_last_error := e\<rparr>)"
    "task_typed E (count_run (settle_task_status (t\<lparr>st_last_run_at := now, st_last_status := s, st_last_error := e, st_updated_at := u\<rparr>)))"
  by (rule typed_fields[OF t]; use typed_status[OF t] in
      \<open>simp add: expire_task_def claim_task_def settle_task_status_def count_run_def finish_task_def stop_task_def valid_task_status_def Let_def\<close>)+

lemma switch_typed:
  assumes "switch_task E clock status actor t m = Inr u" "task_typed E t" "valid_task_status status"
  shows "task_typed E u"
proof (rule typed_fields[OF assms(2)])
qed (use assms in \<open>auto simp: switch_task_def Let_def split: if_splits prod.splits option.splits sum.splits\<close>)

section \<open>Well-typed stores\<close>

definition tasks_typed :: "service_env \<Rightarrow> admin_memory \<Rightarrow> bool" where
  "tasks_typed E m \<longleftrightarrow> (\<forall>i t. mget (am_tasks m) i = Some t \<longrightarrow> task_typed E t)"

lemma tasks_typedD: "tasks_typed E m \<Longrightarrow> mget (am_tasks m) i = Some t \<Longrightarrow> task_typed E t"
  unfolding tasks_typed_def by blast

lemma tasks_typed_same: "am_tasks n = am_tasks m \<Longrightarrow> tasks_typed E n = tasks_typed E m"
  by (simp add: tasks_typed_def)

lemma put_typed: "tasks_typed E m \<Longrightarrow> task_typed E t \<Longrightarrow> tasks_typed E (put_task i t m)"
  unfolding tasks_typed_def by (simp add: gm.get_put)

lemma add_attachments_tasks [simp]: "am_tasks (snd (add_attachments as m)) = am_tasks m"
  by (induction as arbitrary: m) simp_all

lemma create_typed: "tasks_typed E m \<Longrightarrow> task_typed E t \<Longrightarrow> tasks_typed E (snd (create_scheduled_task t as m))"
  using put_typed[of E m t "st_id t"] by (simp add: create_scheduled_task_def tasks_typed_def)

lemma update_typed: "tasks_typed E m \<Longrightarrow> task_typed E t \<Longrightarrow> tasks_typed E (snd (update_scheduled_task t r as m))"
  using put_typed[of E m t "st_id t"]
  by (simp add: update_scheduled_task_def tasks_typed_def put_attachments_def drop_attachments_def Let_def)

lemma write_typed: "tasks_typed E m \<Longrightarrow> task_typed E t \<Longrightarrow> tasks_typed E (snd (write_task t r as m))"
  using update_typed[of E m t r as] by (auto simp: write_task_def split: prod.splits sum.splits)

lemma remove_typed: "tasks_typed E m \<Longrightarrow> tasks_typed E (remove_task i m)"
  unfolding tasks_typed_def by (simp add: remove_task_maps gm.get_del)

lemma delete_typed: "tasks_typed E m \<Longrightarrow> tasks_typed E (snd (delete_task i m))"
  "tasks_typed E m \<Longrightarrow> tasks_typed E (snd (delete_user_task E' i u m))"
  by (simp_all add: delete_task_def delete_user_task_def store_answer_def delete_scheduled_task_def
      delete_scheduled_task_for_owner_def remove_typed split: option.split sum.split)

lemma try_start_typed:
  assumes "tasks_typed E m"
  shows "tasks_typed E (snd (try_start_task_run tid r next m))"
proof (cases "try_start_task_run tid r next m")
  case (Pair res m')
  from Pair show ?thesis
  proof (cases rule: try_start_cases)
    case (4 t)
    have "tasks_typed E (put_task tid (claim_task r next t) m)"
      by (rule put_typed[OF assms typed_changes(2)[OF tasks_typedD[OF assms 4(1)]]])
    then show ?thesis unfolding Pair 4(6) by (simp add: tasks_typed_def)
  qed (use assms Pair in simp_all)
qed

lemma expire_tasks_typed:
  assumes "tasks_typed E m"
  shows "tasks_typed E (snd (expire_scheduled_tasks now limit m))"
proof -
  have fold: "tasks_typed E m \<Longrightarrow> (\<And>t. t \<in> set ts \<Longrightarrow> task_typed E t) \<Longrightarrow>
      tasks_typed E (fold (\<lambda>t. put_task (st_id t) (expire_task now t)) ts m)" for ts m
    by (induction ts arbitrary: m) (simp_all add: put_typed typed_changes)
  have "task_typed E t" if "t \<in> set (limited limit (sort_key st_expires_at (filter (task_expiring now) (mvals (am_tasks m)))))" for t
  proof -
    from that have "t \<in> set (mvals (am_tasks m))" by (auto simp: limited_def split: if_splits dest: in_set_takeD)
    then show ?thesis unfolding mvals_iff using tasks_typedD[OF assms] by blast
  qed
  from fold[OF assms this] show ?thesis by (simp add: expire_scheduled_tasks_def Let_def)
qed

lemma expire_runs_typed: "tasks_typed E m \<Longrightarrow> tasks_typed E (snd (expire_runs now err rs ended m))"
proof (induction rs arbitrary: m ended)
  case (Cons r rs)
  let ?m = "put_task_run (expire_run now err r) m"
  have typed: "tasks_typed E ?m" using Cons.prems by (simp add: tasks_typed_def)
  show ?case
  proof (cases "mget (am_tasks m) (tr_task_id r)")
    case (Some t)
    note u = typed_changes(8)[OF tasks_typedD[OF Cons.prems Some], of now "tr_error (expire_run now err r)" "tr_status (expire_run now err r)" now]
    from Some show ?thesis using Cons.IH[OF put_typed[OF typed u]] by (simp add: Let_def)
  qed (use typed in \<open>simp add: Let_def\<close>)
qed simp

lemma end_typed:
  assumes "tasks_typed E m"
  shows "tasks_typed E (snd (end_due now cl out m))"
proof -
  have "tasks_typed E (snd (update_task_run r nx terminal m))" for r nx terminal
  proof (cases "mget (am_tasks m) (tr_task_id r)")
    case (Some t)
    have "tasks_typed E (put_task_run r m)" using assms by (simp add: tasks_typed_def)
    from put_typed[OF this typed_changes(5)[OF tasks_typedD[OF assms Some]]] this Some assms
    show ?thesis by (simp add: update_task_run_def Let_def)
  next
    case None
    with assms show ?thesis by (simp add: update_task_run_def tasks_typed_def Let_def)
  qed
  then show ?thesis by (auto simp: end_due_def finish_due_run_def Let_def split: prod.splits sum.splits option.splits) (metis snd_conv)+
qed

end
