(* ===== verification/Account_Service.thy ===== *)
theory Account_Service
  imports Task_Service
begin

text \<open>
  The accounts of \<open>apps/admin-api/internal/service/admin.go\<close>: the whitelist of users, the own account, login,
  the bootstrap administrator, token records and quotas. As for tasks, an operation that reads and then
  writes is a plan over the row it read and a write, run back to back. \<open>bcrypt.GenerateFromPassword\<close> is an
  argument, a function that may fail.
\<close>

section \<open>Strings\<close>

definition contains_any :: "string \<Rightarrow> string \<Rightarrow> bool" where
  "contains_any s chars = list_ex (\<lambda>c. c \<in> set chars) s"

primrec index_byte :: "string \<Rightarrow> char \<Rightarrow> int" where
  "index_byte [] c = - 1"
| "index_byte (x # xs) c = (if x = c then 0 else (let i = index_byte xs c in if i < 0 then - 1 else i + 1))"

definition last_index_byte :: "string \<Rightarrow> char \<Rightarrow> int" where
  "last_index_byte s c = (let i = index_byte (rev s) c in if i < 0 then - 1 else int (length s) - 1 - i)"

abbreviation line_chars :: string where "line_chars \<equiv> [CHR 0x00, CHR 0x0D, CHR 0x0A]"
abbreviation blank_chars :: string where "blank_chars \<equiv> [CHR 0x00, CHR 0x0D, CHR 0x0A, CHR 0x09, CHR 0x20]"

section \<open>Users\<close>

record auth_user_input =
  ui_name :: string
  ui_username :: string
  ui_email :: string
  ui_tenant :: "string option"
  ui_role :: string
  ui_enabled :: "bool option"
  ui_password :: string
  ui_actor :: string

record login_result =
  lg_id :: string
  lg_username :: string
  lg_email :: string
  lg_name :: string
  lg_role :: string
  lg_enabled :: bool
  lg_version :: int

record own_account_input =
  oi_name :: string
  oi_username :: string
  oi_email :: string
  oi_current_password :: string
  oi_expected_version :: int

record own_password_input =
  op_current_password :: string
  op_new_password :: string
  op_expected_version :: int

record bootstrap_input =
  bi_username :: string
  bi_email :: string
  bi_password :: string
  bi_password_hash :: string
  bi_reset :: bool
  bi_actor :: string

type_synonym hasher = "string \<Rightarrow> svc_error + string"

definition user_unavailable :: "auth_user \<Rightarrow> bool" where
  "user_unavailable u \<longleftrightarrow> \<not> au_enabled u \<or> au_deleted_at u \<noteq> 0"

definition is_bootstrap_admin :: "auth_user \<Rightarrow> bool" where
  "is_bootstrap_admin u \<longleftrightarrow> fold_eq (trim_space (au_created_by u)) ''bootstrap''"

definition normalize_email :: "service_env \<Rightarrow> string \<Rightarrow> string" where
  "normalize_email E s = to_lower E (trim_space s)"

definition normalize_username :: "service_env \<Rightarrow> string \<Rightarrow> string" where
  "normalize_username E s = to_lower E (trim_space s)"

definition is_self_actor :: "service_env \<Rightarrow> auth_user \<Rightarrow> string \<Rightarrow> bool" where
  "is_self_actor E u actor \<longleftrightarrow> normalize_email E actor \<noteq> [] \<and> normalize_email E actor = au_email u"

definition default_username :: "service_env \<Rightarrow> string \<Rightarrow> string" where
  "default_username E email =
     (let local = normalize_username E (takeWhile (\<lambda>c. c \<noteq> CHR ''@'') email) in if local = [] then ''user'' else local)"

definition valid_role :: "string \<Rightarrow> bool" where
  "valid_role r \<longleftrightarrow> r = ''user'' \<or> r = ''admin''"

definition valid_account_profile :: "string \<Rightarrow> string \<Rightarrow> string \<Rightarrow> bool" where
  "valid_account_profile name username email =
     (if name = [] \<or> length name > 128 \<or> contains_any name line_chars
         \<or> username = [] \<or> length username > 64 \<or> contains_any username blank_chars
         \<or> email = [] \<or> length email > 254 \<or> contains_any email blank_chars
      then False
      else (let at = index_byte email CHR ''@''
            in at > 0 \<and> at = last_index_byte email CHR ''@'' \<and> at < int (length email) - 1))"

definition public_user :: "auth_user \<Rightarrow> login_result" where
  "public_user u = \<lparr>lg_id = au_id u, lg_username = au_username u, lg_email = au_email u,
     lg_name = (if au_name u \<noteq> [] then au_name u else if au_username u \<noteq> [] then au_username u else au_email u),
     lg_role = au_role u, lg_enabled = au_enabled u, lg_version = au_version u\<rparr>"

definition hash_password :: "hasher \<Rightarrow> string \<Rightarrow> svc_error + string" where
  "hash_password gen p =
     (if trim_space p = [] \<or> rune_count p < 8 \<or> length p > 72 then Inl InvalidArg else gen p)"

section \<open>Administrators\<close>

definition new_user :: "service_env \<Rightarrow> hasher \<Rightarrow> gtime \<Rightarrow> string \<Rightarrow> auth_user_input \<Rightarrow> svc_error + auth_user" where
  "new_user E gen now i inp =
     (let email = normalize_email E (ui_email inp);
          username = (let u = normalize_username E (ui_username inp) in if u = [] then default_username E email else u);
          role = (if ui_role inp = [] then ''user'' else ui_role inp);
          name = (if trim_space (ui_name inp) = [] then username else trim_space (ui_name inp))
      in if \<not> valid_account_profile name username email \<or> \<not> valid_role role \<or> trim_space (ui_password inp) = []
         then Inl InvalidArg
         else (case hash_password gen (ui_password inp) of
                 Inl e \<Rightarrow> Inl e
               | Inr pw \<Rightarrow> Inr \<lparr>au_id = i, au_username = username, au_email = email, au_name = name,
                   au_tenant_id = (case ui_tenant inp of None \<Rightarrow> [] | Some t \<Rightarrow> trim_space t), au_role = role,
                   au_enabled = (case ui_enabled inp of None \<Rightarrow> True | Some b \<Rightarrow> b), au_version = 1, au_password_hash = pw,
                   au_created_at = now, au_updated_at = now, au_last_login_at = 0, au_created_by = ui_actor inp,
                   au_updated_by = ui_actor inp, au_password_updated = now, au_deleted_at = 0, au_deleted_by = []\<rparr>))"

definition create_user :: "service_env \<Rightarrow> hasher \<Rightarrow> gtime \<Rightarrow> string \<Rightarrow> auth_user_input \<Rightarrow> admin_memory \<Rightarrow> auth_user svc_result" where
  "create_user E gen now i inp m =
     (case new_user E gen now i inp of
        Inl e \<Rightarrow> (Inl e, m)
      | Inr u \<Rightarrow> (case create_auth_user u m of (Inl e, m) \<Rightarrow> (Inl (StoreErr e), m) | (Inr _, m) \<Rightarrow> (Inr u, m)))"

definition get_user_by_email :: "service_env \<Rightarrow> string \<Rightarrow> admin_memory \<Rightarrow> svc_error + auth_user" where
  "get_user_by_email E email m =
     (let v = normalize_email E email in
      if v = [] then Inl InvalidArg else (case get_auth_user_by_email v m of Inl e \<Rightarrow> Inl (StoreErr e) | Inr u \<Rightarrow> Inr u))"

definition get_user :: "string \<Rightarrow> admin_memory \<Rightarrow> svc_error + auth_user" where
  "get_user i m =
     (if trim_space i = [] then Inl InvalidArg
      else (case get_auth_user (trim_space i) m of
              Inl e \<Rightarrow> Inl (StoreErr e)
            | Inr u \<Rightarrow> if au_deleted_at u \<noteq> 0 then Inl (StoreErr StoreNotFound) else Inr u))"

definition get_user_by_identifier :: "service_env \<Rightarrow> string \<Rightarrow> admin_memory \<Rightarrow> svc_error + auth_user" where
  "get_user_by_identifier E ident m =
     (let v = normalize_identifier E ident in
      if v = [] then Inl InvalidArg else (case get_auth_user_by_identifier v m of Inl e \<Rightarrow> Inl (StoreErr e) | Inr u \<Rightarrow> Inr u))"

text \<open>The row an administrator's operation starts from.\<close>

definition read_user :: "string \<Rightarrow> admin_memory \<Rightarrow> svc_error + auth_user" where
  "read_user i m =
     (if i = [] then Inl InvalidArg
      else (case get_auth_user i m of
              Inl e \<Rightarrow> Inl (StoreErr e)
            | Inr u \<Rightarrow> if au_deleted_at u \<noteq> 0 then Inl (StoreErr StoreNotFound) else Inr u))"

text \<open>\<open>SetAuthUser\<close>: the profile first, then the role, then the switch, each with its guards.\<close>

definition set_profile :: "service_env \<Rightarrow> auth_user_input \<Rightarrow> auth_user \<Rightarrow> svc_error + auth_user" where
  "set_profile E inp u =
     (let keep = (\<lambda>old given. if given = [] then old else given);
          u = u\<lparr>au_email := keep (au_email u) (normalize_email E (ui_email inp)),
                au_username := keep (au_username u) (normalize_username E (ui_username inp)),
                au_name := keep (au_name u) (trim_space (ui_name inp))\<rparr>
      in if \<not> valid_account_profile (au_name u) (au_username u) (au_email u) then Inl InvalidArg else Inr u)"

definition set_role :: "service_env \<Rightarrow> auth_user_input \<Rightarrow> auth_user \<Rightarrow> svc_error + auth_user" where
  "set_role E inp u =
     (if ui_role inp = [] then Inr u
      else if is_self_actor E u (ui_actor inp) then Inl SelfPermission
      else if \<not> valid_role (ui_role inp) then Inl InvalidArg
      else if is_bootstrap_admin u \<and> ui_role inp \<noteq> ''admin'' then Inl ProtectedAdmin
      else Inr (u\<lparr>au_role := ui_role inp\<rparr>))"

definition set_enabled :: "service_env \<Rightarrow> auth_user_input \<Rightarrow> auth_user \<Rightarrow> svc_error + auth_user" where
  "set_enabled E inp u =
     (case ui_enabled inp of
        None \<Rightarrow> Inr u
      | Some b \<Rightarrow>
          if is_self_actor E u (ui_actor inp) then Inl SelfPermission
          else if is_bootstrap_admin u \<and> \<not> b then Inl ProtectedAdmin
          else Inr (u\<lparr>au_enabled := b\<rparr>))"

definition plan_set_user :: "service_env \<Rightarrow> gtime \<Rightarrow> auth_user_input \<Rightarrow> auth_user \<Rightarrow> svc_error + auth_user" where
  "plan_set_user E now inp u =
     (case set_profile E inp u of
        Inl e \<Rightarrow> Inl e
      | Inr u \<Rightarrow> (case set_role E inp u of
            Inl e \<Rightarrow> Inl e
          | Inr u \<Rightarrow> (case set_enabled E inp u of
                Inl e \<Rightarrow> Inl e
              | Inr u \<Rightarrow> Inr (u\<lparr>au_tenant_id := (case ui_tenant inp of None \<Rightarrow> au_tenant_id u | Some t \<Rightarrow> trim_space t),
                  au_updated_at := now, au_updated_by := ui_actor inp, au_version := int64 (au_version u + 1)\<rparr>))))"

text \<open>\<open>pauseScheduledTasksForUnavailableOwner\<close>\<close>

primrec pause_tasks :: "gtime \<Rightarrow> string \<Rightarrow> string \<Rightarrow> scheduled_task list \<Rightarrow> admin_memory \<Rightarrow> unit admin_result" where
  "pause_tasks now reason actor [] m = (Inr (), m)"
| "pause_tasks now reason actor (t # ts) m =
     (if st_status t \<noteq> ''active'' then pause_tasks now reason actor ts m
      else (case update_scheduled_task (t\<lparr>st_status := ''paused'', st_next_run_at := 0, st_last_error := reason,
                   st_updated_at := now, st_updated_by := actor\<rparr>) False [] m of
              (Inl e, m) \<Rightarrow> (Inl e, m)
            | (Inr _, m) \<Rightarrow> pause_tasks now reason actor ts m))"

definition pause_tasks_of :: "gtime \<Rightarrow> string \<Rightarrow> string \<Rightarrow> string \<Rightarrow> admin_memory \<Rightarrow> unit svc_result" where
  "pause_tasks_of now owner reason actor m =
     store_answer (pause_tasks now reason actor (list_scheduled_tasks_for_owner owner m) m)"

definition write_set_user :: "gtime \<Rightarrow> auth_user_input \<Rightarrow> auth_user \<Rightarrow> admin_memory \<Rightarrow> auth_user svc_result" where
  "write_set_user now inp u m =
     (case update_auth_user u m of
        (Inl e, m) \<Rightarrow> (Inl (StoreErr e), m)
      | (Inr _, m) \<Rightarrow>
          if au_enabled u then (Inr u, m)
          else (case pause_tasks_of now (au_id u) ''Owner disabled'' (ui_actor inp) m of
                  (Inl e, m) \<Rightarrow> (Inl e, m) | (Inr _, m) \<Rightarrow> (Inr u, m)))"

definition set_user :: "service_env \<Rightarrow> gtime \<times> gtime \<Rightarrow> string \<Rightarrow> auth_user_input \<Rightarrow> admin_memory \<Rightarrow> auth_user svc_result" where
  "set_user E clock i inp m =
     (case read_user i m of
        Inl e \<Rightarrow> (Inl e, m)
      | Inr u \<Rightarrow> (case plan_set_user E (fst clock) inp u of
            Inl e \<Rightarrow> (Inl e, m) | Inr u \<Rightarrow> write_set_user (snd clock) inp u m))"

definition plan_reset_password :: "hasher \<Rightarrow> gtime \<Rightarrow> string \<Rightarrow> string \<Rightarrow> auth_user \<Rightarrow> svc_error + auth_user" where
  "plan_reset_password gen now password actor u =
     (case hash_password gen password of
        Inl e \<Rightarrow> Inl e
      | Inr pw \<Rightarrow> Inr (u\<lparr>au_password_hash := pw, au_password_updated := now, au_updated_at := now, au_updated_by := actor,
          au_version := int64 (au_version u + 1)\<rparr>))"

definition reset_password :: "hasher \<Rightarrow> gtime \<Rightarrow> string \<Rightarrow> string \<Rightarrow> string \<Rightarrow> admin_memory \<Rightarrow> auth_user svc_result" where
  "reset_password gen now i password actor m =
     (case read_user i m of
        Inl e \<Rightarrow> (Inl e, m)
      | Inr u \<Rightarrow> (case plan_reset_password gen now password actor u of
            Inl e \<Rightarrow> (Inl e, m)
          | Inr u \<Rightarrow> (case update_auth_user u m of (Inl e, m) \<Rightarrow> (Inl (StoreErr e), m) | (Inr _, m) \<Rightarrow> (Inr u, m))))"

definition delete_user :: "service_env \<Rightarrow> gtime \<times> gtime \<Rightarrow> string \<Rightarrow> string \<Rightarrow> admin_memory \<Rightarrow> unit svc_result" where
  "delete_user E clock i actor m =
     (case read_user i m of
        Inl e \<Rightarrow> (Inl e, m)
      | Inr u \<Rightarrow>
          if is_self_actor E u actor then (Inl SelfPermission, m)
          else if is_bootstrap_admin u then (Inl ProtectedAdmin, m)
          else (case delete_auth_user i actor (fst clock) m of
                  (Inl e, m) \<Rightarrow> (Inl (StoreErr e), m)
                | (Inr _, m) \<Rightarrow> pause_tasks_of (snd clock) i ''Owner deleted'' actor m))"

section \<open>The own account\<close>

definition get_own_account :: "string \<Rightarrow> admin_memory \<Rightarrow> svc_error + auth_user" where
  "get_own_account i m =
     (case get_user i m of Inl e \<Rightarrow> Inl e | Inr u \<Rightarrow> if \<not> au_enabled u then Inl AccountDisabled else Inr u)"

definition plan_own_account :: "service_env \<Rightarrow> gtime \<Rightarrow> own_account_input \<Rightarrow> auth_user \<Rightarrow> svc_error + auth_user" where
  "plan_own_account E now inp u =
     (if oi_expected_version inp \<le> 0 \<or> au_version u \<noteq> oi_expected_version inp then Inl (StoreErr StoreVersionConflict)
      else (let name = trim_space (oi_name inp); username = normalize_username E (oi_username inp);
                email = normalize_email E (oi_email inp)
            in if \<not> valid_account_profile name username email then Inl InvalidArg
               else if email \<noteq> au_email u \<and> \<not> se_compare E (au_password_hash u) (oi_current_password inp) then Inl CurrentPassword
               else Inr (u\<lparr>au_name := name, au_username := username, au_email := email, au_updated_at := now,
                   au_updated_by := au_id u, au_version := int64 (oi_expected_version inp + 1)\<rparr>)))"

definition plan_own_password :: "service_env \<Rightarrow> hasher \<Rightarrow> gtime \<Rightarrow> own_password_input \<Rightarrow> auth_user \<Rightarrow> svc_error + auth_user" where
  "plan_own_password E gen now inp u =
     (if op_expected_version inp \<le> 0 \<or> au_version u \<noteq> op_expected_version inp then Inl (StoreErr StoreVersionConflict)
      else if \<not> se_compare E (au_password_hash u) (op_current_password inp) then Inl CurrentPassword
      else if rune_count (op_new_password inp) < 8 \<or> length (op_new_password inp) > 72 then Inl InvalidArg
      else (case hash_password gen (op_new_password inp) of
              Inl e \<Rightarrow> Inl e
            | Inr pw \<Rightarrow> Inr (u\<lparr>au_password_hash := pw, au_password_updated := now, au_updated_at := now,
                au_updated_by := au_id u, au_version := int64 (op_expected_version inp + 1)\<rparr>)))"

definition write_versioned :: "auth_user \<Rightarrow> int \<Rightarrow> admin_memory \<Rightarrow> auth_user svc_result" where
  "write_versioned u expected m =
     (case update_auth_user_version u expected m of (Inl e, m) \<Rightarrow> (Inl (StoreErr e), m) | (Inr _, m) \<Rightarrow> (Inr u, m))"

definition update_own_account :: "service_env \<Rightarrow> gtime \<Rightarrow> string \<Rightarrow> own_account_input \<Rightarrow> admin_memory \<Rightarrow> auth_user svc_result" where
  "update_own_account E now i inp m =
     (case get_own_account i m of
        Inl e \<Rightarrow> (Inl e, m)
      | Inr u \<Rightarrow> (case plan_own_account E now inp u of
            Inl e \<Rightarrow> (Inl e, m) | Inr u \<Rightarrow> write_versioned u (oi_expected_version inp) m))"

definition change_own_password :: "service_env \<Rightarrow> hasher \<Rightarrow> gtime \<Rightarrow> string \<Rightarrow> own_password_input \<Rightarrow> admin_memory \<Rightarrow> auth_user svc_result" where
  "change_own_password E gen now i inp m =
     (case get_own_account i m of
        Inl e \<Rightarrow> (Inl e, m)
      | Inr u \<Rightarrow> (case plan_own_password E gen now inp u of
            Inl e \<Rightarrow> (Inl e, m) | Inr u \<Rightarrow> write_versioned u (op_expected_version inp) m))"

section \<open>Login and the bootstrap administrator\<close>

definition authenticate :: "service_env \<Rightarrow> gtime \<Rightarrow> string \<Rightarrow> string \<Rightarrow> admin_memory \<Rightarrow> login_result svc_result" where
  "authenticate E now ident password m =
     (case get_user_by_identifier E ident m of
        Inl e \<Rightarrow> (Inl (if e = StoreErr StoreNotFound then Unauthenticated else e), m)
      | Inr u \<Rightarrow>
          if user_unavailable u then (Inl AccountDisabled, m)
          else if \<not> se_compare E (au_password_hash u) password then (Inl Unauthenticated, m)
          else (Inr (public_user u), snd (touch_auth_user_login (au_id u) now m)))"

definition bootstrap_hash :: "hasher \<Rightarrow> bootstrap_input \<Rightarrow> svc_error + string" where
  "bootstrap_hash gen inp =
     (let h = trim_space (bi_password_hash inp)
      in if h = [] \<and> trim_space (bi_password inp) \<noteq> [] then hash_password gen (bi_password inp) else Inr h)"

definition bootstrap_admin :: "service_env \<Rightarrow> hasher \<Rightarrow> gtime \<Rightarrow> string \<Rightarrow> bootstrap_input \<Rightarrow> admin_memory \<Rightarrow> unit svc_result" where
  "bootstrap_admin E gen now i inp m =
     (let email = normalize_email E (bi_email inp);
          username = (let u = normalize_username E (bi_username inp) in if u = [] then default_username E email else u);
          actor = (if bi_actor inp = [] then ''bootstrap'' else bi_actor inp);
          existing = get_auth_user_by_email email m
      in if email = [] then (Inr (), m)
         else (case existing of
             Inr u \<Rightarrow>
               if au_deleted_at u \<noteq> 0 then (Inr (), m)
               else (case bootstrap_hash gen inp of
                   Inl e \<Rightarrow> (Inl e, m)
                 | Inr h \<Rightarrow>
                     if \<not> bi_reset inp then (Inr (), m)
                     else if h = [] then (Inl InvalidArg, m)
                     else store_answer (update_auth_user (u\<lparr>au_role := ''admin'', au_username := username, au_name := username,
                         au_enabled := True, au_created_by := ''bootstrap'', au_password_hash := h, au_password_updated := now,
                         au_updated_at := now, au_updated_by := actor, au_version := int64 (au_version u + 1)\<rparr>) m))
           | Inl _ \<Rightarrow>
               (case bootstrap_hash gen inp of
                  Inl e \<Rightarrow> (Inl e, m)
                | Inr h \<Rightarrow>
                    if h = [] then (Inl InvalidArg, m)
                    else store_answer (create_auth_user \<lparr>au_id = i, au_username = username, au_email = email, au_name = username,
                        au_tenant_id = [], au_role = ''admin'', au_enabled = True, au_version = 1, au_password_hash = h,
                        au_created_at = now, au_updated_at = now, au_last_login_at = 0, au_created_by = ''bootstrap'',
                        au_updated_by = actor, au_password_updated = now, au_deleted_at = 0, au_deleted_by = []\<rparr> m))))"

section \<open>Quotas\<close>

definition set_user_quota :: "gtime \<Rightarrow> string \<Rightarrow> string \<Rightarrow> int \<Rightarrow> string \<Rightarrow> admin_memory \<Rightarrow> quota_override svc_result" where
  "set_user_quota now scope subject limit actor m =
     (if (scope \<noteq> ''user'' \<and> scope \<noteq> ''tenant'') \<or> subject = [] \<or> limit < 0 then (Inl InvalidArg, m)
      else (let q = \<lparr>qo_scope = scope, qo_subject = subject, qo_limit = limit, qo_updated_at = now, qo_updated_by = actor\<rparr>
            in (Inr q, set_quota q m)))"

end
