(* ===== verification/Service_Traces.thy ===== *)
theory Service_Traces
  imports Task_Typing Account_Service
begin

text \<open>
  The stores that the service and the scheduler produce. A plan is made from a store that was read and
  written to another, later one, so a step takes two reachable stores: this covers every interleaving of
  the operations, at the price of also covering pairs that no run produces.
\<close>

inductive svc_reach :: "service_env \<Rightarrow> admin_memory \<Rightarrow> bool" for E where
  svc_start: "svc_reach E new_admin_memory"
| svc_create: "svc_reach E m\<^sub>0 \<Longrightarrow> svc_reach E m \<Longrightarrow> plan_create E clock i fresh ident inp m\<^sub>0 = Inr (t, as) \<Longrightarrow>
    svc_reach E (snd (create_scheduled_task t as m))"
| svc_update: "svc_reach E m\<^sub>0 \<Longrightarrow> svc_reach E m \<Longrightarrow> plan_update E clock i inp m\<^sub>0 = Inr t \<Longrightarrow>
    svc_reach E (snd (write_task t (ti_replace_attachments inp) (input_attachments t fresh inp) m))"
| svc_user_update: "svc_reach E m\<^sub>0 \<Longrightarrow> svc_reach E m \<Longrightarrow> plan_user_update E clock i ident inp m\<^sub>0 = Inr (t, inp') \<Longrightarrow>
    svc_reach E (snd (write_task t (ti_replace_attachments inp') (input_attachments t fresh inp') m))"
| svc_status: "svc_reach E m\<^sub>0 \<Longrightarrow> svc_reach E m \<Longrightarrow> plan_status E clock2 i status actor m\<^sub>0 = Inr t \<Longrightarrow>
    svc_reach E (snd (write_task t False [] m))"
| svc_user_status: "svc_reach E m\<^sub>0 \<Longrightarrow> svc_reach E m \<Longrightarrow> plan_user_status E clock2 i ident status m\<^sub>0 = Inr t \<Longrightarrow>
    svc_reach E (snd (write_task t False [] m))"
| svc_run_now: "svc_reach E m\<^sub>0 \<Longrightarrow> svc_reach E m \<Longrightarrow> plan_run_now clock2 i actor m\<^sub>0 = Inr t \<Longrightarrow>
    svc_reach E (snd (write_task t False [] m))"
| svc_delete: "svc_reach E m \<Longrightarrow> svc_reach E (snd (delete_task i m))"
| svc_user_delete: "svc_reach E m \<Longrightarrow> svc_reach E (snd (delete_user_task E i ident m))"
| svc_begin: "svc_reach E m\<^sub>0 \<Longrightarrow> svc_reach E m \<Longrightarrow> t \<in> set (list_due_tasks at limit m\<^sub>0) \<Longrightarrow>
    svc_reach E (snd (begin_due E c now rid t m))"
| svc_event: "svc_reach E m \<Longrightarrow> svc_reach E (append_event E rid sq now ev m)"
| svc_heartbeat: "svc_reach E m \<Longrightarrow> svc_reach E (heartbeat_tick c rid now m)"
| svc_end: "svc_reach E m\<^sub>0 \<Longrightarrow> svc_reach E m \<Longrightarrow> fst (begin_due E c at rid t m\<^sub>0) = Some cl \<Longrightarrow>
    svc_reach E (snd (end_due now cl out m))"
| svc_stale: "svc_reach E m \<Longrightarrow> svc_reach E (snd (expire_stale c now m))"
| svc_expire: "svc_reach E m \<Longrightarrow> svc_reach E (snd (expire_scheduled_tasks now limit m))"
| svc_pause: "svc_reach E m\<^sub>0 \<Longrightarrow> svc_reach E m \<Longrightarrow>
    svc_reach E (snd (pause_tasks now reason actor (list_scheduled_tasks_for_owner owner m\<^sub>0) m))"
| svc_other: "svc_reach E m \<Longrightarrow> am_tasks n = am_tasks m \<Longrightarrow> svc_reach E n"
  \<comment> \<open>accounts, settings, tokens, catalogs and audit do not touch the table of tasks\<close>

lemma due_listed:
  assumes "t \<in> set (list_due_tasks at limit m)"
  shows "\<exists>i u. mget (am_tasks m) i = Some u \<and> t = clone_task u \<and> task_due at u"
proof -
  from assms have "t \<in> set (map clone_task (filter (task_due at) (mvals (am_tasks m))))"
    by (auto simp: list_due_tasks_def limited_def split: if_splits dest: in_set_takeD)
  then obtain u where u: "u \<in> set (mvals (am_tasks m))" "t = clone_task u" "task_due at u" by auto
  from u(1) obtain i where "mget (am_tasks m) i = Some u" unfolding mvals_iff by blast
  with u(2,3) show ?thesis by blast
qed

lemma owned_listed:
  assumes "t \<in> set (list_scheduled_tasks_for_owner owner m)"
  shows "\<exists>i u. mget (am_tasks m) i = Some u \<and> t = clone_task u \<and> st_owner_user_id u = owner"
proof -
  from assms obtain u where u: "u \<in> set (mvals (am_tasks m))" "t = clone_task u" "st_owner_user_id u = owner"
    by (auto simp: list_scheduled_tasks_for_owner_def)
  from u(1) obtain i where "mget (am_tasks m) i = Some u" unfolding mvals_iff by blast
  with u(2,3) show ?thesis by blast
qed

lemma read_typed:
  "tasks_typed E m \<Longrightarrow> get_scheduled_task i m = Inr t \<Longrightarrow> task_typed E t"
  "tasks_typed E m \<Longrightarrow> get_scheduled_task_for_owner i owner m = Inr t \<Longrightarrow> task_typed E t"
  by (auto simp: get_scheduled_task_def get_scheduled_task_for_owner_def tasks_typedD split: option.splits if_splits)

lemma adopt_typed: "adopt_task q t m = Inr u \<Longrightarrow> task_typed E t \<Longrightarrow> task_typed E u"
  by (auto simp: adopt_task_def task_typed_def split: if_splits sum.splits)

lemma plans_typed:
  "plan_create E clock i fresh ident inp m = Inr (t, as) \<Longrightarrow> task_typed E t"
  "plan_update E clock i inp m = Inr t \<Longrightarrow> task_typed E t"
  "plan_user_update E clock i ident inp m = Inr (t, inp') \<Longrightarrow> task_typed E t"
  by (auto simp: plan_create_def plan_update_def plan_user_update_def Let_def split: sum.splits option.splits dest: input_typed)

lemma status_plans_typed:
  assumes m: "tasks_typed E m"
  shows "plan_status E clock2 i status actor m = Inr t \<Longrightarrow> task_typed E t"
    "plan_user_status E clock2 i ident status m = Inr t \<Longrightarrow> task_typed E t"
    "plan_run_now clock2 i actor m = Inr t \<Longrightarrow> task_typed E t"
proof -
  show "plan_status E clock2 i status actor m = Inr t \<Longrightarrow> task_typed E t"
    by (auto simp: plan_status_def valid_task_status_def split: if_splits sum.splits
        intro: switch_typed dest: read_typed[OF m])
  show "plan_user_status E clock2 i ident status m = Inr t \<Longrightarrow> task_typed E t"
    by (auto simp: plan_user_status_def valid_task_status_def split: if_splits sum.splits
        intro: switch_typed dest: read_typed[OF m])
  show "plan_run_now clock2 i actor m = Inr t \<Longrightarrow> task_typed E t"
    by (auto simp: plan_run_now_def task_typed_def split: if_splits sum.splits prod.splits option.splits
        dest!: read_typed[OF m])
qed

lemma pause_typed:
  assumes "tasks_typed E m" "\<And>t. t \<in> set ts \<Longrightarrow> task_typed E t"
  shows "tasks_typed E (snd (pause_tasks now reason actor ts m))"
  using assms
proof (induction ts arbitrary: m)
  case (Cons t ts)
  let ?u = "t\<lparr>st_status := ''paused'', st_next_run_at := 0, st_last_error := reason, st_updated_at := now, st_updated_by := actor\<rparr>"
  have u: "task_typed E ?u" using Cons.prems(2)[of t] by (simp add: task_typed_def valid_task_status_def)
  have step: "tasks_typed E (snd (update_scheduled_task ?u False [] m))" by (rule update_typed[OF Cons.prems(1) u])
  show ?case
  proof (cases "update_scheduled_task ?u False [] m")
    case (Pair r n)
    with step Cons.IH[of n] Cons.IH[of m] Cons.prems show ?thesis by (cases r) simp_all
  qed
qed simp

lemma begin_typed:
  assumes m: "tasks_typed E m" and t: "task_typed E t"
  shows "tasks_typed E (snd (begin_due E c now rid t m))"
proof -
  have "tasks_typed E (snd (try_start_task_run (st_id t) r nx m))" for r nx by (rule try_start_typed[OF m])
  then have "tasks_typed E n" if "try_start_task_run (st_id t) r nx m = (x, n)" for r nx x n using that by (metis snd_conv)
  with update_typed[OF m typed_changes(6)[OF t]] update_typed[OF m typed_changes(7)[OF t]] show ?thesis
    by (auto simp: begin_due_def Let_def split: prod.splits sum.splits option.splits)
qed

lemma reach_typed: "svc_reach E m \<Longrightarrow> tasks_typed E m"
proof (induction rule: svc_reach.induct)
  case svc_start
  show ?case by (simp add: tasks_typed_def new_admin_memory_def)
next
  case (svc_begin m\<^sub>0 m t at limit c now rid)
  have "task_typed E t" using due_listed[OF svc_begin(3)] tasks_typedD[OF svc_begin(4)] by auto
  then show ?case by (rule begin_typed[OF svc_begin(5)])
next
  case (svc_pause m\<^sub>0 m now reason actor owner)
  have "task_typed E t" if "t \<in> set (list_scheduled_tasks_for_owner owner m\<^sub>0)" for t
    using owned_listed[OF that] tasks_typedD[OF svc_pause(3)] by auto
  then show ?case by (rule pause_typed[OF svc_pause(4)])
next
  case (svc_event m rid sq now ev)
  then show ?case
    by (simp add: append_event_def append_task_run_event_def tasks_typed_def Let_def)
next
  case (svc_heartbeat m c rid now)
  then show ?case
    by (auto simp: heartbeat_tick_def heartbeat_task_run_def tasks_typed_def split: option.split)
next
  case (svc_stale m c now)
  then show ?case using expire_runs_typed[OF svc_stale(2)]
    by (auto simp: expire_stale_def expire_stale_task_runs_def Let_def split: prod.splits sum.splits) (metis snd_conv)+
next
  case (svc_other m n)
  then show ?case using tasks_typed_same by blast
qed (simp_all add: create_typed write_typed delete_typed end_typed expire_tasks_typed plans_typed status_plans_typed)

end
