(* ===== verification/Token_Codec.thy ===== *)
theory Token_Codec
  imports Go_Json "HOL-Library.Monad_Syntax"
begin

text \<open>
  The signed tokens of \<open>packages/go-common/token/jwt.go\<close> and \<open>issuer.go\<close>: compact JWS over HS256. Base64 in the
  unpadded URL alphabet is modelled; \<open>hmac\<close> with SHA-256 and the JSON codec below the level of values are the
  environment.
\<close>

section \<open>base64.RawURLEncoding\<close>

definition b64_char :: "nat \<Rightarrow> char" where
  "b64_char n = (if n < 26 then char_of (65 + n) else if n < 52 then char_of (97 + (n - 26))
     else if n < 62 then char_of (48 + (n - 52)) else if n = 62 then CHR ''-'' else CHR ''_'')"

definition b64_val :: "char \<Rightarrow> nat option" where
  "b64_val c = (let b = byte c in
     if 65 \<le> b \<and> b \<le> 90 then Some (b - 65) else if 97 \<le> b \<and> b \<le> 122 then Some (b - 97 + 26)
     else if 48 \<le> b \<and> b \<le> 57 then Some (b - 48 + 52) else if b = 45 then Some 62 else if b = 95 then Some 63 else None)"

fun b64_sextets :: "nat list \<Rightarrow> nat list" where
  "b64_sextets [] = []"
| "b64_sextets [a] = [a div 4, a mod 4 * 16]"
| "b64_sextets [a, b] = [a div 4, a mod 4 * 16 + b div 16, b mod 16 * 4]"
| "b64_sextets (a # b # c # rest) = [a div 4, a mod 4 * 16 + b div 16, b mod 16 * 4 + c div 64, c mod 64] @ b64_sextets rest"

fun b64_bytes :: "nat list \<Rightarrow> nat list option" where
  "b64_bytes [] = Some []"
| "b64_bytes [p] = None"
| "b64_bytes [p, q] = Some [p * 4 + q div 16]"
| "b64_bytes [p, q, r] = Some [p * 4 + q div 16, q mod 16 * 16 + r div 4]"
| "b64_bytes (p # q # r # s # rest) =
     map_option (\<lambda>bs. [p * 4 + q div 16, q mod 16 * 16 + r div 4, r mod 4 * 64 + s] @ bs) (b64_bytes rest)"

definition b64_encode :: "string \<Rightarrow> string" where
  "b64_encode s = map b64_char (b64_sextets (map byte s))"

primrec collect :: "'a option list \<Rightarrow> 'a list option" where
  "collect [] = Some []"
| "collect (x # xs) = (case x of None \<Rightarrow> None | Some a \<Rightarrow> map_option (Cons a) (collect xs))"

text \<open>The decoder skips line breaks and does not look at the unused bits of the last digit.\<close>

definition b64_decode :: "string \<Rightarrow> string option" where
  "b64_decode s =
     (case collect (map b64_val (filter (\<lambda>c. c \<noteq> CHR 0x0A \<and> c \<noteq> CHR 0x0D) s)) of
        None \<Rightarrow> None
      | Some vs \<Rightarrow> map_option (map char_of) (b64_bytes vs))"

lemma b64_char_val: "n < 64 \<Longrightarrow> b64_val (b64_char n) = Some n"
  by (auto simp: b64_val_def b64_char_def byte_def of_char_of Let_def)

lemma b64_char_plain: "b64_char n \<noteq> CHR 0x0A" "b64_char n \<noteq> CHR 0x0D" "b64_char n \<noteq> CHR ''.''"
proof -
  have "byte (b64_char n) \<noteq> 10 \<and> byte (b64_char n) \<noteq> 13 \<and> byte (b64_char n) \<noteq> 46"
    by (auto simp: b64_char_def byte_def of_char_of)
  then show "b64_char n \<noteq> CHR 0x0A" "b64_char n \<noteq> CHR 0x0D" "b64_char n \<noteq> CHR ''.''" by (auto simp: byte_def)
qed

lemma small_sextets: "a < 256 \<Longrightarrow> b < 256 \<Longrightarrow> a div 4 < 64 \<and> a mod 4 * 16 + b div 16 < 64 \<and>
    a mod 16 * 4 + b div 64 < 64 \<and> a mod 4 * 16 < 64 \<and> a mod 16 * 4 < (64::nat)"
  by linarith

lemma b64_sextets_small: "\<forall>b \<in> set bs. b < 256 \<Longrightarrow> \<forall>n \<in> set (b64_sextets bs). n < 64"
proof (induction bs rule: b64_sextets.induct)
  case (4 a b c rest)
  then show ?case using small_sextets[of a b] small_sextets[of b c] by simp
qed (use small_sextets in auto)

lemma b64_bytes_sextets: "\<forall>b \<in> set bs. b < 256 \<Longrightarrow> b64_bytes (b64_sextets bs) = Some bs"
  by (induction bs rule: b64_sextets.induct) (simp_all add: less_mult_imp_div_less)

lemma collect_vals: "\<forall>n \<in> set ns. n < 64 \<Longrightarrow> collect (map b64_val (map b64_char ns)) = Some ns"
  by (induction ns) (simp_all add: b64_char_val)

lemma byte_bound: "byte c < 256"
proof -
  have "byte c mod 256 < 256" by simp
  then show ?thesis by (simp add: byte_def)
qed

lemma char_byte: "char_of (byte c) = c"
  by (simp add: byte_def)

lemma b64_decode_encode: "b64_decode (b64_encode s) = Some s"
proof -
  have small: "\<forall>b \<in> set (map byte s). b < 256" by (simp add: byte_bound)
  have plain: "filter (\<lambda>c. c \<noteq> CHR 0x0A \<and> c \<noteq> CHR 0x0D) (map b64_char ns) = map b64_char ns" for ns
    by (induction ns) (simp_all add: b64_char_plain)
  show ?thesis
    unfolding b64_decode_def b64_encode_def plain collect_vals[OF b64_sextets_small[OF small]] option.case
      b64_bytes_sextets[OF small] by (simp add: comp_def char_byte)
qed

lemma b64_no_dot: "CHR ''.'' \<notin> set (b64_encode s)"
  using b64_char_plain(3) by (fastforce simp: b64_encode_def)

section \<open>strings.Split at a dot\<close>

fun split_dots :: "string \<Rightarrow> string list" where
  "split_dots [] = [[]]"
| "split_dots (c # cs) =
     (if c = CHR ''.'' then [] # split_dots cs
      else (case split_dots cs of [] \<Rightarrow> [[c]] | p # ps \<Rightarrow> (c # p) # ps))"

lemma split_dots_ne: "split_dots s \<noteq> []"
  by (induction s) (auto split: list.split)

lemma split_dots_none: "CHR ''.'' \<notin> set s \<Longrightarrow> split_dots s = [s]"
  by (induction s) auto

lemma split_dots_dot: "CHR ''.'' \<notin> set s \<Longrightarrow> split_dots (s @ CHR ''.'' # t) = s # split_dots t"
  by (induction s) auto

lemma split_dots_join: "split_dots s = p # ps \<Longrightarrow> s = p @ concat (map (\<lambda>q. CHR ''.'' # q) ps)"
proof (induction s arbitrary: p ps)
  case (Cons c cs)
  obtain q qs where split: "split_dots cs = q # qs" using split_dots_ne[of cs] by (cases "split_dots cs") auto
  note cs = Cons.IH[OF split]
  show ?case
  proof (cases "c = CHR ''.''")
    case True
    with Cons.prems split have "p = []" "ps = q # qs" by simp_all
    with cs True show ?thesis by simp
  next
    case False
    with Cons.prems split have "p = c # q" "ps = qs" by simp_all
    with cs show ?thesis by simp
  qed
qed simp

section \<open>Claims\<close>

record claims =
  cm_subject :: string
  cm_tenant :: string
  cm_email :: string
  cm_name :: string
  cm_username :: string
  cm_issued_at :: int
  cm_expires :: int
  cm_issuer :: string
  cm_id :: string

record jwt_env =
  jw_hmac :: "string \<Rightarrow> string \<Rightarrow> string"
  jw_quote :: "string \<Rightarrow> string"
  jw_json :: "string \<Rightarrow> json option"

definition no_claims :: claims where
  "no_claims = \<lparr>cm_subject = [], cm_tenant = [], cm_email = [], cm_name = [], cm_username = [], cm_issued_at = 0,
     cm_expires = 0, cm_issuer = [], cm_id = []\<rparr>"

text \<open>The members of the object, in the order of the struct, without the empty ones; the subject is always there.\<close>

definition str_member :: "string \<Rightarrow> string \<Rightarrow> (string \<times> json) list" where
  "str_member k v = (if v = [] then [] else [(k, JString v)])"

definition int_member :: "string \<Rightarrow> int \<Rightarrow> (string \<times> json) list" where
  "int_member k v = (if v = 0 then [] else [(k, JNumber (itoa v))])"

definition claim_members :: "claims \<Rightarrow> (string \<times> json) list" where
  "claim_members c = [(''sub'', JString (cm_subject c))] @ str_member ''ten'' (cm_tenant c) @ str_member ''eml'' (cm_email c) @
     str_member ''nam'' (cm_name c) @ str_member ''usr'' (cm_username c) @ int_member ''iat'' (cm_issued_at c) @
     int_member ''exp'' (cm_expires c) @ str_member ''iss'' (cm_issuer c) @ str_member ''jti'' (cm_id c)"

definition header_members :: "(string \<times> json) list" where
  "header_members = [(''alg'', JString ''HS256''), (''typ'', JString ''JWT'')]"

fun scalar_text :: "jwt_env \<Rightarrow> json \<Rightarrow> string" where
  "scalar_text J (JString s) = jw_quote J s"
| "scalar_text J (JNumber s) = s"
| "scalar_text J (JBool b) = (if b then ''true'' else ''false'')"
| "scalar_text J _ = ''null''"

primrec join_commas :: "string list \<Rightarrow> string" where
  "join_commas [] = []"
| "join_commas (s # ss) = (if ss = [] then s else s @ '','' @ join_commas ss)"

definition object_text :: "jwt_env \<Rightarrow> (string \<times> json) list \<Rightarrow> string" where
  "object_text J ms = ''{'' @ join_commas (map (\<lambda>(k, v). jw_quote J k @ '':'' @ scalar_text J v) ms) @ ''}''"

definition decode_claims :: "jwt_env \<Rightarrow> string \<Rightarrow> claims option" where
  "decode_claims J s = do {
     es \<leftarrow> (case jw_json J s of Some (JObject es) \<Rightarrow> Some es | Some JNull \<Rightarrow> Some [] | _ \<Rightarrow> None);
     sub \<leftarrow> read_str ''sub'' es [];
     ten \<leftarrow> read_str ''ten'' es [];
     eml \<leftarrow> read_str ''eml'' es [];
     nam \<leftarrow> read_str ''nam'' es [];
     usr \<leftarrow> read_str ''usr'' es [];
     iat \<leftarrow> read_int ''iat'' es 0;
     ex \<leftarrow> read_int ''exp'' es 0;
     iss \<leftarrow> read_str ''iss'' es [];
     jti \<leftarrow> read_str ''jti'' es [];
     Some \<lparr>cm_subject = sub, cm_tenant = ten, cm_email = eml, cm_name = nam, cm_username = usr, cm_issued_at = iat,
       cm_expires = ex, cm_issuer = iss, cm_id = jti\<rparr>
   }"

definition header_alg :: "jwt_env \<Rightarrow> string \<Rightarrow> string option" where
  "header_alg J s = do {
     es \<leftarrow> (case jw_json J s of Some (JObject es) \<Rightarrow> Some es | Some JNull \<Rightarrow> Some [] | _ \<Rightarrow> None);
     alg \<leftarrow> read_str ''alg'' es [];
     _ \<leftarrow> read_str ''typ'' es [];
     Some alg
   }"

section \<open>Encoding and verifying\<close>

definition sign_token :: "jwt_env \<Rightarrow> string \<Rightarrow> string \<Rightarrow> string" where
  "sign_token J inp secret = b64_encode (jw_hmac J secret inp)"

definition encode_token :: "jwt_env \<Rightarrow> claims \<Rightarrow> string \<Rightarrow> string option" where
  "encode_token J c secret =
     (if secret = [] then None
      else (let inp = b64_encode (object_text J header_members) @ ''.'' @ b64_encode (object_text J (claim_members c))
            in Some (inp @ ''.'' @ sign_token J inp secret)))"

text \<open>The wall clock is read only when \<open>now\<close> is 0.\<close>

definition decode_token :: "jwt_env \<Rightarrow> int \<Rightarrow> string \<Rightarrow> string \<Rightarrow> int \<Rightarrow> claims option" where
  "decode_token J wall tok secret now =
     (if secret = [] then None
      else (case split_dots tok of
          [h, p, sig] \<Rightarrow> (case b64_decode h of
              None \<Rightarrow> None
            | Some hb \<Rightarrow>
                if header_alg J hb \<noteq> Some ''HS256'' then None
                else if sign_token J (h @ ''.'' @ p) secret \<noteq> sig then None
                else (case b64_decode p of
                        None \<Rightarrow> None
                      | Some pb \<Rightarrow> (case decode_claims J pb of
                            None \<Rightarrow> None
                          | Some c \<Rightarrow> if cm_expires c \<noteq> 0 \<and> (if now = 0 then wall else now) \<ge> cm_expires c then None else Some c)))
        | _ \<Rightarrow> None))"

section \<open>Issuing\<close>

record issuer =
  iu_secret :: string
  iu_issuer :: string
  iu_default_ttl :: duration

definition new_issuer :: "string \<Rightarrow> string \<Rightarrow> duration \<Rightarrow> issuer" where
  "new_issuer secret name ttl = \<lparr>iu_secret = secret, iu_issuer = (if name = [] then ''cocola'' else name), iu_default_ttl = ttl\<rparr>"

text \<open>\<open>int64(d.Seconds())\<close> for a positive duration: the float64 quotient is truncated.\<close>

definition duration_secs :: "duration \<Rightarrow> int" where
  "duration_secs d = d div 1000000000"

definition issue_token :: "jwt_env \<Rightarrow> issuer \<Rightarrow> int \<Rightarrow> string \<Rightarrow> claims \<Rightarrow> duration \<Rightarrow> int \<Rightarrow> (string \<times> claims) option" where
  "issue_token J iu wall jti c ttl now =
     (if iu_secret iu = [] \<or> cm_subject c = [] then None
      else (let iat = (if now = 0 then wall else now);
                effective = (if ttl = 0 then iu_default_ttl iu else ttl);
                c = c\<lparr>cm_issued_at := iat, cm_issuer := iu_issuer iu, cm_id := jti\<rparr>;
                c = (if effective > 0 then c\<lparr>cm_expires := int64 (iat + duration_secs effective)\<rparr> else c)
            in (case encode_token J c (iu_secret iu) of None \<Rightarrow> None | Some tok \<Rightarrow> Some (tok, c))))"

definition issue :: "jwt_env \<Rightarrow> issuer \<Rightarrow> int \<Rightarrow> string \<Rightarrow> string \<Rightarrow> string \<Rightarrow> duration \<Rightarrow> int \<Rightarrow> (string \<times> claims) option" where
  "issue J iu wall jti user tenant ttl now =
     issue_token J iu wall jti (no_claims\<lparr>cm_subject := user, cm_tenant := tenant\<rparr>) ttl now"

definition issue_user :: "jwt_env \<Rightarrow> issuer \<Rightarrow> int \<Rightarrow> string \<Rightarrow> string \<Rightarrow> string \<Rightarrow> string \<Rightarrow> string \<Rightarrow> string \<Rightarrow> duration \<Rightarrow> int \<Rightarrow> (string \<times> claims) option" where
  "issue_user J iu wall jti user tenant email name username ttl now =
     issue_token J iu wall jti (no_claims\<lparr>cm_subject := user, cm_tenant := tenant, cm_email := email, cm_name := name,
       cm_username := username\<rparr>) ttl now"

section \<open>What is encoded is decoded\<close>

lemma read_str_append: "read_str f (es @ gs) v = Option.bind (read_str f es v) (read_str f gs)"
  by (induction es arbitrary: v) (auto split: json.split)

lemma read_int_append: "read_int f (es @ gs) v = Option.bind (read_int f es v) (read_int f gs)"
  by (induction es arbitrary: v) (auto split: json.split prod.split option.split)

lemma read_members:
  "read_str f (str_member k s) v = (if fold_eq k f then (if s = [] then Some v else Some s) else Some v)"
  "\<not> fold_eq k f \<Longrightarrow> read_str f (int_member k n) v = Some v"
  "\<not> fold_eq k f \<Longrightarrow> read_int f (str_member k s) w = Some w"
  "min_int64 \<le> n \<Longrightarrow> n \<le> max_int64 \<Longrightarrow>
     read_int f (int_member k n) w = (if fold_eq k f then (if n = 0 then Some w else Some n) else Some w)"
  by (simp_all add: str_member_def int_member_def atoi_itoa)

definition claims_fit :: "claims \<Rightarrow> bool" where
  "claims_fit c \<longleftrightarrow> min_int64 \<le> cm_issued_at c \<and> cm_issued_at c \<le> max_int64 \<and> min_int64 \<le> cm_expires c \<and> cm_expires c \<le> max_int64"

lemma decode_members:
  assumes json: "jw_json J s = Some (JObject (claim_members c))" and fit: "claims_fit c"
  shows "decode_claims J s = Some c"
  using fit
  by (simp add: decode_claims_def json claim_members_def read_str_append read_int_append read_members claims_fit_def
      ascii_lower_def byte_def)

text \<open>The token that is issued verifies, until it expires, and gives back its claims.\<close>

lemma decode_encoded:
  assumes tok: "encode_token J c secret = Some tok" and fit: "claims_fit c"
    and json: "jw_json J (object_text J (claim_members c)) = Some (JObject (claim_members c))"
      "jw_json J (object_text J header_members) = Some (JObject header_members)"
  shows "decode_token J wall tok secret now =
    (if cm_expires c \<noteq> 0 \<and> (if now = 0 then wall else now) \<ge> cm_expires c then None else Some c)"
proof -
  define h where "h = b64_encode (object_text J header_members)"
  define p where "p = b64_encode (object_text J (claim_members c))"
  define sig where "sig = sign_token J (h @ ''.'' @ p) secret"
  have secret: "secret \<noteq> []" and t: "tok = h @ ''.'' @ p @ ''.'' @ sig"
    using tok by (auto simp: encode_token_def Let_def h_def p_def sig_def split: if_splits)
  have plain: "CHR ''.'' \<notin> set h" "CHR ''.'' \<notin> set p" "CHR ''.'' \<notin> set sig"
    by (simp_all add: h_def p_def sig_def sign_token_def b64_no_dot)
  have parts: "split_dots tok = [h, p, sig]"
    unfolding t using split_dots_dot[OF plain(1)] split_dots_dot[OF plain(2)] split_dots_none[OF plain(3)] by simp
  have alg: "header_alg J (object_text J header_members) = Some ''HS256''"
    by (simp add: header_alg_def json(2)) (simp add: header_members_def ascii_lower_def byte_def)
  show ?thesis
    using secret decode_members[OF json(1) fit] by (simp add: decode_token_def parts h_def p_def b64_decode_encode alg)
      (simp add: sig_def h_def p_def)
qed

text \<open>Nothing verifies that was not signed with the secret over exactly these two segments.\<close>

lemma decoded_signed:
  assumes "decode_token J wall tok secret now = Some c"
  shows "\<exists>h p hb pb. tok = h @ ''.'' @ p @ ''.'' @ sign_token J (h @ ''.'' @ p) secret \<and> b64_decode h = Some hb \<and>
    header_alg J hb = Some ''HS256'' \<and> b64_decode p = Some pb \<and> decode_claims J pb = Some c \<and> secret \<noteq> [] \<and>
    (cm_expires c = 0 \<or> (if now = 0 then wall else now) < cm_expires c)"
proof -
  from assms have secret: "secret \<noteq> []" by (auto simp: decode_token_def)
  from assms obtain h p sig hb pb where parts: "split_dots tok = [h, p, sig]" and
    rest: "b64_decode h = Some hb" "header_alg J hb = Some ''HS256''" "sign_token J (h @ ''.'' @ p) secret = sig"
      "b64_decode p = Some pb" "decode_claims J pb = Some c" "cm_expires c = 0 \<or> (if now = 0 then wall else now) < cm_expires c"
    by (auto simp: decode_token_def split: if_splits list.splits option.splits)
  from split_dots_join[OF parts] rest(3) have "tok = h @ ''.'' @ p @ ''.'' @ sign_token J (h @ ''.'' @ p) secret" by simp
  with secret rest(1,2,4,5,6) show ?thesis by blast
qed

end
