(* ===== verification/Token_Service.thy ===== *)
theory Token_Service
  imports Account_Service Token_Codec
begin

text \<open>
  Who mints and who checks the signed tokens: \<open>IssueRuntimeToken\<close>, \<open>IssueToken\<close> and the revocation list of
  \<open>admin-api/internal/service/admin.go\<close>, the gateway's verifier (\<open>gateway/internal/auth/auth.go\<close>) and its
  short-lived skill capability (\<open>gateway/internal/skillbroker/credential.go\<close>).
\<close>

section \<open>Minting\<close>

text \<open>Seconds of an instant since 1970.\<close>

definition unix_of :: "gtime \<Rightarrow> int" where
  "unix_of t = t div 1000000000 - 62135596800"

definition time_unix :: "int \<Rightarrow> gtime" where
  "time_unix s = (s + 62135596800) * 1000000000"

definition issue_runtime_token ::
  "service_env \<Rightarrow> jwt_env \<Rightarrow> issuer option \<Rightarrow> int \<Rightarrow> gtime \<Rightarrow> string \<Rightarrow> string \<Rightarrow> duration \<Rightarrow> admin_memory \<Rightarrow> svc_error + string" where
  "issue_runtime_token E J iu wall now jti email ttl m =
     (case iu of
        None \<Rightarrow> Inl InvalidArg
      | Some iu \<Rightarrow> (let email = normalize_email E email in
          if email = [] then Inl InvalidArg
          else (case get_auth_user_by_email email m of
                  Inl e \<Rightarrow> Inl (StoreErr e)
                | Inr u \<Rightarrow>
                    if user_unavailable u then Inl AccountDisabled
                    else (let ttl = (if ttl \<le> 0 then 600 * 1000000000 else ttl);
                              name = (if trim_space (au_name u) = [] then au_username u else trim_space (au_name u))
                          in (case issue_user J iu wall jti (au_id u) (trim_space (au_tenant_id u)) (au_email u) name
                                (au_username u) ttl (unix_of now) of
                                None \<Rightarrow> Inl (RemoteErr ''token: invalid'') | Some (tok, _) \<Rightarrow> Inr tok)))))"

definition issue_stored_token ::
  "jwt_env \<Rightarrow> issuer option \<Rightarrow> int \<Rightarrow> gtime \<Rightarrow> string \<Rightarrow> string \<Rightarrow> string \<Rightarrow> duration \<Rightarrow> string \<Rightarrow> admin_memory \<Rightarrow> (string \<times> token_record) svc_result" where
  "issue_stored_token J iu wall now jti user tenant ttl actor m =
     (case iu of
        None \<Rightarrow> (Inl InvalidArg, m)
      | Some iu \<Rightarrow>
          if user = [] then (Inl InvalidArg, m)
          else (case issue J iu wall jti user tenant ttl (unix_of now) of
                  None \<Rightarrow> (Inl InvalidArg, m)
                | Some (tok, c) \<Rightarrow>
                    (let r = \<lparr>tok_id = cm_id c, tok_user_id = cm_subject c, tok_tenant_id = cm_tenant c, tok_issuer = cm_issuer c,
                           tok_issued_at = time_unix (cm_issued_at c),
                           tok_expires_at = (if cm_expires c \<noteq> 0 then time_unix (cm_expires c) else 0),
                           tok_revoked = False, tok_revoked_at = 0, tok_created_by = actor\<rparr>
                     in case create_token r m of
                          (Inl e, m) \<Rightarrow> (Inl (StoreErr e), m)
                        | (Inr _, m) \<Rightarrow> (Inr (tok, r), m))))"

definition revoke_stored_token :: "gtime \<Rightarrow> string \<Rightarrow> admin_memory \<Rightarrow> unit svc_result" where
  "revoke_stored_token now i m = (if i = [] then (Inl InvalidArg, m) else store_answer (revoke_token i now m))"

definition revoked_ids :: "admin_memory \<Rightarrow> string list" where
  "revoked_ids m = map tok_id (filter tok_revoked (list_tokens [] m))"

section \<open>The gateway's verifier\<close>

record identity =
  idn_user_id :: string
  idn_tenant_id :: string
  idn_email :: string
  idn_name :: string
  idn_username :: string
  idn_token_id :: string
  idn_issued_at :: int
  idn_expires :: int

record auth_config =
  ac_secret :: string
  ac_issuer :: string
  ac_allow_anonymous :: bool

definition dev_identity :: identity where
  "dev_identity = \<lparr>idn_user_id = ''dev-user'', idn_tenant_id = ''dev-tenant'', idn_email = ''dev-user@localhost'',
     idn_name = ''Cocola User'', idn_username = ''dev-user'', idn_token_id = [], idn_issued_at = 0, idn_expires = 0\<rparr>"

definition strip_bearer :: "string \<Rightarrow> string" where
  "strip_bearer s =
     (let s = trim_space s
      in if length s \<ge> 7 \<and> fold_eq (take 7 s) ''bearer '' then trim_space (drop 7 s) else s)"

definition identity_of_claims :: "claims \<Rightarrow> identity" where
  "identity_of_claims c = \<lparr>idn_user_id = cm_subject c, idn_tenant_id = cm_tenant c, idn_email = cm_email c, idn_name = cm_name c,
     idn_username = cm_username c, idn_token_id = cm_id c, idn_issued_at = cm_issued_at c, idn_expires = cm_expires c\<rparr>"

definition verify_identity :: "jwt_env \<Rightarrow> auth_config \<Rightarrow> int \<Rightarrow> string \<Rightarrow> int \<Rightarrow> identity option" where
  "verify_identity J cfg wall s now =
     (let tok = strip_bearer s in
      if ac_secret cfg = [] then Some dev_identity
      else if tok = [] then (if ac_allow_anonymous cfg then Some dev_identity else None)
      else (case decode_token J wall tok (ac_secret cfg) now of
              None \<Rightarrow> None
            | Some c \<Rightarrow>
                if ac_issuer cfg \<noteq> [] \<and> cm_issuer c \<noteq> ac_issuer cfg then None
                else if cm_subject c = [] then None
                else Some (identity_of_claims c)))"

definition bearer_header :: "string \<Rightarrow> string \<Rightarrow> string" where
  "bearer_header authorization api_key = (if authorization \<noteq> [] then authorization else api_key)"

text \<open>The middleware: the handler runs with an identity, or the request ends with status 401.\<close>

definition authenticated :: "jwt_env \<Rightarrow> auth_config \<Rightarrow> int \<Rightarrow> string \<Rightarrow> string \<Rightarrow> (identity \<Rightarrow> 'r) \<Rightarrow> 'r \<Rightarrow> 'r" where
  "authenticated J cfg wall authorization api_key handler unauthorized =
     (case verify_identity J cfg wall (bearer_header authorization api_key) 0 of None \<Rightarrow> unauthorized | Some i \<Rightarrow> handler i)"

section \<open>The skill capability\<close>

record skill_claims =
  kc_tenant_id :: string
  kc_user_id :: string
  kc_conversation_id :: string
  kc_run_id :: string
  kc_capability :: string
  kc_expires_at :: int

definition skill_members :: "skill_claims \<Rightarrow> (string \<times> json) list" where
  "skill_members c = [(''tenant_id'', JString (kc_tenant_id c)), (''user_id'', JString (kc_user_id c)),
     (''conversation_id'', JString (kc_conversation_id c)), (''run_id'', JString (kc_run_id c)),
     (''capability'', JString (kc_capability c)), (''expires_at'', JNumber (itoa (kc_expires_at c)))]"

definition decode_skill_claims :: "jwt_env \<Rightarrow> string \<Rightarrow> skill_claims option" where
  "decode_skill_claims J s = do {
     es \<leftarrow> (case jw_json J s of Some (JObject es) \<Rightarrow> Some es | Some JNull \<Rightarrow> Some [] | _ \<Rightarrow> None);
     ten \<leftarrow> read_str ''tenant_id'' es [];
     usr \<leftarrow> read_str ''user_id'' es [];
     cnv \<leftarrow> read_str ''conversation_id'' es [];
     rn \<leftarrow> read_str ''run_id'' es [];
     cap \<leftarrow> read_str ''capability'' es [];
     ex \<leftarrow> read_int ''expires_at'' es 0;
     Some \<lparr>kc_tenant_id = ten, kc_user_id = usr, kc_conversation_id = cnv, kc_run_id = rn, kc_capability = cap, kc_expires_at = ex\<rparr>
   }"

definition skill_mac :: "jwt_env \<Rightarrow> string \<Rightarrow> string \<Rightarrow> string" where
  "skill_mac J key payload = jw_hmac J key (''cocola.skill.broker.v1'' @ [CHR 0x00] @ payload)"

definition new_skill_broker :: "string \<Rightarrow> string option" where
  "new_skill_broker secret = (if trim_space secret = [] then None else Some secret)"

definition issue_skill_credential ::
  "jwt_env \<Rightarrow> string option \<Rightarrow> gtime \<Rightarrow> string \<Rightarrow> string \<Rightarrow> string \<Rightarrow> string \<Rightarrow> string option" where
  "issue_skill_credential J broker now tenant user conversation rn =
     (case broker of
        None \<Rightarrow> None
      | Some key \<Rightarrow>
          if trim_space user = [] \<or> trim_space conversation = [] \<or> trim_space rn = [] then None
          else (let payload = object_text J (skill_members \<lparr>kc_tenant_id = trim_space tenant, kc_user_id = trim_space user,
                      kc_conversation_id = trim_space conversation, kc_run_id = trim_space rn, kc_capability = ''skill.publish'',
                      kc_expires_at = unix_of (now + 12 * 3600 * 1000000000)\<rparr>)
                in Some (b64_encode payload @ ''.'' @ b64_encode (skill_mac J key payload))))"

definition verify_skill_credential :: "jwt_env \<Rightarrow> string option \<Rightarrow> gtime \<Rightarrow> string \<Rightarrow> skill_claims option" where
  "verify_skill_credential J broker now value =
     (case broker of
        None \<Rightarrow> None
      | Some key \<Rightarrow> (case split_dots (trim_space value) of
            [p, sig] \<Rightarrow> (case b64_decode p of
                None \<Rightarrow> None
              | Some payload \<Rightarrow> (case b64_decode sig of
                    None \<Rightarrow> None
                  | Some mac \<Rightarrow>
                      if mac \<noteq> skill_mac J key payload then None
                      else (case decode_skill_claims J payload of
                              None \<Rightarrow> None
                            | Some c \<Rightarrow>
                                if kc_user_id c = [] \<or> kc_conversation_id c = [] \<or> kc_run_id c = []
                                  \<or> kc_capability c \<noteq> ''skill.publish'' \<or> kc_expires_at c \<le> unix_of now then None
                                else Some c)))
          | _ \<Rightarrow> None))"

end
