(* ===== verification/Service_Samples.thy ===== *)
theory Service_Samples
  imports Service_Traces Token_Service Task_Laws
begin

text \<open>
  A concrete environment for the witnesses: Shanghai and New York (with the fall of 2025, seen from one
  hour before it on), three JSON texts, and a password scheme that keeps the password.
\<close>

definition fixed_zone :: "int \<Rightarrow> location" where
  "fixed_zone off s = \<lparr>zs_offset = off, zs_start = min_int64, zs_end = max_int64\<rparr>"

text \<open>2 November 2025, 06:00 UTC: New York turns from UTC-4 to UTC-5.\<close>

definition new_york_fall :: int where "new_york_fall = 63897660000"

definition new_york :: location where
  "new_york s = (if s < new_york_fall then \<lparr>zs_offset = - 14400, zs_start = 63877100400, zs_end = new_york_fall\<rparr>
     else \<lparr>zs_offset = - 18000, zs_start = new_york_fall, zs_end = 63908550000\<rparr>)"

definition sample_env :: service_env where
  "sample_env = \<lparr>
     se_location = (\<lambda>n. if n = ''Asia/Shanghai'' then Some (fixed_zone 28800) else if n = ''America/New_York'' then Some new_york else None),
     se_json = (\<lambda>s. if s = ''{}'' then Some (JObject [])
        else if s = ''{run_at}'' then Some (JObject [(''run_at'', JString ''2026-02-28T09:05:07Z'')])
        else if s = ''{done}'' then Some (JObject [(''kind'', JString ''done''), (''data'', JObject [(''status'', JString ''success'')])])
        else None),
     se_lower = (\<lambda>s. s), se_compare = (\<lambda>h p. h = ''#'' @ p), se_marshal = (\<lambda>m. ''{}'')\<rparr>"

definition sample_owner :: auth_user where
  "sample_owner = \<lparr>au_id = ''u'', au_username = ''ann'', au_email = ''ann@x'', au_name = ''Ann'', au_tenant_id = ''t'', au_role = ''admin'',
     au_enabled = True, au_version = 3, au_password_hash = ''#password'', au_created_at = 1, au_updated_at = 1, au_last_login_at = 0,
     au_created_by = ''bob@x'', au_updated_by = ''bob@x'', au_password_updated = 1, au_deleted_at = 0, au_deleted_by = []\<rparr>"

definition svc0 :: admin_memory where "svc0 = store_user sample_owner new_admin_memory"

text \<open>Noon of 28 February 2026 in Shanghai.\<close>

definition noon :: gtime where "noon = 63907848000 * nanos"

definition daily_input :: task_input where
  "daily_input = \<lparr>ti_owner_user_id = [], ti_name = ''report'', ti_description = [], ti_status = [], ti_schedule_kind = ''daily'',
     ti_schedule_spec = None, ti_timezone = [], ti_prompt = ''go'', ti_model_route_id = [], ti_model_alias = ''m'', ti_config = None,
     ti_expires_at = 0, ti_replace_expires_at = False, ti_attachments = [], ti_replace_attachments = False, ti_actor = []\<rparr>"

definition daily_task :: scheduled_task where
  "daily_task = \<lparr>st_id = ''d'', st_owner_type = ''user'', st_owner_user_id = ''u'', st_conversation_id = ''sched-d'', st_name = ''report'',
     st_description = [], st_status = ''active'', st_schedule_kind = ''daily'', st_schedule_spec = Some ''{}'', st_timezone = ''Asia/Shanghai'',
     st_prompt = ''go'', st_model_route_id = ''m'', st_model_alias = ''m'', st_max_turns = 30, st_config = Some ''{}'', st_expires_at = 0,
     st_next_run_at = 63907891200 * nanos, st_last_run_at = 0, st_run_count = 0, st_last_status = [], st_last_error = [],
     st_created_at = noon, st_updated_at = noon, st_created_by = ''u'', st_updated_by = ''u''\<rparr>"

lemma plan_daily: "plan_create sample_env (noon, noon, noon) ''d'' (\<lambda>i. []) ''u'' daily_input svc0 = Inr (daily_task, [])"
  by code_simp

definition svc1 :: admin_memory where "svc1 = put_task ''d'' daily_task svc0"

lemma svc0_maps: "mget (am_users svc0) k = (if k = ''u'' then Some sample_owner else None)" "am_tasks svc0 = mnil" "am_runs svc0 = mnil"
  "am_attachments svc0 = mnil" "am_run_events svc0 = mnil"
  by (simp_all add: svc0_def store_user_def new_admin_memory_def gm.get_put sample_owner_def)

lemma svc1_maps: "mget (am_users svc1) k = (if k = ''u'' then Some sample_owner else None)"
  "mget (am_tasks svc1) k = (if k = ''d'' then Some daily_task else None)" "am_runs svc1 = mnil"
  by (simp_all add: svc1_def svc0_maps put_task_def gm.get_put) (simp add: daily_task_def clone_task_def)

lemma svc_samples_reach: "svc_reach sample_env svc0" "svc_reach sample_env svc1"
proof -
  show 0: "svc_reach sample_env svc0"
    by (rule svc_other[OF svc_start]) (simp add: svc0_def store_user_def)
  have "svc_reach sample_env (snd (create_scheduled_task daily_task [] svc0))"
    by (rule svc_create[OF 0 0 plan_daily])
  then show "svc_reach sample_env svc1"
    by (simp add: create_scheduled_task_def svc0_maps svc1_def) (simp add: daily_task_def)
qed

lemma svc1_ok: "tasks_ok svc1"
  unfolding svc1_def
  by (rule put_task_ok) (simp_all add: tasks_ok_def svc0_maps pointing_def events_ok_def lone_runs_def, simp add: daily_task_def)

end
