(* ===== verification/Service_Properties.thy ===== *)
theory Service_Properties
  imports Service_Samples
begin

text \<open>
  Properties of the scheduled tasks: what a schedule computes, what is stored, who may change it, and what
  the scheduler does with a task that is due.
\<close>

section \<open>Schedules\<close>

text \<open>
  C19. In a zone that keeps its offset around an instant, the next run of a recurring schedule is the first
  instant after it at which the schedule fires, and at most 62 days away.
\<close>

theorem next_run_is_first_fire:
  assumes "compute_next E kind spec tz after = Inr t" "kind \<noteq> ''once''" "se_location E tz = Some loc"
    "steady_around loc off after"
  shows "\<exists>s. schedule_of E kind spec = Some s \<and> first_fire loc s after t \<and> t \<le> after + 5356800 * nanos"
  by (rule compute_next_fires[OF assms])

lemma fixed_zone_steady: "\<bar>off\<bar> \<le> 86400 \<Longrightarrow> steady_around (fixed_zone off) off t"
  by (simp add: steady_around_def steady_def fixed_zone_def)

lemma sample_zone: "se_location sample_env ''Asia/Shanghai'' = Some (fixed_zone 28800)"
  by (simp add: sample_env_def)

lemma daily_next: "compute_next sample_env ''daily'' (Some ''{}'') ''Asia/Shanghai'' noon = Inr (63907891200 * nanos)"
  by code_simp

lemma next_run_is_first_fire_witness:
  "first_fire (fixed_zone 28800) (Daily 0) noon (63907891200 * nanos) \<and> \<not> fires (fixed_zone 28800) (Daily 0) noon"
proof -
  have s: "schedule_of sample_env ''daily'' (Some ''{}'') = Some (Daily 0)" by code_simp
  have "\<not> fires (fixed_zone 28800) (Daily 0) noon" by code_simp
  with next_run_is_first_fire[OF daily_next _ sample_zone fixed_zone_steady[of 28800 noon]] s show ?thesis by simp
qed

text \<open>
  Where the clocks are turned back by an hour, on a full hour, in a zone west of UTC.
\<close>

definition falls_back :: "location \<Rightarrow> int \<Rightarrow> int \<Rightarrow> bool" where
  "falls_back loc off at \<longleftrightarrow> - 86400 \<le> off \<and> off < - 3600 \<and> (at + off) mod 3600 = 0 \<and>
     (\<forall>s. at - 86400 \<le> s \<and> s < at \<longrightarrow> zs_offset (loc s) = off + 3600 \<and> zs_start (loc s) \<le> at - 7200 \<and> zs_end (loc s) = at) \<and>
     (\<forall>s. at \<le> s \<and> s < at + 3600 \<longrightarrow> zs_offset (loc s) = off)"

lemma hour_start: "86400 * (w div 86400) + 3600 * (w mod 86400 div 3600) = w - w mod 3600" for w :: int
  using day_clock[of w] by (simp add: minus_mod_eq_mult_div)

text \<open>
  C20. In a zone that is more than an hour behind UTC after it turned its clocks back by one hour, in the hour that is
  repeated: once the minute of an hourly schedule has passed, its next run is not after the given instant but the
  minute just past, so the task is due again at once.
\<close>

theorem hourly_repeats_at_fall_back:
  assumes "falls_back loc off at" "0 \<le> mi" "mi \<le> 59" "at + 60 * mi \<le> secs after" "secs after < at + 3600"
  shows "next_hourly loc mi after = nanos * (at + 60 * mi) \<and> \<not> next_hourly loc mi after > after"
proof -
  from assms(1) have z: "- 86400 \<le> off" "off < - 3600" "(at + off) mod 3600 = 0"
    and before: "\<And>s. at - 86400 \<le> s \<Longrightarrow> s < at \<Longrightarrow> zs_offset (loc s) = off + 3600 \<and> zs_start (loc s) \<le> at - 7200 \<and> zs_end (loc s) = at"
    and after: "\<And>s. at \<le> s \<Longrightarrow> s < at + 3600 \<Longrightarrow> zs_offset (loc s) = off"
    unfolding falls_back_def by (elim conjE, blast)+
  have read: "wall_secs loc after = secs after + off" using after[of "secs after"] assms(2,4,5) by (simp add: wall_secs_def)
  define r where "r = secs after - at"
  have r: "0 \<le> r" "r < 3600" "secs after = at + r" using assms(2,4,5) by (simp_all add: r_def)
  have "(secs after + off) mod 3600 = ((at + off) mod 3600 + r mod 3600) mod 3600" unfolding r(3) mod_add_eq by (simp add: algebra_simps)
  then have "(secs after + off) mod 3600 = r" using r z(3) by simp
  with hour_start[of "secs after + off"] have hour: "86400 * ((secs after + off) div 86400) +
      3600 * ((secs after + off) mod 86400 div 3600) = at + off" using r(3) by simp
  obtain y mo d where cv: "civil (wall_day loc after) = (y, mo, d)" by (cases "civil (wall_day loc after)") auto
  have naive: "86400 * day_no y mo d + 3600 * hour_of loc after + 60 * mi + 0 = at + off + 60 * mi"
    using hour civil_sound[OF cv] by (simp add: hour_of_def wall_day_def wall_clock_def read)
  have date: "time_date loc y mo d (hour_of loc after) mi 0 0 = nanos * (at + 60 * mi - 3600)"
    unfolding time_date_def naive Let_def using z(1,2) before[of "at + off + 60 * mi"] assms(2,3) by simp
  have "\<not> nanos * (at + 60 * mi - 3600) > after" "\<not> nanos * (at + 60 * mi) > after"
    unfolding after_whole using assms(4) by simp_all
  then show ?thesis by (simp add: next_hourly_def cv date)
qed

lemma hourly_repeats_at_fall_back_witness:
  "next_hourly new_york 15 ((new_york_fall + 1800) * nanos) = nanos * (new_york_fall + 900)"
proof -
  have fall: "falls_back new_york (- 18000) new_york_fall"
    unfolding falls_back_def new_york_def by (auto simp: new_york_fall_def)
  have secs: "secs ((new_york_fall + 1800) * nanos) = new_york_fall + 1800" by (simp add: secs_def)
  show ?thesis
    using hourly_repeats_at_fall_back[OF fall, of 15 "(new_york_fall + 1800) * nanos"] unfolding secs by simp
qed

section \<open>Stored tasks\<close>

text \<open>
  C21. However the operations interleave, a stored task is well-typed: one of the four statuses, its
  required texts, a schedule that decodes and a zone that exists. So the next run of a stored task can
  always be computed, and the scheduler never falls back to trying again in five minutes.
\<close>

theorem stored_tasks_typed:
  assumes "svc_reach E m" "mget (am_tasks m) i = Some t"
  shows "task_typed E t \<and> (\<exists>n. next_run_after_task E t now = Inr n \<and> next_or_retry E now t = n)"
proof -
  have t: "task_typed E t" by (rule tasks_typedD[OF reach_typed[OF assms(1)] assms(2)])
  with typed_next_run[OF t] show ?thesis by blast
qed

lemma stored_tasks_typed_witness:
  "task_typed sample_env daily_task \<and> (\<exists>n. next_run_after_task sample_env daily_task 5 = Inr n)"
  using stored_tasks_typed[OF svc_samples_reach(2), of "''d''" daily_task 5] svc1_maps(2)[of "''d''"] by auto

section \<open>Who may change a task\<close>

lemma write_task_other:
  assumes "st_id t \<noteq> j"
  shows "mget (am_tasks (snd (write_task t r as m))) j = mget (am_tasks m) j"
proof -
  have "mget (am_tasks (snd (update_scheduled_task t r as m))) j = mget (am_tasks m) j"
    using assms by (simp add: update_scheduled_task_def put_attachments_def drop_attachments_def gm.get_put Let_def)
  then show ?thesis by (auto simp: write_task_def split: prod.splits sum.splits)
qed

lemma create_other:
  assumes "mget (am_tasks m) j = Some t"
  shows "mget (am_tasks (snd (create_scheduled_task u as m))) j = Some t"
  using assms by (cases "mget (am_tasks m) (st_id u)") (auto simp: create_scheduled_task_def gm.get_put)

lemma input_id: "task_from_input E clock i old inp False = Inr t \<Longrightarrow> st_id t = st_id old"
  by (auto simp: task_from_input_def fill_task_def Let_def split: prod.splits if_splits sum.splits)

lemma switch_id: "switch_task E clock status actor t m = Inr u \<Longrightarrow> st_id u = st_id t"
  by (auto simp: switch_task_def Let_def split: prod.splits if_splits sum.splits option.splits)

text \<open>What a user's plan is about: a task stored under the given id and owned by the resolved user.\<close>

lemma user_plan_own:
  assumes "tasks_ok m"
  shows "plan_user_update E clock i ident inp m = Inr (t, inp') \<Longrightarrow>
      st_id t = i \<and> (\<exists>u s. resolve_task_owner E ident m = Inr u \<and> mget (am_tasks m) i = Some s \<and> st_owner_user_id s = au_id u)"
    "plan_user_status E clock2 i ident status m = Inr t \<Longrightarrow>
      st_id t = i \<and> (\<exists>u s. resolve_task_owner E ident m = Inr u \<and> mget (am_tasks m) i = Some s \<and> st_owner_user_id s = au_id u)"
proof -
  have id: "mget (am_tasks m) i = Some x \<Longrightarrow> st_id x = i" for x by (rule tasks_okD(1)[OF assms])
  show "plan_user_update E clock i ident inp m = Inr (t, inp') \<Longrightarrow>
      st_id t = i \<and> (\<exists>u s. resolve_task_owner E ident m = Inr u \<and> mget (am_tasks m) i = Some s \<and> st_owner_user_id s = au_id u)"
    by (auto simp: plan_user_update_def get_scheduled_task_for_owner_def Let_def id split: sum.splits option.splits if_splits dest!: input_id)
  show "plan_user_status E clock2 i ident status m = Inr t \<Longrightarrow>
      st_id t = i \<and> (\<exists>u s. resolve_task_owner E ident m = Inr u \<and> mget (am_tasks m) i = Some s \<and> st_owner_user_id s = au_id u)"
    by (auto simp: plan_user_status_def get_scheduled_task_for_owner_def Let_def id split: sum.splits option.splits if_splits dest!: switch_id)
qed

definition shows_task :: "string \<Rightarrow> task_detail \<Rightarrow> bool" where
  "shows_task j d \<longleftrightarrow> st_id (td_task d) = j \<or> (\<exists>a \<in> set (td_attachments d). ta_task_id a = j)"

definition not_shown :: "string \<Rightarrow> svc_error + task_detail \<Rightarrow> bool" where
  "not_shown j answer \<longleftrightarrow> (case answer of Inl _ \<Rightarrow> True | Inr d \<Rightarrow> \<not> shows_task j d)"

lemma shown_detail: "shows_task j (task_detail_of t (list_task_attachments (st_id t) m) n) \<longleftrightarrow> st_id t = j"
  by (auto simp: shows_task_def task_detail_of_def list_task_attachments_def)

lemma write_task_shows: "st_id t \<noteq> j \<Longrightarrow> not_shown j (fst (write_task t r as m))"
  by (auto simp: write_task_def not_shown_def shown_detail split: prod.split sum.split)

lemma filled_attachment: "a \<in> set (fill_attachments tid fresh now actor as) \<Longrightarrow> ta_task_id a = tid"
  by (auto simp: fill_attachments_def)

text \<open>For a task of another owner: what the reads answer, what the writes answer, and what they leave.\<close>

lemma user_reads_hide:
  assumes "tasks_ok m" "mget (am_tasks m) j = Some t"
    "\<And>u. resolve_task_owner E ident m = Inr u \<Longrightarrow> st_owner_user_id t \<noteq> au_id u"
  shows "\<exists>e. get_user_task E j ident m = Inl e"
    "case list_user_tasks E ident m of Inl _ \<Rightarrow> True | Inr ds \<Rightarrow> \<forall>d \<in> set ds. \<not> shows_task j d"
    "not_shown j (get_user_task E i ident m)"
proof -
  have id: "mget (am_tasks m) k = Some x \<Longrightarrow> st_id x = k" for k x by (rule tasks_okD(1)[OF assms(1)])
  have shown: "shows_task j (with_attachments m x) \<longleftrightarrow> st_id x = j" for x by (simp add: with_attachments_def shown_detail)
  show "\<exists>e. get_user_task E j ident m = Inl e"
    using assms(2,3) by (auto simp: get_user_task_def get_scheduled_task_for_owner_def split: sum.split)
  show "case list_user_tasks E ident m of Inl _ \<Rightarrow> True | Inr ds \<Rightarrow> \<forall>d \<in> set ds. \<not> shows_task j d"
  proof (cases "resolve_task_owner E ident m")
    case (Inr u)
    have "st_id x \<noteq> j" if "x \<in> set (list_scheduled_tasks_for_owner (au_id u) m)" for x
      using that assms(2) assms(3)[OF Inr] id by (auto simp: list_scheduled_tasks_for_owner_def gm.items_get)
    with Inr show ?thesis by (simp add: list_user_tasks_def shown)
  qed (simp add: list_user_tasks_def)
  show "not_shown j (get_user_task E i ident m)"
  proof (cases "resolve_task_owner E ident m")
    case (Inr u)
    have "st_id x = i \<and> i \<noteq> j" if "get_scheduled_task_for_owner i (au_id u) m = Inr x" for x
      using that assms(2) assms(3)[OF Inr] id by (auto simp: get_scheduled_task_for_owner_def split: option.splits if_splits)
    with Inr shown_detail show ?thesis by (auto simp: get_user_task_def not_shown_def split: sum.split)
  qed (simp add: get_user_task_def not_shown_def)
qed

lemma user_writes_hide:
  assumes "tasks_ok m" "mget (am_tasks m) j = Some t"
    "\<And>u. resolve_task_owner E ident m = Inr u \<Longrightarrow> st_owner_user_id t \<noteq> au_id u"
  shows "not_shown j (fst (create_user_task E clock i fresh ident inp m))"
    "not_shown j (fst (update_user_task E clock fresh i ident inp m))"
    "not_shown j (fst (set_user_task_status E clock2 i ident status m))"
proof -
  show "not_shown j (fst (create_user_task E clock i fresh ident inp m))"
  proof (cases "plan_create E clock i fresh ident inp m")
    case (Inr p)
    obtain u as where p: "p = (u, as)" by (cases p)
    have a: "\<forall>a \<in> set as. ta_task_id a = st_id u"
      using Inr p by (auto simp: plan_create_def Let_def filled_attachment split: sum.splits option.splits)
    have "fst (create_scheduled_task u as m) = Inl StoreConflict" if "st_id u = j"
      using that assms(2) by (simp add: create_scheduled_task_def)
    with a Inr p show ?thesis
      by (auto simp: create_user_task_def not_shown_def shows_task_def task_detail_of_def split: prod.splits sum.splits)
  qed (simp add: create_user_task_def not_shown_def)
  show "not_shown j (fst (update_user_task E clock fresh i ident inp m))"
  proof (cases "plan_user_update E clock i ident inp m")
    case (Inr p)
    obtain s inp' where p: "p = (s, inp')" by (cases p) auto
    from user_plan_own(1)[OF assms(1) Inr[unfolded p]] assms(2,3) have "st_id s \<noteq> j" by auto
    with Inr p show ?thesis by (simp add: update_user_task_def write_task_shows)
  qed (simp add: update_user_task_def not_shown_def)
  show "not_shown j (fst (set_user_task_status E clock2 i ident status m))"
  proof (cases "plan_user_status E clock2 i ident status m")
    case (Inr s)
    from user_plan_own(2)[OF assms(1) Inr] assms(2,3) have "st_id s \<noteq> j" by auto
    with Inr show ?thesis by (simp add: set_user_task_status_def put_planned_def write_task_shows)
  qed (simp add: set_user_task_status_def put_planned_def not_shown_def)
qed

lemma user_writes_spare:
  assumes "tasks_ok m" "mget (am_tasks m) j = Some t"
    "\<And>u. resolve_task_owner E ident m = Inr u \<Longrightarrow> st_owner_user_id t \<noteq> au_id u"
  shows "mget (am_tasks (snd (create_user_task E clock i fresh ident inp m))) j = Some t"
    "mget (am_tasks (snd (update_user_task E clock fresh i ident inp m))) j = Some t"
    "mget (am_tasks (snd (set_user_task_status E clock2 i ident status m))) j = Some t"
    "mget (am_tasks (snd (delete_user_task E i ident m))) j = Some t"
proof -
  show "mget (am_tasks (snd (create_user_task E clock i fresh ident inp m))) j = Some t"
  proof (cases "plan_create E clock i fresh ident inp m")
    case (Inr p)
    then show ?thesis using create_other[OF assms(2), of "fst p" "snd p"]
      by (auto simp: create_user_task_def split: prod.splits sum.splits)
  qed (simp add: create_user_task_def assms(2))
  show "mget (am_tasks (snd (update_user_task E clock fresh i ident inp m))) j = Some t"
  proof (cases "plan_user_update E clock i ident inp m")
    case (Inr p)
    obtain s inp' where p: "p = (s, inp')" by (cases p) auto
    from user_plan_own(1)[OF assms(1) Inr[unfolded p]] assms(2,3) have "st_id s \<noteq> j" by auto
    with Inr p show ?thesis by (simp add: update_user_task_def write_task_other assms(2))
  qed (simp add: update_user_task_def assms(2))
  show "mget (am_tasks (snd (set_user_task_status E clock2 i ident status m))) j = Some t"
  proof (cases "plan_user_status E clock2 i ident status m")
    case (Inr s)
    from user_plan_own(2)[OF assms(1) Inr] assms(2,3) have "st_id s \<noteq> j" by auto
    with Inr show ?thesis by (simp add: set_user_task_status_def put_planned_def write_task_other assms(2))
  qed (simp add: set_user_task_status_def put_planned_def assms(2))
  show "mget (am_tasks (snd (delete_user_task E i ident m))) j = Some t"
  proof (cases "resolve_task_owner E ident m")
    case (Inr u)
    have "mget (am_tasks (snd (delete_scheduled_task_for_owner i (au_id u) m))) j = Some t"
      using assms(2) assms(3)[OF Inr]
      by (auto simp: delete_scheduled_task_for_owner_def remove_task_maps gm.get_del split: option.split)
    with Inr show ?thesis by (auto simp: delete_user_task_def store_answer_def split: prod.splits sum.splits)
  qed (simp add: delete_user_task_def assms(2))
qed

text \<open>
  C22. A user's operations see and change only the tasks of the account the caller resolves to: a task of another
  owner is not in the list, reading it fails, no operation answers with it, and whatever they do, it stays as it is.
\<close>

theorem user_tasks_isolated:
  assumes "tasks_ok m" "mget (am_tasks m) j = Some t"
    "\<And>u. resolve_task_owner E ident m = Inr u \<Longrightarrow> st_owner_user_id t \<noteq> au_id u"
  shows "(\<exists>e. get_user_task E j ident m = Inl e) \<and>
    (case list_user_tasks E ident m of Inl _ \<Rightarrow> True | Inr ds \<Rightarrow> \<forall>d \<in> set ds. \<not> shows_task j d) \<and>
    not_shown j (get_user_task E i ident m) \<and>
    not_shown j (fst (create_user_task E clock i fresh ident inp m)) \<and>
    not_shown j (fst (update_user_task E clock fresh i ident inp m)) \<and>
    not_shown j (fst (set_user_task_status E clock2 i ident status m)) \<and>
    mget (am_tasks (snd (create_user_task E clock i fresh ident inp m))) j = Some t \<and>
    mget (am_tasks (snd (update_user_task E clock fresh i ident inp m))) j = Some t \<and>
    mget (am_tasks (snd (set_user_task_status E clock2 i ident status m))) j = Some t \<and>
    mget (am_tasks (snd (delete_user_task E i ident m))) j = Some t"
  by (intro conjI) (rule user_reads_hide[OF assms] user_writes_hide[OF assms] user_writes_spare[OF assms], assumption)+

definition eve :: auth_user where
  "eve = sample_owner\<lparr>au_id := ''e'', au_username := ''eve'', au_email := ''eve@x'', au_name := ''Eve'', au_role := ''user''\<rparr>"

definition svc_two :: admin_memory where "svc_two = store_user eve svc1"

lemma user_tasks_isolated_witness:
  "resolve_task_owner sample_env ''eve'' svc_two = Inr eve \<and>
   (case list_user_tasks sample_env ''eve'' svc_two of Inl _ \<Rightarrow> True | Inr ds \<Rightarrow> \<forall>d \<in> set ds. \<not> shows_task ''d'' d) \<and>
   mget (am_tasks (snd (delete_user_task sample_env ''d'' ''eve'' svc_two))) ''d'' = Some daily_task"
proof -
  have r: "resolve_task_owner sample_env ''eve'' svc_two = Inr eve" by code_simp
  have ok: "tasks_ok svc_two" using svc1_ok by (simp add: svc_two_def store_user_def tasks_ok_def)
  have t: "mget (am_tasks svc_two) ''d'' = Some daily_task" by (simp add: svc_two_def store_user_def svc1_maps)
  from user_tasks_isolated[OF ok t, of sample_env "''eve''"] r show ?thesis by (simp add: eve_def daily_task_def)
qed

section \<open>Executing a due task\<close>

text \<open>
  The scheduler starts a run only for a task whose owner is there and enabled, whose stored row is due
  and which has no live run; then the run is stored and live. Otherwise it starts none.
\<close>

theorem only_enabled_owners_run:
  "case begin_due E c now rid t m of
     (Some cl, m') \<Rightarrow> (\<exists>u. mget (am_users m) (st_owner_user_id t) = Some u \<and> au_enabled u) \<and>
       (\<exists>s. mget (am_tasks m) (st_id t) = Some s \<and> task_due now s) \<and>
       (\<forall>k r. mget (am_runs m) k = Some r \<longrightarrow> tr_task_id r = st_id t \<longrightarrow> \<not> run_live r) \<and>
       cl_run cl = due_run c now rid t \<and> mget (am_runs m') rid = Some (cl_run cl) \<and> run_live (cl_run cl)
   | (None, m') \<Rightarrow> am_runs m' = am_runs m"
proof -
  let ?r = "due_run c now rid t"
  let ?nx = "next_or_retry E now t"
  have r: "tr_id ?r = rid" "tr_scheduled_for ?r = now" "run_live ?r" by (simp_all add: due_run_def zero_run_def run_live_def)
  consider "st_expires_at t \<noteq> 0 \<and> st_expires_at t < now" | "\<not> (st_expires_at t \<noteq> 0 \<and> st_expires_at t < now)" "owner_gone t m"
    | "\<not> (st_expires_at t \<noteq> 0 \<and> st_expires_at t < now)" "\<not> owner_gone t m" by blast
  then show ?thesis
  proof cases
    case 3
    from 3(2) have owner: "\<exists>u. mget (am_users m) (st_owner_user_id t) = Some u \<and> au_enabled u"
      by (auto simp: owner_gone_def get_auth_user_def split: option.splits)
    obtain res m' where Pair: "try_start_task_run (st_id t) ?r ?nx m = (res, m')" by (cases "try_start_task_run (st_id t) ?r ?nx m")
    have start: "begin_due E c now rid t m = (case (res, m') of (Inr (Some u), m') \<Rightarrow> (Some \<lparr>cl_task = u, cl_run = ?r, cl_next = ?nx\<rparr>, m')
        | (_, m') \<Rightarrow> (None, m'))"
      unfolding begin_due_def Let_def using 3 Pair by (simp only: if_False)
    from Pair show ?thesis
    proof (cases rule: try_start_cases)
      case (4 s)
      have "mget (am_runs m') rid = Some ?r" unfolding 4(6) by (simp add: gm.get_put r)
      with 4 owner r show ?thesis unfolding start by auto
    qed (simp_all add: start)
  qed (simp_all add: begin_due_def update_scheduled_task_def put_attachments_def drop_attachments_def Let_def)
qed

lemma append_events_keep: "am_tasks (append_events E rid ck evs m) = am_tasks m \<and> am_runs (append_events E rid ck evs m) = am_runs m
    \<and> am_users (append_events E rid ck evs m) = am_users m"
proof -
  have "am_tasks (append_event E rid q n ev m) = am_tasks m \<and> am_runs (append_event E rid q n ev m) = am_runs m
      \<and> am_users (append_event E rid q n ev m) = am_users m" for q n ev m
    by (simp add: append_event_def append_task_run_event_def Let_def)
  then have "am_tasks (fold (\<lambda>(i, ev). append_event E rid (int i + 1) (ck i) ev) ies m) = am_tasks m \<and>
      am_runs (fold (\<lambda>(i, ev). append_event E rid (int i + 1) (ck i) ev) ies m) = am_runs m \<and>
      am_users (fold (\<lambda>(i, ev). append_event E rid (int i + 1) (ck i) ev) ies m) = am_users m" for ies
    by (induction ies arbitrary: m) auto
  then show ?thesis unfolding append_events_def .
qed

definition result_run :: "gtime \<Rightarrow> task_claim \<Rightarrow> run_outcome \<Rightarrow> task_run" where
  "result_run now cl out = (cl_run cl)\<lparr>tr_session_id := ro_session_id out,
     tr_status := (case ro_error out of None \<Rightarrow> ''success'' | Some e \<Rightarrow> ''error''),
     tr_output_text := summarize_output (output_of (ro_events out)),
     tr_error := (case ro_error out of None \<Rightarrow> [] | Some e \<Rightarrow> e), tr_finished_at := now, tr_updated_at := now\<rparr>"

lemma end_due_store:
  assumes "mget (am_runs m) (tr_id (cl_run cl)) = Some x" "mget (am_tasks m) (tr_task_id (cl_run cl)) = Some t"
  shows "snd (end_due now cl out m) =
    put_task (st_id t) (finish_task (result_run now cl out) (cl_next cl) t) (put_task_run (result_run now cl out) m)"
  using assms by (cases "ro_error out") (simp_all add: end_due_def finish_due_run_def update_task_run_def result_run_def Let_def)

text \<open>The claimed task and what the gateway answers for it.\<close>

definition claimed :: "service_env \<Rightarrow> scheduler_config \<Rightarrow> gtime \<Rightarrow> string \<Rightarrow> scheduled_task \<Rightarrow> scheduled_task" where
  "claimed E c now rid t = clone_task (claim_task (due_run c now rid t) (next_or_retry E now t) t)"

text \<open>
  C23. A due task whose owner is enabled and which has no live run is executed: its run ends with the
  result of the stream, whatever that is, none of its runs stays live, the task counts one more run and
  carries its result, and its next run is the one its schedule gives.
\<close>

theorem due_task_is_executed:
  assumes "mget (am_tasks m) (st_id t) = Some t" "task_due (ck_begin ck) t" "mget (am_users m) (st_owner_user_id t) = Some u" "au_enabled u"
    "\<And>k r. mget (am_runs m) k = Some r \<Longrightarrow> tr_task_id r = st_id t \<Longrightarrow> \<not> run_live r" "mget (am_runs m) rid = None"
  shows "\<exists>r t'. let m' = snd (execute_due_task E c run ck rid t m);
      out = run (claimed E c (ck_begin ck) rid t) (list_task_attachments (st_id t) m) in
    mget (am_runs m') rid = Some r \<and> tr_status r = (if ro_error out = None then ''success'' else ''error'') \<and>
    (\<forall>k x. mget (am_runs m') k = Some x \<and> tr_task_id x = st_id t \<longrightarrow> \<not> run_live x) \<and>
    mget (am_tasks m') (st_id t) = Some t' \<and> st_run_count t' = int64 (st_run_count t + 1) \<and> st_last_status t' = tr_status r \<and>
    st_next_run_at t' = next_or_retry E (ck_begin ck) t"
proof -
  let ?now = "ck_begin ck"
  let ?r = "due_run c ?now rid t"
  let ?nx = "next_or_retry E ?now t"
  let ?t = "claim_task ?r ?nx t"
  let ?cl = "\<lparr>cl_task = claimed E c ?now rid t, cl_run = ?r, cl_next = ?nx\<rparr>"
  let ?m1 = "put_task_run ?r (put_task (st_id t) ?t m)"
  have as: "list_task_attachments (st_id t) ?m1 = list_task_attachments (st_id t) m"
    by (simp add: list_task_attachments_def put_task_def put_task_run_def)
  define out where "out = run (claimed E c ?now rid t) (list_task_attachments (st_id t) m)"
  define m2 where "m2 = append_events E rid (ck_event ck) (ro_events out) ?m1"
  define rr where "rr = result_run (ck_end ck) ?cl out"
  have r: "tr_id ?r = rid" "tr_scheduled_for ?r = ?now" "tr_task_id ?r = st_id t" by (simp_all add: due_run_def zero_run_def)
  have id: "st_id (claimed E c ?now rid t) = st_id t" "st_id ?t = st_id t" by (simp_all add: claimed_def claim_task_def Let_def)
  have alive: "\<not> (st_expires_at t \<noteq> 0 \<and> st_expires_at t < ?now)" using assms(2) by (auto simp: task_due_def)
  have owner: "\<not> owner_gone t m" using assms(3,4) by (simp add: owner_gone_def get_auth_user_def)
  have none: "\<not> list_ex (\<lambda>e. tr_task_id e = st_id t \<and> run_live e) (mvals (am_runs m))"
    unfolding list_ex_iff using assms(5) by (metis mvals_iff)
  have start: "begin_due E c ?now rid t m = (Some ?cl, ?m1)"
    unfolding begin_due_def Let_def using alive owner assms(1,2,6) none
    by (simp add: try_start_task_run_def r claimed_def Let_def)
  have keep: "am_tasks m2 = am_tasks ?m1" "am_runs m2 = am_runs ?m1" unfolding m2_def using append_events_keep by blast+
  have stored: "mget (am_runs m2) (tr_id (cl_run ?cl)) = Some ?r" "mget (am_tasks m2) (tr_task_id (cl_run ?cl)) = Some (clone_task ?t)"
    by (simp_all add: keep r gm.get_put put_task_def put_task_run_def)
  have fin: "snd (execute_due_task E c run ck rid t m) =
      put_task (st_id t) (finish_task rr ?nx (clone_task ?t)) (put_task_run rr m2)"
    unfolding execute_due_task_def start using end_due_store[OF stored, of "ck_end ck" out] id
    by (simp add: Let_def as out_def[symmetric] m2_def[symmetric] rr_def[symmetric] case_prod_beta)
  have rr: "tr_id rr = rid" "tr_task_id rr = st_id t" "\<not> run_live rr"
    "tr_status rr = (if ro_error out = None then ''success'' else ''error'')"
    by (auto simp: rr_def result_run_def r run_live_def split: option.splits)
  have over: "\<forall>k x. mget (am_runs (snd (execute_due_task E c run ck rid t m))) k = Some x \<and> tr_task_id x = st_id t \<longrightarrow> \<not> run_live x"
    unfolding fin using assms(5) rr by (auto simp: keep put_task_def put_task_run_def gm.get_put r split: if_splits)
  have task: "mget (am_tasks (snd (execute_due_task E c run ck rid t m))) (st_id t) = Some (clone_task (finish_task rr ?nx (clone_task ?t)))"
    unfolding fin by (simp add: put_task_def gm.get_put)
  have run: "mget (am_runs (snd (execute_due_task E c run ck rid t m))) rid = Some rr"
    unfolding fin by (simp add: put_task_def put_task_run_def gm.get_put rr(1))
  have rest: "st_run_count (clone_task (finish_task rr ?nx (clone_task ?t))) = int64 (st_run_count t + 1)"
    "st_last_status (clone_task (finish_task rr ?nx (clone_task ?t))) = tr_status rr"
    "st_next_run_at (clone_task (finish_task rr ?nx (clone_task ?t))) = ?nx"
    by (simp_all add: finish_task_def count_run_def settle_task_status_def claim_task_def clone_task_def Let_def)
  show ?thesis unfolding Let_def
    by (rule exI[of _ rr], rule exI[of _ "clone_task (finish_task rr ?nx (clone_task ?t))"])
      (use run rr(4) over task rest in \<open>simp add: out_def\<close>)
qed

lemma sample_due: "task_due (st_next_run_at daily_task) daily_task" by code_simp

definition sample_config :: scheduler_config where
  "sample_config = \<lparr>sc_enabled = True, sc_gateway_url = ''http://gw'', sc_worker_id = ''w'', sc_poll_every = 60 * nanos,
     sc_run_timeout = 3600 * nanos, sc_heartbeat_every = 30 * nanos, sc_lease_timeout = 300 * nanos\<rparr>"

definition sample_clock :: exec_clock where
  "sample_clock = \<lparr>ck_begin = 63907891200 * nanos, ck_end = 63907891300 * nanos, ck_event = (\<lambda>i. 63907891201 * nanos)\<rparr>"

definition sample_runner :: runner where
  "sample_runner t as = \<lparr>ro_session_id = ''s'', ro_events = [], ro_error = Some ''timeout''\<rparr>"

lemma due_task_is_executed_witness:
  "\<exists>r. mget (am_runs (snd (execute_due_task sample_env sample_config sample_runner sample_clock ''r1'' daily_task svc1))) ''r1'' = Some r
     \<and> tr_status r = ''error''"
proof -
  have t: "mget (am_tasks svc1) (st_id daily_task) = Some daily_task" by (simp add: svc1_maps daily_task_def)
  have d: "task_due (ck_begin sample_clock) daily_task" using sample_due by (simp add: sample_clock_def daily_task_def)
  have u: "mget (am_users svc1) (st_owner_user_id daily_task) = Some sample_owner" "au_enabled sample_owner"
    by (simp_all add: svc1_maps daily_task_def sample_owner_def)
  have n: "mget (am_runs svc1) ''r1'' = None" by (simp add: svc1_maps)
  show ?thesis
    using due_task_is_executed[OF t d u _ n, of sample_env sample_config sample_runner]
    by (auto simp: svc1_maps(3) Let_def sample_runner_def)
qed

text \<open>
  C24. A run that ends writes the next instant computed when it began over the task's, whatever the task has become
  meanwhile: a new time or a run-now given while it ran is lost. A one-off task that was moved to a later time while
  it ran is completed without running at that time.
\<close>

theorem finish_forgets_reschedule:
  assumes "fst (begin_due E c now rid t m) = Some cl" "mget (am_runs m') rid \<noteq> None"
    "mget (am_tasks m') (st_id t) = Some t'" "st_id t' = st_id t"
  shows "\<exists>t''. mget (am_tasks (snd (end_due at cl out m'))) (st_id t) = Some t'' \<and> st_next_run_at t'' = next_or_retry E now t \<and>
    (st_schedule_kind t = ''once'' \<and> st_schedule_kind t' = ''once'' \<longrightarrow> st_next_run_at t'' = 0 \<and> st_status t'' = ''completed'')"
proof -
  from assms(1) have cl: "cl_run cl = due_run c now rid t" "cl_next cl = next_or_retry E now t"
    by (auto simp: begin_due_def Let_def split: if_splits prod.splits sum.splits option.splits)
  have r: "tr_id (cl_run cl) = rid" "tr_task_id (cl_run cl) = st_id t" by (simp_all add: cl due_run_def zero_run_def)
  from assms(2) obtain x where "mget (am_runs m') (tr_id (cl_run cl)) = Some x" using r by auto
  from end_due_store[OF this, of t' at out] assms(3,4) r
  have "mget (am_tasks (snd (end_due at cl out m'))) (st_id t) = Some (clone_task (finish_task (result_run at cl out) (cl_next cl) t'))"
    by (simp add: put_task_def gm.get_put finish_task_def count_run_def settle_task_status_def)
  moreover have "next_or_retry E now t = 0" if "st_schedule_kind t = ''once''"
    using that by (simp add: next_or_retry_def next_run_after_task_def)
  ultimately show ?thesis by (simp add: cl clone_task_def finish_task_def count_run_def settle_task_status_def)
qed

definition once_task :: scheduled_task where
  "once_task = daily_task\<lparr>st_schedule_kind := ''once'', st_schedule_spec := Some ''{run_at}''\<rparr>"

definition once_start :: "task_claim option \<times> admin_memory" where
  "once_start = begin_due sample_env sample_config (ck_begin sample_clock) ''r1'' once_task (put_task ''d'' once_task svc0)"

lemma finish_forgets_reschedule_witness:
  "\<exists>cl t''. fst once_start = Some cl \<and>
     (let moved = put_task ''d'' (once_task\<lparr>st_next_run_at := 64000000000 * nanos\<rparr>) (snd once_start)
      in task_due (64000000000 * nanos) (the (mget (am_tasks moved) ''d'')) \<and>
         mget (am_tasks (snd (end_due (ck_end sample_clock) cl (sample_runner once_task []) moved))) ''d'' = Some t'' \<and> st_status t'' = ''completed'')"
proof -
  let ?moved = "once_task\<lparr>st_next_run_at := 64000000000 * nanos\<rparr>"
  have "fst once_start \<noteq> None" "mget (am_runs (snd once_start)) ''r1'' \<noteq> None" by code_simp+
  then obtain cl where cl: "fst once_start = Some cl" and r: "mget (am_runs (put_task ''d'' ?moved (snd once_start))) ''r1'' \<noteq> None"
    by (auto simp: put_task_def)
  have due: "task_due (64000000000 * nanos) ?moved" by code_simp
  have t: "mget (am_tasks (put_task ''d'' ?moved (snd once_start))) (st_id once_task) = Some (clone_task ?moved)"
    "st_id once_task = ''d''" by (simp_all add: put_task_def gm.get_put once_task_def daily_task_def)
  have id: "st_id (clone_task ?moved) = st_id once_task" "st_schedule_kind (clone_task ?moved) = ''once''"
      "st_schedule_kind once_task = ''once''"
    by (simp_all add: once_task_def clone_task_def)
  from finish_forgets_reschedule[OF cl[unfolded once_start_def] r t(1) id(1)] id(2,3) t due cl show ?thesis
    by (auto simp: Let_def clone_task_def task_due_def)
qed

section \<open>The answer of the gateway\<close>

text \<open>
  A run counts as successful exactly when the stream holds a first event of kind done, nothing before
  it fails to decode, and its status is success: a stream that is cut, or that ends otherwise, is an error.
\<close>

theorem only_done_succeeds:
  assumes "read_chat E ls broken = (evs, None)"
  shows "\<exists>es e. evs = es @ [e] \<and> re_kind e = ''done'' \<and> trim_space (mget0 [] (re_data e) ''status'') = ''success'' \<and>
    (\<forall>x \<in> set es. re_kind x \<noteq> ''done'')"
proof -
  have "read_stream E ls name seen = (evs, None) \<Longrightarrow> \<forall>x \<in> set seen. re_kind x \<noteq> ''done'' \<Longrightarrow>
      \<exists>es e. evs = es @ [e] \<and> re_kind e = ''done'' \<and> trim_space (mget0 [] (re_data e) ''status'') = ''success'' \<and>
        (\<forall>x \<in> set es. re_kind x \<noteq> ''done'')" for name seen
    by (induction E ls name seen rule: read_stream.induct)
      (auto simp: Let_def split: if_splits option.splits)
  from this[of "[]" "[]"] assms show ?thesis
    by (auto simp: read_chat_def split: prod.splits option.splits run_error.splits)
qed

lemma only_done_succeeds_witness:
  "\<exists>e. fst (read_chat sample_env [''data: {done}''] None) = [e] \<and> re_kind e = ''done''"
proof -
  have "read_chat sample_env [''data: {done}''] None = (fst (read_chat sample_env [''data: {done}''] None), None)"
    "length (fst (read_chat sample_env [''data: {done}''] None)) = 1"
    by code_simp+
  from only_done_succeeds[OF this(1)] this(2) show ?thesis by auto
qed

section \<open>Settings\<close>

lemma put_setting_read:
  assumes "set_system_setting s expected m = (Inr s', m')"
  shows "get_system_setting (ss_key s) m' = Inr s' \<and> ss_key s' = ss_key s \<and> ss_value s' = clone_raw (ss_value s)"
  using assms by (auto simp: set_system_setting_def get_system_setting_def clone_setting_def gm.get_put Let_def split: if_splits)

lemma clone_number [simp]: "clone_raw (marshal_value S (VInt n)) = marshal_value S (VInt n)"
  by (simp add: marshal_value_def clone_raw_def itoa_def digits_of_nonempty)

text \<open>
  An integer setting that was accepted takes effect: the view that is returned shows it as stored, and
  what is read from the store afterwards is that number, within the bounds of the setting.
\<close>

theorem setting_takes_effect:
  assumes "setting_definition k = Some d" "sd_kind d = ''int''"
    "sv_json S (itoa n) = Some (JNumber (itoa n))" "sv_float S (itoa n) = Some (n, 0)" "min_int64 \<le> n" "n \<le> max_int64"
    "update_setting S now k (VFloat n 0) expected actor m = (Inr w, m')"
  shows "sw_value w = VInt n \<and> sw_source w = ''db'' \<and> in_bounds d n \<and> setting_int S k fallback m' = n"
proof -
  let ?s = "\<lparr>ss_key = k, ss_value = marshal_value S (VInt n), ss_version = 0, ss_updated_at = now, ss_updated_by = actor\<rparr>"
  have whole: "whole_float n 0 = Some n" using assms(5,6) by (simp add: whole_float_def)
  have bytes: "raw_bytes (marshal_value S (VInt n)) = itoa n" by (simp add: marshal_value_def raw_bytes_def)
  have read: "decode_setting_value S d (marshal_value S (VInt n)) = coerce_setting_value S d (VFloat n 0)"
    unfolding decode_setting_value_def bytes by (simp add: assms(3,4) any_of_json_def)
  from assms(1,2,7) whole have bounds: "in_bounds d n"
    by (auto simp: update_setting_def normalize_setting_value_def coerce_setting_value_def split: if_splits)
  then have co: "coerce_setting_value S d (VFloat n 0) = Inr (VInt n)" using assms(2) whole by (simp add: coerce_setting_value_def)
  have key: "k \<noteq> []" using setting_definition_in[OF assms(1)] by (auto simp: setting_definitions_def int_setting_def)
  from assms(1,7) co obtain s where set: "set_system_setting ?s expected m = (Inr s, m')" "w = setting_view_of S d s"
    by (auto simp: update_setting_def normalize_setting_value_def split: if_splits prod.splits sum.splits)
  note s = put_setting_read[OF set(1), simplified]
  show ?thesis
    using s bounds key read co assms(1)
    by (simp add: set(2) setting_view_of_def effective_setting_value_def setting_int_def setting_value_def as_int_def)
qed

definition sample_settings :: setting_env where
  "sample_settings = \<lparr>sv_getenv = (\<lambda>k. None), sv_json = (\<lambda>s. if s = ''120'' then Some (JNumber s) else None),
     sv_float = (\<lambda>s. if s = ''120'' then Some (120, 0) else None), sv_quote = (\<lambda>s. s), sv_quantity = (\<lambda>s. None), sv_started = True\<rparr>"

definition poll_update :: "(svc_error + setting_view) \<times> admin_memory" where
  "poll_update = update_setting sample_settings noon scheduler_poll_key (VFloat 120 0) 0 ''bob@x'' svc0"

lemma setting_takes_effect_witness:
  "setting_int sample_settings scheduler_poll_key 7 (snd poll_update) = 120"
proof -
  have d: "map_option sd_kind (setting_definition scheduler_poll_key) = Some ''int''" by code_simp
  then obtain d where d: "setting_definition scheduler_poll_key = Some d" "sd_kind d = ''int''" by auto
  have i: "itoa 120 = ''120''" by code_simp
  have "isl (fst poll_update) = False" by code_simp
  then obtain w where "fst poll_update = Inr w" by (cases "fst poll_update") auto
  then have "update_setting sample_settings noon scheduler_poll_key (VFloat 120 0) 0 ''bob@x'' svc0 = (Inr w, snd poll_update)"
    unfolding poll_update_def by (metis prod.collapse)
  from setting_takes_effect[OF d _ _ _ _ this] i show ?thesis
    by (simp add: sample_settings_def min_int64_def max_int64_def)
qed

text \<open>
  Whatever is stored and whatever the environment holds, the scheduler runs with durations in the
  bounds of their settings, so it never polls in a busy loop and no run is without a limit.
\<close>

theorem scheduler_config_bounded:
  "sc_poll_every (effective_scheduler_config S base m) \<in> {1 * nanos..3600 * nanos} \<and>
   sc_run_timeout (effective_scheduler_config S base m) \<in> {60 * nanos..86400 * nanos} \<and>
   sc_heartbeat_every (effective_scheduler_config S base m) \<in> {1 * nanos..3600 * nanos} \<and>
   sc_lease_timeout (effective_scheduler_config S base m) \<in> {60 * nanos..86400 * nanos} \<and>
   next_poll S base m = sc_poll_every (effective_scheduler_config S base m)"
proof -
  have bounds: "seconds_duration (setting_int S k fb m) \<in> {lo * nanos..hi * nanos}"
    if "map_option (\<lambda>d. (sd_kind d, sd_min d, sd_max d)) (setting_definition k) = Some (''int'', lo, hi)"
      "1 \<le> lo" "lo \<le> hi" "hi \<le> 86400" for k lo hi fb
  proof -
    from that(1) obtain d where d: "setting_definition k = Some d" "sd_kind d = ''int''" "sd_min d = lo" "sd_max d = hi" by auto
    have "in_bounds d (setting_int S k fb m)" by (rule setting_int_bounds[OF d(1,2)])
    with d(3,4) that(2-) have "lo \<le> setting_int S k fb m" "setting_int S k fb m \<le> hi" by (auto simp: in_bounds_def)
    with that(2-) show ?thesis
      unfolding seconds_duration_def by (subst int64_id) (auto simp: min_int64_def max_int64_def)
  qed
  have fields: "sc_poll_every (effective_scheduler_config S base m) =
        seconds_duration (setting_int S scheduler_poll_key (whole_seconds (sc_poll_every base)) m)"
      "sc_run_timeout (effective_scheduler_config S base m) =
        seconds_duration (setting_int S scheduler_run_key (whole_seconds (sc_run_timeout base)) m)"
      "sc_heartbeat_every (effective_scheduler_config S base m) =
        seconds_duration (setting_int S scheduler_heartbeat_key (whole_seconds (sc_heartbeat_every base)) m)"
      "sc_lease_timeout (effective_scheduler_config S base m) =
        seconds_duration (setting_int S scheduler_lease_key (whole_seconds (sc_lease_timeout base)) m)"
    by (simp_all add: effective_scheduler_config_def Let_def)
  have 1: "sc_poll_every (effective_scheduler_config S base m) \<in> {1 * nanos..3600 * nanos}"
    unfolding fields by (rule bounds) (code_simp, simp_all)
  have 2: "sc_run_timeout (effective_scheduler_config S base m) \<in> {60 * nanos..86400 * nanos}"
    unfolding fields by (rule bounds) (code_simp, simp_all)
  have 3: "sc_heartbeat_every (effective_scheduler_config S base m) \<in> {1 * nanos..3600 * nanos}"
    unfolding fields by (rule bounds) (code_simp, simp_all)
  have 4: "sc_lease_timeout (effective_scheduler_config S base m) \<in> {60 * nanos..86400 * nanos}"
    unfolding fields by (rule bounds) (code_simp, simp_all)
  from 1 have "next_poll S base m = sc_poll_every (effective_scheduler_config S base m)" by (simp add: next_poll_def)
  with 1 2 3 4 show ?thesis by blast
qed

end
