(* ===== verification/Account_Properties.thy ===== *)
theory Account_Properties
  imports Service_Samples Account_Laws Task_Laws
begin

text \<open>
  Properties of the accounts and of the signed tokens: who may change an administrator, what an
  administrator's write does to a row that changed meanwhile, and which tokens the gateway accepts.
\<close>

section \<open>Writes to a row\<close>

lemma change_user_maps:
  assumes "change_auth_user w e m = (Inr (), m')"
  shows "mget (am_users m') k = (if k = au_id w then Some w else mget (am_users m) k)" "am_tasks m' = am_tasks m"
proof -
  from assms have m': "m' = store_user w (m\<lparr>am_identifiers := forget_identifiers (au_id w) (am_identifiers m)\<rparr>)"
    by (auto simp: change_auth_user_def split: option.splits if_splits)
  show "mget (am_users m') k = (if k = au_id w then Some w else mget (am_users m) k)" by (simp add: m' store_user_maps)
  show "am_tasks m' = am_tasks m" by (simp add: m' store_user_def)
qed

lemma change_user_failed: "change_auth_user w e m = (Inl x, m') \<Longrightarrow> m' = m"
  by (auto simp: change_auth_user_def split: option.splits if_splits)

lemma pause_tasks_users: "am_users (snd (pause_tasks now reason actor ts m)) = am_users m"
proof (induction ts arbitrary: m)
  case (Cons t ts)
  show ?case
    by (simp add: update_scheduled_task_def put_task_def Let_def Cons.IH split: sum.split prod.split)
qed simp

lemma pause_tasks_of_users: "am_users (snd (pause_tasks_of now owner reason actor m)) = am_users m"
  using pause_tasks_users[of now reason actor "list_scheduled_tasks_for_owner owner m" m]
  by (auto simp: pause_tasks_of_def store_answer_def split: prod.splits sum.splits)

text \<open>A fact about the row of an account that every planned write to this row gives back is kept.\<close>

lemma change_keeps:
  assumes "mget (am_users m) i = Some u" "P u" "au_id w = i \<Longrightarrow> P w"
  shows "\<exists>u'. mget (am_users (snd (change_auth_user w e m))) i = Some u' \<and> P u'"
proof (cases "change_auth_user w e m")
  case (Pair r m')
  show ?thesis
  proof (cases r)
    case (Inl x)
    with assms change_user_failed[of w e m x m'] show ?thesis by (simp add: Pair)
  next
    case (Inr x)
    with assms change_user_maps(1)[of w e m m' i] Pair show ?thesis by (cases "au_id w = i") auto
  qed
qed

lemma write_set_user_keeps:
  assumes "mget (am_users m) i = Some u" "P u" "au_id w = i \<Longrightarrow> P w"
  shows "\<exists>u'. mget (am_users (snd (write_set_user now inp w m))) i = Some u' \<and> P u'"
proof -
  have "am_users (snd (write_set_user now inp w m)) = am_users (snd (update_auth_user w m))"
    using pause_tasks_of_users[of now "au_id w" "''Owner disabled''" "ui_actor inp" "snd (update_auth_user w m)"]
    by (auto simp: write_set_user_def split: prod.splits sum.splits)
  with change_keeps[OF assms, of None] show ?thesis by (simp add: update_auth_user_def)
qed

lemma read_user_row: "read_user j m = Inr u \<Longrightarrow> mget (am_users m) j = Some u \<and> au_deleted_at u = 0"
  by (auto simp: read_user_def get_auth_user_def split: if_splits option.splits)

lemma own_account_row:
  "get_own_account j m = Inr u \<Longrightarrow> mget (am_users m) (trim_space j) = Some u \<and> au_deleted_at u = 0 \<and> au_enabled u"
  by (auto simp: get_own_account_def get_user_def get_auth_user_def split: if_splits option.splits sum.splits)

section \<open>The bootstrap administrator\<close>

definition protected_admin :: "auth_user \<Rightarrow> bool" where
  "protected_admin u \<longleftrightarrow> is_bootstrap_admin u \<and> au_role u = ''admin'' \<and> au_enabled u \<and> au_deleted_at u = 0"

lemma bootstrap_cong: "au_created_by w = au_created_by u \<Longrightarrow> is_bootstrap_admin w = is_bootstrap_admin u"
  by (simp add: is_bootstrap_admin_def)

lemma plan_set_user_fields:
  assumes "plan_set_user E now inp u = Inr w"
  shows "au_id w = au_id u" "au_created_by w = au_created_by u" "au_deleted_at w = au_deleted_at u"
    "au_password_hash w = au_password_hash u" "au_role w = (if ui_role inp = [] then au_role u else ui_role inp)"
    "au_enabled w = (case ui_enabled inp of None \<Rightarrow> au_enabled u | Some b \<Rightarrow> b)"
    "is_bootstrap_admin u \<Longrightarrow> ui_role inp = [] \<or> ui_role inp = ''admin''"
    "is_bootstrap_admin u \<Longrightarrow> ui_enabled inp \<noteq> Some False"
proof -
  obtain p q r where p: "set_profile E inp u = Inr p" and q: "set_role E inp p = Inr q" and r: "set_enabled E inp q = Inr r"
    and w: "w = r\<lparr>au_tenant_id := (case ui_tenant inp of None \<Rightarrow> au_tenant_id r | Some t \<Rightarrow> trim_space t),
        au_updated_at := now, au_updated_by := ui_actor inp, au_version := int64 (au_version r + 1)\<rparr>"
    using assms by (auto simp: plan_set_user_def split: sum.splits)
  have 1: "au_id p = au_id u" "au_created_by p = au_created_by u" "au_deleted_at p = au_deleted_at u"
    "au_password_hash p = au_password_hash u" "au_role p = au_role u" "au_enabled p = au_enabled u"
    using p by (auto simp: set_profile_def Let_def split: if_splits)
  have 2: "au_id q = au_id p" "au_created_by q = au_created_by p" "au_deleted_at q = au_deleted_at p"
    "au_password_hash q = au_password_hash p" "au_role q = (if ui_role inp = [] then au_role p else ui_role inp)"
    "au_enabled q = au_enabled p" "is_bootstrap_admin p \<Longrightarrow> ui_role inp = [] \<or> ui_role inp = ''admin''"
    using q by (auto simp: set_role_def split: if_splits)
  have 3: "au_id r = au_id q" "au_created_by r = au_created_by q" "au_deleted_at r = au_deleted_at q"
    "au_password_hash r = au_password_hash q" "au_role r = au_role q"
    "au_enabled r = (case ui_enabled inp of None \<Rightarrow> au_enabled q | Some b \<Rightarrow> b)"
    "is_bootstrap_admin q \<Longrightarrow> ui_enabled inp \<noteq> Some False"
    using r by (auto simp: set_enabled_def split: if_splits option.splits)
  show "au_id w = au_id u" "au_created_by w = au_created_by u" "au_deleted_at w = au_deleted_at u"
    "au_password_hash w = au_password_hash u" "au_role w = (if ui_role inp = [] then au_role u else ui_role inp)"
    "au_enabled w = (case ui_enabled inp of None \<Rightarrow> au_enabled u | Some b \<Rightarrow> b)"
    by (simp_all add: w 1 2 3 split: option.split)
  show "is_bootstrap_admin u \<Longrightarrow> ui_role inp = [] \<or> ui_role inp = ''admin''" using 2(7) bootstrap_cong[OF 1(2)] by simp
  show "is_bootstrap_admin u \<Longrightarrow> ui_enabled inp \<noteq> Some False" using 3(7) bootstrap_cong[of q u] 1(2) 2(2) by simp
qed

text \<open>The other plans do not touch these fields at all.\<close>

definition same_standing :: "auth_user \<Rightarrow> auth_user \<Rightarrow> bool" where
  "same_standing u w \<longleftrightarrow> au_id w = au_id u \<and> au_created_by w = au_created_by u \<and> au_role w = au_role u \<and>
     au_enabled w = au_enabled u \<and> au_deleted_at w = au_deleted_at u"

lemma plan_same_standing:
  "plan_reset_password gen now pw actor u = Inr w \<Longrightarrow> same_standing u w"
  "plan_own_account E now oa u = Inr w \<Longrightarrow> same_standing u w"
  "plan_own_password E gen now opw u = Inr w \<Longrightarrow> same_standing u w"
  by (auto simp: plan_reset_password_def plan_own_account_def plan_own_password_def same_standing_def Let_def split: sum.splits if_splits)

lemma same_standing_admin: "same_standing u w \<Longrightarrow> protected_admin u \<Longrightarrow> protected_admin w"
  using bootstrap_cong[of w u] by (simp add: same_standing_def protected_admin_def)

lemma set_user_admin: "plan_set_user E now inp u = Inr w \<Longrightarrow> protected_admin u \<Longrightarrow> protected_admin w"
  using plan_set_user_fields[of E now inp u w] bootstrap_cong[of w u]
  by (cases "ui_enabled inp") (auto simp: protected_admin_def)

text \<open>What an operation writes: nothing, or the planned row over the row it read.\<close>

lemma set_user_writes:
  obtains "snd (set_user E clock j inp m) = m"
  | u w where "read_user j m = Inr u" "plan_set_user E (fst clock) inp u = Inr w" "set_user E clock j inp m = write_set_user (snd clock) inp w m"
  by (cases "read_user j m"; cases "plan_set_user E (fst clock) inp (projr (read_user j m))") (auto simp: set_user_def)

lemma reset_writes:
  obtains "snd (reset_password gen now j pw actor m) = m"
  | u w where "read_user j m = Inr u" "plan_reset_password gen now pw actor u = Inr w"
      "snd (reset_password gen now j pw actor m) = snd (update_auth_user w m)"
  by (cases "read_user j m"; cases "plan_reset_password gen now pw actor (projr (read_user j m))")
    (auto simp: reset_password_def split: prod.splits sum.splits)

lemma own_account_writes:
  obtains "snd (update_own_account E now j oa m) = m"
  | u w where "get_own_account j m = Inr u" "plan_own_account E now oa u = Inr w"
      "update_own_account E now j oa m = write_versioned w (oi_expected_version oa) m"
  by (cases "get_own_account j m"; cases "plan_own_account E now oa (projr (get_own_account j m))")
    (auto simp: update_own_account_def)

lemma own_password_writes:
  obtains "snd (change_own_password E gen now j opw m) = m"
  | u w where "get_own_account j m = Inr u" "plan_own_password E gen now opw u = Inr w"
      "change_own_password E gen now j opw m = write_versioned w (op_expected_version opw) m"
  by (cases "get_own_account j m"; cases "plan_own_password E gen now opw (projr (get_own_account j m))")
    (auto simp: change_own_password_def)

lemma write_versioned_store: "snd (write_versioned w e m) = snd (update_auth_user_version w e m)"
  by (auto simp: write_versioned_def split: prod.splits sum.splits)

text \<open>
  C25. No operation on accounts takes the bootstrap administrator away: whoever calls, after any of them the
  account is there, enabled, and an administrator.
\<close>

theorem bootstrap_admin_stays:
  assumes "users_ok m" "mget (am_users m) i = Some u" "protected_admin u"
    "m' \<in> {snd (set_user E clock j inp m), snd (delete_user E clock j actor m), snd (reset_password gen now j pw actor m),
       snd (update_own_account E now j oa m), snd (change_own_password E gen now j opw m)}"
  shows "\<exists>u'. mget (am_users m') i = Some u' \<and> protected_admin u'"
proof -
  have same: "x = u" if "mget (am_users m) k = Some x" "au_id x = i" for k x
    using users_okD(1)[OF assms(1) that(1)] that assms(2) by simp
  have kept: "\<exists>u'. mget (am_users (snd (change_auth_user w e m))) i = Some u' \<and> protected_admin u'"
    if "mget (am_users m) k = Some x" "same_standing x w" for k x w e
    using change_keeps[OF assms(2), of protected_admin, OF assms(3), of w e] same[OF that(1)] that(2) same_standing_admin[OF that(2)] assms(3)
    by (auto simp: same_standing_def)
  consider "m' = snd (set_user E clock j inp m)" | "m' = snd (delete_user E clock j actor m)" | "m' = snd (reset_password gen now j pw actor m)"
    | "m' = snd (update_own_account E now j oa m)" | "m' = snd (change_own_password E gen now j opw m)" using assms(4) by blast
  then show ?thesis
  proof cases
    case 1
    show ?thesis
    proof (cases rule: set_user_writes[of E clock j inp m])
      case (2 x w)
      from read_user_row[OF 2(1)] have r: "mget (am_users m) j = Some x" by simp
      have "protected_admin w" if "au_id w = i"
        using same[OF r] plan_set_user_fields(1)[OF 2(2)] set_user_admin[OF 2(2)] assms(3) that by simp
      from write_set_user_keeps[OF assms(2), of protected_admin, OF assms(3) this] show ?thesis by (simp add: 1 2(3))
    qed (use assms(2,3) 1 in simp)
  next
    case 2
    have gone: "mget (am_users (snd (delete_auth_user j actor t m))) i = Some u" if "j \<noteq> i" for t
      using that assms(2) by (auto simp: delete_auth_user_def gm.get_put split: option.split)
    have other: "j \<noteq> i" if "read_user j m = Inr x" "\<not> is_bootstrap_admin x" for x
      using read_user_row[OF that(1)] that(2) assms(2,3) by (auto simp: protected_admin_def)
    show ?thesis unfolding 2
      using assms(2,3) gone other pause_tasks_of_users[of "snd clock" j "''Owner deleted''" actor "snd (delete_auth_user j actor (fst clock) m)"]
      by (auto simp: delete_user_def split: sum.split prod.split) (metis snd_conv)+
  next
    case 3
    show ?thesis
    proof (cases rule: reset_writes[of gen now j pw actor m])
      case (2 x w)
      from kept[OF conjunct1[OF read_user_row[OF 2(1)]] plan_same_standing(1)[OF 2(2)]] show ?thesis by (simp add: 3 2(3) update_auth_user_def)
    qed (use assms(2,3) 3 in simp)
  next
    case 4
    show ?thesis
    proof (cases rule: own_account_writes[of E now j oa m])
      case (2 x w)
      from kept[OF conjunct1[OF own_account_row[OF 2(1)]] plan_same_standing(2)[OF 2(2)]] show ?thesis
        by (simp add: 4 2(3) write_versioned_store update_auth_user_version_def)
    qed (use assms(2,3) 4 in simp)
  next
    case 5
    show ?thesis
    proof (cases rule: own_password_writes[of E gen now j opw m])
      case (2 x w)
      from kept[OF conjunct1[OF own_account_row[OF 2(1)]] plan_same_standing(3)[OF 2(2)]] show ?thesis
        by (simp add: 5 2(3) write_versioned_store update_auth_user_version_def)
    qed (use assms(2,3) 5 in simp)
  qed
qed

definition root_admin :: auth_user where
  "root_admin = sample_owner\<lparr>au_created_by := ''bootstrap''\<rparr>"

definition svc_root :: admin_memory where "svc_root = store_user root_admin new_admin_memory"

lemma new_users_ok: "users_ok new_admin_memory"
  by (simp add: indexed_def new_admin_memory_def)

lemma svc_root_ok: "users_ok svc_root" "mget (am_users svc_root) ''u'' = Some root_admin" "protected_admin root_admin"
proof -
  have "snd (create_auth_user root_admin new_admin_memory) = svc_root"
    by (simp add: create_auth_user_def svc_root_def root_admin_def sample_owner_def new_admin_memory_def identifier_taken_def list_ex_iff)
  with create_auth_user_ok[OF new_users_ok, of root_admin] show "users_ok svc_root" by simp
  show "mget (am_users svc_root) ''u'' = Some root_admin"
    by (simp add: svc_root_def store_user_maps root_admin_def sample_owner_def)
  show "protected_admin root_admin" by code_simp
qed

lemma bootstrap_admin_stays_witness:
  "\<exists>u'. mget (am_users (snd (delete_user sample_env (noon, noon) ''u'' ''eve@x'' svc_root))) ''u'' = Some u' \<and> au_enabled u'"
  using bootstrap_admin_stays[OF svc_root_ok, where m' = "snd (delete_user sample_env (noon, noon) ''u'' ''eve@x'' svc_root)"
      and E = sample_env and clock = "(noon, noon)" and j = "''u''" and actor = "''eve@x''"]
  by (auto simp: protected_admin_def)

section \<open>Changing oneself\<close>

text \<open>
  An administrator who edits their own account and keeps its address changes neither their role nor
  whether they are enabled: a request that names either is refused as a whole.
\<close>

theorem self_guard:
  assumes "read_user i m = Inr u" "is_self_actor E u (ui_actor inp)" "normalize_email E (ui_email inp) \<in> {[], au_email u}"
    "ui_role inp \<noteq> [] \<or> ui_enabled inp \<noteq> None"
  shows "\<exists>e. set_user E clock i inp m = (Inl e, m)"
proof -
  have self: "is_self_actor E p (ui_actor inp)" if "set_profile E inp u = Inr p" for p
    using that assms(2,3) by (auto simp: set_profile_def is_self_actor_def Let_def split: if_splits)
  have "set_enabled E inp q = Inl SelfPermission" if "set_profile E inp u = Inr p" "set_role E inp p = Inr q" for p q
    using self[OF that(1)] that(2) assms(4) by (auto simp: set_role_def set_enabled_def split: if_splits)
  then have "\<exists>e. plan_set_user E (fst clock) inp u = Inl e" by (auto simp: plan_set_user_def split: sum.split)
  with assms(1) show ?thesis by (auto simp: set_user_def)
qed

definition self_demote :: "string \<Rightarrow> auth_user_input" where
  "self_demote email = \<lparr>ui_name = [], ui_username = [], ui_email = email, ui_tenant = None, ui_role = ''user'', ui_enabled = None,
     ui_password = [], ui_actor = ''ann@x''\<rparr>"

lemma self_guard_witness:
  "\<exists>e. set_user sample_env (noon, noon) ''u'' (self_demote []) svc0 = (Inl e, svc0)"
proof -
  have u: "read_user ''u'' svc0 = Inr sample_owner" by code_simp
  have "is_self_actor sample_env sample_owner (ui_actor (self_demote []))" "normalize_email sample_env (ui_email (self_demote [])) = []"
    "ui_role (self_demote []) \<noteq> []" by code_simp+
  with self_guard[OF u, of sample_env "self_demote []" "(noon, noon)"] show ?thesis by simp
qed

text \<open>
  C26. The guard looks at the address of the request, not of the account: an administrator who gives a new
  address in the same request changes their own role and switch as they like.
\<close>

theorem self_guard_bypassed:
  assumes "is_self_actor E u (ui_actor inp)" "normalize_email E (ui_email inp) \<notin> {[], au_email u}"
    "set_profile E inp u = Inr p" "valid_role (ui_role inp)" "\<not> is_bootstrap_admin u"
  shows "\<exists>w. plan_set_user E now inp u = Inr w \<and> au_id w = au_id u \<and> au_role w = ui_role inp \<and>
    au_enabled w = (case ui_enabled inp of None \<Rightarrow> au_enabled u | Some b \<Rightarrow> b)"
proof -
  have p: "au_email p = normalize_email E (ui_email inp)" "au_created_by p = au_created_by u"
    using assms(2,3) by (auto simp: set_profile_def Let_def split: if_splits)
  have other: "\<not> is_self_actor E p (ui_actor inp)" using assms(1,2) p by (auto simp: is_self_actor_def)
  have boot: "\<not> is_bootstrap_admin p" using bootstrap_cong[OF p(2)] assms(5) by simp
  have role: "set_role E inp p = Inr (p\<lparr>au_role := ui_role inp\<rparr>)"
    using other boot assms(4) by (auto simp: set_role_def valid_role_def)
  have "\<not> is_self_actor E (p\<lparr>au_role := ui_role inp\<rparr>) (ui_actor inp)" "\<not> is_bootstrap_admin (p\<lparr>au_role := ui_role inp\<rparr>)"
    using other boot bootstrap_cong[of "p\<lparr>au_role := ui_role inp\<rparr>" p] by (simp_all add: is_self_actor_def)
  then have "\<exists>q. set_enabled E inp (p\<lparr>au_role := ui_role inp\<rparr>) = Inr q" by (auto simp: set_enabled_def split: option.split)
  with role assms(3) have "\<exists>w. plan_set_user E now inp u = Inr w" by (auto simp: plan_set_user_def)
  then obtain w where w: "plan_set_user E now inp u = Inr w" ..
  have "ui_role inp \<noteq> []" using assms(4) by (auto simp: valid_role_def)
  with plan_set_user_fields(1,5,6)[OF w] w show ?thesis by auto
qed

lemma self_guard_bypassed_witness:
  "\<exists>w. plan_set_user sample_env noon (self_demote ''ann@y'') sample_owner = Inr w \<and> au_role w = ''user''"
proof -
  have s: "is_self_actor sample_env sample_owner (ui_actor (self_demote ''ann@y''))" by code_simp
  have e: "normalize_email sample_env (ui_email (self_demote ''ann@y'')) \<notin> {[], au_email sample_owner}" by code_simp
  have r: "valid_role (ui_role (self_demote ''ann@y''))" by code_simp
  have b: "\<not> is_bootstrap_admin sample_owner" by code_simp
  have "\<not> isl (set_profile sample_env (self_demote ''ann@y'') sample_owner)" by code_simp
  then obtain p where p: "set_profile sample_env (self_demote ''ann@y'') sample_owner = Inr p"
    by (cases "set_profile sample_env (self_demote ''ann@y'') sample_owner") auto
  from self_guard_bypassed[OF s e p r b, of noon] show ?thesis by (auto simp: self_demote_def)
qed

text \<open>
  C27. An administrator's change of an account succeeds over whatever has become of the row since it was read, whichever
  version it has now, as long as nobody else took its login names. The row that was read comes back with it: its
  password, its role and its switch, and it is not deleted. So a change of password, a demotion, a switch-off and even
  the deletion that happened in between are undone.
\<close>

theorem stale_admin_write:
  assumes "read_user i m = Inr u" "au_id u = i" "plan_set_user E now inp u = Inr w" "ui_role inp = []" "ui_enabled inp = None"
    "au_enabled u" "mget (am_users m') i = Some x" "\<not> identifier_taken w m'"
  shows "\<exists>m''. write_set_user later inp w m' = (Inr w, m'') \<and> mget (am_users m'') i = Some w \<and>
    au_password_hash w = au_password_hash u \<and> au_role w = au_role u \<and> au_enabled w \<and> au_deleted_at w = 0"
proof -
  note w = plan_set_user_fields[OF assms(3)]
  from assms(2,7,8) w(1) obtain m'' where up: "change_auth_user w None m' = (Inr (), m'')"
    by (auto simp: change_auth_user_def)
  from change_user_maps(1)[OF up, of i] have "mget (am_users m'') i = Some w" using w(1) assms(2) by simp
  with up w assms(4-6) read_user_row[OF assms(1)] show ?thesis
    by (simp add: write_set_user_def update_auth_user_def)
qed

definition rename_ann :: auth_user_input where
  "rename_ann = (self_demote [])\<lparr>ui_name := ''Anna'', ui_role := [], ui_actor := ''bob@x''\<rparr>"

definition svc_gone :: admin_memory where
  "svc_gone = snd (delete_user sample_env (noon, noon) ''u'' ''eve@x'' svc0)"

lemma stale_admin_write_witness:
  "\<exists>w m''. plan_set_user sample_env noon rename_ann sample_owner = Inr w \<and>
     map_option (\<lambda>x. (au_enabled x, au_deleted_at x)) (mget (am_users svc_gone) ''u'') = Some (False, noon) \<and>
     write_set_user noon rename_ann w svc_gone = (Inr w, m'') \<and>
     mget (am_users m'') ''u'' = Some w \<and> au_enabled w \<and> au_deleted_at w = 0"
proof -
  have u: "read_user ''u'' svc0 = Inr sample_owner" by code_simp
  define w where "w = projr (plan_set_user sample_env noon rename_ann sample_owner)"
  have "\<not> isl (plan_set_user sample_env noon rename_ann sample_owner)" by code_simp
  then have w: "plan_set_user sample_env noon rename_ann sample_owner = Inr w"
    unfolding w_def by (cases "plan_set_user sample_env noon rename_ann sample_owner") auto
  have "\<not> identifier_taken (projr (plan_set_user sample_env noon rename_ann sample_owner)) svc_gone" by code_simp
  then have free: "\<not> identifier_taken w svc_gone" by (simp add: w_def)
  have off: "map_option (\<lambda>x. (au_enabled x, au_deleted_at x)) (mget (am_users svc_gone) ''u'') = Some (False, noon)" by code_simp
  then obtain x where x: "mget (am_users svc_gone) ''u'' = Some x" by blast
  have i: "au_id sample_owner = ''u''" "ui_role rename_ann = []" "ui_enabled rename_ann = None" "au_enabled sample_owner"
    by (simp_all add: rename_ann_def self_demote_def sample_owner_def)
  from stale_admin_write[OF u i(1) w i(2-4) x free, of noon] w off show ?thesis by blast
qed

section \<open>The tasks of an account that is switched off\<close>

text \<open>Pausing goes over a list; as long as the list names every active task of the owner, none is left at the end.\<close>

definition active_of :: "string \<Rightarrow> admin_memory \<Rightarrow> string \<Rightarrow> bool" where
  "active_of owner m j \<longleftrightarrow> (\<exists>t. mget (am_tasks m) j = Some t \<and> st_owner_user_id t = owner \<and> st_status t = ''active'')"

lemma pause_tasks_all:
  assumes "\<And>j. active_of owner m j \<Longrightarrow> \<exists>x \<in> set ts. st_id x = j \<and> st_status x = ''active''"
    and "pause_tasks now reason actor ts m = (Inr (), m')"
  shows "\<not> active_of owner m' j"
  using assms
proof (induction ts arbitrary: m)
  case (Cons t ts)
  show ?case
  proof (cases "st_status t = ''active''")
    case False
    have "\<exists>x \<in> set ts. st_id x = j \<and> st_status x = ''active''" if "active_of owner m j" for j
      using Cons.prems(1)[OF that] False by auto
    with Cons.IH[of m] Cons.prems(2) False show ?thesis by simp
  next
    case True
    let ?t = "t\<lparr>st_status := ''paused'', st_next_run_at := 0, st_last_error := reason, st_updated_at := now, st_updated_by := actor\<rparr>"
    from Cons.prems(2) True have there: "mget (am_tasks m) (st_id t) \<noteq> None"
      and rest: "pause_tasks now reason actor ts (put_task (st_id t) ?t m) = (Inr (), m')"
      by (auto simp: update_scheduled_task_def Let_def split: if_splits)
    have "\<exists>x \<in> set ts. st_id x = j \<and> st_status x = ''active''" if "active_of owner (put_task (st_id t) ?t m) j" for j
    proof -
      from that have "j \<noteq> st_id t" "active_of owner m j"
        by (auto simp: active_of_def put_task_def gm.get_put split: if_splits)
      with Cons.prems(1)[of j] show ?thesis by auto
    qed
    from Cons.IH[OF this rest] show ?thesis .
  qed
qed auto

lemma pause_tasks_of_all:
  assumes "tasks_ok m" "pause_tasks_of now owner reason actor m = (Inr (), m')"
  shows "\<not> active_of owner m' j"
proof (rule pause_tasks_all)
  show "pause_tasks now reason actor (list_scheduled_tasks_for_owner owner m) m = (Inr (), m')"
    using assms(2) by (auto simp: pause_tasks_of_def store_answer_def split: prod.splits sum.splits)
  fix j assume "active_of owner m j"
  then obtain t where t: "mget (am_tasks m) j = Some t" "st_owner_user_id t = owner" "st_status t = ''active''"
    unfolding active_of_def by blast
  have "t \<in> set (mvals (am_tasks m))" unfolding mvals_iff using t(1) by blast
  then have "clone_task t \<in> set (list_scheduled_tasks_for_owner owner m)" using t(2) by (auto simp: list_scheduled_tasks_for_owner_def)
  with t tasks_okD(1)[OF assms(1) t(1)] show "\<exists>x \<in> set (list_scheduled_tasks_for_owner owner m). st_id x = j \<and> st_status x = ''active''"
    by (intro bexI[of _ "clone_task t"]) simp_all
qed

text \<open>
  C28. When the switch-off of an account or its deletion succeeds, none of the account's tasks is active any
  more, so the scheduler starts none of them.
\<close>

theorem unavailable_owner_stops:
  assumes "tasks_ok m"
    "(\<exists>u. set_user E clock i inp m = (Inr u, m') \<and> \<not> au_enabled u \<and> owner = au_id u) \<or>
     (delete_user E clock i actor m = (Inr (), m') \<and> owner = i)"
    "mget (am_tasks m') j = Some t" "st_owner_user_id t = owner"
  shows "st_status t \<noteq> ''active'' \<and> \<not> task_due now t"
proof -
  have "\<not> active_of owner m' j"
    using assms(2)
  proof
    assume "\<exists>u. set_user E clock i inp m = (Inr u, m') \<and> \<not> au_enabled u \<and> owner = au_id u"
    then obtain u where u: "set_user E clock i inp m = (Inr u, m')" "\<not> au_enabled u" "owner = au_id u" by blast
    then obtain w where w: "write_set_user (snd clock) inp w m = (Inr u, m')"
      by (auto simp: set_user_def split: sum.splits)
    then obtain m1 where m1: "update_auth_user w m = (Inr (), m1)"
      by (auto simp: write_set_user_def split: prod.splits sum.splits)
    with w u(2) have p: "w = u" "pause_tasks_of (snd clock) (au_id u) ''Owner disabled'' (ui_actor inp) m1 = (Inr (), m')"
      by (auto simp: write_set_user_def split: prod.splits sum.splits if_splits)
    from m1 have "am_tasks m1 = am_tasks m \<and> am_attachments m1 = am_attachments m \<and> am_runs m1 = am_runs m \<and> am_run_events m1 = am_run_events m"
      by (auto simp: update_auth_user_def change_auth_user_def store_user_def split: option.splits if_splits)
    with assms(1) have "tasks_ok m1" by (simp add: tasks_ok_def)
    from pause_tasks_of_all[OF this p(2)] u(3) show ?thesis by simp
  next
    assume d: "delete_user E clock i actor m = (Inr (), m') \<and> owner = i"
    then obtain m1 where m1: "delete_auth_user i actor (fst clock) m = (Inr (), m1)"
      and p: "pause_tasks_of (snd clock) i ''Owner deleted'' actor m1 = (Inr (), m')"
      by (auto simp: delete_user_def split: prod.splits sum.splits if_splits)
    from m1 have "am_tasks m1 = am_tasks m \<and> am_attachments m1 = am_attachments m \<and> am_runs m1 = am_runs m \<and> am_run_events m1 = am_run_events m"
      by (auto simp: delete_auth_user_def split: option.splits if_splits)
    with assms(1) have "tasks_ok m1" by (simp add: tasks_ok_def)
    from pause_tasks_of_all[OF this p] d show ?thesis by simp
  qed
  with assms(3,4) show ?thesis by (auto simp: active_of_def task_due_def)
qed

lemma unavailable_owner_stops_witness:
  "\<exists>t. mget (am_tasks (snd (delete_user sample_env (noon, noon) ''u'' ''eve@x'' svc1))) ''d'' = Some t \<and> st_status t \<noteq> ''active'' \<and>
     map_option st_status (mget (am_tasks svc1) ''d'') = Some ''active''"
proof -
  let ?r = "delete_user sample_env (noon, noon) ''u'' ''eve@x'' svc1"
  have "fst ?r = Inr ()" by code_simp
  then have r: "?r = (Inr (), snd ?r)" by (metis prod.collapse)
  have "map_option st_owner_user_id (mget (am_tasks (snd ?r)) ''d'') = Some ''u''" by code_simp
  then obtain t where t: "mget (am_tasks (snd ?r)) ''d'' = Some t" "st_owner_user_id t = ''u''" by auto
  have a: "map_option st_status (mget (am_tasks svc1) ''d'') = Some ''active''" by (simp add: svc1_maps daily_task_def)
  from unavailable_owner_stops[OF svc1_ok _ t, of sample_env "(noon, noon)" "''u''" rename_ann "''eve@x''" noon] r t(1) a show ?thesis
    by auto
qed

text \<open>
  A login succeeds exactly for an account that has the normalised identifier as its username or address,
  is enabled and not deleted, and whose stored hash matches the password; a failure changes nothing.
\<close>

theorem login_decides:
  assumes "users_ok m"
  shows "fst (authenticate E now ident pw m) = Inr r \<longleftrightarrow>
    (\<exists>i u. mget (am_users m) i = Some u \<and> normalize_identifier E ident \<noteq> [] \<and>
       normalize_identifier E ident \<in> {au_username u, au_email u} \<and> au_enabled u \<and> au_deleted_at u = 0 \<and>
       se_compare E (au_password_hash u) pw \<and> r = public_user u)"
proof -
  note look = identifier_lookup[OF assms, of "normalize_identifier E ident"]
  have "fst (authenticate E now ident pw m) = Inr r \<longleftrightarrow>
    (\<exists>u. get_auth_user_by_identifier (normalize_identifier E ident) m = Inr u \<and> normalize_identifier E ident \<noteq> [] \<and>
       au_enabled u \<and> au_deleted_at u = 0 \<and> se_compare E (au_password_hash u) pw \<and> r = public_user u)"
    by (auto simp: authenticate_def get_user_by_identifier_def user_unavailable_def Let_def split: sum.splits)
  also have "\<dots> \<longleftrightarrow> (\<exists>i u. mget (am_users m) i = Some u \<and> normalize_identifier E ident \<noteq> [] \<and>
       normalize_identifier E ident \<in> {au_username u, au_email u} \<and> au_enabled u \<and> au_deleted_at u = 0 \<and>
       se_compare E (au_password_hash u) pw \<and> r = public_user u)"
    unfolding look using users_okD(1)[OF assms] by auto
  finally show ?thesis .
qed

lemma svc0_ok: "users_ok svc0"
proof -
  have "snd (create_auth_user sample_owner new_admin_memory) = svc0"
    by (simp add: create_auth_user_def svc0_def sample_owner_def new_admin_memory_def identifier_taken_def list_ex_iff)
  with create_auth_user_ok[OF new_users_ok, of sample_owner] show ?thesis by simp
qed

lemma login_decides_witness:
  "fst (authenticate sample_env noon ''ann@x'' ''password'' svc0) = Inr (public_user sample_owner) \<and>
   fst (authenticate sample_env noon ''ann@x'' ''wrong'' svc0) \<noteq> Inr (public_user sample_owner)"
proof -
  have "normalize_identifier sample_env ''ann@x'' = ''ann@x''" by code_simp
  then show ?thesis
    unfolding login_decides[OF svc0_ok] by (auto simp: svc0_maps sample_owner_def sample_env_def split: if_splits)
qed

end
