(* ===== verification/Token_Properties.thy ===== *)
theory Token_Properties
  imports Service_Samples
begin

text \<open>
  Properties of the signed tokens across the two services: what the admin API mints the gateway accepts, and
  what the gateway accepts was signed with the secret. The codec of JSON is a parameter; what is asked of it is
  that the texts in question parse back.
\<close>

section \<open>Printable strings are not trimmed\<close>

definition graph_char :: "char \<Rightarrow> bool" where
  "graph_char c \<longleftrightarrow> 33 \<le> byte c \<and> byte c < 127"

lemma space_rune_ends: "\<forall>p \<in> set space_runes. p \<noteq> [] \<and> \<not> graph_char (hd p) \<and> \<not> graph_char (last p)"
  by code_simp

lemma trim_graph:
  assumes "s \<noteq> []" "graph_char (hd s)" "graph_char (last s)"
  shows "trim_space s = s"
proof -
  have "\<not> has_prefix s p" if "p \<in> set space_runes" for p
    using bspec[OF space_rune_ends that] assms(2) by (auto simp: has_prefix_iff)
  then have left: "trim_left space_runes s = s"
    using space_rune_ends by (intro trim_left_idle) (simp add: space_len_0_iff)
  have "\<not> has_prefix (rev s) (rev p)" if "p \<in> set space_runes" for p
    using bspec[OF space_rune_ends that] assms(1,3) by (auto simp: has_prefix_iff hd_rev[symmetric])
  then have "trim_left (map rev space_runes) (rev s) = rev s"
    using space_rune_ends by (intro trim_left_idle, subst space_len_0_iff) auto
  with left show ?thesis by (simp add: trim_space_def trim_right_def)
qed

lemma b64_graph: "c \<in> set (b64_encode s) \<Longrightarrow> graph_char c"
proof -
  have "graph_char (b64_char n)" for n
    by (auto simp: graph_char_def b64_char_def byte_def of_char_of)
  then show "c \<in> set (b64_encode s) \<Longrightarrow> graph_char c" by (auto simp: b64_encode_def)
qed

lemma dot_graph: "graph_char CHR ''.''" by code_simp

lemma fold_eq_space: "fold_eq s ts \<Longrightarrow> CHR '' '' \<in> set ts \<Longrightarrow> \<exists>c \<in> set s. ascii_lower c = CHR '' ''"
  by (induction s ts rule: fold_eq.induct) (auto split: list.splits if_splits dest: in_set_dropD)

lemma strip_plain:
  assumes "t \<noteq> []" "\<And>c. c \<in> set t \<Longrightarrow> graph_char c"
  shows "strip_bearer t = t" "strip_bearer (''Bearer '' @ t) = t"
proof -
  have trim: "trim_space t = t" using assms by (intro trim_graph) simp_all
  have "\<not> fold_eq (take 7 t) ''bearer ''"
  proof
    assume "fold_eq (take 7 t) ''bearer ''"
    from fold_eq_space[OF this] obtain c where "c \<in> set t" and l: "ascii_lower c = CHR '' ''" by (auto dest: in_set_takeD)
    from l have "byte (ascii_lower c) = 32" by (simp add: byte_def)
    with assms(2)[of c] \<open>c \<in> set t\<close> show False by (auto simp: ascii_lower_def graph_char_def byte_def of_char_of split: if_splits)
  qed
  with trim show "strip_bearer t = t" by (auto simp: strip_bearer_def)
  have g: "graph_char CHR ''B''" by code_simp
  have "trim_space (''Bearer '' @ t) = ''Bearer '' @ t" using assms g by (intro trim_graph) simp_all
  moreover have "fold_eq (take 7 (''Bearer '' @ t)) ''bearer ''"
  proof -
    have "fold_eq ''Bearer '' ''bearer ''" by code_simp
    then show ?thesis by (simp del: fold_eq.simps)
  qed
  ultimately show "strip_bearer (''Bearer '' @ t) = t" by (simp add: strip_bearer_def trim Let_def del: fold_eq.simps)
qed

lemma encoded_graph: "encode_token J c secret = Some tok \<Longrightarrow> tok \<noteq> [] \<and> (\<forall>x \<in> set tok. graph_char x)"
  by (auto simp: encode_token_def sign_token_def Let_def dot_graph split: if_splits dest: b64_graph)

section \<open>From the admin API to the gateway\<close>

text \<open>The claims of a runtime token: who the account is, and when the token was issued and ends.\<close>

definition runtime_claims :: "issuer \<Rightarrow> int \<Rightarrow> gtime \<Rightarrow> string \<Rightarrow> duration \<Rightarrow> auth_user \<Rightarrow> claims" where
  "runtime_claims iu wall now jti ttl u =
     (let iat = (if unix_of now = 0 then wall else unix_of now); secs = duration_secs (if ttl \<le> 0 then 600 * nanos else ttl)
      in \<lparr>cm_subject = au_id u, cm_tenant = trim_space (au_tenant_id u), cm_email = au_email u,
          cm_name = (if trim_space (au_name u) = [] then au_username u else trim_space (au_name u)), cm_username = au_username u,
          cm_issued_at = iat, cm_expires = int64 (iat + secs), cm_issuer = iu_issuer iu, cm_id = jti\<rparr>)"

lemma runtime_token_claims:
  assumes "issue_runtime_token E J (Some iu) wall now jti email ttl m = Inr tok"
    "get_auth_user_by_email (normalize_email E email) m = Inr u"
  shows "encode_token J (runtime_claims iu wall now jti ttl u) (iu_secret iu) = Some tok \<and> au_id u \<noteq> [] \<and> \<not> user_unavailable u"
proof -
  have pos: "0 < (if ttl \<le> 0 then 600 * nanos else ttl)" by simp
  from assms pos show ?thesis
    by (auto simp: issue_runtime_token_def issue_user_def issue_token_def runtime_claims_def no_claims_def Let_def
        split: if_splits option.splits)
qed

text \<open>
  C29. A token that IssueRuntimeToken mints passes the gateway until it expires, with or without the scheme in
  front, and the identity the request gets is that of the account, which was available when it was minted. Such a token
  leaves no record that could be revoked; the tokens of IssueToken, which do, are not meant here.
\<close>

theorem runtime_token_accepted:
  assumes "issue_runtime_token E J (Some iu) wall now jti email ttl m = Inr tok"
    "get_auth_user_by_email (normalize_email E email) m = Inr u" "c = runtime_claims iu wall now jti ttl u"
    "min_int64 \<le> cm_issued_at c" "cm_issued_at c \<le> max_int64"
    "jw_json J (object_text J (claim_members c)) = Some (JObject (claim_members c))"
    "jw_json J (object_text J header_members) = Some (JObject header_members)"
    "ac_secret cfg = iu_secret iu" "ac_issuer cfg \<in> {[], iu_issuer iu}" "header \<in> {tok, ''Bearer '' @ tok}"
  shows "verify_identity J cfg wall' header t =
    (if cm_expires c \<noteq> 0 \<and> (if t = 0 then wall' else t) \<ge> cm_expires c then None
     else Some \<lparr>idn_user_id = au_id u, idn_tenant_id = trim_space (au_tenant_id u), idn_email = au_email u, idn_name = cm_name c,
       idn_username = au_username u, idn_token_id = jti, idn_issued_at = cm_issued_at c, idn_expires = cm_expires c\<rparr>)"
proof -
  from runtime_token_claims[OF assms(1,2)] assms(3)
  have enc: "encode_token J c (iu_secret iu) = Some tok" and sub: "au_id u \<noteq> []" by simp_all
  have secret: "iu_secret iu \<noteq> []" using enc by (auto simp: encode_token_def)
  have fit: "claims_fit c"
    using assms(3-5) int64_range by (auto simp: claims_fit_def runtime_claims_def Let_def)
  have strip: "strip_bearer header = tok" using strip_plain[of tok] encoded_graph[OF enc] assms(10) by auto
  have iss: "\<not> (ac_issuer cfg \<noteq> [] \<and> cm_issuer c \<noteq> ac_issuer cfg)" using assms(3,9) by (auto simp: runtime_claims_def Let_def)
  have fields: "cm_subject c = au_id u" "cm_tenant c = trim_space (au_tenant_id u)" "cm_email c = au_email u"
    "cm_username c = au_username u" "cm_id c = jti" by (simp_all add: assms(3) runtime_claims_def Let_def)
  show ?thesis
    using decode_encoded[OF enc fit assms(6,7), of wall' t] secret sub iss encoded_graph[OF enc]
    by (auto simp: verify_identity_def strip assms(8) identity_of_claims_def fields)
qed

text \<open>A codec that knows the texts of one token and of one credential, and a MAC that is just the key.\<close>

definition plain_jwt :: "(string \<Rightarrow> json option) \<Rightarrow> jwt_env" where
  "plain_jwt js = \<lparr>jw_hmac = (\<lambda>k s. k), jw_quote = (\<lambda>s. [CHR 0x22] @ s @ [CHR 0x22]), jw_json = js\<rparr>"

definition sample_issuer :: issuer where
  "sample_issuer = new_issuer ''key'' [] (3600 * nanos)"

definition sample_claims :: claims where
  "sample_claims = runtime_claims sample_issuer 0 noon ''j1'' 0 sample_owner"

definition sample_skill :: skill_claims where
  "sample_skill = \<lparr>kc_tenant_id = ''t'', kc_user_id = ''u'', kc_conversation_id = ''c'', kc_run_id = ''r'', kc_capability = ''skill.publish'',
     kc_expires_at = unix_of (noon + 43200 * nanos)\<rparr>"

definition sample_jwt :: jwt_env where
  "sample_jwt = plain_jwt (\<lambda>s.
     if s = object_text (plain_jwt (\<lambda>_. None)) header_members then Some (JObject header_members)
     else if s = object_text (plain_jwt (\<lambda>_. None)) (claim_members sample_claims) then Some (JObject (claim_members sample_claims))
     else if s = object_text (plain_jwt (\<lambda>_. None)) (skill_members sample_skill) then Some (JObject (skill_members sample_skill))
     else None)"

definition sample_gateway :: auth_config where
  "sample_gateway = \<lparr>ac_secret = ''key'', ac_issuer = ''cocola'', ac_allow_anonymous = False\<rparr>"

lemma plain_text: "object_text (plain_jwt f) ms = object_text (plain_jwt g) ms"
proof -
  have "scalar_text (plain_jwt f) v = scalar_text (plain_jwt g) v" for v
    by (cases v) (simp_all add: plain_jwt_def)
  then show ?thesis by (simp add: object_text_def) (simp add: plain_jwt_def)
qed

lemma sample_text: "object_text sample_jwt ms = object_text (plain_jwt (\<lambda>_. None)) ms"
  unfolding sample_jwt_def by (rule plain_text)

lemma sample_texts_differ:
  "object_text (plain_jwt (\<lambda>_. None)) (claim_members sample_claims) \<noteq> object_text (plain_jwt (\<lambda>_. None)) header_members"
  "object_text (plain_jwt (\<lambda>_. None)) (skill_members sample_skill) \<noteq> object_text (plain_jwt (\<lambda>_. None)) header_members"
  "object_text (plain_jwt (\<lambda>_. None)) (skill_members sample_skill) \<noteq> object_text (plain_jwt (\<lambda>_. None)) (claim_members sample_claims)"
  by (simp_all add: object_text_def claim_members_def skill_members_def header_members_def plain_jwt_def str_member_def
      sample_claims_def runtime_claims_def Let_def sample_skill_def)

lemma token_codec_sample:
  "jw_json sample_jwt (object_text sample_jwt header_members) = Some (JObject header_members)"
  "jw_json sample_jwt (object_text sample_jwt (claim_members sample_claims)) = Some (JObject (claim_members sample_claims))"
  "jw_json sample_jwt (object_text sample_jwt (skill_members sample_skill)) = Some (JObject (skill_members sample_skill))"
  unfolding sample_text using sample_texts_differ by (simp_all add: sample_jwt_def) (simp_all add: plain_jwt_def)

lemma runtime_token_accepted_witness:
  "\<exists>tok i. issue_runtime_token sample_env sample_jwt (Some sample_issuer) 0 noon ''j1'' ''ann@x'' 0 svc0 = Inr tok \<and>
     verify_identity sample_jwt sample_gateway 0 (''Bearer '' @ tok) (unix_of noon + 599) = Some i \<and> idn_user_id i = ''u'' \<and>
     verify_identity sample_jwt sample_gateway 0 (''Bearer '' @ tok) (unix_of noon + 600) = None"
proof -
  have "get_auth_user_by_email (normalize_email sample_env ''ann@x'') svc0 = Inr sample_owner" by code_simp
  note u = this
  have "\<exists>tok. issue_runtime_token sample_env sample_jwt (Some sample_issuer) 0 noon ''j1'' ''ann@x'' 0 svc0 = Inr tok"
  proof -
    have "normalize_email sample_env ''ann@x'' \<noteq> []" "\<not> user_unavailable sample_owner" "au_id sample_owner \<noteq> []"
      "iu_secret sample_issuer \<noteq> []" by code_simp+
    with u show ?thesis by (auto simp: issue_runtime_token_def issue_user_def issue_token_def no_claims_def encode_token_def Let_def)
  qed
  then obtain tok where t: "issue_runtime_token sample_env sample_jwt (Some sample_issuer) 0 noon ''j1'' ''ann@x'' 0 svc0 = Inr tok" ..
  have c: "cm_issued_at sample_claims = unix_of noon" "cm_expires sample_claims = unix_of noon + 600" by code_simp+
  have b: "min_int64 \<le> cm_issued_at sample_claims" "cm_issued_at sample_claims \<le> max_int64" by code_simp+
  have n: "unix_of noon = 1772251200" by code_simp
  note acc = runtime_token_accepted[OF t u sample_claims_def b token_codec_sample(2,1), of sample_gateway "''Bearer '' @ tok"]
  have cfg: "ac_secret sample_gateway = iu_secret sample_issuer" "ac_issuer sample_gateway \<in> {[], iu_issuer sample_issuer}"
    by (simp_all add: sample_gateway_def sample_issuer_def new_issuer_def)
  from acc[OF cfg, of 0 "unix_of noon + 599"] acc[OF cfg, of 0 "unix_of noon + 600"] t show ?thesis
    by (simp add: c n sample_owner_def)
qed

text \<open>
  C30. With a secret configured, the gateway accepts nothing but what was signed with it: a token's signature
  is the MAC of exactly the header and the claims it carries, it is not expired, its issuer is the required one, and
  it names a user. Without anonymous access no request passes without a token.
\<close>

theorem accepted_is_signed:
  assumes "verify_identity J cfg wall s t = Some i" "ac_secret cfg \<noteq> []" "\<not> ac_allow_anonymous cfg"
  shows "\<exists>h p hb pb c. strip_bearer s = h @ ''.'' @ p @ ''.'' @ sign_token J (h @ ''.'' @ p) (ac_secret cfg) \<and>
    b64_decode h = Some hb \<and> header_alg J hb = Some ''HS256'' \<and> b64_decode p = Some pb \<and> decode_claims J pb = Some c \<and>
    i = identity_of_claims c \<and> idn_user_id i \<noteq> [] \<and> (ac_issuer cfg = [] \<or> cm_issuer c = ac_issuer cfg) \<and>
    (idn_expires i = 0 \<or> (if t = 0 then wall else t) < idn_expires i)"
proof -
  from assms obtain c where c: "decode_token J wall (strip_bearer s) (ac_secret cfg) t = Some c" "i = identity_of_claims c"
    "ac_issuer cfg = [] \<or> cm_issuer c = ac_issuer cfg" "cm_subject c \<noteq> []"
    by (auto simp: verify_identity_def Let_def split: if_splits option.splits)
  have id: "idn_user_id i = cm_subject c" "idn_expires i = cm_expires c" by (simp_all add: c(2) identity_of_claims_def)
  from decoded_signed[OF c(1)] c(2-4) show ?thesis unfolding id by blast
qed

lemma accepted_is_signed_witness:
  "\<exists>tok h p. verify_identity sample_jwt sample_gateway 0 tok (unix_of noon) \<noteq> None \<and>
     tok = h @ ''.'' @ p @ ''.'' @ sign_token sample_jwt (h @ ''.'' @ p) ''key''"
proof -
  obtain tok where tok: "encode_token sample_jwt sample_claims ''key'' = Some tok" by (simp add: encode_token_def Let_def)
  have fit: "claims_fit sample_claims" by code_simp
  have c: "cm_expires sample_claims = 1772251800" "unix_of noon = 1772251200" "cm_subject sample_claims \<noteq> []"
    "cm_issuer sample_claims = ''cocola''" by code_simp+
  have s: "strip_bearer tok = tok" using strip_plain(1) encoded_graph[OF tok] by blast
  have v: "verify_identity sample_jwt sample_gateway 0 tok (unix_of noon) = Some (identity_of_claims sample_claims)"
    using decode_encoded[OF tok fit token_codec_sample(2,1), of 0 "unix_of noon"] encoded_graph[OF tok] c
    by (simp add: verify_identity_def s sample_gateway_def)
  from accepted_is_signed[OF v] v s show ?thesis by (auto simp: sample_gateway_def)
qed

section \<open>The capability of a sandbox\<close>

lemma read_skill_members:
  assumes "jw_json J s = Some (JObject (skill_members c))" "min_int64 \<le> kc_expires_at c" "kc_expires_at c \<le> max_int64"
  shows "decode_skill_claims J s = Some c"
  using assms by (simp add: decode_skill_claims_def skill_members_def ascii_lower_def byte_def atoi_itoa)

text \<open>
  The credential given to a sandbox verifies for twelve hours and gives back the user, the conversation
  and the run it was issued for, and nothing else.
\<close>

theorem skill_credential_roundtrip:
  assumes "issue_skill_credential J broker now tenant user conversation rn = Some cred"
    "c = \<lparr>kc_tenant_id = trim_space tenant, kc_user_id = trim_space user, kc_conversation_id = trim_space conversation,
       kc_run_id = trim_space rn, kc_capability = ''skill.publish'', kc_expires_at = unix_of (now + 43200 * nanos)\<rparr>"
    "jw_json J (object_text J (skill_members c)) = Some (JObject (skill_members c))"
    "min_int64 \<le> kc_expires_at c" "kc_expires_at c \<le> max_int64"
  shows "verify_skill_credential J broker t cred = (if unix_of t < unix_of (now + 43200 * nanos) then Some c else None)"
proof -
  define pay where "pay = object_text J (skill_members c)"
  obtain key where key: "broker = Some key" using assms(1) by (auto simp: issue_skill_credential_def split: option.splits)
  have ids: "trim_space user \<noteq> []" "trim_space conversation \<noteq> []" "trim_space rn \<noteq> []"
    and cred: "cred = b64_encode pay @ ''.'' @ b64_encode (skill_mac J key pay)"
    using assms(1) by (auto simp: issue_skill_credential_def key Let_def pay_def assms(2) split: if_splits)
  have mac: "b64_encode (skill_mac J key pay) = [] \<or> graph_char (last (b64_encode (skill_mac J key pay)))"
    using b64_graph last_in_set by blast
  have pay: "b64_encode pay \<noteq> []"
  proof -
    have "pay \<noteq> []" by (simp add: pay_def object_text_def)
    then show ?thesis by (cases "map byte pay" rule: b64_sextets.cases) (auto simp: b64_encode_def)
  qed
  have trim: "trim_space cred = cred"
    unfolding cred using pay mac b64_graph[of _ pay] dot_graph by (intro trim_graph) (auto simp: last_append)
  have parts: "split_dots cred = [b64_encode pay, b64_encode (skill_mac J key pay)]"
    unfolding cred using split_dots_dot[OF b64_no_dot, of pay] split_dots_none[OF b64_no_dot] by simp
  have read: "decode_skill_claims J pay = Some c" unfolding pay_def by (rule read_skill_members[OF assms(3-5)])
  have fields: "kc_user_id c = trim_space user" "kc_conversation_id c = trim_space conversation" "kc_run_id c = trim_space rn"
    "kc_capability c = ''skill.publish''" "kc_expires_at c = unix_of (now + 43200 * nanos)" by (simp_all add: assms(2))
  show ?thesis
    by (simp add: verify_skill_credential_def key trim parts b64_decode_encode read fields ids not_less)
qed

lemma skill_credential_roundtrip_witness:
  "\<exists>cred. issue_skill_credential sample_jwt (new_skill_broker ''s'') noon ''t'' '' u'' ''c'' ''r'' = Some cred \<and>
     verify_skill_credential sample_jwt (new_skill_broker ''s'') noon cred = Some sample_skill"
proof -
  have trims: "trim_space ''s'' = ''s''" "trim_space ''t'' = ''t''" "trim_space '' u'' = ''u''" "trim_space ''c'' = ''c''" "trim_space ''r'' = ''r''"
    by code_simp+
  have "\<exists>cred. issue_skill_credential sample_jwt (new_skill_broker ''s'') noon ''t'' '' u'' ''c'' ''r'' = Some cred"
    by (simp add: issue_skill_credential_def new_skill_broker_def trims Let_def)
  then obtain cred where cred: "issue_skill_credential sample_jwt (new_skill_broker ''s'') noon ''t'' '' u'' ''c'' ''r'' = Some cred" ..
  have c: "sample_skill = \<lparr>kc_tenant_id = trim_space ''t'', kc_user_id = trim_space '' u'', kc_conversation_id = trim_space ''c'',
       kc_run_id = trim_space ''r'', kc_capability = ''skill.publish'', kc_expires_at = unix_of (noon + 43200 * nanos)\<rparr>"
    by (simp add: sample_skill_def trims)
  have b: "min_int64 \<le> kc_expires_at sample_skill" "kc_expires_at sample_skill \<le> max_int64" by code_simp+
  have t: "unix_of noon < unix_of (noon + 43200 * nanos)" by code_simp
  from skill_credential_roundtrip[OF cred c token_codec_sample(3) b, of noon] t cred show ?thesis by simp
qed

end
