(* ===== verification/Agent_Profile.thy ===== *)
theory Agent_Profile
  imports Convo_Memory
begin

text \<open>
  \<open>apps/gateway/internal/agentprofile\<close>: the Agents that users define (\<open>types.go\<close>), the links to documents that
  an Agent may read (\<open>knowledge.go\<close>), the in-process store (\<open>memory.go\<close>) and the service over it (\<open>service.go\<close>).
  Parameters are the Unicode case tables, \<open>uuid.Parse\<close> (it gives the canonical text of an accepted id), and
  \<open>url.Parse\<close> with the \<open>URL.String\<close> that undoes it.
\<close>

section \<open>Types\<close>

datatype agent_error = AgentNotFound | AgentConflict | AgentVersionConflict | AgentInvalid | AgentArchived

record owner_identity =
  oid_tenant_id :: string
  oid_user_id :: string

record agent =
  ag_id :: string
  ag_tenant_id :: string
  ag_owner_user_id :: string
  ag_name :: string
  ag_description :: string
  ag_instructions :: string
  ag_avatar_key :: string
  ag_avatar_color :: string
  ag_runtime_id :: string
  ag_model_route_id :: string
  ag_model_alias :: string
  ag_skill_ids :: "string list"
  ag_knowledge_sources :: "knowledge_source list"
  ag_knowledge_revision :: int
  ag_status :: string
  ag_version :: int
  ag_created_at :: gtime
  ag_updated_at :: gtime
  ag_archived_at :: "gtime option"

definition snapshot_of :: "agent \<Rightarrow> agent_snapshot" where
  "snapshot_of a = \<lparr>snap_id = ag_id a, snap_version = ag_version a, snap_name = ag_name a, snap_description = ag_description a,
     snap_instructions = ag_instructions a, snap_avatar_key = ag_avatar_key a, snap_avatar_color = ag_avatar_color a,
     snap_runtime_id = ag_runtime_id a, snap_model_route_id = ag_model_route_id a, snap_model_alias = ag_model_alias a,
     snap_skill_ids = ag_skill_ids a, snap_knowledge_sources = ag_knowledge_sources a,
     snap_knowledge_revision = ag_knowledge_revision a\<rparr>"

text \<open>What a user sends; the version only counts in an update.\<close>

record agent_input =
  ai_name :: string
  ai_description :: string
  ai_instructions :: string
  ai_avatar_key :: string
  ai_avatar_color :: string
  ai_runtime_id :: string
  ai_model_route_id :: string
  ai_model_alias :: string
  ai_skill_ids :: "string list"
  ai_knowledge_sources :: "knowledge_source list"
  ai_version :: int

record url_parts =
  url_scheme :: string
  url_user :: bool
  url_port :: string
  url_hostname :: string
  url_path :: string
  url_force_query :: bool

record agent_env =
  ge_case :: text_case
  ge_uuid :: "string \<Rightarrow> string option"
  ge_url :: "string \<Rightarrow> url_parts option"
  ge_url_text :: "url_parts \<Rightarrow> string"

section \<open>Knowledge sources\<close>

definition any_char_of :: "string \<Rightarrow> string \<Rightarrow> bool" where
  "any_char_of s chars = list_ex (\<lambda>c. c \<in> set chars) s"

abbreviation control_chars :: string where "control_chars \<equiv> [CHR 0x00, CHR 0x0D, CHR 0x0A]"

definition has_suffix :: "string \<Rightarrow> string \<Rightarrow> bool" where
  "has_suffix s p = has_prefix (rev s) (rev p)"

text \<open>\<open>strings.Split\<close> at a slash, and \<open>path.Clean\<close> up to the join: the elements that are left.\<close>

fun split_slash :: "string \<Rightarrow> string list" where
  "split_slash [] = [[]]"
| "split_slash (c # cs) =
     (if c = CHR ''/'' then [] # split_slash cs else (case split_slash cs of [] \<Rightarrow> [[c]] | p # ps \<Rightarrow> (c # p) # ps))"

definition clean_step :: "bool \<Rightarrow> string \<Rightarrow> string list \<Rightarrow> string list" where
  "clean_step rooted e acc =
     (if e = [] \<or> e = ''.'' then acc
      else if e = ''..'' then (if acc \<noteq> [] \<and> last acc \<noteq> ''..'' then butlast acc else if rooted then acc else acc @ [e])
      else acc @ [e])"

definition clean_elements :: "string \<Rightarrow> string list" where
  "clean_elements p = fold (clean_step (has_prefix p ''/'')) (split_slash p) []"

text \<open>\<open>strings.Split(strings.Trim(path.Clean(p), "/"), "/")\<close>: nothing left is one segment, empty or a dot.\<close>

definition path_segments :: "string \<Rightarrow> string list" where
  "path_segments p = (if clean_elements p = [] then [if has_prefix p ''/'' then [] else ''.''] else clean_elements p)"

definition allowed_knowledge_host :: "agent_env \<Rightarrow> string \<Rightarrow> bool" where
  "allowed_knowledge_host G host =
     (let host = tc_lower (ge_case G) (trim_space host)
      in list_ex (\<lambda>suffix. host = suffix \<or> has_suffix host (''.'' @ suffix)) [''feishu.cn'', ''larkoffice.com'', ''larksuite.com''])"

definition knowledge_type_for_path :: "agent_env \<Rightarrow> string \<Rightarrow> string option" where
  "knowledge_type_for_path G s =
     (let s = tc_lower (ge_case G) s in
      if s = ''docx'' then Some ''feishu_doc'' else if s = ''wiki'' then Some ''feishu_wiki''
      else if s = ''sheets'' then Some ''feishu_sheet'' else if s = ''base'' \<or> s = ''bitable'' then Some ''feishu_base'' else None)"

definition default_knowledge_label :: "string \<Rightarrow> string" where
  "default_knowledge_label ty =
     (if ty = ''feishu_doc'' then ''Feishu document'' else if ty = ''feishu_wiki'' then ''Feishu Wiki''
      else if ty = ''feishu_sheet'' then ''Feishu Sheet'' else if ty = ''feishu_base'' then ''Feishu Base''
      else if ty = ''cocola_wiki'' then ''Cocola Wiki file'' else ''Knowledge source'')"

definition token_char :: "char \<Rightarrow> bool" where
  "token_char c \<longleftrightarrow> (let b = byte c in (65 \<le> b \<and> b \<le> 90) \<or> (97 \<le> b \<and> b \<le> 122) \<or> (48 \<le> b \<and> b \<le> 57) \<or> b = 95 \<or> b = 45)"

definition knowledge_token :: "string \<Rightarrow> bool" where
  "knowledge_token s \<longleftrightarrow> s \<noteq> [] \<and> list_all token_char s"

definition trim_source :: "knowledge_source \<Rightarrow> knowledge_source" where
  "trim_source s = \<lparr>ks_type = trim_space (ks_type s), ks_label = trim_space (ks_label s), ks_url = trim_space (ks_url s),
     ks_node_id = trim_space (ks_node_id s)\<rparr>"

definition label_or_default :: "knowledge_source \<Rightarrow> knowledge_source" where
  "label_or_default s = (if ks_label s = [] then s\<lparr>ks_label := default_knowledge_label (ks_type s)\<rparr> else s)"

text \<open>The link that is kept: https, the lower-case host and the two segments; a bare question mark stays.\<close>

definition canonical_url :: "agent_env \<Rightarrow> url_parts \<Rightarrow> string list \<Rightarrow> string" where
  "canonical_url G u segs = ge_url_text G \<lparr>url_scheme = ''https'', url_user = False, url_port = [],
     url_hostname = tc_lower (ge_case G) (url_hostname u), url_path = ''/'' @ segs ! 0 @ ''/'' @ segs ! 1,
     url_force_query = url_force_query u\<rparr>"

definition normalize_link :: "agent_env \<Rightarrow> knowledge_source \<Rightarrow> knowledge_source option" where
  "normalize_link G s =
     (case ge_url G (ks_url s) of
        None \<Rightarrow> None
      | Some u \<Rightarrow>
          if url_scheme u \<noteq> ''https'' \<or> url_user u \<or> url_port u \<noteq> [] \<or> \<not> allowed_knowledge_host G (url_hostname u) then None
          else (let segs = path_segments (url_path u) in
            if length segs < 2 then None
            else (case knowledge_type_for_path G (segs ! 0) of
                    None \<Rightarrow> None
                  | Some ty \<Rightarrow>
                      if ks_type s \<noteq> [] \<and> ks_type s \<noteq> ty then None
                      else if length (segs ! 1) > 256 \<or> \<not> knowledge_token (segs ! 1) then None
                      else Some (label_or_default (s\<lparr>ks_type := ty, ks_url := canonical_url G u segs\<rparr>)))))"

definition normalize_knowledge_source :: "agent_env \<Rightarrow> knowledge_source \<Rightarrow> knowledge_source option" where
  "normalize_knowledge_source G source =
     (let s = trim_source source in
      if length (ks_url s) > 2048 \<or> rune_count (ks_label s) > 100 \<or> any_char_of (ks_label s) control_chars then None
      else if ks_type s = ''cocola_wiki'' \<or> (ks_type s = [] \<and> ks_url s = [] \<and> ks_node_id s \<noteq> [])
      then (case ge_uuid G (ks_node_id s) of
              None \<Rightarrow> None
            | Some node \<Rightarrow> if ks_url s \<noteq> [] then None
                else Some (label_or_default (s\<lparr>ks_type := ''cocola_wiki'', ks_node_id := node\<rparr>)))
      else if ks_node_id s \<noteq> [] then None
      else normalize_link G s)"

definition knowledge_source_key :: "knowledge_source \<Rightarrow> string" where
  "knowledge_source_key s = (if ks_type s = ''cocola_wiki'' then ks_type s @ '':'' @ ks_node_id s else ks_type s @ '':'' @ ks_url s)"

definition required_knowledge_skill_ids :: "string \<Rightarrow> string list" where
  "required_knowledge_skill_ids ty =
     (if ty = ''feishu_doc'' then [''lark-doc''] else if ty = ''feishu_wiki'' then [''lark-wiki'', ''lark-doc'']
      else if ty = ''feishu_sheet'' then [''lark-sheets''] else if ty = ''feishu_base'' then [''lark-base''] else [])"

section \<open>Validation\<close>

definition valid_owner :: "owner_identity \<Rightarrow> bool" where
  "valid_owner i \<longleftrightarrow> trim_space (oid_user_id i) \<noteq> []"

definition valid_identifier :: "string \<Rightarrow> nat \<Rightarrow> bool" where
  "valid_identifier s most \<longleftrightarrow> rune_count s \<ge> 1 \<and> rune_count s \<le> most \<and> \<not> any_char_of s control_chars"

definition valid_avatar_keys :: "string list" where
  "valid_avatar_keys = [''sparkle'', ''robot'', ''code'', ''chart'', ''document'', ''search'', ''briefcase'', ''support'']"

definition valid_avatar_colors :: "string list" where
  "valid_avatar_colors = [''slate'', ''blue'', ''cyan'', ''emerald'', ''amber'', ''orange'', ''rose'', ''violet'']"

definition valid_agent_input :: "agent_input \<Rightarrow> bool" where
  "valid_agent_input i \<longleftrightarrow> \<not> (rune_count (ai_name i) < 1 \<or> rune_count (ai_name i) > 100 \<or> rune_count (ai_description i) > 500 \<or>
       length (ai_instructions i) > 32768 \<or> CHR 0x00 \<in> set (ai_instructions i)) \<and>
     ai_avatar_key i \<in> set valid_avatar_keys \<and> ai_avatar_color i \<in> set valid_avatar_colors \<and>
     valid_identifier (ai_runtime_id i) 256 \<and> valid_identifier (ai_model_route_id i) 256 \<and> valid_identifier (ai_model_alias i) 256"

primrec valid_skills :: "string list \<Rightarrow> string list \<Rightarrow> bool" where
  "valid_skills [] seen = True"
| "valid_skills (s # ss) seen = (valid_identifier s 256 \<and> s \<notin> set seen \<and> valid_skills ss (s # seen))"

primrec valid_sources :: "agent_env \<Rightarrow> knowledge_source list \<Rightarrow> string list \<Rightarrow> bool" where
  "valid_sources G [] seen = True"
| "valid_sources G (s # ss) seen = (normalize_knowledge_source G s = Some s \<and> knowledge_source_key s \<notin> set seen \<and>
     valid_sources G ss (knowledge_source_key s # seen))"

definition valid_agent_config :: "agent_env \<Rightarrow> string list \<Rightarrow> knowledge_source list \<Rightarrow> bool" where
  "valid_agent_config G skills sources \<longleftrightarrow>
     \<not> (length skills > 32 \<or> length sources > 10) \<and> valid_skills skills [] \<and> valid_sources G sources []"

definition normalize_sources :: "agent_env \<Rightarrow> knowledge_source list \<Rightarrow> knowledge_source list" where
  "normalize_sources G = map (\<lambda>s. case normalize_knowledge_source G s of None \<Rightarrow> s | Some t \<Rightarrow> t)"

definition normalize_agent_input :: "agent_env \<Rightarrow> agent_input \<Rightarrow> agent_input" where
  "normalize_agent_input G i =
     (let or = (\<lambda>s d. if s = [] then d else s)
      in i\<lparr>ai_name := trim_space (ai_name i), ai_description := trim_space (ai_description i),
           ai_avatar_key := or (trim_space (ai_avatar_key i)) ''sparkle'', ai_avatar_color := or (trim_space (ai_avatar_color i)) ''blue'',
           ai_runtime_id := trim_space (ai_runtime_id i), ai_model_route_id := trim_space (ai_model_route_id i),
           ai_model_alias := trim_space (ai_model_alias i), ai_skill_ids := map trim_space (ai_skill_ids i),
           ai_knowledge_sources := normalize_sources G (ai_knowledge_sources i)\<rparr>)"

section \<open>The in-process store\<close>

type_synonym agent_memory = "(string, agent) gomap"
type_synonym 'a agent_result = "(agent_error + 'a) \<times> agent_memory"

definition owned_agent :: "owner_identity \<Rightarrow> agent \<Rightarrow> bool" where
  "owned_agent i a \<longleftrightarrow> ag_tenant_id a = oid_tenant_id i \<and> ag_owner_user_id a = oid_user_id i"

text \<open>Ranging over the map and sorting by a total order: the newest first, then the greatest id.\<close>

definition list_agents :: "owner_identity \<Rightarrow> agent_memory \<Rightarrow> agent list" where
  "list_agents i m = rev (sort_key (\<lambda>a. (ag_updated_at a, ag_id a))
     (filter (\<lambda>a. owned_agent i a \<and> ag_status a = ''active'') (mvals m)))"

definition get_agent :: "owner_identity \<Rightarrow> string \<Rightarrow> agent_memory \<Rightarrow> agent_error + agent" where
  "get_agent i aid m =
     (case mget m aid of None \<Rightarrow> Inl AgentNotFound | Some a \<Rightarrow> if \<not> owned_agent i a then Inl AgentNotFound else Inr a)"

definition name_exists :: "text_case \<Rightarrow> agent \<Rightarrow> string \<Rightarrow> agent_memory \<Rightarrow> bool" where
  "name_exists tc c exclude m = list_ex (\<lambda>e. ag_id e \<noteq> exclude \<and> ag_tenant_id e = ag_tenant_id c \<and>
     ag_owner_user_id e = ag_owner_user_id c \<and> ag_status e = ''active'' \<and> tc_equal_fold tc (ag_name e) (ag_name c)) (mvals m)"

definition create_agent :: "text_case \<Rightarrow> agent \<Rightarrow> agent_memory \<Rightarrow> agent agent_result" where
  "create_agent tc a m =
     (if mget m (ag_id a) \<noteq> None \<or> name_exists tc a [] m then (Inl AgentConflict, m) else (Inr a, mput m (ag_id a) a))"

text \<open>The row that \<open>Update\<close> stores: what the caller gave over the fields that only the store changes.\<close>

definition update_candidate :: "agent \<Rightarrow> agent \<Rightarrow> agent" where
  "update_candidate cur given = given\<lparr>ag_tenant_id := ag_tenant_id cur, ag_owner_user_id := ag_owner_user_id cur,
     ag_status := ag_status cur, ag_version := int64 (ag_version cur + 1),
     ag_knowledge_revision := (if ag_knowledge_sources cur \<noteq> ag_knowledge_sources given
       then int64 (ag_knowledge_revision cur + 1) else ag_knowledge_revision cur),
     ag_created_at := ag_created_at cur\<rparr>"

definition update_agent :: "text_case \<Rightarrow> owner_identity \<Rightarrow> agent \<Rightarrow> int \<Rightarrow> agent_memory \<Rightarrow> agent agent_result" where
  "update_agent tc i given expected m =
     (case mget m (ag_id given) of
        None \<Rightarrow> (Inl AgentNotFound, m)
      | Some cur \<Rightarrow>
          if \<not> owned_agent i cur then (Inl AgentNotFound, m)
          else if ag_status cur \<noteq> ''active'' then (Inl AgentArchived, m)
          else if ag_version cur \<noteq> expected then (Inl AgentVersionConflict, m)
          else (let c = update_candidate cur given in
                if name_exists tc c (ag_id c) m then (Inl AgentConflict, m) else (Inr c, mput m (ag_id given) c)))"

definition archive_agent :: "owner_identity \<Rightarrow> string \<Rightarrow> int \<Rightarrow> gtime \<Rightarrow> agent_memory \<Rightarrow> agent agent_result" where
  "archive_agent i aid expected now m =
     (case mget m aid of
        None \<Rightarrow> (Inl AgentNotFound, m)
      | Some cur \<Rightarrow>
          if \<not> owned_agent i cur then (Inl AgentNotFound, m)
          else if ag_version cur \<noteq> expected then (Inl AgentVersionConflict, m)
          else if ag_status cur = ''archived'' then (Inr cur, m)
          else (let a = cur\<lparr>ag_status := ''archived'', ag_version := int64 (ag_version cur + 1), ag_updated_at := now,
                  ag_archived_at := Some now\<rparr>
                in (Inr a, mput m aid a)))"

section \<open>The service\<close>

definition svc_list_agents :: "owner_identity \<Rightarrow> agent_memory \<Rightarrow> agent_error + agent list" where
  "svc_list_agents i m = (if \<not> valid_owner i then Inl AgentInvalid else Inr (list_agents i m))"

definition svc_get_agent :: "agent_env \<Rightarrow> owner_identity \<Rightarrow> string \<Rightarrow> agent_memory \<Rightarrow> agent_error + agent" where
  "svc_get_agent G i aid m = (if \<not> valid_owner i \<or> ge_uuid G aid = None then Inl AgentInvalid else get_agent i aid m)"

definition svc_get_active :: "agent_env \<Rightarrow> owner_identity \<Rightarrow> string \<Rightarrow> agent_memory \<Rightarrow> agent_error + agent" where
  "svc_get_active G i aid m =
     (case svc_get_agent G i aid m of Inl e \<Rightarrow> Inl e | Inr a \<Rightarrow> if ag_status a \<noteq> ''active'' then Inl AgentArchived else Inr a)"

definition agent_of_input :: "agent_input \<Rightarrow> agent" where
  "agent_of_input inp = \<lparr>ag_id = [], ag_tenant_id = [], ag_owner_user_id = [], ag_name = ai_name inp, ag_description = ai_description inp,
     ag_instructions = ai_instructions inp, ag_avatar_key = ai_avatar_key inp, ag_avatar_color = ai_avatar_color inp,
     ag_runtime_id = ai_runtime_id inp, ag_model_route_id = ai_model_route_id inp, ag_model_alias = ai_model_alias inp,
     ag_skill_ids = ai_skill_ids inp, ag_knowledge_sources = ai_knowledge_sources inp, ag_knowledge_revision = 0, ag_status = [],
     ag_version = 0, ag_created_at = 0, ag_updated_at = 0, ag_archived_at = None\<rparr>"

definition valid_normalized :: "agent_env \<Rightarrow> agent_input \<Rightarrow> bool" where
  "valid_normalized G inp \<longleftrightarrow> valid_agent_input inp \<and> valid_agent_config G (ai_skill_ids inp) (ai_knowledge_sources inp)"

definition svc_create_agent :: "agent_env \<Rightarrow> gtime \<Rightarrow> string \<Rightarrow> owner_identity \<Rightarrow> agent_input \<Rightarrow> agent_memory \<Rightarrow> agent agent_result" where
  "svc_create_agent G now new_id i inp m =
     (if \<not> valid_owner i then (Inl AgentInvalid, m)
      else (let inp = normalize_agent_input G inp in
            if \<not> valid_normalized G inp then (Inl AgentInvalid, m)
            else create_agent (ge_case G) ((agent_of_input inp)\<lparr>ag_id := new_id, ag_tenant_id := oid_tenant_id i,
              ag_owner_user_id := oid_user_id i, ag_knowledge_revision := 1, ag_status := ''active'', ag_version := 1,
              ag_created_at := now, ag_updated_at := now\<rparr>) m))"

definition svc_update_agent :: "agent_env \<Rightarrow> gtime \<Rightarrow> owner_identity \<Rightarrow> string \<Rightarrow> agent_input \<Rightarrow> agent_memory \<Rightarrow> agent agent_result" where
  "svc_update_agent G now i aid inp m =
     (if \<not> valid_owner i \<or> ge_uuid G aid = None \<or> ai_version inp \<le> 0 then (Inl AgentInvalid, m)
      else (let inp = normalize_agent_input G inp in
            if \<not> valid_normalized G inp then (Inl AgentInvalid, m)
            else update_agent (ge_case G) i ((agent_of_input inp)\<lparr>ag_id := aid, ag_updated_at := now\<rparr>) (ai_version inp) m))"

definition svc_archive_agent :: "agent_env \<Rightarrow> gtime \<Rightarrow> owner_identity \<Rightarrow> string \<Rightarrow> int \<Rightarrow> agent_memory \<Rightarrow> agent agent_result" where
  "svc_archive_agent G now i aid version m =
     (if \<not> valid_owner i \<or> ge_uuid G aid = None \<or> version \<le> 0 then (Inl AgentInvalid, m)
      else archive_agent i aid version now m)"

end
