(* ===== verification/Agent_Properties.thy ===== *)
theory Agent_Properties
  imports Agent_Profile Convo_Properties Account_Laws
begin

text \<open>
  The Agents that users define: what is stored however the operations follow each other, who may change it
  and when, and that a form sent back unchanged is accepted.
\<close>

section \<open>Sequences of operations\<close>

datatype agent_op =
    Create_Agent gtime string owner_identity agent_input
  | Update_Agent gtime owner_identity string agent_input
  | Archive_Agent gtime owner_identity string int

primrec agent_exec :: "agent_env \<Rightarrow> agent_op \<Rightarrow> agent_memory \<Rightarrow> agent agent_result" where
  "agent_exec G (Create_Agent now new_id i inp) m = svc_create_agent G now new_id i inp m"
| "agent_exec G (Update_Agent now i aid inp) m = svc_update_agent G now i aid inp m"
| "agent_exec G (Archive_Agent now i aid v) m = svc_archive_agent G now i aid v m"

primrec op_identity :: "agent_op \<Rightarrow> owner_identity" where
  "op_identity (Create_Agent now new_id i inp) = i"
| "op_identity (Update_Agent now i aid inp) = i"
| "op_identity (Archive_Agent now i aid v) = i"

primrec op_version :: "agent_op \<Rightarrow> int option" where
  "op_version (Create_Agent now new_id i inp) = None"
| "op_version (Update_Agent now i aid inp) = Some (ai_version inp)"
| "op_version (Archive_Agent now i aid v) = Some v"

text \<open>A new id is a UUID.\<close>

primrec proper_op :: "agent_env \<Rightarrow> agent_op \<Rightarrow> bool" where
  "proper_op G (Create_Agent now new_id i inp) = (new_id \<noteq> [] \<and> ge_uuid G new_id \<noteq> None)"
| "proper_op G (Update_Agent now i aid inp) = True"
| "proper_op G (Archive_Agent now i aid v) = True"

inductive agents_reach :: "agent_env \<Rightarrow> agent_memory \<Rightarrow> bool" for G where
  agents_new: "agents_reach G mnil"
| agents_step: "\<lbrakk>agents_reach G m; proper_op G op\<rbrakk> \<Longrightarrow> agents_reach G (snd (agent_exec G op m))"

section \<open>Stored Agents\<close>

definition input_of :: "agent \<Rightarrow> agent_input" where
  "input_of a = \<lparr>ai_name = ag_name a, ai_description = ag_description a, ai_instructions = ag_instructions a,
     ai_avatar_key = ag_avatar_key a, ai_avatar_color = ag_avatar_color a, ai_runtime_id = ag_runtime_id a,
     ai_model_route_id = ag_model_route_id a, ai_model_alias = ag_model_alias a, ai_skill_ids = ag_skill_ids a,
     ai_knowledge_sources = ag_knowledge_sources a, ai_version = ag_version a\<rparr>"

definition owner_of :: "agent \<Rightarrow> owner_identity" where
  "owner_of a = \<lparr>oid_tenant_id = ag_tenant_id a, oid_user_id = ag_owner_user_id a\<rparr>"

definition agent_typed :: "agent_env \<Rightarrow> string \<Rightarrow> agent \<Rightarrow> bool" where
  "agent_typed G k a \<longleftrightarrow> ag_id a = k \<and> k \<noteq> [] \<and> ge_uuid G k \<noteq> None \<and> valid_owner (owner_of a) \<and>
     valid_normalized G (input_of a) \<and> normalize_agent_input G (input_of a) = input_of a \<and>
     (ag_status a = ''active'' \<and> ag_archived_at a = None \<or> ag_status a = ''archived'' \<and> ag_archived_at a \<noteq> None)"

definition same_name :: "text_case \<Rightarrow> agent \<Rightarrow> agent \<Rightarrow> bool" where
  "same_name tc a b \<longleftrightarrow> ag_status a = ''active'' \<and> ag_status b = ''active'' \<and> ag_tenant_id a = ag_tenant_id b \<and>
     ag_owner_user_id a = ag_owner_user_id b \<and> tc_equal_fold tc (ag_name a) (ag_name b)"

definition agents_ok :: "agent_env \<Rightarrow> agent_memory \<Rightarrow> bool" where
  "agents_ok G m \<longleftrightarrow> (\<forall>k a. mget m k = Some a \<longrightarrow> agent_typed G k a) \<and>
     (\<forall>k l a b. mget m k = Some a \<longrightarrow> mget m l = Some b \<longrightarrow> same_name (ge_case G) a b \<longrightarrow> k = l)"

lemma agents_okD:
  assumes "agents_ok G m" "mget m k = Some a"
  shows "agent_typed G k a" "mget m l = Some b \<Longrightarrow> same_name (ge_case G) a b \<Longrightarrow> k = l"
  using assms unfolding agents_ok_def by blast+

lemma same_name_sym: "folding tc \<Longrightarrow> same_name tc a b = same_name tc b a"
  using folding_sym unfolding same_name_def by auto

lemma owner_of_owned: "owned_agent i a \<longleftrightarrow> owner_of a = i"
  by (cases i) (auto simp: owned_agent_def owner_of_def)

lemma name_exists_iff:
  assumes "agents_ok G m" "ag_status c = ''active''"
  shows "name_exists (ge_case G) c ex m \<longleftrightarrow> (\<exists>k e. mget m k = Some e \<and> k \<noteq> ex \<and> same_name (ge_case G) e c)"
proof -
  have "ag_id e = k" if "mget m k = Some e" for k e
    using agents_okD(1)[OF assms(1) that] by (simp add: agent_typed_def)
  then show ?thesis unfolding name_exists_def list_ex_iff mvals_ex same_name_def using assms(2) by metis
qed

section \<open>Normalisation\<close>

lemma normalize_source_kept:
  assumes "valid_sources G ss seen"
  shows "normalize_sources G ss = ss"
  using assms by (induction ss arbitrary: seen) (auto simp: normalize_sources_def)

lemma normalized_again:
  assumes "valid_normalized G (normalize_agent_input G inp)"
  shows "normalize_agent_input G (normalize_agent_input G inp) = normalize_agent_input G inp"
proof -
  let ?n = "normalize_agent_input G inp"
  have "normalize_sources G (ai_knowledge_sources ?n) = ai_knowledge_sources ?n"
    using assms by (intro normalize_source_kept[where seen = "[]"]) (simp add: valid_normalized_def valid_agent_config_def)
  moreover have "trim_space ''sparkle'' = ''sparkle''" "trim_space ''blue'' = ''blue''" by code_simp+
  ultimately show ?thesis
    unfolding normalize_agent_input_def[of G ?n] by (simp add: normalize_agent_input_def Let_def trim_space_idem)
qed

lemma input_of_agent: "input_of (agent_of_input inp) = inp\<lparr>ai_version := 0\<rparr>"
  by (simp add: input_of_def agent_of_input_def)

lemma normalize_version: "normalize_agent_input G (inp\<lparr>ai_version := v\<rparr>) = normalize_agent_input G inp\<lparr>ai_version := v\<rparr>"
  by (simp add: normalize_agent_input_def Let_def)

lemma valid_version: "valid_normalized G (inp\<lparr>ai_version := v\<rparr>) = valid_normalized G inp"
  by (simp add: valid_normalized_def valid_agent_input_def)

section \<open>Every operation keeps the store well-formed\<close>

text \<open>The row that a valid form makes, with what the store adds to it.\<close>

lemma made_typed:
  assumes "valid_normalized G inp" "normalize_agent_input G inp = inp" "input_of a = inp\<lparr>ai_version := v\<rparr>"
    "ag_id a = k" "k \<noteq> []" "ge_uuid G k \<noteq> None" "valid_owner (owner_of a)" "ag_status a = ''active''" "ag_archived_at a = None"
  shows "agent_typed G k a"
  unfolding agent_typed_def assms(3) valid_version normalize_version using assms by simp

lemma put_agent_ok:
  assumes "agents_ok G m" "folding (ge_case G)" "agent_typed G k c"
    and fresh: "\<And>l e. mget m l = Some e \<Longrightarrow> l \<noteq> k \<Longrightarrow> \<not> same_name (ge_case G) e c"
  shows "agents_ok G (mput m k c)"
  using assms(1,3) fresh same_name_sym[OF assms(2)] unfolding agents_ok_def gm.get_put by auto

lemma create_agent_ok:
  assumes "agents_ok G m" "folding (ge_case G)" "agent_typed G (ag_id a) a" "ag_status a = ''active''"
  shows "agents_ok G (snd (create_agent (ge_case G) a m))"
proof (cases "name_exists (ge_case G) a [] m")
  case False
  have "\<not> same_name (ge_case G) e a" if "mget m l = Some e" for l e
    using False agents_okD(1)[OF assms(1) that] that
    unfolding name_exists_iff[OF assms(1,4)] by (auto simp: agent_typed_def)
  with put_agent_ok[OF assms(1-3)] assms(1) show ?thesis by (simp add: create_agent_def)
qed (simp add: create_agent_def assms(1))

lemma update_candidate_simps [simp]:
  "ag_id (update_candidate cur given) = ag_id given" "ag_status (update_candidate cur given) = ag_status cur"
  "owner_of (update_candidate cur given) = owner_of cur" "ag_archived_at (update_candidate cur given) = ag_archived_at given"
  "ag_version (update_candidate cur given) = int64 (ag_version cur + 1)"
  "ag_created_at (update_candidate cur given) = ag_created_at cur"
  "ag_knowledge_sources (update_candidate cur given) = ag_knowledge_sources given"
  "input_of (update_candidate cur given) = input_of given\<lparr>ai_version := int64 (ag_version cur + 1)\<rparr>"
  by (simp_all add: update_candidate_def owner_of_def input_of_def)

lemma update_agent_cases:
  "(\<exists>e. update_agent tc i given v m = (Inl e, m)) \<or> (\<exists>cur. mget m (ag_id given) = Some cur \<and> owned_agent i cur \<and>
     ag_status cur = ''active'' \<and> ag_version cur = v \<and> \<not> name_exists tc (update_candidate cur given) (ag_id given) m \<and>
     update_agent tc i given v m = (Inr (update_candidate cur given), mput m (ag_id given) (update_candidate cur given)))"
  by (cases "mget m (ag_id given)") (simp_all add: update_agent_def Let_def)

lemma archive_agent_cases:
  "(\<exists>r. archive_agent i aid v now m = (r, m)) \<or> (\<exists>cur a. mget m aid = Some cur \<and> owned_agent i cur \<and>
     ag_version cur = v \<and> ag_status cur \<noteq> ''archived'' \<and>
     a = cur\<lparr>ag_status := ''archived'', ag_version := int64 (v + 1), ag_updated_at := now, ag_archived_at := Some now\<rparr> \<and>
     archive_agent i aid v now m = (Inr a, mput m aid a))"
  by (cases "mget m aid") (simp_all add: archive_agent_def Let_def)

lemma update_agent_ok:
  assumes ok: "agents_ok G m" and tc: "folding (ge_case G)"
    and given: "valid_normalized G inp" "normalize_agent_input G inp = inp"
  shows "agents_ok G (snd (update_agent (ge_case G) i ((agent_of_input inp)\<lparr>ag_id := aid, ag_updated_at := now\<rparr>) v m))"
    (is "agents_ok G (snd (update_agent _ _ ?g _ _))")
proof (cases "\<exists>e. update_agent (ge_case G) i ?g v m = (Inl e, m)")
  case True
  then show ?thesis using ok by auto
next
  case False
  then obtain cur where 2: "mget m aid = Some cur" "owned_agent i cur" "ag_status cur = ''active''" "ag_version cur = v"
    "\<not> name_exists (ge_case G) (update_candidate cur ?g) aid m"
    "update_agent (ge_case G) i ?g v m = (Inr (update_candidate cur ?g), mput m aid (update_candidate cur ?g))"
    using update_agent_cases[of "ge_case G" i ?g v m] by auto
  let ?c = "update_candidate cur ?g"
  have cur: "agent_typed G aid cur" using agents_okD(1)[OF ok 2(1)] by simp
  have "input_of ?g = inp\<lparr>ai_version := 0\<rparr>" by (simp add: input_of_def agent_of_input_def)
  then have "agent_typed G aid ?c"
    using cur 2(3) by (intro made_typed[OF given, where v = "int64 (ag_version cur + 1)"]) (auto simp: agent_typed_def agent_of_input_def)
  moreover have "\<not> same_name (ge_case G) e ?c" if "mget m l = Some e" "l \<noteq> aid" for l e
    using 2(5) that name_exists_iff[OF ok, of ?c] 2(3) by auto
  ultimately have "agents_ok G (mput m aid ?c)" by (rule put_agent_ok[OF ok tc])
  then show ?thesis unfolding 2(6) by simp
qed

lemma archive_agent_ok:
  assumes ok: "agents_ok G m" and tc: "folding (ge_case G)"
  shows "agents_ok G (snd (archive_agent i aid v now m))"
proof (cases "\<exists>r. archive_agent i aid v now m = (r, m)")
  case True
  then show ?thesis using ok by auto
next
  case False
  then obtain cur a where 2: "mget m aid = Some cur" "owned_agent i cur" "ag_version cur = v" "ag_status cur \<noteq> ''archived''"
    "a = cur\<lparr>ag_status := ''archived'', ag_version := int64 (v + 1), ag_updated_at := now, ag_archived_at := Some now\<rparr>"
    "archive_agent i aid v now m = (Inr a, mput m aid a)"
    using archive_agent_cases[of i aid v now m] by auto
  have "input_of a = input_of cur\<lparr>ai_version := int64 (v + 1)\<rparr>" "owner_of a = owner_of cur"
    by (simp_all add: 2(5) input_of_def owner_of_def)
  then have "agent_typed G aid a"
    using agents_okD(1)[OF ok 2(1)] 2(5) by (simp add: agent_typed_def valid_version normalize_version)
  moreover have "\<not> same_name (ge_case G) e a" for e by (simp add: same_name_def 2(5))
  ultimately show ?thesis unfolding 2(6) using put_agent_ok[OF ok tc] by simp
qed

lemma agent_exec_ok:
  assumes "agents_ok G m" "folding (ge_case G)" "proper_op G op"
  shows "agents_ok G (snd (agent_exec G op m))"
proof (cases op)
  case (Create_Agent now new_id i inp)
  let ?n = "normalize_agent_input G inp"
  show ?thesis
  proof (cases "valid_owner i \<and> valid_normalized G ?n")
    case True
    let ?a = "(agent_of_input ?n)\<lparr>ag_id := new_id, ag_tenant_id := oid_tenant_id i, ag_owner_user_id := oid_user_id i,
      ag_knowledge_revision := 1, ag_status := ''active'', ag_version := 1, ag_created_at := now, ag_updated_at := now\<rparr>"
    have "input_of ?a = ?n\<lparr>ai_version := 1\<rparr>" "owner_of ?a = i" by (simp_all add: input_of_def owner_of_def agent_of_input_def)
    then have "agent_typed G (ag_id ?a) ?a" using True assms(3) Create_Agent normalized_again
      by (intro made_typed[where inp = ?n and v = 1]) (auto simp: agent_of_input_def)
    with create_agent_ok[OF assms(1,2), of ?a] True show ?thesis by (simp add: Create_Agent svc_create_agent_def Let_def)
  qed (use assms(1) in \<open>auto simp: Create_Agent svc_create_agent_def Let_def\<close>)
next
  case (Update_Agent now i aid inp)
  then show ?thesis using update_agent_ok[OF assms(1,2)] normalized_again assms(1) by (simp add: svc_update_agent_def Let_def)
next
  case (Archive_Agent now i aid v)
  then show ?thesis using archive_agent_ok[OF assms(1,2)] assms(1) by (simp add: svc_archive_agent_def)
qed

lemma agents_reach_ok:
  assumes "agents_reach G m" "folding (ge_case G)"
  shows "agents_ok G m"
  using assms(1)
proof induction
  case agents_new
  show ?case by (simp add: agents_ok_def)
next
  case (agents_step m op)
  then show ?case using agent_exec_ok assms(2) by blast
qed

text \<open>
  C31. However the operations of the users follow each other, an Agent stands under its own id, its settings pass
  the checks of the form and are normalised already, its status is active or archived, the latter with the
  time of archiving, and no second active Agent of the owner has its name, in any case of its letters.
\<close>

theorem stored_agents_sound:
  assumes "agents_reach G m" "folding (ge_case G)" "mget m k = Some a"
  shows "agent_typed G k a \<and> (\<forall>l b. mget m l = Some b \<and> same_name (ge_case G) a b \<longrightarrow> l = k)"
  using agents_okD[OF agents_reach_ok[OF assms(1,2)] assms(3)] by blast

section \<open>Who changes an Agent\<close>

text \<open>The guard of every operation on a stored Agent, with or without a change.\<close>

lemma changed_by_update:
  assumes "mget m k = Some a" "mget (snd (update_agent tc i given v m)) k \<noteq> Some a"
  shows "k = ag_id given \<and> owned_agent i a \<and> ag_status a = ''active'' \<and> ag_version a = v \<and>
    mget (snd (update_agent tc i given v m)) k = Some (update_candidate a given)"
proof (cases "\<exists>e. update_agent tc i given v m = (Inl e, m)")
  case True
  then show ?thesis using assms by auto
next
  case False
  then show ?thesis using update_agent_cases[of tc i given v m] assms by (auto simp: gm.get_put split: if_splits)
qed

lemma changed_by_archive:
  assumes "mget m k = Some a" "mget (snd (archive_agent i aid v now m)) k \<noteq> Some a"
  shows "k = aid \<and> owned_agent i a \<and> ag_status a \<noteq> ''archived'' \<and> ag_version a = v \<and>
    mget (snd (archive_agent i aid v now m)) k = Some (a\<lparr>ag_status := ''archived'', ag_version := int64 (v + 1),
      ag_updated_at := now, ag_archived_at := Some now\<rparr>)"
proof (cases "\<exists>r. archive_agent i aid v now m = (r, m)")
  case True
  then show ?thesis using assms by auto
next
  case False
  then obtain cur c where c: "mget m aid = Some cur" "owned_agent i cur" "ag_version cur = v" "ag_status cur \<noteq> ''archived''"
    "c = cur\<lparr>ag_status := ''archived'', ag_version := int64 (v + 1), ag_updated_at := now, ag_archived_at := Some now\<rparr>"
    "snd (archive_agent i aid v now m) = mput m aid c"
    using archive_agent_cases[of i aid v now m] by auto
  then have "k = aid" using assms by (simp add: gm.get_put split: if_splits)
  with assms(1) c show ?thesis by (simp add: gm.get_put)
qed

lemma unchanged_by_create: "mget m k = Some a \<Longrightarrow> mget (snd (create_agent tc c m)) k = Some a"
  by (auto simp: create_agent_def gm.get_put)

text \<open>What a change of an Agent keeps and what it moves on.\<close>

definition agent_change :: "agent_op \<Rightarrow> agent \<Rightarrow> agent \<Rightarrow> bool" where
  "agent_change op a b \<longleftrightarrow> owned_agent (op_identity op) a \<and> ag_status a = ''active'' \<and> op_version op = Some (ag_version a) \<and>
     ag_version b = int64 (ag_version a + 1) \<and> owner_of b = owner_of a \<and> ag_created_at b = ag_created_at a \<and>
     (ag_knowledge_revision b \<noteq> ag_knowledge_revision a \<longleftrightarrow> ag_knowledge_sources b \<noteq> ag_knowledge_sources a)"

text \<open>
  C32. A stored Agent changes only while it is active, by an operation of its owner that names its current
  version; then its version moves on, owner and creation time stay, and its knowledge revision moves on exactly
  when the list of sources changes. So nobody else changes an Agent, an archived one never changes again, and
  a form filled in over an older version is refused.
\<close>

theorem agent_changes_guarded:
  assumes "agents_reach G m" "folding (ge_case G)" "mget m k = Some a"
    "mget (snd (agent_exec G op m)) k = Some b" "b \<noteq> a"
  shows "agent_change op a b"
proof (cases op)
  case (Create_Agent now new_id i inp)
  then show ?thesis using assms(3-5) unchanged_by_create by (auto simp: svc_create_agent_def Let_def split: if_splits)
next
  case (Update_Agent now i aid inp)
  let ?g = "(agent_of_input (normalize_agent_input G inp))\<lparr>ag_id := aid, ag_updated_at := now\<rparr>"
  have "snd (agent_exec G op m) = snd (update_agent (ge_case G) i ?g (ai_version inp) m)"
    using assms(3-5) by (auto simp: Update_Agent svc_update_agent_def Let_def normalize_agent_input_def split: if_splits)
  with changed_by_update[OF assms(3)] assms(4,5) have "b = update_candidate a ?g" "owned_agent i a" "ag_status a = ''active''"
    "ag_version a = ai_version inp" by (metis option.inject)+
  then show ?thesis using int64_bump[of "ag_knowledge_revision a"]
    by (auto simp: agent_change_def Update_Agent update_candidate_def owner_of_def)
next
  case (Archive_Agent now i aid v)
  have "snd (agent_exec G op m) = snd (archive_agent i aid v now m)"
    using assms(3-5) by (auto simp: Archive_Agent svc_archive_agent_def split: if_splits)
  with changed_by_archive[OF assms(3)] assms(4,5) have b: "b = a\<lparr>ag_status := ''archived'', ag_version := int64 (v + 1),
      ag_updated_at := now, ag_archived_at := Some now\<rparr>" "owned_agent i a" "ag_status a \<noteq> ''archived''" "ag_version a = v"
    by (metis option.inject)+
  moreover have "agent_typed G k a" using agents_okD(1)[OF agents_reach_ok[OF assms(1,2)] assms(3)] .
  ultimately show ?thesis by (auto simp: agent_change_def Archive_Agent agent_typed_def owner_of_def)
qed

text \<open>Two forms over the same version: the store has the contract of every versioned row.\<close>

definition agent_version :: "agent_memory \<Rightarrow> string \<Rightarrow> int" where
  "agent_version m k = (case mget m k of None \<Rightarrow> 0 | Some a \<Rightarrow> ag_version a)"

definition store_agent :: "text_case \<Rightarrow> string \<Rightarrow> owner_identity \<times> agent \<Rightarrow> int \<Rightarrow> agent_memory \<Rightarrow> bool \<times> agent_memory" where
  "store_agent tc k w e m = accepted (update_agent tc (fst w) ((snd w)\<lparr>ag_id := k\<rparr>) e m)"

lemma store_agent_cases:
  "store_agent tc k w e m = (False, m) \<or> (\<exists>cur c. mget m k = Some cur \<and> ag_version cur = e \<and>
     ag_version c = int64 (ag_version cur + 1) \<and> store_agent tc k w e m = (True, mput m k c))"
proof (cases "\<exists>x. update_agent tc (fst w) ((snd w)\<lparr>ag_id := k\<rparr>) e m = (Inl x, m)")
  case True
  then show ?thesis by (auto simp: store_agent_def)
next
  case False
  then obtain cur where cur: "mget m k = Some cur" "ag_version cur = e"
    and up: "accepted (update_agent tc (fst w) ((snd w)\<lparr>ag_id := k\<rparr>) e m) = (True, mput m k (update_candidate cur ((snd w)\<lparr>ag_id := k\<rparr>)))"
    using update_agent_cases[of tc "fst w" "(snd w)\<lparr>ag_id := k\<rparr>" e m] by auto
  show ?thesis unfolding store_agent_def up using cur update_candidate_simps(5)[of cur "(snd w)\<lparr>ag_id := k\<rparr>"] by blast
qed

interpretation profile: versioned agent_version "store_agent tc" for tc
proof (unfold_locales, goal_cases)
  case (1 e k w m)
  then show ?case using store_agent_cases[of tc k w e m] by (auto simp: agent_version_def)
next
  case (2 k w e m)
  then show ?case using store_agent_cases[of tc k w e m] by (auto simp: agent_version_def gm.get_put)
next
  case (3 k w e m)
  then show ?case using store_agent_cases[of tc k w e m] by auto
qed

section \<open>A form sent back unchanged\<close>

text \<open>
  C33. Saving an active Agent with the settings it was read with succeeds: the same Agent is stored under the next
  version, and its knowledge revision stays.
\<close>

theorem unchanged_form_saves:
  assumes "agents_reach G m" "folding (ge_case G)" "mget m k = Some a" "ag_status a = ''active''" "0 < ag_version a"
  shows "svc_update_agent G now (owner_of a) k (input_of a) m =
    (let b = a\<lparr>ag_version := int64 (ag_version a + 1), ag_updated_at := now\<rparr> in (Inr b, mput m k b))"
proof -
  have ok: "agents_ok G m" using agents_reach_ok[OF assms(1,2)] .
  have a: "agent_typed G k a" using agents_okD(1)[OF ok assms(3)] .
  let ?g = "(agent_of_input (input_of a))\<lparr>ag_id := k, ag_updated_at := now\<rparr>"
  let ?b = "a\<lparr>ag_version := int64 (ag_version a + 1), ag_updated_at := now\<rparr>"
  have b: "update_candidate a ?g = ?b"
    using a assms(4) by (auto simp: agent_typed_def update_candidate_def agent_of_input_def input_of_def)
  have "\<not> name_exists (ge_case G) ?b k m"
  proof
    assume "name_exists (ge_case G) ?b k m"
    then obtain l e where e: "mget m l = Some e" "l \<noteq> k" "same_name (ge_case G) e ?b"
      using name_exists_iff[OF ok, of ?b] assms(4) by auto
    then have "same_name (ge_case G) e a" by (simp add: same_name_def)
    with agents_okD(2)[OF ok e(1) assms(3)] e(2) show False by blast
  qed
  then have up: "update_agent (ge_case G) (owner_of a) ?g (ag_version a) m = (Inr ?b, mput m k ?b)"
    using assms(3,4) a owner_of_owned[of "owner_of a" a]
    by (simp add: update_agent_def b Let_def agent_typed_def)
  have form: "valid_owner (owner_of a)" "ge_uuid G k \<noteq> None" "valid_normalized G (input_of a)"
    "normalize_agent_input G (input_of a) = input_of a" using a unfolding agent_typed_def by blast+
  have v: "ai_version (input_of a) = ag_version a" by (simp add: input_of_def)
  show ?thesis unfolding svc_update_agent_def using form assms(5) up v by (simp add: Let_def)
qed

section \<open>A store with one Agent\<close>

definition sample_agents_env :: agent_env where
  "sample_agents_env = \<lparr>ge_case = ascii_case, ge_uuid = (\<lambda>s. if length s = 2 then Some s else None),
     ge_url = (\<lambda>s. if has_prefix s ''https://a.feishu.cn/'' then Some \<lparr>url_scheme = ''https'', url_user = False, url_port = [],
       url_hostname = ''a.feishu.cn'', url_path = drop 19 s, url_force_query = False\<rparr> else None),
     ge_url_text = (\<lambda>u. url_scheme u @ ''://'' @ url_hostname u @ url_path u)\<rparr>"

definition agent_ann :: owner_identity where "agent_ann = \<lparr>oid_tenant_id = ''t'', oid_user_id = ''ann''\<rparr>"

definition pilot_form :: agent_input where
  "pilot_form = \<lparr>ai_name = '' Pilot '', ai_description = [], ai_instructions = ''fly'', ai_avatar_key = [], ai_avatar_color = [],
     ai_runtime_id = ''r'', ai_model_route_id = ''m'', ai_model_alias = ''x'', ai_skill_ids = [''lark-doc''],
     ai_knowledge_sources = [\<lparr>ks_type = [], ks_label = [], ks_url = ''https://a.feishu.cn/docx/T/../U/v'', ks_node_id = []\<rparr>],
     ai_version = 0\<rparr>"

definition pilot :: agent where
  "pilot = \<lparr>ag_id = ''p1'', ag_tenant_id = ''t'', ag_owner_user_id = ''ann'', ag_name = ''Pilot'', ag_description = [],
     ag_instructions = ''fly'', ag_avatar_key = ''sparkle'', ag_avatar_color = ''blue'', ag_runtime_id = ''r'', ag_model_route_id = ''m'',
     ag_model_alias = ''x'', ag_skill_ids = [''lark-doc''], ag_knowledge_sources = [\<lparr>ks_type = ''feishu_doc'',
       ks_label = ''Feishu document'', ks_url = ''https://a.feishu.cn/docx/U'', ks_node_id = []\<rparr>], ag_knowledge_revision = 1,
     ag_status = ''active'', ag_version = 1, ag_created_at = 7, ag_updated_at = 7, ag_archived_at = None\<rparr>"

definition agents1 :: agent_memory where
  "agents1 = snd (agent_exec sample_agents_env (Create_Agent 7 ''p1'' agent_ann pilot_form) mnil)"

lemma agents1_pilot: "mget agents1 ''p1'' = Some pilot"
  by code_simp

lemma agents1_reach: "agents_reach sample_agents_env agents1"
  unfolding agents1_def by (rule agents_step[OF agents_new]) (simp add: sample_agents_env_def)

lemma sample_agents_folding: "folding (ge_case sample_agents_env)"
  by (simp add: sample_agents_env_def ascii_case_folding)

lemma stored_agents_sound_witness: "agent_typed sample_agents_env ''p1'' pilot"
  using stored_agents_sound[OF agents1_reach sample_agents_folding agents1_pilot] by blast

lemma agent_changes_guarded_witness:
  "\<exists>b. mget (snd (agent_exec sample_agents_env (Archive_Agent 9 agent_ann ''p1'' 1) agents1)) ''p1'' = Some b \<and>
     agent_change (Archive_Agent 9 agent_ann ''p1'' 1) pilot b"
proof -
  let ?b = "pilot\<lparr>ag_status := ''archived'', ag_version := 2, ag_updated_at := 9, ag_archived_at := Some 9\<rparr>"
  have b: "mget (snd (agent_exec sample_agents_env (Archive_Agent 9 agent_ann ''p1'' 1) agents1)) ''p1'' = Some ?b" by code_simp
  with agent_changes_guarded[OF agents1_reach sample_agents_folding agents1_pilot b] show ?thesis by (auto simp: pilot_def)
qed

lemma unchanged_form_saves_witness:
  "fst (svc_update_agent sample_agents_env 9 (owner_of pilot) ''p1'' (input_of pilot) agents1) = Inr (pilot\<lparr>ag_version := 2, ag_updated_at := 9\<rparr>)"
  using unchanged_form_saves[OF agents1_reach sample_agents_folding agents1_pilot, of 9]
  by (simp add: pilot_def int64_def Let_def)

end
