(* ===== verification/Model_Service.thy ===== *)
theory Model_Service
  imports Task_Service Admin_Catalog
begin

text \<open>
  The model catalog of \<open>apps/admin-api/internal/service/admin.go\<close>: model providers with their sealed keys, the
  routes to their models, the list that users see, and the checks that the index of the user memory puts
  on both. \<open>url.Parse\<close>, the Unicode case tables and AES-GCM with its base64 text are parameters.
\<close>

section \<open>Inputs and parameters\<close>

record model_url =
  mu_scheme :: string
  mu_host :: string
  mu_hostname :: string
  mu_user :: bool
  mu_path :: string
  mu_raw_query :: string
  mu_fragment :: string

record model_env =
  me_service :: service_env
  me_url :: "string \<Rightarrow> model_url option"
  me_url_text :: "model_url \<Rightarrow> string"
  me_secret :: string
  me_seal :: "string \<Rightarrow> string \<Rightarrow> string option"
  me_open :: "string \<Rightarrow> string \<Rightarrow> string option"
  me_dimension :: int

record provider_input =
  pin_id :: string
  pin_name :: string
  pin_type :: string
  pin_base_url :: string
  pin_api_key :: "string option"
  pin_icon_type :: string
  pin_icon_slug :: string
  pin_icon_url :: string
  pin_enabled :: "bool option"
  pin_actor :: string

record model_input =
  min_alias :: string
  min_provider_id :: string
  min_real_model :: string
  min_label :: string
  min_icon_type :: string
  min_icon_slug :: string
  min_icon_url :: string
  min_enabled :: "bool option"
  min_visible :: "bool option"
  min_is_default :: bool
  min_sort_order :: int
  min_embedding_dimension :: int
  min_server_web_tools_enabled :: "bool option"
  min_actor :: string

definition if_given :: "'a option \<Rightarrow> 'a \<Rightarrow> 'a" where
  \<comment> \<open>\<open>if in != nil { v = *in }\<close>\<close>
  "if_given given old = (case given of None \<Rightarrow> old | Some v \<Rightarrow> v)"

definition trim_slashes :: "string \<Rightarrow> string" where
  "trim_slashes s = rev (dropWhile (\<lambda>c. c = CHR ''/'') (rev s))"

definition trim_prefix :: "string \<Rightarrow> string \<Rightarrow> string" where
  "trim_prefix s p = (if has_prefix s p then drop (length p) s else s)"

section \<open>Sealed keys\<close>

definition mask_api_key :: "string \<Rightarrow> string" where
  "mask_api_key key = (let key = trim_space key
     in if length key \<le> 4 then ''****'' else ''****'' @ drop (length key - 4) key)"

definition encrypt_model_secret :: "model_env \<Rightarrow> string \<Rightarrow> svc_error + string" where
  "encrypt_model_secret G plain =
     (if trim_space (me_secret G) = [] then Inl InvalidArg
      else (case me_seal G (me_secret G) plain of
              None \<Rightarrow> Inl (RemoteErr ''seal'') | Some sealed \<Rightarrow> Inr (''v1:'' @ sealed)))"

definition decrypt_model_secret :: "model_env \<Rightarrow> string \<Rightarrow> svc_error + string" where
  "decrypt_model_secret G c =
     (if trim_space (me_secret G) = [] then Inl InvalidArg
      else if trim_space c = [] then Inr []
      else (case me_open G (me_secret G) (trim_prefix (trim_space c) ''v1:'') of
              None \<Rightarrow> Inl (RemoteErr ''open'') | Some plain \<Rightarrow> Inr plain))"

definition apply_api_key :: "model_env \<Rightarrow> string option \<Rightarrow> llm_provider \<Rightarrow> svc_error + llm_provider" where
  "apply_api_key G given p =
     (case given of
        None \<Rightarrow> Inr p
      | Some k \<Rightarrow>
          (let key = trim_space k in
           if key = [] then Inr (p\<lparr>lp_api_key_ciphertext := [], lp_api_key_hint := []\<rparr>)
           else (case encrypt_model_secret G key of
                   Inl e \<Rightarrow> Inl e
                 | Inr c \<Rightarrow> Inr (p\<lparr>lp_api_key_ciphertext := c, lp_api_key_hint := mask_api_key key\<rparr>))))"

section \<open>Providers\<close>

definition valid_provider_type :: "string \<Rightarrow> bool" where
  "valid_provider_type s \<longleftrightarrow> s = ''anthropic'' \<or> s = ''openai_embeddings''"

definition hex_digit :: "char \<Rightarrow> bool" where
  "hex_digit c \<longleftrightarrow> (let b = byte c in 48 \<le> b \<and> b \<le> 57 \<or> 97 \<le> b \<and> b \<le> 102 \<or> 65 \<le> b \<and> b \<le> 70)"

definition valid_model_icon_id :: "string \<Rightarrow> bool" where
  "valid_model_icon_id s \<longleftrightarrow> length s = 64 \<and> list_all hex_digit s"

definition valid_managed_icon_url :: "string \<Rightarrow> bool" where
  "valid_managed_icon_url s \<longleftrightarrow> has_prefix s ''/api/model-icons/'' \<and> valid_model_icon_id (trim_prefix s ''/api/model-icons/'')"

definition valid_icon_config :: "string \<Rightarrow> string \<Rightarrow> string \<Rightarrow> bool" where
  "valid_icon_config ty slug url =
     (if ty = ''simple-icons'' then trim_space slug \<noteq> []
      else if ty = ''image'' then has_prefix (trim_space url) ''https://'' \<or> valid_managed_icon_url (trim_space url)
      else False)"

definition default_icon_slug :: "string \<Rightarrow> string" where
  "default_icon_slug ty = (if ty = ''anthropic'' then ''anthropic'' else ''openai'')"

definition provider_ready :: "llm_provider \<Rightarrow> bool" where
  "provider_ready p \<longleftrightarrow> \<not> (lp_enabled p \<and> (lp_base_url p = [] \<or> lp_api_key_ciphertext p = []))"

definition provider_icon_ok :: "llm_provider \<Rightarrow> bool" where
  "provider_icon_ok p = valid_icon_config (lp_icon_type p) (lp_icon_slug p) (lp_icon_url p)"

definition default_icon :: "llm_provider \<Rightarrow> llm_provider" where
  "default_icon p =
     (let p = (if lp_icon_type p = [] then p\<lparr>lp_icon_type := ''simple-icons''\<rparr> else p)
      in if lp_icon_type p = ''simple-icons'' \<and> lp_icon_slug p = [] then p\<lparr>lp_icon_slug := default_icon_slug (lp_type p)\<rparr> else p)"

definition new_provider :: "model_env \<Rightarrow> gtime \<Rightarrow> provider_input \<Rightarrow> svc_error + llm_provider" where
  "new_provider G now inp =
     (let pid = normalize_identifier (me_service G) (pin_id inp); ty = normalize_identifier (me_service G) (pin_type inp) in
      if pid = [] \<or> trim_space (pin_name inp) = [] \<or> \<not> valid_provider_type ty then Inl InvalidArg
      else (case apply_api_key G (pin_api_key inp) (default_icon \<lparr>lp_id = pid, lp_name = trim_space (pin_name inp), lp_type = ty,
                  lp_base_url = trim_space (pin_base_url inp), lp_api_key_ciphertext = [], lp_api_key_hint = [],
                  lp_icon_type = trim_space (pin_icon_type inp), lp_icon_slug = trim_space (pin_icon_slug inp),
                  lp_icon_url = trim_space (pin_icon_url inp), lp_enabled = if_given (pin_enabled inp) True,
                  lp_created_at = now, lp_updated_at = now\<rparr>) of
              Inl e \<Rightarrow> Inl e
            | Inr p \<Rightarrow> if \<not> provider_ready p \<or> \<not> provider_icon_ok p then Inl InvalidArg else Inr p))"

definition store_provider :: "llm_provider \<Rightarrow> unit admin_result \<Rightarrow> llm_provider svc_result" where
  "store_provider p r = (case r of (Inl e, m) \<Rightarrow> (Inl (StoreErr e), m) | (Inr _, m) \<Rightarrow> (Inr p, m))"

definition svc_create_provider :: "model_env \<Rightarrow> gtime \<Rightarrow> provider_input \<Rightarrow> admin_memory \<Rightarrow> llm_provider svc_result" where
  "svc_create_provider G now inp m =
     (case new_provider G now inp of Inl e \<Rightarrow> (Inl e, m) | Inr p \<Rightarrow> store_provider p (create_llm_provider p m))"

text \<open>The index of the user memory was filled by one model at one address: both are fixed until a reset.\<close>

definition locked_provider_moves :: "llm_provider \<Rightarrow> admin_memory \<Rightarrow> bool" where
  "locked_provider_moves p m =
     (case get_memory_index_lock m of
        Inl _ \<Rightarrow> False
      | Inr l \<Rightarrow> ml_provider_id l = lp_id p \<and> ml_base_url l \<noteq> trim_slashes (trim_space (lp_base_url p)))"

definition set_provider_type :: "model_env \<Rightarrow> string \<Rightarrow> admin_memory \<Rightarrow> llm_provider \<Rightarrow> svc_error + llm_provider" where
  "set_provider_type G given m p =
     (if given = [] then Inr p
      else (let ty = normalize_identifier (me_service G) given in
            if \<not> valid_provider_type ty then Inl InvalidArg
            else if ty \<noteq> lp_type p \<and> list_ex (\<lambda>r. lr_provider_id r = lp_id p) (list_llm_model_routes m) then Inl (StoreErr StoreConflict)
            else Inr (p\<lparr>lp_type := ty\<rparr>)))"

definition set_provider_fields :: "provider_input \<Rightarrow> llm_provider \<Rightarrow> llm_provider" where
  "set_provider_fields inp p =
     (let p = (if pin_base_url inp \<noteq> [] then p\<lparr>lp_base_url := trim_space (pin_base_url inp)\<rparr> else p);
          p = (if lp_icon_type p = [] then p\<lparr>lp_icon_type := ''simple-icons'', lp_icon_slug := default_icon_slug (lp_type p)\<rparr> else p);
          p = (if pin_icon_type inp \<noteq> [] then p\<lparr>lp_icon_type := trim_space (pin_icon_type inp),
                 lp_icon_slug := trim_space (pin_icon_slug inp), lp_icon_url := trim_space (pin_icon_url inp)\<rparr> else p)
      in p\<lparr>lp_enabled := if_given (pin_enabled inp) (lp_enabled p)\<rparr>)"

definition plan_provider :: "model_env \<Rightarrow> gtime \<Rightarrow> string \<Rightarrow> provider_input \<Rightarrow> admin_memory \<Rightarrow> svc_error + llm_provider" where
  "plan_provider G now pid inp m =
     (case get_llm_provider (normalize_identifier (me_service G) pid) m of
        Inl e \<Rightarrow> Inl (StoreErr e)
      | Inr p \<Rightarrow>
          (let p = (if trim_space (pin_name inp) \<noteq> [] then p\<lparr>lp_name := trim_space (pin_name inp)\<rparr> else p) in
           case set_provider_type G (pin_type inp) m p of
             Inl e \<Rightarrow> Inl e
           | Inr p \<Rightarrow>
               (case apply_api_key G (pin_api_key inp) (set_provider_fields inp p) of
                  Inl e \<Rightarrow> Inl e
                | Inr p \<Rightarrow>
                    if \<not> provider_ready p \<or> \<not> provider_icon_ok p \<or> locked_provider_moves p m then Inl InvalidArg
                    else Inr (p\<lparr>lp_updated_at := now\<rparr>))))"

definition svc_update_provider :: "model_env \<Rightarrow> gtime \<Rightarrow> string \<Rightarrow> provider_input \<Rightarrow> admin_memory \<Rightarrow> llm_provider svc_result" where
  "svc_update_provider G now pid inp m =
     (case plan_provider G now pid inp m of Inl e \<Rightarrow> (Inl e, m) | Inr p \<Rightarrow> store_provider p (update_llm_provider p m))"

definition svc_delete_provider :: "model_env \<Rightarrow> string \<Rightarrow> admin_memory \<Rightarrow> unit svc_result" where
  "svc_delete_provider G pid m =
     (let pid = normalize_identifier (me_service G) pid in
      case get_memory_index_lock m of
        Inr l \<Rightarrow> if ml_provider_id l = pid then (Inl InvalidArg, m) else store_answer (delete_llm_provider pid m)
      | Inl _ \<Rightarrow> store_answer (delete_llm_provider pid m))"

section \<open>Routes\<close>

definition model_protocol :: "string \<Rightarrow> string" where
  "model_protocol ty = (if ty = ''openai_embeddings'' then ''openai-embeddings'' else ''anthropic-messages'')"

definition reasoning_efforts_for :: "string \<Rightarrow> string list" where
  "reasoning_efforts_for protocol = (if protocol = ''anthropic-messages'' then [''low'', ''medium'', ''high'', ''xhigh'', ''max''] else [])"

definition official_anthropic :: "model_env \<Rightarrow> string \<Rightarrow> bool" where
  "official_anthropic G raw =
     (case me_url G (trim_space raw) of
        None \<Rightarrow> False
      | Some u \<Rightarrow> fold_eq (mu_scheme u) ''https'' \<and> fold_eq (mu_hostname u) ''api.anthropic.com'')"

definition blank_route :: llm_model_route where
  "blank_route = \<lparr>lr_id = [], lr_alias = [], lr_provider_id = [], lr_protocol = [], lr_real_model = [], lr_label = [],
     lr_icon_type = [], lr_icon_slug = [], lr_icon_url = [], lr_enabled = False, lr_visible = False, lr_is_default = False,
     lr_sort_order = 0, lr_embedding_dimension = 0, lr_reasoning_efforts = [], lr_server_web_tools_enabled = False,
     lr_created_at = 0, lr_updated_at = 0\<rparr>"

definition set_if :: "bool \<Rightarrow> string \<Rightarrow> string \<Rightarrow> string" where
  \<comment> \<open>\<open>if in != "" || create { v = strings.TrimSpace(in) }\<close>\<close>
  "set_if create given old = (if given \<noteq> [] \<or> create then trim_space given else old)"

text \<open>The form over the stored route, or over an empty one; the default flag and the order are always taken from the form.\<close>

definition fill_route :: "model_env \<Rightarrow> gtime \<Rightarrow> model_input \<Rightarrow> bool \<Rightarrow> llm_model_route \<Rightarrow> llm_model_route" where
  "fill_route G now inp create r =
     (let label = set_if create (min_label inp) (lr_label r)
      in r\<lparr>lr_provider_id := (if min_provider_id inp \<noteq> [] \<or> create
             then normalize_identifier (me_service G) (min_provider_id inp) else lr_provider_id r),
           lr_real_model := set_if create (min_real_model inp) (lr_real_model r),
           lr_label := (if label = [] then lr_alias r else label),
           lr_icon_type := set_if create (min_icon_type inp) (lr_icon_type r),
           lr_icon_slug := set_if create (min_icon_slug inp) (lr_icon_slug r),
           lr_icon_url := set_if create (min_icon_url inp) (lr_icon_url r),
           lr_enabled := if_given (min_enabled inp) (lr_enabled r),
           lr_visible := if_given (min_visible inp) (lr_visible r),
           lr_server_web_tools_enabled := if_given (min_server_web_tools_enabled inp) (lr_server_web_tools_enabled r),
           lr_is_default := min_is_default inp,
           lr_sort_order := min_sort_order inp,
           lr_embedding_dimension := (if min_embedding_dimension inp \<noteq> 0 \<or> create
             then min_embedding_dimension inp else lr_embedding_dimension r),
           lr_updated_at := now\<rparr>)"

definition route_from_input ::
  "model_env \<Rightarrow> gtime \<times> gtime \<Rightarrow> string \<Rightarrow> llm_model_route \<Rightarrow> model_input \<Rightarrow> bool \<Rightarrow> svc_error + llm_model_route" where
  "route_from_input G clock new_id old inp create =
     (let r = (if create then old\<lparr>lr_id := new_id, lr_alias := normalize_identifier (me_service G) (min_alias inp), lr_enabled := True,
                 lr_visible := True, lr_icon_type := ''simple-icons'', lr_created_at := fst clock, lr_updated_at := fst clock\<rparr> else old)
      in if lr_id r = [] \<or> lr_alias r = [] then Inl InvalidArg
         else (let r = fill_route G (snd clock) inp create r in
               if lr_provider_id r = [] \<or> lr_real_model r = [] \<or> \<not> valid_icon_config (lr_icon_type r) (lr_icon_slug r) (lr_icon_url r)
               then Inl InvalidArg
               else if lr_is_default r \<and> (\<not> lr_enabled r \<or> \<not> lr_visible r) then Inl InvalidArg
               else Inr r))"

definition locked_route_moves :: "llm_model_route \<Rightarrow> admin_memory \<Rightarrow> bool" where
  "locked_route_moves r m =
     (case get_memory_index_lock m of
        Inl _ \<Rightarrow> False
      | Inr l \<Rightarrow> ml_route_id l = lr_id r \<and> (ml_provider_id l \<noteq> lr_provider_id r \<or> ml_model l \<noteq> trim_space (lr_real_model r) \<or>
          ml_dimension l \<noteq> lr_embedding_dimension r))"

text \<open>What the protocol of the provider forces on a route.\<close>

definition fit_protocol :: "string \<Rightarrow> llm_model_route \<Rightarrow> svc_error + llm_model_route" where
  "fit_protocol protocol r =
     (let r = r\<lparr>lr_protocol := protocol, lr_reasoning_efforts := reasoning_efforts_for protocol\<rparr> in
      if protocol = ''openai-embeddings''
      then (if lr_embedding_dimension r \<le> 0 then Inl InvalidArg
            else Inr (r\<lparr>lr_visible := False, lr_is_default := False, lr_server_web_tools_enabled := False\<rparr>))
      else Inr (r\<lparr>lr_embedding_dimension := 0\<rparr>))"

definition default_web_tools :: "model_env \<Rightarrow> model_input \<Rightarrow> llm_provider \<Rightarrow> llm_model_route \<Rightarrow> llm_model_route" where
  "default_web_tools G inp p r =
     (if min_server_web_tools_enabled inp = None
      then r\<lparr>lr_server_web_tools_enabled := model_protocol (lp_type p) = ''anthropic-messages'' \<and> official_anthropic G (lp_base_url p)\<rparr>
      else r)"

definition plan_new_model :: "model_env \<Rightarrow> gtime \<times> gtime \<Rightarrow> string \<Rightarrow> model_input \<Rightarrow> admin_memory \<Rightarrow> svc_error + llm_model_route" where
  "plan_new_model G clock new_id inp m =
     (case route_from_input G clock new_id blank_route inp True of
        Inl e \<Rightarrow> Inl e
      | Inr r \<Rightarrow>
          (case get_llm_provider (lr_provider_id r) m of
             Inl e \<Rightarrow> Inl (StoreErr e)
           | Inr p \<Rightarrow>
               (case fit_protocol (model_protocol (lp_type p)) (default_web_tools G inp p r) of
                  Inl e \<Rightarrow> Inl e
                | Inr r \<Rightarrow> if locked_route_moves r m then Inl InvalidArg else Inr r)))"

definition store_route :: "llm_model_route \<Rightarrow> unit admin_result \<Rightarrow> llm_model_route svc_result" where
  "store_route r s = (case s of (Inl e, m) \<Rightarrow> (Inl (StoreErr e), m) | (Inr _, m) \<Rightarrow> (Inr r, m))"

definition svc_create_model :: "model_env \<Rightarrow> gtime \<times> gtime \<Rightarrow> string \<Rightarrow> model_input \<Rightarrow> admin_memory \<Rightarrow> llm_model_route svc_result" where
  "svc_create_model G clock new_id inp m =
     (case plan_new_model G clock new_id inp m of Inl e \<Rightarrow> (Inl e, m) | Inr r \<Rightarrow> store_route r (create_llm_model_route r m))"

definition plan_model :: "model_env \<Rightarrow> gtime \<Rightarrow> string \<Rightarrow> model_input \<Rightarrow> admin_memory \<Rightarrow> svc_error + llm_model_route" where
  "plan_model G now rid inp m =
     (case get_llm_model_route (normalize_identifier (me_service G) rid) m of
        Inl e \<Rightarrow> Inl (StoreErr e)
      | Inr old \<Rightarrow>
          (case route_from_input G (0, now) [] old inp False of
             Inl e \<Rightarrow> Inl e
           | Inr r \<Rightarrow>
               (case get_llm_provider (lr_provider_id r) m of
                  Inl e \<Rightarrow> Inl (StoreErr e)
                | Inr p \<Rightarrow>
                    if lr_protocol old \<noteq> [] \<and> lr_protocol old \<noteq> model_protocol (lp_type p) then Inl (StoreErr StoreConflict)
                    else (case fit_protocol (model_protocol (lp_type p)) r of
                            Inl e \<Rightarrow> Inl e
                          | Inr r \<Rightarrow> if locked_route_moves r m then Inl InvalidArg else Inr r))))"

definition svc_update_model :: "model_env \<Rightarrow> gtime \<Rightarrow> string \<Rightarrow> model_input \<Rightarrow> admin_memory \<Rightarrow> llm_model_route svc_result" where
  "svc_update_model G now rid inp m =
     (case plan_model G now rid inp m of Inl e \<Rightarrow> (Inl e, m) | Inr r \<Rightarrow> store_route r (update_llm_model_route r m))"

text \<open>With its last route the provider of an embedding model goes too.\<close>

definition drop_unused_provider :: "llm_model_route \<Rightarrow> admin_memory \<Rightarrow> admin_memory" where
  "drop_unused_provider r m =
     (if lr_protocol r = ''openai-embeddings'' \<and> \<not> list_ex (\<lambda>c. lr_provider_id c = lr_provider_id r) (list_llm_model_routes m)
      then snd (delete_llm_provider (lr_provider_id r) m) else m)"

definition remove_model :: "string \<Rightarrow> admin_memory \<Rightarrow> unit svc_result" where
  "remove_model rid m =
     (case get_llm_model_route rid m of
        Inl e \<Rightarrow> (Inl (StoreErr e), m)
      | Inr r \<Rightarrow>
          (case delete_llm_model_route rid m of
             (Inl e, m) \<Rightarrow> (Inl (StoreErr e), m)
           | (Inr _, m) \<Rightarrow> (Inr (), drop_unused_provider r m)))"

definition svc_delete_model :: "model_env \<Rightarrow> string \<Rightarrow> admin_memory \<Rightarrow> unit svc_result" where
  "svc_delete_model G rid m =
     (let rid = normalize_identifier (me_service G) rid in
      case get_memory_index_lock m of
        Inr l \<Rightarrow> if ml_route_id l = rid then (Inl InvalidArg, m) else remove_model rid m
      | Inl _ \<Rightarrow> remove_model rid m)"

definition svc_set_default_model :: "model_env \<Rightarrow> gtime \<Rightarrow> string \<Rightarrow> admin_memory \<Rightarrow> llm_model_route svc_result" where
  "svc_set_default_model G now rid m =
     (case get_llm_model_route (normalize_identifier (me_service G) rid) m of
        Inl e \<Rightarrow> (Inl (StoreErr e), m)
      | Inr r \<Rightarrow>
          if \<not> lr_enabled r \<or> \<not> lr_visible r then (Inl InvalidArg, m)
          else (let r = r\<lparr>lr_is_default := True, lr_updated_at := now\<rparr> in store_route r (update_llm_model_route r m)))"

section \<open>What users see\<close>

record model_icon =
  mic_type :: string
  mic_slug :: string
  mic_src :: string

record public_model =
  pm_id :: string
  pm_alias :: string
  pm_label :: string
  pm_provider :: string
  pm_family :: string
  pm_icon_slug :: string
  pm_icon :: model_icon
  pm_protocols :: "string list"
  pm_reasoning_efforts :: "string list"
  pm_is_default :: bool

definition public_model_slug :: "model_env \<Rightarrow> string \<Rightarrow> string" where
  "public_model_slug G s = map (\<lambda>c. if c = CHR ''_'' \<or> c = CHR '' '' then CHR ''-'' else c) (normalize_identifier (me_service G) s)"

definition model_families :: "(string \<times> string) list" where
  "model_families = [(''deepseek'', ''deepseek''), (''claude'', ''claude''), (''anthropic'', ''anthropic''), (''gemini'', ''gemini''),
     (''google'', ''google''), (''qwen'', ''qwen''), (''tongyi'', ''qwen''), (''dashscope'', ''qwen''), (''bailian'', ''qwen''),
     (''doubao'', ''doubao''), (''volc'', ''bytedance''), (''bytedance'', ''bytedance''), (''mistral'', ''mistral''), (''grok'', ''grok''),
     (''xai'', ''xai''), (''moonshot'', ''moonshot''), (''kimi'', ''moonshot''), (''gpt'', ''openai''), (''openai'', ''openai'')]"

definition model_family :: "model_env \<Rightarrow> llm_model_route \<Rightarrow> string" where
  "model_family G r =
     (let hay = public_model_slug G (lr_alias r @ '' '' @ lr_real_model r @ '' '' @ lr_label r @ '' '' @ lr_icon_slug r @ '' '' @ lr_provider_id r)
      in case find (\<lambda>(word, _). str_contains hay word) model_families of
           Some (_, family) \<Rightarrow> family | None \<Rightarrow> public_model_slug G (lr_provider_id r))"

definition public_model_of :: "model_env \<Rightarrow> llm_model_route \<Rightarrow> string \<Rightarrow> public_model" where
  "public_model_of G r ty =
     (let provider = public_model_slug G (lr_provider_id r); family = model_family G r;
          slug = public_model_slug G (lr_icon_slug r);
          slug = (if slug = [] then family else slug);
          slug = (if slug = [] then provider else slug)
      in \<lparr>pm_id = lr_id r, pm_alias = lr_alias r, pm_label = lr_label r, pm_provider = provider, pm_family = family, pm_icon_slug = slug,
          pm_icon = (if lr_icon_type r = ''image'' then \<lparr>mic_type = lr_icon_type r, mic_slug = [], mic_src = lr_icon_url r\<rparr>
                     else \<lparr>mic_type = lr_icon_type r, mic_slug = slug, mic_src = []\<rparr>),
          pm_protocols = [model_protocol ty], pm_reasoning_efforts = lr_reasoning_efforts r, pm_is_default = lr_is_default r\<rparr>)"

definition public_entry :: "model_env \<Rightarrow> llm_provider list \<Rightarrow> llm_model_route \<Rightarrow> public_model option" where
  "public_entry G ps r =
     (case find (\<lambda>p. lp_enabled p \<and> lp_id p = lr_provider_id r) ps of
        None \<Rightarrow> None
      | Some p \<Rightarrow> if \<not> lr_enabled r \<or> \<not> lr_visible r \<or> lr_protocol r = ''openai-embeddings'' then None
                  else Some (public_model_of G r (lp_type p)))"

definition list_public_models :: "model_env \<Rightarrow> admin_memory \<Rightarrow> public_model list" where
  "list_public_models G m = List.map_filter (public_entry G (list_llm_providers m)) (list_llm_model_routes m)"

end
