(* ===== verification/Memory_Service.thy ===== *)
theory Memory_Service
  imports Model_Service
begin

text \<open>
  The user memory in \<open>apps/admin-api/internal/service/admin.go\<close>: its switch with the two selected models, the
  hidden embedding models, and the reset that empties its index. What the network answers is an argument:
  the reply of an embedding endpoint, whether a generation endpoint and OpenViking answer, and which accounts
  OpenViking deletes. A view leaves out the version text of OpenViking and the counters of the queue, which the
  in-process store does not have. Turning the memory on is a plan over what is read and a write, run back to back.
\<close>

section \<open>Probes\<close>

text \<open>
  A vector in a reply is, per element, whether it is finite; \<open>None\<close> is a body that does not decode;
  \<open>NoRequest\<close> is an address that \<open>http.NewRequest\<close> refuses.
\<close>

datatype embedding_reply = NoRequest | ReplyTimeout | ReplyUnreachable | Reply int "bool list list option"

record embedding_test =
  et_ok :: bool
  et_latency_ms :: int
  et_dimension :: int
  et_error_code :: string

record probe_net =
  pn_embed :: "string \<Rightarrow> string \<Rightarrow> string \<Rightarrow> embedding_reply"
  pn_latency :: int
  pn_generate :: "string \<Rightarrow> string \<Rightarrow> string \<Rightarrow> bool"
  pn_viking :: bool

definition embedding_http_error :: "int \<Rightarrow> string" where
  "embedding_http_error status =
     (if status = 401 \<or> status = 403 then ''authentication_failed'' else if status = 404 then ''endpoint_not_found''
      else if status = 429 then ''rate_limited'' else ''provider_rejected'')"

definition probe_failure :: "string \<Rightarrow> int \<Rightarrow> embedding_test" where
  "probe_failure code latency = \<lparr>et_ok = False, et_latency_ms = latency, et_dimension = 0, et_error_code = code\<rparr>"

definition embedding_outcome :: "int \<Rightarrow> embedding_reply \<Rightarrow> svc_error + embedding_test" where
  "embedding_outcome latency reply =
     (case reply of
        NoRequest \<Rightarrow> Inl InvalidArg
      | ReplyTimeout \<Rightarrow> Inr (probe_failure ''timeout'' latency)
      | ReplyUnreachable \<Rightarrow> Inr (probe_failure ''transport_error'' latency)
      | Reply status body \<Rightarrow> Inr
          (if status < 200 \<or> status \<ge> 300 then probe_failure (embedding_http_error status) latency
           else (case body of
                   Some (v # vs) \<Rightarrow>
                     if v = [] \<or> \<not> list_all id v then probe_failure ''invalid_response'' latency
                     else \<lparr>et_ok = True, et_latency_ms = latency, et_dimension = int (length v), et_error_code = []\<rparr>
                 | _ \<Rightarrow> probe_failure ''invalid_response'' latency)))"

definition probe_embedding :: "model_env \<Rightarrow> probe_net \<Rightarrow> string \<Rightarrow> llm_provider \<Rightarrow> svc_error + embedding_test" where
  "probe_embedding G X model p =
     (let model = trim_space model in
      if model = [] \<or> trim_space (lp_base_url p) = [] \<or> lp_api_key_ciphertext p = [] then Inl InvalidArg
      else (case decrypt_model_secret G (lp_api_key_ciphertext p) of
              Inl _ \<Rightarrow> Inl InvalidArg
            | Inr key \<Rightarrow> embedding_outcome (pn_latency X)
                (pn_embed X (trim_slashes (lp_base_url p) @ ''/embeddings'') model key)))"

definition generation_endpoint :: "model_env \<Rightarrow> string \<Rightarrow> string option" where
  "generation_endpoint G base =
     (case me_url G base of
        None \<Rightarrow> None
      | Some u \<Rightarrow> if mu_scheme u = [] \<or> mu_host u = [] then None
          else Some (me_url_text G (u\<lparr>mu_path := ''/v1/messages'', mu_raw_query := [], mu_fragment := []\<rparr>)))"

definition probe_extraction :: "model_env \<Rightarrow> probe_net \<Rightarrow> llm_model_route \<Rightarrow> llm_provider \<Rightarrow> bool" where
  "probe_extraction G X r p \<longleftrightarrow>
     trim_space (lr_real_model r) \<noteq> [] \<and> trim_space (lp_base_url p) \<noteq> [] \<and> lp_api_key_ciphertext p \<noteq> [] \<and>
     (case decrypt_model_secret G (lp_api_key_ciphertext p) of
        Inl _ \<Rightarrow> False
      | Inr key \<Rightarrow> lp_type p = ''anthropic'' \<and>
          (case generation_endpoint G (lp_base_url p) of None \<Rightarrow> False | Some url \<Rightarrow> pn_generate X url (lr_real_model r) key))"

section \<open>Embedding models\<close>

record embedding_input =
  ein_model :: string
  ein_base_url :: string
  ein_api_key :: "string option"
  ein_actor :: string

definition ends_in :: "string \<Rightarrow> string \<Rightarrow> bool" where
  "ends_in s p = has_prefix (rev s) (rev p)"

definition normalize_embedding_url :: "model_env \<Rightarrow> string \<Rightarrow> svc_error + string" where
  "normalize_embedding_url G raw =
     (let value = trim_slashes (trim_space raw) in
      if value = [] then Inr []
      else (case me_url G value of
              None \<Rightarrow> Inl InvalidArg
            | Some u \<Rightarrow>
                if mu_scheme u \<noteq> ''http'' \<and> mu_scheme u \<noteq> ''https'' \<or> mu_host u = [] \<or> mu_user u \<or> mu_raw_query u \<noteq> [] \<or> mu_fragment u \<noteq> []
                then Inl InvalidArg
                else (let path = (if ends_in (mu_path u) ''/embeddings'' then take (length (mu_path u) - 11) (mu_path u) else mu_path u)
                      in Inr (trim_slashes (me_url_text G (u\<lparr>mu_path := trim_slashes path\<rparr>))))))"

text \<open>The endpoint and key to test: those of the form over those of the stored model, if one is named.\<close>

definition test_provider :: "admin_memory \<Rightarrow> string \<Rightarrow> svc_error + string \<times> llm_provider" where
  "test_provider m rid =
     (if rid = [] then Inr ([], \<lparr>lp_id = [], lp_name = [], lp_type = ''openai_embeddings'', lp_base_url = [], lp_api_key_ciphertext = [],
          lp_api_key_hint = [], lp_icon_type = [], lp_icon_slug = [], lp_icon_url = [], lp_enabled = True, lp_created_at = 0, lp_updated_at = 0\<rparr>)
      else (case get_llm_model_route rid m of
              Inl e \<Rightarrow> Inl (StoreErr e)
            | Inr r \<Rightarrow>
                if lr_protocol r \<noteq> ''openai-embeddings'' then Inl InvalidArg
                else (case get_llm_provider (lr_provider_id r) m of Inl e \<Rightarrow> Inl (StoreErr e) | Inr p \<Rightarrow> Inr (lr_real_model r, p))))"

definition svc_test_embedding ::
  "model_env \<Rightarrow> probe_net \<Rightarrow> string \<Rightarrow> embedding_input \<Rightarrow> admin_memory \<Rightarrow> svc_error + embedding_test" where
  "svc_test_embedding G X rid inp m =
     (case test_provider m (trim_space rid) of
        Inl e \<Rightarrow> Inl e
      | Inr (known, p) \<Rightarrow>
          (case (if trim_space (ein_base_url inp) \<noteq> [] then normalize_embedding_url G (ein_base_url inp) else Inr (lp_base_url p)) of
             Inl e \<Rightarrow> Inl e
           | Inr base \<Rightarrow>
               (case apply_api_key G (ein_api_key inp) (p\<lparr>lp_base_url := base\<rparr>) of
                  Inl e \<Rightarrow> Inl e
                | Inr p \<Rightarrow> probe_embedding G X (if trim_space (ein_model inp) = [] then known else trim_space (ein_model inp)) p)))"

definition new_embedding_provider :: "gtime \<Rightarrow> string \<Rightarrow> string \<Rightarrow> string \<Rightarrow> llm_provider" where
  "new_embedding_provider now pid model base = \<lparr>lp_id = ''embedding-'' @ pid, lp_name = model, lp_type = ''openai_embeddings'',
     lp_base_url = base, lp_api_key_ciphertext = [], lp_api_key_hint = [], lp_icon_type = ''simple-icons'', lp_icon_slug = ''openai'',
     lp_icon_url = [], lp_enabled = True, lp_created_at = now, lp_updated_at = now\<rparr>"

definition new_embedding_route :: "model_env \<Rightarrow> gtime \<Rightarrow> string \<Rightarrow> string \<Rightarrow> llm_provider \<Rightarrow> int \<Rightarrow> llm_model_route" where
  "new_embedding_route G now rid model p dimension =
     (let alias = normalize_identifier (me_service G) model
      in blank_route\<lparr>lr_id := ''embedding-'' @ rid, lr_alias := (if alias = [] then ''embedding'' else alias), lr_provider_id := lp_id p,
           lr_protocol := ''openai-embeddings'', lr_real_model := model, lr_label := model, lr_icon_type := ''simple-icons'',
           lr_icon_slug := ''openai'', lr_enabled := True, lr_embedding_dimension := dimension, lr_created_at := now, lr_updated_at := now\<rparr>)"

text \<open>The two rows are two writes: a route that is refused takes its provider away again.\<close>

definition store_embedding :: "llm_provider \<Rightarrow> llm_model_route \<Rightarrow> admin_memory \<Rightarrow> (llm_model_route \<times> llm_provider) svc_result" where
  "store_embedding p r m =
     (case create_llm_provider p m of
        (Inl e, m) \<Rightarrow> (Inl (StoreErr e), m)
      | (Inr _, m) \<Rightarrow>
          (case create_llm_model_route r m of
             (Inl e, m) \<Rightarrow> (Inl (StoreErr e), snd (delete_llm_provider (lp_id p) m))
           | (Inr _, m) \<Rightarrow> (Inr (r, p), m)))"

definition svc_create_embedding ::
  "model_env \<Rightarrow> probe_net \<Rightarrow> gtime \<Rightarrow> string \<times> string \<Rightarrow> embedding_input \<Rightarrow> admin_memory \<Rightarrow> (llm_model_route \<times> llm_provider) svc_result" where
  "svc_create_embedding G X now ids inp m =
     (let model = trim_space (ein_model inp) in
      case normalize_embedding_url G (ein_base_url inp) of
        Inl e \<Rightarrow> (Inl e, m)
      | Inr base \<Rightarrow>
          (case apply_api_key G (ein_api_key inp) (new_embedding_provider now (fst ids) model base) of
             Inl e \<Rightarrow> (Inl e, m)
           | Inr p \<Rightarrow>
               if model = [] \<or> trim_space (if_given (ein_api_key inp) []) = [] then (Inl InvalidArg, m)
               else (case probe_embedding G X model p of
                       Inl e \<Rightarrow> (Inl e, m)
                     | Inr t \<Rightarrow> if \<not> et_ok t then (Inl InvalidArg, m)
                         else store_embedding p (new_embedding_route G now (snd ids) model p (et_dimension t)) m)))"

definition embedding_edit :: "model_env \<Rightarrow> gtime \<Rightarrow> string \<Rightarrow> int \<Rightarrow> llm_model_route \<Rightarrow> llm_model_route" where
  "embedding_edit G now model dimension r = r\<lparr>lr_real_model := model, lr_label := model,
     lr_alias := normalize_identifier (me_service G) model, lr_enabled := True, lr_visible := False, lr_is_default := False,
     lr_embedding_dimension := dimension, lr_updated_at := now\<rparr>"

text \<open>The provider and the route of an embedding model as the form wants them, once the endpoint has answered.\<close>

definition plan_embedding ::
  "model_env \<Rightarrow> probe_net \<Rightarrow> gtime \<times> gtime \<Rightarrow> embedding_input \<Rightarrow> llm_model_route \<Rightarrow> llm_provider \<Rightarrow> admin_memory \<Rightarrow>
     svc_error + llm_model_route \<times> llm_provider" where
  "plan_embedding G X clock inp r p m =
     (let model = trim_space (ein_model inp) in
      if model = [] \<or> trim_space (ein_base_url inp) = [] then Inl InvalidArg
      else (case normalize_embedding_url G (ein_base_url inp) of
              Inl e \<Rightarrow> Inl e
            | Inr base \<Rightarrow>
                (case apply_api_key G (ein_api_key inp) (p\<lparr>lp_base_url := base\<rparr>) of
                   Inl e \<Rightarrow> Inl e
                 | Inr p \<Rightarrow>
                     (let p = p\<lparr>lp_name := model, lp_enabled := True, lp_updated_at := fst clock\<rparr> in
                      if locked_provider_moves p m \<or> locked_route_moves (r\<lparr>lr_real_model := model\<rparr>) m then Inl InvalidArg
                      else (case probe_embedding G X model p of
                              Inl e \<Rightarrow> Inl e
                            | Inr t \<Rightarrow>
                                (let r = embedding_edit G (snd clock) model (et_dimension t) r in
                                 if \<not> et_ok t \<or> locked_route_moves r m then Inl InvalidArg else Inr (r, p)))))))"

definition write_embedding ::
  "llm_provider \<Rightarrow> llm_model_route \<times> llm_provider \<Rightarrow> admin_memory \<Rightarrow> (llm_model_route \<times> llm_provider) svc_result" where
  "write_embedding old rp m =
     (case update_llm_provider (snd rp) m of
        (Inl e, m) \<Rightarrow> (Inl (StoreErr e), m)
      | (Inr _, m) \<Rightarrow>
          (case update_llm_model_route (fst rp) m of
             (Inl e, m) \<Rightarrow> (Inl (StoreErr e), snd (update_llm_provider old m))
           | (Inr _, m) \<Rightarrow> (Inr rp, m)))"

definition svc_update_embedding ::
  "model_env \<Rightarrow> probe_net \<Rightarrow> gtime \<times> gtime \<Rightarrow> string \<Rightarrow> embedding_input \<Rightarrow> admin_memory \<Rightarrow> (llm_model_route \<times> llm_provider) svc_result" where
  "svc_update_embedding G X clock rid inp m =
     (case get_llm_model_route (normalize_identifier (me_service G) rid) m of
        Inl e \<Rightarrow> (Inl (StoreErr e), m)
      | Inr r \<Rightarrow>
          if lr_protocol r \<noteq> ''openai-embeddings'' then (Inl InvalidArg, m)
          else (case get_llm_provider (lr_provider_id r) m of
                  Inl e \<Rightarrow> (Inl (StoreErr e), m)
                | Inr p \<Rightarrow>
                    (case plan_embedding G X clock inp r p m of Inl e \<Rightarrow> (Inl e, m) | Inr rp \<Rightarrow> write_embedding p rp m)))"

section \<open>The switch\<close>

record memory_view =
  mv_config :: memory_config
  mv_status :: string
  mv_can_enable :: bool
  mv_dimension :: int
  mv_viking_status :: string
  mv_extraction_status :: string
  mv_embedding_status :: string
  mv_error :: string

definition incomplete_view :: "memory_view \<Rightarrow> bool \<Rightarrow> string \<Rightarrow> memory_view" where
  "incomplete_view v enabled message = v\<lparr>mv_status := (if enabled then ''degraded'' else ''incomplete''), mv_can_enable := False,
     mv_error := message\<rparr>"

definition blank_view :: "model_env \<Rightarrow> memory_config \<Rightarrow> memory_view" where
  "blank_view G c = \<lparr>mv_config = c, mv_status = ''disabled'', mv_can_enable = False, mv_dimension = me_dimension G,
     mv_viking_status = ''not_checked'', mv_extraction_status = ''not_configured'', mv_embedding_status = ''not_configured'', mv_error = []\<rparr>"

text \<open>The state of the two models, once all four rows are there.\<close>

definition models_view ::
  "model_env \<Rightarrow> bool \<Rightarrow> bool \<Rightarrow> llm_model_route \<times> llm_provider \<Rightarrow> llm_model_route \<times> llm_provider \<Rightarrow> memory_view \<Rightarrow> memory_view" where
  "models_view G on viking x e v =
     (if lr_protocol (fst x) \<noteq> ''anthropic-messages'' \<or> \<not> lr_enabled (fst x) \<or> \<not> lp_enabled (snd x)
      then incomplete_view v on ''extraction model is not an enabled generation route''
      else (let v = v\<lparr>mv_extraction_status := ''ready''\<rparr> in
            if lr_protocol (fst e) \<noteq> ''openai-embeddings'' \<or> \<not> lr_enabled (fst e) \<or> \<not> lp_enabled (snd e)
            then incomplete_view v on ''embedding model is not an enabled embedding route''
            else if lr_embedding_dimension (fst e) \<noteq> me_dimension G
            then incomplete_view v on ''embedding model dimension does not match the memory index''
            else (let v = v\<lparr>mv_embedding_status := ''ready'', mv_can_enable := True, mv_status := (if on then ''ready'' else mv_status v)\<rparr> in
                  if viking then v\<lparr>mv_viking_status := ''ready''\<rparr> else v)))"

definition memory_view_of :: "model_env \<Rightarrow> memory_config \<Rightarrow> admin_memory \<Rightarrow> memory_view" where
  "memory_view_of G c m =
     (let v = blank_view G c; on = mg_enabled c in
      if mg_resetting c then v\<lparr>mv_status := ''incomplete'', mv_error := ''Memory reset is in progress''\<rparr>
      else if \<not> on \<and> mg_extraction_model_route_id c = [] \<and> mg_embedding_model_route_id c = [] then v
      else if mg_extraction_model_route_id c = [] \<or> mg_embedding_model_route_id c = [] \<or> me_dimension G \<le> 0
      then v\<lparr>mv_status := (if on then ''degraded'' else ''incomplete''), mv_error := ''select extraction and embedding models''\<rparr>
      else (case get_llm_model_route (mg_extraction_model_route_id c) m of
              Inl _ \<Rightarrow> incomplete_view v on ''selected extraction model is unavailable''
            | Inr x \<Rightarrow>
                (case get_llm_model_route (mg_embedding_model_route_id c) m of
                   Inl _ \<Rightarrow> incomplete_view v on ''selected embedding model is unavailable''
                 | Inr e \<Rightarrow>
                     (case get_llm_provider (lr_provider_id x) m of
                        Inl _ \<Rightarrow> incomplete_view v on ''selected extraction provider is unavailable''
                      | Inr xp \<Rightarrow>
                          (case get_llm_provider (lr_provider_id e) m of
                             Inl _ \<Rightarrow> incomplete_view v on ''selected embedding provider is unavailable''
                           | Inr ep \<Rightarrow> models_view G on False (x, xp) (e, ep) v)))))"

definition get_memory_view :: "model_env \<Rightarrow> admin_memory \<Rightarrow> memory_view" where
  "get_memory_view G m = memory_view_of G (get_memory_config m) m"

definition index_lock_of :: "string \<Rightarrow> admin_memory \<Rightarrow> svc_error + memory_index_lock" where
  "index_lock_of rid m =
     (case get_llm_model_route rid m of
        Inl e \<Rightarrow> Inl (StoreErr e)
      | Inr r \<Rightarrow>
          (case get_llm_provider (lr_provider_id r) m of
             Inl e \<Rightarrow> Inl (StoreErr e)
           | Inr p \<Rightarrow> Inr \<lparr>ml_route_id = lr_id r, ml_provider_id = lr_provider_id r, ml_model = trim_space (lr_real_model r),
                ml_base_url = trim_slashes (trim_space (lp_base_url p)), ml_dimension = lr_embedding_dimension r\<rparr>))"

definition probe_memory_routes :: "model_env \<Rightarrow> probe_net \<Rightarrow> memory_config \<Rightarrow> admin_memory \<Rightarrow> svc_error option" where
  "probe_memory_routes G X c m =
     (case get_llm_model_route (mg_extraction_model_route_id c) m of
        Inl e \<Rightarrow> Some (StoreErr e)
      | Inr x \<Rightarrow>
          (case get_llm_provider (lr_provider_id x) m of
             Inl e \<Rightarrow> Some (StoreErr e)
           | Inr xp \<Rightarrow>
               if \<not> probe_extraction G X x xp then Some InvalidArg
               else (case get_llm_model_route (mg_embedding_model_route_id c) m of
                       Inl e \<Rightarrow> Some (StoreErr e)
                     | Inr r \<Rightarrow>
                         (case get_llm_provider (lr_provider_id r) m of
                            Inl e \<Rightarrow> Some (StoreErr e)
                          | Inr p \<Rightarrow>
                              (case probe_embedding G X (lr_real_model r) p of
                                 Inl e \<Rightarrow> Some e
                               | Inr t \<Rightarrow> if \<not> et_ok t \<or> et_dimension t \<noteq> me_dimension G then Some InvalidArg else None)))))"

record memory_input =
  mmi_enabled :: bool
  mmi_extraction_route_id :: string
  mmi_embedding_route_id :: string
  mmi_expected_version :: int
  mmi_actor :: string

definition config_of_input :: "gtime \<Rightarrow> memory_input \<Rightarrow> memory_config" where
  "config_of_input now inp = \<lparr>mg_enabled = mmi_enabled inp, mg_resetting = False,
     mg_extraction_model_route_id = trim_space (mmi_extraction_route_id inp),
     mg_embedding_model_route_id = trim_space (mmi_embedding_route_id inp), mg_version = 0, mg_updated_at = now,
     mg_updated_by = mmi_actor inp\<rparr>"

definition same_selection :: "memory_config \<Rightarrow> memory_config \<Rightarrow> bool" where
  "same_selection a b \<longleftrightarrow> mg_extraction_model_route_id a = mg_extraction_model_route_id b \<and>
     mg_embedding_model_route_id a = mg_embedding_model_route_id b"

text \<open>Turning the memory on: the saved selection, the lock of its embedding model, and endpoints that answer.\<close>

definition plan_enable :: "model_env \<Rightarrow> probe_net \<Rightarrow> memory_config \<Rightarrow> admin_memory \<Rightarrow> svc_error + memory_index_lock" where
  "plan_enable G X c m =
     (if \<not> same_selection (get_memory_config m) c then Inl InvalidArg
      else (case index_lock_of (mg_embedding_model_route_id c) m of
              Inl e \<Rightarrow> Inl e
            | Inr l \<Rightarrow>
                if (case get_memory_index_lock m of Inl _ \<Rightarrow> False | Inr locked \<Rightarrow> locked \<noteq> l) then Inl InvalidArg
                else (case probe_memory_routes G X c m of
                        Some e \<Rightarrow> Inl e
                      | None \<Rightarrow> if \<not> pn_viking X then Inl InvalidArg else Inr l)))"

definition plan_memory :: "model_env \<Rightarrow> probe_net \<Rightarrow> gtime \<Rightarrow> memory_input \<Rightarrow> admin_memory \<Rightarrow> svc_error + memory_config \<times> memory_index_lock" where
  "plan_memory G X now inp m =
     (let cur = get_memory_config m; c = config_of_input now inp; v = memory_view_of G c m in
      if mg_resetting cur then Inl InvalidArg
      else if mg_version cur \<noteq> mmi_expected_version inp then Inl (StoreErr StoreVersionConflict)
      else if (\<not> (mg_extraction_model_route_id c = [] \<and> mg_embedding_model_route_id c = []) \<or> mg_enabled c) \<and>
          \<not> (mg_enabled cur \<and> \<not> mg_enabled c \<and> same_selection cur c) \<and>
          (mv_extraction_status v \<noteq> ''ready'' \<or> mv_embedding_status v \<noteq> ''ready'') then Inl InvalidArg
      else if mg_enabled c
      then (case plan_enable G X c m of Inl e \<Rightarrow> Inl e | Inr l \<Rightarrow> Inr (c, l))
      else Inr (c, memory_index_lock_zero))"

definition write_memory :: "model_env \<Rightarrow> int \<Rightarrow> memory_config \<times> memory_index_lock \<Rightarrow> admin_memory \<Rightarrow> memory_view svc_result" where
  "write_memory G expected cl m =
     (case update_memory_config (fst cl) expected (snd cl) m of
        (Inl e, m) \<Rightarrow> (Inl (if e = StoreConflict \<and> mg_enabled (fst cl) then InvalidArg else StoreErr e), m)
      | (Inr c, m) \<Rightarrow>
          (let v = memory_view_of G c m
           in (Inr (if mg_enabled c then v\<lparr>mv_status := ''ready'', mv_viking_status := ''ready''\<rparr> else v), m)))"

definition svc_update_memory :: "model_env \<Rightarrow> probe_net \<Rightarrow> gtime \<Rightarrow> memory_input \<Rightarrow> admin_memory \<Rightarrow> memory_view svc_result" where
  "svc_update_memory G X now inp m =
     (case plan_memory G X now inp m of Inl e \<Rightarrow> (Inl e, m) | Inr cl \<Rightarrow> write_memory G (mmi_expected_version inp) cl m)"

section \<open>The reset\<close>

text \<open>
  A round of the reset deletes the listed accounts in OpenViking, four at a time, and strikes out each that went
  through; an account whose deletion was cancelled because another failed counts as not deleted. The loop ends
  when a round finds no account left.
\<close>

definition reset_round :: "(string \<Rightarrow> bool) \<Rightarrow> string list \<Rightarrow> admin_memory \<Rightarrow> unit svc_result" where
  "reset_round deleted ts m =
     (let m = fold complete_memory_reset_account (filter deleted ts) m
      in if list_all deleted ts then (Inr (), m) else (Inl (RemoteErr ''reset''), m))"

lemma reset_accounts_after: "mitems (am_memory_reset_accounts (fold complete_memory_reset_account ts m)) =
    filter (\<lambda>(t, _). t \<notin> set ts) (mitems (am_memory_reset_accounts m))"
proof (induction ts arbitrary: m)
  case (Cons t ts)
  have "mitems (am_memory_reset_accounts (complete_memory_reset_account t m)) =
      filter (\<lambda>(k, _). k \<noteq> t) (mitems (am_memory_reset_accounts m))"
    by (auto simp: complete_memory_reset_account_def mitems_del AList.delete_eq intro!: filter_cong)
  then show ?case by (auto simp: Cons filter_filter intro: filter_cong)
qed simp

function reset_rounds :: "(string \<Rightarrow> bool) \<Rightarrow> admin_memory \<Rightarrow> unit svc_result" where
  "reset_rounds deleted m =
     (let ts = list_memory_reset_accounts m in
      if ts = [] then (Inr (), m)
      else (case reset_round deleted ts m of (Inl e, n) \<Rightarrow> (Inl e, n) | (Inr _, n) \<Rightarrow> reset_rounds deleted n))"
  by pat_completeness auto
termination
proof (relation "measure (\<lambda>(_, m). length (mitems (am_memory_reset_accounts m)))", goal_cases)
  case (2 deleted m ts r n u)
  then have n: "n = fold complete_memory_reset_account (filter deleted ts) m" "list_all deleted ts"
    by (auto simp: reset_round_def Let_def split: if_splits)
  then have "filter deleted ts = ts" by (simp add: list_all_iff filter_id_conv)
  moreover have "set ts = fst ` set (mitems (am_memory_reset_accounts m))" using 2(1) by (simp add: list_memory_reset_accounts_def)
  ultimately have "mitems (am_memory_reset_accounts n) = []" unfolding n(1) reset_accounts_after by (force simp: filter_empty_conv)
  moreover have "mitems (am_memory_reset_accounts m) \<noteq> []" using 2(1,2) by (auto simp: list_memory_reset_accounts_def)
  ultimately show ?case by simp
qed simp

declare reset_rounds.simps [simp del]

definition svc_reset_memory :: "model_env \<Rightarrow> bool \<Rightarrow> (string \<Rightarrow> bool) \<Rightarrow> string \<Rightarrow> gtime \<Rightarrow> admin_memory \<Rightarrow> memory_view svc_result" where
  "svc_reset_memory G configured deleted actor now m =
     (if \<not> configured then (Inl InvalidArg, m)
      else (case reset_rounds deleted (begin_memory_reset actor now m) of
              (Inl e, m) \<Rightarrow> (Inl e, m)
            | (Inr _, m) \<Rightarrow>
                (case complete_memory_reset m of
                   (Inl e, m) \<Rightarrow> (Inl (StoreErr e), m)
                 | (Inr _, m) \<Rightarrow> (Inr (get_memory_view G m), m))))"

end
