(* ===== verification/Model_Laws.thy ===== *)
theory Model_Laws
  imports Memory_Service Catalog_Laws
begin

text \<open>
  What the service keeps of the model catalog: providers and routes that can be used, and an index lock of the user
  memory that agrees with the model and the address it was filled from.
\<close>

section \<open>A sound catalog\<close>

definition provider_sound :: "llm_provider \<Rightarrow> bool" where
  "provider_sound p \<longleftrightarrow> lp_id p \<noteq> [] \<and> lp_name p \<noteq> [] \<and> valid_provider_type (lp_type p) \<and> provider_ready p \<and> provider_icon_ok p"

definition route_fits :: "string \<Rightarrow> llm_model_route \<Rightarrow> bool" where
  "route_fits protocol r \<longleftrightarrow> lr_protocol r = protocol \<and> lr_reasoning_efforts r = reasoning_efforts_for protocol \<and>
     lr_real_model r \<noteq> [] \<and> valid_icon_config (lr_icon_type r) (lr_icon_slug r) (lr_icon_url r) \<and>
     (lr_is_default r \<longrightarrow> lr_enabled r \<and> lr_visible r) \<and>
     (if protocol = ''openai-embeddings'' then \<not> lr_visible r \<and> 0 < lr_embedding_dimension r else lr_embedding_dimension r = 0)"

definition route_sound :: "(string, llm_provider) gomap \<Rightarrow> llm_model_route \<Rightarrow> bool" where
  "route_sound P r \<longleftrightarrow> (\<exists>p. mget P (lr_provider_id r) = Some p \<and> route_fits (model_protocol (lp_type p)) r)"

definition lock_fits :: "memory_index_lock \<Rightarrow> (string, llm_provider) gomap \<Rightarrow> (string, llm_model_route) gomap \<Rightarrow> bool" where
  "lock_fits l P R \<longleftrightarrow> (ml_dimension l \<noteq> 0 \<longrightarrow> (\<exists>r p. mget R (ml_route_id l) = Some r \<and> mget P (ml_provider_id l) = Some p \<and>
     lr_provider_id r = ml_provider_id l \<and> trim_space (lr_real_model r) = ml_model l \<and>
     lr_embedding_dimension r = ml_dimension l \<and> trim_slashes (trim_space (lp_base_url p)) = ml_base_url l))"

definition on_locked :: "memory_config \<Rightarrow> memory_index_lock \<Rightarrow> bool" where
  "on_locked c l \<longleftrightarrow> (mg_enabled c \<longrightarrow> ml_dimension l \<noteq> 0 \<and> ml_route_id l = mg_embedding_model_route_id c)"

definition catalog_sound :: "admin_memory \<Rightarrow> bool" where
  "catalog_sound m \<longleftrightarrow> models_ok m \<and> (\<forall>k p. mget (am_llm_providers m) k = Some p \<longrightarrow> provider_sound p) \<and>
     (\<forall>k r. mget (am_llm_models m) k = Some r \<longrightarrow> route_sound (am_llm_providers m) r) \<and>
     lock_fits (am_memory_index_lock m) (am_llm_providers m) (am_llm_models m) \<and>
     on_locked (am_memory_config m) (am_memory_index_lock m)"

lemma catalog_soundD:
  assumes "catalog_sound m"
  shows "models_ok m" "mget (am_llm_providers m) k = Some p \<Longrightarrow> provider_sound p"
    "mget (am_llm_models m) k = Some r \<Longrightarrow> route_sound (am_llm_providers m) r"
    "lock_fits (am_memory_index_lock m) (am_llm_providers m) (am_llm_models m)"
    "on_locked (am_memory_config m) (am_memory_index_lock m)"
  using assms unfolding catalog_sound_def by blast+

text \<open>Only five fields of the store matter.\<close>

lemma catalog_sound_cong:
  assumes "catalog_sound m" "am_llm_providers n = am_llm_providers m" "am_llm_models n = am_llm_models m"
    "am_memory_config n = am_memory_config m" "am_memory_index_lock n = am_memory_index_lock m"
  shows "catalog_sound n"
  using assms unfolding catalog_sound_def by simp

lemma lock_eval: "get_memory_index_lock m = Inr l \<longleftrightarrow> ml_dimension (am_memory_index_lock m) \<noteq> 0 \<and> l = am_memory_index_lock m"
  by (auto simp: get_memory_index_lock_def)

lemma locked_provider_moves_iff:
  "locked_provider_moves p m \<longleftrightarrow> (let l = am_memory_index_lock m in ml_dimension l \<noteq> 0 \<and> ml_provider_id l = lp_id p \<and>
     ml_base_url l \<noteq> trim_slashes (trim_space (lp_base_url p)))"
  by (simp add: locked_provider_moves_def get_memory_index_lock_def Let_def)

lemma locked_route_moves_iff:
  "locked_route_moves r m \<longleftrightarrow> (let l = am_memory_index_lock m in ml_dimension l \<noteq> 0 \<and> ml_route_id l = lr_id r \<and>
     (ml_provider_id l \<noteq> lr_provider_id r \<or> ml_model l \<noteq> trim_space (lr_real_model r) \<or> ml_dimension l \<noteq> lr_embedding_dimension r))"
  by (simp add: locked_route_moves_def get_memory_index_lock_def Let_def)

section \<open>The calls of the store\<close>

lemma put_provider_sound:
  assumes ok: "catalog_sound m" and p: "provider_sound p" "\<not> locked_provider_moves p m"
    and same: "\<And>k r. mget (am_llm_models m) k = Some r \<Longrightarrow> lr_provider_id r = lp_id p \<Longrightarrow> route_fits (model_protocol (lp_type p)) r"
  shows "catalog_sound (put_provider p m)"
proof -
  let ?P = "mput (am_llm_providers m) (lp_id p) p"
  have "route_sound ?P r" if "mget (am_llm_models m) k = Some r" for k r
    using catalog_soundD(3)[OF ok that] same[OF that] by (auto simp: route_sound_def gm.get_put)
  moreover have "lock_fits (am_memory_index_lock m) ?P (am_llm_models m)"
    using catalog_soundD(4)[OF ok] p(2) by (auto simp: lock_fits_def locked_provider_moves_iff Let_def gm.get_put)
  moreover have "provider_sound q" if "mget ?P k = Some q" for k q
    using that p(1) catalog_soundD(2)[OF ok] by (auto simp: gm.get_put split: if_splits)
  ultimately show ?thesis
    using catalog_soundD[OF ok] put_provider_ok[of "am_llm_providers m" "am_llm_models m" p]
    unfolding catalog_sound_def put_provider_def by simp
qed

lemma create_provider_sound:
  assumes "catalog_sound m" "provider_sound p"
  shows "catalog_sound (snd (create_llm_provider p m))"
proof (cases "mget (am_llm_providers m) (lp_id p)")
  case None
  have "\<not> locked_provider_moves p m"
    using catalog_soundD(4)[OF assms(1)] None by (auto simp: lock_fits_def locked_provider_moves_iff Let_def)
  moreover have "lr_provider_id r \<noteq> lp_id p" if "mget (am_llm_models m) k = Some r" for k r
    using routes_okD(3)[OF catalog_soundD(1)[OF assms(1)] that] None by auto
  ultimately show ?thesis using None put_provider_sound[OF assms] by (simp add: create_llm_provider_def)
qed (use assms in \<open>simp add: create_llm_provider_def\<close>)

lemma update_provider_sound:
  assumes ok: "catalog_sound m" and p: "provider_sound p" "\<not> locked_provider_moves p m"
    and same: "\<And>k r q. mget (am_llm_models m) k = Some r \<Longrightarrow> lr_provider_id r = lp_id p \<Longrightarrow>
      mget (am_llm_providers m) (lp_id p) = Some q \<Longrightarrow> lp_type q = lp_type p"
  shows "catalog_sound (snd (update_llm_provider p m))"
proof (cases "mget (am_llm_providers m) (lp_id p)")
  case (Some q)
  have "route_fits (model_protocol (lp_type p)) r" if r: "mget (am_llm_models m) k = Some r" "lr_provider_id r = lp_id p" for k r
    using catalog_soundD(3)[OF ok r(1)] same[OF r Some] r(2) Some by (auto simp: route_sound_def)
  with Some put_provider_sound[OF ok p] show ?thesis by (simp add: update_llm_provider_def)
qed (use ok in \<open>simp add: update_llm_provider_def\<close>)

lemma delete_provider_sound:
  assumes ok: "catalog_sound m"
  shows "catalog_sound (snd (delete_llm_provider i m))"
proof (cases "fst (delete_llm_provider i m)")
  case (Inr u)
  then have after: "snd (delete_llm_provider i m) = m\<lparr>am_llm_providers := mdel (am_llm_providers m) i\<rparr>"
    and "\<not> list_ex (\<lambda>r. lr_provider_id r = i) (mvals (am_llm_models m))"
    by (cases "mget (am_llm_providers m) i"; cases "list_ex (\<lambda>r. lr_provider_id r = i) (mvals (am_llm_models m))";
        simp add: delete_llm_provider_def)+
  then have unused: "lr_provider_id r \<noteq> i" if "mget (am_llm_models m) k = Some r" for k r
    using that unfolding list_ex_iff mvals_ex by blast
  have "route_sound (mdel (am_llm_providers m) i) r" if "mget (am_llm_models m) k = Some r" for k r
    using catalog_soundD(3)[OF ok that] unused[OF that] by (auto simp: route_sound_def gm.get_del)
  moreover have "lock_fits (am_memory_index_lock m) (mdel (am_llm_providers m) i) (am_llm_models m)"
    unfolding lock_fits_def
  proof
    assume "ml_dimension (am_memory_index_lock m) \<noteq> 0"
    with catalog_soundD(4)[OF ok] obtain r p where r: "mget (am_llm_models m) (ml_route_id (am_memory_index_lock m)) = Some r"
      "mget (am_llm_providers m) (ml_provider_id (am_memory_index_lock m)) = Some p"
      "lr_provider_id r = ml_provider_id (am_memory_index_lock m)" "trim_space (lr_real_model r) = ml_model (am_memory_index_lock m)"
      "lr_embedding_dimension r = ml_dimension (am_memory_index_lock m)"
      "trim_slashes (trim_space (lp_base_url p)) = ml_base_url (am_memory_index_lock m)" unfolding lock_fits_def by blast
    moreover have "mget (mdel (am_llm_providers m) i) (ml_provider_id (am_memory_index_lock m)) = Some p"
      using r unused[OF r(1)] by (simp add: gm.get_del)
    ultimately show "\<exists>r p. mget (am_llm_models m) (ml_route_id (am_memory_index_lock m)) = Some r \<and>
      mget (mdel (am_llm_providers m) i) (ml_provider_id (am_memory_index_lock m)) = Some p \<and>
      lr_provider_id r = ml_provider_id (am_memory_index_lock m) \<and> trim_space (lr_real_model r) = ml_model (am_memory_index_lock m) \<and>
      lr_embedding_dimension r = ml_dimension (am_memory_index_lock m) \<and>
      trim_slashes (trim_space (lp_base_url p)) = ml_base_url (am_memory_index_lock m)" by blast
  qed
  moreover have "provider_sound q" if "mget (mdel (am_llm_providers m) i) k = Some q" for k q
    using that catalog_soundD(2)[OF ok] by (auto simp: gm.get_del split: if_splits)
  ultimately show ?thesis
    using catalog_soundD[OF ok] delete_provider_ok[of m i] unfolding after catalog_sound_def by simp
qed (simp add: route_refused(3)[of i m] ok)

lemma weaken_same [simp]:
  "lr_real_model (weaken r but k e) = lr_real_model e" "lr_embedding_dimension (weaken r but k e) = lr_embedding_dimension e"
  "lr_enabled (weaken r but k e) = lr_enabled e" "lr_visible (weaken r but k e) = lr_visible e"
  "lr_reasoning_efforts (weaken r but k e) = lr_reasoning_efforts e" "lr_icon_type (weaken r but k e) = lr_icon_type e"
  "lr_icon_slug (weaken r but k e) = lr_icon_slug e" "lr_icon_url (weaken r but k e) = lr_icon_url e"
  by (simp_all add: weaken_def)

lemma weaken_fits: "route_fits protocol e \<Longrightarrow> route_fits protocol (weaken r but k e)"
  using weaken_default[of r but k e] unfolding route_fits_def by auto

lemma store_route_sound:
  assumes ok: "catalog_sound m" and r: "route_sound (am_llm_providers m) r" "\<not> locked_route_moves r m"
    and n: "n = put_route r (clear_defaults r but m)" "models_ok n"
  shows "catalog_sound n"
proof -
  have same: "am_llm_providers n = am_llm_providers m" "am_memory_config n = am_memory_config m"
    "am_memory_index_lock n = am_memory_index_lock m" by (simp_all add: n(1) put_route_def clear_defaults_def)
  have get: "mget (am_llm_models n) k = (if k = lr_id r then Some r else map_option (weaken r but k) (mget (am_llm_models m) k))" for k
    by (simp add: n(1) put_route_def gm.get_put clear_defaults_get)
  have "route_sound (am_llm_providers m) s" if "mget (am_llm_models n) k = Some s" for k s
  proof (cases "k = lr_id r")
    case False
    then obtain e where e: "mget (am_llm_models m) k = Some e" "s = weaken r but k e" using \<open>mget (am_llm_models n) k = Some s\<close> get by auto
    with catalog_soundD(3)[OF ok e(1)] weaken_fits show ?thesis by (auto simp: route_sound_def)
  qed (use that get r(1) in auto)
  moreover have "lock_fits (am_memory_index_lock m) (am_llm_providers m) (am_llm_models n)"
    using catalog_soundD(4)[OF ok] r(2) by (auto simp: lock_fits_def get locked_route_moves_iff Let_def)
  ultimately show ?thesis using catalog_soundD[OF ok] n(2) unfolding catalog_sound_def same by blast
qed

lemma create_route_sound:
  assumes "catalog_sound m" "route_sound (am_llm_providers m) r"
  shows "catalog_sound (snd (create_llm_model_route r m))"
proof (cases "fst (create_llm_model_route r m)")
  case (Inr u)
  then have *: "snd (create_llm_model_route r m) = put_route r (clear_defaults r False m)" "mget (am_llm_models m) (lr_id r) = None"
    by (auto simp: create_llm_model_route_def split: if_splits)
  from *(2) have "\<not> locked_route_moves r m"
    using catalog_soundD(4)[OF assms(1)] by (auto simp: locked_route_moves_iff lock_fits_def Let_def)
  with * show ?thesis using store_route_sound[OF assms] create_route_ok[OF catalog_soundD(1)[OF assms(1)]] by metis
qed (simp add: route_refused(1)[of r m] assms)

lemma update_route_sound:
  assumes "catalog_sound m" "route_sound (am_llm_providers m) r" "\<not> locked_route_moves r m"
  shows "catalog_sound (snd (update_llm_model_route r m))"
proof (cases "fst (update_llm_model_route r m)")
  case (Inr u)
  then have "snd (update_llm_model_route r m) = put_route r (clear_defaults r True m)"
    by (auto simp: update_llm_model_route_def split: if_splits)
  then show ?thesis using store_route_sound[OF assms] update_route_ok[OF catalog_soundD(1)[OF assms(1)]] by metis
qed (simp add: route_refused(2)[of r m] assms)

lemma delete_route_sound:
  assumes ok: "catalog_sound m" and "ml_dimension (am_memory_index_lock m) \<noteq> 0 \<Longrightarrow> ml_route_id (am_memory_index_lock m) \<noteq> i"
  shows "catalog_sound (snd (delete_llm_model_route i m))"
proof -
  have "catalog_sound (m\<lparr>am_llm_models := mdel (am_llm_models m) i\<rparr>)"
    using catalog_soundD[OF ok] drop_route_ok[of "am_llm_providers m" "am_llm_models m" i] assms(2)
    by (auto simp: catalog_sound_def lock_fits_def gm.get_del split: if_splits)
  then show ?thesis using ok by (simp add: delete_llm_model_route_def)
qed

section \<open>The plans of the service\<close>

lemma apply_api_key_same:
  assumes "apply_api_key G given p = Inr q"
  shows "\<exists>c h. q = p\<lparr>lp_api_key_ciphertext := c, lp_api_key_hint := h\<rparr>"
proof (cases given)
  case None
  with assms show ?thesis by (intro exI[of _ "lp_api_key_ciphertext p"] exI[of _ "lp_api_key_hint p"]) (simp add: apply_api_key_def)
next
  case (Some k)
  with assms show ?thesis by (auto simp: apply_api_key_def Let_def split: if_splits sum.splits)
qed

lemma default_icon_same: "lp_id (default_icon p) = lp_id p" "lp_name (default_icon p) = lp_name p" "lp_type (default_icon p) = lp_type p"
  by (simp_all add: default_icon_def Let_def)

lemma new_provider_sound:
  assumes "new_provider G now inp = Inr p"
  shows "provider_sound p"
proof -
  from assms obtain q where q: "apply_api_key G (pin_api_key inp) q = Inr p" "lp_id q \<noteq> []" "lp_name q \<noteq> []"
    "valid_provider_type (lp_type q)" "provider_ready p" "provider_icon_ok p"
    by (auto simp: new_provider_def Let_def default_icon_same split: sum.splits if_splits)
  with apply_api_key_same[OF q(1)] show ?thesis by (auto simp: provider_sound_def)
qed

lemma set_provider_type_same:
  assumes "set_provider_type G given m p = Inr q"
  shows "lp_id q = lp_id p \<and> lp_name q = lp_name p \<and> (valid_provider_type (lp_type p) \<longrightarrow> valid_provider_type (lp_type q)) \<and>
    (lp_type q = lp_type p \<or> (\<forall>r \<in> set (list_llm_model_routes m). lr_provider_id r \<noteq> lp_id p))"
  using assms by (auto simp: set_provider_type_def Let_def list_ex_iff split: if_splits)

lemma set_provider_fields_same:
  "lp_id (set_provider_fields inp p) = lp_id p" "lp_name (set_provider_fields inp p) = lp_name p"
  "lp_type (set_provider_fields inp p) = lp_type p"
  by (simp_all add: set_provider_fields_def Let_def)

lemma plan_provider_facts:
  assumes "plan_provider G now pid inp m = Inr q"
  shows "\<exists>p. mget (am_llm_providers m) (normalize_identifier (me_service G) pid) = Some p \<and> lp_id q = lp_id p \<and>
    (provider_sound p \<longrightarrow> provider_sound q) \<and> \<not> locked_provider_moves q m \<and>
    (lp_type q = lp_type p \<or> (\<forall>r \<in> set (list_llm_model_routes m). lr_provider_id r \<noteq> lp_id p))"
proof -
  from assms obtain p where p: "mget (am_llm_providers m) (normalize_identifier (me_service G) pid) = Some p"
    by (auto simp: plan_provider_def get_llm_provider_def split: option.splits)
  define p' where "p' = (if trim_space (pin_name inp) \<noteq> [] then p\<lparr>lp_name := trim_space (pin_name inp)\<rparr> else p)"
  have p': "lp_id p' = lp_id p" "lp_type p' = lp_type p" "lp_name p \<noteq> [] \<longrightarrow> lp_name p' \<noteq> []" by (simp_all add: p'_def)
  from assms p obtain a b where a: "set_provider_type G (pin_type inp) m p' = Inr a"
    and b: "apply_api_key G (pin_api_key inp) (set_provider_fields inp a) = Inr b"
    and ok: "provider_ready b" "provider_icon_ok b" "\<not> locked_provider_moves b m" and q: "q = b\<lparr>lp_updated_at := now\<rparr>"
    by (auto simp: plan_provider_def get_llm_provider_def Let_def p'_def split: sum.splits if_splits)
  have same: "lp_id b = lp_id a" "lp_name b = lp_name a" "lp_type b = lp_type a"
    using apply_api_key_same[OF b] by (auto simp: set_provider_fields_same)
  note ty = set_provider_type_same[OF a, unfolded p']
  have "\<not> locked_provider_moves q m" using ok(3) by (simp add: q locked_provider_moves_iff)
  moreover have "provider_ready q" "provider_icon_ok q" using ok(1,2) by (simp_all add: q provider_ready_def provider_icon_ok_def)
  ultimately show ?thesis using p p' ty by (intro exI[of _ p]) (auto simp: q same provider_sound_def)
qed

lemma listed_route: "mget (am_llm_models m) k = Some r \<Longrightarrow> r \<in> set (list_llm_model_routes m)"
  using mvalsI by (simp add: list_llm_model_routes_def del: set_map)

lemma plan_provider_stores:
  assumes ok: "catalog_sound m" and q: "plan_provider G now pid inp m = Inr q"
  shows "catalog_sound (snd (update_llm_provider q m))"
proof -
  obtain p where p: "mget (am_llm_providers m) (normalize_identifier (me_service G) pid) = Some p" "lp_id q = lp_id p"
    "provider_sound p \<longrightarrow> provider_sound q" "\<not> locked_provider_moves q m"
    "lp_type q = lp_type p \<or> (\<forall>r \<in> set (list_llm_model_routes m). lr_provider_id r \<noteq> lp_id p)"
    using plan_provider_facts[OF q] by blast
  have id: "lp_id p = normalize_identifier (me_service G) pid" by (rule routes_okD(1)[OF catalog_soundD(1)[OF ok] p(1)])
  show ?thesis
  proof (rule update_provider_sound[OF ok])
    show "provider_sound q" using catalog_soundD(2)[OF ok p(1)] p(3) by blast
    show "\<not> locked_provider_moves q m" by (rule p(4))
  next
    fix k r o' assume r: "mget (am_llm_models m) k = Some r" "lr_provider_id r = lp_id q" "mget (am_llm_providers m) (lp_id q) = Some o'"
    with p(1,2) id have "o' = p" by simp
    with r p(2,5) listed_route[OF r(1)] show "lp_type o' = lp_type q" by auto
  qed
qed

lemma fit_protocol_fits:
  assumes "fit_protocol protocol r = Inr s" "lr_real_model r \<noteq> []"
    "valid_icon_config (lr_icon_type r) (lr_icon_slug r) (lr_icon_url r)" "lr_is_default r \<longrightarrow> lr_enabled r \<and> lr_visible r"
  shows "route_fits protocol s" "lr_id s = lr_id r" "lr_provider_id s = lr_provider_id r"
  using assms by (auto simp: fit_protocol_def route_fits_def Let_def split: if_splits)

lemma route_from_input_facts:
  assumes "route_from_input G clock new_id old inp create = Inr r"
  shows "lr_real_model r \<noteq> []" "valid_icon_config (lr_icon_type r) (lr_icon_slug r) (lr_icon_url r)"
    "lr_is_default r \<longrightarrow> lr_enabled r \<and> lr_visible r" "\<not> create \<Longrightarrow> lr_id r = lr_id old"
  using assms by (auto simp: route_from_input_def fill_route_def Let_def split: if_splits)

lemma plan_new_model_facts:
  assumes "plan_new_model G clock new_id inp m = Inr s"
  shows "route_sound (am_llm_providers m) s" "\<not> locked_route_moves s m"
proof -
  from assms obtain r p where r: "route_from_input G clock new_id blank_route inp True = Inr r"
    and p: "mget (am_llm_providers m) (lr_provider_id r) = Some p"
    and s: "fit_protocol (model_protocol (lp_type p)) (default_web_tools G inp p r) = Inr s" "\<not> locked_route_moves s m"
    by (auto simp: plan_new_model_def get_llm_provider_def split: sum.splits option.splits if_splits)
  note f = route_from_input_facts[OF r]
  have "route_fits (model_protocol (lp_type p)) s \<and> lr_provider_id s = lr_provider_id r"
    using fit_protocol_fits[OF s(1)] f by (simp add: default_web_tools_def split: if_splits)
  with p s(2) show "route_sound (am_llm_providers m) s" "\<not> locked_route_moves s m" by (auto simp: route_sound_def)
qed

lemma plan_model_facts:
  assumes "plan_model G now rid inp m = Inr s"
  shows "route_sound (am_llm_providers m) s" "\<not> locked_route_moves s m"
proof -
  from assms obtain old r p where r: "route_from_input G (0, now) [] old inp False = Inr r"
    and p: "mget (am_llm_providers m) (lr_provider_id r) = Some p"
    and s: "fit_protocol (model_protocol (lp_type p)) r = Inr s" "\<not> locked_route_moves s m"
    by (auto simp: plan_model_def get_llm_provider_def split: sum.splits option.splits if_splits)
  with fit_protocol_fits[OF s(1) route_from_input_facts(1-3)[OF r]]
  show "route_sound (am_llm_providers m) s" "\<not> locked_route_moves s m" by (auto simp: route_sound_def)
qed

section \<open>The operations of the service\<close>

lemma store_provider_snd: "snd (store_provider p r) = snd r" by (cases r) (auto simp: store_provider_def split: sum.split)
lemma store_route_snd: "snd (store_route p r) = snd r" by (cases r) (auto simp: store_route_def split: sum.split)
lemma store_answer_snd: "snd (store_answer r) = snd r" by (cases r) (auto simp: store_answer_def split: sum.split)

lemma svc_providers_sound:
  assumes ok: "catalog_sound m"
  shows "catalog_sound (snd (svc_create_provider G now inp m))" "catalog_sound (snd (svc_update_provider G now pid inp m))"
    "catalog_sound (snd (svc_delete_provider G pid m))"
  using ok create_provider_sound[OF ok new_provider_sound] plan_provider_stores[OF ok] delete_provider_sound[OF ok]
  by (auto simp: svc_create_provider_def svc_update_provider_def svc_delete_provider_def store_provider_snd store_answer_snd Let_def
      split: sum.split)

lemma remove_model_sound:
  assumes ok: "catalog_sound m" and free: "ml_dimension (am_memory_index_lock m) \<noteq> 0 \<Longrightarrow> ml_route_id (am_memory_index_lock m) \<noteq> rid"
  shows "catalog_sound (snd (remove_model rid m))"
proof (cases "get_llm_model_route rid m")
  case (Inr r)
  then have del: "delete_llm_model_route rid m = (Inr (), snd (delete_llm_model_route rid m))"
    by (auto simp: get_llm_model_route_def delete_llm_model_route_def split: option.splits)
  have "snd (remove_model rid m) = drop_unused_provider r (snd (delete_llm_model_route rid m))"
    unfolding remove_model_def Inr by (subst del) simp
  with delete_route_sound[OF ok free] delete_provider_sound show ?thesis by (simp add: drop_unused_provider_def)
qed (simp add: remove_model_def ok)

lemma svc_models_sound:
  assumes ok: "catalog_sound m"
  shows "catalog_sound (snd (svc_create_model G clock new_id inp m))" "catalog_sound (snd (svc_update_model G now rid inp m))"
    "catalog_sound (snd (svc_delete_model G rid m))"
proof -
  show "catalog_sound (snd (svc_create_model G clock new_id inp m))" "catalog_sound (snd (svc_update_model G now rid inp m))"
    using ok create_route_sound[OF ok plan_new_model_facts(1)] update_route_sound[OF ok plan_model_facts]
    by (auto simp: svc_create_model_def svc_update_model_def store_route_snd split: sum.split)
  show "catalog_sound (snd (svc_delete_model G rid m))"
    using ok remove_model_sound[OF ok, of "normalize_identifier (me_service G) rid"]
    by (auto simp: svc_delete_model_def get_memory_index_lock_def Let_def)
qed

lemma set_default_sound:
  assumes ok: "catalog_sound m"
  shows "catalog_sound (snd (svc_set_default_model G now rid m))"
proof (cases "get_llm_model_route (normalize_identifier (me_service G) rid) m")
  case (Inr r)
  then have r: "mget (am_llm_models m) (normalize_identifier (me_service G) rid) = Some r"
    by (auto simp: get_llm_model_route_def split: option.splits)
  show ?thesis
  proof (cases "lr_enabled r \<and> lr_visible r")
    case True
    let ?s = "r\<lparr>lr_is_default := True, lr_updated_at := now\<rparr>"
    have id: "lr_id r = normalize_identifier (me_service G) rid" by (rule routes_okD(2)[OF catalog_soundD(1)[OF ok] r])
    obtain p where "mget (am_llm_providers m) (lr_provider_id r) = Some p" "route_fits (model_protocol (lp_type p)) r"
      using catalog_soundD(3)[OF ok r] unfolding route_sound_def by blast
    then have "route_sound (am_llm_providers m) ?s" using True by (intro exI[of _ p] route_sound_def[THEN iffD2]) (auto simp: route_fits_def split: if_splits)
    moreover have "\<not> locked_route_moves ?s m"
      using catalog_soundD(4)[OF ok] r id by (auto simp: locked_route_moves_iff lock_fits_def Let_def)
    ultimately show ?thesis using update_route_sound[OF ok, of ?s] True Inr by (simp add: svc_set_default_model_def store_route_snd Let_def)
  qed (use Inr ok in \<open>auto simp: svc_set_default_model_def\<close>)
qed (simp add: svc_set_default_model_def ok)

section \<open>Embedding models\<close>

lemma probe_ok:
  assumes "probe_embedding G X model p = Inr t" "et_ok t"
  shows "0 < et_dimension t" "lp_base_url p \<noteq> []" "lp_api_key_ciphertext p \<noteq> []"
proof -
  have nil: "trim_space [] = []" by code_simp
  from assms have base: "trim_space (lp_base_url p) \<noteq> []" "lp_api_key_ciphertext p \<noteq> []"
    by (auto simp: probe_embedding_def Let_def split: if_splits)
  from base nil show "lp_base_url p \<noteq> []" "lp_api_key_ciphertext p \<noteq> []" by auto
  from assms show "0 < et_dimension t"
    by (auto simp: probe_embedding_def Let_def embedding_outcome_def probe_failure_def
        split: if_splits sum.splits embedding_reply.splits option.splits list.splits)
qed

lemma openai_icon: "valid_icon_config ''simple-icons'' ''openai'' url"
proof -
  have "trim_space ''openai'' \<noteq> []" by code_simp
  then show ?thesis by (simp add: valid_icon_config_def)
qed

lemma store_embedding_sound:
  assumes ok: "catalog_sound m" and p: "provider_sound p" and r: "lr_provider_id r = lp_id p" "route_fits (model_protocol (lp_type p)) r"
  shows "catalog_sound (snd (store_embedding p r m))"
proof (cases "mget (am_llm_providers m) (lp_id p)")
  case None
  then have c: "create_llm_provider p m = (Inr (), put_provider p m)" by (simp add: create_llm_provider_def)
  have n: "catalog_sound (put_provider p m)" using create_provider_sound[OF ok p] by (simp add: c)
  have "route_sound (am_llm_providers (put_provider p m)) r" using r by (auto simp: route_sound_def put_provider_def gm.get_put)
  from create_route_sound[OF n this] delete_provider_sound show ?thesis
    unfolding store_embedding_def c by (cases "create_llm_model_route r (put_provider p m)") (auto split: sum.split)
qed (simp add: store_embedding_def create_llm_provider_def ok)

lemma svc_create_embedding_sound:
  assumes ok: "catalog_sound m"
  shows "catalog_sound (snd (svc_create_embedding G X now ids inp m))"
proof (cases "catalog_sound (snd (svc_create_embedding G X now ids inp m))")
  case False
  let ?model = "trim_space (ein_model inp)"
  obtain base p t where *: "apply_api_key G (ein_api_key inp) (new_embedding_provider now (fst ids) ?model base) = Inr p"
    "?model \<noteq> []" "probe_embedding G X ?model p = Inr t" "et_ok t"
    "snd (svc_create_embedding G X now ids inp m) = snd (store_embedding p (new_embedding_route G now (snd ids) ?model p (et_dimension t)) m)"
    using False ok by (fastforce simp: svc_create_embedding_def Let_def split: sum.splits if_splits)
  note probed = probe_ok[OF *(3,4)]
  have same: "lp_id p = ''embedding-'' @ fst ids" "lp_name p = ?model" "lp_type p = ''openai_embeddings''"
    "lp_icon_type p = ''simple-icons''" "lp_icon_slug p = ''openai''"
    using apply_api_key_same[OF *(1)] by (auto simp: new_embedding_provider_def)
  have "provider_sound p" using probed *(2) openai_icon by (simp add: provider_sound_def same valid_provider_type_def provider_ready_def provider_icon_ok_def)
  moreover have "route_fits (model_protocol (lp_type p)) (new_embedding_route G now (snd ids) ?model p (et_dimension t))"
    using probed *(2) openai_icon by (simp add: route_fits_def new_embedding_route_def same model_protocol_def reasoning_efforts_for_def
        blank_route_def Let_def)
  ultimately show ?thesis unfolding *(5) by (intro store_embedding_sound[OF ok]) (simp_all add: new_embedding_route_def Let_def)
qed

text \<open>The edit keeps what the catalog needs, whether or not its second write is refused.\<close>

lemma write_embedding_sound:
  assumes ok: "catalog_sound m" and p: "mget (am_llm_providers m) (lp_id p) = Some p"
    and q: "provider_sound q" "lp_id q = lp_id p" "lp_type q = lp_type p" "\<not> locked_provider_moves q m"
    and r: "lr_provider_id r = lp_id p" "route_fits (model_protocol (lp_type p)) r" "\<not> locked_route_moves r m"
  shows "catalog_sound (snd (write_embedding p (r, q) m))"
proof -
  let ?n = "put_provider q m"
  have up: "update_llm_provider q m = (Inr (), ?n)" using p q(2) by (simp add: update_llm_provider_def)
  have n: "catalog_sound ?n" using update_provider_sound[OF ok q(1,4)] p q(2,3) up by (metis option.inject snd_conv)
  have lock: "am_memory_index_lock ?n = am_memory_index_lock m" by (simp add: put_provider_def)
  have "mget (am_llm_providers ?n) (lp_id p) = Some q" using q(2) by (simp add: put_provider_def gm.get_put)
  then have rs: "route_sound (am_llm_providers ?n) r" using r(1,2) q(3) by (simp add: route_sound_def)
  have "\<not> locked_route_moves r ?n" using r(3) by (simp add: locked_route_moves_iff lock)
  from update_route_sound[OF n rs this] have route: "catalog_sound (snd (update_llm_model_route r ?n))" .
  have undone: "catalog_sound (snd (update_llm_provider p ?n))"
  proof (rule update_provider_sound[OF n catalog_soundD(2)[OF ok p]])
    show "\<not> locked_provider_moves p ?n"
      using catalog_soundD(4)[OF ok] p unfolding locked_provider_moves_iff lock lock_fits_def Let_def by auto
    show "lp_type s = lp_type p" if "mget (am_llm_providers ?n) (lp_id p) = Some s" for s
      using that q(2,3) by (simp add: put_provider_def gm.get_put)
  qed
  show ?thesis
  proof (cases "update_llm_model_route r ?n")
    case (Pair a s)
    with up route route_refused(2)[of r ?n] undone show ?thesis by (cases a) (simp_all add: write_embedding_def)
  qed
qed

lemma plan_embedding_facts:
  assumes "plan_embedding G X clock inp r p m = Inr (s, q)" "provider_sound p" "lr_protocol r = ''openai-embeddings''"
    "route_fits (model_protocol (lp_type p)) r"
  shows "provider_sound q" "lp_id q = lp_id p" "lp_type q = lp_type p" "\<not> locked_provider_moves q m"
    "lr_provider_id s = lr_provider_id r" "route_fits (model_protocol (lp_type p)) s" "\<not> locked_route_moves s m"
proof -
  let ?model = "trim_space (ein_model inp)"
  from assms(1) obtain base b t where *: "?model \<noteq> []" "apply_api_key G (ein_api_key inp) (p\<lparr>lp_base_url := base\<rparr>) = Inr b"
    "q = b\<lparr>lp_name := ?model, lp_enabled := True, lp_updated_at := fst clock\<rparr>" "\<not> locked_provider_moves q m"
    "probe_embedding G X ?model q = Inr t" "s = embedding_edit G (snd clock) ?model (et_dimension t) r" "et_ok t" "\<not> locked_route_moves s m"
    by (auto simp: plan_embedding_def Let_def split: sum.splits if_splits)
  note probed = probe_ok[OF *(5,7)]
  have same: "lp_id q = lp_id p" "lp_name q = ?model" "lp_type q = lp_type p" "lp_icon_type q = lp_icon_type p"
    "lp_icon_slug q = lp_icon_slug p" "lp_icon_url q = lp_icon_url p"
    using apply_api_key_same[OF *(2)] by (auto simp: *(3))
  show "provider_sound q" using assms(2) probed *(1)
    by (simp add: provider_sound_def same provider_ready_def provider_icon_ok_def)
  show "lp_id q = lp_id p" "lp_type q = lp_type p" "\<not> locked_provider_moves q m" "\<not> locked_route_moves s m"
    using same * by simp_all
  show "lr_provider_id s = lr_provider_id r" by (simp add: *(6) embedding_edit_def)
  have "model_protocol (lp_type p) = ''openai-embeddings''" using assms(3,4) by (simp add: route_fits_def)
  with assms(4) probed *(1) show "route_fits (model_protocol (lp_type p)) s" by (simp add: *(6) embedding_edit_def route_fits_def)
qed

lemma svc_update_embedding_sound:
  assumes ok: "catalog_sound m"
  shows "catalog_sound (snd (svc_update_embedding G X clock rid inp m))"
proof (cases "catalog_sound (snd (svc_update_embedding G X clock rid inp m))")
  case False
  then obtain r p s q where *: "mget (am_llm_models m) (normalize_identifier (me_service G) rid) = Some r" "lr_protocol r = ''openai-embeddings''"
    "mget (am_llm_providers m) (lr_provider_id r) = Some p" "plan_embedding G X clock inp r p m = Inr (s, q)"
    "snd (svc_update_embedding G X clock rid inp m) = snd (write_embedding p (s, q) m)"
    using ok by (auto simp: svc_update_embedding_def get_llm_model_route_def get_llm_provider_def split: sum.splits option.splits if_splits)
  have id: "lp_id p = lr_provider_id r" by (rule routes_okD(1)[OF catalog_soundD(1)[OF ok] *(3)])
  have fits: "route_fits (model_protocol (lp_type p)) r" using catalog_soundD(3)[OF ok *(1)] *(3) by (auto simp: route_sound_def)
  note f = plan_embedding_facts[OF *(4) catalog_soundD(2)[OF ok *(3)] *(2) fits]
  show ?thesis unfolding *(5) by (rule write_embedding_sound[OF ok _ f(1-4) _ f(6,7)]) (use *(3) id f(5) in simp_all)
qed

section \<open>The switch and the reset\<close>

lemma index_lock_fits:
  assumes ok: "catalog_sound m" and l: "index_lock_of rid m = Inr l"
  shows "lock_fits l (am_llm_providers m) (am_llm_models m)" "ml_route_id l = rid"
proof -
  from l obtain r p where *: "mget (am_llm_models m) rid = Some r" "mget (am_llm_providers m) (lr_provider_id r) = Some p"
    "l = \<lparr>ml_route_id = lr_id r, ml_provider_id = lr_provider_id r, ml_model = trim_space (lr_real_model r),
      ml_base_url = trim_slashes (trim_space (lp_base_url p)), ml_dimension = lr_embedding_dimension r\<rparr>"
    by (auto simp: index_lock_of_def get_llm_model_route_def get_llm_provider_def split: option.splits)
  moreover have "lr_id r = rid" by (rule routes_okD(2)[OF catalog_soundD(1)[OF ok] *(1)])
  ultimately show "lock_fits l (am_llm_providers m) (am_llm_models m)" "ml_route_id l = rid" by (auto simp: lock_fits_def)
qed

lemma fitting_lock:
  assumes ok: "catalog_sound m" and l: "get_memory_index_lock m = Inr l"
  shows "index_lock_of (ml_route_id l) m = Inr l"
proof -
  from l have d: "ml_dimension l \<noteq> 0" "am_memory_index_lock m = l" by (auto simp: lock_eval)
  with catalog_soundD(4)[OF ok] obtain r p where *: "mget (am_llm_models m) (ml_route_id l) = Some r"
    "mget (am_llm_providers m) (ml_provider_id l) = Some p" "lr_provider_id r = ml_provider_id l"
    "trim_space (lr_real_model r) = ml_model l" "lr_embedding_dimension r = ml_dimension l"
    "trim_slashes (trim_space (lp_base_url p)) = ml_base_url l" unfolding lock_fits_def by blast
  moreover have "lr_id r = ml_route_id l" by (rule routes_okD(2)[OF catalog_soundD(1)[OF ok] *(1)])
  ultimately show ?thesis by (simp add: index_lock_of_def get_llm_model_route_def get_llm_provider_def)
qed

lemma plan_memory_facts:
  assumes "plan_memory G X now inp m = Inr (c, l)"
  shows "mg_enabled c \<Longrightarrow> index_lock_of (mg_embedding_model_route_id c) m = Inr l" "\<not> mg_resetting c"
  using assms by (auto simp: plan_memory_def plan_enable_def config_of_input_def Let_def split: if_splits sum.splits option.splits)

lemma write_memory_sound:
  assumes ok: "catalog_sound m" and l: "mg_enabled c \<Longrightarrow> index_lock_of (mg_embedding_model_route_id c) m = Inr l"
  shows "catalog_sound (snd (write_memory G e (c, l) m))"
proof -
  have snd: "snd (write_memory G e (c, l) m) = snd (update_memory_config c e l m)"
    by (cases "update_memory_config c e l m") (auto simp: write_memory_def Let_def split: sum.split)
  have parts: "models_ok m" "\<And>k p. mget (am_llm_providers m) k = Some p \<Longrightarrow> provider_sound p"
    "\<And>k r. mget (am_llm_models m) k = Some r \<Longrightarrow> route_sound (am_llm_providers m) r" using catalog_soundD[OF ok] by blast+
  show ?thesis
  proof (cases "config_refused (c, l) e m")
    case True
    then show ?thesis using store_config_cases(1)[OF True, of "()"] ok
      by (cases "update_memory_config c e l m") (auto simp: snd store_config_def accepted_def split: sum.splits)
  next
    case False
    let ?n = "m\<lparr>am_memory_config := c\<lparr>mg_version := int64 (e + 1)\<rparr>, am_memory_index_lock := (if mg_enabled c then l else am_memory_index_lock m)\<rparr>"
    have "snd (update_memory_config c e l m) = ?n"
      using store_config_cases(2)[OF False, of "()"]
      by (cases "update_memory_config c e l m") (auto simp: store_config_def accepted_def split: sum.splits)
    moreover have "ml_dimension l \<noteq> 0" if "mg_enabled c" using False that by (auto simp: config_refused_def lock_incomplete_def)
    then have "catalog_sound ?n" using index_lock_fits[OF ok l] catalog_soundD(4)[OF ok] parts
      by (auto simp: catalog_sound_def on_locked_def)
    ultimately show ?thesis unfolding snd by simp
  qed
qed

lemma svc_update_memory_sound:
  assumes "catalog_sound m"
  shows "catalog_sound (snd (svc_update_memory G X now inp m))"
proof (cases "plan_memory G X now inp m")
  case (Inr cl)
  obtain c l where "cl = (c, l)" by (cases cl)
  with Inr plan_memory_facts(1)[of G X now inp m c l] write_memory_sound[OF assms] show ?thesis by (simp add: svc_update_memory_def)
qed (simp add: svc_update_memory_def assms)

text \<open>A reset ends after its first round: either an account is left, or none is.\<close>

lemma reset_rounds_eval:
  "reset_rounds deleted m = (let ts = list_memory_reset_accounts m; n = fold complete_memory_reset_account (filter deleted ts) m
     in (if list_all deleted ts then Inr () else Inl (RemoteErr ''reset''), n))"
proof -
  let ?ts = "list_memory_reset_accounts m"
  let ?n = "fold complete_memory_reset_account (filter deleted ?ts) m"
  show ?thesis
  proof (cases "list_all deleted ?ts")
    case True
    then have "filter deleted ?ts = ?ts" by (simp add: list_all_iff filter_id_conv)
    then have "mitems (am_memory_reset_accounts ?n) = []"
      unfolding reset_accounts_after by (force simp: list_memory_reset_accounts_def filter_empty_conv)
    then have none: "list_memory_reset_accounts ?n = []" by (simp add: list_memory_reset_accounts_def)
    have "reset_rounds deleted ?n = (Inr (), ?n)"
      unfolding reset_rounds.simps[of deleted ?n] none by simp
    with True show ?thesis by (simp add: reset_rounds.simps[of deleted m] reset_round_def Let_def)
  next
    case False
    then show ?thesis by (auto simp: reset_rounds.simps[of deleted m] reset_round_def Let_def)
  qed
qed

lemma fold_accounts_same:
  "\<exists>accounts. fold complete_memory_reset_account ts m = m\<lparr>am_memory_reset_accounts := accounts\<rparr>"
proof (induction ts arbitrary: m)
  case Nil
  show ?case by (intro exI[of _ "am_memory_reset_accounts m"]) simp
next
  case (Cons t ts)
  obtain as where "fold complete_memory_reset_account ts (complete_memory_reset_account t m) =
      (complete_memory_reset_account t m)\<lparr>am_memory_reset_accounts := as\<rparr>" using Cons by blast
  then show ?case by (intro exI[of _ as]) (simp add: complete_memory_reset_account_def[of t m])
qed

end
