(* ===== verification/Model_Properties.thy ===== *)
theory Model_Properties
  imports Model_Laws
begin

text \<open>
  The model catalog and the user memory over every sequence of operations of administrators, and what a reset
  of the memory leaves.
\<close>

section \<open>Sequences of operations\<close>

datatype model_op =
    Create_Provider model_env gtime provider_input
  | Update_Provider model_env gtime string provider_input
  | Delete_Provider model_env string
  | Create_Model model_env "gtime \<times> gtime" string model_input
  | Update_Model model_env gtime string model_input
  | Delete_Model model_env string
  | Set_Default_Model model_env gtime string
  | Create_Embedding model_env probe_net gtime "string \<times> string" embedding_input
  | Update_Embedding model_env probe_net "gtime \<times> gtime" string embedding_input
  | Update_Memory model_env probe_net gtime memory_input
  | Reset_Memory model_env bool "string \<Rightarrow> bool" string gtime

primrec model_exec :: "model_op \<Rightarrow> admin_memory \<Rightarrow> admin_memory" where
  "model_exec (Create_Provider G now inp) m = snd (svc_create_provider G now inp m)"
| "model_exec (Update_Provider G now pid inp) m = snd (svc_update_provider G now pid inp m)"
| "model_exec (Delete_Provider G pid) m = snd (svc_delete_provider G pid m)"
| "model_exec (Create_Model G clock new_id inp) m = snd (svc_create_model G clock new_id inp m)"
| "model_exec (Update_Model G now rid inp) m = snd (svc_update_model G now rid inp m)"
| "model_exec (Delete_Model G rid) m = snd (svc_delete_model G rid m)"
| "model_exec (Set_Default_Model G now rid) m = snd (svc_set_default_model G now rid m)"
| "model_exec (Create_Embedding G X now ids inp) m = snd (svc_create_embedding G X now ids inp m)"
| "model_exec (Update_Embedding G X clock rid inp) m = snd (svc_update_embedding G X clock rid inp m)"
| "model_exec (Update_Memory G X now inp) m = snd (svc_update_memory G X now inp m)"
| "model_exec (Reset_Memory G configured deleted actor now) m = snd (svc_reset_memory G configured deleted actor now m)"

text \<open>Everything else that happens in the store leaves the catalog alone; the gateway registers accounts to delete.\<close>

definition same_catalog :: "admin_memory \<Rightarrow> admin_memory \<Rightarrow> bool" where
  "same_catalog m n \<longleftrightarrow> am_llm_providers n = am_llm_providers m \<and> am_llm_models n = am_llm_models m \<and>
     am_memory_config n = am_memory_config m \<and> am_memory_index_lock n = am_memory_index_lock m"

inductive models_reach :: "admin_memory \<Rightarrow> bool" where
  models_new: "models_reach new_admin_memory"
| models_step: "models_reach m \<Longrightarrow> models_reach (model_exec op m)"
| models_other: "\<lbrakk>models_reach m; same_catalog m n\<rbrakk> \<Longrightarrow> models_reach n"

lemma begin_reset_sound: "catalog_sound m \<Longrightarrow> catalog_sound (begin_memory_reset actor now m)"
  by (auto simp: catalog_sound_def begin_memory_reset_def on_locked_def Let_def)

lemma reset_memory_eval:
  "svc_reset_memory G True deleted actor now m =
     (let ts = list_memory_reset_accounts m; n = fold complete_memory_reset_account (filter deleted ts) (begin_memory_reset actor now m) in
      if list_all deleted ts
      then (let n = n\<lparr>am_memory_index_lock := memory_index_lock_zero, am_memory_config := (am_memory_config n)\<lparr>mg_resetting := False\<rparr>\<rparr>
            in (Inr (get_memory_view G n), n))
      else (Inl (RemoteErr ''reset''), n))"
proof -
  have ts: "list_memory_reset_accounts (begin_memory_reset actor now m) = list_memory_reset_accounts m"
    by (simp add: list_memory_reset_accounts_def begin_memory_reset_def Let_def)
  have "mitems (am_memory_reset_accounts (fold complete_memory_reset_account (filter deleted (list_memory_reset_accounts m))
      (begin_memory_reset actor now m))) = []" if "list_all deleted (list_memory_reset_accounts m)"
  proof -
    from that have "filter deleted (list_memory_reset_accounts m) = list_memory_reset_accounts m" by (simp add: list_all_iff filter_id_conv)
    then show ?thesis unfolding reset_accounts_after
      by (force simp: list_memory_reset_accounts_def begin_memory_reset_def Let_def filter_empty_conv)
  qed
  then show ?thesis unfolding svc_reset_memory_def reset_rounds_eval ts by (simp add: Let_def complete_memory_reset_def)
qed

lemma reset_memory_sound:
  assumes "catalog_sound m"
  shows "catalog_sound (snd (svc_reset_memory G configured deleted actor now m))"
proof (cases configured)
  case True
  let ?b = "begin_memory_reset actor now m"
  let ?ts = "list_memory_reset_accounts m"
  obtain as where n: "fold complete_memory_reset_account (filter deleted ?ts) ?b = ?b\<lparr>am_memory_reset_accounts := as\<rparr>"
    using fold_accounts_same by blast
  have b: "catalog_sound ?b" by (rule begin_reset_sound[OF assms])
  have off: "\<not> mg_enabled (am_memory_config ?b)" by (simp add: begin_memory_reset_def Let_def)
  have half: "catalog_sound (?b\<lparr>am_memory_reset_accounts := as\<rparr>)" by (rule catalog_sound_cong[OF b]) simp_all
  then have "catalog_sound (?b\<lparr>am_memory_reset_accounts := as, am_memory_index_lock := memory_index_lock_zero,
      am_memory_config := (am_memory_config ?b)\<lparr>mg_resetting := False\<rparr>\<rparr>)"
    using off by (simp add: catalog_sound_def lock_fits_def on_locked_def memory_index_lock_zero_def)
  with True half show ?thesis by (simp add: reset_memory_eval n Let_def)
qed (simp add: svc_reset_memory_def assms)

lemma model_exec_sound: "catalog_sound m \<Longrightarrow> catalog_sound (model_exec op m)"
  by (cases op) (simp_all add: svc_providers_sound svc_models_sound set_default_sound svc_create_embedding_sound
      svc_update_embedding_sound svc_update_memory_sound reset_memory_sound)

lemma models_reach_sound: "models_reach m \<Longrightarrow> catalog_sound m"
proof (induction rule: models_reach.induct)
  case models_new
  show ?case by (simp add: catalog_sound_def new_admin_memory_def routes_ok_def lock_fits_def on_locked_def memory_config_zero_def
        memory_index_lock_zero_def)
next
  case (models_other m n)
  then show ?case using catalog_sound_cong unfolding same_catalog_def by blast
qed (rule model_exec_sound)

text \<open>
  C34. While operations of administrators do not overlap, however they change the catalog, a stored provider has an
  id, a name, a known type, an icon, and, while it is switched on, an address and a key; and a stored route belongs to
  a stored provider, whose type fixes its protocol, its efforts, and whether it has a dimension and is hidden.
\<close>

theorem stored_models_typed:
  assumes "models_reach m"
  shows "(\<forall>k p. mget (am_llm_providers m) k = Some p \<longrightarrow> provider_sound p) \<and>
    (\<forall>k r. mget (am_llm_models m) k = Some r \<longrightarrow> (\<exists>p. mget (am_llm_providers m) (lr_provider_id r) = Some p \<and>
       route_fits (model_protocol (lp_type p)) r))"
  using catalog_soundD(2,3)[OF models_reach_sound[OF assms]] unfolding route_sound_def by blast

text \<open>
  C35. While operations do not overlap, the index lock of the user memory is always the lock of the embedding model
  that is stored under its id: same provider, model name, dimension and address. And while the memory is on, that is
  the model it is configured with. So vectors of two models never meet in one index.
\<close>

theorem index_has_one_model:
  assumes "models_reach m"
  shows "(\<forall>l. get_memory_index_lock m = Inr l \<longrightarrow> index_lock_of (ml_route_id l) m = Inr l) \<and>
    (mg_enabled (get_memory_config m) \<longrightarrow>
      (\<exists>l. get_memory_index_lock m = Inr l \<and> ml_route_id l = mg_embedding_model_route_id (get_memory_config m)))"
proof -
  have ok: "catalog_sound m" by (rule models_reach_sound[OF assms])
  have "on_locked (am_memory_config m) (am_memory_index_lock m)" by (rule catalog_soundD(5)[OF ok])
  then have "mg_enabled (get_memory_config m) \<longrightarrow>
      (\<exists>l. get_memory_index_lock m = Inr l \<and> ml_route_id l = mg_embedding_model_route_id (get_memory_config m))"
    unfolding on_locked_def lock_eval get_memory_config_def by blast
  with fitting_lock[OF ok] show ?thesis by blast
qed

text \<open>
  C36. When an embedding model is edited between the checks that turn the memory on and the write, the write still goes
  through and the index is locked to a model that is no longer stored: nothing in the write looks at the model again.
\<close>

theorem enabled_over_edited_model:
  assumes "plan_memory G X now inp m = Inr (c, l)" "mg_enabled c" "\<not> lock_incomplete c l"
    "am_memory_config n = am_memory_config m" "am_memory_index_lock n = memory_index_lock_zero"
    "index_lock_of (ml_route_id l) n \<noteq> Inr l"
  shows "\<exists>v n'. write_memory G (mmi_expected_version inp) (c, l) n = (Inr v, n') \<and> get_memory_index_lock n' = Inr l \<and>
    index_lock_of (ml_route_id l) n' \<noteq> Inr l"
proof -
  let ?n = "n\<lparr>am_memory_index_lock := l, am_memory_config := c\<lparr>mg_version := int64 (mmi_expected_version inp + 1)\<rparr>\<rparr>"
  have "mg_version (am_memory_config m) = mmi_expected_version inp" "\<not> mg_resetting (am_memory_config m)"
    using assms(1) by (auto simp: plan_memory_def get_memory_config_def Let_def split: if_splits)
  then have up: "update_memory_config c (mmi_expected_version inp) l n = (Inr (c\<lparr>mg_version := int64 (mmi_expected_version inp + 1)\<rparr>), ?n)"
    using assms(2-5) by (simp add: update_memory_config_def memory_index_lock_zero_def Let_def)
  have "ml_dimension l \<noteq> 0" using assms(3) by (auto simp: lock_incomplete_def)
  moreover have "index_lock_of (ml_route_id l) ?n = index_lock_of (ml_route_id l) n"
    by (simp add: index_lock_of_def get_llm_model_route_def get_llm_provider_def split: sum.split option.split)
  ultimately show ?thesis using assms(6) by (simp add: write_memory_def up get_memory_index_lock_def Let_def)
qed

text \<open>
  C37. A reset of the memory returns after one round over the accounts: it strikes out exactly the accounts that were
  deleted, leaves the memory off, and ends the reset with an empty lock if no account is left; otherwise the reset
  stays open, and repeating it goes on with the accounts that are left. (So it is over the in-process store, which
  hands out all accounts at once; PostgreSQL hands them out by the hundred and waits for captures of messages.)
\<close>

theorem reset_makes_progress:
  "let n = snd (svc_reset_memory G True deleted actor now m); ts = list_memory_reset_accounts m
   in list_memory_reset_accounts n = filter (\<lambda>t. \<not> deleted t) ts \<and> \<not> mg_enabled (get_memory_config n) \<and>
      (mg_resetting (get_memory_config n) \<longleftrightarrow> \<not> list_all deleted ts) \<and>
      get_memory_index_lock n = (if list_all deleted ts then Inl StoreNotFound else get_memory_index_lock m)"
proof -
  let ?b = "begin_memory_reset actor now m"
  let ?ts = "list_memory_reset_accounts m"
  let ?n = "fold complete_memory_reset_account (filter deleted ?ts) ?b"
  obtain as where n: "?n = ?b\<lparr>am_memory_reset_accounts := as\<rparr>" using fold_accounts_same by blast
  have b: "\<not> mg_enabled (am_memory_config ?b)" "mg_resetting (am_memory_config ?b)" "am_memory_reset_accounts ?b = am_memory_reset_accounts m"
    "am_memory_index_lock ?b = am_memory_index_lock m"
    by (simp_all add: begin_memory_reset_def Let_def)
  have "mitems as = filter (\<lambda>(t, _). t \<notin> set (filter deleted ?ts)) (mitems (am_memory_reset_accounts m))"
    using reset_accounts_after[of "filter deleted ?ts" ?b] unfolding n b by simp
  also have "\<dots> = filter (\<lambda>x. \<not> deleted (fst x)) (mitems (am_memory_reset_accounts m))"
    by (rule filter_cong) (force simp: list_memory_reset_accounts_def)+
  finally have "sort (map fst (mitems as)) = sort (filter (\<lambda>t. \<not> deleted t) (map fst (mitems (am_memory_reset_accounts m))))"
    by (simp add: filter_map comp_def)
  then have left: "list_memory_reset_accounts k = filter (\<lambda>t. \<not> deleted t) ?ts" if "am_memory_reset_accounts k = as" for k
    using that by (simp add: list_memory_reset_accounts_def filter_sort)
  have "snd (svc_reset_memory G True deleted actor now m) = (if list_all deleted ?ts
      then ?b\<lparr>am_memory_reset_accounts := as, am_memory_index_lock := memory_index_lock_zero,
        am_memory_config := (am_memory_config ?b)\<lparr>mg_resetting := False\<rparr>\<rparr> else ?b\<lparr>am_memory_reset_accounts := as\<rparr>)"
    by (simp add: reset_memory_eval n Let_def)
  then show ?thesis using b left
    by (cases "list_all deleted ?ts") (simp_all add: Let_def get_memory_config_def get_memory_index_lock_def memory_index_lock_zero_def)
qed

section \<open>A catalog with the memory on\<close>

definition sample_models_env :: model_env where
  "sample_models_env = \<lparr>me_service = \<lparr>se_location = (\<lambda>_. None), se_json = (\<lambda>_. None), se_lower = (\<lambda>s. s),
       se_compare = (\<lambda>_ _. False), se_marshal = (\<lambda>_. [])\<rparr>,
     me_url = (\<lambda>s. if has_prefix s ''https://'' then Some \<lparr>mu_scheme = ''https'', mu_host = drop 8 s, mu_hostname = drop 8 s, mu_user = False,
       mu_path = [], mu_raw_query = [], mu_fragment = []\<rparr> else None),
     me_url_text = (\<lambda>u. mu_scheme u @ ''://'' @ mu_host u @ mu_path u), me_secret = ''s'', me_seal = (\<lambda>_ p. Some p),
     me_open = (\<lambda>_ c. Some c), me_dimension = 3\<rparr>"

definition sample_net :: probe_net where
  "sample_net = \<lparr>pn_embed = (\<lambda>_ _ _. Reply 200 (Some [[True, True, True]])), pn_latency = 1, pn_generate = (\<lambda>_ _ _. True), pn_viking = True\<rparr>"

definition claude_provider :: provider_input where
  "claude_provider = \<lparr>pin_id = ''A'', pin_name = ''A'', pin_type = ''anthropic'', pin_base_url = ''https://x'', pin_api_key = Some ''k'',
     pin_icon_type = [], pin_icon_slug = [], pin_icon_url = [], pin_enabled = None, pin_actor = ''root''\<rparr>"

definition claude_model :: model_input where
  "claude_model = \<lparr>min_alias = ''C'', min_provider_id = ''a'', min_real_model = ''claude'', min_label = [], min_icon_type = ''simple-icons'',
     min_icon_slug = ''claude'', min_icon_url = [], min_enabled = None, min_visible = None, min_is_default = True, min_sort_order = 0,
     min_embedding_dimension = 0, min_server_web_tools_enabled = None, min_actor = ''root''\<rparr>"

definition embed_form :: "string \<Rightarrow> string \<Rightarrow> embedding_input" where
  "embed_form model url = \<lparr>ein_model = model, ein_base_url = url, ein_api_key = Some ''k'', ein_actor = ''root''\<rparr>"

definition memory_form :: "bool \<Rightarrow> int \<Rightarrow> memory_input" where
  "memory_form on v = \<lparr>mmi_enabled = on, mmi_extraction_route_id = ''g'', mmi_embedding_route_id = ''embedding-r'', mmi_expected_version = v,
     mmi_actor = ''root''\<rparr>"

definition models3 :: admin_memory where
  "models3 = model_exec (Create_Embedding sample_models_env sample_net 1 (''p'', ''r'') (embed_form ''e'' ''https://y''))
     (model_exec (Create_Model sample_models_env (1, 1) ''g'' claude_model)
        (model_exec (Create_Provider sample_models_env 1 claude_provider) new_admin_memory))"

definition models4 :: admin_memory where
  "models4 = model_exec (Update_Memory sample_models_env sample_net 2 (memory_form False 0)) models3"

definition models5 :: admin_memory where
  "models5 = model_exec (Update_Memory sample_models_env sample_net 3 (memory_form True 1)) models4"

definition sample_lock :: memory_index_lock where
  "sample_lock = \<lparr>ml_route_id = ''embedding-r'', ml_provider_id = ''embedding-p'', ml_model = ''e'', ml_base_url = ''https://y'', ml_dimension = 3\<rparr>"

lemma models_samples_reach: "models_reach models4" "models_reach models5"
  unfolding models5_def models4_def models3_def by (intro models_step models_new)+

lemma models5_lock: "get_memory_index_lock models5 = Inr sample_lock" "mg_enabled (get_memory_config models5)"
  by code_simp+

lemma stored_models_typed_witness: "\<exists>p. mget (am_llm_providers models5) ''a'' = Some p \<and> provider_sound p \<and> lp_enabled p"
proof -
  have "(case mget (am_llm_providers models5) ''a'' of None \<Rightarrow> False | Some p \<Rightarrow> lp_enabled p)" by code_simp
  then obtain p where p: "mget (am_llm_providers models5) ''a'' = Some p" "lp_enabled p" by (cases "mget (am_llm_providers models5) ''a''") auto
  with stored_models_typed[OF models_samples_reach(2)] show ?thesis by blast
qed

lemma index_has_one_model_witness: "index_lock_of ''embedding-r'' models5 = Inr sample_lock"
proof -
  have "index_lock_of (ml_route_id sample_lock) models5 = Inr sample_lock"
    using index_has_one_model[OF models_samples_reach(2)] models5_lock(1) by blast
  then show ?thesis by (simp add: sample_lock_def)
qed

lemma enabled_over_edited_model_witness:
  "\<exists>v n. write_memory sample_models_env 1 ((config_of_input 3 (memory_form True 1)), sample_lock)
      (model_exec (Update_Embedding sample_models_env sample_net (3, 3) ''embedding-r'' (embed_form ''e2'' ''https://z'')) models4) = (Inr v, n) \<and>
     get_memory_index_lock n = Inr sample_lock \<and> index_lock_of ''embedding-r'' n \<noteq> Inr sample_lock"
    (is "\<exists>v n. write_memory _ _ (?c, _) ?edited = _ \<and> _")
proof -
  have plan: "plan_memory sample_models_env sample_net 3 (memory_form True 1) models4 = Inr (?c, sample_lock)" by code_simp
  have on: "mg_enabled ?c" "\<not> lock_incomplete ?c sample_lock" by code_simp+
  have same: "am_memory_config ?edited = am_memory_config models4" "am_memory_index_lock ?edited = memory_index_lock_zero" by code_simp+
  have "index_lock_of (ml_route_id sample_lock) ?edited \<noteq> Inr sample_lock" by code_simp
  from enabled_over_edited_model[OF plan on same this] show ?thesis by (simp add: memory_form_def sample_lock_def)
qed

end
