(* ===== verification/Scm_Broker.thy ===== *)
theory Scm_Broker
  imports Token_Service
begin

text \<open>
  The source-control broker of the gateway (\<open>gateway/internal/project/broker.go\<close>), its credential
  (\<open>crypto.go\<close>) and the statements it runs on the tables \<open>scm_broker_runs\<close>, \<open>scm_approvals\<close> and
  \<open>scm_token_leases\<close> (\<open>postgres.go\<close>), each of which is one statement on rows found by equality.
  Parameters are \<open>uuid.Parse\<close>, the SHA-256 of the JSON text of a command, the Unicode case table, AES-GCM, the
  rows of workspaces, registrations and connections, and what GitHub answers. Audit rows are written and never
  read here; they are left out.
\<close>

section \<open>Types\<close>

datatype broker_error =
    BrokerDisabled | BrokerNotFound | BrokerConflict | BrokerInvalid | BrokerConnectionRequired
  | BrokerApprovalRequired | BrokerApprovalDenied | BrokerRunInactive | BrokerRemote

type_synonym permissions = "(string, string) gomap"

record broker_claims =
  bc_tenant_id :: string
  bc_user_id :: string
  bc_conversation_id :: string
  bc_run_id :: string
  bc_project_id :: string
  bc_repository_id :: int
  bc_repository_name :: string
  bc_installation_id :: int
  bc_registration_id :: string
  bc_task_branch :: string
  bc_expires_at :: int

record broker_command =
  bq_operation :: string
  bq_arguments :: "string list"
  bq_declared :: "string list"
  bq_request_id :: string

record classified =
  cc_category :: string
  cc_label :: string
  cc_permissions :: permissions
  cc_high_risk :: bool

record broker_decision =
  bd_status :: string
  bd_lease_id :: string
  bd_token :: string
  bd_expires_at :: gtime
  bd_approval_id :: string
  bd_category :: string
  bd_label :: string
  bd_permissions :: permissions

record scm_approval =
  sa_id :: string
  sa_tenant_id :: string
  sa_user_id :: string
  sa_conversation_id :: string
  sa_run_id :: string
  sa_project_id :: string
  sa_repository_id :: int
  sa_digest :: string
  sa_category :: string
  sa_label :: string
  sa_permissions :: permissions
  sa_status :: string
  sa_expires_at :: gtime
  sa_decided_at :: "gtime option"
  sa_created_at :: gtime
  sa_updated_at :: gtime

record token_lease =
  tl_id :: string
  tl_approval_id :: string
  tl_tenant_id :: string
  tl_user_id :: string
  tl_conversation_id :: string
  tl_run_id :: string
  tl_project_id :: string
  tl_repository_id :: int
  tl_category :: string
  tl_permissions :: permissions
  tl_ciphertext :: string
  tl_expires_at :: gtime
  tl_revoked_at :: "gtime option"
  tl_created_at :: gtime

record broker_run =
  br_tenant_id :: string
  br_user_id :: string
  br_conversation_id :: string
  br_run_id :: string
  br_project_id :: string
  br_repository_id :: int
  br_registration_id :: string
  br_expires_at :: gtime
  br_revoked_at :: "gtime option"
  br_created_at :: gtime

record scm_store =
  ss_runs :: "(string, broker_run) gomap"
  ss_approvals :: "(string, scm_approval) gomap"
  ss_leases :: "(string, token_lease) gomap"

record broker_env =
  be_jwt :: jwt_env
  be_key :: "string option"
  be_enabled :: bool
  be_lower :: "string \<Rightarrow> string"
  be_uuid :: "string \<Rightarrow> bool"
  be_digest :: "string \<Rightarrow> string list \<Rightarrow> string \<Rightarrow> string"

section \<open>The credential\<close>

definition broker_members :: "broker_claims \<Rightarrow> (string \<times> json) list" where
  "broker_members c = [(''tenant_id'', JString (bc_tenant_id c)), (''user_id'', JString (bc_user_id c)),
     (''conversation_id'', JString (bc_conversation_id c)), (''run_id'', JString (bc_run_id c)),
     (''project_id'', JString (bc_project_id c)), (''repository_id'', JNumber (itoa (bc_repository_id c))),
     (''repository_full_name'', JString (bc_repository_name c)), (''installation_id'', JNumber (itoa (bc_installation_id c))),
     (''registration_id'', JString (bc_registration_id c)), (''task_branch'', JString (bc_task_branch c)),
     (''expires_at'', JNumber (itoa (bc_expires_at c)))]"

definition decode_broker_claims :: "jwt_env \<Rightarrow> string \<Rightarrow> broker_claims option" where
  "decode_broker_claims J s = do {
     es \<leftarrow> (case jw_json J s of Some (JObject es) \<Rightarrow> Some es | Some JNull \<Rightarrow> Some [] | _ \<Rightarrow> None);
     ten \<leftarrow> read_str ''tenant_id'' es [];
     usr \<leftarrow> read_str ''user_id'' es [];
     cnv \<leftarrow> read_str ''conversation_id'' es [];
     rn \<leftarrow> read_str ''run_id'' es [];
     prj \<leftarrow> read_str ''project_id'' es [];
     repo \<leftarrow> read_int ''repository_id'' es 0;
     name \<leftarrow> read_str ''repository_full_name'' es [];
     inst \<leftarrow> read_int ''installation_id'' es 0;
     reg \<leftarrow> read_str ''registration_id'' es [];
     branch \<leftarrow> read_str ''task_branch'' es [];
     ex \<leftarrow> read_int ''expires_at'' es 0;
     Some \<lparr>bc_tenant_id = ten, bc_user_id = usr, bc_conversation_id = cnv, bc_run_id = rn, bc_project_id = prj,
       bc_repository_id = repo, bc_repository_name = name, bc_installation_id = inst, bc_registration_id = reg,
       bc_task_branch = branch, bc_expires_at = ex\<rparr>
   }"

definition broker_mac :: "jwt_env \<Rightarrow> string \<Rightarrow> string \<Rightarrow> string" where
  "broker_mac J key payload = jw_hmac J key (''cocola.scm.broker.v1'' @ [CHR 0x00] @ payload)"

definition sign_broker_credential :: "jwt_env \<Rightarrow> string \<Rightarrow> broker_claims \<Rightarrow> string" where
  "sign_broker_credential J key c =
     (let payload = object_text J (broker_members c) in b64_encode payload @ ''.'' @ b64_encode (broker_mac J key payload))"

definition broker_claims_valid :: "gtime \<Rightarrow> broker_claims \<Rightarrow> bool" where
  "broker_claims_valid now c \<longleftrightarrow> \<not> (bc_user_id c = [] \<or> bc_conversation_id c = [] \<or> bc_run_id c = [] \<or> bc_project_id c = [] \<or>
     bc_repository_id c \<le> 0 \<or> bc_installation_id c \<le> 0 \<or> bc_registration_id c = [] \<or> bc_expires_at c < unix_of now)"

definition open_broker_credential :: "jwt_env \<Rightarrow> string \<Rightarrow> gtime \<Rightarrow> string \<Rightarrow> broker_claims option" where
  "open_broker_credential J key now value =
     (case split_dots value of
        [p, sig] \<Rightarrow> (case b64_decode p of
            None \<Rightarrow> None
          | Some payload \<Rightarrow> (case b64_decode sig of
                None \<Rightarrow> None
              | Some mac \<Rightarrow>
                  if mac \<noteq> broker_mac J key payload then None
                  else (case decode_broker_claims J payload of
                          None \<Rightarrow> None | Some c \<Rightarrow> if broker_claims_valid now c then Some c else None)))
      | _ \<Rightarrow> None)"

definition verify_broker_credential :: "broker_env \<Rightarrow> gtime \<Rightarrow> string \<Rightarrow> broker_error + broker_claims" where
  "verify_broker_credential B now value =
     (case be_key B of
        None \<Rightarrow> Inl BrokerDisabled
      | Some key \<Rightarrow> (case open_broker_credential (be_jwt B) key now (trim_space value) of
                       None \<Rightarrow> Inl BrokerInvalid | Some c \<Rightarrow> Inr c))"

section \<open>What a command needs\<close>

definition go_lower :: "broker_env \<Rightarrow> string \<Rightarrow> string" where
  "go_lower B s = (if list_all (\<lambda>c. byte c < 128) s then map ascii_lower s else be_lower B s)"

primrec cut_equals :: "string \<Rightarrow> (string \<times> string) option" where
  "cut_equals [] = None"
| "cut_equals (c # cs) = (if c = CHR ''='' then Some ([], cs) else map_option (\<lambda>(a, b). (c # a, b)) (cut_equals cs))"

definition declarable_permissions :: "string list" where
  "declarable_permissions = [''actions'', ''administration'', ''checks'', ''contents'', ''deployments'', ''environments'', ''issues'',
     ''metadata'', ''packages'', ''pages'', ''pull_requests'', ''repository_hooks'', ''secret_scanning_alerts'', ''secrets'',
     ''security_events'', ''statuses'', ''variables'', ''vulnerability_alerts'', ''workflows'']"

fun parse_declared :: "broker_env \<Rightarrow> string list \<Rightarrow> permissions \<Rightarrow> permissions option" where
  "parse_declared B [] acc = Some acc"
| "parse_declared B (v # vs) acc =
     (case cut_equals (go_lower B (trim_space v)) of
        None \<Rightarrow> None
      | Some (name, level) \<Rightarrow>
          if name \<notin> set declarable_permissions \<or> (level \<noteq> ''read'' \<and> level \<noteq> ''write'') then None
          else parse_declared B vs (mput acc name level))"

definition declared_permissions :: "broker_env \<Rightarrow> string list \<Rightarrow> permissions option" where
  "declared_permissions B vs = (case parse_declared B vs mnil of None \<Rightarrow> None | Some p \<Rightarrow> if mitems p = [] then None else Some p)"

abbreviation needs :: "string \<Rightarrow> string \<Rightarrow> permissions" where "needs name level \<equiv> mput mnil name level"

definition classify_git_push :: "string list \<Rightarrow> string \<Rightarrow> classified option" where
  "classify_git_push argv branch =
     (if hd argv \<noteq> ''push'' then None
      else if has_prefix branch ''cocola/task-'' \<and> argv = [''push'', ''origin'', ''HEAD:refs/heads/'' @ branch]
      then Some \<lparr>cc_category = ''git_push'', cc_label = ''Push the current Project task branch'',
             cc_permissions = needs ''contents'' ''write'', cc_high_risk = False\<rparr>
      else Some \<lparr>cc_category = ''git_push'', cc_label = ''Run a non-task-branch Git push'',
             cc_permissions = needs ''contents'' ''write'', cc_high_risk = True\<rparr>)"

definition read_actions :: "string list" where
  "read_actions = [''list'', ''view'', ''status'', ''checks'', ''diff'', ''watch'', ''download'']"

definition write_actions :: "string list" where
  "write_actions = [''create'', ''edit'', ''comment'', ''close'', ''reopen'', ''ready'', ''review'', ''rerun'', ''cancel'', ''run'', ''upload'']"

definition destructive_actions :: "string list" where
  "destructive_actions = [''merge'', ''delete'', ''archive'', ''rename'', ''set-default'', ''add'', ''remove'']"

definition gh_resources :: "(string \<times> string) list" where
  "gh_resources = [(''repo'', ''contents''), (''pr'', ''pull_requests''), (''issue'', ''issues''), (''run'', ''actions''),
     (''workflow'', ''actions''), (''release'', ''contents''), (''cache'', ''actions'')]"

definition settings_permission :: "string \<Rightarrow> string" where
  "settings_permission root = (if root = ''secret'' then ''secrets'' else if root = ''variable'' then ''variables''
     else if root = ''webhook'' then ''repository_hooks'' else ''administration'')"

definition classify_declared :: "broker_env \<Rightarrow> string \<Rightarrow> string list \<Rightarrow> classified option" where
  "classify_declared B label declared =
     map_option (\<lambda>p. \<lparr>cc_category = ''gh_custom'', cc_label = ''Run a declared GitHub operation ('' @ trim_space label @ '')'',
       cc_permissions = p, cc_high_risk = True\<rparr>) (declared_permissions B declared)"

definition gh_action :: "broker_env \<Rightarrow> string list \<Rightarrow> string" where
  "gh_action B argv = (case argv of _ # a # _ \<Rightarrow> if has_prefix a ''-'' then [] else go_lower B a | _ \<Rightarrow> [])"

definition classify_resource :: "broker_env \<Rightarrow> string \<Rightarrow> string \<Rightarrow> string \<Rightarrow> string list \<Rightarrow> classified option" where
  "classify_resource B root action resource declared =
     (if action \<in> set read_actions \<or> root = ''repo'' \<and> action = []
      then Some \<lparr>cc_category = ''gh_'' @ root @ ''_read'', cc_label = ''Read GitHub repository data'',
             cc_permissions = needs resource ''read'', cc_high_risk = False\<rparr>
      else if action \<in> set destructive_actions
      then Some \<lparr>cc_category = ''gh_'' @ root @ ''_admin'', cc_label = ''Run a destructive repository operation'',
             cc_permissions = needs resource ''write'', cc_high_risk = True\<rparr>
      else if action \<in> set write_actions
      then Some \<lparr>cc_category = ''gh_'' @ root @ ''_write'', cc_label = ''Update GitHub repository data'',
             cc_permissions = needs resource ''write'', cc_high_risk = False\<rparr>
      else classify_declared B (root @ '' '' @ action) declared)"

definition classify_gh :: "broker_env \<Rightarrow> string list \<Rightarrow> string list \<Rightarrow> classified option" where
  "classify_gh B argv declared =
     (let root = go_lower B (hd argv); action = gh_action B argv in
      if root = ''api''
      then map_option (\<lambda>p. \<lparr>cc_category = ''gh_api'', cc_label = ''Run a write-capable GitHub API request'', cc_permissions = p,
             cc_high_risk = True\<rparr>) (declared_permissions B declared)
      else if root = ''repo'' \<and> (action = ''edit'' \<or> action \<in> set destructive_actions)
      then Some \<lparr>cc_category = ''gh_repo_admin'', cc_label = ''Modify repository settings'',
             cc_permissions = needs ''administration'' ''write'', cc_high_risk = True\<rparr>
      else if root \<in> {''secret'', ''variable'', ''key'', ''webhook'', ''ruleset''}
      then Some \<lparr>cc_category = ''gh_'' @ root, cc_label = ''Modify sensitive repository settings'',
             cc_permissions = needs (settings_permission root) ''write'', cc_high_risk = True\<rparr>
      else (case map_of gh_resources root of
              None \<Rightarrow> classify_declared B root declared
            | Some resource \<Rightarrow> classify_resource B root action resource declared))"

definition argument_ok :: "string \<Rightarrow> bool" where
  "argument_ok s \<longleftrightarrow> s \<noteq> [] \<and> \<not> list_ex (\<lambda>c. c \<in> {CHR 0x00, CHR 0x0D, CHR 0x0A}) s \<and> length s \<le> 4096"

definition classify_command :: "broker_env \<Rightarrow> broker_command \<Rightarrow> string \<Rightarrow> (classified \<times> string) option" where
  "classify_command B q branch =
     (let operation = go_lower B (trim_space (bq_operation q)); rid = trim_space (bq_request_id q);
          argv = map trim_space (bq_arguments q)
      in if \<not> be_uuid B rid \<or> \<not> list_all argument_ok argv then None
         else if (operation \<noteq> ''gh'' \<and> operation \<noteq> ''git'') \<or> argv = [] \<or> length argv > 128 then None
         else (let digest = be_digest B operation argv rid
               in map_option (\<lambda>c. (c, digest))
                    (if operation = ''git'' then classify_git_push argv branch else classify_gh B argv (bq_declared q))))"

section \<open>The rows\<close>

record scm_identity =
  si_tenant_id :: string
  si_user_id :: string

type_synonym 'a scm_result = "(broker_error + 'a) \<times> scm_store"

definition run_row_active :: "broker_claims \<Rightarrow> gtime \<Rightarrow> scm_store \<Rightarrow> bool" where
  "run_row_active c now S =
     (case mget (ss_runs S) (bc_run_id c) of
        None \<Rightarrow> False
      | Some r \<Rightarrow> br_tenant_id r = bc_tenant_id c \<and> br_user_id r = bc_user_id c \<and> br_conversation_id r = bc_conversation_id c \<and>
          br_project_id r = bc_project_id c \<and> br_repository_id r = bc_repository_id c \<and>
          br_registration_id r = bc_registration_id c \<and> br_revoked_at r = None \<and> br_expires_at r \<ge> now)"

definition same_broker_run :: "broker_run \<Rightarrow> broker_run \<Rightarrow> bool" where
  "same_broker_run a b \<longleftrightarrow> br_tenant_id a = br_tenant_id b \<and> br_user_id a = br_user_id b \<and>
     br_conversation_id a = br_conversation_id b \<and> br_project_id a = br_project_id b \<and>
     br_repository_id a = br_repository_id b \<and> br_registration_id a = br_registration_id b"

definition save_broker_run :: "broker_run \<Rightarrow> scm_store \<Rightarrow> unit scm_result" where
  "save_broker_run r S =
     (case mget (ss_runs S) (br_run_id r) of
        None \<Rightarrow> (Inr (), S\<lparr>ss_runs := mput (ss_runs S) (br_run_id r) r\<rparr>)
      | Some old \<Rightarrow>
          if same_broker_run old r \<and> br_revoked_at old = None
          then (Inr (), S\<lparr>ss_runs := mput (ss_runs S) (br_run_id r) (old\<lparr>br_expires_at := max (br_expires_at old) (br_expires_at r)\<rparr>)\<rparr>)
          else (Inl BrokerConflict, S))"

definition revoke_run_row :: "scm_identity \<Rightarrow> string \<Rightarrow> gtime \<Rightarrow> scm_store \<Rightarrow> unit scm_result" where
  "revoke_run_row i rid now S =
     (case mget (ss_runs S) rid of
        None \<Rightarrow> (Inl BrokerNotFound, S)
      | Some r \<Rightarrow>
          if br_tenant_id r \<noteq> si_tenant_id i \<or> br_user_id r \<noteq> si_user_id i then (Inl BrokerNotFound, S)
          else (Inr (), S\<lparr>ss_runs := mput (ss_runs S) rid (r\<lparr>br_revoked_at :=
                  Some (case br_revoked_at r of None \<Rightarrow> now | Some t \<Rightarrow> t)\<rparr>)\<rparr>))"

definition approval_for :: "string \<Rightarrow> string \<Rightarrow> scm_store \<Rightarrow> scm_approval option" where
  "approval_for rn digest S = find (\<lambda>a. sa_run_id a = rn \<and> sa_digest a = digest) (mvals (ss_approvals S))"

text \<open>The row of the run and the digest, or a new one; a taken id is an error of the table.\<close>

definition get_or_create_approval :: "scm_approval \<Rightarrow> scm_store \<Rightarrow> scm_approval scm_result" where
  "get_or_create_approval a S =
     (case approval_for (sa_run_id a) (sa_digest a) S of
        Some old \<Rightarrow> (Inr old, S)
      | None \<Rightarrow>
          if mget (ss_approvals S) (sa_id a) \<noteq> None then (Inl BrokerRemote, S)
          else (let a = a\<lparr>sa_status := ''pending'', sa_decided_at := None\<rparr>
                in (Inr a, S\<lparr>ss_approvals := mput (ss_approvals S) (sa_id a) a\<rparr>)))"

definition approval_of :: "scm_identity \<Rightarrow> string \<Rightarrow> scm_store \<Rightarrow> scm_approval option" where
  "approval_of i aid S = (case mget (ss_approvals S) aid of
     None \<Rightarrow> None | Some a \<Rightarrow> if sa_tenant_id a = si_tenant_id i \<and> sa_user_id a = si_user_id i then Some a else None)"

definition put_approval :: "scm_approval \<Rightarrow> scm_store \<Rightarrow> scm_store" where
  "put_approval a S = S\<lparr>ss_approvals := mput (ss_approvals S) (sa_id a) a\<rparr>"

definition decide_approval_row :: "scm_identity \<Rightarrow> string \<Rightarrow> string \<Rightarrow> gtime \<Rightarrow> scm_store \<Rightarrow> scm_approval scm_result" where
  "decide_approval_row i aid decision now S =
     (if decision \<noteq> ''approved'' \<and> decision \<noteq> ''denied'' then (Inl BrokerInvalid, S)
      else (case approval_of i aid S of
              None \<Rightarrow> (Inl BrokerNotFound, S)
            | Some a \<Rightarrow>
                if sa_status a = ''pending'' \<and> sa_expires_at a \<ge> now
                then (let b = a\<lparr>sa_status := decision, sa_decided_at := Some now, sa_updated_at := now\<rparr> in (Inr b, put_approval b S))
                else if sa_status a = decision then (Inr a, S)
                else (Inl BrokerConflict, S)))"

definition claim_approval :: "scm_identity \<Rightarrow> string \<Rightarrow> gtime \<Rightarrow> scm_store \<Rightarrow> scm_approval scm_result" where
  "claim_approval i aid now S =
     (case approval_of i aid S of
        None \<Rightarrow> (Inl BrokerNotFound, S)
      | Some a \<Rightarrow>
          if sa_status a = ''approved'' \<and> sa_expires_at a \<ge> now
          then (let b = a\<lparr>sa_status := ''consumed'', sa_updated_at := now\<rparr> in (Inr b, put_approval b S))
          else (Inl BrokerNotFound, S))"

definition expire_approval :: "scm_identity \<Rightarrow> string \<Rightarrow> gtime \<Rightarrow> scm_store \<Rightarrow> scm_approval scm_result" where
  "expire_approval i aid now S =
     (case approval_of i aid S of
        None \<Rightarrow> (Inl BrokerNotFound, S)
      | Some a \<Rightarrow>
          if (sa_status a = ''pending'' \<or> sa_status a = ''approved'') \<and> sa_expires_at a < now
          then (let b = a\<lparr>sa_status := ''expired'', sa_updated_at := now\<rparr> in (Inr b, put_approval b S))
          else (Inr a, S))"

end
