(* ===== verification/Scm_Lease.thy ===== *)
theory Scm_Lease
  imports Scm_Broker
begin

text \<open>
  The operations of the broker: the credential of a run, the token for one command, and the end of both. An
  operation reads the clock where the code does; each reading is an argument.
\<close>

section \<open>What the operations read and ask\<close>

text \<open>The columns of a workspace with its project, and of a connection, that the broker looks at.\<close>

record broker_workspace =
  bw_conversation_id :: string
  bw_branch :: string
  bw_project_id :: string
  bw_project_status :: string
  bw_provider :: string
  bw_repository_id :: int
  bw_repository_owner :: string
  bw_repository_name :: string
  bw_installation_id :: int

record broker_connection =
  bn_status :: string
  bn_registration_id :: string
  bn_installation_id :: int

record scm_reads =
  rd_workspace :: "scm_identity \<Rightarrow> string \<Rightarrow> broker_error + broker_workspace"
  rd_registration :: "scm_identity \<Rightarrow> broker_error + string"
  rd_connection :: "scm_identity \<Rightarrow> broker_error + broker_connection"
  rd_installation :: "scm_identity \<Rightarrow> broker_workspace \<Rightarrow> broker_error + broker_workspace \<times> broker_connection"

datatype revoke_reply = Revoked | RevokeStatus int | RevokeFailed

record scm_net =
  nt_client :: bool
  nt_token :: "int \<Rightarrow> int \<Rightarrow> permissions \<Rightarrow> (string \<times> gtime) option"
  nt_seal :: "string \<Rightarrow> string \<Rightarrow> string option"
  nt_open :: "string \<Rightarrow> string \<Rightarrow> string option"
  nt_revoke :: "string \<Rightarrow> revoke_reply"

definition project_ready :: "broker_workspace \<Rightarrow> bool" where
  "project_ready w \<longleftrightarrow> \<not> (bw_project_status w \<noteq> ''ready'' \<or> bw_repository_id w \<le> 0 \<or> bw_installation_id w \<le> 0) \<and> bw_provider w = ''github''"

abbreviation claims_owner :: "broker_claims \<Rightarrow> scm_identity" where
  "claims_owner c \<equiv> \<lparr>si_tenant_id = bc_tenant_id c, si_user_id = bc_user_id c\<rparr>"

section \<open>The credential of a run\<close>

definition claims_of_run ::
  "gtime \<Rightarrow> scm_identity \<Rightarrow> string \<Rightarrow> string \<Rightarrow> broker_workspace \<Rightarrow> broker_claims" where
  "claims_of_run now i rn registration w = \<lparr>bc_tenant_id = si_tenant_id i, bc_user_id = si_user_id i,
     bc_conversation_id = bw_conversation_id w, bc_run_id = rn, bc_project_id = bw_project_id w,
     bc_repository_id = bw_repository_id w, bc_repository_name = bw_repository_owner w @ ''/'' @ bw_repository_name w,
     bc_installation_id = bw_installation_id w, bc_registration_id = registration, bc_task_branch = bw_branch w,
     bc_expires_at = unix_of (now + 12 * 3600 * 1000000000)\<rparr>"

definition run_of_claims :: "gtime \<Rightarrow> broker_claims \<Rightarrow> broker_run" where
  "run_of_claims now c = \<lparr>br_tenant_id = bc_tenant_id c, br_user_id = bc_user_id c, br_conversation_id = bc_conversation_id c,
     br_run_id = bc_run_id c, br_project_id = bc_project_id c, br_repository_id = bc_repository_id c,
     br_registration_id = bc_registration_id c, br_expires_at = time_unix (bc_expires_at c), br_revoked_at = None, br_created_at = now\<rparr>"

definition issue_broker_credential ::
  "broker_env \<Rightarrow> scm_reads \<Rightarrow> gtime \<Rightarrow> scm_identity \<Rightarrow> string \<Rightarrow> string \<Rightarrow> scm_store \<Rightarrow> string scm_result" where
  "issue_broker_credential B R now i conversation rn S =
     (if \<not> be_enabled B then (Inl BrokerDisabled, S)
      else if trim_space rn = [] then (Inl BrokerInvalid, S)
      else (case rd_workspace R i conversation of
              Inl e \<Rightarrow> (Inl e, S)
            | Inr w \<Rightarrow>
                if \<not> project_ready w then (Inl BrokerInvalid, S)
                else (case rd_installation R i w of
                        Inl e \<Rightarrow> (Inl e, S)
                      | Inr (w, n) \<Rightarrow>
                          (case rd_registration R i of
                             Inl _ \<Rightarrow> (Inl BrokerConnectionRequired, S)
                           | Inr g \<Rightarrow>
                               if bn_status n \<noteq> ''ready'' \<or> bn_registration_id n \<noteq> g \<or> bn_installation_id n \<noteq> bw_installation_id w
                               then (Inl BrokerConnectionRequired, S)
                               else (case be_key B of
                                       None \<Rightarrow> (Inl BrokerDisabled, S)
                                     | Some key \<Rightarrow>
                                         (let c = claims_of_run now i rn g w in
                                          case save_broker_run (run_of_claims now c) S of
                                            (Inl e, S) \<Rightarrow> (Inl e, S)
                                          | (Inr _, S) \<Rightarrow> (Inr (sign_broker_credential (be_jwt B) key c), S)))))))"

section \<open>A token for a command\<close>

text \<open>What must hold before the command itself is looked at.\<close>

definition run_checks :: "scm_reads \<Rightarrow> gtime \<Rightarrow> broker_claims \<Rightarrow> scm_store \<Rightarrow> broker_error option" where
  "run_checks R started c S =
     (let i = claims_owner c in
      if \<not> run_row_active c started S then Some BrokerRunInactive
      else if (case rd_workspace R i (bc_conversation_id c) of
                 Inl _ \<Rightarrow> True
               | Inr w \<Rightarrow> bw_project_id w \<noteq> bc_project_id c \<or> bw_branch w \<noteq> bc_task_branch c \<or> \<not> project_ready w \<or>
                   bw_repository_id w \<noteq> bc_repository_id c \<or> bw_installation_id w \<noteq> bc_installation_id c) then Some BrokerRunInactive
      else if (case rd_registration R i of Inl _ \<Rightarrow> True | Inr g \<Rightarrow> g \<noteq> bc_registration_id c) then Some BrokerConnectionRequired
      else if (case rd_connection R i of
                 Inl _ \<Rightarrow> True
               | Inr n \<Rightarrow> bn_status n \<noteq> ''ready'' \<or> bn_registration_id n \<noteq> bc_registration_id c \<or>
                   bn_installation_id n \<noteq> bc_installation_id c) then Some BrokerConnectionRequired
      else None)"

definition admit_command ::
  "broker_env \<Rightarrow> scm_reads \<Rightarrow> gtime \<Rightarrow> string \<Rightarrow> broker_command \<Rightarrow> scm_store \<Rightarrow> broker_error + broker_claims \<times> classified \<times> string" where
  "admit_command B R started credential q S =
     (if \<not> be_enabled B then Inl BrokerDisabled
      else (case verify_broker_credential B started credential of
              Inl e \<Rightarrow> Inl e
            | Inr c \<Rightarrow>
                (case run_checks R started c S of
                   Some e \<Rightarrow> Inl e
                 | None \<Rightarrow>
                     (case classify_command B q (bc_task_branch c) of
                        None \<Rightarrow> Inl BrokerInvalid | Some (cls, digest) \<Rightarrow> Inr (c, cls, digest)))))"

definition decision_of :: "string \<Rightarrow> string \<Rightarrow> classified \<Rightarrow> broker_decision" where
  "decision_of status aid cls = \<lparr>bd_status = status, bd_lease_id = [], bd_token = [], bd_expires_at = 0, bd_approval_id = aid,
     bd_category = cc_category cls, bd_label = cc_label cls, bd_permissions = cc_permissions cls\<rparr>"

type_synonym refusal = "broker_error \<times> broker_decision option"

definition new_approval :: "gtime \<Rightarrow> string \<Rightarrow> broker_claims \<Rightarrow> classified \<Rightarrow> string \<Rightarrow> scm_approval" where
  "new_approval now aid c cls digest = \<lparr>sa_id = aid, sa_tenant_id = bc_tenant_id c, sa_user_id = bc_user_id c,
     sa_conversation_id = bc_conversation_id c, sa_run_id = bc_run_id c, sa_project_id = bc_project_id c,
     sa_repository_id = bc_repository_id c, sa_digest = digest, sa_category = cc_category cls, sa_label = cc_label cls,
     sa_permissions = cc_permissions cls, sa_status = ''pending'', sa_expires_at = now + 5 * 60 * 1000000000,
     sa_decided_at = None, sa_created_at = now, sa_updated_at = now\<rparr>"

text \<open>An approval that is there: only an approved one that is not too old lets the command through, once.\<close>

definition use_approval :: "broker_claims \<Rightarrow> classified \<Rightarrow> gtime \<Rightarrow> scm_approval \<Rightarrow> scm_store \<Rightarrow> (refusal + string) \<times> scm_store" where
  "use_approval c cls now a S =
     (let i = claims_owner c in
      if sa_expires_at a < now \<and> sa_status a = ''pending''
      then (case expire_approval i (sa_id a) now S of
              (Inl _, S) \<Rightarrow> (Inl (BrokerApprovalDenied, Some (decision_of ''expired'' [] cls)), S)
            | (Inr b, S) \<Rightarrow> (Inl (BrokerApprovalDenied, Some (decision_of ''expired'' (sa_id b) cls)), S))
      else if sa_status a = ''pending'' then (Inl (BrokerApprovalRequired, Some (decision_of ''pending'' (sa_id a) cls)), S)
      else if sa_status a = ''approved''
      then (case claim_approval i (sa_id a) now S of
              (Inr _, S) \<Rightarrow> (Inr (sa_id a), S)
            | (Inl e, S) \<Rightarrow>
                (case expire_approval i (sa_id a) now S of
                   (r, S) \<Rightarrow>
                     if (case r of Inl _ \<Rightarrow> False | Inr b \<Rightarrow> sa_status b = ''expired'')
                     then (Inl (BrokerApprovalDenied, Some (decision_of ''expired'' (sa_id a) cls)), S)
                     else if e \<noteq> BrokerNotFound then (Inl (e, None), S)
                     else (Inl (BrokerApprovalDenied, Some (decision_of ''consumed'' (sa_id a) cls)), S)))
      else if sa_status a \<in> {''denied'', ''expired'', ''consumed''}
      then (Inl (BrokerApprovalDenied, Some (decision_of (sa_status a) (sa_id a) cls)), S)
      else (Inl (BrokerConflict, None), S))"

definition approval_gate ::
  "broker_claims \<Rightarrow> classified \<Rightarrow> string \<Rightarrow> string \<Rightarrow> gtime \<Rightarrow> scm_store \<Rightarrow> (refusal + string) \<times> scm_store" where
  "approval_gate c cls digest new_id now S =
     (if \<not> cc_high_risk cls then (Inr [], S)
      else (case get_or_create_approval (new_approval now new_id c cls digest) S of
              (Inl e, S) \<Rightarrow> (Inl (e, None), S)
            | (Inr a, S) \<Rightarrow> use_approval c cls now a S))"

definition join_colons :: "string list \<Rightarrow> string" where
  "join_colons ss = tl (concat (map (\<lambda>s. CHR '':'' # s) ss))"

definition lease_aad :: "token_lease \<Rightarrow> string" where
  "lease_aad l = join_colons [''cocola'', ''scm'', ''github'', tl_tenant_id l, tl_user_id l, ''run'', tl_run_id l, ''lease'', tl_id l]"

definition new_lease :: "broker_claims \<Rightarrow> classified \<Rightarrow> string \<Rightarrow> string \<Rightarrow> gtime \<Rightarrow> gtime \<Rightarrow> token_lease" where
  "new_lease c cls lid aid ex now = \<lparr>tl_id = lid, tl_approval_id = aid, tl_tenant_id = bc_tenant_id c, tl_user_id = bc_user_id c,
     tl_conversation_id = bc_conversation_id c, tl_run_id = bc_run_id c, tl_project_id = bc_project_id c,
     tl_repository_id = bc_repository_id c, tl_category = cc_category cls, tl_permissions = cc_permissions cls, tl_ciphertext = [],
     tl_expires_at = ex, tl_revoked_at = None, tl_created_at = now\<rparr>"

definition issue_lease ::
  "scm_net \<Rightarrow> broker_claims \<Rightarrow> classified \<Rightarrow> string \<Rightarrow> string \<Rightarrow> gtime \<Rightarrow> scm_store \<Rightarrow> (refusal + broker_decision) \<times> scm_store" where
  "issue_lease N c cls aid lid now S =
     (if \<not> nt_client N then (Inl (BrokerRemote, None), S)
      else (case nt_token N (bc_installation_id c) (bc_repository_id c) (cc_permissions cls) of
              None \<Rightarrow> (Inl (BrokerRemote, None), S)
            | Some (tok, ex) \<Rightarrow>
                (let l = new_lease c cls lid aid ex now in
                 case nt_seal N tok (lease_aad l) of
                   None \<Rightarrow> (Inl (BrokerRemote, None), S)
                 | Some sealed \<Rightarrow>
                     if mget (ss_leases S) lid \<noteq> None then (Inl (BrokerRemote, None), S)
                     else (Inr ((decision_of ''ready'' aid cls)\<lparr>bd_lease_id := lid, bd_token := tok, bd_expires_at := ex\<rparr>),
                           S\<lparr>ss_leases := mput (ss_leases S) lid (l\<lparr>tl_ciphertext := sealed\<rparr>)\<rparr>))))"

record broker_clock =
  bk_started :: gtime
  bk_gate :: gtime
  bk_lease :: gtime
  bk_approval_id :: string
  bk_lease_id :: string

definition acquire_token_lease ::
  "broker_env \<Rightarrow> scm_reads \<Rightarrow> scm_net \<Rightarrow> broker_clock \<Rightarrow> string \<Rightarrow> broker_command \<Rightarrow> scm_store \<Rightarrow> (refusal + broker_decision) \<times> scm_store" where
  "acquire_token_lease B R N K credential q S =
     (case admit_command B R (bk_started K) credential q S of
        Inl e \<Rightarrow> (Inl (e, None), S)
      | Inr (c, cls, digest) \<Rightarrow>
          (case approval_gate c cls digest (bk_approval_id K) (bk_gate K) S of
             (Inl r, S) \<Rightarrow> (Inl r, S)
           | (Inr aid, S) \<Rightarrow> issue_lease N c cls aid (bk_lease_id K) (bk_lease K) S))"

section \<open>The end of leases and runs\<close>

definition lease_of :: "scm_identity \<Rightarrow> string \<Rightarrow> string \<Rightarrow> scm_store \<Rightarrow> token_lease option" where
  "lease_of i rn lid S = (case mget (ss_leases S) lid of
     None \<Rightarrow> None
   | Some l \<Rightarrow> if tl_tenant_id l = si_tenant_id i \<and> tl_user_id l = si_user_id i \<and> tl_run_id l = rn \<and> tl_revoked_at l = None
               then Some l else None)"

definition mark_lease_revoked :: "scm_identity \<Rightarrow> string \<Rightarrow> string \<Rightarrow> gtime \<Rightarrow> scm_store \<Rightarrow> scm_store" where
  "mark_lease_revoked i rn lid now S = (case lease_of i rn lid S of
     None \<Rightarrow> S | Some l \<Rightarrow> S\<lparr>ss_leases := mput (ss_leases S) lid (l\<lparr>tl_revoked_at := Some now\<rparr>)\<rparr>)"

definition revoke_lease :: "scm_net \<Rightarrow> scm_identity \<Rightarrow> gtime \<Rightarrow> token_lease \<Rightarrow> scm_store \<Rightarrow> broker_error option \<times> scm_store" where
  "revoke_lease N i now l S =
     (case nt_open N (tl_ciphertext l) (lease_aad l) of
        None \<Rightarrow> (Some BrokerRemote, S)
      | Some tok \<Rightarrow>
          if nt_revoke N tok \<in> {Revoked, RevokeStatus 404, RevokeStatus 401}
          then (None, mark_lease_revoked i (tl_run_id l) (tl_id l) now S)
          else (Some BrokerRemote, S))"

definition revoke_token_lease ::
  "broker_env \<Rightarrow> scm_reads \<Rightarrow> scm_net \<Rightarrow> gtime \<Rightarrow> string \<Rightarrow> string \<Rightarrow> string \<Rightarrow> scm_store \<Rightarrow> broker_error option \<times> scm_store" where
  "revoke_token_lease B R N now credential lid outcome S =
     (if \<not> be_uuid B lid \<or> go_lower B (trim_space outcome) \<notin> {[], ''success'', ''failed'', ''unknown''} then (Some BrokerInvalid, S)
      else (case verify_broker_credential B now credential of
              Inl e \<Rightarrow> (Some e, S)
            | Inr c \<Rightarrow>
                (case lease_of (claims_owner c) (bc_run_id c) lid S of
                   None \<Rightarrow> (None, S)
                 | Some l \<Rightarrow>
                     (case rd_registration R (claims_owner c) of
                        Inl e \<Rightarrow> (Some e, S)
                      | Inr _ \<Rightarrow> if \<not> nt_client N then (Some BrokerRemote, S) else revoke_lease N (claims_owner c) now l S))))"

primrec revoke_each :: "scm_net \<Rightarrow> scm_identity \<Rightarrow> gtime \<Rightarrow> token_lease list \<Rightarrow> scm_store \<Rightarrow> broker_error option \<times> scm_store" where
  "revoke_each N i now [] S = (None, S)"
| "revoke_each N i now (l # ls) S =
     (case revoke_lease N i now l S of
        (e, S) \<Rightarrow> (case revoke_each N i now ls S of (f, S) \<Rightarrow> (if e = None then f else e, S)))"

definition mark_each :: "scm_identity \<Rightarrow> gtime \<Rightarrow> token_lease list \<Rightarrow> scm_store \<Rightarrow> scm_store" where
  "mark_each i now ls S = fold (\<lambda>l. mark_lease_revoked i (tl_run_id l) (tl_id l) now) ls S"

definition revoke_active ::
  "broker_env \<Rightarrow> scm_reads \<Rightarrow> scm_net \<Rightarrow> scm_identity \<Rightarrow> gtime \<Rightarrow> token_lease list \<Rightarrow> scm_store \<Rightarrow> broker_error option \<times> scm_store" where
  "revoke_active B R N i now ls S =
     (if ls = [] then (None, S)
      else if be_key B = None then (None, mark_each i now ls S)
      else (case rd_registration R i of
              Inl e \<Rightarrow> if e = BrokerNotFound then (None, mark_each i now ls S) else (Some e, S)
            | Inr _ \<Rightarrow> if \<not> nt_client N then (Some BrokerRemote, S) else revoke_each N i now ls S))"

definition active_leases :: "scm_identity \<Rightarrow> gtime \<Rightarrow> (token_lease \<Rightarrow> bool) \<Rightarrow> scm_store \<Rightarrow> token_lease list" where
  "active_leases i now P S = filter (\<lambda>l. tl_tenant_id l = si_tenant_id i \<and> tl_user_id l = si_user_id i \<and> P l \<and>
     tl_revoked_at l = None \<and> tl_expires_at l > now) (mvals (ss_leases S))"

definition revoke_run_leases ::
  "broker_env \<Rightarrow> scm_reads \<Rightarrow> scm_net \<Rightarrow> gtime \<Rightarrow> scm_identity \<Rightarrow> string \<Rightarrow> scm_store \<Rightarrow> broker_error option \<times> scm_store" where
  "revoke_run_leases B R N now i rn S =
     (if trim_space rn = [] then (Some BrokerInvalid, S)
      else revoke_active B R N i now (active_leases i now (\<lambda>l. tl_run_id l = rn) S) S)"

definition revoke_project_leases ::
  "broker_env \<Rightarrow> scm_reads \<Rightarrow> scm_net \<Rightarrow> gtime \<Rightarrow> scm_identity \<Rightarrow> string \<Rightarrow> scm_store \<Rightarrow> broker_error option \<times> scm_store" where
  "revoke_project_leases B R N now i project S =
     revoke_active B R N i now (active_leases i now (\<lambda>l. tl_project_id l = project) S) S"

definition revoke_user_leases ::
  "broker_env \<Rightarrow> scm_reads \<Rightarrow> scm_net \<Rightarrow> gtime \<Rightarrow> scm_identity \<Rightarrow> scm_store \<Rightarrow> broker_error option \<times> scm_store" where
  "revoke_user_leases B R N now i S = revoke_active B R N i now (active_leases i now (\<lambda>l. True) S) S"

definition revoke_broker_run :: "gtime \<Rightarrow> scm_identity \<Rightarrow> string \<Rightarrow> scm_store \<Rightarrow> unit scm_result" where
  "revoke_broker_run now i rn S = (if trim_space rn = [] then (Inl BrokerInvalid, S) else revoke_run_row i rn now S)"

definition approval_status :: "broker_env \<Rightarrow> gtime \<Rightarrow> string \<Rightarrow> string \<Rightarrow> scm_store \<Rightarrow> scm_approval scm_result" where
  "approval_status B now credential aid S =
     (case verify_broker_credential B now credential of
        Inl e \<Rightarrow> (Inl e, S)
      | Inr c \<Rightarrow>
          (case mget (ss_approvals S) aid of
             None \<Rightarrow> (Inl BrokerNotFound, S)
           | Some a \<Rightarrow>
               if sa_tenant_id a \<noteq> bc_tenant_id c \<or> sa_user_id a \<noteq> bc_user_id c \<or> sa_run_id a \<noteq> bc_run_id c \<or>
                 sa_conversation_id a \<noteq> bc_conversation_id c \<or> sa_project_id a \<noteq> bc_project_id c \<or> sa_repository_id a \<noteq> bc_repository_id c
               then (Inl BrokerNotFound, S)
               else if sa_status a = ''pending'' \<and> sa_expires_at a < now then expire_approval (claims_owner c) (sa_id a) now S
               else (Inr a, S)))"

definition decide_approval :: "broker_env \<Rightarrow> gtime \<Rightarrow> scm_identity \<Rightarrow> string \<Rightarrow> string \<Rightarrow> scm_store \<Rightarrow> scm_approval scm_result" where
  "decide_approval B now i aid decision S =
     (if \<not> be_uuid B aid then (Inl BrokerInvalid, S) else decide_approval_row i aid decision now S)"

end
