(* ===== verification/Scm_Properties.thy ===== *)
theory Scm_Properties
  imports Scm_Lease Chatrun_Spec Token_Properties
begin

text \<open>
  Properties of the source-control broker: which commands run without a question to the user, what an approval
  is good for, and what it does not cover.
\<close>

section \<open>Commands that need no approval\<close>

lemma declared_is_risky: "classify_declared B label ds = Some c \<Longrightarrow> cc_high_risk c"
  by (auto simp: classify_declared_def)

text \<open>
  C38. A command that is let through without asking the user is either the push of the task branch to itself, or a
  command on one of the seven kinds of GitHub objects: one of the reading actions, or gh repo without an action,
  with a token that reads that kind of object, or one of the writing actions, with a token that writes it. So
  permissions that the caller declares always need an approval.
\<close>

theorem unapproved_commands:
  assumes "classify_command B q branch = Some (c, digest)" "\<not> cc_high_risk c"
  shows "(map trim_space (bq_arguments q) = [''push'', ''origin'', ''HEAD:refs/heads/'' @ branch] \<and>
      has_prefix branch ''cocola/task-'' \<and> cc_permissions c = needs ''contents'' ''write'') \<or>
    (\<exists>resource. map_of gh_resources (go_lower B (hd (map trim_space (bq_arguments q)))) = Some resource \<and>
       ((gh_action B (map trim_space (bq_arguments q)) \<in> set read_actions \<or>
          go_lower B (hd (map trim_space (bq_arguments q))) = ''repo'' \<and> gh_action B (map trim_space (bq_arguments q)) = []) \<and>
         cc_permissions c = needs resource ''read'' \<or>
        gh_action B (map trim_space (bq_arguments q)) \<in> set write_actions \<and> cc_permissions c = needs resource ''write''))"
proof -
  let ?argv = "map trim_space (bq_arguments q)"
  from assms(1) consider (git) "classify_git_push ?argv branch = Some c" | (gh) "classify_gh B ?argv (bq_declared q) = Some c"
    by (auto simp: classify_command_def Let_def split: if_splits)
  then show ?thesis
  proof cases
    case git
    with assms(2) show ?thesis by (auto simp: classify_git_push_def split: if_splits)
  next
    case gh
    then obtain resource where r: "map_of gh_resources (go_lower B (hd ?argv)) = Some resource"
      "classify_resource B (go_lower B (hd ?argv)) (gh_action B ?argv) resource (bq_declared q) = Some c"
      using assms(2) declared_is_risky[of B _ "bq_declared q" c]
      by (auto simp: classify_gh_def Let_def split: if_splits option.splits)
    with assms(2) declared_is_risky[of B _ "bq_declared q" c] show ?thesis
      by (auto simp: classify_resource_def split: if_splits)
  qed
qed

section \<open>Approvals\<close>

definition same_approval :: "scm_approval \<Rightarrow> scm_approval \<Rightarrow> bool" where
  "same_approval a b \<longleftrightarrow> b\<lparr>sa_status := sa_status a, sa_decided_at := sa_decided_at a, sa_updated_at := sa_updated_at a\<rparr> = a"

definition approval_moves :: "(string \<times> string) set" where
  "approval_moves = {(''pending'', ''approved''), (''pending'', ''denied''), (''pending'', ''expired''), (''approved'', ''consumed''), (''approved'', ''expired'')}"

definition approval_edge :: "scm_approval \<Rightarrow> scm_approval \<Rightarrow> bool" where
  "approval_edge a b \<longleftrightarrow> same_approval a b \<and> (sa_status a, sa_status b) \<in> approval_moves"

abbreviation approval_at :: "scm_store \<Rightarrow> string \<Rightarrow> scm_approval option" where "approval_at S k \<equiv> mget (ss_approvals S) k"

text \<open>One change of the table: a new approval under a fresh id, or one step of an approval that is there.\<close>

definition approval_move :: "scm_store \<Rightarrow> scm_store \<Rightarrow> bool" where
  "approval_move S T \<longleftrightarrow> ss_approvals T = ss_approvals S \<or>
     (\<exists>a. approval_at S (sa_id a) = None \<and> ss_approvals T = mput (ss_approvals S) (sa_id a) a) \<or>
     (\<exists>a b. approval_at S (sa_id a) = Some a \<and> approval_edge a b \<and> ss_approvals T = mput (ss_approvals S) (sa_id a) b)"

lemma same_approval_id: "same_approval a b \<Longrightarrow> sa_id b = sa_id a"
  by (cases a; cases b) (simp add: same_approval_def)

lemma move_entry:
  assumes "approval_move S T" "approval_at S k = Some e"
  shows "\<exists>e'. approval_at T k = Some e' \<and> (e' = e \<or> approval_edge e e')"
  using assms(1) unfolding approval_move_def
proof (elim disjE exE conjE)
  fix a assume "approval_at S (sa_id a) = None" "ss_approvals T = mput (ss_approvals S) (sa_id a) a"
  with assms(2) show ?thesis by (cases "k = sa_id a") (simp_all add: gm.get_put)
next
  fix a b assume "approval_at S (sa_id a) = Some a" "approval_edge a b" "ss_approvals T = mput (ss_approvals S) (sa_id a) b"
  with assms(2) show ?thesis by (cases "k = sa_id a") (simp_all add: gm.get_put)
qed (use assms(2) in simp)

interpretation approvals: lifecycle approval_move approval_at approval_edge
  by unfold_locales (rule move_entry)

definition approvals_keyed :: "scm_store \<Rightarrow> bool" where
  "approvals_keyed S \<longleftrightarrow> (\<forall>k a. approval_at S k = Some a \<longrightarrow> sa_id a = k)"

lemma move_keyed:
  assumes "approval_move S T" "approvals_keyed S"
  shows "approvals_keyed T"
  using assms(1) unfolding approval_move_def
proof (elim disjE exE conjE, goal_cases)
  case (3 a b)
  moreover have "sa_id b = sa_id a" using 3 same_approval_id unfolding approval_edge_def by blast
  ultimately show ?case using assms(2) by (metis approvals_keyed_def gm.get_put option.inject)
qed (use assms(2) in \<open>metis approvals_keyed_def gm.get_put option.inject\<close>)+

lemma put_approval_edge:
  assumes "approvals_keyed S" "approval_at S k = Some a" "approval_edge a b"
  shows "approval_move S (put_approval b S)"
proof -
  have "sa_id a = k" "sa_id b = sa_id a" using assms same_approval_id unfolding approvals_keyed_def approval_edge_def by blast+
  with assms(2,3) show ?thesis unfolding approval_move_def put_approval_def by auto
qed

lemma approval_step_to:
  "sa_status a = s \<Longrightarrow> (s, t) \<in> approval_moves \<Longrightarrow> approval_edge a (a\<lparr>sa_status := t, sa_updated_at := u\<rparr>)"
  "sa_status a = s \<Longrightarrow> (s, t) \<in> approval_moves \<Longrightarrow> approval_edge a (a\<lparr>sa_status := t, sa_decided_at := d, sa_updated_at := u\<rparr>)"
  by (simp_all add: approval_edge_def same_approval_def)

lemma approval_of_at: "approval_of i k S = Some a \<Longrightarrow> approval_at S k = Some a"
  by (auto simp: approval_of_def split: option.splits if_splits)

lemma approvals_stay: "approval_move S S" by (simp add: approval_move_def)

lemma expire_moves:
  assumes "approvals_keyed S"
  shows "approval_move S (snd (expire_approval i k now S))"
proof (cases "approval_of i k S")
  case (Some a)
  have "approval_move S (put_approval (a\<lparr>sa_status := ''expired'', sa_updated_at := now\<rparr>) S)"
    if "sa_status a = ''pending'' \<or> sa_status a = ''approved''"
    using that put_approval_edge[OF assms approval_of_at[OF Some]] approval_step_to(1)[of a _ "''expired''" now] by (auto simp: approval_moves_def)
  with Some approvals_stay show ?thesis by (simp add: expire_approval_def Let_def)
qed (simp add: expire_approval_def approvals_stay)

lemma claim_eval:
  "claim_approval i k now S = (case approval_of i k S of
     None \<Rightarrow> (Inl BrokerNotFound, S)
   | Some a \<Rightarrow> if sa_status a = ''approved'' \<and> sa_expires_at a \<ge> now
       then (Inr (a\<lparr>sa_status := ''consumed'', sa_updated_at := now\<rparr>), put_approval (a\<lparr>sa_status := ''consumed'', sa_updated_at := now\<rparr>) S)
       else (Inl BrokerNotFound, S))"
  by (simp add: claim_approval_def Let_def split: option.split)

lemma claim_moves:
  assumes "approvals_keyed S"
  shows "approval_move S (snd (claim_approval i k now S))"
proof (cases "approval_of i k S")
  case (Some a)
  have "approval_move S (put_approval (a\<lparr>sa_status := ''consumed'', sa_updated_at := now\<rparr>) S)" if "sa_status a = ''approved''"
    using that put_approval_edge[OF assms approval_of_at[OF Some]] approval_step_to(1)[of a _ "''consumed''" now] by (auto simp: approval_moves_def)
  with Some approvals_stay show ?thesis by (simp add: claim_eval)
qed (simp add: claim_eval approvals_stay)

lemma decide_moves:
  assumes "approvals_keyed S"
  shows "approval_move S (snd (decide_approval_row i k decision now S))"
proof (cases "approval_of i k S")
  case (Some a)
  have "approval_move S (put_approval (a\<lparr>sa_status := decision, sa_decided_at := Some now, sa_updated_at := now\<rparr>) S)"
    if "sa_status a = ''pending''" "decision = ''approved'' \<or> decision = ''denied''"
    using that put_approval_edge[OF assms approval_of_at[OF Some]] approval_step_to(2)[of a _ decision now "Some now"] by (auto simp: approval_moves_def)
  with Some approvals_stay show ?thesis by (auto simp: decide_approval_row_def Let_def)
qed (simp add: decide_approval_row_def approvals_stay)

lemma create_moves: "approval_move S (snd (get_or_create_approval a S))"
proof (cases "approval_for (sa_run_id a) (sa_digest a) S = None \<and> approval_at S (sa_id a) = None")
  case True
  then show ?thesis unfolding approval_move_def
    by (intro disjI2 disjI1 exI[of _ "a\<lparr>sa_status := ''pending'', sa_decided_at := None\<rparr>"]) (simp add: get_or_create_approval_def Let_def)
qed (auto simp: get_or_create_approval_def approvals_stay split: option.split)

lemma use_moves:
  assumes k: "approvals_keyed S"
  shows "approval_move\<^sup>*\<^sup>* S (snd (use_approval c cls now a S))"
proof -
  let ?i = "claims_owner c"
  have claim: "approval_move S (snd (claim_approval ?i (sa_id a) now S))" by (rule claim_moves[OF k])
  then have k': "approvals_keyed (snd (claim_approval ?i (sa_id a) now S))" using move_keyed k by blast
  have "approval_move\<^sup>*\<^sup>* S (snd (expire_approval ?i (sa_id a) now (snd (claim_approval ?i (sa_id a) now S))))"
    using claim expire_moves[OF k'] by (meson converse_rtranclp_into_rtranclp r_into_rtranclp)
  with claim expire_moves[OF k, of ?i "sa_id a" now] show ?thesis
    unfolding use_approval_def Let_def
    by (cases "expire_approval ?i (sa_id a) now S"; cases "claim_approval ?i (sa_id a) now S";
        cases "expire_approval ?i (sa_id a) now (snd (claim_approval ?i (sa_id a) now S))") (auto split: sum.splits)
qed

lemma gate_moves:
  assumes k: "approvals_keyed S"
  shows "approval_move\<^sup>*\<^sup>* S (snd (approval_gate c cls digest nid now S))"
proof -
  let ?r = "get_or_create_approval (new_approval now nid c cls digest) S"
  have m: "approval_move S (snd ?r)" by (rule create_moves)
  then have "approvals_keyed (snd ?r)" using move_keyed k by blast
  from use_moves[OF this] m show ?thesis
    by (cases ?r) (auto simp: approval_gate_def split: sum.split intro: converse_rtranclp_into_rtranclp)
qed

lemma lease_same: "ss_approvals (snd (issue_lease N c cls aid lid now S)) = ss_approvals S"
  by (auto simp: issue_lease_def Let_def split: option.split)

lemma same_moves: "ss_approvals T = ss_approvals S \<Longrightarrow> approval_move S T" by (simp add: approval_move_def)

section \<open>Sequences of operations\<close>

datatype scm_op =
    Acquire_Token broker_env scm_reads scm_net broker_clock string broker_command
  | Issue_Credential broker_env scm_reads gtime scm_identity string string
  | Decide_Approval broker_env gtime scm_identity string string
  | Ask_Status broker_env gtime string string
  | Revoke_Token broker_env scm_reads scm_net gtime string string string
  | Revoke_Run_Tokens broker_env scm_reads scm_net gtime scm_identity string
  | Revoke_Project_Tokens broker_env scm_reads scm_net gtime scm_identity string
  | Revoke_User_Tokens broker_env scm_reads scm_net gtime scm_identity
  | Revoke_Run gtime scm_identity string

primrec scm_exec :: "scm_op \<Rightarrow> scm_store \<Rightarrow> scm_store" where
  "scm_exec (Acquire_Token B R N K credential q) S = snd (acquire_token_lease B R N K credential q S)"
| "scm_exec (Issue_Credential B R now i conversation rn) S = snd (issue_broker_credential B R now i conversation rn S)"
| "scm_exec (Decide_Approval B now i aid decision) S = snd (decide_approval B now i aid decision S)"
| "scm_exec (Ask_Status B now credential aid) S = snd (approval_status B now credential aid S)"
| "scm_exec (Revoke_Token B R N now credential lid outcome) S = snd (revoke_token_lease B R N now credential lid outcome S)"
| "scm_exec (Revoke_Run_Tokens B R N now i rn) S = snd (revoke_run_leases B R N now i rn S)"
| "scm_exec (Revoke_Project_Tokens B R N now i project) S = snd (revoke_project_leases B R N now i project S)"
| "scm_exec (Revoke_User_Tokens B R N now i) S = snd (revoke_user_leases B R N now i S)"
| "scm_exec (Revoke_Run now i rn) S = snd (revoke_broker_run now i rn S)"

definition empty_scm :: scm_store where "empty_scm = \<lparr>ss_runs = mnil, ss_approvals = mnil, ss_leases = mnil\<rparr>"

definition scm_step :: "scm_store \<Rightarrow> scm_store \<Rightarrow> bool" where "scm_step S T \<longleftrightarrow> (\<exists>op. T = scm_exec op S)"

abbreviation scm_reach :: "scm_store \<Rightarrow> bool" where "scm_reach S \<equiv> scm_step\<^sup>*\<^sup>* empty_scm S"

lemma mark_same: "ss_approvals (mark_lease_revoked i rn lid now S) = ss_approvals S"
  by (simp add: mark_lease_revoked_def split: option.split)

lemma revoke_same: "ss_approvals (snd (revoke_lease N i now l S)) = ss_approvals S"
  by (simp add: revoke_lease_def mark_same split: option.split)

lemma each_same: "ss_approvals (snd (revoke_each N i now ls S)) = ss_approvals S"
proof (induction ls arbitrary: S)
  case (Cons l ls)
  then show ?case using revoke_same[of N i now l S]
    by (cases "revoke_lease N i now l S"; cases "revoke_each N i now ls (snd (revoke_lease N i now l S))") (simp, metis snd_conv)
qed simp

lemma mark_each_same: "ss_approvals (mark_each i now ls S) = ss_approvals S"
  unfolding mark_each_def by (induction ls arbitrary: S) (simp_all add: mark_same)

lemma active_same: "ss_approvals (snd (revoke_active B R N i now ls S)) = ss_approvals S"
  by (simp add: revoke_active_def each_same mark_each_same split: sum.split)

lemma issue_same: "ss_approvals (snd (issue_broker_credential B R now i conversation rn S)) = ss_approvals S"
proof -
  have "ss_approvals (snd (save_broker_run r S)) = ss_approvals S" for r
    by (simp add: save_broker_run_def split: option.split)
  then show ?thesis
    by (auto simp: issue_broker_credential_def Let_def split: sum.split option.split prod.split) (metis snd_conv)+
qed

lemma acquire_moves:
  assumes "approvals_keyed S"
  shows "approval_move\<^sup>*\<^sup>* S (snd (acquire_token_lease B R N K credential q S))"
proof (cases "admit_command B R (bk_started K) credential q S")
  case (Inr x)
  obtain c cls digest where x: "x = (c, cls, digest)" by (cases x)
  let ?g = "approval_gate c cls digest (bk_approval_id K) (bk_gate K) S"
  have g: "approval_move\<^sup>*\<^sup>* S (snd ?g)" by (rule gate_moves[OF assms])
  have "approval_move (snd ?g) (snd (issue_lease N c cls aid (bk_lease_id K) (bk_lease K) (snd ?g)))" for aid
    by (rule same_moves[OF lease_same])
  with g show ?thesis
    by (cases ?g) (auto simp: acquire_token_lease_def Inr x split: sum.split intro: rtranclp.rtrancl_into_rtrancl)
qed (simp add: acquire_token_lease_def)

lemma exec_moves:
  assumes "approvals_keyed S"
  shows "approval_move\<^sup>*\<^sup>* S (scm_exec op S)"
proof (cases op)
  case (Ask_Status B now credential aid)
  then show ?thesis using expire_moves[OF assms] approvals_stay
    by (auto simp: approval_status_def split: sum.split option.split)
next
  case (Decide_Approval B now i aid decision)
  then show ?thesis using decide_moves[OF assms] by (auto simp: decide_approval_def)
next
  case (Acquire_Token B R N K credential q)
  then show ?thesis using acquire_moves[OF assms] by simp
qed (auto intro!: r_into_rtranclp same_moves simp: issue_same revoke_run_leases_def revoke_project_leases_def revoke_user_leases_def
    active_same revoke_same revoke_token_lease_def revoke_broker_run_def revoke_run_row_def split: sum.split option.split)

lemma moves_keyed: "approval_move\<^sup>*\<^sup>* S T \<Longrightarrow> approvals_keyed S \<Longrightarrow> approvals_keyed T"
  by (induction rule: rtranclp_induct) (auto intro: move_keyed)

lemma steps_move:
  assumes "scm_step\<^sup>*\<^sup>* S T" "approvals_keyed S"
  shows "approval_move\<^sup>*\<^sup>* S T \<and> approvals_keyed T"
  using assms
proof (induction rule: rtranclp_induct)
  case (step T U)
  then have T: "approval_move\<^sup>*\<^sup>* S T" "approvals_keyed T" by blast+
  obtain op where "U = scm_exec op T" using step.hyps(2) by (auto simp: scm_step_def)
  with exec_moves[OF T(2)] have "approval_move\<^sup>*\<^sup>* T U" by simp
  with T moves_keyed show ?case by (meson rtranclp_trans)
qed simp

lemma reach_keyed: "scm_reach S \<Longrightarrow> approvals_keyed S"
  using steps_move[of empty_scm S] by (auto simp: approvals_keyed_def empty_scm_def)

lemma final_frozen:
  assumes "sa_status a = ''consumed''"
  shows "\<not> approval_edge a b"
  using assms by (auto simp: approval_edge_def approval_moves_def)

section \<open>What an approval is good for\<close>

lemma claim_took:
  assumes "claim_approval i k now S = (Inr a, T)"
  shows "\<exists>b. approval_at S k = Some b \<and> sa_id b = sa_id a \<and> sa_status b = ''approved'' \<and> sa_status a = ''consumed'' \<and> T = put_approval a S"
  using assms approval_of_at[of i k S] by (auto simp: claim_eval split: option.splits if_splits)

lemma use_took:
  assumes "use_approval c cls now a S = (Inr aid, T)"
  shows "aid = sa_id a \<and> sa_status a = ''approved'' \<and> (\<exists>b. claim_approval (claims_owner c) aid now S = (Inr b, T))"
  using assms unfolding use_approval_def Let_def by (auto split: if_splits prod.splits sum.splits)

lemma passed_gate:
  assumes "approval_gate c cls digest nid now S = (Inr aid, T)" "aid \<noteq> []" "approvals_keyed S"
  shows "(\<exists>a. approval_at S aid = Some a \<and> sa_status a = ''approved'') \<and> (\<exists>b. approval_at T aid = Some b \<and> sa_status b = ''consumed'')"
proof -
  let ?n = "new_approval now nid c cls digest"
  obtain a S' where g: "get_or_create_approval ?n S = (Inr a, S')" and u: "use_approval c cls now a S' = (Inr aid, T)"
    using assms(1,2) by (auto simp: approval_gate_def split: if_splits prod.splits sum.splits)
  from use_took[OF u] obtain b where b: "sa_status a = ''approved''" "claim_approval (claims_owner c) aid now S' = (Inr b, T)" by blast
  then have "S' = S" using g by (auto simp: get_or_create_approval_def Let_def split: option.splits if_splits)
  with claim_took[OF b(2)] obtain a0 where a0: "approval_at S aid = Some a0" "sa_id a0 = sa_id b" "sa_status a0 = ''approved''"
    "sa_status b = ''consumed''" "T = put_approval b S" by blast
  then have "sa_id b = aid" using assms(3) unfolding approvals_keyed_def by metis
  with a0 show ?thesis by (auto simp: put_approval_def gm.get_put)
qed

lemma issued_under:
  assumes "issue_lease N c cls aid lid now S = (Inr d, T)"
  shows "bd_approval_id d = aid \<and> bd_permissions d = cc_permissions cls"
  using assms by (auto simp: issue_lease_def Let_def decision_of_def split: if_splits option.splits)

lemma acquire_took:
  assumes "acquire_token_lease B R N K credential q S = (Inr d, T)" "bd_approval_id d \<noteq> []" "approvals_keyed S"
  shows "(\<exists>a. approval_at S (bd_approval_id d) = Some a \<and> sa_status a = ''approved'') \<and>
    (\<exists>b. approval_at T (bd_approval_id d) = Some b \<and> sa_status b = ''consumed'')"
proof -
  from assms(1) obtain c cls digest aid S' where
    g: "approval_gate c cls digest (bk_approval_id K) (bk_gate K) S = (Inr aid, S')" and
    l: "issue_lease N c cls aid (bk_lease_id K) (bk_lease K) S' = (Inr d, T)"
    by (auto simp: acquire_token_lease_def split: sum.splits prod.splits)
  have T: "ss_approvals T = ss_approvals S'" using lease_same[of N c cls aid "bk_lease_id K" "bk_lease K" S'] by (simp add: l)
  have "aid \<noteq> []" using assms(2) issued_under[OF l] by simp
  from passed_gate[OF g this assms(3)] issued_under[OF l] T show ?thesis by simp
qed

text \<open>
  C39. An approval is good for one token. When a command got its token under an approval, no later command gets one
  under the same approval, whatever the user, the sandbox and the gateway do in between.
\<close>

theorem one_token_per_approval:
  assumes "scm_reach S" "acquire_token_lease B R N K credential q S = (Inr d, T)" "bd_approval_id d \<noteq> []"
    "scm_step\<^sup>*\<^sup>* T U" "acquire_token_lease B' R' N' K' credential' q' U = (Inr d', V)"
  shows "bd_approval_id d' \<noteq> bd_approval_id d"
proof
  assume same: "bd_approval_id d' = bd_approval_id d"
  have k: "approvals_keyed S" using reach_keyed assms(1) .
  have "T = scm_exec (Acquire_Token B R N K credential q) S" using assms(2) by simp
  then have "scm_step S T" unfolding scm_step_def by blast
  then have kT: "approvals_keyed T" using steps_move[OF r_into_rtranclp k] by blast
  from acquire_took[OF assms(2,3) k] obtain b where b: "approval_at T (bd_approval_id d) = Some b" "sa_status b = ''consumed''" by blast
  have U: "approval_move\<^sup>*\<^sup>* T U" "approvals_keyed U" using steps_move[OF assms(4) kT] by blast+
  have "approval_at U (bd_approval_id d) = Some b" by (rule approvals.frozen[OF U(1) b(1) final_frozen[OF b(2)]])
  moreover from acquire_took[OF assms(5) _ U(2)] obtain a where "approval_at U (bd_approval_id d) = Some a" "sa_status a = ''approved''"
    using same assms(3) by auto
  ultimately show False using b(2) by simp
qed

lemma digest_of_command:
  assumes "classify_command B q branch = Some (cls, digest)"
  shows "digest = be_digest B (go_lower B (trim_space (bq_operation q))) (map trim_space (bq_arguments q)) (trim_space (bq_request_id q))"
  using assms by (auto simp: classify_command_def Let_def split: if_splits)

text \<open>
  C40. The approval of a command also lets through the same command with other declared permissions: what was approved
  is found again by the operation, its arguments and the request id alone. The token that is issued carries the
  permissions declared now, not those the user approved.
\<close>

theorem approval_covers_other_permissions:
  assumes "admit_command B R (bk_started K) credential (q\<lparr>bq_declared := ds\<rparr>) S = Inr (c, cls', digest')" "cc_high_risk cls'"
    "classify_command B q (bc_task_branch c) = Some (cls, digest)"
    "approval_for (bc_run_id c) digest S = Some a" "approval_of (claims_owner c) (sa_id a) S = Some a"
    "sa_status a = ''approved''" "bk_gate K \<le> sa_expires_at a"
    "nt_client N" "nt_token N (bc_installation_id c) (bc_repository_id c) (cc_permissions cls') = Some (tok, ex)"
    "nt_seal N tok (lease_aad (new_lease c cls' (bk_lease_id K) (sa_id a) ex (bk_lease K))) = Some sealed"
    "mget (ss_leases S) (bk_lease_id K) = None"
  shows "\<exists>d T. acquire_token_lease B R N K credential (q\<lparr>bq_declared := ds\<rparr>) S = (Inr d, T) \<and> bd_token d = tok \<and>
    bd_approval_id d = sa_id a \<and> bd_permissions d = cc_permissions cls'"
proof -
  have "classify_command B (q\<lparr>bq_declared := ds\<rparr>) (bc_task_branch c) = Some (cls', digest')"
    using assms(1) by (auto simp: admit_command_def split: if_splits sum.splits option.splits)
  then have same: "digest' = digest" using digest_of_command[OF assms(3)] digest_of_command[of B "q\<lparr>bq_declared := ds\<rparr>"] by simp
  have n: "sa_run_id (new_approval now i c cls' g) = bc_run_id c" "sa_digest (new_approval now i c cls' g) = g" for now i g
    by (simp_all add: new_approval_def)
  have g: "get_or_create_approval (new_approval (bk_gate K) (bk_approval_id K) c cls' digest') S = (Inr a, S)"
    by (simp add: get_or_create_approval_def n same assms(4))
  obtain b where cl: "claim_approval (claims_owner c) (sa_id a) (bk_gate K) S = (Inr b, put_approval b S)"
    using assms(5-7) by (simp add: claim_eval)
  have u: "use_approval c cls' (bk_gate K) a S = (Inr (sa_id a), put_approval b S)"
    using assms(6) cl by (simp add: use_approval_def Let_def)
  have "ss_leases (put_approval b S) = ss_leases S" by (simp add: put_approval_def)
  with assms(8-11) show ?thesis
    by (simp add: acquire_token_lease_def assms(1,2) approval_gate_def g u issue_lease_def Let_def decision_of_def)
qed

section \<open>One run\<close>

text \<open>A run of a project with a ready installation; a codec that knows the credential of the run.\<close>

definition scm_workspace :: broker_workspace where
  "scm_workspace = \<lparr>bw_conversation_id = ''c'', bw_branch = ''cocola/task-1'', bw_project_id = ''p'', bw_project_status = ''ready'',
     bw_provider = ''github'', bw_repository_id = 7, bw_repository_owner = ''o'', bw_repository_name = ''r'', bw_installation_id = 8\<rparr>"

definition scm_user :: scm_identity where "scm_user = \<lparr>si_tenant_id = ''t'', si_user_id = ''u''\<rparr>"

definition scm_claims :: broker_claims where "scm_claims = claims_of_run noon scm_user ''run'' ''g'' scm_workspace"

definition scm_env :: broker_env where
  "scm_env = \<lparr>be_jwt = \<lparr>jw_hmac = (\<lambda>k s. k), jw_quote = (\<lambda>s. []), jw_json = (\<lambda>s. Some (JObject (broker_members scm_claims)))\<rparr>,
     be_key = Some ''k'', be_enabled = True, be_lower = id, be_uuid = (\<lambda>s. s \<noteq> []), be_digest = (\<lambda>operation argv r. operation @ concat argv @ r)\<rparr>"

definition scm_rows :: scm_reads where
  "scm_rows = \<lparr>rd_workspace = (\<lambda>_ _. Inr scm_workspace), rd_registration = (\<lambda>_. Inr ''g''),
     rd_connection = (\<lambda>_. Inr \<lparr>bn_status = ''ready'', bn_registration_id = ''g'', bn_installation_id = 8\<rparr>),
     rd_installation = (\<lambda>_ w. Inr (w, \<lparr>bn_status = ''ready'', bn_registration_id = ''g'', bn_installation_id = 8\<rparr>))\<rparr>"

definition scm_github :: scm_net where
  "scm_github = \<lparr>nt_client = True, nt_token = (\<lambda>_ _ _. Some (''token'', noon + 3600 * nanos)), nt_seal = (\<lambda>t a. Some t),
     nt_open = (\<lambda>t a. Some t), nt_revoke = (\<lambda>_. Revoked)\<rparr>"

definition scm_credential :: string where
  "scm_credential = sign_broker_credential (be_jwt scm_env) ''k'' scm_claims"

definition scm_clock :: "string \<Rightarrow> string \<Rightarrow> broker_clock" where
  "scm_clock aid lid = \<lparr>bk_started = noon, bk_gate = noon, bk_lease = noon, bk_approval_id = aid, bk_lease_id = lid\<rparr>"

definition api_command :: "string \<Rightarrow> broker_command" where
  "api_command rid = \<lparr>bq_operation = ''gh'', bq_arguments = [''api''], bq_declared = [''contents=read''], bq_request_id = rid\<rparr>"

abbreviation ask_token :: "string \<Rightarrow> string \<Rightarrow> string \<Rightarrow> scm_op" where
  "ask_token rid aid lid \<equiv> Acquire_Token scm_env scm_rows scm_github (scm_clock aid lid) scm_credential (api_command rid)"

abbreviation approve :: "string \<Rightarrow> scm_op" where "approve aid \<equiv> Decide_Approval scm_env noon scm_user aid ''approved''"

lemma exec_reach: "scm_reach S \<Longrightarrow> scm_reach (scm_exec op S)"
  by (rule rtranclp.rtrancl_into_rtrancl) (auto simp: scm_step_def)

lemma broker_roundtrip:
  assumes "be_key B = Some key" "jw_json (be_jwt B) (object_text (be_jwt B) (broker_members c)) = Some (JObject (broker_members c))"
    "list_all (\<lambda>n. min_int64 \<le> n \<and> n \<le> max_int64) [bc_repository_id c, bc_installation_id c, bc_expires_at c]"
  shows "verify_broker_credential B now (sign_broker_credential (be_jwt B) key c) =
    (if broker_claims_valid now c then Inr c else Inl BrokerInvalid)"
proof -
  let ?J = "be_jwt B"
  define pay where "pay = object_text ?J (broker_members c)"
  define sig where "sig = b64_encode (broker_mac ?J key pay)"
  have cred: "sign_broker_credential ?J key c = b64_encode pay @ ''.'' @ sig"
    by (simp add: sign_broker_credential_def Let_def pay_def sig_def)
  have mac: "sig = [] \<or> graph_char (last sig)" using b64_graph last_in_set unfolding sig_def by blast
  have pay: "b64_encode pay \<noteq> []"
  proof -
    have "pay \<noteq> []" by (simp add: pay_def object_text_def)
    then show ?thesis by (cases "map byte pay" rule: b64_sextets.cases) (auto simp: b64_encode_def)
  qed
  have trim: "trim_space (b64_encode pay @ ''.'' @ sig) = b64_encode pay @ ''.'' @ sig"
    using pay mac b64_graph[of _ pay] dot_graph by (intro trim_graph) (auto simp: last_append)
  have parts: "split_dots (b64_encode pay @ ''.'' @ sig) = [b64_encode pay, sig]"
    unfolding sig_def using split_dots_dot[OF b64_no_dot, of pay] split_dots_none[OF b64_no_dot] by simp
  have read: "decode_broker_claims ?J pay = Some c" unfolding pay_def
    using assms(2,3) by (simp add: decode_broker_claims_def broker_members_def ascii_lower_def byte_def atoi_itoa)
  show ?thesis
    unfolding verify_broker_credential_def assms(1) cred option.case trim open_broker_credential_def parts
    by (simp add: b64_decode_encode read sig_def)
qed

lemma scm_verified: "verify_broker_credential scm_env noon scm_credential = Inr scm_claims"
proof -
  have "be_key scm_env = Some ''k''" "jw_json (be_jwt scm_env) s = Some (JObject (broker_members scm_claims))" for s
    by (simp_all add: scm_env_def)
  moreover have "list_all (\<lambda>n. min_int64 \<le> n \<and> n \<le> max_int64) [bc_repository_id scm_claims, bc_installation_id scm_claims, bc_expires_at scm_claims]"
    "broker_claims_valid noon scm_claims" by code_simp+
  ultimately show ?thesis unfolding scm_credential_def by (simp add: broker_roundtrip)
qed

text \<open>The operation after its credential is found to be that of the run.\<close>

definition acquire_for :: "broker_claims \<Rightarrow> broker_env \<Rightarrow> scm_reads \<Rightarrow> scm_net \<Rightarrow> broker_clock \<Rightarrow> broker_command \<Rightarrow> scm_store \<Rightarrow> (refusal + broker_decision) \<times> scm_store" where
  "acquire_for c B R N K q S =
     (case run_checks R (bk_started K) c S of
        Some e \<Rightarrow> (Inl (e, None), S)
      | None \<Rightarrow>
          (case classify_command B q (bc_task_branch c) of
             None \<Rightarrow> (Inl (BrokerInvalid, None), S)
           | Some (cls, digest) \<Rightarrow>
               (case approval_gate c cls digest (bk_approval_id K) (bk_gate K) S of
                  (Inl r, S) \<Rightarrow> (Inl r, S)
                | (Inr aid, S) \<Rightarrow> issue_lease N c cls aid (bk_lease_id K) (bk_lease K) S)))"

lemma acquire_as:
  "be_enabled B \<Longrightarrow> verify_broker_credential B (bk_started K) credential = Inr c \<Longrightarrow>
   acquire_token_lease B R N K credential q S = acquire_for c B R N K q S"
  by (simp add: acquire_token_lease_def admit_command_def acquire_for_def split: option.split prod.split)

lemma scm_acquire:
  "acquire_token_lease scm_env scm_rows scm_github (scm_clock aid lid) scm_credential q S =
     acquire_for scm_claims scm_env scm_rows scm_github (scm_clock aid lid) q S"
  by (rule acquire_as) (simp_all add: scm_env_def scm_clock_def scm_verified[unfolded scm_env_def])

definition scm_run_store :: scm_store where
  "scm_run_store = empty_scm\<lparr>ss_runs := mput mnil ''run'' (run_of_claims noon scm_claims)\<rparr>"

definition scm_decided :: "string list \<Rightarrow> scm_store" where
  "scm_decided rids = fold (\<lambda>r S. snd (decide_approval scm_env noon scm_user (''a'' @ r) ''approved''
     (snd (acquire_for scm_claims scm_env scm_rows scm_github (scm_clock (''a'' @ r) ''l0'') (api_command r) S)))) rids scm_run_store"

lemma issue_scm: "snd (issue_broker_credential scm_env scm_rows noon scm_user ''c'' ''run'' empty_scm) = scm_run_store"
proof -
  have "trim_space ''run'' \<noteq> []" "project_ready scm_workspace" by code_simp+
  then show ?thesis
    by (simp add: issue_broker_credential_def scm_env_def scm_rows_def scm_run_store_def scm_claims_def Let_def save_broker_run_def
        empty_scm_def run_of_claims_def claims_of_run_def scm_workspace_def)
qed

lemma reach_decided: "scm_reach (scm_decided rids)"
proof -
  have "scm_run_store = scm_exec (Issue_Credential scm_env scm_rows noon scm_user ''c'' ''run'') empty_scm" by (simp add: issue_scm)
  then have run: "scm_reach scm_run_store" using exec_reach by (metis rtranclp.rtrancl_refl)
  have "scm_reach S \<Longrightarrow> scm_reach (fold (\<lambda>r S. snd (decide_approval scm_env noon scm_user (''a'' @ r) ''approved''
     (snd (acquire_for scm_claims scm_env scm_rows scm_github (scm_clock (''a'' @ r) ''l0'') (api_command r) S)))) rids S)" for S
  proof (induction rids arbitrary: S)
    case (Cons r rids)
    have "scm_reach (scm_exec (approve (''a'' @ r)) (scm_exec (ask_token r (''a'' @ r) ''l0'') S))"
      by (intro exec_reach Cons.prems)
    then show ?case using Cons.IH by (simp add: scm_acquire)
  qed simp
  with run show ?thesis by (simp add: scm_decided_def)
qed

lemma scm_lowers: "go_lower B ''gh'' = ''gh''" "go_lower B ''api'' = ''api''" "go_lower B ''contents=read'' = ''contents=read''"
   "go_lower B ''administration=write'' = ''administration=write''"
  by (simp_all add: go_lower_def byte_def ascii_lower_def)
lemma scm_trims: "trim_space ''gh'' = ''gh''" "trim_space ''api'' = ''api''" "trim_space ''contents=read'' = ''contents=read''"
   "trim_space ''administration=write'' = ''administration=write''" "trim_space ''1'' = ''1''" "trim_space ''2'' = ''2''"
  by code_simp+

definition api_class :: "string \<Rightarrow> string \<Rightarrow> classified" where
  "api_class name level = \<lparr>cc_category = ''gh_api'', cc_label = ''Run a write-capable GitHub API request'', cc_permissions = needs name level,
     cc_high_risk = True\<rparr>"

lemma scm_declared: "declared_permissions B [''contents=read''] = Some (needs ''contents'' ''read'')"
  "declared_permissions B [''administration=write''] = Some (needs ''administration'' ''write'')"
  by (simp_all add: declared_permissions_def scm_lowers scm_trims declarable_permissions_def) (code_simp+)

lemma scm_classified:
  "classify_command scm_env (api_command ''1'') branch = Some (api_class ''contents'' ''read'', ''ghapi1'')"
  "classify_command scm_env (api_command ''2'') branch = Some (api_class ''contents'' ''read'', ''ghapi2'')"
  "classify_command scm_env (api_command ''1''\<lparr>bq_declared := [''administration=write'']\<rparr>) branch = Some (api_class ''administration'' ''write'', ''ghapi1'')"
  by (simp_all add: classify_command_def api_command_def scm_lowers scm_trims Let_def argument_ok_def classify_gh_def scm_declared api_class_def)
    (simp_all add: scm_env_def)

lemma scm_checked: "run_checks scm_rows noon scm_claims S = None" if "ss_runs S = ss_runs scm_run_store"
  using that
  by (simp add: run_checks_def scm_run_store_def scm_rows_def scm_workspace_def scm_claims_def claims_of_run_def
  run_row_active_def run_of_claims_def lookup_update time_unix_def Let_def project_ready_def empty_scm_def unix_of_def noon_def)

definition one_approval :: "string \<Rightarrow> string \<Rightarrow> scm_approval" where
  "one_approval rid status = (new_approval noon (''a'' @ rid) scm_claims (api_class ''contents'' ''read'') (''ghapi'' @ rid))
     \<lparr>sa_status := status, sa_decided_at := if status = ''pending'' then None else Some noon\<rparr>"

lemma approval_vals: "mvals (mput mnil k v) = [v]" "k \<noteq> l \<Longrightarrow> mvals (mput (mput mnil k v) l x) = [v, x]" "mvals mnil = []"
  by (simp_all add: DAList.update.rep_eq DAList.empty.rep_eq)

abbreviation with_approvals :: "(string, scm_approval) gomap \<Rightarrow> scm_store" where
  "with_approvals A \<equiv> scm_run_store\<lparr>ss_approvals := A\<rparr>"

lemma approval_fields:
  "sa_id (one_approval r s) = ''a'' @ r" "sa_run_id (one_approval r s) = bc_run_id scm_claims" "sa_digest (one_approval r s) = ''ghapi'' @ r"
  "sa_status (one_approval r s) = s" "sa_expires_at (one_approval r s) = noon + 5 * 60 * 1000000000"
  "sa_tenant_id (one_approval r s) = bc_tenant_id scm_claims" "sa_user_id (one_approval r s) = bc_user_id scm_claims"
  by (simp_all add: one_approval_def new_approval_def)

lemma scm_asked:
  assumes "classify_command scm_env (api_command r) (bc_task_branch scm_claims) = Some (api_class ''contents'' ''read'', ''ghapi'' @ r)"
    "list_all (\<lambda>a. sa_digest a \<noteq> ''ghapi'' @ r) (mvals A)" "mget A (''a'' @ r) = None"
  shows "snd (acquire_for scm_claims scm_env scm_rows scm_github (scm_clock (''a'' @ r) lid) (api_command r) (with_approvals A)) =
    with_approvals (mput A (''a'' @ r) (one_approval r ''pending''))"
proof -
  let ?n = "new_approval noon (''a'' @ r) scm_claims (api_class ''contents'' ''read'') (''ghapi'' @ r)"
  have n: "?n\<lparr>sa_status := ''pending'', sa_decided_at := None\<rparr> = one_approval r ''pending''" by (simp add: one_approval_def)
  have f: "sa_id (new_approval t i c k g) = i" "sa_digest (new_approval t i c k g) = g" for t i c k g by (simp_all add: new_approval_def)
  have none: "approval_for (sa_run_id ?n) (sa_digest ?n) (with_approvals A) = None"
    unfolding f using assms(2) by (auto simp: approval_for_def find_None_iff list_all_iff simp del: append.simps)
  have g: "get_or_create_approval ?n (with_approvals A) = (Inr (one_approval r ''pending''), with_approvals (mput A (''a'' @ r) (one_approval r ''pending'')))"
    unfolding get_or_create_approval_def none Let_def n using assms(3) by (simp add: f approval_fields)
  have u: "use_approval scm_claims k noon (one_approval r ''pending'') S = (Inl (BrokerApprovalRequired, Some (decision_of ''pending'' (''a'' @ r) k)), S)" for k S
    by (simp add: use_approval_def Let_def approval_fields)
  have h: "cc_high_risk (api_class name level)" for name level by (simp add: api_class_def)
  have ck: "run_checks scm_rows noon scm_claims (with_approvals A) = None" by (rule scm_checked) simp
  show ?thesis
    unfolding acquire_for_def scm_clock_def using g u h
    by (simp add: ck assms(1)[simplified] approval_gate_def)
qed

lemma scm_decide:
  assumes "mget A (''a'' @ r) = Some (one_approval r ''pending'')"
  shows "snd (decide_approval scm_env noon scm_user (''a'' @ r) ''approved'' (with_approvals A)) =
    with_approvals (mput A (''a'' @ r) (one_approval r ''approved''))"
proof -
  have o: "(one_approval r ''pending'')\<lparr>sa_status := ''approved'', sa_decided_at := Some noon, sa_updated_at := noon\<rparr> = one_approval r ''approved''"
    by (simp add: one_approval_def new_approval_def)
  have i: "bc_tenant_id scm_claims = si_tenant_id scm_user" "bc_user_id scm_claims = si_user_id scm_user"
    by (simp_all add: scm_claims_def claims_of_run_def)
  have e: "be_uuid scm_env (''a'' @ r)" by (simp add: scm_env_def)
  show ?thesis
    using assms e o by (simp add: decide_approval_def decide_approval_row_def approval_of_def approval_fields i put_approval_def Let_def)
qed

definition approvals12 :: "(string, scm_approval) gomap" where
  "approvals12 = mput (mput mnil ''a1'' (one_approval ''1'' ''approved'')) ''a2'' (one_approval ''2'' ''approved'')"

lemma decided_12: "scm_decided [''1'', ''2''] = with_approvals approvals12"
proof -
  have s: "scm_run_store = with_approvals mnil" by (simp add: scm_run_store_def empty_scm_def)
  have 1: "snd (decide_approval scm_env noon scm_user ''a1'' ''approved''
     (snd (acquire_for scm_claims scm_env scm_rows scm_github (scm_clock ''a1'' ''l0'') (api_command ''1'') scm_run_store))) =
     with_approvals (mput mnil ''a1'' (one_approval ''1'' ''approved''))"
    by (subst s) (use scm_asked[of "''1''" mnil "''l0''"] scm_decide[of _ "''1''"] in \<open>simp add: scm_classified approval_vals lookup_update\<close>)
  show ?thesis
    using scm_asked[of "''2''" "mput mnil ''a1'' (one_approval ''1'' ''approved'')" "''l0''"] scm_decide[of _ "''2''"]
    by (simp add: scm_decided_def 1 approvals12_def scm_classified approval_vals approval_fields lookup_update)
qed

lemma found_12:
  "approval_for (bc_run_id scm_claims) ''ghapi1'' (with_approvals approvals12) = Some (one_approval ''1'' ''approved'')"
  "approval_for (bc_run_id scm_claims) ''ghapi2'' (with_approvals approvals12) = Some (one_approval ''2'' ''approved'')"
  by (simp_all add: approval_for_def approvals12_def approval_vals approval_fields)

lemma scm_granted:
  assumes "classify_command scm_env q (bc_task_branch scm_claims) = Some (k, g)" "cc_high_risk k"
    "approval_for (bc_run_id scm_claims) g S = Some (one_approval r ''approved'')"
    "mget (ss_approvals S) (''a'' @ r) = Some (one_approval r ''approved'')"
    "ss_runs S = ss_runs scm_run_store" "mget (ss_leases S) lid = None"
  shows "\<exists>d T. acquire_token_lease scm_env scm_rows scm_github (scm_clock aid lid) scm_credential q S = (Inr d, T) \<and>
    bd_approval_id d = ''a'' @ r \<and> bd_permissions d = cc_permissions k \<and> ss_runs T = ss_runs scm_run_store \<and>
    ss_approvals T = mput (ss_approvals S) (''a'' @ r) (one_approval r ''consumed'') \<and>
    (\<forall>x. x \<noteq> lid \<longrightarrow> mget (ss_leases T) x = mget (ss_leases S) x)"
proof -
  have "(one_approval r ''approved'')\<lparr>sa_status := ''consumed'', sa_updated_at := noon\<rparr> = one_approval r ''consumed''"
    by (simp add: one_approval_def new_approval_def)
  with assms(4) have "claim_approval (claims_owner scm_claims) (''a'' @ r) noon S =
    (Inr (one_approval r ''consumed''), put_approval (one_approval r ''consumed'') S)"
    by (simp add: claim_eval approval_of_def approval_fields)
  then have use: "use_approval scm_claims k noon (one_approval r ''approved'') S = (Inr (''a'' @ r), put_approval (one_approval r ''consumed'') S)"
    by (simp add: use_approval_def Let_def approval_fields)
  have n: "sa_run_id (new_approval t i scm_claims k g) = bc_run_id scm_claims" "sa_digest (new_approval t i scm_claims k g) = g" for t i
    by (simp_all add: new_approval_def)
  have "get_or_create_approval (new_approval noon aid scm_claims k g) S = (Inr (one_approval r ''approved''), S)"
    unfolding get_or_create_approval_def n assms(3) by simp
  with use assms(2) have gate: "approval_gate scm_claims k g aid noon S = (Inr (''a'' @ r), put_approval (one_approval r ''consumed'') S)"
    by (simp add: approval_gate_def)
  show ?thesis
    unfolding scm_acquire acquire_for_def using gate assms(6)
    by (simp add: scm_clock_def scm_checked[OF assms(5)] assms(1,5) issue_lease_def scm_github_def put_approval_def approval_fields
        decision_of_def Let_def lookup_update)
qed

lemma one_token_per_approval_witness:
  "\<exists>S d T d' V. scm_reach S \<and>
     acquire_token_lease scm_env scm_rows scm_github (scm_clock ''a3'' ''l1'') scm_credential (api_command ''1'') S = (Inr d, T) \<and>
     acquire_token_lease scm_env scm_rows scm_github (scm_clock ''a4'' ''l2'') scm_credential (api_command ''2'') T = (Inr d', V) \<and>
     bd_approval_id d = ''a1'' \<and> bd_approval_id d' \<noteq> ''a1''"
proof -
  let ?S = "scm_decided [''1'', ''2'']"
  have h: "cc_high_risk (api_class ''contents'' ''read'')" by (simp add: api_class_def)
  have S: "ss_approvals ?S = approvals12" "ss_runs ?S = ss_runs scm_run_store" "ss_leases ?S = mnil"
    by (simp_all add: decided_12) (simp add: scm_run_store_def empty_scm_def)
  obtain d T where 1: "acquire_token_lease scm_env scm_rows scm_github (scm_clock ''a3'' ''l1'') scm_credential (api_command ''1'') ?S = (Inr d, T)"
    "bd_approval_id d = ''a1''" "ss_runs T = ss_runs scm_run_store"
    "ss_approvals T = mput approvals12 ''a1'' (one_approval ''1'' ''consumed'')" "mget (ss_leases T) ''l2'' = None"
    using scm_granted[OF scm_classified(1) h, of ?S "''1''" "''l1''" "''a3''"] found_12 S
    by (auto simp: approvals12_def lookup_update decided_12)
  have f: "approval_for (bc_run_id scm_claims) ''ghapi2'' T = Some (one_approval ''2'' ''approved'')"
    by (simp add: approval_for_def 1 approvals12_def DAList.update.rep_eq DAList.empty.rep_eq approval_fields)
  obtain d' V where 2: "acquire_token_lease scm_env scm_rows scm_github (scm_clock ''a4'' ''l2'') scm_credential (api_command ''2'') T = (Inr d', V)"
    using scm_granted[OF scm_classified(2) h f, of "''l2''" "''a4''"] 1(3-5) by (auto simp: approvals12_def lookup_update)
  have "bd_approval_id d' \<noteq> ''a1''" using one_token_per_approval[OF reach_decided 1(1) _ rtranclp.rtrancl_refl 2] 1(2) by simp
  with 1(1,2) 2 reach_decided show ?thesis by blast
qed

lemma approval_covers_other_permissions_witness:
  "\<exists>S a d T. scm_reach S \<and> mget (ss_approvals S) ''a1'' = Some a \<and> mitems (sa_permissions a) = [(''contents'', ''read'')] \<and>
     acquire_token_lease scm_env scm_rows scm_github (scm_clock ''a3'' ''l1'') scm_credential
       (api_command ''1''\<lparr>bq_declared := [''administration=write'']\<rparr>) S = (Inr d, T) \<and>
     bd_approval_id d = ''a1'' \<and> mitems (bd_permissions d) = [(''administration'', ''write'')]"
proof -
  let ?S = "scm_decided [''1'', ''2'']" and ?k = "api_class ''administration'' ''write''" and ?K = "scm_clock ''a3'' ''l1''"
  have runs: "ss_runs ?S = ss_runs scm_run_store" and a: "mget (ss_approvals ?S) ''a1'' = Some (one_approval ''1'' ''approved'')"
    and l: "mget (ss_leases ?S) (bk_lease_id ?K) = None"
    by (simp_all add: decided_12 approvals12_def lookup_update scm_run_store_def empty_scm_def)
  have K: "bk_started ?K = noon" "bk_gate ?K = noon" by (simp_all add: scm_clock_def)
  have adm: "admit_command scm_env scm_rows (bk_started ?K) scm_credential (api_command ''1''\<lparr>bq_declared := [''administration=write'']\<rparr>) ?S =
    Inr (scm_claims, ?k, ''ghapi1'')"
    using scm_verified by (simp add: admit_command_def K scm_checked[OF runs] scm_classified) (simp add: scm_env_def)
  have h: "cc_high_risk ?k" by (simp add: api_class_def)
  have f: "approval_for (bc_run_id scm_claims) ''ghapi1'' ?S = Some (one_approval ''1'' ''approved'')" by (simp add: decided_12 found_12)
  have o: "approval_of (claims_owner scm_claims) (sa_id (one_approval ''1'' ''approved'')) ?S = Some (one_approval ''1'' ''approved'')"
    using a by (simp add: approval_of_def approval_fields)
  have st: "sa_status (one_approval ''1'' ''approved'') = ''approved''" "bk_gate ?K \<le> sa_expires_at (one_approval ''1'' ''approved'')"
    by (simp_all add: approval_fields K)
  have net: "nt_client scm_github" "nt_token scm_github x y p = Some (''token'', noon + 3600 * nanos)" "nt_seal scm_github t w = Some t" for x y p t w
    by (simp_all add: scm_github_def)
  have p: "mitems (sa_permissions (one_approval ''1'' ''approved'')) = [(''contents'', ''read'')]"
    by (simp add: one_approval_def new_approval_def api_class_def DAList.update.rep_eq DAList.empty.rep_eq)
  have w: "mitems (cc_permissions ?k) = [(''administration'', ''write'')]" by (simp add: api_class_def DAList.update.rep_eq DAList.empty.rep_eq)
  from approval_covers_other_permissions[OF adm h scm_classified(1) f o st net l] w obtain d T where
    "acquire_token_lease scm_env scm_rows scm_github ?K scm_credential (api_command ''1''\<lparr>bq_declared := [''administration=write'']\<rparr>) ?S = (Inr d, T)"
    "bd_approval_id d = ''a1''" "mitems (bd_permissions d) = [(''administration'', ''write'')]"
    by (auto simp: approval_fields)
  with reach_decided a p show ?thesis by blast
qed

lemma unapproved_commands_witness:
  "\<exists>c digest. classify_command scm_env \<lparr>bq_operation = ''git'', bq_arguments = [''push'', ''origin'', ''HEAD:refs/heads/cocola/task-1''],
      bq_declared = [], bq_request_id = ''1''\<rparr> ''cocola/task-1'' = Some (c, digest) \<and> mitems (cc_permissions c) = [(''contents'', ''write'')]"
proof -
  let ?q = "\<lparr>bq_operation = ''git'', bq_arguments = [''push'', ''origin'', ''HEAD:refs/heads/cocola/task-1''], bq_declared = [], bq_request_id = ''1''\<rparr>"
  have t: "trim_space ''git'' = ''git''" "trim_space ''push'' = ''push''" "trim_space ''origin'' = ''origin''"
    "trim_space ''HEAD:refs/heads/cocola/task-1'' = ''HEAD:refs/heads/cocola/task-1''" by code_simp+
  have l: "go_lower B ''git'' = ''git''" for B by (simp add: go_lower_def byte_def ascii_lower_def)
  have p: "has_prefix ''cocola/task-1'' ''cocola/task-''" by code_simp
  obtain c digest where c: "classify_command scm_env ?q ''cocola/task-1'' = Some (c, digest)" "\<not> cc_high_risk c"
  proof -
    have u: "be_uuid scm_env ''1''" by (simp add: scm_env_def)
    show thesis by (rule that) (simp add: classify_command_def t l scm_trims Let_def argument_ok_def classify_git_push_def p u, simp)
  qed
  have "map_of gh_resources (go_lower scm_env (hd (map trim_space (bq_arguments ?q)))) = None"
    by (simp add: t gh_resources_def go_lower_def byte_def ascii_lower_def)
  with unapproved_commands[OF c] have "cc_permissions c = needs ''contents'' ''write''" by auto
  with c(1) show ?thesis by (intro exI[of _ c] exI[of _ digest]) (simp add: DAList.update.rep_eq DAList.empty.rep_eq)
qed

end
