(* ===== verification/Spec2Isabelle.thy ===== *)
theory Spec2Isabelle
  imports Reducer_Laws Binder_Properties Node_Capacity Chatrun_Properties Admin_Properties
    Service_Properties Account_Properties Token_Properties Agent_Properties Model_Properties Scm_Properties
begin

text \<open>
  A verification library for cocola, a service that runs coding agents in sandboxes for the users of a
  chat. The Go services under \<open>src/apps\<close> are the program: the \<^bold>\<open>gateway\<close> keeps conversations and drives
  agent turns, the \<^bold>\<open>sandbox-manager\<close> keeps one sandbox per session alive on a shared Redis, and the
  \<^bold>\<open>admin-api\<close> keeps users, models, skills and scheduled tasks. A turn starts in the run store
  (\<open>chatrun\<close>), which calls the conversation store (\<open>convo\<close>); the agent's events are folded by the
  reducer into the message that \<open>Finalize\<close> stores; the agent runs in the sandbox that the Binder
  (\<open>orchestrator\<close>) hands out for the session.

  \<^bold>\<open>Theories.\<close>
  \<^item> \<open>Go_Prelude\<close>, \<open>Go_Strings\<close>: Go maps (association lists with unique keys), instants, 64-bit integers,
    slices, and what the code uses of \<open>strings\<close>, \<open>strconv\<close>, \<open>unicode/utf8\<close> and \<open>sort\<close>.
  \<^item> \<open>Convo_Types\<close>, \<open>Convo_Reducer\<close>, \<open>Reducer_Laws\<close>: \<open>gateway/internal/convo/store.go\<close> and \<open>reducer.go\<close>. The
    reducer is its list of parts. The laws: addressable parts occur once, are never dropped, text is
    merged, tool output is a bounded tail, replaying an upsert changes nothing.
  \<^item> \<open>Convo_Memory\<close>, \<open>Convo_Laws\<close>, \<open>Convo_Properties\<close>: \<open>convo/memory.go\<close>, every operation; the invariant
    \<open>store_ok\<close>, privacy, cascades, and the contract of a message list (locale \<open>message_log\<close>).
  \<^item> \<open>Chatrun_Types\<close>, \<open>Chatrun_Memory\<close>: \<open>chatrun/store.go\<close> and \<open>memory.go\<close>, every operation.
    \<open>Chatrun_Spec\<close> is what the store promises: a step relation \<open>chat_move\<close> on plain maps, its invariant
    \<open>view_ok\<close>, and the lives of a run, a plan and a question (locale \<open>lifecycle\<close>). \<open>Chatrun_Refines\<close> shows each
    operation to be a sequence of moves, \<open>Chatrun_Convo\<close> ties it to the conversation store.
  \<^item> \<open>Redis_KV\<close>: \<open>go-common/redis\<close>, the KV interface, its in-memory store with lazy expiry, and the three
    Lua scripts both as the store runs them and as Redis commands.
  \<^item> \<open>Orch_Types\<close>, \<open>Session_Binder\<close>, \<open>Binder_Lifecycle\<close>: \<open>orchestrator/binder.go\<close>, \<open>lock.go\<close>, \<open>keys.go\<close>,
    \<open>heartbeat.go\<close>, \<open>reaper.go\<close>, \<open>drain.go\<close>, \<open>networking.go\<close>, in a state monad over an arbitrary world.
    \<open>Orch_Logic\<close> reasons about them step by step. \<open>Registry_Inv\<close> is the registry invariant under any
    interleaving of KV calls, instantiated on the in-memory store in \<open>Registry_Fake\<close>; \<open>KV_Store\<close> and
    \<open>Binder_Alone\<close> execute the operations without interference; \<open>Lock_Exclusion\<close> is the session lock over
    time; \<open>Binder_Properties\<close> states the results.
  \<^item> \<open>Node_Capacity\<close>: \<open>orchestrator/capacity.go\<close> and the Kubernetes types it reads; node selection against its
    specification by least keys.

  \<^item> \<open>Admin_Types\<close>, \<open>Admin_Accounts\<close>, \<open>Admin_Catalog\<close>, \<open>Admin_Tasks\<close>, \<open>Admin_Traces\<close>: \<open>admin-api/internal/store/store.go\<close>
    and \<open>memory.go\<close>, the rows of the admin store and every operation on them. \<open>Account_Laws\<close>, \<open>Catalog_Laws\<close>,
    \<open>Task_Laws\<close> and \<open>Admin_Laws\<close>: login identifiers point to their user, references between catalog rows are
    kept, at most one run of a task is unfinished, and versioned rows are written over what was read only
    (locale \<open>versioned\<close>, for settings, accounts, the memory switch and, in the gateway, Agents). \<open>Admin_Properties\<close>
    states them of any sequence of operations.
  \<^item> \<open>Go_Json\<close>, \<open>Go_Time\<close>: JSON values as structs read them; the calendar, \<open>time.Date\<close> and time zones.
  \<^item> \<open>Task_Schedule\<close>, \<open>Task_Service\<close>, \<open>Task_Scheduler\<close>, \<open>Admin_Settings\<close>: \<open>admin-api/internal/service/scheduled_tasks.go\<close>,
    \<open>scheduler.go\<close>, \<open>user_events.go\<close> and \<open>settings.go\<close>. \<open>Schedule_Laws\<close> says when a schedule fires and that the next run
    is the first such instant; \<open>Task_Typing\<close> that stored tasks stay well-typed.
  \<^item> \<open>Account_Service\<close>, \<open>Model_Service\<close>, \<open>Memory_Service\<close>: \<open>service/admin.go\<close>, its accounts, sessions and quotas, its model
    catalog, and the switch of the user memory. An operation reads, may call out, and writes: it is a plan made from
    the store it read and a write to the store of a later moment. \<open>Service_Traces\<close> takes all steps whose two stores
    are both reachable, so its invariants hold under every interleaving; \<open>Model_Laws\<close> says what the catalog keeps.
    \<open>Service_Properties\<close>, \<open>Account_Properties\<close> and \<open>Model_Properties\<close> state the results, also those that only hold while
    operations do not overlap; \<open>Service_Samples\<close> is the environment of their witnesses.
  \<^item> \<open>Token_Codec\<close>, \<open>Token_Service\<close>, \<open>Token_Properties\<close>: \<open>go-common/token\<close>, the gateway's \<open>auth\<close> and \<open>skillcapability\<close>; base64
    and the token format down to bytes, round trips, and that nothing is accepted but what was signed.
  \<^item> \<open>Agent_Profile\<close>, \<open>Agent_Properties\<close>: \<open>gateway/internal/agentprofile\<close>, the Agents users define.
  \<^item> \<open>Scm_Broker\<close>, \<open>Scm_Lease\<close>, \<open>Scm_Properties\<close>: \<open>gateway/internal/project/broker.go\<close>, which hands a sandbox a GitHub
    token for one command, with the statements it runs. An approval has a life (locale \<open>lifecycle\<close>) that ends when
    a token was issued under it; what it does not cover is stated too.

  \<^bold>\<open>Conventions.\<close> A Go string is its bytes, an \<open>int\<close> or \<open>int64\<close> an \<open>int\<close> with \<open>int64\<close> applied where the code
  can overflow it, a \<open>time.Time\<close> the number of nanoseconds with 0 for the zero time, a pointer an
  option, an \<open>(T, error)\<close> pair a sum with the error on the left. A method that changes its receiver returns
  its result and the new state. Calls of \<open>time.Now\<close> are clock arguments or operations of the world.
  Ranging over a Go map follows the association list, whose order no statement fixes. Plan and
  question version counters are unbounded.

  \<^bold>\<open>Bounds.\<close> The loop of \<open>acquireLock\<close> ends when its context does: the context is the number of retry
  intervals it lasts. \<open>reset_rounds\<close> ends because each round strikes out an account or is the last. Every other
  loop is structural or consumes its text. A lease in seconds is the integer part of the
  duration, where the code goes through a float that is exact for the durations in use.

  \<^bold>\<open>Code outside src.\<close> \<open>encoding/json\<close> is the argument \<open>json_api\<close> of the reducer and the record codec of the
  Binder; the Unicode case tables are the argument \<open>text_case\<close>; the sandbox provider, the storage
  manager and the capacity guard are arguments of the Binder, as they are interfaces of the code.
  The services take a record each of what they call: \<open>service_env\<close> (bcrypt, zone rules, JSON, case tables),
  \<open>setting_env\<close> (environment, float and quantity literals), \<open>jwt_env\<close> (HMAC-SHA-256, JSON texts), \<open>agent_env\<close>
  (\<open>url.Parse\<close>, \<open>uuid.Parse\<close>), \<open>model_env\<close> and \<open>probe_net\<close> (AES-GCM, the HTTP probes), \<open>broker_env\<close>, \<open>scm_reads\<close> and
  \<open>scm_net\<close> (SHA-256, the rows of projects and connections, GitHub).
  The broker's ids are compared as text; PostgreSQL compares most of them as UUIDs, so that other spellings of one
  UUID, which \<open>uuid.Parse\<close> lets pass, meet there. That a token is revoked at GitHub when it cannot be sealed or
  saved, and the audit rows, have no counterpart. A memory reset works on the in-process store, which hands out all
  accounts at once; PostgreSQL hands them out by the hundred and waits for captures.
  What a theorem needs of them is a hypothesis that names the documented behaviour, and its witness
  instantiates it.

  \<^bold>\<open>What callers promise.\<close> \<open>call_ok\<close> and \<open>fresh_folder\<close> say what the HTTP handlers do before they call a
  store: the id of a run is the trace id of the request, which is new as long as no client repeats one; other ids are
  random and new, a new run is running, a run is finished with a final status.
  \<open>Finalize\<close> publishes its message after it has released the mutex; the model runs both parts in one step,
  and the conversation store's own invariant holds between them.

  \<^bold>\<open>Not modelled.\<close> The PostgreSQL stores beyond the broker's statements (their meaning is SQL; the in-process
  stores behind the same interfaces are modelled), HTTP and gRPC handlers with their event streams, goroutines, timers
  and fan-out, the skill and MCP operations of \<open>admin.go\<close>, the capture of user memory, the Feishu channel, the
  clients of Kubernetes, OpenSandbox, object storage and source hosts, the command line tool, generated code, and the
  Python and TypeScript programs: input and output around libraries and services whose meaning is not in the
  repository. \<open>PROJECT.json\<close> lists them with the reasons.
\<close>

end
